(* ===== verification/Prelude.thy ===== *)
theory Prelude
  imports Main "HOL-Library.Word" "HOL-Library.AList" "HOL-Library.Sublist"
begin

text \<open>
  Shared vocabulary of the development.

  Machine integers are words of the width the Rust code uses; signed 64-bit
  timestamps are integers together with the explicit saturation bounds of
  \<open>i64\<close>.  A Rust \<open>Result\<close> is a sum whose left summand carries the
  error.  Strings are lists of bytes (the UTF-8 encoding), so that the Isabelle
  length of a string is Rust's \<open>str::len\<close>.  A Rust \<open>HashMap\<close> is an
  association list with distinct keys: the list order stands for an arbitrary
  iteration order.  Named theorem collections: \<open>hm_simps\<close> for the laws of
  the hash-map operations and \<open>arith_ops\<close> for the checked and saturating
  operations.
\<close>

named_theorems hm_simps "laws of the association-list model of HashMap"
named_theorems arith_ops "definitions of checked and saturating machine arithmetic"

type_synonym u8 = "8 word"
type_synonym u16 = "16 word"
type_synonym u32 = "32 word"
type_synonym u64 = "64 word"
type_synonym i64 = int
type_synonym bytes = "u8 list"

abbreviation Err :: "'e \<Rightarrow> 'e + 'a" where "Err \<equiv> Inl"
abbreviation Ok :: "'a \<Rightarrow> 'e + 'a" where "Ok \<equiv> Inr"

lemma try_Ok_iff: "(case x of Inl e \<Rightarrow> Err e | Inr v \<Rightarrow> f v) = Ok t \<longleftrightarrow> (\<exists>v. x = Ok v \<and> f v = Ok t)"
  by (cases x) auto

lemma try_map_Ok_iff:
  "(case x of Inl e \<Rightarrow> Err (g e) | Inr v \<Rightarrow> f v) = Ok t \<longleftrightarrow> (\<exists>v. x = Ok v \<and> f v = Ok t)"
  by (cases x) auto

lemma ok_or_iff: "(case x of None \<Rightarrow> Err e | Some v \<Rightarrow> f v) = Ok t \<longleftrightarrow> (\<exists>v. x = Some v \<and> f v = Ok t)"
  by (cases x) auto

lemma guard_Ok_iff: "(if b then Err e else r) = Ok t \<longleftrightarrow> \<not> b \<and> r = Ok t"
  by simp

lemmas result_iffs = try_Ok_iff try_map_Ok_iff ok_or_iff guard_Ok_iff

subsection \<open>Checked and saturating machine arithmetic\<close>

definition checked_add :: "'a::len word \<Rightarrow> 'a word \<Rightarrow> 'a word option" where
  [arith_ops]: "checked_add a b = (if unat a + unat b < 2 ^ LENGTH('a) then Some (a + b) else None)"

definition saturating_add :: "'a::len word \<Rightarrow> 'a word \<Rightarrow> 'a word" where
  [arith_ops]: "saturating_add a b = (if unat a + unat b < 2 ^ LENGTH('a) then a + b else - 1)"

definition saturating_sub :: "'a::len word \<Rightarrow> 'a word \<Rightarrow> 'a word" where
  [arith_ops]: "saturating_sub a b = (if b \<le> a then a - b else 0)"

definition i64_max :: i64 where "i64_max = 9223372036854775807"
definition i64_min :: i64 where "i64_min = - 9223372036854775808"
definition in_i64 :: "int \<Rightarrow> bool" where "in_i64 x \<longleftrightarrow> i64_min \<le> x \<and> x \<le> i64_max"

text \<open>Narrowing conversions of the standard library (\<open>TryFrom\<close>).\<close>

definition u64_to_i64 :: "u64 \<Rightarrow> i64 option" where
  "u64_to_i64 w = (if uint w \<le> i64_max then Some (uint w) else None)"

definition i64_to_u64 :: "i64 \<Rightarrow> u64 option" where
  "i64_to_u64 i = (if 0 \<le> i then Some (word_of_int i) else None)"

definition i64_to_u32 :: "i64 \<Rightarrow> u32 option" where
  "i64_to_u32 i = (if 0 \<le> i \<and> i < 4294967296 then Some (word_of_int i) else None)"

lemma checked_add_Some_iff:
  "checked_add a b = Some c \<longleftrightarrow> unat a + unat b < 2 ^ LENGTH('a) \<and> c = a + b"
  for a :: "'a::len word"
  by (auto simp: checked_add_def)

lemma unat_add_no_overflow:
  "unat a + unat b < 2 ^ LENGTH('a) \<Longrightarrow> unat (a + b) = unat a + unat b"
  for a :: "'a::len word"
  by (simp add: unat_word_ariths)

lemma checked_add_unat:
  "checked_add a b = Some c \<Longrightarrow> unat c = unat a + unat b"
  for a :: "'a::len word"
  by (auto simp: checked_add_Some_iff unat_add_no_overflow)

lemma checked_add_None_iff:
  "checked_add a b = None \<longleftrightarrow> 2 ^ LENGTH('a) \<le> unat a + unat b"
  for a :: "'a::len word"
  by (auto simp: checked_add_def)

lemma unat_saturating_add:
  "unat (saturating_add a b) = min (unat a + unat b) (2 ^ LENGTH('a) - 1)"
  for a :: "'a::len word"
  using unsigned_greater_eq by (auto simp: saturating_add_def unat_add_no_overflow unsigned_minus_1_eq_mask mask_eq_exp_minus_1 min_def)

lemma saturating_add_ge: "a \<le> saturating_add a b" for a :: "'a::len word"
proof -
  have "unat a < 2 ^ LENGTH('a)" by (rule unsigned_less)
  then have "unat a \<le> 2 ^ LENGTH('a) - 1" by linarith
  then show ?thesis by (simp add: word_le_nat_alt unat_saturating_add)
qed

lemma unat_saturating_sub: "unat (saturating_sub a b) = unat a - unat b" for a :: "'a::len word"
  by (auto simp: saturating_sub_def unat_sub word_le_nat_alt)

lemma i64_roundtrip: "u64_to_i64 w = Some i \<Longrightarrow> i64_to_u64 i = Some w"
  by (auto simp: u64_to_i64_def i64_to_u64_def split: if_splits)

lemma i64_to_u32_uint [simp]: "i64_to_u32 (uint (w :: u32)) = Some w"
  using uint_lt2p [of w] by (simp add: i64_to_u32_def)

subsection \<open>HashMap as an association list\<close>

type_synonym ('k, 'v) hashmap = "('k \<times> 'v) list"

definition hm_wf :: "('k, 'v) hashmap \<Rightarrow> bool" where
  "hm_wf m \<longleftrightarrow> distinct (map fst m)"

definition hm_retain :: "('k \<Rightarrow> 'v \<Rightarrow> bool) \<Rightarrow> ('k, 'v) hashmap \<Rightarrow> ('k, 'v) hashmap" where
  "hm_retain p m = filter (\<lambda>(k, v). p k v) m"

abbreviation hm_get :: "('k, 'v) hashmap \<Rightarrow> 'k \<Rightarrow> 'v option" where
  "hm_get \<equiv> map_of"

abbreviation hm_insert :: "'k \<Rightarrow> 'v \<Rightarrow> ('k, 'v) hashmap \<Rightarrow> ('k, 'v) hashmap" where
  "hm_insert \<equiv> AList.update"

abbreviation hm_remove :: "'k \<Rightarrow> ('k, 'v) hashmap \<Rightarrow> ('k, 'v) hashmap" where
  "hm_remove \<equiv> AList.delete"

lemma hm_wf_Nil [simp]: "hm_wf []"
  by (simp add: hm_wf_def)

lemma hm_wf_insert [simp]: "hm_wf m \<Longrightarrow> hm_wf (hm_insert k v m)"
  by (simp add: hm_wf_def distinct_update)

lemma hm_wf_remove [simp]: "hm_wf m \<Longrightarrow> hm_wf (hm_remove k m)"
  by (simp add: hm_wf_def distinct_delete)

lemma hm_wf_retain [simp]: "hm_wf m \<Longrightarrow> hm_wf (hm_retain p m)"
  by (induction m) (auto simp: hm_wf_def hm_retain_def)

lemma hm_get_insert [hm_simps]: "hm_get (hm_insert k v m) x = (if x = k then Some v else hm_get m x)"
  by (simp add: update_conv)

lemma hm_get_remove [hm_simps]: "hm_get (hm_remove k m) x = (if x = k then None else hm_get m x)"
  by (simp add: delete_conv)

lemma hm_get_retain [hm_simps]:
  "hm_wf m \<Longrightarrow> hm_get (hm_retain p m) x =
     (case hm_get m x of None \<Rightarrow> None | Some v \<Rightarrow> if p x v then Some v else None)"
proof (induction m)
  case (Cons a m)
  obtain k v where a: "a = (k, v)" by (cases a)
  have "k \<notin> fst ` set m" and wf: "hm_wf m"
    using Cons.prems by (auto simp: a hm_wf_def)
  then have "hm_get m k = None" by (simp add: map_of_eq_None_iff)
  then show ?case using Cons.IH [OF wf] by (auto simp: a hm_retain_def split: option.splits)
qed (simp add: hm_retain_def)

lemma hm_in_set: "hm_wf m \<Longrightarrow> (k, v) \<in> set m \<longleftrightarrow> hm_get m k = Some v"
  by (simp add: hm_wf_def)

lemma hm_length_retain_le: "length (hm_retain p m) \<le> length m"
  by (simp add: hm_retain_def)

lemma hm_length_remove: "hm_wf m \<Longrightarrow>
    length (hm_remove k m) = (if hm_get m k = None then length m else length m - 1)"
  by (induction m) (auto simp: hm_wf_def map_of_eq_None_iff image_iff dest: length_pos_if_in_set)

lemma hm_length_insert:
    "length (hm_insert k v m) = (if hm_get m k = None then length m + 1 else length m)"
  by (induction m) (auto split: if_splits)

subsection \<open>Whitespace trimming on UTF-8 strings\<close>

text \<open>
  \<open>ws_len s\<close> is the number of bytes of the Unicode \<open>White_Space\<close>
  character the string starts with, zero when it starts with another one.
  \<open>str::trim\<close> drops such characters from both ends; the backward direction
  reads the encodings reversed.
\<close>

definition byte_of :: "char \<Rightarrow> nat" where "byte_of c = of_char c"

fun ws_code :: "nat list \<Rightarrow> bool" where
  "ws_code [a] = (9 \<le> a \<and> a \<le> 13 \<or> a = 32)"
| "ws_code [a, b] = (a = 194 \<and> (b = 133 \<or> b = 160))"
| "ws_code [a, b, c] = (a = 225 \<and> b = 154 \<and> c = 128
     \<or> a = 226 \<and> b = 128 \<and> (128 \<le> c \<and> c \<le> 138 \<or> c = 168 \<or> c = 169 \<or> c = 175)
     \<or> a = 226 \<and> b = 129 \<and> c = 159
     \<or> a = 227 \<and> b = 128 \<and> c = 128)"
| "ws_code _ = False"

definition ws_len :: "(nat list \<Rightarrow> bool) \<Rightarrow> string \<Rightarrow> nat" where
  "ws_len code s = (if code (map byte_of (take 1 s)) then 1
     else if code (map byte_of (take 2 s)) then 2
     else if code (map byte_of (take 3 s)) then 3 else 0)"

function trim_with :: "(nat list \<Rightarrow> bool) \<Rightarrow> string \<Rightarrow> string" where
  "trim_with code s = (if s = [] \<or> ws_len code s = 0 then s else trim_with code (drop (ws_len code s) s))"
  by auto
termination by (relation "measure (length \<circ> snd)") auto

definition trim_start :: "string \<Rightarrow> string" where "trim_start = trim_with ws_code"
definition trim_end :: "string \<Rightarrow> string" where "trim_end s = rev (trim_with (ws_code \<circ> rev) (rev s))"
definition trim :: "string \<Rightarrow> string" where "trim s = trim_end (trim_start s)"

declare trim_with.simps [simp del]

lemma trim_with_Nil [simp]: "trim_with code [] = []"
  by (simp add: trim_with.simps)

lemma trim_with_suffix: "suffix (trim_with code s) s"
proof (induction code s rule: trim_with.induct)
  case (1 code s)
  then show ?case
    by (metis suffix_drop suffix_order.trans suffix_order.refl trim_with.simps)
qed

lemma length_trim_with: "length (trim_with code s) \<le> length s"
  using trim_with_suffix by (rule suffix_length_le)

lemma length_trim: "length (trim s) \<le> length s"
  unfolding trim_def trim_end_def trim_start_def
  by (metis length_trim_with length_rev order.trans)

lemma trim_Nil [simp]: "trim [] = []"
  by (simp add: trim_def trim_end_def trim_start_def)

subsection \<open>Bytes and decimal rendering\<close>

definition bytes_of :: "string \<Rightarrow> bytes" where
  "bytes_of s = map (\<lambda>c. word_of_nat (byte_of c)) s"

definition digit_char :: "nat \<Rightarrow> char" where "digit_char d = char_of (48 + d)"

fun dec_str :: "nat \<Rightarrow> string" where
  "dec_str n = (if n < 10 then [digit_char n] else dec_str (n div 10) @ [digit_char (n mod 10)])"

declare dec_str.simps [simp del]

definition pad0 :: "nat \<Rightarrow> string \<Rightarrow> string" where
  "pad0 w s = replicate (w - length s) CHR ''0'' @ s"

definition trim_end_matches :: "char \<Rightarrow> string \<Rightarrow> string" where
  "trim_end_matches c s = rev (dropWhile (\<lambda>x. x = c) (rev s))"

definition digit_val :: "char \<Rightarrow> nat" where "digit_val c = byte_of c - 48"

definition dec_val :: "string \<Rightarrow> nat" where
  "dec_val s = foldl (\<lambda>acc c. 10 * acc + digit_val c) 0 s"

lemma byte_of_less: "byte_of c < 256"
  unfolding byte_of_def by (rule nat_of_char_less_256)

lemma byte_of_inject: "byte_of c = byte_of d \<Longrightarrow> c = d"
  unfolding byte_of_def by (simp add: of_char_eq_iff)

lemma bytes_of_inject: "bytes_of s = bytes_of t \<Longrightarrow> s = t"
proof -
  have "inj (\<lambda>c. word_of_nat (byte_of c) :: u8)"
  proof (rule injI)
    fix c d :: char
    assume "(word_of_nat (byte_of c) :: u8) = word_of_nat (byte_of d)"
    then have "unat (word_of_nat (byte_of c) :: u8) = unat (word_of_nat (byte_of d) :: u8)" by simp
    then show "c = d" using byte_of_less [of c] byte_of_less [of d]
      by (simp add: unat_of_nat byte_of_inject)
  qed
  then show "bytes_of s = bytes_of t \<Longrightarrow> s = t"
    by (simp add: bytes_of_def inj_map_eq_map)
qed

lemma length_bytes_of [simp]: "length (bytes_of s) = length s"
  by (simp add: bytes_of_def)

lemma digit_val_digit_char: "d < 10 \<Longrightarrow> digit_val (digit_char d) = d"
  by (simp add: digit_val_def digit_char_def byte_of_def)

lemma dec_val_snoc [simp]: "dec_val (s @ [c]) = 10 * dec_val s + digit_val c"
  by (simp add: dec_val_def)

lemma dec_val_Nil [simp]: "dec_val [] = 0"
  by (simp add: dec_val_def)

lemma dec_val_dec_str: "dec_val (dec_str n) = n"
proof (induction n rule: dec_str.induct)
  case (1 n)
  show ?case
  proof (cases "n < 10")
    case True
    then show ?thesis
      using dec_val_snoc [of "[]"] by (simp add: dec_str.simps [of n] digit_val_digit_char del: dec_val_snoc)
  next
    case False
    then show ?thesis using 1 by (simp add: dec_str.simps [of n] digit_val_digit_char)
  qed
qed

lemma dec_str_digits: "c \<in> set (dec_str n) \<Longrightarrow> \<exists>d<10. c = digit_char d"
proof (induction n rule: dec_str.induct)
  case (1 n)
  show ?case
  proof (cases "n < 10")
    case True
    then show ?thesis using "1.prems" by (auto simp: dec_str.simps [of n])
  next
    case False
    then have "c \<in> set (dec_str (n div 10)) \<or> c = digit_char (n mod 10)"
      using "1.prems" by (auto simp: dec_str.simps [of n])
    moreover have "n mod 10 < 10" by simp
    ultimately show ?thesis using "1.IH" [OF False] by blast
  qed
qed

lemma length_dec_str_le: "n < 10 ^ k \<Longrightarrow> 0 < k \<Longrightarrow> length (dec_str n) \<le> k"
proof (induction n arbitrary: k rule: dec_str.induct)
  case (1 n)
  show ?case
  proof (cases "n < 10")
    case True
    then show ?thesis using "1.prems" by (simp add: dec_str.simps [of n])
  next
    case False
    then obtain j where j: "k = Suc j" "0 < j" using "1.prems"
      by (cases k; cases "k = 1") auto
    then have "n div 10 < 10 ^ j" using "1.prems" by (simp add: less_mult_imp_div_less)
    then show ?thesis using "1.IH" [OF False] j False by (simp add: dec_str.simps [of n])
  qed
qed

lemma dec_str_nonempty [simp]: "dec_str n \<noteq> []"
  by (subst dec_str.simps) simp

lemma dec_val_append: "dec_val (s @ t) = dec_val s * 10 ^ length t + dec_val t"
proof (induction t rule: rev_induct)
  case (snoc c t)
  have "dec_val (s @ t @ [c]) = 10 * dec_val (s @ t) + digit_val c"
    by (metis append_assoc dec_val_snoc)
  then show ?case using snoc by simp
qed simp

lemma dec_val_zeros [simp]: "dec_val (replicate n CHR ''0'') = 0"
proof (induction n)
  case (Suc n)
  have "dec_val (replicate (Suc n) CHR ''0'') = dec_val (replicate n CHR ''0'' @ [CHR ''0''])"
    by (simp add: replicate_append_same)
  then show ?case using Suc by (simp add: digit_val_def byte_of_def)
qed simp

lemma dec_val_pad0 [simp]: "dec_val (pad0 w s) = dec_val s"
  by (simp add: pad0_def dec_val_append)

lemma length_pad0: "length s \<le> w \<Longrightarrow> length (pad0 w s) = w"
  by (simp add: pad0_def)

lemma trim_end_matches_split:
  "s = trim_end_matches c s @ replicate (length s - length (trim_end_matches c s)) c"
proof -
  have "rev s = takeWhile (\<lambda>x. x = c) (rev s) @ dropWhile (\<lambda>x. x = c) (rev s)" by simp
  moreover have "takeWhile (\<lambda>x. x = c) (rev s) =
      replicate (length (takeWhile (\<lambda>x. x = c) (rev s))) c"
    by (intro replicate_eqI) (auto dest: set_takeWhileD)
  ultimately have "s = trim_end_matches c s @ replicate (length (takeWhile (\<lambda>x. x = c) (rev s))) c"
    by (metis rev_append rev_rev_ident rev_replicate trim_end_matches_def)
  moreover from this have "length (takeWhile (\<lambda>x. x = c) (rev s)) =
      length s - length (trim_end_matches c s)"
    by (metis add_diff_cancel_left' length_append length_replicate)
  ultimately show ?thesis by simp
qed

subsection \<open>Lists\<close>

lemma set_map_filter_iff: "y \<in> set (List.map_filter f xs) \<longleftrightarrow> (\<exists>x \<in> set xs. f x = Some y)"
  by (induction xs) (auto simp: List.map_filter_simps split: option.splits)

lemma map_of_map_snd: "map_of (map (\<lambda>(k, v). (k, f v)) m) = (\<lambda>k. map_option f (map_of m k))"
  by (induction m) auto

lemma map_snd_update:
  "map (\<lambda>(k, v). (k, f v)) (AList.update k v m) = AList.update k (f v) (map (\<lambda>(k, v). (k, f v)) m)"
  by (induction m) auto

lemma insort_key_map_snd:
  "insort_key fst (fst x, f (snd x)) (map (\<lambda>(k, v). (k, f v)) ys) =
     map (\<lambda>(k, v). (k, f v)) (insort_key fst x ys)"
  by (induction ys) (auto simp: case_prod_beta)

lemma sort_key_map_snd:
  "sort_key fst (map (\<lambda>(k, v). (k, f v)) xs) = map (\<lambda>(k, v). (k, f v)) (sort_key fst xs)"
proof (induction xs)
  case (Cons x xs)
  then show ?case using insort_key_map_snd [of x f "sort_key fst xs"] by (cases x) simp
qed simp

lemma find_SomeD: "List.find P xs = Some x \<Longrightarrow> x \<in> set xs \<and> P x"
  by (induction xs) (auto split: if_splits)

lemma take_sorted_wrt_desc:
  assumes "sorted_wrt R xs" "x \<in> set xs" "x \<notin> set (take n xs)" "y \<in> set (take n xs)"
  shows "R y x"
proof -
  have "x \<in> set (drop n xs)" using assms(2,3) by (metis Un_iff append_take_drop_id set_append)
  moreover have "sorted_wrt R (take n xs @ drop n xs)" using assms(1) by simp
  ultimately show ?thesis using assms(4) by (simp only: sorted_wrt_append)
qed

end
