(* ===== verification/Types.thy ===== *)
theory Types
  imports Prelude
begin

text \<open>
  Domain types of the payment lifecycle: \<open>zpay-core\<close>'s \<open>types.rs\<close>,
  \<open>tip.rs\<close>, \<open>store.rs\<close>, \<open>oracle.rs\<close>, \<open>chain_status.rs\<close>,
  \<open>broadcast.rs\<close> and \<open>accepts.rs\<close>.  The newtypes around \<open>String\<close> and
  \<open>u64\<close> are synonyms.  The chain cache is a record whose relaxed atomics are
  plain fields (one writer step at a time).
\<close>

subsection \<open>Identifiers (types.rs)\<close>

definition PAYMENT_ID_MAX_LEN :: nat where "PAYMENT_ID_MAX_LEN = 64"

datatype PaymentScheme = Zcash
datatype PaymentNetwork = Mainnet | Testnet | Regtest

type_synonym PaymentId = string
type_synonym PayeeId = string
type_synonym Zatoshis = u64
type_synonym EvidencePackHash = bytes

datatype PaymentIdParseError = PaymentIdEmpty | PaymentIdTooLong

definition payment_id_from_str :: "string \<Rightarrow> PaymentIdParseError + PaymentId" where
  "payment_id_from_str raw =
    (let trimmed = trim raw in
     if trimmed = [] then Err PaymentIdEmpty
     else if length trimmed > PAYMENT_ID_MAX_LEN then Err PaymentIdTooLong
     else Ok trimmed)"

lemma payment_id_from_str_Ok_iff:
  "payment_id_from_str raw = Ok p \<longleftrightarrow> p = trim raw \<and> p \<noteq> [] \<and> length p \<le> 64"
  by (auto simp: payment_id_from_str_def PAYMENT_ID_MAX_LEN_def Let_def)

subsection \<open>Errors of the chain and storage interfaces (tip.rs, store.rs, oracle.rs)\<close>

datatype TipError = TipUnavailable string | NetworkUnsupported PaymentNetwork

record ChainTip =
  ct_network :: PaymentNetwork
  ct_tip_height :: u32

type_synonym ChainTipOracle = "PaymentNetwork \<Rightarrow> TipError + u32"

datatype StoreError =
    StoreUnavailable string
  | MigrationPending u32 u32
  | IntegrityViolation string
  | RowMalformed string
  | SchemaInvariantViolation string u64

datatype ConfirmationOutcome =
    Mined (oc_block_height: u64) (oc_confirmation_count: u32)
  | InMempool
  | NotFound
  | ConflictingChain

datatype OracleError = OracleUnavailable string | ResponseMalformed string

subsection \<open>Chain view and cache (chain\_status.rs)\<close>

record ChainStatusView =
  visible_tip_height :: "u64 option"
  settled_tip_height :: "u64 option"

definition default_view :: ChainStatusView where
  "default_view = \<lparr>visible_tip_height = None, settled_tip_height = None\<rparr>"

definition is_settled_at :: "ChainStatusView \<Rightarrow> u64 \<Rightarrow> bool" where
  "is_settled_at v mined_height =
    (case settled_tip_height v of Some settled \<Rightarrow> mined_height \<le> settled | None \<Rightarrow> False)"

definition is_lapsed_at :: "ChainStatusView \<Rightarrow> u64 \<Rightarrow> bool" where
  "is_lapsed_at v expiry_height =
    (case visible_tip_height v of Some tip \<Rightarrow> expiry_height \<le> tip | None \<Rightarrow> False)"

record ChainStatusCache =
  cc_visible_tip_height :: u64
  cc_settled_tip_height :: u64
  cc_known :: bool
  cc_refreshed_at_unix_seconds :: u64

definition cache_new :: ChainStatusCache where
  "cache_new = \<lparr>cc_visible_tip_height = 0, cc_settled_tip_height = 0, cc_known = False,
     cc_refreshed_at_unix_seconds = 0\<rparr>"

definition cache_store :: "u64 \<Rightarrow> u64 \<Rightarrow> u64 \<Rightarrow> ChainStatusCache \<Rightarrow> ChainStatusCache" where
  "cache_store now visible settled c =
     c\<lparr>cc_visible_tip_height := visible, cc_settled_tip_height := settled,
       cc_refreshed_at_unix_seconds := now, cc_known := True\<rparr>"

definition last_refresh_unix_seconds :: "ChainStatusCache \<Rightarrow> u64 option" where
  "last_refresh_unix_seconds c =
     (if \<not> cc_known c then None else Some (cc_refreshed_at_unix_seconds c))"

definition cache_load :: "ChainStatusCache \<Rightarrow> ChainStatusView" where
  "cache_load c = (if \<not> cc_known c then default_view
     else \<lparr>visible_tip_height = Some (cc_visible_tip_height c),
           settled_tip_height = Some (cc_settled_tip_height c)\<rparr>)"

text \<open>\<open>now_unix_seconds\<close> reads the clock as an offset from the epoch in
  seconds; a clock before the epoch gives zero.\<close>

definition now_unix_seconds :: "int \<Rightarrow> u64" where
  "now_unix_seconds clock = (if clock < 0 then 0 else word_of_int clock)"

lemma cache_load_store [simp]:
  "cache_load (cache_store now v s c) = \<lparr>visible_tip_height = Some v, settled_tip_height = Some s\<rparr>"
  by (simp add: cache_load_def cache_store_def)

lemma cache_load_new [simp]: "cache_load cache_new = default_view"
  by (simp add: cache_load_def cache_new_def)

lemma default_view_unknown [simp]:
  "\<not> is_settled_at default_view h" "\<not> is_lapsed_at default_view h"
  by (simp_all add: default_view_def is_settled_at_def is_lapsed_at_def)

lemma is_settled_at_antimono: "is_settled_at v h \<Longrightarrow> h' \<le> h \<Longrightarrow> is_settled_at v h'"
  by (auto simp: is_settled_at_def split: option.splits)

subsection \<open>Broadcast outcomes (broadcast.rs)\<close>

text \<open>The submitter's own enumerations belong to \<open>zally\_chain\<close>: the model keeps
  the variants the code names and one constructor for every other variant.
  Transaction ids are bytes and their RPC rendering is a parameter.\<close>

datatype RejectionReason = RejectedEncoding | RejectedOther string

datatype SubmitOutcome =
    SubmitAccepted bytes
  | SubmitQueued bytes
  | SubmitDuplicate bytes
  | SubmitRejected RejectionReason string
  | SubmitOther

datatype BroadcastOutcome =
    Accepted string
  | Duplicate string
  | InvalidEncoding string
  | Rejected string
  | Unknown string

fun transaction_id :: "BroadcastOutcome \<Rightarrow> string option" where
  "transaction_id (Accepted t) = Some t"
| "transaction_id (Duplicate t) = Some t"
| "transaction_id (InvalidEncoding m) = None"
| "transaction_id (Rejected m) = None"
| "transaction_id (Unknown m) = None"

fun is_success :: "BroadcastOutcome \<Rightarrow> bool" where
  "is_success (Accepted t) = True"
| "is_success (Duplicate t) = True"
| "is_success _ = False"

fun reason_debug :: "RejectionReason \<Rightarrow> string" where
  "reason_debug RejectedEncoding = ''InvalidEncoding''"
| "reason_debug (RejectedOther s) = s"

fun from_submit_outcome :: "(bytes \<Rightarrow> string) \<Rightarrow> SubmitOutcome \<Rightarrow> BroadcastOutcome" where
  "from_submit_outcome to_rpc_hex (SubmitAccepted tx_id) = Accepted (to_rpc_hex tx_id)"
| "from_submit_outcome to_rpc_hex (SubmitQueued tx_id) = Accepted (to_rpc_hex tx_id)"
| "from_submit_outcome to_rpc_hex (SubmitDuplicate tx_id) = Duplicate (to_rpc_hex tx_id)"
| "from_submit_outcome to_rpc_hex (SubmitRejected RejectedEncoding detail) = InvalidEncoding detail"
| "from_submit_outcome to_rpc_hex (SubmitRejected reason detail) =
     Rejected (reason_debug reason @ '': '' @ detail)"
| "from_submit_outcome to_rpc_hex SubmitOther =
     Unknown ''submitter returned an unrecognised outcome variant''"

lemma is_success_iff_transaction_id: "is_success b \<longleftrightarrow> transaction_id b \<noteq> None"
  by (cases b) auto

lemma from_submit_outcome_success_iff:
  "is_success (from_submit_outcome f so) \<longleftrightarrow>
     (\<exists>t. so = SubmitAccepted t \<or> so = SubmitQueued t \<or> so = SubmitDuplicate t)"
  by (cases "(f, so)" rule: from_submit_outcome.cases) auto

subsection \<open>Payee registry (accepts.rs)\<close>

record AcceptsEntry =
  ae_scheme :: PaymentScheme
  ae_network :: PaymentNetwork
  ae_pay_to :: string
  ae_amount_zat :: Zatoshis
  ae_max_validity_seconds :: u64
  ae_expiry_delta_blocks :: "u32 option"
  ae_merchant_requires_verify :: bool

type_synonym PayeeRegistry = "(PayeeId, AcceptsEntry list) hashmap"

definition registry_new :: PayeeRegistry where "registry_new = []"

definition register :: "PayeeId \<Rightarrow> AcceptsEntry list \<Rightarrow> PayeeRegistry \<Rightarrow> PayeeRegistry" where
  "register payee entries r = hm_insert payee entries r"

definition payee_count :: "PayeeRegistry \<Rightarrow> nat" where
  "payee_count r = length r"

definition registry_iter :: "PayeeRegistry \<Rightarrow> (PayeeId \<times> AcceptsEntry list) list" where
  "registry_iter r = r"

definition registry_find :: "PayeeRegistry \<Rightarrow> PayeeId \<Rightarrow> AcceptsEntry list option" where
  "registry_find r payee = hm_get r payee"

definition resolve :: "PayeeRegistry \<Rightarrow> PayeeId \<Rightarrow> PaymentScheme \<Rightarrow> PaymentNetwork \<Rightarrow> AcceptsEntry option" where
  "resolve r payee scheme network =
    (case hm_get r payee of None \<Rightarrow> None
     | Some entries \<Rightarrow> find (\<lambda>e. ae_scheme e = scheme \<and> ae_network e = network) entries)"

lemma resolve_Some:
  "resolve r payee scheme network = Some e \<Longrightarrow>
    (\<exists>entries. registry_find r payee = Some entries \<and> e \<in> set entries)
    \<and> ae_scheme e = scheme \<and> ae_network e = network"
  by (fastforce simp: resolve_def registry_find_def find_Some_iff split: option.splits)

lemma resolve_register_same:
  "resolve (register payee es r) payee scheme network =
     find (\<lambda>e. ae_scheme e = scheme \<and> ae_network e = network) es"
  by (simp add: resolve_def register_def hm_simps)

lemma resolve_register_other:
  "payee' \<noteq> payee \<Longrightarrow> resolve (register payee es r) payee' = resolve r payee'"
  by (simp add: resolve_def register_def hm_simps fun_eq_iff)

end
