(* ===== verification/Binding.thy ===== *)
theory Binding
  imports Types
begin

text \<open>
  Server-side composition of the protocol memo (\<open>zpay-core/src/binding.rs\<close>,
  with the memo constants of \<open>prepare.rs\<close>).  SHA-256 comes from the
  \<open>sha2\<close> crate and is the parameter \<open>sha256\<close>; the only facts used of it are
  that a digest has 32 bytes and, where a statement says so, that it does not
  collide on the inputs at hand.
\<close>

definition DOMAIN_TAG_CHALLENGE :: bytes where "DOMAIN_TAG_CHALLENGE = bytes_of ''zpay/v1/challenge''"
definition DOMAIN_TAG_RESOURCE :: bytes where "DOMAIN_TAG_RESOURCE = bytes_of ''zpay/v1/resource''"

definition PROTOCOL_MEMO_BYTE_COUNT :: nat where "PROTOCOL_MEMO_BYTE_COUNT = 98"
definition PROTOCOL_MEMO_BYTE_COUNT_NO_EVIDENCE :: nat where
  "PROTOCOL_MEMO_BYTE_COUNT_NO_EVIDENCE = 66"
definition PROTOCOL_MEMO_TAG :: u8 where "PROTOCOL_MEMO_TAG = 0xff"
definition PROTOCOL_MEMO_VERSION :: u8 where "PROTOCOL_MEMO_VERSION = 0x02"

fun scheme_byte :: "PaymentScheme \<Rightarrow> u8" where
  "scheme_byte Zcash = 0x01"

fun network_byte :: "PaymentNetwork \<Rightarrow> u8" where
  "network_byte Mainnet = 0x01"
| "network_byte Testnet = 0x02"
| "network_byte Regtest = 0x03"

text \<open>The bytes fed to the two hashers, in the order of the \<open>update\<close> calls.\<close>

definition challenge_preimage ::
  "PayeeId \<Rightarrow> PaymentScheme \<Rightarrow> PaymentNetwork \<Rightarrow> string \<Rightarrow> string \<Rightarrow> bytes" where
  "challenge_preimage payee scheme network resource_uri nonce =
     DOMAIN_TAG_CHALLENGE @ [0] @ bytes_of payee @ [0] @ [scheme_byte scheme] @ [0] @
     [network_byte network] @ [0] @ bytes_of resource_uri @ [0] @ bytes_of nonce"

definition resource_preimage :: "string \<Rightarrow> bytes" where
  "resource_preimage resource_uri = DOMAIN_TAG_RESOURCE @ [0] @ bytes_of resource_uri"

definition hash_challenge ::
  "(bytes \<Rightarrow> bytes) \<Rightarrow> PayeeId \<Rightarrow> PaymentScheme \<Rightarrow> PaymentNetwork \<Rightarrow> string \<Rightarrow> string \<Rightarrow> bytes" where
  "hash_challenge sha256 payee scheme network resource_uri nonce =
     sha256 (challenge_preimage payee scheme network resource_uri nonce)"

definition hash_resource :: "(bytes \<Rightarrow> bytes) \<Rightarrow> string \<Rightarrow> bytes" where
  "hash_resource sha256 resource_uri = sha256 (resource_preimage resource_uri)"

definition compose_binding_memo ::
  "(bytes \<Rightarrow> bytes) \<Rightarrow> PayeeId \<Rightarrow> PaymentScheme \<Rightarrow> PaymentNetwork \<Rightarrow> string \<Rightarrow> string
    \<Rightarrow> EvidencePackHash option \<Rightarrow> bytes" where
  "compose_binding_memo sha256 payee scheme network resource_uri nonce evidence_pack =
    (let challenge_hash = hash_challenge sha256 payee scheme network resource_uri nonce;
         resource_hash = hash_resource sha256 resource_uri;
         memo = [PROTOCOL_MEMO_TAG, PROTOCOL_MEMO_VERSION] @ challenge_hash @ resource_hash
     in case evidence_pack of None \<Rightarrow> memo | Some evidence \<Rightarrow> memo @ evidence)"

subsection \<open>Layout\<close>

lemma length_compose_binding_memo:
  assumes "\<And>x. length (sha256 x) = 32" and "\<And>e. evidence = Some e \<Longrightarrow> length e = 32"
  shows "length (compose_binding_memo sha256 payee scheme network uri nonce evidence) =
    (case evidence of None \<Rightarrow> PROTOCOL_MEMO_BYTE_COUNT_NO_EVIDENCE | Some _ \<Rightarrow> PROTOCOL_MEMO_BYTE_COUNT)"
  using assms
  by (auto simp: compose_binding_memo_def Let_def hash_challenge_def hash_resource_def
      PROTOCOL_MEMO_BYTE_COUNT_def PROTOCOL_MEMO_BYTE_COUNT_NO_EVIDENCE_def split: option.splits)

lemma memo_tag_version:
  "take 2 (compose_binding_memo sha256 payee scheme network uri nonce evidence) =
     [PROTOCOL_MEMO_TAG, PROTOCOL_MEMO_VERSION]"
  by (simp add: compose_binding_memo_def Let_def split: option.splits)

subsection \<open>Domain separation and injectivity of the pre-images\<close>

lemma preimage_domain_separation:
  "challenge_preimage payee scheme network uri nonce \<noteq> resource_preimage uri'"
  by (simp add: challenge_preimage_def resource_preimage_def DOMAIN_TAG_CHALLENGE_def
      DOMAIN_TAG_RESOURCE_def bytes_of_def byte_of_def)

lemma append_sep_inject:
  "x \<notin> set a \<Longrightarrow> x \<notin> set b \<Longrightarrow> a @ x # r = b @ x # s \<Longrightarrow> a = b \<and> r = s"
proof (induction a arbitrary: b)
  case Nil
  then show ?case by (cases b) auto
next
  case (Cons y a)
  then show ?case by (cases b) auto
qed

definition nul_free :: "string \<Rightarrow> bool" where
  "nul_free s \<longleftrightarrow> 0 \<notin> set (bytes_of s)"

lemma network_byte_inject: "network_byte a = network_byte b \<Longrightarrow> a = b"
  by (cases a; cases b) simp_all

lemma resource_preimage_inject: "resource_preimage u = resource_preimage v \<Longrightarrow> u = v"
  by (auto simp: resource_preimage_def intro: bytes_of_inject)

lemma challenge_preimage_inject:
  assumes "nul_free payee" "nul_free payee'"
    and "challenge_preimage payee scheme network uri nonce =
         challenge_preimage payee' scheme' network' uri nonce'"
  shows "payee = payee' \<and> scheme = scheme' \<and> network = network' \<and> nonce = nonce'"
proof -
  have "bytes_of payee @ 0 # [scheme_byte scheme, 0, network_byte network, 0] @ bytes_of uri @ [0] @ bytes_of nonce
     = bytes_of payee' @ 0 # [scheme_byte scheme', 0, network_byte network', 0] @ bytes_of uri @ [0] @ bytes_of nonce'"
    using assms(3) by (simp add: challenge_preimage_def)
  then have "bytes_of payee = bytes_of payee' \<and>
      [scheme_byte scheme, 0, network_byte network, 0] @ bytes_of uri @ [0] @ bytes_of nonce =
      [scheme_byte scheme', 0, network_byte network', 0] @ bytes_of uri @ [0] @ bytes_of nonce'"
    using assms(1,2) unfolding nul_free_def by (rule append_sep_inject [rotated 2])
  then show ?thesis
    by (cases scheme; cases scheme') (auto dest: bytes_of_inject network_byte_inject)
qed

lemma compose_binding_memo_parts:
  assumes "\<And>x. length (sha256 x) = 32"
    and "compose_binding_memo sha256 payee scheme network uri nonce ev =
         compose_binding_memo sha256 payee' scheme' network' uri' nonce' ev'"
  shows "hash_challenge sha256 payee scheme network uri nonce =
         hash_challenge sha256 payee' scheme' network' uri' nonce'
    \<and> hash_resource sha256 uri = hash_resource sha256 uri'"
proof -
  have len: "length (hash_challenge sha256 p s n u c) = 32" "length (hash_resource sha256 u) = 32"
    for p s n u c by (simp_all add: hash_challenge_def hash_resource_def assms(1))
  have "take 32 (drop 2 (compose_binding_memo sha256 p s n u c e)) = hash_challenge sha256 p s n u c"
    "take 32 (drop 34 (compose_binding_memo sha256 p s n u c e)) = hash_resource sha256 u"
    for p s n u c e
    by (auto simp: compose_binding_memo_def Let_def len split: option.splits)
  then show ?thesis using assms(2) by metis
qed

end
