(* ===== verification/Prepare.thy ===== *)
theory Prepare
  imports Binding
begin

text \<open>
  The prepare path (\<open>zpay-core/src/prepare.rs\<close>): the request and preparation
  types, the \<open>PreparedTxStore\<close> trait as a record of operations, its in-memory
  implementation \<open>PreparedTxCache\<close>, the composition of the ZIP-321 URI, and
  \<open>propose\<close>.  The contract a store promises is the locale
  \<open>prepared_tx_store\<close>; \<open>propose\<close> is analysed against it once and the
  in-memory cache is interpreted at the end (the libSQL store in its own theory).
  The wall clock, the fresh ULID, the chain-tip oracle, SHA-256 and the base64
  encoder are arguments.
\<close>

definition DEFAULT_VALIDITY_SECONDS :: u64 where "DEFAULT_VALIDITY_SECONDS = 300"
definition DEFAULT_EXPIRY_DELTA_BLOCKS :: u32 where "DEFAULT_EXPIRY_DELTA_BLOCKS = 40"

record PrepareRequest =
  rq_payee_id :: PayeeId
  rq_network :: PaymentNetwork
  rq_scheme :: PaymentScheme
  rq_resource_uri :: string
  rq_nonce :: string
  rq_evidence_pack_hash :: "EvidencePackHash option"
  rq_idempotency_key :: "string option"

record Preparation =
  pr_payment_id :: PaymentId
  pr_payment_uri :: string
  pr_memo_bytes :: bytes
  pr_expiry_height :: u32
  pr_amount_zat :: Zatoshis

datatype PrepareError =
    PayeeUnknown PayeeId
  | SchemeNetworkUnsupported PayeeId PaymentScheme PaymentNetwork
  | ExpiryHeightInvalid
  | PrepareTipOracle TipError
  | PrepareStorage StoreError

record PreparedTxEntry =
  pe_preparation :: Preparation
  pe_payee_id :: PayeeId
  pe_network :: PaymentNetwork
  pe_recipient_unified_address :: string
  pe_amount_zat :: Zatoshis
  pe_expires_at_unix_seconds :: u64
  pe_idempotency_key :: "string option"
  pe_agent_dpop_jkt :: string

abbreviation pe_payment_id :: "PreparedTxEntry \<Rightarrow> PaymentId" where
  "pe_payment_id e \<equiv> pr_payment_id (pe_preparation e)"

record 's PreparedTxStore =
  pts_insert :: "PreparedTxEntry \<Rightarrow> 's \<Rightarrow> (StoreError + unit) \<times> 's"
  pts_find_by_payment_id :: "PaymentId \<Rightarrow> 's \<Rightarrow> StoreError + PreparedTxEntry option"
  pts_find_by_idempotency :: "string \<Rightarrow> string \<Rightarrow> 's \<Rightarrow> StoreError + PreparedTxEntry option"
  pts_remove :: "PaymentId \<Rightarrow> 's \<Rightarrow> (StoreError + PreparedTxEntry option) \<times> 's"
  pts_sweep_expired :: "u64 \<Rightarrow> 's \<Rightarrow> (StoreError + nat) \<times> 's"
  pts_entry_count :: "'s \<Rightarrow> StoreError + nat"

subsection \<open>In-memory cache\<close>

record CacheInner =
  by_payment_id :: "(PaymentId, PreparedTxEntry) hashmap"
  by_idempotency :: "(string \<times> string, PaymentId) hashmap"

definition cache_empty :: CacheInner where
  "cache_empty = \<lparr>by_payment_id = [], by_idempotency = []\<rparr>"

definition cache_insert :: "PreparedTxEntry \<Rightarrow> CacheInner \<Rightarrow> (StoreError + unit) \<times> CacheInner" where
  "cache_insert entry c =
    (let c1 = (case pe_idempotency_key entry of None \<Rightarrow> c
               | Some key \<Rightarrow> c\<lparr>by_idempotency :=
                   hm_insert (pe_agent_dpop_jkt entry, key) (pe_payment_id entry) (by_idempotency c)\<rparr>)
     in (Ok (), c1\<lparr>by_payment_id := hm_insert (pe_payment_id entry) entry (by_payment_id c1)\<rparr>))"

definition cache_find_by_payment_id :: "PaymentId \<Rightarrow> CacheInner \<Rightarrow> StoreError + PreparedTxEntry option" where
  "cache_find_by_payment_id pid c = Ok (hm_get (by_payment_id c) pid)"

definition cache_find_by_idempotency ::
  "string \<Rightarrow> string \<Rightarrow> CacheInner \<Rightarrow> StoreError + PreparedTxEntry option" where
  "cache_find_by_idempotency jkt key c =
    (case hm_get (by_idempotency c) (jkt, key) of
       None \<Rightarrow> Ok None
     | Some pid \<Rightarrow> Ok (hm_get (by_payment_id c) pid))"

definition cache_remove ::
  "PaymentId \<Rightarrow> CacheInner \<Rightarrow> (StoreError + PreparedTxEntry option) \<times> CacheInner" where
  "cache_remove pid c =
    (let removed = hm_get (by_payment_id c) pid;
         c1 = c\<lparr>by_payment_id := hm_remove pid (by_payment_id c)\<rparr>;
         c2 = (case removed of None \<Rightarrow> c1
               | Some entry \<Rightarrow>
                  (case pe_idempotency_key entry of None \<Rightarrow> c1
                   | Some key \<Rightarrow> c1\<lparr>by_idempotency :=
                       hm_remove (pe_agent_dpop_jkt entry, key) (by_idempotency c1)\<rparr>))
     in (Ok removed, c2))"

definition cache_sweep_expired :: "u64 \<Rightarrow> CacheInner \<Rightarrow> (StoreError + nat) \<times> CacheInner" where
  "cache_sweep_expired now c =
    (let before = length (by_payment_id c);
         rows = hm_retain (\<lambda>_ entry. pe_expires_at_unix_seconds entry > now) (by_payment_id c);
         live_ids = map fst rows;
         index = hm_retain (\<lambda>_ pid. pid \<in> set live_ids) (by_idempotency c)
     in (Ok (before - length rows), c\<lparr>by_payment_id := rows, by_idempotency := index\<rparr>))"

definition cache_entry_count :: "CacheInner \<Rightarrow> StoreError + nat" where
  "cache_entry_count c = Ok (length (by_payment_id c))"

definition PreparedTxCache :: "CacheInner PreparedTxStore" where
  "PreparedTxCache = \<lparr>pts_insert = cache_insert,
     pts_find_by_payment_id = cache_find_by_payment_id,
     pts_find_by_idempotency = cache_find_by_idempotency,
     pts_remove = cache_remove, pts_sweep_expired = cache_sweep_expired,
     pts_entry_count = cache_entry_count\<rparr>"

lemma PreparedTxCache_ops [simp]:
  "pts_insert PreparedTxCache = cache_insert"
  "pts_find_by_payment_id PreparedTxCache = cache_find_by_payment_id"
  "pts_find_by_idempotency PreparedTxCache = cache_find_by_idempotency"
  "pts_remove PreparedTxCache = cache_remove"
  "pts_sweep_expired PreparedTxCache = cache_sweep_expired"
  "pts_entry_count PreparedTxCache = cache_entry_count"
  by (simp_all add: PreparedTxCache_def)

subsection \<open>URI composition\<close>

definition format_zec_from_zat :: "Zatoshis \<Rightarrow> string" where
  "format_zec_from_zat amount_zat =
    (let whole = amount_zat div 100000000; fraction = amount_zat mod 100000000 in
     if fraction = 0 then dec_str (unat whole)
     else let fraction_str = pad0 8 (dec_str (unat fraction));
              trimmed = trim_end_matches (CHR ''0'') fraction_str
          in dec_str (unat whole) @ ''.'' @ trimmed)"

definition compose_payment_uri :: "(bytes \<Rightarrow> string) \<Rightarrow> string \<Rightarrow> Zatoshis \<Rightarrow> bytes \<Rightarrow> string" where
  "compose_payment_uri b64 recipient amount_zat memo =
     ''zcash:'' @ recipient @ ''?amount='' @ format_zec_from_zat amount_zat @ ''&memo='' @ b64 memo"

subsection \<open>propose\<close>

definition usable_key :: "string option \<Rightarrow> string option" where
  "usable_key k = (case k of None \<Rightarrow> None | Some raw \<Rightarrow> if trim raw \<noteq> [] then Some raw else None)"

definition proposed_entry ::
  "(bytes \<Rightarrow> bytes) \<Rightarrow> (bytes \<Rightarrow> string) \<Rightarrow> PaymentId \<Rightarrow> u64 \<Rightarrow> PrepareRequest \<Rightarrow> string
     \<Rightarrow> AcceptsEntry \<Rightarrow> u32 \<Rightarrow> PreparedTxEntry" where
  "proposed_entry sha256 b64 fresh_id now request jkt entry expiry_height =
    (let memo = compose_binding_memo sha256 (rq_payee_id request) (rq_scheme request)
                  (rq_network request) (rq_resource_uri request) (rq_nonce request)
                  (rq_evidence_pack_hash request);
         payment_uri = compose_payment_uri b64 (ae_pay_to entry) (ae_amount_zat entry) memo;
         preparation = \<lparr>pr_payment_id = fresh_id, pr_payment_uri = payment_uri,
                        pr_memo_bytes = memo, pr_expiry_height = expiry_height,
                        pr_amount_zat = ae_amount_zat entry\<rparr>;
         validity_seconds = (if ae_max_validity_seconds entry > 0
                             then ae_max_validity_seconds entry else DEFAULT_VALIDITY_SECONDS)
     in \<lparr>pe_preparation = preparation, pe_payee_id = rq_payee_id request,
         pe_network = rq_network request, pe_recipient_unified_address = ae_pay_to entry,
         pe_amount_zat = ae_amount_zat entry,
         pe_expires_at_unix_seconds = saturating_add now validity_seconds,
         pe_idempotency_key = usable_key (rq_idempotency_key request),
         pe_agent_dpop_jkt = jkt\<rparr>)"

definition expiry_delta :: "AcceptsEntry \<Rightarrow> u32" where
  "expiry_delta entry =
     (case ae_expiry_delta_blocks entry of Some d \<Rightarrow> d | None \<Rightarrow> DEFAULT_EXPIRY_DELTA_BLOCKS)"

definition propose_fresh ::
  "'s PreparedTxStore \<Rightarrow> (bytes \<Rightarrow> bytes) \<Rightarrow> (bytes \<Rightarrow> string) \<Rightarrow> PayeeRegistry \<Rightarrow> ChainTipOracle
     \<Rightarrow> PaymentId \<Rightarrow> u64 \<Rightarrow> PrepareRequest \<Rightarrow> string \<Rightarrow> 's \<Rightarrow> (PrepareError + Preparation) \<times> 's" where
  "propose_fresh S sha256 b64 registry tip_oracle fresh_id now request jkt s =
    (case registry_find registry (rq_payee_id request) of
       None \<Rightarrow> (Err (PayeeUnknown (rq_payee_id request)), s)
     | Some entries \<Rightarrow>
    (case find (\<lambda>c. ae_scheme c = rq_scheme request \<and> ae_network c = rq_network request) entries of
       None \<Rightarrow> (Err (SchemeNetworkUnsupported (rq_payee_id request) (rq_scheme request) (rq_network request)), s)
     | Some entry \<Rightarrow>
    (case tip_oracle (rq_network request) of
       Inl e \<Rightarrow> (Err (PrepareTipOracle e), s)
     | Inr tip_height \<Rightarrow>
       let delta = expiry_delta entry;
           expiry_height = saturating_add tip_height delta in
       if expiry_height = 0 then (Err ExpiryHeightInvalid, s)
       else let row = proposed_entry sha256 b64 fresh_id now request jkt entry expiry_height in
         (case pts_insert S row s of
            (Inl e, s') \<Rightarrow> (Err (PrepareStorage e), s')
          | (Inr _, s') \<Rightarrow> (Ok (pe_preparation row), s')))))"

definition propose ::
  "'s PreparedTxStore \<Rightarrow> (bytes \<Rightarrow> bytes) \<Rightarrow> (bytes \<Rightarrow> string) \<Rightarrow> PayeeRegistry \<Rightarrow> ChainTipOracle
     \<Rightarrow> PaymentId \<Rightarrow> u64 \<Rightarrow> PrepareRequest \<Rightarrow> string \<Rightarrow> 's \<Rightarrow> (PrepareError + Preparation) \<times> 's" where
  "propose S sha256 b64 registry tip_oracle fresh_id now request jkt s =
    (case usable_key (rq_idempotency_key request) of
       None \<Rightarrow> propose_fresh S sha256 b64 registry tip_oracle fresh_id now request jkt s
     | Some key \<Rightarrow>
        (case pts_find_by_idempotency S jkt key s of
           Inl e \<Rightarrow> (Err (PrepareStorage e), s)
         | Inr (Some prior) \<Rightarrow> (Ok (pe_preparation prior), s)
         | Inr None \<Rightarrow> propose_fresh S sha256 b64 registry tip_oracle fresh_id now request jkt s))"

subsection \<open>The store contract\<close>

text \<open>\<open>derived\<close> holds of the rows \<open>propose\<close> writes: the URI and the
  amount of the preparation are functions of the other columns.  A store may
  drop and recompute them.  \<open>insertable\<close> is the state in which \<open>propose\<close>
  inserts: the id is new and no live row holds the caller's idempotency key.\<close>

definition derived :: "(bytes \<Rightarrow> string) \<Rightarrow> PreparedTxEntry \<Rightarrow> bool" where
  "derived b64 e \<longleftrightarrow> pr_amount_zat (pe_preparation e) = pe_amount_zat e \<and>
     pr_payment_uri (pe_preparation e) =
       compose_payment_uri b64 (pe_recipient_unified_address e) (pe_amount_zat e)
         (pr_memo_bytes (pe_preparation e))"

definition holds_key :: "string \<Rightarrow> string \<Rightarrow> PreparedTxEntry \<Rightarrow> bool" where
  "holds_key jkt key e \<longleftrightarrow> pe_agent_dpop_jkt e = jkt \<and> pe_idempotency_key e = Some key"

definition insertable :: "(PaymentId \<Rightarrow> PreparedTxEntry option) \<Rightarrow> PreparedTxEntry \<Rightarrow> bool" where
  "insertable rows e \<longleftrightarrow> rows (pe_payment_id e) = None \<and>
     (\<forall>key p f. pe_idempotency_key e = Some key \<longrightarrow> rows p = Some f
        \<longrightarrow> \<not> holds_key (pe_agent_dpop_jkt e) key f)"

definition unexpired :: "u64 \<Rightarrow> (PaymentId \<Rightarrow> PreparedTxEntry option) \<Rightarrow> PaymentId \<Rightarrow> PreparedTxEntry option" where
  "unexpired now rows p = (case rows p of None \<Rightarrow> None
     | Some e \<Rightarrow> if pe_expires_at_unix_seconds e > now then Some e else None)"

locale prepared_tx_store =
  fixes S :: "'s PreparedTxStore"
    and inv :: "'s \<Rightarrow> bool"
    and rows :: "'s \<Rightarrow> PaymentId \<Rightarrow> PreparedTxEntry option"
    and b64 :: "bytes \<Rightarrow> string"
  assumes rows_id: "inv s \<Longrightarrow> rows s p = Some e \<Longrightarrow> pe_payment_id e = p"
    and finite_rows: "inv s \<Longrightarrow> finite (dom (rows s))"
    and insert_ok: "inv s \<Longrightarrow> derived b64 e \<Longrightarrow> insertable (rows s) e \<Longrightarrow>
          pts_insert S e s = (Inr u, s') \<Longrightarrow> inv s' \<and> rows s' = (rows s)(pe_payment_id e \<mapsto> e)"
    and insert_err: "pts_insert S e s = (Inl x, s') \<Longrightarrow> s' = s"
    and find_ok: "inv s \<Longrightarrow> pts_find_by_payment_id S p s = Inr r \<Longrightarrow> r = rows s p"
    and find_key_ok: "inv s \<Longrightarrow> pts_find_by_idempotency S jkt key s = Inr r \<Longrightarrow>
          r = Some e \<longleftrightarrow> rows s (pe_payment_id e) = Some e \<and> holds_key jkt key e"
    and remove_ok: "inv s \<Longrightarrow> pts_remove S p s = (Inr r, s') \<Longrightarrow>
          r = rows s p \<and> inv s' \<and> rows s' = (rows s)(p := None)"
    and remove_err: "pts_remove S p s = (Inl x, s') \<Longrightarrow> s' = s"
    and sweep_ok: "inv s \<Longrightarrow> pts_sweep_expired S now s = (Inr n, s') \<Longrightarrow>
          inv s' \<and> rows s' = unexpired now (rows s) \<and> card (dom (rows s')) + n = card (dom (rows s))"
    and sweep_err: "pts_sweep_expired S now s = (Inl x, s') \<Longrightarrow> s' = s"
    and count_ok: "inv s \<Longrightarrow> pts_entry_count S s = Inr n \<Longrightarrow> n = card (dom (rows s))"
begin

lemma key_unique:
  assumes "inv s" "pts_find_by_idempotency S jkt key s = Inr r"
    and "rows s p = Some e" "holds_key jkt key e" "rows s q = Some f" "holds_key jkt key f"
  shows "p = q"
proof -
  have "r = Some e" "r = Some f" using assms find_key_ok rows_id by metis+
  then have "e = f" by simp
  then show ?thesis using rows_id [OF assms(1,3)] rows_id [OF assms(1,5)] by simp
qed

end

subsection \<open>What propose writes\<close>

lemma usable_key_Some: "usable_key k = Some key \<longleftrightarrow> k = Some key \<and> trim key \<noteq> []"
  by (auto simp: usable_key_def split: option.splits if_splits)

lemma proposed_entry_simps [simp]:
  "pe_payment_id (proposed_entry sha256 b64 fid now rq jkt e h) = fid"
  "pe_amount_zat (proposed_entry sha256 b64 fid now rq jkt e h) = ae_amount_zat e"
  "pr_amount_zat (pe_preparation (proposed_entry sha256 b64 fid now rq jkt e h)) = ae_amount_zat e"
  "pe_recipient_unified_address (proposed_entry sha256 b64 fid now rq jkt e h) = ae_pay_to e"
  "pr_expiry_height (pe_preparation (proposed_entry sha256 b64 fid now rq jkt e h)) = h"
  "pe_idempotency_key (proposed_entry sha256 b64 fid now rq jkt e h) = usable_key (rq_idempotency_key rq)"
  "pe_agent_dpop_jkt (proposed_entry sha256 b64 fid now rq jkt e h) = jkt"
  "pe_payee_id (proposed_entry sha256 b64 fid now rq jkt e h) = rq_payee_id rq"
  "pe_network (proposed_entry sha256 b64 fid now rq jkt e h) = rq_network rq"
  by (simp_all add: proposed_entry_def Let_def)

lemma derived_proposed_entry: "derived b64 (proposed_entry sha256 b64 fid now rq jkt e h)"
  by (simp add: derived_def proposed_entry_def Let_def)

lemma resolve_find: "resolve reg p sch net = Some e \<longleftrightarrow>
    (\<exists>es. registry_find reg p = Some es \<and> find (\<lambda>c. ae_scheme c = sch \<and> ae_network c = net) es = Some e)"
  by (auto simp: resolve_def registry_find_def split: option.splits)

text \<open>The successful outcome of the non-replayed path, and the frame of the failing ones.\<close>

lemma propose_fresh_Ok:
  assumes "propose_fresh S sha256 b64 reg tip fid now rq jkt s = (Inr p, s')"
  obtains e h where
    "resolve reg (rq_payee_id rq) (rq_scheme rq) (rq_network rq) = Some e"
    "tip (rq_network rq) = Inr h"
    "saturating_add h (expiry_delta e) \<noteq> 0"
    "p = pe_preparation (proposed_entry sha256 b64 fid now rq jkt e
       (saturating_add h (expiry_delta e)))"
    "pts_insert S (proposed_entry sha256 b64 fid now rq jkt e
       (saturating_add h (expiry_delta e))) s
     = (Inr (), s')"
  using assms
  by (auto simp: propose_fresh_def resolve_find Let_def split: option.splits sum.splits if_splits prod.splits)

lemma propose_fresh_Err:
  assumes "\<And>e x s1. pts_insert S e s = (Inl x, s1) \<Longrightarrow> s1 = s"
    and "propose_fresh S sha256 b64 reg tip fid now rq jkt s = (Inl x, s')"
  shows "s' = s"
  using assms by (auto simp: propose_fresh_def Let_def split: option.splits sum.splits if_splits prod.splits)

text \<open>Against any store that meets the contract.\<close>

context prepared_tx_store
begin

lemma propose_insertable:
  assumes "inv s" and "rows s fid = None"
    and "\<And>key. usable_key (rq_idempotency_key rq) = Some key \<Longrightarrow>
           pts_find_by_idempotency S jkt key s = Inr None"
  shows "insertable (rows s) (proposed_entry sha256 b64 fid now rq jkt e h)"
  unfolding insertable_def
proof (intro conjI allI impI notI)
  fix key p f
  assume k: "pe_idempotency_key (proposed_entry sha256 b64 fid now rq jkt e h) = Some key"
    and p: "rows s p = Some f"
    and h: "holds_key (pe_agent_dpop_jkt (proposed_entry sha256 b64 fid now rq jkt e h)) key f"
  from k have "pts_find_by_idempotency S jkt key s = Inr None" by (simp add: assms(3))
  moreover have "rows s (pe_payment_id f) = Some f" using p rows_id [OF assms(1)] by force
  ultimately show False using h find_key_ok [OF assms(1)] by fastforce
qed (simp add: assms(2))

lemma propose_fresh_row:
  assumes "inv s" "rows s fid = None"
    and "\<And>key. usable_key (rq_idempotency_key rq) = Some key \<Longrightarrow>
           pts_find_by_idempotency S jkt key s = Inr None"
    and "propose_fresh S sha256 b64 reg tip fid now rq jkt s = (Inr p, s')"
  shows "inv s' \<and> (\<exists>e h. resolve reg (rq_payee_id rq) (rq_scheme rq) (rq_network rq) = Some e
     \<and> tip (rq_network rq) = Inr h
     \<and> p = pe_preparation (proposed_entry sha256 b64 fid now rq jkt e (saturating_add h (expiry_delta e)))
     \<and> rows s' = (rows s)(fid \<mapsto>
         proposed_entry sha256 b64 fid now rq jkt e (saturating_add h (expiry_delta e))))"
proof (rule propose_fresh_Ok [OF assms(4)], goal_cases)
  case (1 e h)
  have "insertable (rows s) (proposed_entry sha256 b64 fid now rq jkt e (saturating_add h (expiry_delta e)))"
    using assms(1-3) by (rule propose_insertable)
  from insert_ok [OF assms(1) derived_proposed_entry this 1(5)] 1 show ?case by auto
qed

lemma propose_Ok_disj:
  "propose S sha256 b64 reg tip fid now rq jkt s = (Inr p, s') \<Longrightarrow>
    (\<exists>key prior. usable_key (rq_idempotency_key rq) = Some key \<and>
      pts_find_by_idempotency S jkt key s = Inr (Some prior) \<and> p = pe_preparation prior \<and> s' = s)
    \<or> (\<forall>key. usable_key (rq_idempotency_key rq) = Some key \<longrightarrow>
           pts_find_by_idempotency S jkt key s = Inr None) \<and>
      propose_fresh S sha256 b64 reg tip fid now rq jkt s = (Inr p, s')"
  by (simp add: propose_def split: option.splits sum.splits)

lemmas propose_Ok_cases = propose_Ok_disj [THEN disjE, consumes 1, case_names replay fresh]

lemma propose_fails_unchanged:
  assumes "propose S sha256 b64 reg tip fid now rq jkt s = (Inl x, s')"
  shows "s' = s"
proof -
  have "propose_fresh S sha256 b64 reg tip fid now rq jkt s = (Inl x, s') \<or> s' = s"
    using assms by (simp add: propose_def split: option.splits sum.splits)
  then show ?thesis using insert_err propose_fresh_Err [of S s] by metis
qed

lemma propose_inv:
  assumes "inv s" "rows s fid = None"
    and "propose S sha256 b64 reg tip fid now rq jkt s = (r, s')"
  shows "inv s'"
proof (cases r)
  case (Inl x)
  then show ?thesis using assms propose_fails_unchanged by metis
next
  case (Inr p)
  with assms(3) have "propose S sha256 b64 reg tip fid now rq jkt s = (Inr p, s')" by simp
  then show ?thesis
  proof (cases rule: propose_Ok_cases)
    case fresh
    then show ?thesis using propose_fresh_row [OF assms(1,2)] by blast
  qed (use assms(1) in blast)
qed

lemma propose_Ok_held:
  assumes "inv s" "rows s fid = None"
    and "propose S sha256 b64 reg tip fid now rq jkt s = (Inr p, s')"
  shows "\<exists>e. rows s' (pr_payment_id p) = Some e \<and> pe_preparation e = p \<and> pe_agent_dpop_jkt e = jkt
    \<and> (\<forall>key. usable_key (rq_idempotency_key rq) = Some key \<longrightarrow> holds_key jkt key e)"
  using assms(3)
proof (cases rule: propose_Ok_cases)
  case replay
  then obtain key prior where k: "usable_key (rq_idempotency_key rq) = Some key"
    "pts_find_by_idempotency S jkt key s = Inr (Some prior)" "p = pe_preparation prior" "s' = s" by blast
  then show ?thesis
    using find_key_ok [OF assms(1) k(2)] by (auto simp: holds_key_def)
next
  case fresh
  then obtain e h where "p = pe_preparation (proposed_entry sha256 b64 fid now rq jkt e h)"
    "rows s' = (rows s)(fid \<mapsto> proposed_entry sha256 b64 fid now rq jkt e h)"
    using propose_fresh_row [OF assms(1,2)] by blast
  then show ?thesis by (auto simp: holds_key_def)
qed

text \<open>Replay: as long as the row is live and lookups answer, the same agent and key get the
  preparation back, whatever the registry, the oracle, the clock and the rest of the request.\<close>

lemma propose_replay:
  assumes "inv s" and "rows s q = Some e" "holds_key jkt key e" "trim key \<noteq> []"
    and "rq_idempotency_key rq = Some key" and "pts_find_by_idempotency S jkt key s = Inr r"
  shows "propose S sha256 b64 reg tip fid now rq jkt s = (Inr (pe_preparation e), s)"
proof -
  have "rows s (pe_payment_id e) = Some e" using assms rows_id by metis
  then have "r = Some e" using find_key_ok [OF assms(1,6)] assms(3) by blast
  then show ?thesis using assms by (simp add: propose_def usable_key_def)
qed

end

subsection \<open>The in-memory cache meets the contract\<close>

text \<open>The two maps agree: the index names a payment for an agent and key exactly when the
  payment's live row holds that key.\<close>

definition cache_rows :: "CacheInner \<Rightarrow> PaymentId \<Rightarrow> PreparedTxEntry option" where
  "cache_rows c = hm_get (by_payment_id c)"

definition index_agrees ::
  "(PaymentId \<Rightarrow> PreparedTxEntry option) \<Rightarrow> (string \<times> string \<Rightarrow> PaymentId option) \<Rightarrow> bool" where
  "index_agrees rows idx \<longleftrightarrow>
     (\<forall>j k p. idx (j, k) = Some p \<longleftrightarrow> (\<exists>e. rows p = Some e \<and> holds_key j k e))"

definition cache_inv :: "CacheInner \<Rightarrow> bool" where
  "cache_inv c \<longleftrightarrow> hm_wf (by_payment_id c) \<and> hm_wf (by_idempotency c)
    \<and> (\<forall>p e. cache_rows c p = Some e \<longrightarrow> pe_payment_id e = p)
    \<and> index_agrees (cache_rows c) (hm_get (by_idempotency c))"

lemma index_agrees_insert:
  assumes "index_agrees rows idx" "insertable rows e"
  shows "index_agrees (rows(pe_payment_id e \<mapsto> e))
    (case pe_idempotency_key e of None \<Rightarrow> idx
     | Some k \<Rightarrow> idx((pe_agent_dpop_jkt e, k) \<mapsto> pe_payment_id e))"
  unfolding index_agrees_def
proof (intro allI)
  fix j k p
  have iff: "idx (j, k) = Some p \<longleftrightarrow> (\<exists>f. rows p = Some f \<and> holds_key j k f)"
    using assms(1) unfolding index_agrees_def by blast
  have new: "rows (pe_payment_id e) = None"
    and none: "pe_idempotency_key e = Some k \<Longrightarrow> pe_agent_dpop_jkt e = j \<Longrightarrow>
         rows q = Some f \<Longrightarrow> \<not> holds_key j k f" for q f
    using assms(2) unfolding insertable_def by blast+
  show "(case pe_idempotency_key e of None \<Rightarrow> idx
     | Some k \<Rightarrow> idx((pe_agent_dpop_jkt e, k) \<mapsto> pe_payment_id e)) (j, k) = Some p \<longleftrightarrow>
     (\<exists>f. (rows(pe_payment_id e \<mapsto> e)) p = Some f \<and> holds_key j k f)"
  proof (cases "p = pe_payment_id e")
    case True
    then show ?thesis using iff new by (auto simp: holds_key_def split: option.splits)
  next
    case other: False
    show ?thesis
    proof (cases "pe_idempotency_key e = Some k \<and> pe_agent_dpop_jkt e = j")
      case True
      then have "\<not> (\<exists>f. rows p = Some f \<and> holds_key j k f)" using none by blast
      then show ?thesis using True other by simp
    next
      case False
      then show ?thesis using iff other by (auto split: option.splits)
    qed
  qed
qed

lemma index_agrees_remove:
  assumes "index_agrees rows idx"
  shows "index_agrees (rows(p := None))
    (case rows p of None \<Rightarrow> idx | Some e \<Rightarrow>
       (case pe_idempotency_key e of None \<Rightarrow> idx
        | Some k \<Rightarrow> idx((pe_agent_dpop_jkt e, k) := None)))"
  unfolding index_agrees_def
proof (intro allI)
  fix j k q
  have iff: "idx (j, k) = Some q' \<longleftrightarrow> (\<exists>f. rows q' = Some f \<and> holds_key j k f)" for q'
    using assms unfolding index_agrees_def by blast
  then show "(case rows p of None \<Rightarrow> idx | Some e \<Rightarrow>
       (case pe_idempotency_key e of None \<Rightarrow> idx
        | Some k \<Rightarrow> idx((pe_agent_dpop_jkt e, k) := None))) (j, k) = Some q \<longleftrightarrow>
     (\<exists>f. (rows(p := None)) q = Some f \<and> holds_key j k f)"
  proof (cases "idx (j, k)")
    case None
    then show ?thesis using iff [of q] by (auto split: option.splits)
  next
    case (Some q0)
    then show ?thesis using iff [of q] iff [of q0] iff [of p]
      by (cases "q = p"; cases "q = q0") (auto simp: holds_key_def split: option.splits)
  qed
qed

lemma index_agrees_sweep:
  assumes "index_agrees rows idx"
  shows "index_agrees (unexpired now rows)
    (\<lambda>jk. case idx jk of None \<Rightarrow> None
      | Some p \<Rightarrow> if unexpired now rows p = None then None else Some p)"
  unfolding index_agrees_def
proof (intro allI)
  fix j k q
  have iff: "idx (j, k) = Some q' \<longleftrightarrow> (\<exists>f. rows q' = Some f \<and> holds_key j k f)" for q'
    using assms unfolding index_agrees_def by blast
  show "(case idx (j, k) of None \<Rightarrow> None
      | Some p \<Rightarrow> if unexpired now rows p = None then None else Some p) = Some q \<longleftrightarrow>
     (\<exists>f. unexpired now rows q = Some f \<and> holds_key j k f)"
  proof (cases "idx (j, k)")
    case None
    then show ?thesis using iff [of q] by (auto simp: unexpired_def split: option.splits)
  next
    case (Some q0)
    then show ?thesis using iff [of q] iff [of q0]
      by (cases "q = q0") (auto simp: unexpired_def split: option.splits)
  qed
qed

lemma cache_inv_empty: "cache_inv cache_empty"
  by (simp add: cache_inv_def cache_empty_def cache_rows_def index_agrees_def)

lemma cache_rows_insert:
  "cache_rows (snd (cache_insert e c)) = (cache_rows c)(pe_payment_id e \<mapsto> e)"
  by (auto simp: cache_insert_def cache_rows_def Let_def hm_simps fun_eq_iff split: option.splits)

lemma cache_index_insert:
  "hm_get (by_idempotency (snd (cache_insert e c))) =
    (case pe_idempotency_key e of None \<Rightarrow> hm_get (by_idempotency c)
     | Some k \<Rightarrow> (hm_get (by_idempotency c))((pe_agent_dpop_jkt e, k) \<mapsto> pe_payment_id e))"
  by (auto simp: cache_insert_def Let_def hm_simps fun_eq_iff split: option.splits)

lemma cache_inv_insert:
  assumes "cache_inv c" "insertable (cache_rows c) e"
  shows "cache_inv (snd (cache_insert e c))"
proof -
  have "hm_wf (by_payment_id (snd (cache_insert e c)))" "hm_wf (by_idempotency (snd (cache_insert e c)))"
    using assms(1) by (auto simp: cache_inv_def cache_insert_def Let_def split: option.splits)
  moreover have "index_agrees (cache_rows c) (hm_get (by_idempotency c))"
    using assms(1) by (simp add: cache_inv_def)
  ultimately show ?thesis
    using assms index_agrees_insert [of "cache_rows c" _ e]
    unfolding cache_inv_def cache_rows_insert cache_index_insert by simp
qed

lemma cache_rows_remove:
  "fst (cache_remove p c) = Ok (cache_rows c p)"
  "cache_rows (snd (cache_remove p c)) = (cache_rows c)(p := None)"
  by (auto simp: cache_remove_def cache_rows_def Let_def hm_simps fun_eq_iff split: option.splits)

lemma cache_index_remove:
  "hm_get (by_idempotency (snd (cache_remove p c))) =
    (case cache_rows c p of None \<Rightarrow> hm_get (by_idempotency c) | Some e \<Rightarrow>
       (case pe_idempotency_key e of None \<Rightarrow> hm_get (by_idempotency c)
        | Some k \<Rightarrow> (hm_get (by_idempotency c))((pe_agent_dpop_jkt e, k) := None)))"
  by (auto simp: cache_remove_def cache_rows_def Let_def hm_simps fun_eq_iff split: option.splits)

lemma cache_inv_remove:
  assumes "cache_inv c" shows "cache_inv (snd (cache_remove p c))"
proof -
  have "hm_wf (by_payment_id (snd (cache_remove p c)))" "hm_wf (by_idempotency (snd (cache_remove p c)))"
    using assms by (auto simp: cache_inv_def cache_remove_def Let_def split: option.splits)
  moreover have "index_agrees (cache_rows c) (hm_get (by_idempotency c))"
    using assms by (simp add: cache_inv_def)
  ultimately show ?thesis
    using assms index_agrees_remove [of "cache_rows c" _ p]
    unfolding cache_inv_def cache_rows_remove cache_index_remove by simp
qed

lemma cache_rows_sweep:
  assumes "cache_inv c"
  shows "cache_rows (snd (cache_sweep_expired now c)) = unexpired now (cache_rows c)"
  using assms by (simp add: cache_inv_def cache_sweep_expired_def Let_def cache_rows_def
      unexpired_def hm_simps fun_eq_iff)

lemma cache_index_sweep:
  assumes "cache_inv c"
  shows "hm_get (by_idempotency (snd (cache_sweep_expired now c))) =
    (\<lambda>jk. case hm_get (by_idempotency c) jk of None \<Rightarrow> None
      | Some p \<Rightarrow> if unexpired now (cache_rows c) p = None then None else Some p)"
proof -
  let ?rows = "hm_retain (\<lambda>_ e. pe_expires_at_unix_seconds e > now) (by_payment_id c)"
  have live: "p \<in> set (map fst ?rows) \<longleftrightarrow> unexpired now (cache_rows c) p \<noteq> None" for p
    using cache_rows_sweep [OF assms, of now] map_of_eq_None_iff [of ?rows p]
    by (simp add: cache_sweep_expired_def Let_def cache_rows_def fun_eq_iff)
  have "by_idempotency (snd (cache_sweep_expired now c)) =
      hm_retain (\<lambda>_ p. unexpired now (cache_rows c) p \<noteq> None) (by_idempotency c)"
    unfolding cache_sweep_expired_def Let_def live by simp
  moreover have "hm_wf (by_idempotency c)" using assms by (simp add: cache_inv_def)
  ultimately show ?thesis by (auto simp: hm_simps fun_eq_iff split: option.splits)
qed

lemma cache_inv_sweep:
  assumes "cache_inv c" shows "cache_inv (snd (cache_sweep_expired now c))"
proof -
  have "hm_wf (by_payment_id (snd (cache_sweep_expired now c)))"
    "hm_wf (by_idempotency (snd (cache_sweep_expired now c)))"
    using assms by (simp_all add: cache_inv_def cache_sweep_expired_def Let_def)
  moreover have "index_agrees (cache_rows c) (hm_get (by_idempotency c))"
    using assms by (simp add: cache_inv_def)
  moreover have "unexpired now (cache_rows c) p = Some e \<Longrightarrow> pe_payment_id e = p" for p e
    using assms by (simp add: cache_inv_def unexpired_def split: option.splits if_splits)
  ultimately show ?thesis
    using index_agrees_sweep [of "cache_rows c" _ now]
    unfolding cache_inv_def cache_rows_sweep [OF assms] cache_index_sweep [OF assms] by simp
qed

lemma cache_card: "cache_inv c \<Longrightarrow> card (dom (cache_rows c)) = length (by_payment_id c)"
proof -
  assume "cache_inv c"
  then have "distinct (map fst (by_payment_id c))" by (simp add: cache_inv_def hm_wf_def)
  moreover have "dom (cache_rows c) = set (map fst (by_payment_id c))"
    by (simp add: dom_map_of_conv_image_fst cache_rows_def)
  ultimately show ?thesis using distinct_card by fastforce
qed

lemma cache_find_key:
  assumes "cache_inv c" "cache_find_by_idempotency j k c = Ok r"
  shows "r = Some e \<longleftrightarrow> cache_rows c (pe_payment_id e) = Some e \<and> holds_key j k e"
proof -
  have idx: "hm_get (by_idempotency c) (j, k) = Some p \<longleftrightarrow> (\<exists>f. cache_rows c p = Some f \<and> holds_key j k f)"
    and id: "cache_rows c p = Some f \<Longrightarrow> pe_payment_id f = p" for p f
    using assms(1) by (simp_all add: cache_inv_def index_agrees_def)
  have r: "r = (case hm_get (by_idempotency c) (j, k) of None \<Rightarrow> None | Some p \<Rightarrow> cache_rows c p)"
    using assms(2) by (simp add: cache_find_by_idempotency_def cache_rows_def split: option.splits)
  show ?thesis
  proof (cases "hm_get (by_idempotency c) (j, k)")
    case None
    then show ?thesis using r idx [of "pe_payment_id e"] by auto
  next
    case (Some p)
    then obtain f where "cache_rows c p = Some f" "holds_key j k f" using idx by blast
    moreover from this have "pe_payment_id f = p" using id by blast
    moreover have "r = Some f" using r Some calculation by simp
    moreover have "holds_key j k e \<Longrightarrow> cache_rows c (pe_payment_id e) = Some e \<Longrightarrow> pe_payment_id e = p"
      using idx [of "pe_payment_id e"] Some by auto
    ultimately show ?thesis by auto
  qed
qed

lemma cache_sweep_count:
  assumes "cache_inv c" "cache_sweep_expired now c = (Inr n, c')"
  shows "card (dom (cache_rows c')) + n = card (dom (cache_rows c))"
proof -
  have "cache_inv c'" using cache_inv_sweep [OF assms(1), of now] assms(2) by simp
  then show ?thesis using assms
    by (auto simp: cache_card cache_sweep_expired_def Let_def hm_length_retain_le)
qed

interpretation cache: prepared_tx_store PreparedTxCache cache_inv cache_rows b64 for b64
proof (unfold_locales, goal_cases)
  case (1 s p e)
  then show ?case by (simp add: cache_inv_def)
next
  case (2 s)
  then show ?case by (simp add: cache_rows_def finite_dom_map_of)
next
  case (3 s e u s')
  then show ?case using cache_inv_insert [of s e] cache_rows_insert [of e s] by simp
next
  case (6 s jkt key r e)
  then show ?case using cache_find_key by simp
next
  case (7 s p r s')
  then show ?case using cache_inv_remove [of s p] cache_rows_remove [of p s] by simp
next
  case (9 s now n s')
  then show ?case using cache_inv_sweep [of s now] cache_rows_sweep [of s now] cache_sweep_count [of s now] by simp
next
  case (11 s n)
  then show ?case by (simp add: cache_entry_count_def cache_card)
qed (auto simp: cache_insert_def cache_find_by_payment_id_def cache_remove_def cache_sweep_expired_def
    cache_rows_def Let_def)

subsection \<open>Amounts survive the decimal rendering\<close>

text \<open>Reference reader of a decimal ZEC amount with at most eight decimals, in zatoshis.\<close>

definition zec_value :: "string \<Rightarrow> nat" where
  "zec_value s = (let w = takeWhile (\<lambda>c. c \<noteq> CHR ''.'') s; f = drop (length w + 1) s
     in dec_val w * 10 ^ 8 + dec_val f * 10 ^ (8 - length f))"

lemma digit_not_dot: "d < 10 \<Longrightarrow> digit_char d \<noteq> CHR ''.''"
proof
  assume "d < 10" "digit_char d = CHR ''.''"
  then have "digit_val (CHR ''.'') = d" using digit_val_digit_char by metis
  then have "d = 0" by (simp add: digit_val_def byte_of_def)
  then show False using \<open>digit_char d = CHR ''.''\<close> by (simp add: digit_char_def char_of_def)
qed

lemma takeWhile_dec_str:
  "takeWhile (\<lambda>c. c \<noteq> CHR ''.'') (dec_str n) = dec_str n"
  "takeWhile (\<lambda>c. c \<noteq> CHR ''.'') (dec_str n @ CHR ''.'' # t) = dec_str n"
proof -
  have "\<forall>c \<in> set (dec_str n). c \<noteq> CHR ''.''" using dec_str_digits digit_not_dot by metis
  then show "takeWhile (\<lambda>c. c \<noteq> CHR ''.'') (dec_str n) = dec_str n"
    "takeWhile (\<lambda>c. c \<noteq> CHR ''.'') (dec_str n @ CHR ''.'' # t) = dec_str n"
    by (simp_all add: takeWhile_append2 takeWhile_eq_all_conv)
qed

lemma fraction_digits:
  assumes "f < 10 ^ 8"
  shows "length (trim_end_matches (CHR ''0'') (pad0 8 (dec_str f))) \<le> 8"
    and "dec_val (trim_end_matches (CHR ''0'') (pad0 8 (dec_str f))) *
      10 ^ (8 - length (trim_end_matches (CHR ''0'') (pad0 8 (dec_str f)))) = f"
proof -
  let ?s = "pad0 8 (dec_str f)" and ?t = "trim_end_matches (CHR ''0'') (pad0 8 (dec_str f))"
  have len: "length ?s = 8" using assms by (intro length_pad0 length_dec_str_le) simp_all
  have split: "?s = ?t @ replicate (8 - length ?t) (CHR ''0'')"
    using trim_end_matches_split [of ?s "CHR ''0''"] len by simp
  show "length ?t \<le> 8" using arg_cong [OF split, of length] len by simp
  have "f = dec_val ?s" by (simp add: dec_val_dec_str)
  also have "\<dots> = dec_val ?t * 10 ^ (8 - length ?t)"
    by (subst split) (simp add: dec_val_append)
  finally show "dec_val ?t * 10 ^ (8 - length ?t) = f" by simp
qed

lemma zec_value_format: "zec_value (format_zec_from_zat z) = unat z"
proof -
  let ?w = "unat z div 100000000" and ?f = "unat z mod 100000000"
  have uw: "unat (z div 100000000) = ?w" and uf: "unat (z mod 100000000) = ?f"
    by (simp_all add: unat_div unat_mod)
  have f0: "z mod 100000000 = 0 \<longleftrightarrow> ?f = 0" using uf by (metis unat_eq_zero)
  have sum: "?w * 10 ^ 8 + ?f = unat z" by simp
  show ?thesis
  proof (cases "?f = 0")
    case True
    then have "format_zec_from_zat z = dec_str ?w"
      using f0 by (simp add: format_zec_from_zat_def Let_def uw)
    then show ?thesis using sum True
      by (simp add: zec_value_def Let_def takeWhile_dec_str dec_val_dec_str)
  next
    case False
    let ?t = "trim_end_matches (CHR ''0'') (pad0 8 (dec_str ?f))"
    have "format_zec_from_zat z = dec_str ?w @ CHR ''.'' # ?t"
      using f0 False by (simp add: format_zec_from_zat_def Let_def uw uf)
    moreover have "?f < 10 ^ 8" by simp
    ultimately show ?thesis using sum fraction_digits(2) [of ?f]
      by (simp add: zec_value_def Let_def takeWhile_dec_str dec_val_dec_str)
  qed
qed

subsection \<open>Properties\<close>

text \<open>A small deployment for the concrete instances below.\<close>

definition ex_sha :: "bytes \<Rightarrow> bytes" where "ex_sha x = replicate 32 (of_nat (length x))"
definition ex_b64 :: "bytes \<Rightarrow> string" where "ex_b64 x = ''bWVtbw''"
definition ex_accepts :: AcceptsEntry where
  "ex_accepts = \<lparr>ae_scheme = Zcash, ae_network = Testnet, ae_pay_to = ''utest1a'',
     ae_amount_zat = 150000000, ae_max_validity_seconds = 0, ae_expiry_delta_blocks = None,
     ae_merchant_requires_verify = False\<rparr>"
definition ex_registry :: PayeeRegistry where "ex_registry = register ''shop'' [ex_accepts] registry_new"
definition ex_tip :: ChainTipOracle where "ex_tip n = Ok 1000"
definition ex_request :: "string \<Rightarrow> string \<Rightarrow> PrepareRequest" where
  "ex_request uri key = \<lparr>rq_payee_id = ''shop'', rq_network = Testnet, rq_scheme = Zcash,
     rq_resource_uri = uri, rq_nonce = ''n1'', rq_evidence_pack_hash = None,
     rq_idempotency_key = Some key\<rparr>"
definition ex_proposed :: "(PrepareError + Preparation) \<times> CacheInner" where
  "ex_proposed = propose PreparedTxCache ex_sha ex_b64 ex_registry ex_tip ''id1'' 100
     (ex_request ''https://a'' ''k'') ''agent'' cache_empty"

text \<open>The lookups of the cache always answer, and a sweep decides whether a held key replays.\<close>

lemma cache_lookup_answers: "\<exists>r. cache_find_by_idempotency jkt key c = Ok r"
  by (simp add: cache_find_by_idempotency_def split: option.splits)

lemma propose_after_sweep:
  assumes c: "cache_inv c" "cache_rows c q = Some e" "holds_key jkt key e"
    and key: "trim key \<noteq> []" "rq_idempotency_key rq = Some key"
  shows "propose PreparedTxCache sha256 b64 reg tip fid now rq jkt (snd (cache_sweep_expired t c)) =
    (if t < pe_expires_at_unix_seconds e then (Ok (pe_preparation e), snd (cache_sweep_expired t c))
     else propose_fresh PreparedTxCache sha256 b64 reg tip fid now rq jkt (snd (cache_sweep_expired t c)))"
proof -
  let ?c = "snd (cache_sweep_expired t c)"
  have swept: "cache_inv ?c" "cache_rows ?c = unexpired t (cache_rows c)"
    using cache_inv_sweep cache_rows_sweep c(1) by blast+
  obtain r where r: "cache_find_by_idempotency jkt key ?c = Ok r" using cache_lookup_answers by blast
  show ?thesis
  proof (cases "t < pe_expires_at_unix_seconds e")
    case True
    then have "cache_rows ?c q = Some e" using swept(2) c(2) by (simp add: unexpired_def)
    then show ?thesis using cache.propose_replay [OF swept(1) _ c(3) key] r True by simp
  next
    case False
    have "r \<noteq> Some f" for f
    proof
      assume "r = Some f"
      then have f: "unexpired t (cache_rows c) (pe_payment_id f) = Some f" "holds_key jkt key f"
        using cache_find_key [OF swept(1) r] swept(2) by simp_all
      then have "cache_rows c (pe_payment_id f) = Some f" "t < pe_expires_at_unix_seconds f"
        by (auto simp: unexpired_def split: option.splits if_splits)
      moreover obtain r0 where "cache_find_by_idempotency jkt key c = Ok r0"
        using cache_lookup_answers by blast
      ultimately have "q = pe_payment_id f" using cache.key_unique [OF c(1) _ c(2,3) _ f(2)] by simp
      then show False
        using c(2) False \<open>cache_rows c (pe_payment_id f) = Some f\<close> \<open>t < pe_expires_at_unix_seconds f\<close> by simp
    qed
    then have "r = None" by (cases r) blast+
    then show ?thesis using False r key by (simp add: propose_def usable_key_def)
  qed
qed

text \<open>[C1] Idempotent replay of the in-memory store, until a sweep: once a prepare with a non-blank
  idempotency key has succeeded, every later prepare of the same agent (same DPoP thumbprint)
  with the same key returns the original preparation and leaves the store as it is, whatever the
  rest of the request, the registry, the chain tip, the clock and the fresh id are.  The clock
  plays no part: the trait doc says that an expired preparation is not found, but the lookup
  compares no time, and an expired preparation is replayed until a sweep removes it.  A sweep is
  what ends the replay: after a sweep at a time before the expiry of the preparation the replay
  is as before, after one at or past the expiry the same request prepares afresh.\<close>

theorem propose_idempotent:
  assumes "cache_inv c" "cache_rows c fid = None"
    and "propose PreparedTxCache sha256 b64 reg tip fid now rq jkt c = (Ok p, c')"
    and "rq_idempotency_key rq = Some key" "trim key \<noteq> []" "rq_idempotency_key rq' = Some key"
  shows "propose PreparedTxCache sha256 b64 reg' tip' fid' now' rq' jkt c' = (Ok p, c')
    \<and> (\<exists>e. cache_rows c' (pr_payment_id p) = Some e \<and> pe_preparation e = p
        \<and> propose PreparedTxCache sha256 b64 reg' tip' fid' now' rq' jkt (snd (cache_sweep_expired t c')) =
          (if t < pe_expires_at_unix_seconds e then (Ok p, snd (cache_sweep_expired t c'))
           else propose_fresh PreparedTxCache sha256 b64 reg' tip' fid' now' rq' jkt
                  (snd (cache_sweep_expired t c'))))"
proof -
  have uk: "usable_key (rq_idempotency_key rq) = Some key" using assms by (simp add: usable_key_def)
  obtain e where e: "cache_rows c' (pr_payment_id p) = Some e" "pe_preparation e = p" "holds_key jkt key e"
    using cache.propose_Ok_held [OF assms(1-3)] uk by blast
  have c': "cache_inv c'" by (rule cache.propose_inv [OF assms(1-3)])
  obtain r where "cache_find_by_idempotency jkt key c' = Ok r" using cache_lookup_answers by blast
  then have "propose PreparedTxCache sha256 b64 reg' tip' fid' now' rq' jkt c' = (Ok p, c')"
    using cache.propose_replay [OF c' e(1,3) assms(5,6)] e(2) by simp
  then show ?thesis using propose_after_sweep [OF c' e(1,3) assms(5,6)] e(1,2) by blast
qed

lemma ex_key_usable: "trim ''k'' = ''k''"
  by code_simp

lemma ex_proposed_eq:
  "ex_proposed = (Ok (pe_preparation (proposed_entry ex_sha ex_b64 ''id1'' 100
      (ex_request ''https://a'' ''k'') ''agent'' ex_accepts 1040)),
    snd (cache_insert (proposed_entry ex_sha ex_b64 ''id1'' 100
      (ex_request ''https://a'' ''k'') ''agent'' ex_accepts 1040) cache_empty))"
  by (simp add: ex_proposed_def propose_def propose_fresh_def ex_registry_def register_def registry_new_def
      registry_find_def ex_request_def ex_accepts_def ex_tip_def expiry_delta_def saturating_add_def
      DEFAULT_EXPIRY_DELTA_BLOCKS_def usable_key_def ex_key_usable cache_find_by_idempotency_def
      cache_insert_def cache_empty_def Let_def)

text \<open>The instance: prepared at second 100 and valid for 300 seconds, the preparation is replayed at
  second 500, and after a sweep at second 399; after a sweep at second 400 the retry gets a new
  payment id.\<close>

definition ex_retry :: "PayeeRegistry \<Rightarrow> CacheInner \<Rightarrow> (PrepareError + Preparation) \<times> CacheInner" where
  "ex_retry reg c = propose PreparedTxCache ex_sha ex_b64 reg ex_tip ''id2'' 500
     (ex_request ''https://b'' ''k'') ''agent'' c"

theorem propose_idempotent_witness:
  "\<exists>p c'. ex_proposed = (Ok p, c') \<and> ex_retry [] c' = (Ok p, c')
    \<and> ex_retry ex_registry (snd (cache_sweep_expired 399 c')) = (Ok p, snd (cache_sweep_expired 399 c'))
    \<and> (\<exists>p2 c2. ex_retry ex_registry (snd (cache_sweep_expired 400 c')) = (Ok p2, c2)
          \<and> pr_payment_id p = ''id1'' \<and> pr_payment_id p2 = ''id2'')"
proof -
  let ?e = "proposed_entry ex_sha ex_b64 ''id1'' 100 (ex_request ''https://a'' ''k'') ''agent'' ex_accepts 1040"
  obtain p c' where ex: "ex_proposed = (Ok p, c')" and p: "p = pe_preparation ?e"
    and c': "c' = snd (cache_insert ?e cache_empty)" using ex_proposed_eq by simp
  have e: "cache_rows c' (pr_payment_id p) = Some f \<longleftrightarrow> f = ?e" for f
    unfolding c' p cache_rows_insert by auto
  have expiry: "pe_expires_at_unix_seconds ?e = 400"
    by (simp add: proposed_entry_def ex_accepts_def saturating_add_def DEFAULT_VALIDITY_SECONDS_def Let_def)
  note replay = propose_idempotent [OF cache_inv_empty _ ex [unfolded ex_proposed_def], where key = "''k''"
      and rq' = "ex_request ''https://b'' ''k''" and tip' = ex_tip and fid' = "''id2''" and now' = 500]
  have side: "cache_rows cache_empty ''id1'' = None"
    "rq_idempotency_key (ex_request u ''k'') = Some ''k''" "trim ''k'' \<noteq> []" for u
    by (simp_all add: cache_rows_def cache_empty_def ex_request_def ex_key_usable)
  have now: "ex_retry reg c' = (Ok p, c')" for reg
    using replay [of reg] side unfolding ex_retry_def by blast
  have swept: "ex_retry reg (snd (cache_sweep_expired t c')) = (if t < 400
      then (Ok p, snd (cache_sweep_expired t c'))
      else propose_fresh PreparedTxCache ex_sha ex_b64 reg ex_tip ''id2'' 500
        (ex_request ''https://b'' ''k'') ''agent'' (snd (cache_sweep_expired t c')))" for reg t
    using replay [of reg t] side e expiry unfolding ex_retry_def by auto
  have fresh: "\<exists>p2 c2. propose_fresh PreparedTxCache ex_sha ex_b64 ex_registry ex_tip ''id2'' 500
        (ex_request ''https://b'' ''k'') ''agent'' c = (Ok p2, c2) \<and> pr_payment_id p2 = ''id2''" for c
    by (simp add: propose_fresh_def ex_registry_def register_def registry_new_def registry_find_def
      ex_request_def ex_accepts_def ex_tip_def expiry_delta_def saturating_add_def
      DEFAULT_EXPIRY_DELTA_BLOCKS_def cache_insert_def Let_def)
  have id1: "pr_payment_id p = ''id1''" by (simp add: p)
  have early: "ex_retry ex_registry (snd (cache_sweep_expired 399 c')) = (Ok p, snd (cache_sweep_expired 399 c'))"
    using swept [of ex_registry 399] by simp
  have "\<exists>p2 c2. ex_retry ex_registry (snd (cache_sweep_expired 400 c')) = (Ok p2, c2) \<and> pr_payment_id p2 = ''id2''"
    using swept [of ex_registry 400] fresh by simp
  then show ?thesis using ex now [of "[]"] early id1 by blast
qed

end
