(* ===== verification/Status.thy ===== *)
theory Status
  imports Prepare "HOL-Library.List_Lexorder" "HOL-Library.Char_ord"
begin

text \<open>
  The settlement ledger and the status projection
  (\<open>zpay-core/src/status.rs\<close>): the ledger row and snapshot types, the
  \<open>SettlementLedgerStore\<close> trait as a record of operations, its in-memory
  implementation, \<open>lookup_payment_status\<close> and \<open>classify_success_row\<close>.
  The ledger contract is the locale \<open>settlement_ledger_store\<close>.
\<close>

definition DEFAULT_FINALITY_DEPTH :: u32 where "DEFAULT_FINALITY_DEPTH = 3"

datatype PaymentStatus = Awaiting | Broadcast | StatusMined | Final | Failed | NeverIssued | Expired

fun is_terminal :: "PaymentStatus \<Rightarrow> bool" where
  "is_terminal Failed = True"
| "is_terminal NeverIssued = True"
| "is_terminal Expired = True"
| "is_terminal _ = False"

datatype IntentPosture = Unverified | VerifyInFlight | Verified | VerificationFailed

record PaymentStatusSnapshot =
  sn_payment_id :: PaymentId
  sn_status :: PaymentStatus
  sn_intent_posture :: IntentPosture
  sn_broadcast_outcome :: "BroadcastOutcome option"
  sn_settled_at_unix_seconds :: "i64 option"
  sn_confirmation_count :: "u32 option"
  sn_mined_block_height :: "u64 option"
  sn_reorg_count :: u32
  sn_settled :: bool

definition stream_closed :: "PaymentStatusSnapshot \<Rightarrow> bool" where
  "stream_closed snap \<longleftrightarrow> sn_settled snap \<or> is_terminal (sn_status snap)"

record SettlementLedgerEntry =
  le_broadcast_outcome :: BroadcastOutcome
  le_settled_at_unix_seconds :: i64
  le_confirmation_count :: "u32 option"
  le_mined_block_height :: "u64 option"
  le_reorg_count :: u32
  le_last_reorged_at :: "i64 option"
  le_expiry_height :: "u32 option"
  le_payee_id :: PayeeId
  le_amount_zat :: Zatoshis

record SuccessKindRow =
  sk_payment_id :: PaymentId
  sk_transaction_id :: string
  sk_mined_block_height :: "u64 option"

record 's SettlementLedgerStore =
  sl_record :: "PaymentId \<Rightarrow> SettlementLedgerEntry \<Rightarrow> 's \<Rightarrow> (StoreError + unit) \<times> 's"
  sl_find :: "PaymentId \<Rightarrow> 's \<Rightarrow> StoreError + SettlementLedgerEntry option"
  sl_entry_count :: "'s \<Rightarrow> StoreError + nat"
  sl_success_kind_transactions :: "'s \<Rightarrow> StoreError + SuccessKindRow list"
  sl_list_recent :: "u32 \<Rightarrow> PayeeId option \<Rightarrow> 's \<Rightarrow> StoreError + (PaymentId \<times> SettlementLedgerEntry) list"
  sl_record_confirmation :: "PaymentId \<Rightarrow> u32 \<Rightarrow> u64 option \<Rightarrow> 's \<Rightarrow> (StoreError + bool) \<times> 's"
  sl_downgrade_on_reorg :: "PaymentId \<Rightarrow> i64 \<Rightarrow> 's \<Rightarrow> (StoreError + bool) \<times> 's"
  sl_downgrade_reorged_range :: "u64 \<Rightarrow> u64 \<Rightarrow> i64 \<Rightarrow> 's \<Rightarrow> (StoreError + PaymentId list) \<times> 's"

subsection \<open>In-memory ledger\<close>

type_synonym SettlementLedger = "(PaymentId, SettlementLedgerEntry) hashmap"

definition ledger_record ::
  "PaymentId \<Rightarrow> SettlementLedgerEntry \<Rightarrow> SettlementLedger \<Rightarrow> (StoreError + unit) \<times> SettlementLedger" where
  "ledger_record pid entry m = (Ok (), hm_insert pid entry m)"

definition ledger_find :: "PaymentId \<Rightarrow> SettlementLedger \<Rightarrow> StoreError + SettlementLedgerEntry option" where
  "ledger_find pid m = Ok (hm_get m pid)"

definition ledger_entry_count :: "SettlementLedger \<Rightarrow> StoreError + nat" where
  "ledger_entry_count m = Ok (length m)"

definition ledger_success_kind_transactions :: "SettlementLedger \<Rightarrow> StoreError + SuccessKindRow list" where
  "ledger_success_kind_transactions m =
     Ok (List.map_filter (\<lambda>(pid, entry). map_option (\<lambda>txid.
           \<lparr>sk_payment_id = pid, sk_transaction_id = txid,
            sk_mined_block_height = le_mined_block_height entry\<rparr>)
         (transaction_id (le_broadcast_outcome entry))) m)"

definition payee_wanted :: "PayeeId option \<Rightarrow> SettlementLedgerEntry \<Rightarrow> bool" where
  "payee_wanted payee entry = (case payee of None \<Rightarrow> True | Some wanted \<Rightarrow> le_payee_id entry = wanted)"

definition ledger_list_recent ::
  "u32 \<Rightarrow> PayeeId option \<Rightarrow> SettlementLedger \<Rightarrow> StoreError + (PaymentId \<times> SettlementLedgerEntry) list" where
  "ledger_list_recent limit payee m =
     Ok (take (unat limit) (rev (sort_key fst (filter (\<lambda>(_, entry). payee_wanted payee entry) m))))"

definition confirm_entry :: "u32 \<Rightarrow> u64 option \<Rightarrow> SettlementLedgerEntry \<Rightarrow> SettlementLedgerEntry" where
  "confirm_entry count height entry =
    (let entry1 = entry\<lparr>le_confirmation_count := Some count\<rparr> in
     case height of None \<Rightarrow> entry1 | Some h \<Rightarrow> entry1\<lparr>le_mined_block_height := Some h\<rparr>)"

definition downgrade_entry :: "i64 \<Rightarrow> SettlementLedgerEntry \<Rightarrow> SettlementLedgerEntry" where
  "downgrade_entry reorged_at entry =
     entry\<lparr>le_mined_block_height := None, le_confirmation_count := Some 0,
           le_reorg_count := saturating_add (le_reorg_count entry) 1,
           le_last_reorged_at := Some reorged_at\<rparr>"

definition ledger_record_confirmation ::
  "PaymentId \<Rightarrow> u32 \<Rightarrow> u64 option \<Rightarrow> SettlementLedger \<Rightarrow> (StoreError + bool) \<times> SettlementLedger" where
  "ledger_record_confirmation pid count height m =
    (case hm_get m pid of None \<Rightarrow> (Ok False, m)
     | Some entry \<Rightarrow> (Ok True, hm_insert pid (confirm_entry count height entry) m))"

definition ledger_downgrade_on_reorg ::
  "PaymentId \<Rightarrow> i64 \<Rightarrow> SettlementLedger \<Rightarrow> (StoreError + bool) \<times> SettlementLedger" where
  "ledger_downgrade_on_reorg pid reorged_at m =
    (case hm_get m pid of None \<Rightarrow> (Ok False, m)
     | Some entry \<Rightarrow> if le_mined_block_height entry = None then (Ok False, m)
                     else (Ok True, hm_insert pid (downgrade_entry reorged_at entry) m))"

definition in_reverted_range :: "u64 \<Rightarrow> u64 \<Rightarrow> SettlementLedgerEntry \<Rightarrow> bool" where
  "in_reverted_range start end entry =
    (case le_mined_block_height entry of None \<Rightarrow> False
     | Some height \<Rightarrow> \<not> (height < start \<or> height > end))"

fun downgrade_loop ::
  "u64 \<Rightarrow> u64 \<Rightarrow> i64 \<Rightarrow> SettlementLedger \<Rightarrow> PaymentId list \<times> SettlementLedger" where
  "downgrade_loop start end reorged_at [] = ([], [])"
| "downgrade_loop start end reorged_at ((pid, entry) # rest) =
    (let (downgraded, rest') = downgrade_loop start end reorged_at rest in
     if \<not> in_reverted_range start end entry then (downgraded, (pid, entry) # rest')
     else (pid # downgraded, (pid, downgrade_entry reorged_at entry) # rest'))"

definition ledger_downgrade_reorged_range ::
  "u64 \<Rightarrow> u64 \<Rightarrow> i64 \<Rightarrow> SettlementLedger \<Rightarrow> (StoreError + PaymentId list) \<times> SettlementLedger" where
  "ledger_downgrade_reorged_range start end reorged_at m =
    (let (downgraded, m') = downgrade_loop start end reorged_at m in (Ok downgraded, m'))"

definition SettlementLedgerMem :: "SettlementLedger SettlementLedgerStore" where
  "SettlementLedgerMem = \<lparr>sl_record = ledger_record, sl_find = ledger_find,
     sl_entry_count = ledger_entry_count,
     sl_success_kind_transactions = ledger_success_kind_transactions,
     sl_list_recent = ledger_list_recent, sl_record_confirmation = ledger_record_confirmation,
     sl_downgrade_on_reorg = ledger_downgrade_on_reorg,
     sl_downgrade_reorged_range = ledger_downgrade_reorged_range\<rparr>"

lemma SettlementLedgerMem_ops [simp]:
  "sl_record SettlementLedgerMem = ledger_record"
  "sl_find SettlementLedgerMem = ledger_find"
  "sl_entry_count SettlementLedgerMem = ledger_entry_count"
  "sl_success_kind_transactions SettlementLedgerMem = ledger_success_kind_transactions"
  "sl_list_recent SettlementLedgerMem = ledger_list_recent"
  "sl_record_confirmation SettlementLedgerMem = ledger_record_confirmation"
  "sl_downgrade_on_reorg SettlementLedgerMem = ledger_downgrade_on_reorg"
  "sl_downgrade_reorged_range SettlementLedgerMem = ledger_downgrade_reorged_range"
  by (simp_all add: SettlementLedgerMem_def)

subsection \<open>Status projection\<close>

definition unmined_status :: "SettlementLedgerEntry \<Rightarrow> ChainStatusView \<Rightarrow> PaymentStatus" where
  "unmined_status entry view =
    (let lapsed = (case le_expiry_height entry of None \<Rightarrow> False
                   | Some expiry \<Rightarrow> is_lapsed_at view (ucast expiry))
     in if lapsed then Expired else Broadcast)"

definition classify_success_row ::
  "SettlementLedgerEntry \<Rightarrow> u32 \<Rightarrow> ChainStatusView \<Rightarrow> PaymentStatus \<times> bool" where
  "classify_success_row entry finality_depth view =
    (case (le_mined_block_height entry, le_confirmation_count entry) of
       (Some height, Some count) \<Rightarrow>
         if count \<ge> 1
         then (if count \<ge> finality_depth then Final else StatusMined, is_settled_at view height)
         else (unmined_status entry view, False)
     | _ \<Rightarrow> (unmined_status entry view, False))"

definition ledger_snapshot ::
  "PaymentId \<Rightarrow> u32 \<Rightarrow> ChainStatusView \<Rightarrow> SettlementLedgerEntry \<Rightarrow> PaymentStatusSnapshot" where
  "ledger_snapshot pid finality_depth view entry =
    (let (status, settled) = (if is_success (le_broadcast_outcome entry)
           then classify_success_row entry finality_depth view else (Failed, False))
     in \<lparr>sn_payment_id = pid, sn_status = status, sn_intent_posture = Unverified,
         sn_broadcast_outcome = Some (le_broadcast_outcome entry),
         sn_settled_at_unix_seconds = Some (le_settled_at_unix_seconds entry),
         sn_confirmation_count = le_confirmation_count entry,
         sn_mined_block_height = le_mined_block_height entry,
         sn_reorg_count = le_reorg_count entry, sn_settled = settled\<rparr>)"

definition plain_snapshot :: "PaymentId \<Rightarrow> PaymentStatus \<Rightarrow> PaymentStatusSnapshot" where
  "plain_snapshot pid status =
     \<lparr>sn_payment_id = pid, sn_status = status, sn_intent_posture = Unverified,
      sn_broadcast_outcome = None, sn_settled_at_unix_seconds = None,
      sn_confirmation_count = None, sn_mined_block_height = None, sn_reorg_count = 0,
      sn_settled = False\<rparr>"

definition lookup_payment_status ::
  "'p PreparedTxStore \<Rightarrow> 'l SettlementLedgerStore \<Rightarrow> u64 \<Rightarrow> PaymentId \<Rightarrow> u32 \<Rightarrow> ChainStatusView
     \<Rightarrow> 'p \<Rightarrow> 'l \<Rightarrow> StoreError + PaymentStatusSnapshot" where
  "lookup_payment_status P L now pid finality_depth view p l =
    (case sl_find L pid l of
       Inl e \<Rightarrow> Err e
     | Inr (Some entry) \<Rightarrow> Ok (ledger_snapshot pid finality_depth view entry)
     | Inr None \<Rightarrow>
       (case pts_find_by_payment_id P pid p of
          Inl e \<Rightarrow> Err e
        | Inr (Some entry) \<Rightarrow>
            Ok (plain_snapshot pid (if pe_expires_at_unix_seconds entry > now then Awaiting else Expired))
        | Inr None \<Rightarrow> Ok (plain_snapshot pid NeverIssued)))"

subsection \<open>The ledger contract\<close>

text \<open>A ledger stores exactly the rows whose 64-bit columns satisfy its bound \<open>fits\<close>: any
  value in memory, the signed range (\<open>fits_i64\<close>) where a column is a SQL integer.\<close>

definition fits_i64 :: "u64 \<Rightarrow> bool" where "fits_i64 w \<longleftrightarrow> uint w \<le> i64_max"

definition entry_fits :: "(u64 \<Rightarrow> bool) \<Rightarrow> SettlementLedgerEntry \<Rightarrow> bool" where
  "entry_fits fits e \<longleftrightarrow> fits (le_amount_zat e) \<and> pred_option fits (le_mined_block_height e)"

definition success_row_of :: "PaymentId \<Rightarrow> SettlementLedgerEntry \<Rightarrow> SuccessKindRow option" where
  "success_row_of pid entry = map_option (\<lambda>txid.
     \<lparr>sk_payment_id = pid, sk_transaction_id = txid,
      sk_mined_block_height = le_mined_block_height entry\<rparr>)
     (transaction_id (le_broadcast_outcome entry))"

definition downgrade_if_mined :: "i64 \<Rightarrow> SettlementLedgerEntry \<Rightarrow> SettlementLedgerEntry" where
  "downgrade_if_mined at e = (if le_mined_block_height e = None then e else downgrade_entry at e)"

definition downgrade_in_range :: "u64 \<Rightarrow> u64 \<Rightarrow> i64 \<Rightarrow> SettlementLedgerEntry \<Rightarrow> SettlementLedgerEntry" where
  "downgrade_in_range a b at e = (if in_reverted_range a b e then downgrade_entry at e else e)"

definition recent_rows ::
  "u32 \<Rightarrow> PayeeId option \<Rightarrow> (PaymentId \<Rightarrow> SettlementLedgerEntry option)
     \<Rightarrow> (PaymentId \<times> SettlementLedgerEntry) list \<Rightarrow> bool" where
  "recent_rows n payee led rows \<longleftrightarrow>
     (\<forall>(p, e) \<in> set rows. led p = Some e \<and> payee_wanted payee e)
     \<and> sorted_wrt (\<lambda>x y. fst y < fst x) rows
     \<and> length rows \<le> unat n
     \<and> (\<forall>p e. led p = Some e \<longrightarrow> payee_wanted payee e \<longrightarrow> (p, e) \<notin> set rows
          \<longrightarrow> length rows = unat n \<and> (\<forall>(q, _) \<in> set rows. p < q))"

locale settlement_ledger_store =
  fixes L :: "'s SettlementLedgerStore"
    and inv :: "'s \<Rightarrow> bool"
    and led :: "'s \<Rightarrow> PaymentId \<Rightarrow> SettlementLedgerEntry option"
    and fits :: "u64 \<Rightarrow> bool"
  assumes record_ok: "inv s \<Longrightarrow> entry_fits fits e \<Longrightarrow> sl_record L p e s = (Inr u, s') \<Longrightarrow>
          inv s' \<and> led s' = (led s)(p \<mapsto> e)"
    and record_err: "sl_record L p e s = (Inl x, s') \<Longrightarrow> s' = s"
    and find_ok: "inv s \<Longrightarrow> sl_find L p s = Inr r \<Longrightarrow> r = led s p"
    and count_ok: "inv s \<Longrightarrow> sl_entry_count L s = Inr n \<Longrightarrow> n = card (dom (led s))"
    and success_ok: "inv s \<Longrightarrow> sl_success_kind_transactions L s = Inr rows \<Longrightarrow>
          distinct (map sk_payment_id rows) \<and>
          set rows = {r. \<exists>p e. led s p = Some e \<and> success_row_of p e = Some r}"
    and recent_ok: "inv s \<Longrightarrow> sl_list_recent L limit payee s = Inr rs \<Longrightarrow> recent_rows limit payee (led s) rs"
    and confirm_ok: "inv s \<Longrightarrow> pred_option fits h \<Longrightarrow>
          sl_record_confirmation L p c h s = (Inr b, s') \<Longrightarrow>
          inv s' \<and> b = (led s p \<noteq> None) \<and>
          led s' = (led s)(p := map_option (confirm_entry c h) (led s p))"
    and confirm_err: "sl_record_confirmation L p c h s = (Inl x, s') \<Longrightarrow> s' = s"
    and downgrade_ok: "inv s \<Longrightarrow> sl_downgrade_on_reorg L p at s = (Inr b, s') \<Longrightarrow>
          inv s' \<and> b = (\<exists>e. led s p = Some e \<and> le_mined_block_height e \<noteq> None) \<and>
          led s' = (led s)(p := map_option (downgrade_if_mined at) (led s p))"
    and downgrade_err: "sl_downgrade_on_reorg L p at s = (Inl x, s') \<Longrightarrow> s' = s"
    and range_ok: "inv s \<Longrightarrow> fits lo \<Longrightarrow> fits hi \<Longrightarrow>
          sl_downgrade_reorged_range L lo hi at s = (Inr ids, s') \<Longrightarrow>
          inv s' \<and> distinct ids \<and>
          set ids = {p. \<exists>e. led s p = Some e \<and> in_reverted_range lo hi e} \<and>
          led s' = (\<lambda>p. map_option (downgrade_in_range lo hi at) (led s p))"
    and range_err: "sl_downgrade_reorged_range L lo hi at s = (Inl x, s') \<Longrightarrow> s' = s"

subsection \<open>The in-memory ledger meets the contract\<close>

lemma downgrade_loop_ledger:
  "snd (downgrade_loop a b at m) = map (\<lambda>(p, e). (p, downgrade_in_range a b at e)) m"
  by (induction m) (auto simp: downgrade_in_range_def split: prod.splits)

lemma downgrade_loop_ids:
  "fst (downgrade_loop a b at m) = map fst (filter (\<lambda>(p, e). in_reverted_range a b e) m)"
  by (induction m) (auto simp: case_prod_unfold)

lemma set_map_filter_success:
  "hm_wf m \<Longrightarrow> set (List.map_filter (\<lambda>(p, e). success_row_of p e) m) =
     {r. \<exists>p e. hm_get m p = Some e \<and> success_row_of p e = Some r}"
  by (auto simp: set_map_filter_iff hm_in_set [symmetric]) force+

lemma distinct_success_ids:
  "distinct (map fst m) \<Longrightarrow> distinct (map sk_payment_id (List.map_filter (\<lambda>(p, e). success_row_of p e) m))"
proof (induction m)
  case (Cons a m)
  have "sk_payment_id r \<in> fst ` set m" if "r \<in> set (List.map_filter (\<lambda>(p, e). success_row_of p e) m)" for r
    using that by (force simp: set_map_filter_iff success_row_of_def)
  then show ?case using Cons
    by (cases a) (auto simp: List.map_filter_simps success_row_of_def split: option.splits)
qed (simp add: List.map_filter_simps)

lemma sorted_wrt_rev_sort_key:
  assumes "distinct (map fst (m :: (string \<times> 'a) list))"
  shows "sorted_wrt (\<lambda>x y. fst y < fst x) (rev (sort_key fst m))"
proof -
  have "sorted (map fst (sort_key fst m))" "distinct (map fst (sort_key fst m))"
    using assms by (simp_all add: distinct_map inj_on_def)
  then have "sorted_wrt (<) (map fst (sort_key fst m))" by (simp add: strict_sorted_iff)
  then show ?thesis by (simp add: sorted_wrt_rev sorted_wrt_map)
qed

lemma ledger_list_recent_rows:
  assumes "hm_wf m" "ledger_list_recent n payee m = Ok rows"
  shows "recent_rows n payee (hm_get m) rows"
proof -
  let ?f = "filter (\<lambda>(_, e). payee_wanted payee e) m" and ?s = "rev (sort_key fst (filter (\<lambda>(_, e). payee_wanted payee e) m))"
  have rows: "rows = take (unat n) ?s" using assms(2) by (simp add: ledger_list_recent_def)
  have mem: "(p, e) \<in> set ?s \<longleftrightarrow> hm_get m p = Some e \<and> payee_wanted payee e" for p e
    using assms(1) by (simp add: hm_in_set)
  have "distinct (map fst ?f)" using assms(1) by (simp add: hm_wf_def distinct_map_filter)
  then have srt: "sorted_wrt (\<lambda>x y. fst y < fst x) ?s" by (rule sorted_wrt_rev_sort_key)
  show ?thesis unfolding recent_rows_def
  proof (intro conjI allI impI ballI)
    fix x assume "x \<in> set rows"
    then have "x \<in> set ?s" unfolding rows by (rule in_set_takeD)
    then show "case x of (p, e) \<Rightarrow> hm_get m p = Some e \<and> payee_wanted payee e"
      using mem [of "fst x" "snd x"] by (simp only: prod.collapse case_prod_beta)
  next
    show "sorted_wrt (\<lambda>x y. fst y < fst x) rows" using srt unfolding rows by (rule sorted_wrt_take)
  next
    fix p e
    assume e: "hm_get m p = Some e" "payee_wanted payee e" "(p, e) \<notin> set rows"
    then have "(p, e) \<in> set ?s" using mem by blast
    then show "length rows = unat n" using e(3) unfolding rows
      by (metis length_take linorder_not_less min.absorb2 nat_less_le take_all)
    fix x assume "x \<in> set rows"
    then show "case x of (q, _) \<Rightarrow> p < q"
      using take_sorted_wrt_desc [OF srt \<open>(p, e) \<in> set ?s\<close>, of "unat n" x] e(3)
      unfolding rows by (simp add: case_prod_beta)
  qed (simp add: rows)
qed

interpretation mem_ledger: settlement_ledger_store SettlementLedgerMem hm_wf hm_get "\<lambda>_. True"
proof (unfold_locales, goal_cases)
  case (4 s n)
  then show ?case
    by (metis Inr_inject SettlementLedgerMem_ops(3) distinct_card dom_map_of_conv_image_fst
        hm_wf_def ledger_entry_count_def length_map set_map)
next
  case (5 s rows)
  then have "rows = List.map_filter (\<lambda>(p, e). success_row_of p e) s"
    by (simp add: ledger_success_kind_transactions_def success_row_of_def)
  then show ?case using 5 set_map_filter_success distinct_success_ids by (simp add: hm_wf_def)
next
  case (6 s n payee rs)
  then show ?case by (simp add: ledger_list_recent_rows)
next
  case (11 s lo hi at ids s')
  then have "ids = map fst (filter (\<lambda>(p, e). in_reverted_range lo hi e) s)"
    "s' = map (\<lambda>(p, e). (p, downgrade_in_range lo hi at e)) s"
    using downgrade_loop_ids [of lo hi at s] downgrade_loop_ledger [of lo hi at s]
    by (auto simp: ledger_downgrade_reorged_range_def split: prod.splits)
  moreover have "set (map fst (filter (\<lambda>(p, e). in_reverted_range lo hi e) s)) =
      {p. \<exists>e. hm_get s p = Some e \<and> in_reverted_range lo hi e}"
    using 11(1) by (force simp: hm_in_set)
  ultimately show ?case using 11(1)
    using map_of_map_snd [of "downgrade_in_range lo hi at" s]
    by (simp add: hm_wf_def distinct_map_filter comp_def split_def)
next
  case (12 lo hi at s x s')
  then show ?case by (simp add: ledger_downgrade_reorged_range_def split: prod.splits)
qed (auto simp: ledger_record_def ledger_find_def ledger_record_confirmation_def
    ledger_downgrade_on_reorg_def downgrade_if_mined_def
    hm_simps fun_eq_iff split: option.splits if_splits)

subsection \<open>What the projection reads\<close>

text \<open>The projection of the two rows a payment may have.\<close>

definition project_rows ::
  "u64 \<Rightarrow> PaymentId \<Rightarrow> u32 \<Rightarrow> ChainStatusView \<Rightarrow> SettlementLedgerEntry option
     \<Rightarrow> PreparedTxEntry option \<Rightarrow> PaymentStatusSnapshot" where
  "project_rows now pid depth view lrow prow =
    (case (lrow, prow) of
       (Some e, _) \<Rightarrow> ledger_snapshot pid depth view e
     | (None, Some e) \<Rightarrow> plain_snapshot pid (if pe_expires_at_unix_seconds e > now then Awaiting else Expired)
     | (None, None) \<Rightarrow> plain_snapshot pid NeverIssued)"

locale payment_stores =
  prep: prepared_tx_store P pinv rows b64 + ledg: settlement_ledger_store L linv led fits
  for P :: "'p PreparedTxStore" and pinv rows b64
    and L :: "'l SettlementLedgerStore" and linv led fits
begin

lemma lookup_projects:
  assumes "pinv p" "linv l" "lookup_payment_status P L now pid depth view p l = Inr snap"
  shows "snap = project_rows now pid depth view (led l pid) (rows p pid)"
  using assms prep.find_ok [OF assms(1)] ledg.find_ok [OF assms(2)]
  by (auto simp: lookup_payment_status_def project_rows_def split: sum.splits option.splits)

end

interpretation mem: payment_stores PreparedTxCache cache_inv cache_rows b64 SettlementLedgerMem hm_wf hm_get
  "\<lambda>_. True" for b64 ..

lemma mem_lookup:
  "lookup_payment_status PreparedTxCache SettlementLedgerMem now pid depth view p l =
     Ok (project_rows now pid depth view (hm_get l pid) (cache_rows p pid))"
  by (simp add: lookup_payment_status_def ledger_find_def cache_find_by_payment_id_def project_rows_def
      cache_rows_def split: option.splits)

lemma classify_settled:
  "classify_success_row e depth view = (st, True) \<Longrightarrow>
    \<exists>h t c. le_mined_block_height e = Some h \<and> settled_tip_height view = Some t \<and> h \<le> t
      \<and> le_confirmation_count e = Some c \<and> 1 \<le> c \<and> (st = Final \<or> st = StatusMined)"
  by (auto simp: classify_success_row_def is_settled_at_def split: option.splits if_splits)

lemma classify_downgraded:
  "classify_success_row (downgrade_entry at e) depth view = (unmined_status e view, False)"
  by (simp add: classify_success_row_def downgrade_entry_def unmined_status_def)

lemma classify_terminal:
  "classify_success_row e depth view = (st, b) \<Longrightarrow> is_terminal st \<longleftrightarrow> st = Expired"
  by (auto simp: classify_success_row_def unmined_status_def Let_def split: option.splits if_splits)

lemma downgrade_in_range_idem:
  "downgrade_in_range a b at' (downgrade_in_range a b at e) = downgrade_in_range a b at e"
  by (simp add: downgrade_in_range_def in_reverted_range_def downgrade_entry_def)

lemma project_settled:
  assumes "sn_settled (project_rows now pid depth view lrow prow)"
  shows "\<exists>e h t c. lrow = Some e \<and> is_success (le_broadcast_outcome e)
      \<and> le_mined_block_height e = Some h \<and> le_confirmation_count e = Some c \<and> 1 \<le> c
      \<and> settled_tip_height view = Some t \<and> h \<le> t
      \<and> sn_mined_block_height (project_rows now pid depth view lrow prow) = Some h
      \<and> (sn_status (project_rows now pid depth view lrow prow) = StatusMined
         \<or> sn_status (project_rows now pid depth view lrow prow) = Final)"
proof (cases lrow)
  case None
  then show ?thesis using assms by (simp add: project_rows_def plain_snapshot_def split: option.splits)
next
  case (Some e)
  obtain st b where c: "classify_success_row e depth view = (st, b)" by fastforce
  have "is_success (le_broadcast_outcome e)" "b"
    using assms Some c by (simp_all add: project_rows_def ledger_snapshot_def split: if_splits)
  then show ?thesis using Some c classify_settled [of e depth view st]
    by (auto simp: project_rows_def ledger_snapshot_def)
qed

lemma mem_range:
  assumes "hm_wf l" "ledger_downgrade_reorged_range lo hi at l = (Ok ids, l')"
  shows "distinct ids" "set ids = {p. \<exists>e. hm_get l p = Some e \<and> in_reverted_range lo hi e}"
    "l' = map (\<lambda>(p, e). (p, downgrade_in_range lo hi at e)) l"
    "hm_get l' = (\<lambda>p. map_option (downgrade_in_range lo hi at) (hm_get l p))"
proof -
  have ids: "ids = map fst (filter (\<lambda>(p, e). in_reverted_range lo hi e) l)"
    and l': "l' = map (\<lambda>(p, e). (p, downgrade_in_range lo hi at e)) l"
    using assms(2) downgrade_loop_ids [of lo hi at l] downgrade_loop_ledger [of lo hi at l]
    by (auto simp: ledger_downgrade_reorged_range_def split: prod.splits)
  show "distinct ids" using assms(1) ids by (simp add: hm_wf_def distinct_map_filter)
  show "set ids = {p. \<exists>e. hm_get l p = Some e \<and> in_reverted_range lo hi e}"
    using assms(1) by (force simp: ids hm_in_set)
  show "l' = map (\<lambda>(p, e). (p, downgrade_in_range lo hi at e)) l" by (rule l')
  show "hm_get l' = (\<lambda>p. map_option (downgrade_in_range lo hi at) (hm_get l p))"
    unfolding l' by (rule map_of_map_snd)
qed

lemma mem_range_again:
  "ledger_downgrade_reorged_range lo hi at' (map (\<lambda>(p, e). (p, downgrade_in_range lo hi at e)) l) =
     (Ok [], map (\<lambda>(p, e). (p, downgrade_in_range lo hi at e)) l)"
proof -
  have "\<not> in_reverted_range lo hi (downgrade_in_range lo hi at e)" for e
    by (simp add: downgrade_in_range_def in_reverted_range_def downgrade_entry_def)
  then have "downgrade_loop lo hi at' (map (\<lambda>(p, e). (p, downgrade_in_range lo hi at e)) l) =
      ([], map (\<lambda>(p, e). (p, downgrade_in_range lo hi at e)) l)"
    by (induction l) auto
  then show ?thesis by (simp add: ledger_downgrade_reorged_range_def)
qed

lemma in_reverted_range_iff:
  "in_reverted_range lo hi e \<longleftrightarrow> (\<exists>h. le_mined_block_height e = Some h \<and> lo \<le> h \<and> h \<le> hi)"
  by (auto simp: in_reverted_range_def not_less split: option.splits)

lemma project_downgraded:
  assumes "is_success (le_broadcast_outcome e)" and "snap = project_rows now p depth view (Some (downgrade_entry at e)) prow"
  shows "(sn_status snap = Broadcast \<or> sn_status snap = Expired) \<and> \<not> sn_settled snap
    \<and> sn_mined_block_height snap = None \<and> sn_reorg_count snap = saturating_add (le_reorg_count e) 1"
proof -
  have "is_success (le_broadcast_outcome (downgrade_entry at e))" using assms(1) by (simp add: downgrade_entry_def)
  moreover have "unmined_status e view = Broadcast \<or> unmined_status e view = Expired"
    by (simp add: unmined_status_def Let_def)
  ultimately show ?thesis
    by (simp add: assms(2) project_rows_def ledger_snapshot_def classify_downgraded) (simp add: downgrade_entry_def)
qed

subsection \<open>Properties\<close>

definition ex_ledger_entry :: "u32 option \<Rightarrow> u64 option \<Rightarrow> SettlementLedgerEntry" where
  "ex_ledger_entry count height = \<lparr>le_broadcast_outcome = Accepted ''tx'', le_settled_at_unix_seconds = 50,
     le_confirmation_count = count, le_mined_block_height = height, le_reorg_count = 0,
     le_last_reorged_at = None, le_expiry_height = Some 1040, le_payee_id = ''shop'',
     le_amount_zat = 150000000\<rparr>"

definition ex_view :: "u64 \<Rightarrow> u64 \<Rightarrow> ChainStatusView" where
  "ex_view visible settled = \<lparr>visible_tip_height = Some visible, settled_tip_height = Some settled\<rparr>"

lemmas ex_status_simps = mem_lookup project_rows_def ledger_snapshot_def classify_success_row_def
  ex_ledger_entry_def ex_view_def is_settled_at_def is_lapsed_at_def Let_def

text \<open>[C16] Settlement is sound: a snapshot reports \<open>settled\<close> only for a payment whose ledger row
  is a success-kind broadcast that the oracle saw mined with at least one confirmation, at a
  height at or below a known settled tip; its status is then Mined or Final, and an unknown
  chain view never yields it.\<close>

theorem settled_sound:
  assumes "lookup_payment_status PreparedTxCache SettlementLedgerMem now pid depth view p l = Ok snap"
    and "sn_settled snap"
  shows "\<exists>e h t c. hm_get l pid = Some e \<and> is_success (le_broadcast_outcome e)
      \<and> le_mined_block_height e = Some h \<and> le_confirmation_count e = Some c \<and> 1 \<le> c
      \<and> settled_tip_height view = Some t \<and> h \<le> t
      \<and> (sn_status snap = StatusMined \<or> sn_status snap = Final)"
proof -
  have "snap = project_rows now pid depth view (hm_get l pid) (cache_rows p pid)"
    using assms(1) by (simp add: mem_lookup)
  then show ?thesis using project_settled assms(2) by blast
qed

theorem settled_sound_witness:
  "\<exists>e h t c. hm_get [(''id1'', ex_ledger_entry (Some 1) (Some 900))] ''id1'' = Some e
      \<and> is_success (le_broadcast_outcome e)
      \<and> le_mined_block_height e = Some h \<and> le_confirmation_count e = Some c \<and> 1 \<le> c
      \<and> settled_tip_height (ex_view 1000 900) = Some t \<and> h \<le> t \<and> StatusMined = StatusMined"
  using settled_sound [of 100 "''id1''" 3 "ex_view 1000 900" cache_empty
      "[(''id1'', ex_ledger_entry (Some 1) (Some 900))]"]
  by (simp add: ex_status_simps)

text \<open>[C18] A reorg downgrade of a reverted height range touches exactly the rows mined inside the
  range: each is returned once, every other row is untouched, a downgraded success row is from then
  on reported as Broadcast or Expired, unmined, not settled and with its reorg count one higher
  (saturating), and repeating the same range changes nothing and returns nothing.\<close>

theorem reorg_range_downgrade:
  assumes "hm_wf l" "ledger_downgrade_reorged_range lo hi at l = (Ok ids, l')"
  shows "distinct ids
    \<and> set ids = {p. \<exists>e h. hm_get l p = Some e \<and> le_mined_block_height e = Some h \<and> lo \<le> h \<and> h \<le> hi}
    \<and> (\<forall>p. p \<notin> set ids \<longrightarrow> hm_get l' p = hm_get l p)
    \<and> (\<forall>p e. hm_get l p = Some e \<longrightarrow> p \<in> set ids \<longrightarrow> is_success (le_broadcast_outcome e) \<longrightarrow>
         (\<exists>snap. lookup_payment_status PreparedTxCache SettlementLedgerMem now p depth view c l' = Ok snap
            \<and> (sn_status snap = Broadcast \<or> sn_status snap = Expired) \<and> \<not> sn_settled snap
            \<and> sn_mined_block_height snap = None
            \<and> sn_reorg_count snap = saturating_add (le_reorg_count e) 1))
    \<and> ledger_downgrade_reorged_range lo hi at' l' = (Ok [], l')"
proof -
  note run = mem_range [OF assms]
  have "\<exists>snap. lookup_payment_status PreparedTxCache SettlementLedgerMem now p depth view c l' = Ok snap
            \<and> (sn_status snap = Broadcast \<or> sn_status snap = Expired) \<and> \<not> sn_settled snap
            \<and> sn_mined_block_height snap = None
            \<and> sn_reorg_count snap = saturating_add (le_reorg_count e) 1"
    if "hm_get l p = Some e" "p \<in> set ids" "is_success (le_broadcast_outcome e)" for p e
  proof -
    have "in_reverted_range lo hi e" using that(1,2) unfolding run(2) by simp
    then have "hm_get l' p = Some (downgrade_entry at e)"
      using that(1) by (simp add: run(4) downgrade_in_range_def)
    then show ?thesis using project_downgraded [OF that(3) refl] by (simp add: mem_lookup)
  qed
  moreover have "hm_get l' p = hm_get l p" if "p \<notin> set ids" for p
    using that unfolding run(2) run(4) by (cases "hm_get l p") (simp_all add: downgrade_in_range_def)
  moreover have "ledger_downgrade_reorged_range lo hi at' l' = (Ok [], l')"
    unfolding run(3) by (rule mem_range_again)
  moreover have "set ids = {p. \<exists>e h. hm_get l p = Some e \<and> le_mined_block_height e = Some h \<and> lo \<le> h \<and> h \<le> hi}"
    unfolding run(2) by (simp add: in_reverted_range_iff)
  ultimately show ?thesis using run(1) by (intro conjI allI impI) simp_all
qed

theorem reorg_range_downgrade_witness:
  "ledger_downgrade_reorged_range 850 950 60 [(''id1'', ex_ledger_entry (Some 1) (Some 900))]
     = (Ok [''id1''], [(''id1'', downgrade_entry 60 (ex_ledger_entry (Some 1) (Some 900)))])
   \<and> ledger_downgrade_reorged_range 850 950 61 [(''id1'', downgrade_entry 60 (ex_ledger_entry (Some 1) (Some 900)))]
     = (Ok [], [(''id1'', downgrade_entry 60 (ex_ledger_entry (Some 1) (Some 900)))])"
proof -
  have run: "ledger_downgrade_reorged_range 850 950 60 [(''id1'', ex_ledger_entry (Some 1) (Some 900))]
     = (Ok [''id1''], [(''id1'', downgrade_entry 60 (ex_ledger_entry (Some 1) (Some 900)))])"
    by (simp add: ledger_downgrade_reorged_range_def in_reverted_range_def ex_ledger_entry_def)
  moreover have "hm_wf [(''id1'', ex_ledger_entry (Some 1) (Some 900))]" by (simp add: hm_wf_def)
  ultimately show ?thesis using reorg_range_downgrade by blast
qed

end
