(* ===== verification/Settle.thy ===== *)
theory Settle
  imports Status
begin

text \<open>
  The settle paths (\<open>zpay-core/src/settle.rs\<close>): \<open>submit_settlement\<close> for a
  prepared payment, and verification and broadcast of a Zcash exact PCZT.  The
  stores are threaded explicitly; the chain plane is a stateful submitter, so
  that a statement can say that nothing was broadcast.  The transaction parser,
  the hex codec and the PCZT library are external and are the fields of the
  records \<open>TxLib\<close> and \<open>PcztLib\<close>.
\<close>

record SettleRequest =
  sr_payment_id :: PaymentId
  sr_raw_tx_hex :: string

record SettlementOutcome =
  so_payment_id :: PaymentId
  so_broadcast_outcome :: BroadcastOutcome
  so_watch_id :: "string option"

record PcztSettlementRequest =
  ps_network :: PaymentNetwork
  ps_amount_zat :: Zatoshis
  ps_pay_to :: string
  ps_pczt_bytes :: bytes

record VerifiedPcztSettlement =
  vp_raw_tx_bytes :: bytes
  vp_transaction_id :: string
  vp_expiry_height :: u32

record PcztSettlementOutcome =
  po_broadcast_outcome :: BroadcastOutcome
  po_transaction_id :: string
  po_expiry_height :: u32

datatype SettleError =
    PreparationNotFound PaymentId
  | RawTxHexInvalid
  | SettleChainUnavailable string
  | TransactionMalformed string
  | ExpiryHeightMismatch u32 u32
  | ObsoleteMemoVersion u8
  | DpopMismatch
  | SettleStorage StoreError

datatype PcztSettlementError =
    PcztMalformed string
  | PcztNetworkMismatch u32 u32
  | ChainNetworkMismatch PaymentNetwork string
  | PayToMalformed
  | PaymentAddressMismatch
  | PaymentAmountMissing string
  | PaymentAmountMismatch u64 u64
  | PaymentAmountOverflow
  | PaymentNotVerifiable string
  | PcztNotExtractable string
  | PcztChainUnavailable string

fun reason_code :: "PcztSettlementError \<Rightarrow> string" where
  "reason_code (PcztMalformed _) = ''zcash_exact_pczt_malformed''"
| "reason_code (PcztNetworkMismatch _ _) = ''zcash_exact_network_mismatch''"
| "reason_code (ChainNetworkMismatch _ _) = ''zcash_exact_network_mismatch''"
| "reason_code PayToMalformed = ''zcash_exact_pay_to_invalid''"
| "reason_code PaymentAddressMismatch = ''zcash_exact_pay_to_mismatch''"
| "reason_code (PaymentAmountMissing _) = ''zcash_exact_amount_mismatch''"
| "reason_code (PaymentAmountMismatch _ _) = ''zcash_exact_amount_mismatch''"
| "reason_code PaymentAmountOverflow = ''zcash_exact_amount_mismatch''"
| "reason_code (PaymentNotVerifiable _) = ''zcash_exact_pczt_not_verifiable''"
| "reason_code (PcztNotExtractable _) = ''zcash_exact_pczt_not_extractable''"
| "reason_code (PcztChainUnavailable _) = ''chain_unavailable''"

fun pczt_is_retryable :: "PcztSettlementError \<Rightarrow> bool" where
  "pczt_is_retryable (PcztChainUnavailable _) = True"
| "pczt_is_retryable _ = False"

text \<open>External code: the submitter of the chain plane with its network tag, and the hex and
  transaction codecs.\<close>

record ('n, 'c) Submitter =
  ch_network :: 'n
  ch_network_debug :: string
  ch_submit :: "bytes \<Rightarrow> 'c \<Rightarrow> (string + SubmitOutcome) \<times> 'c"

record TxLib =
  tl_hex_decode :: "string \<Rightarrow> string + bytes"
  tl_parse_expiry_height :: "bytes \<Rightarrow> string + u32"
  tl_to_rpc_hex :: "bytes \<Rightarrow> string"

subsection \<open>Settling a prepared payment\<close>

definition is_ascii_hexdigit :: "char \<Rightarrow> bool" where
  "is_ascii_hexdigit c = (let b = byte_of c in
     48 \<le> b \<and> b \<le> 57 \<or> 65 \<le> b \<and> b \<le> 70 \<or> 97 \<le> b \<and> b \<le> 102)"

definition validate_raw_tx_hex :: "string \<Rightarrow> SettleError + unit" where
  "validate_raw_tx_hex raw =
    (if raw = [] \<or> length raw mod 2 \<noteq> 0 \<or> \<not> list_all is_ascii_hexdigit raw
     then Err RawTxHexInvalid else Ok ())"

definition parse_signed_expiry_height :: "TxLib \<Rightarrow> string \<Rightarrow> SettleError + u32" where
  "parse_signed_expiry_height T raw =
    (case tl_hex_decode T raw of
       Inl _ \<Rightarrow> Err RawTxHexInvalid
     | Inr raw_bytes \<Rightarrow>
       (case tl_parse_expiry_height T raw_bytes of
          Inl reason \<Rightarrow> Err (TransactionMalformed reason)
        | Inr h \<Rightarrow> Ok h))"

definition settle_current_unix_seconds :: "u64 \<Rightarrow> i64" where
  "settle_current_unix_seconds now = (case u64_to_i64 now of Some i \<Rightarrow> i | None \<Rightarrow> i64_max)"

definition settle_entry :: "u64 \<Rightarrow> PreparedTxEntry \<Rightarrow> BroadcastOutcome \<Rightarrow> SettlementLedgerEntry" where
  "settle_entry now prepared outcome =
     \<lparr>le_broadcast_outcome = outcome,
      le_settled_at_unix_seconds = settle_current_unix_seconds now,
      le_confirmation_count = None, le_mined_block_height = None, le_reorg_count = 0,
      le_last_reorged_at = None,
      le_expiry_height = Some (pr_expiry_height (pe_preparation prepared)),
      le_payee_id = pe_payee_id prepared, le_amount_zat = pe_amount_zat prepared\<rparr>"

text \<open>The checks before anything is broadcast, in the order of the code.\<close>

definition settle_gate ::
  "'p PreparedTxStore \<Rightarrow> TxLib \<Rightarrow> SettleRequest \<Rightarrow> string \<Rightarrow> 'p \<Rightarrow> SettleError + PreparedTxEntry" where
  "settle_gate P T request jkt p =
    (case validate_raw_tx_hex (sr_raw_tx_hex request) of
       Inl e \<Rightarrow> Err e
     | Inr _ \<Rightarrow>
    (case pts_find_by_payment_id P (sr_payment_id request) p of
       Inl e \<Rightarrow> Err (SettleStorage e)
     | Inr None \<Rightarrow> Err (PreparationNotFound (sr_payment_id request))
     | Inr (Some prepared) \<Rightarrow>
       if pe_agent_dpop_jkt prepared \<noteq> jkt then Err DpopMismatch
       else
         let memo = pr_memo_bytes (pe_preparation prepared) in
         if 1 < length memo \<and> memo ! 1 \<noteq> PROTOCOL_MEMO_VERSION then Err (ObsoleteMemoVersion (memo ! 1))
         else
         (case parse_signed_expiry_height T (sr_raw_tx_hex request) of
            Inl e \<Rightarrow> Err e
          | Inr signed_expiry_height \<Rightarrow>
            if signed_expiry_height \<noteq> pr_expiry_height (pe_preparation prepared)
            then Err (ExpiryHeightMismatch (pr_expiry_height (pe_preparation prepared)) signed_expiry_height)
            else Ok prepared)))"

definition submit_settlement ::
  "'p PreparedTxStore \<Rightarrow> 'l SettlementLedgerStore \<Rightarrow> ('n, 'c) Submitter \<Rightarrow> TxLib \<Rightarrow> u64
     \<Rightarrow> SettleRequest \<Rightarrow> string \<Rightarrow> 'p \<Rightarrow> 'l \<Rightarrow> 'c
     \<Rightarrow> (SettleError + SettlementOutcome) \<times> 'p \<times> 'l \<times> 'c" where
  "submit_settlement P L C T now request jkt p l c =
    (case settle_gate P T request jkt p of
       Inl e \<Rightarrow> (Err e, p, l, c)
     | Inr prepared \<Rightarrow>
    (case tl_hex_decode T (sr_raw_tx_hex request) of
       Inl reason \<Rightarrow>
         (Err (SettleChainUnavailable (''raw_tx_hex decode failed after validation: '' @ reason)), p, l, c)
     | Inr raw_tx_bytes \<Rightarrow>
    (case ch_submit C raw_tx_bytes c of
       (Inl reason, c') \<Rightarrow> (Err (SettleChainUnavailable reason), p, l, c')
     | (Inr submit_outcome, c') \<Rightarrow>
       let outcome = from_submit_outcome (tl_to_rpc_hex T) submit_outcome in
       (case sl_record L (sr_payment_id request) (settle_entry now prepared outcome) l of
          (Inl e, l') \<Rightarrow> (Err (SettleStorage e), p, l', c')
        | (Inr _, l') \<Rightarrow>
          if is_success outcome then
            (case pts_remove P (sr_payment_id request) p of
               (Inl e, p') \<Rightarrow> (Err (SettleStorage e), p', l', c')
             | (Inr _, p') \<Rightarrow>
                (Ok \<lparr>so_payment_id = sr_payment_id request, so_broadcast_outcome = outcome,
                     so_watch_id = Some (''watch_'' @ sr_payment_id request)\<rparr>, p', l', c'))
          else (Ok \<lparr>so_payment_id = sr_payment_id request, so_broadcast_outcome = outcome,
                    so_watch_id = None\<rparr>, p, l', c')))))"

subsection \<open>PCZT settlement\<close>

record PcztOutput =
  px_user_address :: "string option"
  px_recipient :: "bytes option"
  px_value :: "u64 option"

record Pczt =
  pz_sapling_outputs :: "PcztOutput list"
  pz_orchard_outputs :: "PcztOutput list"
  pz_ironwood_outputs :: "PcztOutput list"
  pz_transparent_user_addresses :: "string option list"
  pz_expiry_height :: u32

text \<open>The PCZT and address libraries: network tags, parsing, address decoding, the two kinds of
  receiver bytes with their correspondence to an address, and extraction to raw bytes and
  transaction id.\<close>

text \<open>\<open>zally\_core::Network\<close> with the variants the code names and one for every other variant.\<close>

datatype ZallyNetwork = ZallyMainnet | ZallyTestnet | ZallyRegtest | ZallyOther string

record ('a, 'r) PcztLib =
  pl_parse :: "ZallyNetwork \<Rightarrow> bytes \<Rightarrow> string + Pczt"
  pl_decode_address :: "ZallyNetwork \<Rightarrow> string \<Rightarrow> 'a option"
  pl_sapling_address :: "bytes \<Rightarrow> 'r option"
  pl_orchard_address :: "bytes \<Rightarrow> 'r option"
  pl_corresponds :: "'r \<Rightarrow> 'a \<Rightarrow> bool"
  pl_extract :: "ZallyNetwork \<Rightarrow> bytes \<Rightarrow> string + (bytes \<times> bytes)"
  pl_to_rpc_hex :: "bytes \<Rightarrow> string"

fun zally_network_for :: "PaymentNetwork \<Rightarrow> ZallyNetwork" where
  "zally_network_for Mainnet = ZallyMainnet"
| "zally_network_for Testnet = ZallyTestnet"
| "zally_network_for Regtest = ZallyRegtest"

definition add_matched_amount_zat :: "u64 \<Rightarrow> u64 \<Rightarrow> PcztSettlementError + u64" where
  "add_matched_amount_zat current additional =
    (case checked_add current additional of None \<Rightarrow> Err PaymentAmountOverflow | Some t \<Rightarrow> Ok t)"

fun match_outputs ::
  "(bytes \<Rightarrow> 'r option) \<Rightarrow> ('r \<Rightarrow> bool) \<Rightarrow> string \<Rightarrow> string \<Rightarrow> u64 \<Rightarrow> PcztOutput list
     \<Rightarrow> PcztSettlementError + u64" where
  "match_outputs address_of corresponds pool pay_to_label matched [] = Ok matched"
| "match_outputs address_of corresponds pool pay_to_label matched (out # outs) =
    (case px_user_address out of
       None \<Rightarrow> match_outputs address_of corresponds pool pay_to_label matched outs
     | Some label \<Rightarrow>
       if label \<noteq> pay_to_label then Err PaymentAddressMismatch
       else (case px_recipient out of
         None \<Rightarrow> Err (PaymentNotVerifiable (pool @ '' output omitted recipient bytes''))
       | Some recipient \<Rightarrow>
      (case px_value out of
         None \<Rightarrow> Err (PaymentAmountMissing pool)
       | Some amount_zat \<Rightarrow>
      (case address_of recipient of
         None \<Rightarrow> Err (PaymentNotVerifiable (pool @ '' output recipient bytes are invalid''))
       | Some payment_address \<Rightarrow>
         if \<not> corresponds payment_address then Err PaymentAddressMismatch
         else (case add_matched_amount_zat matched amount_zat of
                 Inl e \<Rightarrow> Err e
               | Inr matched' \<Rightarrow>
                   match_outputs address_of corresponds pool pay_to_label matched' outs)))))"

definition match_orchard_bundle_amount_zat ::
  "('a, 'r) PcztLib \<Rightarrow> PcztOutput list \<Rightarrow> string \<Rightarrow> string \<Rightarrow> 'a \<Rightarrow> u64 \<Rightarrow> PcztSettlementError + u64" where
  "match_orchard_bundle_amount_zat Z outs pool pay_to_label pay_to matched =
     match_outputs (pl_orchard_address Z) (\<lambda>r. pl_corresponds Z r pay_to) pool pay_to_label matched outs"

definition matched_pczt_amount_zat ::
  "('a, 'r) PcztLib \<Rightarrow> Pczt \<Rightarrow> PcztSettlementRequest \<Rightarrow> PcztSettlementError + u64" where
  "matched_pczt_amount_zat Z parsed request =
    (case pl_decode_address Z (zally_network_for (ps_network request)) (ps_pay_to request) of
       None \<Rightarrow> Err PayToMalformed
     | Some pay_to \<Rightarrow>
    (case match_outputs (pl_sapling_address Z) (\<lambda>r. pl_corresponds Z r pay_to) ''sapling''
            (ps_pay_to request) 0 (pz_sapling_outputs parsed) of
       Inl e \<Rightarrow> Err e
     | Inr m1 \<Rightarrow>
    (case match_orchard_bundle_amount_zat Z (pz_orchard_outputs parsed) ''orchard'' (ps_pay_to request) pay_to m1 of
       Inl e \<Rightarrow> Err e
     | Inr m2 \<Rightarrow>
    (case match_orchard_bundle_amount_zat Z (pz_ironwood_outputs parsed) ''ironwood'' (ps_pay_to request) pay_to m2 of
       Inl e \<Rightarrow> Err e
     | Inr m3 \<Rightarrow>
       if list_ex (\<lambda>a. a \<noteq> None) (pz_transparent_user_addresses parsed)
       then Err (PaymentNotVerifiable
         ''transparent labelled outputs are not accepted by zcash exact yet'')
       else Ok m3))))"

definition verify_pczt_settlement ::
  "('a, 'r) PcztLib \<Rightarrow> PcztSettlementRequest \<Rightarrow> PcztSettlementError + VerifiedPcztSettlement" where
  "verify_pczt_settlement Z request =
    (let pczt_network = zally_network_for (ps_network request) in
     case pl_parse Z pczt_network (ps_pczt_bytes request) of
       Inl reason \<Rightarrow> Err (PcztMalformed reason)
     | Inr parsed \<Rightarrow>
    (case matched_pczt_amount_zat Z parsed request of
       Inl e \<Rightarrow> Err e
     | Inr matched \<Rightarrow>
       if matched \<noteq> ps_amount_zat request
       then Err (PaymentAmountMismatch (ps_amount_zat request) matched)
       else (case pl_extract Z pczt_network (ps_pczt_bytes request) of
               Inl reason \<Rightarrow> Err (PcztNotExtractable reason)
             | Inr (raw_bytes, tx_id) \<Rightarrow>
                 Ok \<lparr>vp_raw_tx_bytes = raw_bytes, vp_transaction_id = pl_to_rpc_hex Z tx_id,
                     vp_expiry_height = pz_expiry_height parsed\<rparr>)))"

definition broadcast_verified_pczt_settlement ::
  "('a, 'r) PcztLib \<Rightarrow> (ZallyNetwork, 'c) Submitter \<Rightarrow> PcztSettlementRequest \<Rightarrow> VerifiedPcztSettlement \<Rightarrow> 'c
     \<Rightarrow> (PcztSettlementError + PcztSettlementOutcome) \<times> 'c" where
  "broadcast_verified_pczt_settlement Z C request verified c =
    (if ch_network C \<noteq> zally_network_for (ps_network request)
     then (Err (ChainNetworkMismatch (ps_network request) (ch_network_debug C)), c)
     else (case ch_submit C (vp_raw_tx_bytes verified) c of
             (Inl reason, c') \<Rightarrow> (Err (PcztChainUnavailable reason), c')
           | (Inr submit_outcome, c') \<Rightarrow>
              (Ok \<lparr>po_broadcast_outcome = from_submit_outcome (pl_to_rpc_hex Z) submit_outcome,
                   po_transaction_id = vp_transaction_id verified,
                   po_expiry_height = vp_expiry_height verified\<rparr>, c')))"

definition submit_pczt_settlement ::
  "('a, 'r) PcztLib \<Rightarrow> (ZallyNetwork, 'c) Submitter \<Rightarrow> PcztSettlementRequest \<Rightarrow> 'c
     \<Rightarrow> (PcztSettlementError + PcztSettlementOutcome) \<times> 'c" where
  "submit_pczt_settlement Z C request c =
    (case verify_pczt_settlement Z request of
       Inl e \<Rightarrow> (Err e, c)
     | Inr verified \<Rightarrow> broadcast_verified_pczt_settlement Z C request verified c)"

subsection \<open>What the settle path guarantees over any stores\<close>

definition gate_passed :: "TxLib \<Rightarrow> SettleRequest \<Rightarrow> string \<Rightarrow> PreparedTxEntry \<Rightarrow> bool" where
  "gate_passed T request jkt e \<longleftrightarrow> validate_raw_tx_hex (sr_raw_tx_hex request) = Ok ()
     \<and> pe_agent_dpop_jkt e = jkt
     \<and> (1 < length (pr_memo_bytes (pe_preparation e)) \<longrightarrow>
          pr_memo_bytes (pe_preparation e) ! 1 = PROTOCOL_MEMO_VERSION)
     \<and> parse_signed_expiry_height T (sr_raw_tx_hex request) = Ok (pr_expiry_height (pe_preparation e))"

lemma settle_gate_Ok_iff:
  "settle_gate P T request jkt p = Ok e \<longleftrightarrow>
     pts_find_by_payment_id P (sr_payment_id request) p = Ok (Some e) \<and> gate_passed T request jkt e"
  by (auto simp: settle_gate_def gate_passed_def Let_def split: sum.splits option.splits)

lemma settle_gate_missing:
  "pts_find_by_payment_id P (sr_payment_id request) p = Ok None \<Longrightarrow>
     settle_gate P T request jkt p =
       (if validate_raw_tx_hex (sr_raw_tx_hex request) = Ok ()
        then Err (PreparationNotFound (sr_payment_id request)) else Err RawTxHexInvalid)"
  by (simp add: settle_gate_def validate_raw_tx_hex_def)

lemma submit_settlement_Ok:
  assumes "submit_settlement P L C T now request jkt p l c = (Inr out, p', l', c')"
  shows "\<exists>e raw so. settle_gate P T request jkt p = Ok e \<and> ch_submit C raw c = (Inr so, c')
     \<and> tl_hex_decode T (sr_raw_tx_hex request) = Ok raw
     \<and> so_broadcast_outcome out = from_submit_outcome (tl_to_rpc_hex T) so
     \<and> so_payment_id out = sr_payment_id request
     \<and> sl_record L (sr_payment_id request) (settle_entry now e (so_broadcast_outcome out)) l = (Inr (), l')
     \<and> (if is_success (so_broadcast_outcome out)
        then so_watch_id out = Some (''watch_'' @ sr_payment_id request)
          \<and> (\<exists>r. pts_remove P (sr_payment_id request) p = (Inr r, p'))
        else so_watch_id out = None \<and> p' = p)"
  using assms
  by (simp add: submit_settlement_def Let_def split: sum.splits prod.splits if_splits) auto

lemma submit_settlement_gated:
  "settle_gate P T request jkt p = Err e \<Longrightarrow>
     submit_settlement P L C T now request jkt p l c = (Err e, p, l, c)"
  by (simp add: submit_settlement_def)

context payment_stores
begin

text \<open>Every reported settlement was gated by the live prepared row, is in the ledger with that
  row's payee, amount and expiry height, and, when the broadcast succeeded, has consumed the row.\<close>

lemma settle_effect:
  assumes "pinv p" "linv l"
    and "submit_settlement P L C T now request jkt p l c = (Inr out, p', l', c')"
    and "\<And>e. rows p (sr_payment_id request) = Some e \<Longrightarrow> fits (pe_amount_zat e)"
  shows "\<exists>e. rows p (sr_payment_id request) = Some e \<and> gate_passed T request jkt e
    \<and> pinv p' \<and> linv l'
    \<and> led l' = (led l)(sr_payment_id request \<mapsto> settle_entry now e (so_broadcast_outcome out))
    \<and> rows p' = (if is_success (so_broadcast_outcome out)
                 then (rows p)(sr_payment_id request := None) else rows p)"
proof -
  obtain e where g: "settle_gate P T request jkt p = Ok e"
    and rec: "sl_record L (sr_payment_id request) (settle_entry now e (so_broadcast_outcome out)) l = (Inr (), l')"
    and rem: "if is_success (so_broadcast_outcome out)
      then \<exists>r. pts_remove P (sr_payment_id request) p = (Inr r, p') else p' = p"
    using submit_settlement_Ok [OF assms(3)] by (auto split: if_splits)
  have e: "rows p (sr_payment_id request) = Some e" "gate_passed T request jkt e"
    using g prep.find_ok [OF assms(1)] by (auto simp: settle_gate_Ok_iff)
  have "entry_fits fits (settle_entry now e (so_broadcast_outcome out))"
    using assms(4) [OF e(1)] by (simp add: entry_fits_def settle_entry_def)
  note led = ledg.record_ok [OF assms(2) this rec]
  show ?thesis
  proof (cases "is_success (so_broadcast_outcome out)")
    case True
    then obtain r where "pts_remove P (sr_payment_id request) p = (Inr r, p')" using rem by auto
    then show ?thesis using e led True prep.remove_ok [OF assms(1)] by auto
  next
    case False
    then show ?thesis using e led rem assms(1) by auto
  qed
qed

lemma settle_twice:
  assumes "pinv p'" "rows p' (sr_payment_id request) = None"
    and "pts_find_by_payment_id P (sr_payment_id request) p' = Inr r"
  shows "\<exists>x. submit_settlement P L C T now request jkt p' l c = (Inl x, p', l, c)
     \<and> (x = PreparationNotFound (sr_payment_id request) \<or> x = RawTxHexInvalid)"
proof -
  have "r = None" using prep.find_ok [OF assms(1,3)] assms(2) by simp
  then have "settle_gate P T request jkt p' =
      (if validate_raw_tx_hex (sr_raw_tx_hex request) = Ok ()
        then Err (PreparationNotFound (sr_payment_id request)) else Err RawTxHexInvalid)"
    using assms(3) by (simp add: settle_gate_missing)
  then show ?thesis by (auto simp: submit_settlement_def)
qed

end

subsection \<open>What the PCZT matcher computes\<close>

definition labelled :: "PcztOutput list \<Rightarrow> PcztOutput list" where
  "labelled outs = filter (\<lambda>out. px_user_address out \<noteq> None) outs"

definition pays_to :: "(bytes \<Rightarrow> 'r option) \<Rightarrow> ('r \<Rightarrow> bool) \<Rightarrow> string \<Rightarrow> PcztOutput \<Rightarrow> bool" where
  "pays_to address_of corresponds label out \<longleftrightarrow> px_user_address out = Some label \<and>
     (\<exists>r v a. px_recipient out = Some r \<and> px_value out = Some v \<and> address_of r = Some a \<and> corresponds a)"

definition paid :: "PcztOutput list \<Rightarrow> nat" where
  "paid outs = sum_list (map (\<lambda>out. unat (the (px_value out))) (labelled outs))"

lemma add_matched_Ok_iff:
  "add_matched_amount_zat a b = Ok t \<longleftrightarrow> unat a + unat b < 2 ^ 64 \<and> t = a + b"
  by (auto simp: add_matched_amount_zat_def checked_add_def split: option.splits if_splits)

lemma match_outputs_Ok_iff:
  "match_outputs address_of corresponds pool label m outs = Ok t \<longleftrightarrow>
    (\<forall>out \<in> set (labelled outs). pays_to address_of corresponds label out)
    \<and> unat t = unat m + paid outs"
proof (induction outs arbitrary: m)
  case Nil
  then show ?case by (auto simp: labelled_def paid_def word_unat_eq_iff)
next
  case (Cons out outs)
  show ?case
  proof (cases "px_user_address out")
    case None
    then show ?thesis using Cons by (simp add: labelled_def paid_def)
  next
    case (Some lab)
    show ?thesis
    proof (cases "pays_to address_of corresponds label out")
      case False
      then show ?thesis using Some
        by (auto simp: labelled_def pays_to_def split: option.splits)
    next
      case True
      then obtain r v a where out: "lab = label" "px_recipient out = Some r" "px_value out = Some v"
          "address_of r = Some a" "corresponds a" using Some by (auto simp: pays_to_def)
      have paid: "paid (out # outs) = unat v + paid outs" using Some out by (simp add: paid_def labelled_def)
      have lab: "set (labelled (out # outs)) = insert out (set (labelled outs))" using Some by (simp add: labelled_def)
      show ?thesis
      proof (cases "add_matched_amount_zat m v")
        case (Inl e)
        then have "\<not> unat m + unat v < 2 ^ 64"
          by (auto simp: add_matched_amount_zat_def checked_add_def split: option.splits if_splits)
        moreover have "unat t < 2 ^ 64" using unsigned_less [of t, where ?'a = nat] by simp
        ultimately show ?thesis using Some out Inl paid by auto
      next
        case (Inr m')
        then have "unat m' = unat m + unat v" using unat_add_no_overflow [of m v] by (simp add: add_matched_Ok_iff)
        then show ?thesis using Some out Inr Cons.IH [of m'] paid lab True by auto
      qed
    qed
  qed
qed

lemma ex2_conj_distrib:
  "(\<exists>x y. (A \<and> P x) \<and> (B \<and> Q x y) \<and> (C \<and> R y) \<and> D) \<longleftrightarrow> A \<and> (B \<and> C) \<and> D \<and> (\<exists>x y. P x \<and> Q x y \<and> R y)"
  by blast

lemma matched_pczt_Ok_iff:
  "matched_pczt_amount_zat Z parsed request = Ok t \<longleftrightarrow>
    (\<exists>pay_to. pl_decode_address Z (zally_network_for (ps_network request)) (ps_pay_to request) = Some pay_to
      \<and> (\<forall>out \<in> set (labelled (pz_sapling_outputs parsed)).
           pays_to (pl_sapling_address Z) (\<lambda>r. pl_corresponds Z r pay_to) (ps_pay_to request) out)
      \<and> (\<forall>out \<in> set (labelled (pz_orchard_outputs parsed)) \<union> set (labelled (pz_ironwood_outputs parsed)).
           pays_to (pl_orchard_address Z) (\<lambda>r. pl_corresponds Z r pay_to) (ps_pay_to request) out)
      \<and> (\<forall>a \<in> set (pz_transparent_user_addresses parsed). a = None)
      \<and> unat t = paid (pz_sapling_outputs parsed) + paid (pz_orchard_outputs parsed) + paid (pz_ironwood_outputs parsed))"
proof (cases "pl_decode_address Z (zally_network_for (ps_network request)) (ps_pay_to request)")
  case None
  then show ?thesis by (simp add: matched_pczt_amount_zat_def)
next
  case (Some pay_to)
  let ?sap = "match_outputs (pl_sapling_address Z) (\<lambda>r. pl_corresponds Z r pay_to) ''sapling'' (ps_pay_to request) 0 (pz_sapling_outputs parsed)"
  let ?orc = "\<lambda>m. match_outputs (pl_orchard_address Z) (\<lambda>r. pl_corresponds Z r pay_to) ''orchard'' (ps_pay_to request) m (pz_orchard_outputs parsed)"
  let ?iro = "\<lambda>m. match_outputs (pl_orchard_address Z) (\<lambda>r. pl_corresponds Z r pay_to) ''ironwood'' (ps_pay_to request) m (pz_ironwood_outputs parsed)"
  define sapling_ok where "sapling_ok \<longleftrightarrow> (\<forall>out \<in> set (labelled (pz_sapling_outputs parsed)).
    pays_to (pl_sapling_address Z) (\<lambda>r. pl_corresponds Z r pay_to) (ps_pay_to request) out)"
  define orchard_ok where "orchard_ok \<longleftrightarrow> (\<forall>out \<in> set (labelled (pz_orchard_outputs parsed)).
    pays_to (pl_orchard_address Z) (\<lambda>r. pl_corresponds Z r pay_to) (ps_pay_to request) out)"
  define ironwood_ok where "ironwood_ok \<longleftrightarrow> (\<forall>out \<in> set (labelled (pz_ironwood_outputs parsed)).
    pays_to (pl_orchard_address Z) (\<lambda>r. pl_corresponds Z r pay_to) (ps_pay_to request) out)"
  note ok_defs = sapling_ok_def orchard_ok_def ironwood_ok_def
  let ?tra = "\<forall>a \<in> set (pz_transparent_user_addresses parsed). a = None"
  have "matched_pczt_amount_zat Z parsed request = Ok t \<longleftrightarrow>
      (\<exists>m1 m2. ?sap = Ok m1 \<and> ?orc m1 = Ok m2 \<and> ?iro m2 = Ok t \<and> ?tra)"
    using Some unfolding matched_pczt_amount_zat_def match_orchard_bundle_amount_zat_def
    by (simp add: result_iffs list_ex_iff)
  also have "\<dots> \<longleftrightarrow> sapling_ok \<and> (orchard_ok \<and> ironwood_ok) \<and> ?tra
      \<and> (\<exists>(m1 :: u64) (m2 :: u64). unat m1 = paid (pz_sapling_outputs parsed) \<and>
           unat m2 = unat m1 + paid (pz_orchard_outputs parsed) \<and>
           unat t = unat m2 + paid (pz_ironwood_outputs parsed))"
    unfolding match_outputs_Ok_iff ok_defs [symmetric] unat_0 add_0
    by (simp only: ex2_conj_distrib)
  also have "(\<exists>(m1 :: u64) (m2 :: u64). unat m1 = paid (pz_sapling_outputs parsed) \<and>
           unat m2 = unat m1 + paid (pz_orchard_outputs parsed) \<and>
           unat t = unat m2 + paid (pz_ironwood_outputs parsed)) \<longleftrightarrow>
      unat t = paid (pz_sapling_outputs parsed) + paid (pz_orchard_outputs parsed) + paid (pz_ironwood_outputs parsed)"
    (is "?ex \<longleftrightarrow> unat t = ?a + ?b + ?c")
  proof
    assume t: "unat t = ?a + ?b + ?c"
    have "unat (word_of_nat n :: u64) = n" if "n \<le> unat t" for n
      using that unsigned_less [of t, where ?'a = nat] by (simp add: unat_of_nat)
    from this [of ?a] this [of "?a + ?b"] t show ?ex
      by (intro exI [of _ "word_of_nat ?a"] exI [of _ "word_of_nat (?a + ?b)"]) (simp del: of_nat_add)
  qed auto
  finally show ?thesis using Some by (simp add: ok_defs ball_Un)
qed

lemma verify_pczt_Ok_iff:
  "verify_pczt_settlement Z request = Ok v \<longleftrightarrow>
    (\<exists>parsed raw tx. pl_parse Z (zally_network_for (ps_network request)) (ps_pczt_bytes request) = Ok parsed
      \<and> matched_pczt_amount_zat Z parsed request = Ok (ps_amount_zat request)
      \<and> pl_extract Z (zally_network_for (ps_network request)) (ps_pczt_bytes request) = Ok (raw, tx)
      \<and> v = \<lparr>vp_raw_tx_bytes = raw, vp_transaction_id = pl_to_rpc_hex Z tx,
             vp_expiry_height = pz_expiry_height parsed\<rparr>)"
  unfolding verify_pczt_settlement_def Let_def
  by (auto simp: result_iffs split: prod.splits)

subsection \<open>Properties\<close>

text \<open>[C2] Fire-once settlement: when settling reports a success-kind broadcast, the request had passed every
  check against a live prepared row of the same agent, the ledger now holds the outcome with that
  row's payee, amount and expiry height, the prepared row is gone, and any further settle of the
  same payment id, by anyone and with any payload, is refused without touching the stores or the
  chain.\<close>

theorem settle_fires_once:
  assumes "cache_inv p" "hm_wf l"
    and "submit_settlement PreparedTxCache SettlementLedgerMem C T now request jkt p l c = (Ok out, p', l', c')"
    and "is_success (so_broadcast_outcome out)"
  shows "\<exists>e. cache_rows p (sr_payment_id request) = Some e \<and> gate_passed T request jkt e
    \<and> hm_get l' = (hm_get l)(sr_payment_id request \<mapsto> settle_entry now e (so_broadcast_outcome out))
    \<and> cache_rows p' = (cache_rows p)(sr_payment_id request := None)
    \<and> (sr_payment_id request2 = sr_payment_id request \<longrightarrow>
         (\<exists>x. submit_settlement PreparedTxCache SettlementLedgerMem C2 T2 now2 request2 jkt2 p' l2 c2
                = (Err x, p', l2, c2)
            \<and> (x = PreparationNotFound (sr_payment_id request) \<or> x = RawTxHexInvalid)))"
proof -
  obtain e where e: "cache_rows p (sr_payment_id request) = Some e" "gate_passed T request jkt e" "cache_inv p'"
    "hm_get l' = (hm_get l)(sr_payment_id request \<mapsto> settle_entry now e (so_broadcast_outcome out))"
    "cache_rows p' = (cache_rows p)(sr_payment_id request := None)"
    using mem.settle_effect [OF assms(1-3)] assms(4) by auto
  have refused: "\<exists>x. submit_settlement PreparedTxCache SettlementLedgerMem C2 T2 now2 request2 jkt2 p' l2 c2
                = (Err x, p', l2, c2)
            \<and> (x = PreparationNotFound (sr_payment_id request) \<or> x = RawTxHexInvalid)"
    if "sr_payment_id request2 = sr_payment_id request"
  proof -
    have gone: "cache_rows p' (sr_payment_id request2) = None" using that e(5) by simp
    have "pts_find_by_payment_id PreparedTxCache (sr_payment_id request2) p' = Inr None"
      using gone by (simp add: cache_find_by_payment_id_def cache_rows_def)
    from mem.settle_twice [OF e(3) gone this] that show ?thesis by simp
  qed
  show ?thesis by (intro exI [of _ e] conjI impI e(1,2,4,5) refused)
qed

definition ex_txlib :: TxLib where
  "ex_txlib = \<lparr>tl_hex_decode = (\<lambda>s. Ok [0x05, 0x00]), tl_parse_expiry_height = (\<lambda>b. Ok 1040),
     tl_to_rpc_hex = (\<lambda>b. ''ab'')\<rparr>"

definition ex_chain :: "SubmitOutcome \<Rightarrow> (nat, nat) Submitter" where
  "ex_chain outcome = \<lparr>ch_network = 0, ch_network_debug = ''Testnet'', ch_submit = (\<lambda>b n. (Ok outcome, n + 1))\<rparr>"

definition ex_settle :: SettleRequest where
  "ex_settle = \<lparr>sr_payment_id = ''id1'', sr_raw_tx_hex = ''0500''\<rparr>"

definition ex_prepared :: PreparedTxEntry where
  "ex_prepared = proposed_entry ex_sha ex_b64 ''id1'' 100 (ex_request ''https://a'' ''k'') ''agent'' ex_accepts 1040"

definition ex_cache :: CacheInner where "ex_cache = snd (cache_insert ex_prepared cache_empty)"

lemma ex_cache_rows: "cache_rows ex_cache = [''id1'' \<mapsto> ex_prepared]"
  by (simp add: ex_cache_def cache_rows_insert) (simp add: ex_prepared_def cache_rows_def cache_empty_def)

lemma ex_cache_inv: "cache_inv ex_cache"
  unfolding ex_cache_def
  by (rule cache_inv_insert [OF cache_inv_empty]) (simp add: insertable_def cache_rows_def cache_empty_def)

lemma ex_gate: "settle_gate PreparedTxCache ex_txlib ex_settle ''agent'' ex_cache = Ok ex_prepared"
proof -
  have "take 2 (pr_memo_bytes (pe_preparation ex_prepared)) = [PROTOCOL_MEMO_TAG, PROTOCOL_MEMO_VERSION]"
    by (simp add: ex_prepared_def proposed_entry_def Let_def memo_tag_version)
  then have "pr_memo_bytes (pe_preparation ex_prepared) ! 1 = PROTOCOL_MEMO_VERSION"
    by (metis nth_Cons_0 nth_Cons_Suc nth_take One_nat_def lessI numeral_2_eq_2)
  moreover have "hm_get (by_payment_id ex_cache) ''id1'' = Some ex_prepared"
    using ex_cache_rows by (simp add: cache_rows_def)
  moreover have "list_all is_ascii_hexdigit ''0500''" by code_simp
  ultimately show ?thesis
    unfolding settle_gate_Ok_iff gate_passed_def
    by (simp add: ex_settle_def ex_txlib_def cache_find_by_payment_id_def
        validate_raw_tx_hex_def parse_signed_expiry_height_def) (simp add: ex_prepared_def)
qed

lemma ex_settle_run:
  "submit_settlement PreparedTxCache SettlementLedgerMem (ex_chain (SubmitAccepted [1])) ex_txlib 200 ex_settle
     ''agent'' ex_cache [] 0 =
   (Ok \<lparr>so_payment_id = ''id1'', so_broadcast_outcome = Accepted ''ab'', so_watch_id = Some ''watch_id1''\<rparr>,
    snd (cache_remove ''id1'' ex_cache), [(''id1'', settle_entry 200 ex_prepared (Accepted ''ab''))], 1)"
  by (simp add: submit_settlement_def ex_gate) (simp add: ex_txlib_def ex_settle_def ex_chain_def Let_def
      ledger_record_def cache_remove_def)

theorem settle_fires_once_witness:
  "\<exists>x. submit_settlement PreparedTxCache SettlementLedgerMem (ex_chain (SubmitAccepted [1])) ex_txlib 300 ex_settle
     ''agent'' (snd (cache_remove ''id1'' ex_cache)) [] 7 = (Err x, snd (cache_remove ''id1'' ex_cache), [], 7)
    \<and> (x = PreparationNotFound ''id1'' \<or> x = RawTxHexInvalid)"
proof -
  have "is_success (so_broadcast_outcome \<lparr>so_payment_id = ''id1'', so_broadcast_outcome = Accepted ''ab'',
      so_watch_id = Some ''watch_id1''\<rparr>)" by simp
  from settle_fires_once [OF ex_cache_inv hm_wf_Nil ex_settle_run this, where ?request2.0 = ex_settle
      and ?C2.0 = "ex_chain (SubmitAccepted [1])" and ?T2.0 = ex_txlib and ?now2.0 = 300 and ?jkt2.0 = "''agent''"
      and ?l2.0 = "[]" and ?c2.0 = 7]
  show ?thesis by (auto simp: ex_settle_def)
qed

text \<open>[C22] Exact payment: PCZT verification accepts a request exactly when the PCZT parses, the pay-to address
  decodes for the network, every labelled Sapling, Orchard and Ironwood output carries the pay-to
  label, a receiver of that address and an amount, no transparent output is labelled, the amounts
  add up, without wrap-around, to the required amount, and the transaction extracts; what it returns
  is the extracted transaction with the expiry height of the PCZT.\<close>

theorem pczt_verified_iff_exact_payment:
  "verify_pczt_settlement Z request = Ok v \<longleftrightarrow>
    (\<exists>parsed pay_to raw tx.
        pl_parse Z (zally_network_for (ps_network request)) (ps_pczt_bytes request) = Ok parsed
      \<and> pl_decode_address Z (zally_network_for (ps_network request)) (ps_pay_to request) = Some pay_to
      \<and> list_all (pays_to (pl_sapling_address Z) (\<lambda>r. pl_corresponds Z r pay_to) (ps_pay_to request))
           (labelled (pz_sapling_outputs parsed))
      \<and> list_all (pays_to (pl_orchard_address Z) (\<lambda>r. pl_corresponds Z r pay_to) (ps_pay_to request))
           (labelled (pz_orchard_outputs parsed) @ labelled (pz_ironwood_outputs parsed))
      \<and> list_all (\<lambda>a. a = None) (pz_transparent_user_addresses parsed)
      \<and> paid (pz_sapling_outputs parsed) + paid (pz_orchard_outputs parsed) + paid (pz_ironwood_outputs parsed)
         = unat (ps_amount_zat request)
      \<and> pl_extract Z (zally_network_for (ps_network request)) (ps_pczt_bytes request) = Ok (raw, tx)
      \<and> v = \<lparr>vp_raw_tx_bytes = raw, vp_transaction_id = pl_to_rpc_hex Z tx,
             vp_expiry_height = pz_expiry_height parsed\<rparr>)"
  unfolding verify_pczt_Ok_iff matched_pczt_Ok_iff list_all_iff set_append
  by (simp only: eq_commute [of "unat (ps_amount_zat request)"]) blast

text \<open>Only the owner settles: a settle call that broadcasts anything, changes a store or reports an outcome
  was made with the DPoP thumbprint that prepared the payment, on a live prepared row of the current
  memo version, with a transaction whose expiry height is the prepared one.  Every refused call leaves
  the prepared store, the ledger and the chain as they were.\<close>

theorem settle_acts_only_for_owner:
  assumes "submit_settlement PreparedTxCache SettlementLedgerMem C T now request jkt p l c = (r, p', l', c')"
    and "c' \<noteq> c \<or> p' \<noteq> p \<or> l' \<noteq> l \<or> \<not> isl r"
  shows "\<exists>e. cache_rows p (sr_payment_id request) = Some e \<and> gate_passed T request jkt e"
proof (cases "settle_gate PreparedTxCache T request jkt p")
  case (Inl x)
  then show ?thesis using assms submit_settlement_gated [OF Inl, of SettlementLedgerMem C now l c] by auto
next
  case (Inr e)
  then show ?thesis by (simp add: settle_gate_Ok_iff cache_find_by_payment_id_def cache_rows_def)
qed

theorem settle_acts_only_for_owner_witness:
  "\<exists>e. cache_rows ex_cache ''id1'' = Some e \<and> gate_passed ex_txlib ex_settle ''agent'' e"
  using settle_acts_only_for_owner [OF ex_settle_run] by (simp add: ex_settle_def)

text \<open>[C23] A failed broadcast can be retried: when the chain plane answers with a failure kind, the settle call
  still reports it and records it in the ledger, so the payment reads as Failed and never as settled,
  no watch handle is issued, and the prepared store is unchanged.\<close>

theorem settle_failure_keeps_preparation:
  assumes "cache_inv p" "hm_wf l"
    and "submit_settlement PreparedTxCache SettlementLedgerMem C T now request jkt p l c = (Ok out, p', l', c')"
    and "\<not> is_success (so_broadcast_outcome out)"
  shows "p' = p \<and> so_watch_id out = None
    \<and> (\<exists>snap. lookup_payment_status PreparedTxCache SettlementLedgerMem now' (sr_payment_id request) depth view p' l'
          = Ok snap \<and> sn_status snap = Failed \<and> \<not> sn_settled snap
          \<and> sn_broadcast_outcome snap = Some (so_broadcast_outcome out))"
proof -
  obtain e where "hm_get l' = (hm_get l)(sr_payment_id request \<mapsto> settle_entry now e (so_broadcast_outcome out))"
    using mem.settle_effect [OF assms(1-3)] by auto
  moreover have "p' = p" "so_watch_id out = None"
    using submit_settlement_Ok [OF assms(3)] assms(4) by auto
  ultimately show ?thesis using assms(4)
    by (simp add: mem_lookup project_rows_def ledger_snapshot_def settle_entry_def)
qed

lemma ex_settle_rejected:
  "submit_settlement PreparedTxCache SettlementLedgerMem (ex_chain SubmitOther) ex_txlib 200 ex_settle
     ''agent'' ex_cache [] 0 =
   (Ok \<lparr>so_payment_id = ''id1'',
        so_broadcast_outcome = Unknown ''submitter returned an unrecognised outcome variant'', so_watch_id = None\<rparr>,
    ex_cache, [(''id1'', settle_entry 200 ex_prepared
      (Unknown ''submitter returned an unrecognised outcome variant''))], 1)"
  by (simp add: submit_settlement_def ex_gate) (simp add: ex_txlib_def ex_settle_def ex_chain_def Let_def
      ledger_record_def)

theorem settle_failure_keeps_preparation_witness:
  "\<exists>snap. lookup_payment_status PreparedTxCache SettlementLedgerMem 201 ''id1'' 3 default_view ex_cache
      [(''id1'', settle_entry 200 ex_prepared (Unknown ''submitter returned an unrecognised outcome variant''))]
      = Ok snap \<and> sn_status snap = Failed"
  using settle_failure_keeps_preparation [OF ex_cache_inv hm_wf_Nil ex_settle_rejected, of 201 3 default_view]
  by (auto simp: ex_settle_def)

end
