(* ===== verification/Store_Libsql.thy ===== *)
theory Store_Libsql
  imports Settle
begin

text \<open>
  The libSQL persistence layer (\<open>zpay-store\<close>): the connection with its
  retry-once rule (\<open>connection.rs\<close>), the two store implementations with their
  row codecs (\<open>prepared_tx.rs\<close>, \<open>settlement_ledger.rs\<close>) and the migration
  runner (\<open>migration.rs\<close>).  A table is an association list from its primary
  key to a record of SQL columns, integer columns being integers; a statement is a
  function on the tables.  Transport faults are an argument: \<open>net k\<close> is the
  error of the \<open>k\<close>-th statement attempt of an operation, if it fails.  Both
  stores are interpreted in the contracts the in-memory stores satisfy.
\<close>

subsection \<open>Connection\<close>

definition contains :: "string \<Rightarrow> string \<Rightarrow> bool" where
  "contains hay needle =
     list_ex (\<lambda>n. take (length needle) (drop n hay) = needle) [0..<Suc (length hay)]"

definition is_stream_not_found :: "string \<Rightarrow> bool" where
  "is_stream_not_found err = contains err ''stream not found''"

definition to_store_error :: "string \<Rightarrow> StoreError" where
  "to_store_error reason =
    (if contains reason ''UNIQUE'' then IntegrityViolation reason else StoreUnavailable reason)"

type_synonym net = "nat \<Rightarrow> string option"

definition attempt :: "net \<Rightarrow> nat \<Rightarrow> ('d \<Rightarrow> (string + 'a) \<times> 'd) \<Rightarrow> 'd \<Rightarrow> (string + 'a) \<times> 'd" where
  "attempt net k stmt db = (case net k of Some err \<Rightarrow> (Err err, db) | None \<Rightarrow> stmt db)"

definition execute :: "net \<Rightarrow> nat \<Rightarrow> ('d \<Rightarrow> (string + 'a) \<times> 'd) \<Rightarrow> 'd \<Rightarrow> (string + 'a) \<times> 'd" where
  "execute net k stmt db =
    (case attempt net k stmt db of
       (Inr r, db') \<Rightarrow> (Ok r, db')
     | (Inl err, db') \<Rightarrow>
        if is_stream_not_found err then attempt net (Suc k) stmt db' else (Err err, db'))"

definition query :: "net \<Rightarrow> nat \<Rightarrow> ('d \<Rightarrow> 'a) \<Rightarrow> 'd \<Rightarrow> string + 'a" where
  "query net k sel db = fst (execute net k (\<lambda>d. (Ok (sel d), d)) db)"

text \<open>\<open>rows.next()\<close> after a query can fail on its own, and is not retried.  \<open>net (k + 2)\<close> is its
  error; for a query of several rows, that of the first \<open>next\<close> that fails.\<close>

definition fetch_rows :: "net \<Rightarrow> nat \<Rightarrow> ('d \<Rightarrow> 'a) \<Rightarrow> 'd \<Rightarrow> string + 'a" where
  "fetch_rows net k sel db =
    (case query net k sel db of
       Inl err \<Rightarrow> Err err
     | Inr rows \<Rightarrow> (case net (k + 2) of Some err \<Rightarrow> Err err | None \<Rightarrow> Ok rows))"

datatype StoreUrl = LocalUrl string | RemoteUrl string string

definition build_connection :: "string \<Rightarrow> string option \<Rightarrow> StoreError + StoreUrl" where
  "build_connection store_url auth_token =
    (if take 5 store_url = ''file:'' then Ok (LocalUrl (drop 5 store_url))
     else if take 9 store_url = ''libsql://'' then
       (case auth_token of
          None \<Rightarrow> Err (StoreUnavailable
            ''remote libsql URL requires an auth token (set ZPAY_STORE__AUTH_TOKEN)'')
        | Some token \<Rightarrow> Ok (RemoteUrl store_url token))
     else Err (StoreUnavailable (''unsupported store URL: '' @ store_url @
       '' (expected file:<path> or libsql://<host>)'')))"

subsection \<open>Prepared transactions\<close>

record PreparedRow =
  pc_payee_id :: string
  pc_network :: string
  pc_recipient_unified_address :: string
  pc_amount_zat :: int
  pc_memo_bytes :: bytes
  pc_expiry_height :: int
  pc_agent_dpop_jkt :: string
  pc_idempotency_key :: "string option"
  pc_expires_at_unix_seconds :: int

type_synonym PreparedTable = "(string, PreparedRow) hashmap"

fun network_to_sql :: "PaymentNetwork \<Rightarrow> string" where
  "network_to_sql Mainnet = ''mainnet''"
| "network_to_sql Testnet = ''testnet''"
| "network_to_sql Regtest = ''regtest''"

definition sql_to_network :: "string \<Rightarrow> StoreError + PaymentNetwork" where
  "sql_to_network raw =
    (if raw = ''mainnet'' then Ok Mainnet else if raw = ''testnet'' then Ok Testnet
     else if raw = ''regtest'' then Ok Regtest
     else Err (RowMalformed (''unknown network: '' @ raw)))"

definition row_to_prepared_tx_entry ::
  "(bytes \<Rightarrow> string) \<Rightarrow> string \<Rightarrow> PreparedRow \<Rightarrow> StoreError + PreparedTxEntry" where
  "row_to_prepared_tx_entry b64 pid row =
    (case i64_to_u64 (pc_amount_zat row) of
       None \<Rightarrow> Err (RowMalformed ''amount_zat does not fit u64'')
     | Some amount_zat \<Rightarrow>
    (case i64_to_u32 (pc_expiry_height row) of
       None \<Rightarrow> Err (RowMalformed ''expiry_height does not fit u32'')
     | Some expiry_height \<Rightarrow>
    (case sql_to_network (pc_network row) of
       Inl e \<Rightarrow> Err e
     | Inr network \<Rightarrow>
    (case i64_to_u64 (pc_expires_at_unix_seconds row) of
       None \<Rightarrow> Err (RowMalformed ''expires_at_unix_seconds does not fit u64'')
     | Some expires_at \<Rightarrow>
       Ok \<lparr>pe_preparation =
             \<lparr>pr_payment_id = pid,
              pr_payment_uri = compose_payment_uri b64 (pc_recipient_unified_address row) amount_zat (pc_memo_bytes row),
              pr_memo_bytes = pc_memo_bytes row, pr_expiry_height = expiry_height, pr_amount_zat = amount_zat\<rparr>,
           pe_payee_id = pc_payee_id row, pe_network = network,
           pe_recipient_unified_address = pc_recipient_unified_address row,
           pe_amount_zat = amount_zat, pe_expires_at_unix_seconds = expires_at,
           pe_idempotency_key = pc_idempotency_key row, pe_agent_dpop_jkt = pc_agent_dpop_jkt row\<rparr>))))"

text \<open>The upsert statement: the primary key replaces, the partial unique index on agent and key
  refuses a second live row.\<close>

definition UNIQUE_MESSAGE :: string where
  "UNIQUE_MESSAGE = ''UNIQUE constraint failed: prepared_tx.agent_dpop_jkt, prepared_tx.idempotency_key''"

definition upsert_prepared :: "string \<Rightarrow> PreparedRow \<Rightarrow> PreparedTable \<Rightarrow> (string + nat) \<times> PreparedTable" where
  "upsert_prepared pid row t =
    (if pc_idempotency_key row \<noteq> None \<and>
        list_ex (\<lambda>(q, r). q \<noteq> pid \<and> pc_agent_dpop_jkt r = pc_agent_dpop_jkt row
                        \<and> pc_idempotency_key r = pc_idempotency_key row) t
     then (Err UNIQUE_MESSAGE, t) else (Ok 1, hm_insert pid row t))"

definition map_store_error :: "(string + 'a) \<times> 'd \<Rightarrow> (StoreError + 'a) \<times> 'd" where
  "map_store_error r = (case r of (Inl err, db) \<Rightarrow> (Err (to_store_error err), db) | (Inr v, db) \<Rightarrow> (Ok v, db))"

definition libsql_insert :: "net \<Rightarrow> PreparedTxEntry \<Rightarrow> PreparedTable \<Rightarrow> (StoreError + unit) \<times> PreparedTable" where
  "libsql_insert net entry t =
    (case u64_to_i64 (pe_amount_zat entry) of
       None \<Rightarrow> (Err (IntegrityViolation ''amount_zat exceeds i64''), t)
     | Some amount_zat \<Rightarrow>
    (case u64_to_i64 (pe_expires_at_unix_seconds entry) of
       None \<Rightarrow> (Err (IntegrityViolation ''expires_at_unix_seconds exceeds i64''), t)
     | Some expires_at \<Rightarrow>
       let row = \<lparr>pc_payee_id = pe_payee_id entry, pc_network = network_to_sql (pe_network entry),
                  pc_recipient_unified_address = pe_recipient_unified_address entry,
                  pc_amount_zat = amount_zat, pc_memo_bytes = pr_memo_bytes (pe_preparation entry),
                  pc_expiry_height = uint (pr_expiry_height (pe_preparation entry)),
                  pc_agent_dpop_jkt = pe_agent_dpop_jkt entry,
                  pc_idempotency_key = pe_idempotency_key entry,
                  pc_expires_at_unix_seconds = expires_at\<rparr>
       in case map_store_error (execute net 0 (upsert_prepared (pe_payment_id entry) row) t) of
            (Inl e, t') \<Rightarrow> (Err e, t') | (Inr _, t') \<Rightarrow> (Ok (), t')))"

definition read_row :: "(bytes \<Rightarrow> string) \<Rightarrow> (string \<times> PreparedRow) option \<Rightarrow> StoreError + PreparedTxEntry option" where
  "read_row b64 r = (case r of None \<Rightarrow> Ok None
     | Some (pid, row) \<Rightarrow> (case row_to_prepared_tx_entry b64 pid row of Inl e \<Rightarrow> Err e | Inr e \<Rightarrow> Ok (Some e)))"

definition libsql_find_by_payment_id ::
  "(bytes \<Rightarrow> string) \<Rightarrow> net \<Rightarrow> PaymentId \<Rightarrow> PreparedTable \<Rightarrow> StoreError + PreparedTxEntry option" where
  "libsql_find_by_payment_id b64 net pid t =
    (case fetch_rows net 0 (List.find (\<lambda>(q, _). q = pid)) t of
       Inl err \<Rightarrow> Err (to_store_error err) | Inr r \<Rightarrow> read_row b64 r)"

definition libsql_find_by_idempotency ::
  "(bytes \<Rightarrow> string) \<Rightarrow> net \<Rightarrow> string \<Rightarrow> string \<Rightarrow> PreparedTable \<Rightarrow> StoreError + PreparedTxEntry option" where
  "libsql_find_by_idempotency b64 net jkt key t =
    (case fetch_rows net 0 (List.find (\<lambda>(_, r). pc_agent_dpop_jkt r = jkt \<and> pc_idempotency_key r = Some key)) t of
       Inl err \<Rightarrow> Err (to_store_error err) | Inr r \<Rightarrow> read_row b64 r)"

definition libsql_remove ::
  "(bytes \<Rightarrow> string) \<Rightarrow> net \<Rightarrow> PaymentId \<Rightarrow> PreparedTable \<Rightarrow> (StoreError + PreparedTxEntry option) \<times> PreparedTable" where
  "libsql_remove b64 net pid t =
    (case libsql_find_by_payment_id b64 net pid t of
       Inl e \<Rightarrow> (Err e, t)
     | Inr None \<Rightarrow> (Ok None, t)
     | Inr (Some existing) \<Rightarrow>
        (case map_store_error (execute net 3 (\<lambda>t. (Ok (1 :: nat), hm_remove pid t)) t) of
           (Inl e, t') \<Rightarrow> (Err e, t') | (Inr _, t') \<Rightarrow> (Ok (Some existing), t')))"

definition libsql_sweep_expired :: "net \<Rightarrow> u64 \<Rightarrow> PreparedTable \<Rightarrow> (StoreError + nat) \<times> PreparedTable" where
  "libsql_sweep_expired net now_secs t =
    (case u64_to_i64 now_secs of
       None \<Rightarrow> (Err (IntegrityViolation ''now_unix_seconds exceeds i64''), t)
     | Some now \<Rightarrow>
        map_store_error (execute net 0 (\<lambda>t.
          let kept = hm_retain (\<lambda>_ r. \<not> pc_expires_at_unix_seconds r \<le> now) t
          in (Ok (length t - length kept), kept)) t))"

definition libsql_entry_count :: "net \<Rightarrow> ('k, 'v) hashmap \<Rightarrow> StoreError + nat" where
  "libsql_entry_count net t = (case fetch_rows net 0 length t of
     Inl err \<Rightarrow> Err (to_store_error err) | Inr n \<Rightarrow> Ok n)"

definition LibsqlPreparedTxStore :: "(bytes \<Rightarrow> string) \<Rightarrow> net \<Rightarrow> PreparedTable PreparedTxStore" where
  "LibsqlPreparedTxStore b64 net = \<lparr>pts_insert = libsql_insert net,
     pts_find_by_payment_id = libsql_find_by_payment_id b64 net,
     pts_find_by_idempotency = libsql_find_by_idempotency b64 net,
     pts_remove = libsql_remove b64 net, pts_sweep_expired = libsql_sweep_expired net,
     pts_entry_count = libsql_entry_count net\<rparr>"

lemma LibsqlPreparedTxStore_ops [simp]:
  "pts_insert (LibsqlPreparedTxStore b64 net) = libsql_insert net"
  "pts_find_by_payment_id (LibsqlPreparedTxStore b64 net) = libsql_find_by_payment_id b64 net"
  "pts_find_by_idempotency (LibsqlPreparedTxStore b64 net) = libsql_find_by_idempotency b64 net"
  "pts_remove (LibsqlPreparedTxStore b64 net) = libsql_remove b64 net"
  "pts_sweep_expired (LibsqlPreparedTxStore b64 net) = libsql_sweep_expired net"
  "pts_entry_count (LibsqlPreparedTxStore b64 net) = libsql_entry_count net"
  by (simp_all add: LibsqlPreparedTxStore_def)

subsection \<open>The retry rule\<close>

definition atomic_at :: "('d \<Rightarrow> (string + 'a) \<times> 'd) \<Rightarrow> 'd \<Rightarrow> bool" where
  "atomic_at stmt db \<longleftrightarrow> (\<forall>e db'. stmt db = (Err e, db') \<longrightarrow> db' = db)"

lemma execute_Ok: "atomic_at stmt db \<Longrightarrow> execute net k stmt db = (Ok r, db') \<Longrightarrow> stmt db = (Ok r, db')"
  by (auto simp: execute_def attempt_def atomic_at_def split: option.splits sum.splits prod.splits if_splits)

lemma execute_Err: "atomic_at stmt db \<Longrightarrow> execute net k stmt db = (Err e, db') \<Longrightarrow> db' = db"
  by (auto simp: execute_def attempt_def atomic_at_def split: option.splits sum.splits prod.splits if_splits)

lemma query_Ok: "query net k sel db = Ok r \<Longrightarrow> r = sel db"
  by (auto simp: query_def execute_def attempt_def split: option.splits sum.splits prod.splits if_splits)

lemma fetch_rows_Ok: "fetch_rows net k sel db = Ok r \<Longrightarrow> r = sel db"
  by (auto simp: fetch_rows_def split: sum.splits option.splits dest: query_Ok)

text \<open>Without faults a read answers, and a failure names the fault it reports.\<close>

lemma fetch_rows_Err:
  "fetch_rows net k sel db = Err e \<Longrightarrow> \<exists>j. net j = Some e"
  by (auto simp: fetch_rows_def query_def execute_def attempt_def split: sum.splits option.splits if_splits prod.splits)

lemma execute_Err_fault:
  "(\<And>db. \<exists>r db'. stmt db = (Ok r, db')) \<Longrightarrow> execute net k stmt db = (Err e, db') \<Longrightarrow> \<exists>j. net j = Some e"
  by (auto simp: execute_def attempt_def split: sum.splits option.splits if_splits prod.splits) (metis Inl_Inr_False prod.inject)+

lemma atomic_total [simp]: "atomic_at (\<lambda>d. (Ok (f d), g d)) db"
  by (simp add: atomic_at_def)

lemma map_store_error_simps [simp]:
  "map_store_error x = (Ok v, db) \<longleftrightarrow> x = (Ok v, db)"
  "map_store_error x = (Err e, db) \<longleftrightarrow> (\<exists>err. x = (Err err, db) \<and> e = to_store_error err)"
  by (auto simp: map_store_error_def split: prod.splits sum.splits)

subsection \<open>The libSQL prepared store meets the contract\<close>

definition row_ok :: "PreparedRow \<Rightarrow> bool" where
  "row_ok r \<longleftrightarrow> 0 \<le> pc_amount_zat r \<and> i64_to_u32 (pc_expiry_height r) \<noteq> None
     \<and> \<not> isl (sql_to_network (pc_network r))
     \<and> 0 \<le> pc_expires_at_unix_seconds r \<and> pc_expires_at_unix_seconds r \<le> i64_max"

definition prepared_rows :: "(bytes \<Rightarrow> string) \<Rightarrow> PreparedTable \<Rightarrow> PaymentId \<Rightarrow> PreparedTxEntry option" where
  "prepared_rows b64 t pid = (case hm_get t pid of None \<Rightarrow> None
     | Some r \<Rightarrow> (case row_to_prepared_tx_entry b64 pid r of Inl _ \<Rightarrow> None | Inr e \<Rightarrow> Some e))"

definition unique_keys :: "PreparedTable \<Rightarrow> bool" where
  "unique_keys t \<longleftrightarrow> (\<forall>p q r r'. hm_get t p = Some r \<longrightarrow> hm_get t q = Some r' \<longrightarrow>
     pc_idempotency_key r \<noteq> None \<longrightarrow> pc_idempotency_key r = pc_idempotency_key r' \<longrightarrow>
     pc_agent_dpop_jkt r = pc_agent_dpop_jkt r' \<longrightarrow> p = q)"

definition prepared_inv :: "PreparedTable \<Rightarrow> bool" where
  "prepared_inv t \<longleftrightarrow> hm_wf t \<and> (\<forall>p r. hm_get t p = Some r \<longrightarrow> row_ok r) \<and> unique_keys t"

lemma row_ok_decodes:
  assumes "row_ok r"
  obtains e where "row_to_prepared_tx_entry b64 pid r = Ok e" "pe_payment_id e = pid"
    "pe_agent_dpop_jkt e = pc_agent_dpop_jkt r" "pe_idempotency_key e = pc_idempotency_key r"
    "i64_to_u64 (pc_expires_at_unix_seconds r) = Some (pe_expires_at_unix_seconds e)"
proof -
  obtain a h n x where "i64_to_u64 (pc_amount_zat r) = Some a" "i64_to_u32 (pc_expiry_height r) = Some h"
    "sql_to_network (pc_network r) = Inr n" "i64_to_u64 (pc_expires_at_unix_seconds r) = Some x"
    using assms by (cases "sql_to_network (pc_network r)") (auto simp: row_ok_def i64_to_u64_def)
  then obtain e where "row_to_prepared_tx_entry b64 pid r = Ok e" "e = \<lparr>pe_preparation =
      \<lparr>pr_payment_id = pid,
       pr_payment_uri = compose_payment_uri b64 (pc_recipient_unified_address r) a (pc_memo_bytes r),
       pr_memo_bytes = pc_memo_bytes r, pr_expiry_height = h, pr_amount_zat = a\<rparr>,
     pe_payee_id = pc_payee_id r, pe_network = n,
     pe_recipient_unified_address = pc_recipient_unified_address r, pe_amount_zat = a,
     pe_expires_at_unix_seconds = x, pe_idempotency_key = pc_idempotency_key r,
     pe_agent_dpop_jkt = pc_agent_dpop_jkt r\<rparr>"
    by (simp add: row_to_prepared_tx_entry_def)
  then show ?thesis using \<open>i64_to_u64 (pc_expires_at_unix_seconds r) = Some x\<close> by (intro that [of e]) simp_all
qed

lemma network_roundtrip [simp]: "sql_to_network (network_to_sql n) = Ok n"
  by (cases n) (simp_all add: sql_to_network_def)

definition encode_row :: "PreparedTxEntry \<Rightarrow> PreparedRow" where
  "encode_row entry = \<lparr>pc_payee_id = pe_payee_id entry, pc_network = network_to_sql (pe_network entry),
     pc_recipient_unified_address = pe_recipient_unified_address entry,
     pc_amount_zat = uint (pe_amount_zat entry), pc_memo_bytes = pr_memo_bytes (pe_preparation entry),
     pc_expiry_height = uint (pr_expiry_height (pe_preparation entry)),
     pc_agent_dpop_jkt = pe_agent_dpop_jkt entry, pc_idempotency_key = pe_idempotency_key entry,
     pc_expires_at_unix_seconds = uint (pe_expires_at_unix_seconds entry)\<rparr>"

lemma prepared_row_roundtrip:
  "derived b64 e \<Longrightarrow> row_to_prepared_tx_entry b64 (pe_payment_id e) (encode_row e) = Ok e"
  by (simp add: row_to_prepared_tx_entry_def encode_row_def i64_to_u64_def derived_def)

lemma libsql_insert_eq:
  "libsql_insert net e t =
    (if \<not> fits_i64 (pe_amount_zat e) then (Err (IntegrityViolation ''amount_zat exceeds i64''), t)
     else if \<not> fits_i64 (pe_expires_at_unix_seconds e)
     then (Err (IntegrityViolation ''expires_at_unix_seconds exceeds i64''), t)
     else (case execute net 0 (upsert_prepared (pe_payment_id e) (encode_row e)) t of
             (Inl err, t') \<Rightarrow> (Err (to_store_error err), t') | (Inr _, t') \<Rightarrow> (Ok (), t')))"
  by (simp add: libsql_insert_def u64_to_i64_def fits_i64_def encode_row_def Let_def map_store_error_def
      split: prod.split sum.split)

lemma atomic_upsert: "atomic_at (upsert_prepared p r) t"
  by (auto simp: atomic_at_def upsert_prepared_def)

lemma libsql_insert_Ok:
  assumes "libsql_insert net e t = (Ok u, t')"
  shows "\<exists>n. upsert_prepared (pe_payment_id e) (encode_row e) t = (Ok n, t')"
    and "fits_i64 (pe_amount_zat e)" and "fits_i64 (pe_expires_at_unix_seconds e)"
proof -
  obtain n where "execute net 0 (upsert_prepared (pe_payment_id e) (encode_row e)) t = (Ok n, t')"
    using assms by (auto simp: libsql_insert_eq split: if_splits prod.splits sum.splits)
  then show "\<exists>n. upsert_prepared (pe_payment_id e) (encode_row e) t = (Ok n, t')"
    using execute_Ok [OF atomic_upsert] by blast
qed (use assms in \<open>auto simp: libsql_insert_eq split: if_splits\<close>)

lemma libsql_insert_Err: "libsql_insert net e t = (Err x, t') \<Longrightarrow> t' = t"
  using execute_Err [OF atomic_upsert]
  by (auto simp: libsql_insert_eq split: if_splits prod.splits sum.splits)

lemma row_ok_encode:
  "fits_i64 (pe_expires_at_unix_seconds e) \<Longrightarrow> row_ok (encode_row e)"
  by (simp add: row_ok_def encode_row_def fits_i64_def)

lemma upsert_inv:
  assumes "prepared_inv t" "row_ok r" "upsert_prepared p r t = (Ok n, t')"
  shows "prepared_inv t' \<and> t' = hm_insert p r t"
proof -
  have t': "t' = hm_insert p r t" and nodup: "pc_idempotency_key r \<noteq> None \<Longrightarrow>
      (q, r') \<in> set t \<Longrightarrow> q \<noteq> p \<Longrightarrow> pc_agent_dpop_jkt r' = pc_agent_dpop_jkt r \<Longrightarrow>
      pc_idempotency_key r' \<noteq> pc_idempotency_key r" for q r'
    using assms(3) by (auto simp: upsert_prepared_def list_ex_iff split: if_splits)
  have wf: "hm_wf t" and uk: "unique_keys t" using assms(1) by (simp_all add: prepared_inv_def)
  have "unique_keys t'" unfolding unique_keys_def
  proof (intro allI impI)
    fix a b ra rb
    assume g: "hm_get t' a = Some ra" "hm_get t' b = Some rb" "pc_idempotency_key ra \<noteq> None"
      "pc_idempotency_key ra = pc_idempotency_key rb" "pc_agent_dpop_jkt ra = pc_agent_dpop_jkt rb"
    then show "a = b" using uk nodup wf unfolding t' unique_keys_def
      by (cases "a = p"; cases "b = p") (auto simp: hm_simps hm_in_set)
  qed
  moreover have "hm_get t' a = Some ra \<Longrightarrow> row_ok ra" for a ra
    using assms(1,2) by (auto simp: t' prepared_inv_def hm_simps split: if_splits)
  ultimately show ?thesis using t' wf by (simp add: prepared_inv_def)
qed

lemma prepared_rows_Some:
  "prepared_inv t \<Longrightarrow> prepared_rows b64 t p = Some e \<longleftrightarrow>
     (\<exists>r. hm_get t p = Some r \<and> row_to_prepared_tx_entry b64 p r = Ok e)"
  by (auto simp: prepared_rows_def split: option.splits sum.splits)

lemma row_decoded_fields:
  "row_to_prepared_tx_entry b64 p r = Ok e \<Longrightarrow> pe_payment_id e = p \<and> pe_agent_dpop_jkt e = pc_agent_dpop_jkt r
     \<and> pe_idempotency_key e = pc_idempotency_key r
     \<and> pe_expires_at_unix_seconds e = word_of_int (pc_expires_at_unix_seconds r)"
  by (auto simp: row_to_prepared_tx_entry_def i64_to_u64_def split: option.splits sum.splits if_splits)

lemma dom_prepared_rows: "prepared_inv t \<Longrightarrow> dom (prepared_rows b64 t) = set (map fst t)"
proof -
  assume inv: "prepared_inv t"
  have "prepared_rows b64 t p \<noteq> None \<longleftrightarrow> hm_get t p \<noteq> None" for p
  proof (cases "hm_get t p")
    case (Some r)
    then have "row_ok r" using inv by (simp add: prepared_inv_def)
    then show ?thesis using Some by (auto simp: prepared_rows_def elim: row_ok_decodes [of r b64 p])
  qed (simp add: prepared_rows_def)
  then have "p \<in> dom (prepared_rows b64 t) \<longleftrightarrow> p \<in> dom (hm_get t)" for p by blast
  then show ?thesis by (simp add: set_eq_iff dom_map_of_conv_image_fst)
qed

lemma card_prepared_rows: "prepared_inv t \<Longrightarrow> card (dom (prepared_rows b64 t)) = length t"
  using distinct_card [of "map fst t"] by (simp add: dom_prepared_rows prepared_inv_def hm_wf_def del: set_map)

lemma find_key_row: "List.find (\<lambda>(q, _). q = p) t = (case hm_get t p of None \<Rightarrow> None | Some r \<Rightarrow> Some (p, r))"
  by (induction t) auto

lemma libsql_find_Ok:
  assumes "libsql_find_by_payment_id b64 net p t = Ok r"
  shows "r = prepared_rows b64 t p"
  using assms fetch_rows_Ok [of net 0 "List.find (\<lambda>(q, _). q = p)" t]
  by (auto simp: libsql_find_by_payment_id_def read_row_def prepared_rows_def find_key_row
      split: sum.splits option.splits)

lemma libsql_find_key_Ok:
  assumes "prepared_inv t" "libsql_find_by_idempotency b64 net j k t = Ok r"
  shows "r = Some e \<longleftrightarrow> prepared_rows b64 t (pe_payment_id e) = Some e \<and> holds_key j k e"
proof -
  let ?f = "List.find (\<lambda>(_, r). pc_agent_dpop_jkt r = j \<and> pc_idempotency_key r = Some k) t"
  have r: "read_row b64 ?f = Ok r"
    using assms(2) fetch_rows_Ok [of net 0 "List.find (\<lambda>(_, r). pc_agent_dpop_jkt r = j \<and> pc_idempotency_key r = Some k)" t]
    by (auto simp: libsql_find_by_idempotency_def split: sum.splits)
  show ?thesis
  proof (cases ?f)
    case None
    then have "\<not> (\<exists>p s. hm_get t p = Some s \<and> pc_agent_dpop_jkt s = j \<and> pc_idempotency_key s = Some k)"
      by (auto simp: find_None_iff dest: map_of_SomeD)
    then show ?thesis using r None assms(1)
      by (auto simp: read_row_def prepared_rows_Some holds_key_def dest!: row_decoded_fields)
  next
    case (Some ps)
    then obtain p s where ps: "?f = Some (p, s)" "pc_agent_dpop_jkt s = j" "pc_idempotency_key s = Some k" "(p, s) \<in> set t"
      using find_SomeD [OF Some] by (cases ps) auto
    then have g: "hm_get t p = Some s" using assms(1) by (simp add: prepared_inv_def hm_in_set)
    then obtain f where f: "row_to_prepared_tx_entry b64 p s = Ok f"
      using assms(1) row_ok_decodes by (metis prepared_inv_def)
    have uniq: "hm_get t q = Some s' \<Longrightarrow> pc_agent_dpop_jkt s' = j \<Longrightarrow> pc_idempotency_key s' = Some k \<Longrightarrow> q = p" for q s'
      using assms(1) g ps unfolding prepared_inv_def unique_keys_def by (metis option.distinct(1))
    have rf: "r = Some f" using r f ps(1) by (simp add: read_row_def)
    have f': "pe_payment_id f = p" "holds_key j k f" "prepared_rows b64 t p = Some f"
      using row_decoded_fields [OF f] ps(2,3) f g by (simp_all add: holds_key_def prepared_rows_def)
    show ?thesis
    proof
      assume "r = Some e"
      then show "prepared_rows b64 t (pe_payment_id e) = Some e \<and> holds_key j k e" using rf f' by simp
    next
      assume e: "prepared_rows b64 t (pe_payment_id e) = Some e \<and> holds_key j k e"
      then obtain s' where s': "hm_get t (pe_payment_id e) = Some s'"
        "row_to_prepared_tx_entry b64 (pe_payment_id e) s' = Ok e"
        using assms(1) by (auto simp: prepared_rows_Some)
      have "pc_agent_dpop_jkt s' = j" "pc_idempotency_key s' = Some k"
        using e row_decoded_fields [OF s'(2)] by (simp_all add: holds_key_def)
      then have "pe_payment_id e = p" using uniq [OF s'(1)] by simp
      then show "r = Some e" using rf f'(3) e by simp
    qed
  qed
qed

lemma unique_keys_sub:
  "unique_keys t \<Longrightarrow> (\<And>p r. hm_get t' p = Some r \<Longrightarrow> hm_get t p = Some r) \<Longrightarrow> unique_keys t'"
  unfolding unique_keys_def by meson

lemma prepared_inv_remove: "prepared_inv t \<Longrightarrow> prepared_inv (hm_remove p t)"
  unfolding prepared_inv_def
  by (auto simp: hm_simps split: if_splits elim!: unique_keys_sub)

lemma prepared_inv_retain: "prepared_inv t \<Longrightarrow> prepared_inv (hm_retain P t)"
  unfolding prepared_inv_def
  by (auto simp: hm_simps split: if_splits option.splits elim!: unique_keys_sub)

lemma libsql_remove_Ok:
  assumes "prepared_inv t" "libsql_remove b64 net p t = (Ok r, t')"
  shows "r = prepared_rows b64 t p \<and> prepared_inv t' \<and> prepared_rows b64 t' = (prepared_rows b64 t)(p := None)"
proof (cases "libsql_find_by_payment_id b64 net p t")
  case (Inl e)
  then show ?thesis using assms(2) by (simp add: libsql_remove_def)
next
  case (Inr ex)
  have ex: "ex = prepared_rows b64 t p" using libsql_find_Ok [OF Inr] .
  have rm: "prepared_rows b64 (hm_remove p t) = (prepared_rows b64 t)(p := None)"
    by (auto simp: prepared_rows_def hm_simps fun_eq_iff)
  show ?thesis
  proof (cases ex)
    case None
    then show ?thesis using assms Inr ex by (auto simp: libsql_remove_def fun_eq_iff)
  next
    case (Some e)
    then obtain n where "execute net 3 (\<lambda>t. (Ok (1 :: nat), hm_remove p t)) t = (Ok n, t')" "r = Some e"
      using assms(2) Inr by (auto simp: libsql_remove_def split: sum.splits prod.splits)
    then have "t' = hm_remove p t" using execute_Ok [of "\<lambda>t. (Ok (1 :: nat), hm_remove p t)" t] by auto
    then show ?thesis using rm prepared_inv_remove [OF assms(1)] ex Some \<open>r = Some e\<close> by simp
  qed
qed

lemma libsql_remove_Err: "libsql_remove b64 net p t = (Err x, t') \<Longrightarrow> t' = t"
  using execute_Err [of "\<lambda>t. (Ok (1 :: nat), hm_remove p t)" t net 3]
  by (auto simp: libsql_remove_def split: sum.splits option.splits prod.splits)

definition sweep_stmt :: "i64 \<Rightarrow> PreparedTable \<Rightarrow> (string + nat) \<times> PreparedTable" where
  "sweep_stmt now t = (let kept = hm_retain (\<lambda>_ r. \<not> pc_expires_at_unix_seconds r \<le> now) t
     in (Ok (length t - length kept), kept))"

lemma libsql_sweep_eq:
  "libsql_sweep_expired net now t = (if fits_i64 now then map_store_error (execute net 0 (sweep_stmt (uint now)) t)
     else (Err (IntegrityViolation ''now_unix_seconds exceeds i64''), t))"
  by (simp add: libsql_sweep_expired_def u64_to_i64_def fits_i64_def sweep_stmt_def [abs_def])

lemma sweep_rows:
  assumes "prepared_inv t" "fits_i64 now"
  shows "prepared_rows b64 (hm_retain (\<lambda>_ r. \<not> pc_expires_at_unix_seconds r \<le> uint now) t) =
    unexpired now (prepared_rows b64 t)"
proof
  fix p
  have wf: "hm_wf t" using assms(1) by (simp add: prepared_inv_def)
  show "prepared_rows b64 (hm_retain (\<lambda>_ r. \<not> pc_expires_at_unix_seconds r \<le> uint now) t) p =
      unexpired now (prepared_rows b64 t) p"
  proof (cases "hm_get t p")
    case None
    then show ?thesis using wf by (simp add: prepared_rows_def unexpired_def hm_simps)
  next
    case (Some r)
    then have ok: "row_ok r" using assms(1) by (simp add: prepared_inv_def)
    then obtain e where e: "row_to_prepared_tx_entry b64 p r = Ok e" by (auto elim: row_ok_decodes [of r b64 p])
    have "uint (word_of_int (pc_expires_at_unix_seconds r) :: u64) = pc_expires_at_unix_seconds r"
      using ok by (simp add: row_ok_def uint_word_of_int i64_max_def)
    then have "pe_expires_at_unix_seconds e > now \<longleftrightarrow> \<not> pc_expires_at_unix_seconds r \<le> uint now"
      using row_decoded_fields [OF e] by (simp add: word_less_def not_le)
    then show ?thesis using Some e wf by (simp add: prepared_rows_def unexpired_def hm_simps)
  qed
qed

lemma libsql_sweep_Ok:
  assumes "prepared_inv t" "libsql_sweep_expired net now t = (Ok n, t')"
  shows "prepared_inv t' \<and> prepared_rows b64 t' = unexpired now (prepared_rows b64 t)
    \<and> card (dom (prepared_rows b64 t')) + n = card (dom (prepared_rows b64 t))"
proof -
  have fits: "fits_i64 now" and ex: "execute net 0 (sweep_stmt (uint now)) t = (Ok n, t')"
    using assms(2) by (auto simp: libsql_sweep_eq split: if_splits)
  have "atomic_at (sweep_stmt (uint now)) t" by (simp add: atomic_at_def sweep_stmt_def Let_def)
  then have "sweep_stmt (uint now) t = (Ok n, t')" using ex by (rule execute_Ok)
  then have t': "t' = hm_retain (\<lambda>_ r. \<not> pc_expires_at_unix_seconds r \<le> uint now) t" "n = length t - length t'"
    by (auto simp: sweep_stmt_def Let_def)
  have inv: "prepared_inv t'" unfolding t'(1) by (rule prepared_inv_retain [OF assms(1)])
  moreover have "length t' \<le> length t" unfolding t'(1) by (rule hm_length_retain_le)
  ultimately show ?thesis using sweep_rows [OF assms(1) fits] card_prepared_rows [OF assms(1)] card_prepared_rows [OF inv] t'
    by simp
qed

interpretation libsql: prepared_tx_store "LibsqlPreparedTxStore b64 net" prepared_inv "prepared_rows b64" b64
  for b64 net
proof (unfold_locales, goal_cases)
  case (1 s p e)
  then show ?case by (auto simp: prepared_rows_Some dest: row_decoded_fields)
next
  case (2 s)
  then show ?case by (simp add: dom_prepared_rows)
next
  case (3 s e u s')
  then have ins: "libsql_insert net e s = (Ok u, s')" by simp
  then obtain n where "upsert_prepared (pe_payment_id e) (encode_row e) s = (Ok n, s')"
    using libsql_insert_Ok(1) by blast
  then have "prepared_inv s' \<and> s' = hm_insert (pe_payment_id e) (encode_row e) s"
    using upsert_inv 3(1) row_ok_encode libsql_insert_Ok(3) [OF ins] by blast
  then show ?case using prepared_row_roundtrip [OF 3(2)]
    by (auto simp: prepared_rows_def hm_simps fun_eq_iff)
next
  case (4 e s x s')
  then show ?case using libsql_insert_Err by simp
next
  case (5 s p r)
  then show ?case using libsql_find_Ok by simp
next
  case (6 s jkt key r e)
  then show ?case using libsql_find_key_Ok by simp
next
  case (7 s p r s')
  then show ?case using libsql_remove_Ok by simp
next
  case (8 p s x s')
  then show ?case using libsql_remove_Err by simp
next
  case (9 s now n s')
  then show ?case using libsql_sweep_Ok [of s net now n s' b64] by (metis LibsqlPreparedTxStore_ops(5))
next
  case (10 now s x s')
  have "atomic_at (sweep_stmt (uint now)) s" by (simp add: atomic_at_def sweep_stmt_def Let_def)
  then show ?case using 10 execute_Err by (auto simp: libsql_sweep_eq split: if_splits)
next
  case (11 s n)
  then show ?case using fetch_rows_Ok [of net 0 length s]
    by (auto simp: libsql_entry_count_def card_prepared_rows split: sum.splits)
qed

end
