(* ===== verification/Ledger_Libsql.thy ===== *)
theory Ledger_Libsql
  imports Store_Libsql
begin

text \<open>
  The libSQL settlement ledger (\<open>zpay-store/src/settlement_ledger.rs\<close>): the
  column codec and the operations, and the proof that every operation that succeeds
  does what the in-memory ledger does on the decoded table, with 64-bit arguments
  saturated at the largest SQL integer, and that it fails only under a transport fault, leaving
  the table as it was.  The contract of the ledger trait follows, for values that
  fit a SQL integer, from the interpretation of the in-memory ledger.
\<close>

subsection \<open>Settlement ledger\<close>

record LedgerSqlRow =
  lc_broadcast_outcome_kind :: string
  lc_transaction_id :: "string option"
  lc_upstream_message :: "string option"
  lc_settled_at_unix_seconds :: int
  lc_confirmation_count :: "int option"
  lc_mined_block_height :: "int option"
  lc_last_confirmation_check_at :: "int option"
  lc_reorg_count :: int
  lc_last_reorged_at :: "int option"
  lc_expiry_height :: "int option"
  lc_payee_id :: string
  lc_amount_zat :: int

type_synonym LedgerTable = "(string, LedgerSqlRow) hashmap"

fun encode_broadcast_outcome :: "BroadcastOutcome \<Rightarrow> string \<times> string option \<times> string option" where
  "encode_broadcast_outcome (Accepted t) = (''accepted'', Some t, None)"
| "encode_broadcast_outcome (Duplicate t) = (''duplicate'', Some t, None)"
| "encode_broadcast_outcome (InvalidEncoding m) = (''invalid_encoding'', None, Some m)"
| "encode_broadcast_outcome (Rejected m) = (''rejected'', None, Some m)"
| "encode_broadcast_outcome (Unknown m) = (''unknown'', None, Some m)"

definition unwrap_or_default :: "string option \<Rightarrow> string" where
  "unwrap_or_default m = (case m of None \<Rightarrow> [] | Some x \<Rightarrow> x)"

definition decode_broadcast_outcome ::
  "string \<Rightarrow> string option \<Rightarrow> string option \<Rightarrow> StoreError + BroadcastOutcome" where
  "decode_broadcast_outcome kind txid msg =
    (if kind = ''accepted'' then
       (case txid of None \<Rightarrow> Err (RowMalformed ''accepted row missing transaction_id'') | Some t \<Rightarrow> Ok (Accepted t))
     else if kind = ''duplicate'' then
       (case txid of None \<Rightarrow> Err (RowMalformed ''duplicate row missing transaction_id'') | Some t \<Rightarrow> Ok (Duplicate t))
     else if kind = ''invalid_encoding'' then Ok (InvalidEncoding (unwrap_or_default msg))
     else if kind = ''rejected'' then Ok (Rejected (unwrap_or_default msg))
     else if kind = ''unknown'' then Ok (Unknown (unwrap_or_default msg))
     else Err (RowMalformed (''unknown broadcast_outcome_kind: '' @ kind)))"

definition clamp_i64 :: "u64 \<Rightarrow> i64" where
  "clamp_i64 w = (case u64_to_i64 w of Some i \<Rightarrow> i | None \<Rightarrow> i64_max)"

definition u32_or_max :: "int \<Rightarrow> u32" where
  "u32_or_max i = (case i64_to_u32 i of Some w \<Rightarrow> w | None \<Rightarrow> - 1)"

definition u64_or_zero :: "int \<Rightarrow> u64" where
  "u64_or_zero i = (case i64_to_u64 i of Some w \<Rightarrow> w | None \<Rightarrow> 0)"

definition encode_ledger_row :: "SettlementLedgerEntry \<Rightarrow> LedgerSqlRow" where
  "encode_ledger_row entry =
    (let (kind, txid, msg) = encode_broadcast_outcome (le_broadcast_outcome entry) in
     \<lparr>lc_broadcast_outcome_kind = kind, lc_transaction_id = txid, lc_upstream_message = msg,
      lc_settled_at_unix_seconds = le_settled_at_unix_seconds entry,
      lc_confirmation_count = map_option uint (le_confirmation_count entry),
      lc_mined_block_height = map_option clamp_i64 (le_mined_block_height entry),
      lc_last_confirmation_check_at = None,
      lc_reorg_count = uint (le_reorg_count entry), lc_last_reorged_at = le_last_reorged_at entry,
      lc_expiry_height = map_option uint (le_expiry_height entry),
      lc_payee_id = le_payee_id entry, lc_amount_zat = clamp_i64 (le_amount_zat entry)\<rparr>)"

definition row_to_settlement_ledger_entry :: "LedgerSqlRow \<Rightarrow> StoreError + SettlementLedgerEntry" where
  "row_to_settlement_ledger_entry row =
    (case decode_broadcast_outcome (lc_broadcast_outcome_kind row) (lc_transaction_id row) (lc_upstream_message row) of
       Inl e \<Rightarrow> Err e
     | Inr outcome \<Rightarrow>
       Ok \<lparr>le_broadcast_outcome = outcome,
           le_settled_at_unix_seconds = lc_settled_at_unix_seconds row,
           le_confirmation_count = map_option u32_or_max (lc_confirmation_count row),
           le_mined_block_height = map_option u64_or_zero (lc_mined_block_height row),
           le_reorg_count = u32_or_max (lc_reorg_count row),
           le_last_reorged_at = lc_last_reorged_at row,
           le_expiry_height = map_option u32_or_max (lc_expiry_height row),
           le_payee_id = lc_payee_id row, le_amount_zat = u64_or_zero (lc_amount_zat row)\<rparr>)"

definition libsql_record ::
  "net \<Rightarrow> PaymentId \<Rightarrow> SettlementLedgerEntry \<Rightarrow> LedgerTable \<Rightarrow> (StoreError + unit) \<times> LedgerTable" where
  "libsql_record net pid entry t =
    map_store_error (execute net 0 (\<lambda>t. (Ok (), hm_insert pid (encode_ledger_row entry) t)) t)"

definition libsql_find :: "net \<Rightarrow> PaymentId \<Rightarrow> LedgerTable \<Rightarrow> StoreError + SettlementLedgerEntry option" where
  "libsql_find net pid t =
    (case fetch_rows net 0 (\<lambda>t. hm_get t pid) t of
       Inl err \<Rightarrow> Err (to_store_error err)
     | Inr None \<Rightarrow> Ok None
     | Inr (Some row) \<Rightarrow>
        (case row_to_settlement_ledger_entry row of Inl e \<Rightarrow> Err e | Inr e \<Rightarrow> Ok (Some e)))"

fun collect_success :: "LedgerTable \<Rightarrow> StoreError + SuccessKindRow list" where
  "collect_success [] = Ok []"
| "collect_success ((pid, row) # rest) =
    (case lc_transaction_id row of
       None \<Rightarrow> Err (RowMalformed ''transaction_id read failed: null value'')
     | Some txid \<Rightarrow>
        (case collect_success rest of Inl e \<Rightarrow> Err e
         | Inr rows \<Rightarrow> Ok (\<lparr>sk_payment_id = pid, sk_transaction_id = txid,
              sk_mined_block_height = map_option u64_or_zero (lc_mined_block_height row)\<rparr> # rows)))"

definition libsql_success_kind_transactions :: "net \<Rightarrow> LedgerTable \<Rightarrow> StoreError + SuccessKindRow list" where
  "libsql_success_kind_transactions net t =
    (case fetch_rows net 0 (filter (\<lambda>(_, row). lc_broadcast_outcome_kind row \<in> {''accepted'', ''duplicate''})) t of
       Inl err \<Rightarrow> Err (to_store_error err) | Inr rows \<Rightarrow> collect_success rows)"

fun collect_entries :: "LedgerTable \<Rightarrow> StoreError + (PaymentId \<times> SettlementLedgerEntry) list" where
  "collect_entries [] = Ok []"
| "collect_entries ((pid, row) # rest) =
    (case row_to_settlement_ledger_entry row of
       Inl e \<Rightarrow> Err e
     | Inr entry \<Rightarrow> (case collect_entries rest of Inl e \<Rightarrow> Err e | Inr es \<Rightarrow> Ok ((pid, entry) # es)))"

definition sql_payee_wanted :: "PayeeId option \<Rightarrow> LedgerSqlRow \<Rightarrow> bool" where
  "sql_payee_wanted payee row = (case payee of None \<Rightarrow> True | Some wanted \<Rightarrow> lc_payee_id row = wanted)"

definition libsql_list_recent ::
  "net \<Rightarrow> u32 \<Rightarrow> PayeeId option \<Rightarrow> LedgerTable \<Rightarrow> StoreError + (PaymentId \<times> SettlementLedgerEntry) list" where
  "libsql_list_recent net limit payee t =
    (case fetch_rows net 0 (\<lambda>t. take (unat limit)
            (rev (sort_key fst (filter (\<lambda>(_, row). sql_payee_wanted payee row) t)))) t of
       Inl err \<Rightarrow> Err (to_store_error err) | Inr rows \<Rightarrow> collect_entries rows)"

definition confirm_row :: "i64 \<Rightarrow> u32 \<Rightarrow> u64 option \<Rightarrow> LedgerSqlRow \<Rightarrow> LedgerSqlRow" where
  "confirm_row now count height row =
     row\<lparr>lc_confirmation_count := Some (uint count),
         lc_mined_block_height := (case map_option clamp_i64 height of Some h \<Rightarrow> Some h
                                   | None \<Rightarrow> lc_mined_block_height row),
         lc_last_confirmation_check_at := Some now\<rparr>"

definition confirm_stmt ::
  "i64 \<Rightarrow> PaymentId \<Rightarrow> u32 \<Rightarrow> u64 option \<Rightarrow> LedgerTable \<Rightarrow> (string + bool) \<times> LedgerTable" where
  "confirm_stmt now pid count height t =
    (case hm_get t pid of None \<Rightarrow> (Ok False, t)
     | Some row \<Rightarrow> (Ok True, hm_insert pid (confirm_row now count height row) t))"

definition libsql_record_confirmation ::
  "net \<Rightarrow> i64 \<Rightarrow> PaymentId \<Rightarrow> u32 \<Rightarrow> u64 option \<Rightarrow> LedgerTable \<Rightarrow> (StoreError + bool) \<times> LedgerTable" where
  "libsql_record_confirmation net now pid count height t =
    map_store_error (execute net 0 (confirm_stmt now pid count height) t)"

definition downgrade_row :: "i64 \<Rightarrow> LedgerSqlRow \<Rightarrow> LedgerSqlRow" where
  "downgrade_row reorged_at row = row\<lparr>lc_mined_block_height := None, lc_confirmation_count := Some 0,
     lc_reorg_count := lc_reorg_count row + 1, lc_last_reorged_at := Some reorged_at\<rparr>"

definition downgrade_stmt :: "PaymentId \<Rightarrow> i64 \<Rightarrow> LedgerTable \<Rightarrow> (string + bool) \<times> LedgerTable" where
  "downgrade_stmt pid reorged_at t =
    (case hm_get t pid of None \<Rightarrow> (Ok False, t)
     | Some row \<Rightarrow> if lc_mined_block_height row = None then (Ok False, t)
                   else (Ok True, hm_insert pid (downgrade_row reorged_at row) t))"

definition libsql_downgrade_on_reorg ::
  "net \<Rightarrow> PaymentId \<Rightarrow> i64 \<Rightarrow> LedgerTable \<Rightarrow> (StoreError + bool) \<times> LedgerTable" where
  "libsql_downgrade_on_reorg net pid reorged_at t =
    map_store_error (execute net 0 (downgrade_stmt pid reorged_at) t)"

definition between :: "i64 \<Rightarrow> i64 \<Rightarrow> LedgerSqlRow \<Rightarrow> bool" where
  "between lo hi row = (case lc_mined_block_height row of None \<Rightarrow> False | Some h \<Rightarrow> lo \<le> h \<and> h \<le> hi)"

definition libsql_downgrade_reorged_range ::
  "net \<Rightarrow> u64 \<Rightarrow> u64 \<Rightarrow> i64 \<Rightarrow> LedgerTable \<Rightarrow> (StoreError + PaymentId list) \<times> LedgerTable" where
  "libsql_downgrade_reorged_range net start end reorged_at t =
    map_store_error (execute net 0 (\<lambda>t.
      (Ok (map fst (filter (\<lambda>(_, row). between (clamp_i64 start) (clamp_i64 end) row) t)),
       map (\<lambda>(pid, row). (pid, if between (clamp_i64 start) (clamp_i64 end) row
                                then downgrade_row reorged_at row else row)) t)) t)"

definition LibsqlSettlementLedgerStore :: "net \<Rightarrow> i64 \<Rightarrow> LedgerTable SettlementLedgerStore" where
  "LibsqlSettlementLedgerStore net now = \<lparr>sl_record = libsql_record net, sl_find = libsql_find net,
     sl_entry_count = libsql_entry_count net,
     sl_success_kind_transactions = libsql_success_kind_transactions net,
     sl_list_recent = libsql_list_recent net,
     sl_record_confirmation = libsql_record_confirmation net now,
     sl_downgrade_on_reorg = libsql_downgrade_on_reorg net,
     sl_downgrade_reorged_range = libsql_downgrade_reorged_range net\<rparr>"

lemma LibsqlSettlementLedgerStore_ops [simp]:
  "sl_record (LibsqlSettlementLedgerStore net now) = libsql_record net"
  "sl_find (LibsqlSettlementLedgerStore net now) = libsql_find net"
  "sl_entry_count (LibsqlSettlementLedgerStore net now) = libsql_entry_count net"
  "sl_success_kind_transactions (LibsqlSettlementLedgerStore net now) = libsql_success_kind_transactions net"
  "sl_list_recent (LibsqlSettlementLedgerStore net now) = libsql_list_recent net"
  "sl_record_confirmation (LibsqlSettlementLedgerStore net now) = libsql_record_confirmation net now"
  "sl_downgrade_on_reorg (LibsqlSettlementLedgerStore net now) = libsql_downgrade_on_reorg net"
  "sl_downgrade_reorged_range (LibsqlSettlementLedgerStore net now) = libsql_downgrade_reorged_range net"
  by (simp_all add: LibsqlSettlementLedgerStore_def)

subsection \<open>Simulation of the in-memory ledger\<close>

definition decoded :: "LedgerSqlRow \<Rightarrow> SettlementLedgerEntry" where
  "decoded r = projr (row_to_settlement_ledger_entry r)"

definition decode_table :: "LedgerTable \<Rightarrow> SettlementLedger" where
  "decode_table t = map (\<lambda>(p, r). (p, decoded r)) t"

text \<open>The schema's outcome-column constraint together with the ranges every write respects.\<close>

definition outcome_columns_v4 :: "LedgerSqlRow \<Rightarrow> bool" where
  "outcome_columns_v4 r \<longleftrightarrow>
     lc_broadcast_outcome_kind r \<in> {''accepted'', ''duplicate''}
       \<and> lc_transaction_id r \<noteq> None \<and> lc_upstream_message r = None
   \<or> lc_broadcast_outcome_kind r \<in> {''invalid_encoding'', ''rejected'', ''unknown''}
       \<and> lc_transaction_id r = None \<and> lc_upstream_message r \<noteq> None"

definition lrow_ok :: "LedgerSqlRow \<Rightarrow> bool" where
  "lrow_ok r \<longleftrightarrow> outcome_columns_v4 r \<and> 0 \<le> lc_reorg_count r
     \<and> pred_option (\<lambda>h. 0 \<le> h \<and> h \<le> i64_max) (lc_mined_block_height r)"

definition ledger_inv :: "LedgerTable \<Rightarrow> bool" where
  "ledger_inv t \<longleftrightarrow> hm_wf t \<and> list_all (\<lambda>(_, r). lrow_ok r) t"

lemma clamp_fits: "fits_i64 w \<Longrightarrow> clamp_i64 w = uint w"
  by (simp add: clamp_i64_def u64_to_i64_def fits_i64_def)

lemma u64_or_zero_uint [simp]: "u64_or_zero (uint w) = w"
  by (simp add: u64_or_zero_def i64_to_u64_def)

lemma u32_or_max_uint [simp]: "u32_or_max (uint w) = w"
  by (simp add: u32_or_max_def)

lemma decode_encode_outcome:
  assumes "encode_broadcast_outcome b = (k, t, m)"
  shows "decode_broadcast_outcome k t m = Ok b"
proof -
  have "case encode_broadcast_outcome b of (k, t, m) \<Rightarrow> decode_broadcast_outcome k t m = Ok b"
    by (cases b) (simp_all add: decode_broadcast_outcome_def unwrap_or_default_def)
  then show ?thesis by (simp add: assms)
qed

lemma lrow_ok_decodes: "outcome_columns_v4 r \<Longrightarrow> row_to_settlement_ledger_entry r = Ok (decoded r)"
  by (auto simp: decoded_def row_to_settlement_ledger_entry_def outcome_columns_v4_def decode_broadcast_outcome_def)

lemma decoded_fields:
  assumes "outcome_columns_v4 r"
  shows "le_mined_block_height (decoded r) = map_option u64_or_zero (lc_mined_block_height r)"
    "le_payee_id (decoded r) = lc_payee_id r"
proof -
  obtain b where "decode_broadcast_outcome (lc_broadcast_outcome_kind r) (lc_transaction_id r)
      (lc_upstream_message r) = Ok b"
    using assms by (auto simp: outcome_columns_v4_def decode_broadcast_outcome_def)
  then show "le_mined_block_height (decoded r) = map_option u64_or_zero (lc_mined_block_height r)"
    "le_payee_id (decoded r) = lc_payee_id r"
    by (simp_all add: decoded_def row_to_settlement_ledger_entry_def)
qed

lemma ledger_row_roundtrip:
  assumes "entry_fits fits_i64 e"
  shows "row_to_settlement_ledger_entry (encode_ledger_row e) = Ok e"
proof -
  obtain k t m where b: "encode_broadcast_outcome (le_broadcast_outcome e) = (k, t, m)" by (metis prod_cases3)
  have h: "map_option u64_or_zero (map_option clamp_i64 (le_mined_block_height e)) = le_mined_block_height e"
    using assms by (cases "le_mined_block_height e") (simp_all add: entry_fits_def clamp_fits)
  have c: "map_option u32_or_max (map_option uint x) = x" for x :: "u32 option" by (cases x) simp_all
  have a: "u64_or_zero (clamp_i64 (le_amount_zat e)) = le_amount_zat e"
    using assms by (simp add: entry_fits_def clamp_fits)
  show ?thesis
    unfolding row_to_settlement_ledger_entry_def encode_ledger_row_def b
    by (simp only: split_conv Let_def LedgerSqlRow.simps decode_encode_outcome [OF b] sum.case h c a u32_or_max_uint)
       simp
qed

lemma lrow_ok_encode: "entry_fits fits_i64 e \<Longrightarrow> lrow_ok (encode_ledger_row e)"
  by (cases "le_broadcast_outcome e"; cases "le_mined_block_height e")
     (auto simp: lrow_ok_def encode_ledger_row_def outcome_columns_v4_def entry_fits_def clamp_fits fits_i64_def)

lemma u32_or_max_Suc: "0 \<le> i \<Longrightarrow> u32_or_max (i + 1) = saturating_add (u32_or_max i) 1"
proof (cases "i < 4294967296")
  case True
  assume "0 \<le> i"
  then have "uint (word_of_int i :: u32) = i" using True by (simp add: uint_word_of_int)
  then have "unat (word_of_int i :: u32) = nat i" by (metis nat_uint_eq)
  then show ?thesis using \<open>0 \<le> i\<close> True
    by (auto simp: u32_or_max_def i64_to_u32_def saturating_add_def)
next
  case False
  then show ?thesis
    by (simp add: u32_or_max_def i64_to_u32_def saturating_add_def unsigned_minus_1_eq_mask mask_eq_exp_minus_1)
qed

lemma decode_confirm:
  assumes "row_to_settlement_ledger_entry r = Ok e" "pred_option fits_i64 h"
  shows "row_to_settlement_ledger_entry (confirm_row now c h r) = Ok (confirm_entry c h e)"
  using assms
  by (cases h) (auto simp: confirm_row_def row_to_settlement_ledger_entry_def confirm_entry_def clamp_fits split: sum.splits)

lemma decode_downgrade:
  assumes "row_to_settlement_ledger_entry r = Ok e" "0 \<le> lc_reorg_count r"
  shows "row_to_settlement_ledger_entry (downgrade_row at r) = Ok (downgrade_entry at e)"
proof -
  have "u32_or_max 0 = 0" by (simp add: u32_or_max_def i64_to_u32_def)
  then show ?thesis using assms
    by (auto simp: row_to_settlement_ledger_entry_def downgrade_row_def downgrade_entry_def u32_or_max_Suc
        split: sum.splits)
qed

lemma between_iff:
  assumes "row_to_settlement_ledger_entry r = Ok e" "lrow_ok r" "fits_i64 lo" "fits_i64 hi"
  shows "between (clamp_i64 lo) (clamp_i64 hi) r \<longleftrightarrow> in_reverted_range lo hi e"
proof (cases "lc_mined_block_height r")
  case None
  then show ?thesis using assms(1)
    by (auto simp: between_def in_reverted_range_def row_to_settlement_ledger_entry_def split: sum.splits)
next
  case (Some h)
  then have h: "0 \<le> h" "h \<le> i64_max" using assms(2) by (simp_all add: lrow_ok_def)
  then have "uint (word_of_int h :: u64) = h" by (simp add: uint_word_of_int i64_max_def)
  moreover have "le_mined_block_height e = Some (word_of_int h)"
    using Some assms(1) h by (auto simp: row_to_settlement_ledger_entry_def u64_or_zero_def i64_to_u64_def split: sum.splits)
  ultimately show ?thesis using Some assms(3,4)
    by (auto simp: between_def in_reverted_range_def clamp_fits word_less_def)
qed

lemma lrow_ok_downgrade: "lrow_ok r \<Longrightarrow> lrow_ok (downgrade_row at r)"
  by (simp add: lrow_ok_def downgrade_row_def outcome_columns_v4_def)

lemma ledger_inv_row: "ledger_inv t \<Longrightarrow> hm_get t p = Some r \<Longrightarrow>
    lrow_ok r \<and> row_to_settlement_ledger_entry r = Ok (decoded r)"
  by (auto simp: ledger_inv_def list_all_iff lrow_ok_def lrow_ok_decodes dest!: map_of_SomeD)

lemma ledger_inv_insert: "ledger_inv t \<Longrightarrow> lrow_ok r \<Longrightarrow> ledger_inv (hm_insert p r t)"
proof -
  assume "ledger_inv t" "lrow_ok r"
  moreover have "set (hm_insert p r t) \<subseteq> insert (p, r) (set t)" by (induction t) auto
  ultimately show ?thesis by (auto simp: ledger_inv_def list_all_iff)
qed

lemma hm_get_decode_table: "hm_get (decode_table t) p = map_option decoded (hm_get t p)"
  by (simp add: decode_table_def map_of_map_snd)

lemma decode_table_insert: "decode_table (hm_insert p r t) = hm_insert p (decoded r) (decode_table t)"
  unfolding decode_table_def by (rule map_snd_update)

lemma hm_wf_decode_table: "ledger_inv t \<Longrightarrow> hm_wf (decode_table t)"
  by (simp add: ledger_inv_def hm_wf_def decode_table_def comp_def case_prod_beta)

lemma decodedI: "row_to_settlement_ledger_entry r = Ok e \<Longrightarrow> decoded r = e"
  by (simp add: decoded_def)

text \<open>One lemma per operation: when the statement gets through, the result and the decoded
  table are those of the in-memory ledger.\<close>

lemma sim_record:
  assumes "ledger_inv t" "entry_fits fits_i64 e" "libsql_record net p e t = (Ok u, t')"
  shows "ledger_inv t' \<and> ledger_record p e (decode_table t) = (Ok (), decode_table t')"
proof -
  have "t' = hm_insert p (encode_ledger_row e) t"
    using assms(3) execute_Ok [of "\<lambda>t. (Ok (), hm_insert p (encode_ledger_row e) t)" t]
    by (auto simp: libsql_record_def)
  then show ?thesis
    using assms(1,2) by (simp add: ledger_record_def decode_table_insert ledger_inv_insert lrow_ok_encode
        decodedI [OF ledger_row_roundtrip])
qed

lemma atomic_confirm: "atomic_at (confirm_stmt now p c h) t"
  by (simp add: atomic_at_def confirm_stmt_def split: option.splits)

lemma atomic_downgrade: "atomic_at (downgrade_stmt p at) t"
  by (simp add: atomic_at_def downgrade_stmt_def split: option.splits)

lemma sim_confirm:
  assumes "ledger_inv t" "pred_option fits_i64 h" "libsql_record_confirmation net now p c h t = (Ok b, t')"
  shows "ledger_inv t' \<and> ledger_record_confirmation p c h (decode_table t) = (Ok b, decode_table t')"
proof -
  have "atomic_at (confirm_stmt now p c h) t" by (rule atomic_confirm)
  then have run: "confirm_stmt now p c h t = (Ok b, t')"
    using assms(3) execute_Ok by (fastforce simp: libsql_record_confirmation_def)
  show ?thesis
  proof (cases "hm_get t p")
    case None
    then show ?thesis using run assms(1) by (simp add: confirm_stmt_def ledger_record_confirmation_def hm_get_decode_table)
  next
    case (Some r)
    note r = ledger_inv_row [OF assms(1) Some]
    have "lrow_ok (confirm_row now c h r)" using r assms(2)
      by (cases h) (auto simp: confirm_row_def lrow_ok_def outcome_columns_v4_def clamp_fits fits_i64_def)
    then show ?thesis using run Some assms(1) decodedI [OF decode_confirm [OF _ assms(2), of r "decoded r" now c]] r
      by (auto simp: confirm_stmt_def ledger_record_confirmation_def hm_get_decode_table decode_table_insert ledger_inv_insert)
  qed
qed

lemma sim_downgrade:
  assumes "ledger_inv t" "libsql_downgrade_on_reorg net p at t = (Ok b, t')"
  shows "ledger_inv t' \<and> ledger_downgrade_on_reorg p at (decode_table t) = (Ok b, decode_table t')"
proof -
  have "atomic_at (downgrade_stmt p at) t" by (rule atomic_downgrade)
  then have run: "downgrade_stmt p at t = (Ok b, t')"
    using assms(2) execute_Ok by (fastforce simp: libsql_downgrade_on_reorg_def)
  show ?thesis
  proof (cases "hm_get t p")
    case None
    then show ?thesis using run assms(1) by (simp add: downgrade_stmt_def ledger_downgrade_on_reorg_def hm_get_decode_table)
  next
    case (Some r)
    note r = ledger_inv_row [OF assms(1) Some]
    have m: "le_mined_block_height (decoded r) = None \<longleftrightarrow> lc_mined_block_height r = None"
      using r decoded_fields(1) [of r] by (simp add: lrow_ok_def)
    have "0 \<le> lc_reorg_count r" using r by (simp add: lrow_ok_def)
    then have "decoded (downgrade_row at r) = downgrade_entry at (decoded r)"
      using decodedI decode_downgrade r by blast
    then show ?thesis using run Some assms(1) r m
      by (auto simp: downgrade_stmt_def ledger_downgrade_on_reorg_def hm_get_decode_table decode_table_insert
          ledger_inv_insert lrow_ok_downgrade split: if_splits)
  qed
qed

lemma downgrade_loop_decoded:
  assumes "list_all (\<lambda>(_, r). lrow_ok r) t" "fits_i64 lo" "fits_i64 hi"
  shows "downgrade_loop lo hi at (decode_table t) =
    (map fst (filter (\<lambda>(_, r). between (clamp_i64 lo) (clamp_i64 hi) r) t),
     decode_table (map (\<lambda>(p, r). (p, if between (clamp_i64 lo) (clamp_i64 hi) r
                                       then downgrade_row at r else r)) t))"
  using assms(1)
proof (induction t)
  case (Cons a t)
  obtain p r where a: "a = (p, r)" by (cases a)
  have ok: "lrow_ok r" using Cons.prems a by simp
  then have dec: "row_to_settlement_ledger_entry r = Ok (decoded r)" by (simp add: lrow_ok_def lrow_ok_decodes)
  have "decoded (downgrade_row at r) = downgrade_entry at (decoded r)"
    using decodedI decode_downgrade [OF dec] ok by (simp add: lrow_ok_def)
  then show ?case using Cons between_iff [OF dec ok assms(2,3)] by (simp add: a decode_table_def)
qed (simp add: decode_table_def)

lemma sim_range:
  assumes "ledger_inv t" "fits_i64 lo" "fits_i64 hi"
    and "libsql_downgrade_reorged_range net lo hi at t = (Ok ids, t')"
  shows "ledger_inv t' \<and> ledger_downgrade_reorged_range lo hi at (decode_table t) = (Ok ids, decode_table t')"
proof -
  let ?hit = "between (clamp_i64 lo) (clamp_i64 hi)"
  have run: "ids = map fst (filter (\<lambda>(_, r). ?hit r) t)"
    "t' = map (\<lambda>(p, r). (p, if ?hit r then downgrade_row at r else r)) t"
    using execute_Ok [OF atomic_total assms(4) [unfolded libsql_downgrade_reorged_range_def map_store_error_simps]]
    by auto
  have ok: "list_all (\<lambda>(_, r). lrow_ok r) t" and wf: "hm_wf t" using assms(1) by (simp_all add: ledger_inv_def)
  have "ledger_inv t'" using ok wf
    by (auto simp: run(2) ledger_inv_def hm_wf_def list_all_iff comp_def case_prod_beta lrow_ok_downgrade)
  then show ?thesis using downgrade_loop_decoded [OF ok assms(2,3)]
    by (simp add: ledger_downgrade_reorged_range_def run)
qed

lemma sim_find:
  assumes "ledger_inv t" "libsql_find net p t = Ok r"
  shows "ledger_find p (decode_table t) = Ok r"
proof -
  have "r = map_option decoded (hm_get t p)"
    using assms(2) fetch_rows_Ok [of net 0 "\<lambda>t. hm_get t p" t] ledger_inv_row [OF assms(1)]
    by (auto simp: libsql_find_def split: sum.splits option.splits)
  then show ?thesis by (simp add: ledger_find_def hm_get_decode_table)
qed

lemma outcome_success_kind:
  assumes "outcome_columns_v4 r"
  shows "transaction_id (le_broadcast_outcome (decoded r)) =
    (if lc_broadcast_outcome_kind r \<in> {''accepted'', ''duplicate''} then lc_transaction_id r else None)"
  using assms
  by (auto simp: outcome_columns_v4_def decoded_def row_to_settlement_ledger_entry_def decode_broadcast_outcome_def)

lemma collect_success_decoded:
  assumes "list_all (\<lambda>(_, r). lrow_ok r) t"
  shows "collect_success (filter (\<lambda>(_, row). lc_broadcast_outcome_kind row \<in> {''accepted'', ''duplicate''}) t) =
    ledger_success_kind_transactions (decode_table t)"
  using assms
proof (induction t)
  case (Cons a t)
  obtain p r where a: "a = (p, r)" by (cases a)
  have v4: "outcome_columns_v4 r" using Cons.prems a by (simp add: lrow_ok_def)
  note mined = decoded_fields(1) [OF v4]
  have some: "lc_broadcast_outcome_kind r \<in> {''accepted'', ''duplicate''} \<Longrightarrow> \<exists>x. lc_transaction_id r = Some x"
    using v4 unfolding outcome_columns_v4_def by auto
  show ?case
  proof (cases "lc_broadcast_outcome_kind r \<in> {''accepted'', ''duplicate''}")
    case True
    then show ?thesis using Cons a some [OF True] outcome_success_kind [OF v4] mined
      by (auto simp: ledger_success_kind_transactions_def decode_table_def)
  next
    case False
    then show ?thesis using Cons a outcome_success_kind [OF v4]
      by (auto simp: ledger_success_kind_transactions_def decode_table_def)
  qed
qed (simp add: ledger_success_kind_transactions_def decode_table_def)

lemma collect_entries_decoded:
  "list_all (\<lambda>(_, r). lrow_ok r) t \<Longrightarrow> collect_entries t = Ok (decode_table t)"
  by (induction t) (auto simp: decode_table_def lrow_ok_def lrow_ok_decodes)

lemma recent_decoded:
  assumes "ledger_inv t"
  shows "collect_entries (take (unat n) (rev (sort_key fst (filter (\<lambda>(_, row). sql_payee_wanted payee row) t)))) =
    ledger_list_recent n payee (decode_table t)"
proof -
  let ?sel = "take (unat n) (rev (sort_key fst (filter (\<lambda>(_, row). sql_payee_wanted payee row) t)))"
  have ok: "list_all (\<lambda>(_, r). lrow_ok r) t" using assms(1) by (simp add: ledger_inv_def)
  moreover have "set ?sel \<subseteq> set t" by (auto dest!: in_set_takeD)
  ultimately have "list_all (\<lambda>(_, r). lrow_ok r) ?sel" unfolding list_all_iff by blast
  then have "collect_entries ?sel = Ok (decode_table ?sel)" by (rule collect_entries_decoded)
  moreover have "filter (\<lambda>(_, e). payee_wanted payee e) (decode_table t) =
      decode_table (filter (\<lambda>(_, row). sql_payee_wanted payee row) t)"
    using ok
  proof (induction t)
    case (Cons a t)
    obtain p r where a: "a = (p, r)" by (cases a)
    have "le_payee_id (decoded r) = lc_payee_id r"
      using Cons.prems decoded_fields(2) [of r] by (simp add: a lrow_ok_def)
    then have "payee_wanted payee (decoded r) = sql_payee_wanted payee r"
      by (simp add: payee_wanted_def sql_payee_wanted_def split: option.split)
    then show ?case using Cons by (simp add: a decode_table_def)
  qed (simp add: decode_table_def)
  ultimately show ?thesis
    by (simp add: ledger_list_recent_def decode_table_def sort_key_map_snd rev_map take_map)
qed

lemma sim_recent:
  assumes "ledger_inv t" "libsql_list_recent net n payee t = Ok rows"
  shows "ledger_list_recent n payee (decode_table t) = Ok rows"
  using assms(2) recent_decoded [OF assms(1), of n payee]
  by (auto simp: libsql_list_recent_def split: sum.splits dest!: fetch_rows_Ok)

lemma libsql_write_Err:
  "atomic_at stmt t \<Longrightarrow> map_store_error (execute net k stmt t) = (Err x, t') \<Longrightarrow> t' = t"
  using execute_Err by (auto simp: map_store_error_simps)

interpretation libsql_ledger: settlement_ledger_store "LibsqlSettlementLedgerStore net now" ledger_inv
  "\<lambda>t. hm_get (decode_table t)" fits_i64 for net now
proof (unfold_locales, goal_cases)
  case (1 s e p u s')
  then show ?case using sim_record [of s e net p u s'] mem_ledger.record_ok [of "decode_table s" e p "()" "decode_table s'"]
    by (simp add: hm_wf_decode_table entry_fits_def pred_option_def)
next
  case (2 p e s x s')
  then show ?case using libsql_write_Err [OF atomic_total] by (simp add: libsql_record_def)
next
  case (3 s p r)
  then show ?case using sim_find [of s net p r] by (simp add: ledger_find_def)
next
  case (4 s n)
  then have "n = length s" using fetch_rows_Ok [of net 0 length s] by (auto simp: libsql_entry_count_def split: sum.splits)
  then show ?case using mem_ledger.count_ok [of "decode_table s" n] 4
    hm_wf_decode_table [of s] length_map [of "\<lambda>(p, r). (p, decoded r)" s]
    by (simp add: ledger_entry_count_def decode_table_def)
next
  case (5 s rows)
  then have "ledger_success_kind_transactions (decode_table s) = Ok rows"
    using fetch_rows_Ok [of net 0 "filter (\<lambda>(_, row). lc_broadcast_outcome_kind row \<in> {''accepted'', ''duplicate''})" s]
      collect_success_decoded [of s]
    by (auto simp: libsql_success_kind_transactions_def ledger_inv_def split: sum.splits)
  then show ?case using mem_ledger.success_ok [of "decode_table s" rows] 5 by (simp add: hm_wf_decode_table)
next
  case (6 s limit payee rs)
  then show ?case using sim_recent [of s net limit payee rs] mem_ledger.recent_ok [of "decode_table s" limit payee rs]
    by (simp add: hm_wf_decode_table)
next
  case (7 s h p c b s')
  then show ?case using sim_confirm [of s h net now p c b s']
      mem_ledger.confirm_ok [of "decode_table s" h p c b "decode_table s'"]
    by (simp add: hm_wf_decode_table pred_option_def)
next
  case (8 p c h s x s')
  then show ?case using libsql_write_Err [OF atomic_confirm] by (simp add: libsql_record_confirmation_def)
next
  case (9 s p at b s')
  then show ?case using sim_downgrade [of s net p at b s'] mem_ledger.downgrade_ok [of "decode_table s" p at b "decode_table s'"]
    by (simp add: hm_wf_decode_table)
next
  case (10 p at s x s')
  then show ?case using libsql_write_Err [OF atomic_downgrade] by (simp add: libsql_downgrade_on_reorg_def)
next
  case (11 s lo hi at ids s')
  then show ?case using sim_range [of s lo hi net at ids s'] mem_ledger.range_ok [of "decode_table s" lo hi at ids "decode_table s'"]
    by (simp add: hm_wf_decode_table)
next
  case (12 lo hi at s x s')
  then show ?case using libsql_write_Err [OF atomic_total] by (simp add: libsql_downgrade_reorged_range_def)
qed

interpretation durable: payment_stores "LibsqlPreparedTxStore b64 net" prepared_inv "prepared_rows b64" b64
  "LibsqlSettlementLedgerStore net' now" ledger_inv "\<lambda>t. hm_get (decode_table t)" fits_i64
  for b64 net net' now ..

subsection \<open>Properties\<close>

text \<open>The writes saturate 64-bit values at the largest SQL integer (\<open>i64::try\_from(..).unwrap\_or(i64::MAX)\<close>);
  a value that fits is kept.\<close>

definition saturate :: "u64 \<Rightarrow> u64" where
  "saturate w = (if fits_i64 w then w else word_of_int i64_max)"

definition saturated :: "SettlementLedgerEntry \<Rightarrow> SettlementLedgerEntry" where
  "saturated e = e\<lparr>le_mined_block_height := map_option saturate (le_mined_block_height e),
     le_amount_zat := saturate (le_amount_zat e)\<rparr>"

lemma fits_saturate [simp]: "fits_i64 (saturate w)"
  by (simp add: saturate_def fits_i64_def i64_max_def)

lemma clamp_saturate [simp]: "clamp_i64 (saturate w) = clamp_i64 w"
proof (cases "fits_i64 w")
  case False
  then have "clamp_i64 w = i64_max" by (simp add: clamp_i64_def u64_to_i64_def fits_i64_def)
  then show ?thesis using False clamp_fits [OF fits_saturate, of w] by (simp add: saturate_def i64_max_def)
qed (simp add: saturate_def)

lemma saturated_fits: "entry_fits fits_i64 (saturated e)"
  by (cases "le_mined_block_height e") (simp_all add: entry_fits_def saturated_def)

lemma saturated_id: "entry_fits fits_i64 e \<Longrightarrow> saturated e = e"
  by (cases "le_mined_block_height e") (simp_all add: entry_fits_def saturated_def saturate_def)

lemma encode_saturated: "encode_ledger_row (saturated e) = encode_ledger_row e"
  by (simp add: encode_ledger_row_def saturated_def option.map_comp comp_def split: prod.split)

lemma confirm_saturated: "confirm_stmt now p c (map_option saturate h) = confirm_stmt now p c h"
  by (simp add: confirm_stmt_def confirm_row_def option.map_comp comp_def fun_eq_iff split: option.split)

text \<open>What refinement means for one operation of the table, given what the in-memory ledger does: on success the answers
  agree and the new table decodes to the new ledger; a failure changes nothing and reports an error of the transport.\<close>

definition refines_write ::
  "net \<Rightarrow> (LedgerTable \<Rightarrow> (StoreError + 'r) \<times> LedgerTable) \<Rightarrow> (SettlementLedger \<Rightarrow> (StoreError + 'r) \<times> SettlementLedger)
    \<Rightarrow> LedgerTable \<Rightarrow> bool" where
  "refines_write net f g t \<longleftrightarrow> (case f t of
      (Inr r, t') \<Rightarrow> ledger_inv t' \<and> g (decode_table t) = (Ok r, decode_table t')
    | (Inl x, t') \<Rightarrow> t' = t \<and> (\<exists>k err. net k = Some err \<and> x = to_store_error err))"

definition refines_read ::
  "net \<Rightarrow> (LedgerTable \<Rightarrow> StoreError + 'r) \<Rightarrow> (SettlementLedger \<Rightarrow> StoreError + 'r) \<Rightarrow> LedgerTable \<Rightarrow> bool" where
  "refines_read net f g t \<longleftrightarrow> (case f t of
      Inr r \<Rightarrow> g (decode_table t) = Ok r
    | Inl x \<Rightarrow> \<exists>k err. net k = Some err \<and> x = to_store_error err)"

lemma refines_writeI:
  assumes f: "f t = map_store_error (execute net k stmt t)" and total: "\<And>db. \<exists>r db'. stmt db = (Ok r, db')"
    and sim: "\<And>r t'. f t = (Ok r, t') \<Longrightarrow> ledger_inv t' \<and> g (decode_table t) = (Ok r, decode_table t')"
  shows "refines_write net f g t"
proof (cases "f t")
  case (Pair r t')
  have atomic: "atomic_at stmt t" using total [of t] by (auto simp: atomic_at_def)
  show ?thesis
  proof (cases r)
    case (Inl x)
    then obtain err where err: "execute net k stmt t = (Err err, t')" "x = to_store_error err" using Pair f by auto
    then show ?thesis using Pair Inl execute_Err [OF atomic err(1)] execute_Err_fault [of stmt net k t err t', OF total]
      by (auto simp: refines_write_def)
  next
    case (Inr v)
    then show ?thesis using Pair sim [of v t'] by (simp add: refines_write_def)
  qed
qed

lemma refines_readI:
  assumes f: "f t = (case fetch_rows net 0 sel t of Inl err \<Rightarrow> Err (to_store_error err) | Inr r \<Rightarrow> h r)"
    and sim: "h (sel t) = g (decode_table t)" and answers: "\<not> isl (g (decode_table t))"
  shows "refines_read net f g t"
proof (cases "fetch_rows net 0 sel t")
  case (Inl err)
  then show ?thesis using fetch_rows_Err [OF Inl] by (auto simp: refines_read_def f)
next
  case (Inr r)
  then show ?thesis using fetch_rows_Ok [OF Inr] sim answers by (auto simp: refines_read_def f split: sum.splits)
qed

text \<open>The reads, each as its query followed by the decoding of the rows.\<close>

lemma refines_find: "ledger_inv t \<Longrightarrow> refines_read net (libsql_find net p) (ledger_find p) t"
  by (rule refines_readI [where sel = "\<lambda>t. hm_get t p"
      and h = "\<lambda>r. case r of None \<Rightarrow> Ok None | Some row \<Rightarrow>
        (case row_to_settlement_ledger_entry row of Inl e \<Rightarrow> Err e | Inr e \<Rightarrow> Ok (Some e))"])
     (auto simp: libsql_find_def ledger_find_def hm_get_decode_table dest: ledger_inv_row split: sum.split option.split)

lemma refines_count: "refines_read net (libsql_entry_count net) ledger_entry_count t"
  by (rule refines_readI [where sel = length and h = Ok])
     (simp_all add: libsql_entry_count_def ledger_entry_count_def decode_table_def split: sum.split)

lemma refines_success:
  "ledger_inv t \<Longrightarrow> refines_read net (libsql_success_kind_transactions net) ledger_success_kind_transactions t"
  by (rule refines_readI [where h = collect_success and
        sel = "filter (\<lambda>(_, row). lc_broadcast_outcome_kind row \<in> {''accepted'', ''duplicate''})"])
     (use collect_success_decoded [of t] in \<open>simp_all add: libsql_success_kind_transactions_def ledger_inv_def
       ledger_success_kind_transactions_def split: sum.split\<close>)

lemma refines_recent: "ledger_inv t \<Longrightarrow> refines_read net (libsql_list_recent net n payee) (ledger_list_recent n payee) t"
  by (rule refines_readI [where h = collect_entries and
        sel = "\<lambda>t. take (unat n) (rev (sort_key fst (filter (\<lambda>(_, row). sql_payee_wanted payee row) t)))"])
     (simp_all add: recent_decoded libsql_list_recent_def ledger_list_recent_def split: sum.split)


definition ex_table :: LedgerTable where
  "ex_table = [(''id1'', encode_ledger_row (ex_ledger_entry (Some 1) (Some 900)))]"

lemma ex_fits: "entry_fits fits_i64 (ex_ledger_entry (Some 1) (Some 900))"
  by (simp add: entry_fits_def fits_i64_def ex_ledger_entry_def i64_max_def)

lemma ex_table_inv: "ledger_inv ex_table"
  using lrow_ok_encode [OF ex_fits] by (simp add: ledger_inv_def ex_table_def hm_wf_def)


text \<open>A durable prepare can be replayed: after a prepare succeeded on the libSQL store, the same agent
  presenting the same non-blank key is answered from the table with the identical preparation, payment
  URI and amount included although neither is stored, and the table stays as it is, whenever the
  lookup gets through; a lookup that fails changes nothing either.\<close>

theorem libsql_propose_idempotent:
  assumes "prepared_inv t" "prepared_rows b64 t fid = None"
    and "propose (LibsqlPreparedTxStore b64 net) sha256 b64 reg tip fid now rq jkt t = (Ok p, t')"
    and "rq_idempotency_key rq = Some key" "trim key \<noteq> []" "rq_idempotency_key rq' = Some key"
  shows "\<exists>r. propose (LibsqlPreparedTxStore b64 net') sha256 b64 reg' tip' fid' now' rq' jkt t' = (r, t')
    \<and> (r = Ok p \<or> (\<exists>e. r = Err (PrepareStorage e)))"
proof -
  have uk: "usable_key (rq_idempotency_key rq) = Some key" using assms by (simp add: usable_key_def)
  obtain e where e: "prepared_rows b64 t' (pr_payment_id p) = Some e" "pe_preparation e = p" "holds_key jkt key e"
    using libsql.propose_Ok_held [OF assms(1-3)] uk by blast
  have inv: "prepared_inv t'" by (rule libsql.propose_inv [OF assms(1-3)])
  show ?thesis
  proof (cases "libsql_find_by_idempotency b64 net' jkt key t'")
    case (Inl x)
    then show ?thesis using assms(5,6) by (simp add: propose_def usable_key_def)
  next
    case (Inr r)
    then show ?thesis
      using libsql.propose_replay [OF inv e(1,3) assms(5,6), of net' r sha256 reg' tip' fid' now'] e(2) by simp
  qed
qed

lemma ex_libsql_proposed:
  "propose (LibsqlPreparedTxStore ex_b64 (\<lambda>_. None)) ex_sha ex_b64 ex_registry ex_tip ''id1'' 100
     (ex_request ''https://a'' ''k'') ''agent'' [] =
   (Ok (pe_preparation ex_prepared), [(''id1'', encode_row ex_prepared)])"
proof -
  have "libsql_insert (\<lambda>_. None) ex_prepared [] = (Ok (), [(''id1'', encode_row ex_prepared)])"
    by (simp add: libsql_insert_eq execute_def attempt_def upsert_prepared_def)
       (simp add: ex_prepared_def proposed_entry_def fits_i64_def i64_max_def Let_def ex_accepts_def
         saturating_add_def DEFAULT_VALIDITY_SECONDS_def)
  then have "propose_fresh (LibsqlPreparedTxStore ex_b64 (\<lambda>_. None)) ex_sha ex_b64 ex_registry ex_tip ''id1'' 100
      (ex_request ''https://a'' ''k'') ''agent'' [] =
      (Ok (pe_preparation ex_prepared), [(''id1'', encode_row ex_prepared)])"
    by (simp add: propose_fresh_def ex_registry_def register_def registry_new_def registry_find_def ex_request_def
        ex_accepts_def ex_tip_def expiry_delta_def saturating_add_def DEFAULT_EXPIRY_DELTA_BLOCKS_def ex_prepared_def Let_def)
  then show ?thesis
    by (simp add: propose_def ex_request_def usable_key_def ex_key_usable libsql_find_by_idempotency_def fetch_rows_def query_def
        execute_def attempt_def read_row_def)
qed

theorem libsql_propose_idempotent_witness:
  "\<exists>r. propose (LibsqlPreparedTxStore ex_b64 (\<lambda>_. None)) ex_sha ex_b64 [] ex_tip ''id2'' 500
     (ex_request ''https://b'' ''k'') ''agent'' [(''id1'', encode_row ex_prepared)]
     = (r, [(''id1'', encode_row ex_prepared)])
    \<and> (r = Ok (pe_preparation ex_prepared) \<or> (\<exists>e. r = Err (PrepareStorage e)))"
proof -
  have "prepared_inv []" by (simp add: prepared_inv_def unique_keys_def)
  then show ?thesis
    by (rule libsql_propose_idempotent [OF _ _ ex_libsql_proposed])
       (simp_all add: prepared_rows_def ex_request_def ex_key_usable)
qed

end
