(* ===== verification/Migration.thy ===== *)
theory Migration
  imports Ledger_Libsql
begin

text \<open>
  The schema migration runner (\<open>zpay-store/src/migration.rs\<close>) and its four scripts
  (\<open>zpay-store/migrations\<close>).  The database is the bookkeeping table of applied versions, the
  columns and rows of the settlement ledger, and the log of the scripts that were committed.  A script
  is a transaction: it fails and changes nothing when a column it adds exists, when a row it copies
  violates the constraint of the new table, or when its version is already recorded by a plain
  insert.  A column the table does not have yet is read as its default.  \<open>net\<close> gives the
  transport fault of every statement attempt.
\<close>

definition SCHEMA_VERSION :: u32 where "SCHEMA_VERSION = 4"

record MigrationDb =
  mg_versions :: "int list"
  mg_columns :: "string list"
  mg_ledger :: LedgerTable
  mg_scripts :: "u32 list"

type_synonym sql_script = "MigrationDb \<Rightarrow> (string + unit) \<times> MigrationDb"

subsection \<open>The scripts\<close>

definition committed :: "u32 \<Rightarrow> MigrationDb \<Rightarrow> MigrationDb" where
  "committed v db = db\<lparr>mg_scripts := mg_scripts db @ [v]\<rparr>"

definition insert_or_ignore_version :: "u32 \<Rightarrow> MigrationDb \<Rightarrow> MigrationDb" where
  "insert_or_ignore_version v db =
     db\<lparr>mg_versions := (if uint v \<in> set (mg_versions db) then mg_versions db else uint v # mg_versions db)\<rparr>"

definition initial_columns :: "string list" where
  "initial_columns = [''payment_id'', ''broadcast_outcome_kind'', ''transaction_id'', ''upstream_message'',
     ''settled_at_unix_seconds'', ''confirmation_count'', ''mined_block_height'', ''last_confirmation_check_at_unix_seconds'']"

definition initial_sql :: sql_script where
  "initial_sql db = (Ok (), committed 1 (insert_or_ignore_version 1
     (if mg_columns db = [] then db\<lparr>mg_columns := initial_columns, mg_ledger := []\<rparr> else db)))"

definition add_columns :: "string list \<Rightarrow> (LedgerSqlRow \<Rightarrow> LedgerSqlRow) \<Rightarrow> sql_script" where
  "add_columns names fill db =
    (if mg_columns db = [] then (Err ''no such table: settlement_ledger'', db)
     else (case List.find (\<lambda>c. c \<in> set (mg_columns db)) names of
         Some c \<Rightarrow> (Err (''duplicate column name: '' @ c), db)
       | None \<Rightarrow> (Ok (), db\<lparr>mg_columns := mg_columns db @ names,
                            mg_ledger := map (\<lambda>(p, r). (p, fill r)) (mg_ledger db)\<rparr>)))"

definition reorg_columns :: "string list" where
  "reorg_columns = [''reorg_count'', ''last_reorged_at'', ''expiry_height'']"

definition reorg_aware_settlement_sql :: sql_script where
  "reorg_aware_settlement_sql db =
    (case add_columns reorg_columns
        (\<lambda>r. r\<lparr>lc_reorg_count := 0, lc_last_reorged_at := None, lc_expiry_height := None\<rparr>) db of
       (Inl err, _) \<Rightarrow> (Err err, db)
     | (Inr _, db1) \<Rightarrow> (Ok (), committed 2 (insert_or_ignore_version 2 db1)))"

definition payee_columns :: "string list" where
  "payee_columns = [''payee_id'', ''amount_zat'']"

definition payee_and_amount_sql :: sql_script where
  "payee_and_amount_sql db =
    (case add_columns payee_columns (\<lambda>r. r\<lparr>lc_payee_id := [], lc_amount_zat := 0\<rparr>) db of
       (Inl err, _) \<Rightarrow> (Err err, db)
     | (Inr _, db1) \<Rightarrow> (Ok (), committed 3 (insert_or_ignore_version 3 db1)))"

text \<open>The fourth script copies every row into a table with the constraint, and records its version by a plain insert.\<close>

definition outcome_columns_sql :: sql_script where
  "outcome_columns_sql db =
    (case List.find (\<lambda>c. c \<notin> set (mg_columns db)) (initial_columns @ reorg_columns @ payee_columns) of
       Some c \<Rightarrow> (Err (''no such column: '' @ c), db)
     | None \<Rightarrow>
       if \<not> list_all (\<lambda>(_, r). outcome_columns_v4 r) (mg_ledger db)
       then (Err ''CHECK constraint failed: settlement_outcome_columns_v4'', db)
       else if 4 \<in> set (mg_versions db) then (Err ''UNIQUE constraint failed: zpay_schema_migrations.version'', db)
       else (Ok (), committed 4 (db\<lparr>mg_columns := initial_columns @ reorg_columns @ payee_columns,
              mg_versions := 4 # mg_versions db\<rparr>)))"

definition MIGRATIONS :: "(u32 \<times> sql_script) list" where
  "MIGRATIONS = [(1, initial_sql), (2, reorg_aware_settlement_sql), (3, payee_and_amount_sql), (4, outcome_columns_sql)]"

subsection \<open>The runner\<close>

definition apply_migration :: "net \<Rightarrow> nat \<Rightarrow> sql_script \<Rightarrow> MigrationDb \<Rightarrow> (StoreError + unit) \<times> MigrationDb" where
  "apply_migration net k sql db =
    (case execute net k sql db of
       (Inl err, db') \<Rightarrow> (Err (StoreUnavailable (''schema migration failed: '' @ err)), db')
     | (Inr _, db') \<Rightarrow> (Ok (), db'))"

definition max_applied_version :: "net \<Rightarrow> nat \<Rightarrow> MigrationDb \<Rightarrow> StoreError + u32" where
  "max_applied_version net k db =
    (case query net k (\<lambda>db. foldr max (mg_versions db) 0) db of
       Inl err \<Rightarrow> Err (StoreUnavailable (''read of migration version failed: '' @ err))
     | Inr raw \<Rightarrow>
    (case net (k + 2) of
       Some err \<Rightarrow> Err (StoreUnavailable (''read of migration version row failed: '' @ err))
     | None \<Rightarrow> (case i64_to_u32 raw of
                  None \<Rightarrow> Err (RowMalformed ''migration version overflowed u32'')
                | Some v \<Rightarrow> Ok v)))"

definition violates_outcome_columns :: "LedgerSqlRow \<Rightarrow> bool" where
  "violates_outcome_columns r =
    (if lc_broadcast_outcome_kind r \<in> {''accepted'', ''duplicate''}
     then lc_transaction_id r = None \<or> lc_upstream_message r \<noteq> None
     else if lc_broadcast_outcome_kind r \<in> {''invalid_encoding'', ''rejected'', ''unknown''}
     then lc_transaction_id r \<noteq> None \<or> lc_upstream_message r = None
     else True)"

definition validate_settlement_outcome_columns :: "net \<Rightarrow> nat \<Rightarrow> MigrationDb \<Rightarrow> StoreError + unit" where
  "validate_settlement_outcome_columns net k db =
    (case query net k (\<lambda>db. length (filter (\<lambda>(_, r). violates_outcome_columns r) (mg_ledger db))) db of
       Inl err \<Rightarrow> Err (StoreUnavailable (''settlement outcome invariant query failed: '' @ err))
     | Inr violating_rows \<Rightarrow>
    (case net (k + 2) of
       Some err \<Rightarrow> Err (StoreUnavailable (''settlement outcome invariant row read failed: '' @ err))
     | None \<Rightarrow>
        if violating_rows \<noteq> 0
        then Err (SchemaInvariantViolation ''settlement_outcome_columns_v4'' (of_nat violating_rows))
        else Ok ()))"

fun migrate_loop ::
  "net \<Rightarrow> nat \<Rightarrow> u32 \<Rightarrow> (u32 \<times> sql_script) list \<Rightarrow> MigrationDb \<Rightarrow> (StoreError + unit) \<times> MigrationDb" where
  "migrate_loop net k applied [] db = (Ok (), db)"
| "migrate_loop net k applied ((v, sql) # rest) db =
    (if v > applied then
       (case (if v = 4 then validate_settlement_outcome_columns net k db else Ok ()) of
          Inl e \<Rightarrow> (Err e, db)
        | Inr _ \<Rightarrow>
          (case apply_migration net (k + 3) sql db of
             (Inl e, db') \<Rightarrow> (Err e, db')
           | (Inr _, db') \<Rightarrow> migrate_loop net (k + 5) applied rest db'))
     else migrate_loop net (k + 5) applied rest db)"

definition run_migrations :: "net \<Rightarrow> MigrationDb \<Rightarrow> (StoreError + unit) \<times> MigrationDb" where
  "run_migrations net db =
    (case apply_migration net 0 (snd (hd MIGRATIONS)) db of
       (Inl e, db1) \<Rightarrow> (Err e, db1)
     | (Inr _, db1) \<Rightarrow>
    (case max_applied_version net 2 db1 of
       Inl e \<Rightarrow> (Err e, db1)
     | Inr applied \<Rightarrow>
       if applied > SCHEMA_VERSION then (Err (MigrationPending applied SCHEMA_VERSION), db1)
       else (case migrate_loop net 5 applied (tl MIGRATIONS) db1 of
               (Inl e, db2) \<Rightarrow> (Err e, db2)
             | (Inr _, db2) \<Rightarrow>
                (case validate_settlement_outcome_columns net 20 db2 of
                   Inl e \<Rightarrow> (Err e, db2) | Inr _ \<Rightarrow> (Ok (), db2)))))"

subsection \<open>What a script may do\<close>

text \<open>A column the table does not have holds its default, and a table that does not exist has no rows.\<close>

definition default_if_absent :: "string list \<Rightarrow> LedgerSqlRow \<Rightarrow> bool" where
  "default_if_absent cols r \<longleftrightarrow> (''reorg_count'' \<notin> set cols \<longrightarrow> lc_reorg_count r = 0)
     \<and> (''last_reorged_at'' \<notin> set cols \<longrightarrow> lc_last_reorged_at r = None)
     \<and> (''expiry_height'' \<notin> set cols \<longrightarrow> lc_expiry_height r = None)
     \<and> (''payee_id'' \<notin> set cols \<longrightarrow> lc_payee_id r = []) \<and> (''amount_zat'' \<notin> set cols \<longrightarrow> lc_amount_zat r = 0)"

definition columns_ok :: "MigrationDb \<Rightarrow> bool" where
  "columns_ok db \<longleftrightarrow> (mg_columns db = [] \<longrightarrow> mg_ledger db = [])
     \<and> list_all (\<lambda>(_, r). default_if_absent (mg_columns db) r) (mg_ledger db)"

text \<open>The ranges of the counters, which every write of the ledger respects.\<close>

definition ledger_ranges :: "LedgerTable \<Rightarrow> bool" where
  "ledger_ranges t \<longleftrightarrow> hm_wf t \<and> list_all (\<lambda>(_, r). 0 \<le> lc_reorg_count r
     \<and> pred_option (\<lambda>h. 0 \<le> h \<and> h \<le> i64_max) (lc_mined_block_height r)) t"

text \<open>What the runner relies on: a script that fails changes nothing; one that commits records its version and keeps the
  rows.\<close>

definition commits_as :: "u32 \<Rightarrow> MigrationDb \<Rightarrow> MigrationDb \<Rightarrow> bool" where
  "commits_as v db db' \<longleftrightarrow> set (mg_versions db') = insert (uint v) (set (mg_versions db))
     \<and> mg_scripts db' = mg_scripts db @ [v] \<and> mg_columns db' \<noteq> []
     \<and> (columns_ok db \<longrightarrow> mg_ledger db' = mg_ledger db \<and> columns_ok db')
     \<and> (ledger_ranges (mg_ledger db) \<longrightarrow> ledger_ranges (mg_ledger db'))"

definition lawful :: "u32 \<Rightarrow> sql_script \<Rightarrow> bool" where
  "lawful v sql \<longleftrightarrow> (\<forall>db. case sql db of (Inl _, db') \<Rightarrow> db' = db | (Inr _, db') \<Rightarrow> commits_as v db db')"

lemma map_fill_id: "(\<And>p r. (p, r) \<in> set t \<Longrightarrow> fill r = r) \<Longrightarrow> map (\<lambda>(p, r). (p, fill r)) t = t"
  by (induction t) auto

lemma add_columns_commits:
  assumes run: "add_columns names fill db = (Ok (), db1)"
    and fill: "\<And>r. default_if_absent (mg_columns db) r \<Longrightarrow> set names \<inter> set (mg_columns db) = {} \<Longrightarrow> fill r = r"
    and ranges: "\<And>r. lc_reorg_count (fill r) = lc_reorg_count r \<or> lc_reorg_count (fill r) = 0"
      "\<And>r. lc_mined_block_height (fill r) = lc_mined_block_height r"
  shows "commits_as v db (committed v (insert_or_ignore_version v db1))"
proof -
  have db1: "mg_columns db \<noteq> []" "set names \<inter> set (mg_columns db) = {}"
    "db1 = db\<lparr>mg_columns := mg_columns db @ names, mg_ledger := map (\<lambda>(p, r). (p, fill r)) (mg_ledger db)\<rparr>"
    using run by (auto simp: add_columns_def find_None_iff split: if_splits option.splits)
  have "map (\<lambda>(p, r). (p, fill r)) (mg_ledger db) = mg_ledger db" if "columns_ok db"
    by (rule map_fill_id) (use that fill db1(2) in \<open>auto simp: columns_ok_def list_all_iff\<close>)
  moreover have "ledger_ranges (map (\<lambda>(p, r). (p, fill r)) (mg_ledger db))" if "ledger_ranges (mg_ledger db)"
  proof -
    have "0 \<le> lc_reorg_count (fill r)" if "0 \<le> lc_reorg_count r" for r using ranges(1) [of r] that by auto
    then show ?thesis using that ranges(2)
      by (auto simp: ledger_ranges_def hm_wf_def list_all_iff comp_def case_prod_beta)
  qed
  ultimately show ?thesis using db1(1)
    by (auto simp: commits_as_def committed_def insert_or_ignore_version_def db1(3) columns_ok_def default_if_absent_def list_all_iff)
qed

lemma initial_lawful: "lawful 1 initial_sql"
  by (auto simp: lawful_def initial_sql_def commits_as_def committed_def insert_or_ignore_version_def columns_ok_def
      initial_columns_def ledger_ranges_def hm_wf_def)

lemma reorg_lawful: "lawful 2 reorg_aware_settlement_sql"
proof -
  have "commits_as 2 db (committed 2 (insert_or_ignore_version 2 db1))" if
    "add_columns reorg_columns (\<lambda>r. r\<lparr>lc_reorg_count := 0, lc_last_reorged_at := None, lc_expiry_height := None\<rparr>) db = (Ok (), db1)"
    for db db1
    by (rule add_columns_commits [OF that]) (auto simp: reorg_columns_def default_if_absent_def)
  then show ?thesis by (auto simp: lawful_def reorg_aware_settlement_sql_def split: prod.split sum.split)
qed

lemma payee_lawful: "lawful 3 payee_and_amount_sql"
proof -
  have "commits_as 3 db (committed 3 (insert_or_ignore_version 3 db1))" if
    "add_columns payee_columns (\<lambda>r. r\<lparr>lc_payee_id := [], lc_amount_zat := 0\<rparr>) db = (Ok (), db1)" for db db1
    by (rule add_columns_commits [OF that]) (auto simp: payee_columns_def default_if_absent_def)
  then show ?thesis by (auto simp: lawful_def payee_and_amount_sql_def split: prod.split sum.split)
qed

lemma outcome_lawful: "lawful 4 outcome_columns_sql"
  by (auto simp: lawful_def outcome_columns_sql_def commits_as_def committed_def columns_ok_def default_if_absent_def
      reorg_columns_def payee_columns_def initial_columns_def list_all_iff split: option.split)

subsection \<open>Lemmas\<close>

lemma apply_migration_cases:
  assumes "lawful v sql" "apply_migration net k sql db = (r, db')"
  obtains (failed) e where "r = Err e" "db' = db" | (applied) "r = Ok ()" "commits_as v db db'" "sql db = (Ok (), db')"
proof -
  have atomic: "atomic_at sql db" using assms(1) by (auto simp: lawful_def atomic_at_def dest: spec [of _ db])
  obtain x db1 where x: "execute net k sql db = (x, db1)" by fastforce
  show thesis
  proof (cases x)
    case (Inl err)
    then show ?thesis using failed x assms(2) execute_Err [OF atomic] by (auto simp: apply_migration_def)
  next
    case (Inr u)
    then have "sql db = (Ok u, db1)" using x execute_Ok [OF atomic] by simp
    moreover from this have "commits_as v db db1" using assms(1) by (auto simp: lawful_def dest: spec [of _ db])
    ultimately show ?thesis using applied x Inr assms(2) by (auto simp: apply_migration_def)
  qed
qed

lemma not_violates_iff: "\<not> violates_outcome_columns r \<longleftrightarrow> outcome_columns_v4 r"
  by (auto simp: violates_outcome_columns_def outcome_columns_v4_def)

lemma validate_Ok:
  "validate_settlement_outcome_columns net k db = Ok u \<Longrightarrow> list_all (\<lambda>(_, r). outcome_columns_v4 r) (mg_ledger db)"
  by (auto simp: validate_settlement_outcome_columns_def list_all_iff filter_empty_conv not_violates_iff [symmetric]
      split: sum.splits option.splits if_splits dest!: query_Ok)

lemma foldr_max_ge: "v \<in> set vs \<Longrightarrow> v \<le> foldr max vs (0 :: int)"
  by (induction vs) auto

lemma foldr_max_cases: "foldr max vs (0 :: int) = 0 \<or> foldr max vs 0 \<in> set vs"
  by (induction vs) (auto simp: max_def)

text \<open>The log of scripts: a versioned script (above the first) is executed only when its version is
  above everything recorded, and records it.\<close>

definition mig_inv :: "MigrationDb \<Rightarrow> bool" where
  "mig_inv db \<longleftrightarrow> (\<forall>v \<in> set (mg_scripts db). uint v \<in> set (mg_versions db))
     \<and> distinct (filter (\<lambda>v. v \<noteq> 1) (mg_scripts db))
     \<and> (\<forall>v \<in> set (mg_versions db). 0 \<le> v)"

lemma commits_inv:
  assumes "mig_inv db" "commits_as v db db'" "v = 1 \<or> uint v \<notin> set (mg_versions db)"
  shows "mig_inv db'"
  using assms by (auto simp: mig_inv_def commits_as_def)

lemma max_applied_eq: "max_applied_version net k db = Ok v \<Longrightarrow> uint v = foldr max (mg_versions db) 0"
  by (auto simp: max_applied_version_def i64_to_u32_def uint_word_of_int split: sum.splits option.splits if_splits dest!: query_Ok)

text \<open>What every run keeps, and what a later state has of an earlier one.\<close>

definition follows :: "MigrationDb \<Rightarrow> MigrationDb \<Rightarrow> bool" where
  "follows db db' \<longleftrightarrow> set (mg_versions db) \<subseteq> set (mg_versions db') \<and> (mg_columns db \<noteq> [] \<longrightarrow> mg_columns db' \<noteq> [])
     \<and> (columns_ok db \<longrightarrow> mg_ledger db' = mg_ledger db \<and> columns_ok db')
     \<and> (ledger_ranges (mg_ledger db) \<longrightarrow> ledger_ranges (mg_ledger db'))"

lemma follows_refl [simp]: "follows db db" by (simp add: follows_def)

lemma follows_trans: "follows a b \<Longrightarrow> follows b c \<Longrightarrow> follows a c"
  by (auto simp: follows_def)

lemma commits_follows: "commits_as v db db' \<Longrightarrow> follows db db'"
  by (auto simp: follows_def commits_as_def)

lemma migrate_loop_effect:
  assumes "migrate_loop net k applied ms db = (r, db')" "mig_inv db" "sorted_wrt (<) (map fst ms)"
    and "\<And>w v. w \<in> set (mg_versions db) \<Longrightarrow> v \<in> set (map fst ms) \<Longrightarrow> applied < v \<Longrightarrow> w < uint v"
    and "\<And>v sql. (v, sql) \<in> set ms \<Longrightarrow> v \<noteq> 1 \<and> lawful v sql"
  shows "mig_inv db' \<and> follows db db' \<and> set (mg_versions db') \<subseteq> set (mg_versions db) \<union> uint ` set (map fst ms)
    \<and> (r = Ok () \<longrightarrow> (\<forall>v \<in> set (map fst ms). applied < v \<longrightarrow> uint v \<in> set (mg_versions db')))"
  using assms
proof (induction net k applied ms db arbitrary: r db' rule: migrate_loop.induct)
  case (2 net k applied v sql ms db)
  note below = "2.prems"(4)
  show ?case
  proof (cases "v > applied")
    case False
    then show ?thesis using "2.IH"(2) [OF False, of r db'] "2.prems" by auto
  next
    case True
    show ?thesis
    proof (cases "if v = 4 then validate_settlement_outcome_columns net k db else Ok ()")
      case (Inl e)
      then show ?thesis using "2.prems"(1,2) True by auto
    next
      case (Inr u)
      obtain r1 db1 where a: "apply_migration net (k + 3) sql db = (r1, db1)" by fastforce
      have "lawful v sql" using "2.prems"(5) [of v sql] by simp
      then show ?thesis using a
      proof (cases rule: apply_migration_cases)
        case (failed e)
        then show ?thesis using "2.prems"(1,2) True Inr a by (auto split: if_splits)
      next
        case applied
        have "uint v \<notin> set (mg_versions db)" using below [of _ v] True by force
        then have inv: "mig_inv db1" using commits_inv [OF "2.prems"(2) applied(2)] by blast
        have vs: "set (mg_versions db1) = insert (uint v) (set (mg_versions db))"
          using applied(2) by (simp add: commits_as_def)
        have run: "migrate_loop net (k + 5) applied ms db1 = (r, db')" using "2.prems"(1) True Inr a applied(1) by (auto split: if_splits)
        have low: "\<And>w v'. w \<in> set (mg_versions db1) \<Longrightarrow> v' \<in> set (map fst ms) \<Longrightarrow> applied < v' \<Longrightarrow> w < uint v'"
          using "2.prems"(3) below by (auto simp: vs word_less_def)
        have "mig_inv db' \<and> follows db1 db' \<and> set (mg_versions db') \<subseteq> set (mg_versions db1) \<union> uint ` set (map fst ms)
            \<and> (r = Ok () \<longrightarrow> (\<forall>v \<in> set (map fst ms). applied < v \<longrightarrow> uint v \<in> set (mg_versions db')))"
          by (rule "2.IH"(1) [OF True Inr _ _ run inv _ low])
             (use a applied(1) "2.prems"(3,5) in auto)
        then show ?thesis using vs follows_trans [OF commits_follows [OF applied(2)]] by (auto simp: follows_def)
      qed
    qed
  qed
qed auto

lemma later_scripts: "(v, sql) \<in> set (tl MIGRATIONS) \<Longrightarrow> v \<noteq> 1 \<and> lawful v sql"
  using reorg_lawful payee_lawful outcome_lawful by (auto simp: MIGRATIONS_def)

text \<open>A run, whether it succeeds or not, up to the point where it stops.\<close>

lemma run_migrations_cases:
  assumes "mig_inv db" "run_migrations net db = (r, db')"
  obtains (first) e where "r = Err e" "db' = db"
    | (bookkept) e where "r = Err e" "commits_as 1 db db'"
    | (migrated) db1 applied r2 where "initial_sql db = (Ok (), db1)" "commits_as 1 db db1" "mig_inv db1"
        "max_applied_version net 2 db1 = Ok applied" "applied \<le> 4"
        "migrate_loop net 5 applied (tl MIGRATIONS) db1 = (r2, db')"
        "r = (case r2 of Inl e \<Rightarrow> Err e | Inr _ \<Rightarrow> validate_settlement_outcome_columns net 20 db')"
proof -
  obtain r1 db1 where a: "apply_migration net 0 initial_sql db = (r1, db1)" by fastforce
  with initial_lawful show thesis
  proof (cases rule: apply_migration_cases)
    case (failed e)
    then have "r = Err e" "db' = db" using assms(2) a by (simp_all add: run_migrations_def MIGRATIONS_def)
    then show ?thesis by (rule that(1))
  next
    case applied: applied
    have inv: "mig_inv db1" using commits_inv [OF assms(1) applied(2)] by simp
    show ?thesis
    proof (cases "max_applied_version net 2 db1")
      case (Inl e)
      then have "r = Err e" "db' = db1" using assms(2) a applied(1) by (simp_all add: run_migrations_def MIGRATIONS_def)
      then show ?thesis using that(2) applied(2) by blast
    next
      case (Inr top)
      obtain r2 db2 where l: "migrate_loop net 5 top (tl MIGRATIONS) db1 = (r2, db2)" by fastforce
      show ?thesis
      proof (cases "top \<le> 4")
        case True
        then have "r = (case r2 of Inl e \<Rightarrow> Err e | Inr _ \<Rightarrow> validate_settlement_outcome_columns net 20 db2)" "db' = db2"
          using assms(2) a applied(1) Inr l
          by (auto simp: run_migrations_def MIGRATIONS_def SCHEMA_VERSION_def not_less [symmetric]
              simp del: migrate_loop.simps split: sum.splits)
        then show ?thesis using that(3) [OF applied(3,2) inv Inr True] l by blast
      next
        case False
        then have "4 < top" by (simp add: not_le)
        then have "r = Err (MigrationPending top SCHEMA_VERSION)" "db' = db1"
          using assms(2) a applied(1) Inr by (simp_all add: run_migrations_def MIGRATIONS_def SCHEMA_VERSION_def)
        then show ?thesis using that(2) applied(2) by blast
      qed
    qed
  qed
qed

lemma loop_effect:
  assumes "mig_inv db1" "max_applied_version net 2 db1 = Ok applied"
    and "migrate_loop net 5 applied (tl MIGRATIONS) db1 = (r2, db')"
  shows "mig_inv db' \<and> follows db1 db' \<and> set (mg_versions db') \<subseteq> set (mg_versions db1) \<union> {2, 3, 4}
    \<and> (r2 = Ok () \<longrightarrow> (applied < 4 \<longrightarrow> 4 \<in> set (mg_versions db')))"
proof -
  have "w < uint v" if "w \<in> set (mg_versions db1)" "applied < v" for w v
    using foldr_max_ge [OF that(1)] max_applied_eq [OF assms(2)] that(2) by (simp add: word_less_def)
  moreover have "sorted_wrt (<) (map fst (tl MIGRATIONS))" by (simp add: MIGRATIONS_def)
  ultimately have "mig_inv db' \<and> follows db1 db'
      \<and> set (mg_versions db') \<subseteq> set (mg_versions db1) \<union> uint ` set (map fst (tl MIGRATIONS))
      \<and> (r2 = Ok () \<longrightarrow> (\<forall>v \<in> set (map fst (tl MIGRATIONS)). applied < v \<longrightarrow> uint v \<in> set (mg_versions db')))"
    using migrate_loop_effect [OF assms(3,1)] later_scripts by blast
  then show ?thesis by (auto simp: MIGRATIONS_def)
qed

lemma run_effect:
  assumes "mig_inv db" "run_migrations net db = (r, db')"
  shows "mig_inv db' \<and> follows db db'"
  using assms
proof (cases rule: run_migrations_cases)
  case (bookkept e)
  then show ?thesis using commits_inv [OF assms(1)] commits_follows by auto
next
  case (migrated db1 applied r2)
  then show ?thesis using loop_effect [OF migrated(3,4,6)] follows_trans commits_follows by blast
qed (use assms in simp)

lemma migrations_effect:
  assumes "mig_inv db" "run_migrations net db = (Ok u, db')"
  shows "list_all (\<lambda>(_, r). outcome_columns_v4 r) (mg_ledger db')" "1 \<in> set (mg_versions db')" "4 \<in> set (mg_versions db')"
    "foldr max (mg_versions db') 0 = 4" "mg_columns db' \<noteq> []"
proof -
  from assms obtain db1 applied where st: "commits_as 1 db db1" "mig_inv db1" "max_applied_version net 2 db1 = Ok applied"
    "applied \<le> 4" "migrate_loop net 5 applied (tl MIGRATIONS) db1 = (Ok (), db')"
    "validate_settlement_outcome_columns net 20 db' = Ok ()"
    by (cases rule: run_migrations_cases) (auto split: sum.splits)
  note loop = loop_effect [OF st(2,3,5)]
  show "list_all (\<lambda>(_, r). outcome_columns_v4 r) (mg_ledger db')" by (rule validate_Ok [OF st(6)])
  show "1 \<in> set (mg_versions db')" "mg_columns db' \<noteq> []"
    using loop st(1) by (auto simp: commits_as_def follows_def)
  have top: "foldr max (mg_versions db1) 0 \<le> 4" using max_applied_eq [OF st(3)] st(4) by (simp add: word_le_def)
  show four: "4 \<in> set (mg_versions db')"
  proof (cases "applied < 4")
    case False
    then have "foldr max (mg_versions db1) 0 = 4" using st(4) max_applied_eq [OF st(3)] by simp
    then show ?thesis using foldr_max_cases [of "mg_versions db1"] loop by (auto simp: follows_def)
  qed (use loop in simp)
  have "w \<le> 4" if "w \<in> set (mg_versions db')" for w
    using that loop foldr_max_ge [of w "mg_versions db1"] top by fastforce
  then show "foldr max (mg_versions db') 0 = 4"
    using foldr_max_cases [of "mg_versions db'"] foldr_max_ge [OF four] by fastforce
qed

lemma migrate_loop_nothing:
  "(\<And>v. v \<in> set (map fst ms) \<Longrightarrow> v \<le> applied) \<Longrightarrow> migrate_loop net k applied ms db = (Ok (), db)"
proof (induction ms arbitrary: k)
  case (Cons m ms)
  obtain v sql where m: "m = (v, sql)" by (cases m)
  then have "\<not> applied < v" using Cons.prems [of v] by (simp add: not_less)
  then show ?case using Cons m by simp
qed simp

text \<open>[C29] Migrations and the ledger.  Whether a run of the migrations succeeds or stops at any point, and whatever scripts and
  statements fail, every row of the ledger is as it was, and no script above the first has been committed twice; the
  first script, which only creates what is missing, is run at every start.  A run that succeeds leaves
  version 4 as the highest recorded version and has checked that every row satisfies the outcome-column
  contract; a further run on a working connection then commits the first script again and nothing else.\<close>

theorem migrations_once_and_sound:
  assumes "mig_inv db" "columns_ok db" "run_migrations net db = (r, db')"
  shows "mig_inv db' \<and> columns_ok db' \<and> mg_ledger db' = mg_ledger db
    \<and> distinct (filter (\<lambda>v. v \<noteq> 1) (mg_scripts db'))
    \<and> (r = Ok () \<longrightarrow> foldr max (mg_versions db') 0 = 4
        \<and> list_all (\<lambda>(_, r). outcome_columns_v4 r) (mg_ledger db')
        \<and> run_migrations (\<lambda>_. None) db' = (Ok (), db'\<lparr>mg_scripts := mg_scripts db' @ [1]\<rparr>))"
proof -
  have kept: "mig_inv db' \<and> columns_ok db' \<and> mg_ledger db' = mg_ledger db"
    using run_effect [OF assms(1,3)] assms(2) by (simp add: follows_def)
  have "foldr max (mg_versions db') 0 = 4 \<and> list_all (\<lambda>(_, r). outcome_columns_v4 r) (mg_ledger db')
        \<and> run_migrations (\<lambda>_. None) db' = (Ok (), db'\<lparr>mg_scripts := mg_scripts db' @ [1]\<rparr>)" if ok: "r = Ok ()"
  proof -
    let ?db2 = "db'\<lparr>mg_scripts := mg_scripts db' @ [1]\<rparr>"
    note eff = migrations_effect [OF assms(1) assms(3) [unfolded ok]]
    have "apply_migration (\<lambda>_. None) 0 initial_sql db' = (Ok (), ?db2)"
      using eff(2,5) by (simp add: apply_migration_def execute_def attempt_def initial_sql_def committed_def insert_or_ignore_version_def)
    moreover have "max_applied_version (\<lambda>_. None) 2 ?db2 = Ok 4"
      using eff(4) by (simp add: max_applied_version_def query_def execute_def attempt_def i64_to_u32_def)
    moreover have "migrate_loop (\<lambda>_. None) 5 4 (tl MIGRATIONS) ?db2 = (Ok (), ?db2)"
      by (rule migrate_loop_nothing) (auto simp: MIGRATIONS_def)
    moreover have "validate_settlement_outcome_columns (\<lambda>_. None) 20 ?db2 = Ok ()"
      using eff(1) by (auto simp: validate_settlement_outcome_columns_def query_def execute_def attempt_def
          filter_empty_conv list_all_iff not_violates_iff [symmetric])
    ultimately show ?thesis using eff(1,4) by (simp add: run_migrations_def MIGRATIONS_def SCHEMA_VERSION_def del: migrate_loop.simps)
  qed
  then show ?thesis using kept by (auto simp: mig_inv_def)
qed

text \<open>A database of the first schema with one settled payment.\<close>

definition ex_mig :: MigrationDb where
  "ex_mig = \<lparr>mg_versions = [1], mg_columns = initial_columns,
     mg_ledger = [(''id1'', (encode_ledger_row (ex_ledger_entry None None))
       \<lparr>lc_expiry_height := None, lc_payee_id := [], lc_amount_zat := 0\<rparr>)], mg_scripts = [1]\<rparr>"

definition ex_migrated :: MigrationDb where
  "ex_migrated = ex_mig\<lparr>mg_versions := [4, 3, 2, 1], mg_columns := initial_columns @ reorg_columns @ payee_columns,
     mg_scripts := [1, 1, 2, 3, 4]\<rparr>"

lemma ex_mig_run: "run_migrations (\<lambda>_. None) ex_mig = (Ok (), ex_migrated)"
  by (simp add: run_migrations_def MIGRATIONS_def SCHEMA_VERSION_def apply_migration_def execute_def attempt_def
      initial_sql_def reorg_aware_settlement_sql_def payee_and_amount_sql_def outcome_columns_sql_def add_columns_def
      committed_def insert_or_ignore_version_def max_applied_version_def query_def i64_to_u32_def
      validate_settlement_outcome_columns_def ex_mig_def ex_migrated_def violates_outcome_columns_def outcome_columns_v4_def
      initial_columns_def reorg_columns_def payee_columns_def encode_ledger_row_def ex_ledger_entry_def)

theorem migrations_once_and_sound_witness:
  "mg_ledger ex_migrated = mg_ledger ex_mig
    \<and> run_migrations (\<lambda>_. None) ex_migrated = (Ok (), ex_migrated\<lparr>mg_scripts := [1, 1, 2, 3, 4, 1]\<rparr>)"
proof -
  have "mig_inv ex_mig" "columns_ok ex_mig"
    by (simp_all add: mig_inv_def ex_mig_def columns_ok_def default_if_absent_def initial_columns_def encode_ledger_row_def
        ex_ledger_entry_def)
  from migrations_once_and_sound [OF this ex_mig_run]
  have "mg_ledger ex_migrated = mg_ledger ex_mig"
    "run_migrations (\<lambda>_. None) ex_migrated = (Ok (), ex_migrated\<lparr>mg_scripts := mg_scripts ex_migrated @ [1]\<rparr>)" by blast+
  then show ?thesis by (simp add: ex_migrated_def)
qed

end
