(* ===== verification/Backends.thy ===== *)
theory Backends
  imports Migration
begin

text \<open>
  The runtime's choice of storage backend (\<open>zpay-runtime/src/main.rs\<close>):
  \<open>AnyPreparedTxStore\<close> and \<open>AnySettlementLedgerStore\<close> dispatch every trait
  operation to the in-memory or to the libSQL implementation, and \<open>build_stores\<close>
  opens the pair the configuration names.  Both dispatchers are interpreted in the contracts
  of their traits, so what is proved of a store holds whatever backend a deployment runs.
\<close>

subsection \<open>Prepared store\<close>

datatype AnyPreparedTxStore = PreparedMemory CacheInner | PreparedLibsql PreparedTable

fun any_insert ::
  "net \<Rightarrow> PreparedTxEntry \<Rightarrow> AnyPreparedTxStore \<Rightarrow> (StoreError + unit) \<times> AnyPreparedTxStore" where
  "any_insert net entry (PreparedMemory inner) = apsnd PreparedMemory (cache_insert entry inner)"
| "any_insert net entry (PreparedLibsql inner) = apsnd PreparedLibsql (libsql_insert net entry inner)"

fun any_find_by_payment_id ::
  "(bytes \<Rightarrow> string) \<Rightarrow> net \<Rightarrow> PaymentId \<Rightarrow> AnyPreparedTxStore \<Rightarrow> StoreError + PreparedTxEntry option" where
  "any_find_by_payment_id b64 net pid (PreparedMemory inner) = cache_find_by_payment_id pid inner"
| "any_find_by_payment_id b64 net pid (PreparedLibsql inner) = libsql_find_by_payment_id b64 net pid inner"

fun any_find_by_idempotency ::
  "(bytes \<Rightarrow> string) \<Rightarrow> net \<Rightarrow> string \<Rightarrow> string \<Rightarrow> AnyPreparedTxStore \<Rightarrow> StoreError + PreparedTxEntry option" where
  "any_find_by_idempotency b64 net jkt key (PreparedMemory inner) = cache_find_by_idempotency jkt key inner"
| "any_find_by_idempotency b64 net jkt key (PreparedLibsql inner) = libsql_find_by_idempotency b64 net jkt key inner"

fun any_remove ::
  "(bytes \<Rightarrow> string) \<Rightarrow> net \<Rightarrow> PaymentId \<Rightarrow> AnyPreparedTxStore
    \<Rightarrow> (StoreError + PreparedTxEntry option) \<times> AnyPreparedTxStore" where
  "any_remove b64 net pid (PreparedMemory inner) = apsnd PreparedMemory (cache_remove pid inner)"
| "any_remove b64 net pid (PreparedLibsql inner) = apsnd PreparedLibsql (libsql_remove b64 net pid inner)"

fun any_sweep_expired ::
  "net \<Rightarrow> u64 \<Rightarrow> AnyPreparedTxStore \<Rightarrow> (StoreError + nat) \<times> AnyPreparedTxStore" where
  "any_sweep_expired net now (PreparedMemory inner) = apsnd PreparedMemory (cache_sweep_expired now inner)"
| "any_sweep_expired net now (PreparedLibsql inner) = apsnd PreparedLibsql (libsql_sweep_expired net now inner)"

fun any_entry_count :: "net \<Rightarrow> AnyPreparedTxStore \<Rightarrow> StoreError + nat" where
  "any_entry_count net (PreparedMemory inner) = cache_entry_count inner"
| "any_entry_count net (PreparedLibsql inner) = libsql_entry_count net inner"

definition AnyPrepared :: "(bytes \<Rightarrow> string) \<Rightarrow> net \<Rightarrow> AnyPreparedTxStore PreparedTxStore" where
  "AnyPrepared b64 net = \<lparr>pts_insert = any_insert net,
     pts_find_by_payment_id = any_find_by_payment_id b64 net,
     pts_find_by_idempotency = any_find_by_idempotency b64 net,
     pts_remove = any_remove b64 net, pts_sweep_expired = any_sweep_expired net,
     pts_entry_count = any_entry_count net\<rparr>"

fun any_prepared_inv :: "AnyPreparedTxStore \<Rightarrow> bool" where
  "any_prepared_inv (PreparedMemory inner) = cache_inv inner"
| "any_prepared_inv (PreparedLibsql inner) = prepared_inv inner"

fun any_prepared_rows :: "(bytes \<Rightarrow> string) \<Rightarrow> AnyPreparedTxStore \<Rightarrow> PaymentId \<Rightarrow> PreparedTxEntry option" where
  "any_prepared_rows b64 (PreparedMemory inner) = cache_rows inner"
| "any_prepared_rows b64 (PreparedLibsql inner) = prepared_rows b64 inner"

lemma AnyPrepared_ops [simp]:
  "pts_insert (AnyPrepared b64 net) = any_insert net"
  "pts_find_by_payment_id (AnyPrepared b64 net) = any_find_by_payment_id b64 net"
  "pts_find_by_idempotency (AnyPrepared b64 net) = any_find_by_idempotency b64 net"
  "pts_remove (AnyPrepared b64 net) = any_remove b64 net"
  "pts_sweep_expired (AnyPrepared b64 net) = any_sweep_expired net"
  "pts_entry_count (AnyPrepared b64 net) = any_entry_count net"
  by (simp_all add: AnyPrepared_def)

lemma apsnd_eq_iff: "apsnd f x = (r, y) \<longleftrightarrow> (\<exists>z. x = (r, z) \<and> y = f z)"
  by (cases x) auto

interpretation any_prepared: prepared_tx_store "AnyPrepared b64 net" any_prepared_inv "any_prepared_rows b64" b64
  for b64 net
proof (unfold_locales, goal_cases)
  case (1 s p e)
  then show ?case by (cases s) (auto dest: cache.rows_id libsql.rows_id)
next
  case (2 s)
  then show ?case by (cases s) (auto dest: cache.finite_rows libsql.finite_rows)
next
  case (3 s e u s')
  then show ?case
    by (cases s) (auto simp: apsnd_eq_iff dest: cache.insert_ok [simplified] libsql.insert_ok [simplified])
next
  case (4 e s x s')
  then show ?case
    by (cases s) (auto simp: apsnd_eq_iff dest: cache.insert_err [simplified] libsql.insert_err [simplified])
next
  case (5 s p r)
  then show ?case by (cases s) (auto dest: cache.find_ok [simplified] libsql.find_ok [simplified])
next
  case (6 s jkt key r e)
  then show ?case
    by (cases s) (simp_all add: cache.find_key_ok [simplified] libsql.find_key_ok [simplified])
next
  case (7 s p r s')
  then show ?case
    by (cases s) (auto simp: apsnd_eq_iff dest: cache.remove_ok [simplified] libsql.remove_ok [simplified])
next
  case (8 p s x s')
  then show ?case
    by (cases s) (auto simp: apsnd_eq_iff dest: cache.remove_err [simplified] libsql.remove_err [simplified])
next
  case (9 s now n s')
  then show ?case
    by (cases s) (auto simp: apsnd_eq_iff dest: cache.sweep_ok [simplified] libsql.sweep_ok [simplified])
next
  case (10 now s x s')
  then show ?case
    by (cases s) (auto simp: apsnd_eq_iff dest: cache.sweep_err [simplified] libsql.sweep_err [simplified])
next
  case (11 s n)
  then show ?case by (cases s) (auto dest: cache.count_ok [simplified] libsql.count_ok [simplified])
qed

subsection \<open>Settlement ledger\<close>

datatype AnySettlementLedgerStore = LedgerMemory SettlementLedger | LedgerLibsql LedgerTable

fun any_record ::
  "net \<Rightarrow> PaymentId \<Rightarrow> SettlementLedgerEntry \<Rightarrow> AnySettlementLedgerStore
    \<Rightarrow> (StoreError + unit) \<times> AnySettlementLedgerStore" where
  "any_record net pid entry (LedgerMemory inner) = apsnd LedgerMemory (ledger_record pid entry inner)"
| "any_record net pid entry (LedgerLibsql inner) = apsnd LedgerLibsql (libsql_record net pid entry inner)"

fun any_find :: "net \<Rightarrow> PaymentId \<Rightarrow> AnySettlementLedgerStore \<Rightarrow> StoreError + SettlementLedgerEntry option" where
  "any_find net pid (LedgerMemory inner) = ledger_find pid inner"
| "any_find net pid (LedgerLibsql inner) = libsql_find net pid inner"

fun any_ledger_entry_count :: "net \<Rightarrow> AnySettlementLedgerStore \<Rightarrow> StoreError + nat" where
  "any_ledger_entry_count net (LedgerMemory inner) = ledger_entry_count inner"
| "any_ledger_entry_count net (LedgerLibsql inner) = libsql_entry_count net inner"

fun any_success_kind_transactions :: "net \<Rightarrow> AnySettlementLedgerStore \<Rightarrow> StoreError + SuccessKindRow list" where
  "any_success_kind_transactions net (LedgerMemory inner) = ledger_success_kind_transactions inner"
| "any_success_kind_transactions net (LedgerLibsql inner) = libsql_success_kind_transactions net inner"

fun any_list_recent ::
  "net \<Rightarrow> u32 \<Rightarrow> PayeeId option \<Rightarrow> AnySettlementLedgerStore
    \<Rightarrow> StoreError + (PaymentId \<times> SettlementLedgerEntry) list" where
  "any_list_recent net limit payee (LedgerMemory inner) = ledger_list_recent limit payee inner"
| "any_list_recent net limit payee (LedgerLibsql inner) = libsql_list_recent net limit payee inner"

fun any_record_confirmation ::
  "net \<Rightarrow> i64 \<Rightarrow> PaymentId \<Rightarrow> u32 \<Rightarrow> u64 option \<Rightarrow> AnySettlementLedgerStore
    \<Rightarrow> (StoreError + bool) \<times> AnySettlementLedgerStore" where
  "any_record_confirmation net now pid count height (LedgerMemory inner) =
     apsnd LedgerMemory (ledger_record_confirmation pid count height inner)"
| "any_record_confirmation net now pid count height (LedgerLibsql inner) =
     apsnd LedgerLibsql (libsql_record_confirmation net now pid count height inner)"

fun any_downgrade_on_reorg ::
  "net \<Rightarrow> PaymentId \<Rightarrow> i64 \<Rightarrow> AnySettlementLedgerStore \<Rightarrow> (StoreError + bool) \<times> AnySettlementLedgerStore" where
  "any_downgrade_on_reorg net pid reorged_at (LedgerMemory inner) =
     apsnd LedgerMemory (ledger_downgrade_on_reorg pid reorged_at inner)"
| "any_downgrade_on_reorg net pid reorged_at (LedgerLibsql inner) =
     apsnd LedgerLibsql (libsql_downgrade_on_reorg net pid reorged_at inner)"

fun any_downgrade_reorged_range ::
  "net \<Rightarrow> u64 \<Rightarrow> u64 \<Rightarrow> i64 \<Rightarrow> AnySettlementLedgerStore
    \<Rightarrow> (StoreError + PaymentId list) \<times> AnySettlementLedgerStore" where
  "any_downgrade_reorged_range net lo hi reorged_at (LedgerMemory inner) =
     apsnd LedgerMemory (ledger_downgrade_reorged_range lo hi reorged_at inner)"
| "any_downgrade_reorged_range net lo hi reorged_at (LedgerLibsql inner) =
     apsnd LedgerLibsql (libsql_downgrade_reorged_range net lo hi reorged_at inner)"

definition AnyLedger :: "net \<Rightarrow> i64 \<Rightarrow> AnySettlementLedgerStore SettlementLedgerStore" where
  "AnyLedger net now = \<lparr>sl_record = any_record net, sl_find = any_find net,
     sl_entry_count = any_ledger_entry_count net,
     sl_success_kind_transactions = any_success_kind_transactions net,
     sl_list_recent = any_list_recent net,
     sl_record_confirmation = any_record_confirmation net now,
     sl_downgrade_on_reorg = any_downgrade_on_reorg net,
     sl_downgrade_reorged_range = any_downgrade_reorged_range net\<rparr>"

fun any_ledger_inv :: "AnySettlementLedgerStore \<Rightarrow> bool" where
  "any_ledger_inv (LedgerMemory inner) = hm_wf inner"
| "any_ledger_inv (LedgerLibsql inner) = ledger_inv inner"

fun any_ledger_rows :: "AnySettlementLedgerStore \<Rightarrow> PaymentId \<Rightarrow> SettlementLedgerEntry option" where
  "any_ledger_rows (LedgerMemory inner) = hm_get inner"
| "any_ledger_rows (LedgerLibsql inner) = hm_get (decode_table inner)"

lemma AnyLedger_ops [simp]:
  "sl_record (AnyLedger net now) = any_record net"
  "sl_find (AnyLedger net now) = any_find net"
  "sl_entry_count (AnyLedger net now) = any_ledger_entry_count net"
  "sl_success_kind_transactions (AnyLedger net now) = any_success_kind_transactions net"
  "sl_list_recent (AnyLedger net now) = any_list_recent net"
  "sl_record_confirmation (AnyLedger net now) = any_record_confirmation net now"
  "sl_downgrade_on_reorg (AnyLedger net now) = any_downgrade_on_reorg net"
  "sl_downgrade_reorged_range (AnyLedger net now) = any_downgrade_reorged_range net"
  by (simp_all add: AnyLedger_def)

interpretation any_ledger: settlement_ledger_store "AnyLedger net now" any_ledger_inv any_ledger_rows fits_i64
  for net now
proof (unfold_locales, goal_cases)
  case (1 s e p u s')
  show ?case
  proof (cases s)
    case (LedgerMemory m)
    then show ?thesis using 1 mem_ledger.record_ok [of m e p u] by (auto simp: apsnd_eq_iff entry_fits_def pred_option_def)
  next
    case (LedgerLibsql t)
    then show ?thesis using 1 libsql_ledger.record_ok [of t e net now p u] by (auto simp: apsnd_eq_iff)
  qed
next
  case (2 p e s x s')
  then show ?case
    by (cases s) (auto simp: apsnd_eq_iff dest: mem_ledger.record_err [simplified] libsql_ledger.record_err [simplified])
next
  case (3 s p r)
  then show ?case by (cases s) (auto dest: mem_ledger.find_ok [simplified] libsql_ledger.find_ok [simplified])
next
  case (4 s n)
  then show ?case by (cases s) (auto dest: mem_ledger.count_ok [simplified] libsql_ledger.count_ok [simplified])
next
  case (5 s rows)
  show ?case
  proof (cases s)
    case (LedgerMemory m)
    then show ?thesis using 5 mem_ledger.success_ok [of m rows] by (auto simp: apsnd_eq_iff)
  next
    case (LedgerLibsql t)
    then show ?thesis using 5 libsql_ledger.success_ok [of t net now rows] by (auto simp: apsnd_eq_iff)
  qed
next
  case (6 s limit payee rs)
  then show ?case by (cases s) (auto dest: mem_ledger.recent_ok [simplified] libsql_ledger.recent_ok [simplified])
next
  case (7 s h p c b s')
  show ?case
  proof (cases s)
    case (LedgerMemory m)
    then show ?thesis using 7 mem_ledger.confirm_ok [of m h p c b] by (auto simp: apsnd_eq_iff pred_option_def)
  next
    case (LedgerLibsql t)
    then show ?thesis using 7 libsql_ledger.confirm_ok [of t h net now p c b] by (auto simp: apsnd_eq_iff)
  qed
next
  case (8 p c h s x s')
  then show ?case
    by (cases s) (auto simp: apsnd_eq_iff dest: mem_ledger.confirm_err [simplified] libsql_ledger.confirm_err [simplified])
next
  case (9 s p at b s')
  show ?case
  proof (cases s)
    case (LedgerMemory m)
    then show ?thesis using 9 mem_ledger.downgrade_ok [of m p at b] by (auto simp: apsnd_eq_iff)
  next
    case (LedgerLibsql t)
    then show ?thesis using 9 libsql_ledger.downgrade_ok [of t net now p at b] by (auto simp: apsnd_eq_iff)
  qed
next
  case (10 p at s x s')
  then show ?case
    by (cases s) (auto simp: apsnd_eq_iff dest: mem_ledger.downgrade_err [simplified] libsql_ledger.downgrade_err [simplified])
next
  case (11 s lo hi at ids s')
  show ?case
  proof (cases s)
    case (LedgerMemory m)
    then show ?thesis using 11 mem_ledger.range_ok [of m lo hi at ids] by (auto simp: apsnd_eq_iff)
  next
    case (LedgerLibsql t)
    then show ?thesis using 11 libsql_ledger.range_ok [of t lo hi net now at ids] by (auto simp: apsnd_eq_iff)
  qed
next
  case (12 lo hi at s x s')
  then show ?case
    by (cases s) (auto simp: apsnd_eq_iff dest: mem_ledger.range_err [simplified] libsql_ledger.range_err [simplified])
qed

interpretation any_stores: payment_stores "AnyPrepared b64 net" any_prepared_inv "any_prepared_rows b64" b64
  "AnyLedger net' now" any_ledger_inv any_ledger_rows fits_i64
  for b64 net net' now ..

subsection \<open>Opening the configured pair\<close>

datatype StartupError =
    BindAddress string string
  | BindFailed string
  | ServeFailed string
  | TracingFailed string
  | MetricsFailed string
  | EnvU32Invalid string string
  | SubmitterFailed string string
  | PayeesConfig string string
  | NetworkInvalid string
  | SaplingParametersUnavailable
  | StaticTipInvalid string
  | FinalityDepthInvalid string
  | StoreBackend string StoreError
  | StoreBackendInvalid string
  | PlaceholderPayee string

definition open_and_migrate ::
  "net \<Rightarrow> string \<Rightarrow> string option \<Rightarrow> MigrationDb \<Rightarrow> (StoreError + StoreUrl) \<times> MigrationDb" where
  "open_and_migrate net store_url auth_token db =
    (case build_connection store_url auth_token of
       Inl e \<Rightarrow> (Err e, db)
     | Inr connection \<Rightarrow>
       (case run_migrations net db of
          (Inl e, db') \<Rightarrow> (Err e, db')
        | (Inr _, db') \<Rightarrow> (Ok connection, db')))"

text \<open>\<open>prepared\<close> is the prepared-transaction table of the same database; migrations leave
  its rows alone.\<close>

definition build_stores ::
  "net \<Rightarrow> string \<Rightarrow> string \<Rightarrow> string option \<Rightarrow> MigrationDb \<Rightarrow> PreparedTable
    \<Rightarrow> StartupError + AnyPreparedTxStore \<times> AnySettlementLedgerStore" where
  "build_stores net store_backend store_url store_auth_token db prepared =
    (if store_backend = ''memory'' then Ok (PreparedMemory cache_empty, LedgerMemory [])
     else if store_backend = ''libsql'' then
       (case open_and_migrate net store_url store_auth_token db of
          (Inl source, _) \<Rightarrow> Err (StoreBackend ''libsql'' source)
        | (Inr connection, db') \<Rightarrow> Ok (PreparedLibsql prepared, LedgerLibsql (mg_ledger db')))
     else Err (StoreBackendInvalid store_backend))"

end
