(* ===== verification/Zcash_Exact.thy ===== *)
theory Zcash_Exact
  imports Settle "HOL-Library.Char_ord" "HOL-Library.List_Lexorder"
begin

text \<open>
  The x402 v2 wire types (\<open>zpay-x402/src/wire.rs\<close>) and the Zcash exact binding
  (\<open>zpay-x402/src/zcash_exact.rs\<close>).  A \<open>BTreeMap\<close> is an association list in key
  order, a JSON value is the tree \<open>serde_json\<close> documents, with a number kept as its text.  The
  URL-safe base64 decoder is a parameter.  The header codec takes the JSON and base64 encoders
  and decoders of a message type as the record \<open>HeaderCodec\<close>.
\<close>

subsection \<open>JSON values and ordered maps\<close>

datatype Json =
    JNull
  | JBool bool
  | JNumber string
  | JString string
  | JArray "Json list"
  | JObject "(string \<times> Json) list"

fun as_object :: "Json \<Rightarrow> (string \<times> Json) list option" where
  "as_object (JObject m) = Some m"
| "as_object _ = None"

fun as_str :: "Json \<Rightarrow> string option" where
  "as_str (JString s) = Some s"
| "as_str _ = None"

type_synonym 'v btree = "(string \<times> 'v) list"

fun bt_insert :: "string \<Rightarrow> 'v \<Rightarrow> 'v btree \<Rightarrow> 'v btree" where
  "bt_insert k v [] = [(k, v)]"
| "bt_insert k v ((k', v') # m) =
    (if k < k' then (k, v) # (k', v') # m else if k = k' then (k, v) # m else (k', v') # bt_insert k v m)"

definition bt_from :: "(string \<times> 'v) list \<Rightarrow> 'v btree" where
  "bt_from kvs = fold (\<lambda>(k, v). bt_insert k v) kvs []"

definition get_str :: "(string \<times> Json) list \<Rightarrow> string \<Rightarrow> string option" where
  "get_str m k = Option.bind (map_of m k) as_str"

lemma bt_insert_get: "map_of (bt_insert k v m) x = (if x = k then Some v else map_of m x)"
  by (induction m) auto

lemma bt_insert_keys: "set (map fst (bt_insert k v m)) = insert k (set (map fst m))"
proof (induction m)
  case (Cons a m)
  then show ?case by (cases a) (auto simp: image_iff split: if_splits)
qed simp

lemma bt_insert_sorted: "sorted_wrt (<) (map fst m) \<Longrightarrow> sorted_wrt (<) (map fst (bt_insert k v m))"
proof (induction m)
  case (Cons a m)
  then show ?case using bt_insert_keys [of k v m] by (cases a) (fastforce simp: image_iff)
qed simp

subsection \<open>Wire types\<close>

definition X402_VERSION :: u32 where "X402_VERSION = 2"

record PaymentRequirements =
  pq_scheme :: string
  pq_network :: string
  pq_amount :: string
  pq_asset :: string
  pq_pay_to :: string
  pq_max_timeout_seconds :: u64
  pq_extra :: "Json btree"

record ResourceInfo =
  ri_url :: string
  ri_description :: "string option"
  ri_mime_type :: "string option"
  ri_service_name :: "string option"
  ri_tags :: "string list"
  ri_icon_url :: "string option"

record PaymentRequired =
  pd_x402_version :: u32
  pd_resource :: ResourceInfo
  pd_accepts :: "PaymentRequirements list"
  pd_extensions :: "Json btree"

record PaymentPayload =
  pp_x402_version :: u32
  pp_resource :: ResourceInfo
  pp_accepted :: PaymentRequirements
  pp_payload :: Json
  pp_extensions :: "Json btree"

record FacilitatorRequest =
  fr_x402_version :: u32
  fr_payment_payload :: PaymentPayload
  fr_payment_requirements :: PaymentRequirements

record SupportedKind =
  sd_x402_version :: u32
  sd_scheme :: string
  sd_network :: string
  sd_extra :: "Json btree"

record SupportedExtension =
  se_name :: string
  se_version :: string

record SupportedResponse =
  sp_kinds :: "SupportedKind list"
  sp_extensions :: "SupportedExtension list"
  sp_signers :: "string list btree"

definition supported_response_empty :: SupportedResponse where
  "supported_response_empty = \<lparr>sp_kinds = [], sp_extensions = [], sp_signers = []\<rparr>"

record X402VerifyResponse =
  xv_is_valid :: bool
  xv_invalid_reason :: "string option"
  xv_payer :: "string option"
  xv_extra :: "Json btree"

record X402SettleResponse =
  xs_success :: bool
  xs_error_reason :: "string option"
  xs_payer :: "string option"
  xs_transaction :: "string option"
  xs_network :: string
  xs_amount :: string
  xs_extensions :: "Json btree"

datatype WireHeaderError =
    WireSerialization string
  | WireHeaderValue string
  | WireHeaderText string
  | WireBase64 string
  | WireJson string

record ('t, 'h) HeaderCodec =
  hc_to_vec :: "'t \<Rightarrow> string + bytes"
  hc_from_slice :: "bytes \<Rightarrow> string + 't"
  hc_b64_encode :: "bytes \<Rightarrow> string"
  hc_b64_decode :: "string \<Rightarrow> string + bytes"
  hc_header_from_str :: "string \<Rightarrow> string + 'h"
  hc_header_to_str :: "'h \<Rightarrow> string + string"

definition encode_json_header :: "('t, 'h) HeaderCodec \<Rightarrow> 't \<Rightarrow> WireHeaderError + 'h" where
  "encode_json_header H body =
    (case hc_to_vec H body of
       Inl reason \<Rightarrow> Err (WireSerialization reason)
     | Inr json \<Rightarrow>
       (case hc_header_from_str H (hc_b64_encode H json) of
          Inl reason \<Rightarrow> Err (WireHeaderValue reason) | Inr h \<Rightarrow> Ok h))"

definition decode_json_header :: "('t, 'h) HeaderCodec \<Rightarrow> 'h \<Rightarrow> WireHeaderError + 't" where
  "decode_json_header H header =
    (case hc_header_to_str H header of
       Inl reason \<Rightarrow> Err (WireHeaderText reason)
     | Inr encoded \<Rightarrow>
    (case hc_b64_decode H encoded of
       Inl reason \<Rightarrow> Err (WireBase64 reason)
     | Inr json \<Rightarrow>
    (case hc_from_slice H json of
       Inl reason \<Rightarrow> Err (WireJson reason) | Inr body \<Rightarrow> Ok body)))"

definition encode_payment_required_header ::
  "(PaymentRequired, 'h) HeaderCodec \<Rightarrow> PaymentRequired \<Rightarrow> WireHeaderError + 'h" where
  "encode_payment_required_header H body = encode_json_header H body"

definition decode_payment_signature_header ::
  "(PaymentPayload, 'h) HeaderCodec \<Rightarrow> 'h \<Rightarrow> WireHeaderError + PaymentPayload" where
  "decode_payment_signature_header H header = decode_json_header H header"

definition encode_payment_response_header ::
  "(X402SettleResponse, 'h) HeaderCodec \<Rightarrow> X402SettleResponse \<Rightarrow> WireHeaderError + 'h" where
  "encode_payment_response_header H body = encode_json_header H body"

subsection \<open>The Zcash exact binding\<close>

definition ZCASH_EXACT_BINDING_VERSION :: string where "ZCASH_EXACT_BINDING_VERSION = ''x402-zcash-exact-v1''"
definition ZCASH_EXACT_SCHEME :: string where "ZCASH_EXACT_SCHEME = ''exact''"
definition ZCASH_EXACT_ASSET :: string where "ZCASH_EXACT_ASSET = ''ZEC''"
definition ZCASH_EXACT_AMOUNT_UNIT :: string where "ZCASH_EXACT_AMOUNT_UNIT = ''zat''"
definition ZCASH_EXACT_AUTHORIZATION_FORMAT :: string where
  "ZCASH_EXACT_AUTHORIZATION_FORMAT = ''pczt-v2-extractable''"
definition ZPAY_PAYMENT_ID_EXTENSION :: string where "ZPAY_PAYMENT_ID_EXTENSION = ''zpayPaymentId''"
definition ZCASH_EXACT_MAX_ZAT :: u64 where "ZCASH_EXACT_MAX_ZAT = 21000000 * 100000000"
definition ZCASH_MAINNET_NETWORK :: string where "ZCASH_MAINNET_NETWORK = ''zcash:mainnet''"
definition ZCASH_TESTNET_NETWORK :: string where "ZCASH_TESTNET_NETWORK = ''zcash:testnet''"
definition ZCASH_REGTEST_NETWORK :: string where "ZCASH_REGTEST_NETWORK = ''zcash:regtest''"

lemmas network_ids = ZCASH_MAINNET_NETWORK_def ZCASH_TESTNET_NETWORK_def ZCASH_REGTEST_NETWORK_def

fun network_id :: "ZallyNetwork \<Rightarrow> string option" where
  "network_id ZallyMainnet = Some ZCASH_MAINNET_NETWORK"
| "network_id ZallyTestnet = Some ZCASH_TESTNET_NETWORK"
| "network_id ZallyRegtest = Some ZCASH_REGTEST_NETWORK"
| "network_id (ZallyOther _) = None"

definition binding_extensions :: "Json btree" where
  "binding_extensions = bt_from
    [(''binding'', JString ZCASH_EXACT_BINDING_VERSION), (''bindingStatus'', JString ''implemented''),
     (''amountUnit'', JString ZCASH_EXACT_AMOUNT_UNIT), (''asset'', JString ZCASH_EXACT_ASSET),
     (''authorizationFormat'', JString ZCASH_EXACT_AUTHORIZATION_FORMAT),
     (''settlementPosture'', JString ''extracts_and_broadcasts_pczt'')]"

definition supported_response :: "ZallyNetwork \<Rightarrow> SupportedResponse" where
  "supported_response network =
    (case network_id network of
       None \<Rightarrow> supported_response_empty
     | Some nid \<Rightarrow>
       \<lparr>sp_kinds = [\<lparr>sd_x402_version = X402_VERSION, sd_scheme = ZCASH_EXACT_SCHEME, sd_network = nid,
                    sd_extra = binding_extensions\<rparr>],
        sp_extensions = [\<lparr>se_name = ZCASH_EXACT_BINDING_VERSION, se_version = ''1''\<rparr>],
        sp_signers = bt_from [(ZCASH_EXACT_AUTHORIZATION_FORMAT, [''zspend'', ''zally-wallet''])]\<rparr>)"

definition is_digit :: "char \<Rightarrow> bool" where
  "is_digit c \<longleftrightarrow> 48 \<le> byte_of c \<and> byte_of c \<le> 57"

text \<open>\<open>str::parse::<u64>\<close>: an optional plus sign, then at least one decimal digit, no overflow.\<close>

definition parse_u64 :: "string \<Rightarrow> u64 option" where
  "parse_u64 s =
    (let d = (case s of c # cs \<Rightarrow> if c = CHR ''+'' \<and> cs \<noteq> [] then cs else s | [] \<Rightarrow> s)
     in if d = [] \<or> \<not> list_all is_digit d \<or> dec_val d \<ge> 2 ^ 64 then None else Some (of_nat (dec_val d)))"

definition is_zcash_network :: "string \<Rightarrow> bool" where
  "is_zcash_network network \<longleftrightarrow>
     network = ZCASH_MAINNET_NETWORK \<or> network = ZCASH_TESTNET_NETWORK \<or> network = ZCASH_REGTEST_NETWORK"

definition payment_network :: "string \<Rightarrow> PaymentNetwork option" where
  "payment_network network =
    (if network = ZCASH_MAINNET_NETWORK then Some Mainnet
     else if network = ZCASH_TESTNET_NETWORK then Some Testnet
     else if network = ZCASH_REGTEST_NETWORK then Some Regtest else None)"

definition is_valid_zat_amount :: "string \<Rightarrow> bool" where
  "is_valid_zat_amount amount_zat =
    (case parse_u64 amount_zat of None \<Rightarrow> False
     | Some parsed_zat \<Rightarrow> parsed_zat > 0 \<and> parsed_zat \<le> ZCASH_EXACT_MAX_ZAT)"

definition has_valid_recipient_prefix :: "string \<Rightarrow> string \<Rightarrow> bool" where
  "has_valid_recipient_prefix network pay_to =
    (if network = ZCASH_MAINNET_NETWORK then
       prefix ''u1'' pay_to \<or> prefix ''zu1'' pay_to \<or> prefix ''zs1'' pay_to
     else if network = ZCASH_TESTNET_NETWORK then
       prefix ''utest1'' pay_to \<or> prefix ''zutest1'' pay_to \<or> prefix ''ztestsapling1'' pay_to
     else if network = ZCASH_REGTEST_NETWORK then
       prefix ''uregtest1'' pay_to \<or> prefix ''zuregtest1'' pay_to \<or> prefix ''zregtestsapling1'' pay_to
     else False)"

definition has_zcash_exact_network :: "PaymentRequirements \<Rightarrow> bool" where
  "has_zcash_exact_network r \<longleftrightarrow> pq_scheme r = ZCASH_EXACT_SCHEME \<and> is_zcash_network (pq_network r)"

definition is_zcash_exact_request :: "FacilitatorRequest \<Rightarrow> bool" where
  "is_zcash_exact_request request = has_zcash_exact_network (fr_payment_requirements request)"

definition response_extensions :: "FacilitatorRequest \<Rightarrow> Json btree" where
  "response_extensions request =
    (if \<not> has_zcash_exact_network (fr_payment_requirements request) then [] else binding_extensions)"

definition requirements_invalid_reason :: "PaymentRequirements \<Rightarrow> string option" where
  "requirements_invalid_reason r =
    (if pq_scheme r \<noteq> ZCASH_EXACT_SCHEME then Some ''zcash_exact_scheme_invalid''
     else if \<not> is_zcash_network (pq_network r) then Some ''zcash_exact_network_invalid''
     else if pq_asset r \<noteq> ZCASH_EXACT_ASSET then Some ''zcash_exact_asset_unsupported''
     else if \<not> is_valid_zat_amount (pq_amount r) then Some ''zcash_exact_amount_invalid''
     else if \<not> has_valid_recipient_prefix (pq_network r) (pq_pay_to r) then Some ''zcash_exact_pay_to_invalid''
     else None)"

definition authorization_invalid_reason :: "(string \<Rightarrow> string + bytes) \<Rightarrow> Json \<Rightarrow> string option" where
  "authorization_invalid_reason b64_decode authorization =
    (case as_object authorization of
       None \<Rightarrow> Some ''zcash_exact_authorization_malformed''
     | Some auth_fields \<Rightarrow>
    (case get_str auth_fields ''format'' of
       None \<Rightarrow> Some ''zcash_exact_authorization_malformed''
     | Some format \<Rightarrow>
       if format \<noteq> ZCASH_EXACT_AUTHORIZATION_FORMAT
       then Some ''zcash_exact_authorization_format_unsupported''
       else if (case get_str auth_fields ''pczt'' of None \<Rightarrow> True | Some s \<Rightarrow> s = [])
       then Some ''zcash_exact_authorization_malformed''
       else if (case get_str auth_fields ''pczt'' of None \<Rightarrow> False
                | Some pczt \<Rightarrow> (case b64_decode pczt of Inl _ \<Rightarrow> True | Inr _ \<Rightarrow> False))
       then Some ''zcash_exact_authorization_malformed''
       else None))"

definition request_invalid_reason :: "(string \<Rightarrow> string + bytes) \<Rightarrow> FacilitatorRequest \<Rightarrow> string option" where
  "request_invalid_reason b64_decode request =
    (if \<not> is_zcash_exact_request request then None
     else case requirements_invalid_reason (fr_payment_requirements request) of
            Some reason \<Rightarrow> Some reason
          | None \<Rightarrow> authorization_invalid_reason b64_decode (pp_payload (fr_payment_payload request)))"

definition settlement_request ::
  "(string \<Rightarrow> string + bytes) \<Rightarrow> FacilitatorRequest \<Rightarrow> string + PcztSettlementRequest" where
  "settlement_request b64_decode request =
    (if \<not> is_zcash_exact_request request then Err ''scheme_network_not_supported''
     else case request_invalid_reason b64_decode request of
       Some reason \<Rightarrow> Err reason
     | None \<Rightarrow>
    (case payment_network (pq_network (fr_payment_requirements request)) of
       None \<Rightarrow> Err ''zcash_exact_network_invalid''
     | Some network \<Rightarrow>
    (case parse_u64 (pq_amount (fr_payment_requirements request)) of
       None \<Rightarrow> Err ''zcash_exact_amount_invalid''
     | Some amount_zat \<Rightarrow>
    (case as_object (pp_payload (fr_payment_payload request)) of
       None \<Rightarrow> Err ''zcash_exact_authorization_malformed''
     | Some authorization \<Rightarrow>
    (case get_str authorization ''pczt'' of
       None \<Rightarrow> Err ''zcash_exact_authorization_malformed''
     | Some pczt \<Rightarrow>
    (case b64_decode pczt of
       Inl _ \<Rightarrow> Err ''zcash_exact_authorization_malformed''
     | Inr pczt_bytes \<Rightarrow>
       Ok \<lparr>ps_network = network, ps_amount_zat = amount_zat,
           ps_pay_to = pq_pay_to (fr_payment_requirements request), ps_pczt_bytes = pczt_bytes\<rparr>))))))"

definition zpay_payment_id :: "PaymentRequirements \<Rightarrow> string + PaymentId option" where
  "zpay_payment_id requirements =
    (case get_str (pq_extra requirements) ZPAY_PAYMENT_ID_EXTENSION of
       None \<Rightarrow> Ok None
     | Some raw_payment_id \<Rightarrow>
       (case payment_id_from_str raw_payment_id of
          Inl _ \<Rightarrow> Err ''zpay_payment_id_invalid'' | Inr p \<Rightarrow> Ok (Some p)))"

subsection \<open>What the binding accepts\<close>

lemma decode_encode_header:
  assumes "\<And>x j. hc_to_vec H x = Ok j \<Longrightarrow> hc_from_slice H j = Ok x"
    and "\<And>b. hc_b64_decode H (hc_b64_encode H b) = Ok b"
    and "\<And>s h. hc_header_from_str H s = Ok h \<Longrightarrow> hc_header_to_str H h = Ok s"
    and "encode_json_header H body = Ok h"
  shows "decode_json_header H h = Ok body"
  using assms by (auto simp: encode_json_header_def decode_json_header_def split: sum.splits)

lemma payment_network_iff: "is_zcash_network n \<longleftrightarrow> payment_network n \<noteq> None"
  by (simp add: is_zcash_network_def payment_network_def)

lemma requirements_valid_iff:
  "requirements_invalid_reason r = None \<longleftrightarrow> has_zcash_exact_network r \<and> pq_asset r = ZCASH_EXACT_ASSET \<and>
     is_valid_zat_amount (pq_amount r) \<and> has_valid_recipient_prefix (pq_network r) (pq_pay_to r)"
  by (simp add: requirements_invalid_reason_def has_zcash_exact_network_def)

lemma authorization_valid_iff:
  "authorization_invalid_reason b64_decode a = None \<longleftrightarrow>
     (\<exists>auth_fields pczt raw. as_object a = Some auth_fields \<and> get_str auth_fields ''format'' = Some ZCASH_EXACT_AUTHORIZATION_FORMAT \<and>
        get_str auth_fields ''pczt'' = Some pczt \<and> pczt \<noteq> [] \<and> b64_decode pczt = Ok raw)"
  by (auto simp: authorization_invalid_reason_def split: option.splits sum.splits)

lemma parse_u64_Some:
  assumes "parse_u64 s = Some w"
  shows "\<exists>d. d \<noteq> [] \<and> list_all is_digit d \<and> unat w = dec_val d \<and> (s = d \<or> s = CHR ''+'' # d)"
proof -
  define d where "d = (case s of c # cs \<Rightarrow> if c = CHR ''+'' \<and> cs \<noteq> [] then cs else s | [] \<Rightarrow> s)"
  have "s = d \<or> s = CHR ''+'' # d" by (auto simp: d_def split: list.splits)
  moreover have "d \<noteq> [] \<and> list_all is_digit d \<and> unat w = dec_val d"
    using assms unfolding parse_u64_def Let_def d_def [symmetric] by (auto simp: unat_of_nat split: if_splits)
  ultimately show ?thesis by blast
qed

lemma parse_u64_digits:
  assumes "d \<noteq> []" "list_all is_digit d" "unat w = dec_val d" "s = d \<or> s = CHR ''+'' # d"
  shows "parse_u64 s = Some w"
proof -
  have "hd d \<noteq> CHR ''+''" using assms(1,2) by (cases d) (auto simp: is_digit_def byte_of_def)
  then have "(case s of c # cs \<Rightarrow> if c = CHR ''+'' \<and> cs \<noteq> [] then cs else s | [] \<Rightarrow> s) = d"
    using assms(1,4) by (auto split: list.splits)
  moreover have "dec_val d < 2 ^ 64" using assms(3) unsigned_less [of w, where ?'a = nat] by simp
  moreover have "(of_nat (dec_val d) :: u64) = w" by (simp flip: assms(3))
  ultimately show ?thesis using assms(1,2) by (simp add: parse_u64_def)
qed

lemma settlement_request_Ok_iff:
  "settlement_request b64_decode request = Ok r \<longleftrightarrow>
     has_zcash_exact_network (fr_payment_requirements request) \<and>
     pq_asset (fr_payment_requirements request) = ZCASH_EXACT_ASSET \<and>
     is_valid_zat_amount (pq_amount (fr_payment_requirements request)) \<and>
     has_valid_recipient_prefix (pq_network (fr_payment_requirements request)) (pq_pay_to (fr_payment_requirements request)) \<and>
     (\<exists>auth_fields pczt. as_object (pp_payload (fr_payment_payload request)) = Some auth_fields \<and>
        get_str auth_fields ''format'' = Some ZCASH_EXACT_AUTHORIZATION_FORMAT \<and>
        get_str auth_fields ''pczt'' = Some pczt \<and> pczt \<noteq> [] \<and> b64_decode pczt = Ok (ps_pczt_bytes r)) \<and>
     payment_network (pq_network (fr_payment_requirements request)) = Some (ps_network r) \<and>
     parse_u64 (pq_amount (fr_payment_requirements request)) = Some (ps_amount_zat r) \<and>
     ps_pay_to r = pq_pay_to (fr_payment_requirements request)"
proof -
  let ?q = "fr_payment_requirements request" and ?a = "pp_payload (fr_payment_payload request)"
  have ex: "requirements_invalid_reason ?q = None \<Longrightarrow> has_zcash_exact_network ?q"
    by (simp add: requirements_valid_iff)
  have "settlement_request b64_decode request = Ok r \<longleftrightarrow>
      requirements_invalid_reason ?q = None \<and> authorization_invalid_reason b64_decode ?a = None \<and>
      payment_network (pq_network ?q) = Some (ps_network r) \<and> parse_u64 (pq_amount ?q) = Some (ps_amount_zat r) \<and>
      ps_pay_to r = pq_pay_to ?q \<and>
      (\<exists>auth_fields pczt. as_object ?a = Some auth_fields \<and> get_str auth_fields ''pczt'' = Some pczt \<and>
         b64_decode pczt = Ok (ps_pczt_bytes r))"
    using ex by (cases r) (auto simp: settlement_request_def request_invalid_reason_def is_zcash_exact_request_def
        split: option.splits sum.splits)
  then show ?thesis unfolding requirements_valid_iff authorization_valid_iff by auto
qed

subsection \<open>The promises of the binding\<close>

definition ex_codec :: "(PaymentRequired, string) HeaderCodec" where
  "ex_codec = \<lparr>hc_to_vec = (\<lambda>p. if pd_accepts p = [] \<and> pd_extensions p = [] \<and> pd_x402_version p = 2 \<and>
       pd_resource p = \<lparr>ri_url = ri_url (pd_resource p), ri_description = None, ri_mime_type = None,
         ri_service_name = None, ri_tags = [], ri_icon_url = None\<rparr>
       then Ok (bytes_of (ri_url (pd_resource p))) else Err ''unsupported''),
     hc_from_slice = (\<lambda>b. Ok \<lparr>pd_x402_version = 2, pd_resource = \<lparr>ri_url = map (\<lambda>w. char_of (unat w)) b,
         ri_description = None, ri_mime_type = None, ri_service_name = None, ri_tags = [], ri_icon_url = None\<rparr>,
         pd_accepts = [], pd_extensions = []\<rparr>),
     hc_b64_encode = map (\<lambda>w. char_of (unat w)), hc_b64_decode = (\<lambda>s. Ok (bytes_of s)),
     hc_header_from_str = Ok, hc_header_to_str = Ok\<rparr>"

definition ex_required :: PaymentRequired where
  "ex_required = \<lparr>pd_x402_version = 2, pd_resource = \<lparr>ri_url = ''/a'', ri_description = None, ri_mime_type = None,
     ri_service_name = None, ri_tags = [], ri_icon_url = None\<rparr>, pd_accepts = [], pd_extensions = []\<rparr>"

lemma char_byte [simp]: "char_of (unat (word_of_nat (byte_of c) :: u8)) = c"
  using byte_of_less [of c] by (simp add: unat_of_nat byte_of_def)

lemma chars_bytes_of: "map (\<lambda>w. char_of (unat w)) (bytes_of s) = s"
  by (simp add: bytes_of_def comp_def)

lemma bytes_of_chars: "bytes_of (map (\<lambda>w. char_of (unat w)) b) = b"
proof (induction b)
  case (Cons w b)
  have "unat w < 256" using unsigned_less [of w, where ?'a = nat] by simp
  then have "byte_of (char_of (unat w)) = unat w" by (simp add: byte_of_def)
  then show ?case using Cons by (simp add: bytes_of_def)
qed (simp add: bytes_of_def)

text \<open>The x402 headers round trip.  With a JSON codec that reads back what it wrote, a base64
  codec that decodes what it encoded and header values that keep their text, the decoder of an
  x402 header returns exactly the message the encoder of that header type was given, and none of the
  decoder's three error cases arises.\<close>
theorem x402_header_roundtrip:
  assumes "\<And>x j. hc_to_vec H x = Ok j \<Longrightarrow> hc_from_slice H j = Ok x"
    and "\<And>b. hc_b64_decode H (hc_b64_encode H b) = Ok b"
    and "\<And>s h. hc_header_from_str H s = Ok h \<Longrightarrow> hc_header_to_str H h = Ok s"
    and "encode_payment_required_header H body = Ok h"
  shows "decode_json_header H h = Ok body"
  by (rule decode_encode_header [OF assms(1-3) assms(4) [unfolded encode_payment_required_header_def]])

theorem x402_header_roundtrip_witness:
  "decode_json_header ex_codec ''/a'' = Ok ex_required"
proof (rule x402_header_roundtrip)
  show "hc_from_slice ex_codec j = Ok x" if "hc_to_vec ex_codec x = Ok j" for x j
    using that by (cases x) (auto simp: ex_codec_def chars_bytes_of split: if_splits)
  show "hc_b64_decode ex_codec (hc_b64_encode ex_codec b) = Ok b" for b by (simp add: ex_codec_def bytes_of_chars)
  show "hc_header_to_str ex_codec h = Ok s" if "hc_header_from_str ex_codec s = Ok h" for s h
    using that by (simp add: ex_codec_def)
  show "encode_payment_required_header ex_codec ex_required = Ok ''/a''"
    by (simp add: encode_payment_required_header_def encode_json_header_def ex_codec_def ex_required_def chars_bytes_of)
qed

text \<open>The settlement request taken from an x402 message is exactly what the message
  says.  The conversion succeeds with \<open>r\<close> if and only if the message passes the binding's own
  checks (scheme, network, asset, amount, recipient prefix, authorization format and encoding), and then
  \<open>r\<close> carries the network of the CAIP-2 identifier, the decimal value of the amount string, the recipient
  verbatim and the decoded PCZT; in particular the amount is between one zatoshi and the whole supply.\<close>
theorem settlement_request_exact:
  "settlement_request b64_decode request = Ok r \<longleftrightarrow>
     is_zcash_exact_request request \<and> request_invalid_reason b64_decode request = None \<and>
     (\<exists>d. d \<noteq> [] \<and> list_all is_digit d \<and> unat (ps_amount_zat r) = dec_val d \<and>
        (pq_amount (fr_payment_requirements request) = d \<or> pq_amount (fr_payment_requirements request) = CHR ''+'' # d)) \<and>
     1 \<le> unat (ps_amount_zat r) \<and> unat (ps_amount_zat r) \<le> 2100000000000000 \<and>
     payment_network (pq_network (fr_payment_requirements request)) = Some (ps_network r) \<and>
     ps_pay_to r = pq_pay_to (fr_payment_requirements request) \<and>
     (\<exists>auth_fields pczt. as_object (pp_payload (fr_payment_payload request)) = Some auth_fields \<and>
        get_str auth_fields ''pczt'' = Some pczt \<and> b64_decode pczt = Ok (ps_pczt_bytes r))" (is "?L \<longleftrightarrow> ?R")
proof
  assume ?L
  then have p: "parse_u64 (pq_amount (fr_payment_requirements request)) = Some (ps_amount_zat r)"
    and v: "is_valid_zat_amount (pq_amount (fr_payment_requirements request))"
    by (simp_all add: settlement_request_Ok_iff)
  have "0 < ps_amount_zat r" "ps_amount_zat r \<le> ZCASH_EXACT_MAX_ZAT" using p v by (simp_all add: is_valid_zat_amount_def)
  then have "1 \<le> unat (ps_amount_zat r)" "unat (ps_amount_zat r) \<le> 2100000000000000"
    by (simp_all add: word_less_nat_alt word_le_nat_alt ZCASH_EXACT_MAX_ZAT_def)
  moreover have "is_zcash_exact_request request \<and> request_invalid_reason b64_decode request = None"
    using \<open>?L\<close> by (auto simp: settlement_request_def split: if_splits option.splits)
  ultimately show ?R using \<open>?L\<close> parse_u64_Some [OF p] unfolding settlement_request_Ok_iff by blast
next
  assume R: ?R
  then obtain d where d: "d \<noteq> []" "list_all is_digit d" "unat (ps_amount_zat r) = dec_val d"
    "pq_amount (fr_payment_requirements request) = d \<or> pq_amount (fr_payment_requirements request) = CHR ''+'' # d" by blast
  have "parse_u64 (pq_amount (fr_payment_requirements request)) = Some (ps_amount_zat r)"
    using parse_u64_digits [OF d] .
  then show ?L using R
    by (auto simp: settlement_request_def split: sum.splits option.splits)
qed

end
