(* ===== verification/Verify.thy ===== *)
theory Verify
  imports Types
begin

text \<open>
  Verification of a ZIP-311 payment disclosure against its mined transaction
  (\<open>zpay-core/src/verify/mod.rs\<close>, \<open>disclosure_fetcher.rs\<close>).  The hex and
  disclosure codecs, the address decoder and the disclosure cryptography are external: they
  are the fields of \<open>DisclosureLib\<close> and the verifier argument.  The fetcher is the
  trait's function from the RPC-order transaction id to the mined transaction.
\<close>

subsection \<open>Messages and verdicts\<close>

record VerifyRequest =
  vr_txid :: string
  vr_expected_amount_zat :: Zatoshis
  vr_expected_pay_to :: string
  vr_expected_disclosure_message_hex :: string
  vr_disclosure_payload_hex :: string

datatype CryptographicVerdict = Valid | InvalidSignature | Malformed | Inconclusive
datatype InconclusiveReason = UnsupportedPool | UnknownVersion | PrevoutUnresolved | TransactionUnavailable
datatype ChainPresence = PresenceMined | PresenceNotFound | PresenceOracleUnavailable
datatype AmountReconciliation = AmountMatch | AmountMismatch | AmountNotChecked
datatype RecipientReconciliation = RecipientMatch | RecipientMismatch | RecipientNotChecked
datatype MessageReconciliation = MessageMatch | MessageMismatch | MessageNotChecked

record VerifyResponse =
  vs_cryptographic_verdict :: CryptographicVerdict
  vs_inconclusive_reason :: "InconclusiveReason option"
  vs_chain_presence :: ChainPresence
  vs_amount_reconciliation :: AmountReconciliation
  vs_recipient_reconciliation :: RecipientReconciliation
  vs_message_reconciliation :: MessageReconciliation
  vs_transaction_id :: "string option"
  vs_payment_id :: "string option"
  vs_disclosed_value_zat :: "u64 option"

datatype VerifyError =
    PayloadInvalid string
  | ExpectedPayToInvalid
  | ExpectedDisclosureMessageInvalid string

record DisclosedTransaction =
  dt_txid :: bytes
  dt_raw_transaction_bytes :: bytes
  dt_mined_height :: u32

datatype FetchError = FetchNotFound | FetchUnavailable string

type_synonym DisclosureFetcher = "bytes \<Rightarrow> FetchError + DisclosedTransaction"

record VerifiedOutput =
  vo_index :: u32
  vo_recipient_bytes :: bytes
  vo_amount_zat :: u64

record VerifiedPaymentDisclosure =
  vd_sapling_outputs :: "VerifiedOutput list"
  vd_ironwood_outputs :: "VerifiedOutput list"

text \<open>The error enumeration of the disclosure library, with one constructor for the variants
  the code does not name.\<close>

datatype DisclosureVerificationError =
    IronwoodSpendAuthorityInvalid | IronwoodOutputRecoveryFailed
  | SpendAuthorityInvalid | OutputRecoveryFailed
  | DisclosureTransactionMalformed | TransactionTrailingBytes | TransactionIdMismatch
  | IronwoodBundleMissing | IronwoodActionIndexOutOfBounds | SaplingBundleMissing
  | SpendIndexOutOfBounds | OutputIndexOutOfBounds | SpendCommitmentMalformed
  | RandomizedVerificationKeyMalformed | SpendProofMalformed
  | OtherVerificationError string

fun verdict :: "DisclosureVerificationError \<Rightarrow> CryptographicVerdict" where
  "verdict IronwoodSpendAuthorityInvalid = InvalidSignature"
| "verdict IronwoodOutputRecoveryFailed = InvalidSignature"
| "verdict SpendAuthorityInvalid = InvalidSignature"
| "verdict OutputRecoveryFailed = InvalidSignature"
| "verdict _ = Malformed"

type_synonym 'd DisclosureVerifier =
  "'d \<Rightarrow> DisclosedTransaction \<Rightarrow> DisclosureVerificationError + VerifiedPaymentDisclosure"

datatype CodecError = ProfileUnsupported | CodecOther string
datatype Profile = Zip311Draft1 | ZallyIronwood | OtherProfile

record ('n, 'd, 'ua) DisclosureLib =
  vl_hex_decode :: "string \<Rightarrow> string + bytes"
  vl_hex_encode :: "bytes \<Rightarrow> string"
  vl_from_bytes :: "bytes \<Rightarrow> CodecError + 'd"
  vl_profile :: "'d \<Rightarrow> Profile"
  vl_transaction_id :: "'d \<Rightarrow> bytes"
  vl_message :: "'d \<Rightarrow> bytes"
  vl_decode_unified :: "'n \<Rightarrow> string \<Rightarrow> 'ua option"
  vl_sapling :: "'ua \<Rightarrow> bytes option"
  vl_orchard :: "'ua \<Rightarrow> bytes option"

text \<open>The in-process verifier: the disclosure library's evidence is copied field by field.\<close>

definition local_verify_disclosure ::
  "('d \<Rightarrow> bytes \<Rightarrow> u32 \<Rightarrow> DisclosureVerificationError + (u32 \<times> bytes \<times> u64) list \<times> (u32 \<times> bytes \<times> u64) list)
    \<Rightarrow> 'd DisclosureVerifier" where
  "local_verify_disclosure verify_zip311 disclosure tx =
    (case verify_zip311 disclosure (dt_raw_transaction_bytes tx) (dt_mined_height tx) of
       Inl e \<Rightarrow> Err e
     | Inr (sapling, ironwood) \<Rightarrow>
       let output = (\<lambda>(i, r, a). \<lparr>vo_index = i, vo_recipient_bytes = r, vo_amount_zat = a\<rparr>)
       in Ok \<lparr>vd_sapling_outputs = map output sapling, vd_ironwood_outputs = map output ironwood\<rparr>)"

subsection \<open>Reconciliation\<close>

record PaymentReconciliation =
  rc_amount :: AmountReconciliation
  rc_recipient :: RecipientReconciliation
  rc_disclosed_value_zat :: "u64 option"

datatype ExpectedShieldedRecipient = SaplingRecipient bytes | IronwoodRecipient bytes

definition unchecked_payment_reconciliation :: PaymentReconciliation where
  "unchecked_payment_reconciliation =
     \<lparr>rc_amount = AmountNotChecked, rc_recipient = RecipientNotChecked, rc_disclosed_value_zat = None\<rparr>"

fun sum_checked :: "u64 \<Rightarrow> VerifiedOutput list \<Rightarrow> u64 option" where
  "sum_checked acc [] = Some acc"
| "sum_checked acc (out # outs) =
    (case checked_add acc (vo_amount_zat out) of None \<Rightarrow> None | Some t \<Rightarrow> sum_checked t outs)"

definition reconcile_outputs :: "VerifiedOutput list \<Rightarrow> u64 \<Rightarrow> bytes \<Rightarrow> PaymentReconciliation option" where
  "reconcile_outputs outputs expected_amount_zat expected_recipient_bytes =
    (if outputs = [] then Some unchecked_payment_reconciliation
     else case sum_checked 0 outputs of
            None \<Rightarrow> None
          | Some disclosed_value_zat \<Rightarrow>
            let recipient_matches = list_all (\<lambda>out. vo_recipient_bytes out = expected_recipient_bytes) outputs
            in Some \<lparr>rc_amount = (if disclosed_value_zat = expected_amount_zat then AmountMatch else AmountMismatch),
                     rc_recipient = (if recipient_matches then RecipientMatch else RecipientMismatch),
                     rc_disclosed_value_zat = Some disclosed_value_zat\<rparr>)"

fun compute_payment_reconciliation ::
  "VerifiedPaymentDisclosure \<Rightarrow> u64 \<Rightarrow> ExpectedShieldedRecipient \<Rightarrow> PaymentReconciliation option" where
  "compute_payment_reconciliation d expected_amount_zat (SaplingRecipient r) =
     reconcile_outputs (vd_sapling_outputs d) expected_amount_zat r"
| "compute_payment_reconciliation d expected_amount_zat (IronwoodRecipient r) =
     reconcile_outputs (vd_ironwood_outputs d) expected_amount_zat r"

definition expected_shielded_recipient ::
  "('n, 'd, 'ua) DisclosureLib \<Rightarrow> 'n \<Rightarrow> string \<Rightarrow> Profile \<Rightarrow> VerifyError + ExpectedShieldedRecipient" where
  "expected_shielded_recipient V network expected_pay_to profile =
    (case vl_decode_unified V network expected_pay_to of
       None \<Rightarrow> Err ExpectedPayToInvalid
     | Some ua \<Rightarrow>
       (case profile of
          Zip311Draft1 \<Rightarrow>
            (case vl_sapling V ua of None \<Rightarrow> Err ExpectedPayToInvalid | Some r \<Rightarrow> Ok (SaplingRecipient r))
        | ZallyIronwood \<Rightarrow>
            (case vl_orchard V ua of None \<Rightarrow> Err ExpectedPayToInvalid | Some r \<Rightarrow> Ok (IronwoodRecipient r))
        | OtherProfile \<Rightarrow> Err ExpectedPayToInvalid))"

definition rpc_transaction_id_bytes :: "bytes \<Rightarrow> bytes" where
  "rpc_transaction_id_bytes txid = rev txid"

definition request_txid_matches :: "('n, 'd, 'ua) DisclosureLib \<Rightarrow> string \<Rightarrow> bytes \<Rightarrow> bool" where
  "request_txid_matches V request_txid_hex parsed_txid =
    (let trimmed = (if prefix ''0x'' request_txid_hex \<or> prefix ''0X'' request_txid_hex
                    then drop 2 request_txid_hex else request_txid_hex)
     in case vl_hex_decode V trimmed of Inl _ \<Rightarrow> False | Inr raw \<Rightarrow> raw = parsed_txid)"

fun chain_presence_for :: "FetchError \<Rightarrow> ChainPresence" where
  "chain_presence_for FetchNotFound = PresenceNotFound"
| "chain_presence_for (FetchUnavailable _) = PresenceOracleUnavailable"

definition unreconciled ::
  "CryptographicVerdict \<Rightarrow> InconclusiveReason option \<Rightarrow> ChainPresence \<Rightarrow> string option \<Rightarrow> VerifyResponse" where
  "unreconciled cv reason presence txid =
    \<lparr>vs_cryptographic_verdict = cv, vs_inconclusive_reason = reason, vs_chain_presence = presence,
     vs_amount_reconciliation = AmountNotChecked, vs_recipient_reconciliation = RecipientNotChecked,
     vs_message_reconciliation = MessageNotChecked, vs_transaction_id = txid, vs_payment_id = None,
     vs_disclosed_value_zat = None\<rparr>"

definition short_circuit_malformed :: "string option \<Rightarrow> VerifyResponse" where
  "short_circuit_malformed txid = unreconciled Malformed None PresenceOracleUnavailable txid"

definition short_circuit_inconclusive :: "InconclusiveReason \<Rightarrow> string option \<Rightarrow> ChainPresence \<Rightarrow> VerifyResponse" where
  "short_circuit_inconclusive reason txid presence = unreconciled Inconclusive (Some reason) presence txid"

definition verification_failure_response :: "DisclosureVerificationError \<Rightarrow> string \<Rightarrow> VerifyResponse" where
  "verification_failure_response error txid = unreconciled (verdict error) None PresenceMined (Some txid)"

definition verify_fetched ::
  "('n, 'd, 'ua) DisclosureLib \<Rightarrow> 'd DisclosureVerifier \<Rightarrow> VerifyRequest \<Rightarrow> bytes \<Rightarrow> 'd
    \<Rightarrow> ExpectedShieldedRecipient \<Rightarrow> bytes \<Rightarrow> DisclosedTransaction \<Rightarrow> VerifyResponse" where
  "verify_fetched V verifier request expected_message disclosure expected_recipient rpc_txid tx =
    (let rpc_txid_hex = vl_hex_encode V rpc_txid in
     if dt_txid tx \<noteq> rpc_txid then short_circuit_malformed (Some rpc_txid_hex)
     else case verifier disclosure tx of
       Inl error \<Rightarrow> verification_failure_response error rpc_txid_hex
     | Inr authenticated \<Rightarrow>
    (case compute_payment_reconciliation authenticated (vr_expected_amount_zat request) expected_recipient of
       None \<Rightarrow> short_circuit_malformed (Some rpc_txid_hex)
     | Some reconciliation \<Rightarrow>
       \<lparr>vs_cryptographic_verdict = Valid, vs_inconclusive_reason = None, vs_chain_presence = PresenceMined,
        vs_amount_reconciliation = rc_amount reconciliation, vs_recipient_reconciliation = rc_recipient reconciliation,
        vs_message_reconciliation = (if vl_message V disclosure = expected_message then MessageMatch else MessageMismatch),
        vs_transaction_id = Some rpc_txid_hex, vs_payment_id = None,
        vs_disclosed_value_zat = rc_disclosed_value_zat reconciliation\<rparr>))"

definition verify ::
  "('n, 'd, 'ua) DisclosureLib \<Rightarrow> 'n \<Rightarrow> 'd DisclosureVerifier \<Rightarrow> DisclosureFetcher \<Rightarrow> VerifyRequest
    \<Rightarrow> VerifyError + VerifyResponse" where
  "verify V network verifier fetcher request =
    (case vl_hex_decode V (vr_expected_disclosure_message_hex request) of
       Inl reason \<Rightarrow> Err (ExpectedDisclosureMessageInvalid reason)
     | Inr expected_message \<Rightarrow>
    (case vl_hex_decode V (vr_disclosure_payload_hex request) of
       Inl reason \<Rightarrow> Err (PayloadInvalid reason)
     | Inr disclosure_bytes \<Rightarrow>
    (case vl_from_bytes V disclosure_bytes of
       Inl ProfileUnsupported \<Rightarrow> Ok (short_circuit_inconclusive UnknownVersion None PresenceOracleUnavailable)
     | Inl (CodecOther _) \<Rightarrow> Ok (short_circuit_malformed None)
     | Inr disclosure \<Rightarrow>
    (case expected_shielded_recipient V network (vr_expected_pay_to request) (vl_profile V disclosure) of
       Inl e \<Rightarrow> Err e
     | Inr expected_recipient \<Rightarrow>
       let rpc_txid = rpc_transaction_id_bytes (vl_transaction_id V disclosure);
           rpc_txid_hex = vl_hex_encode V rpc_txid in
       if \<not> request_txid_matches V (vr_txid request) rpc_txid
       then Ok (short_circuit_malformed (Some rpc_txid_hex))
       else (case fetcher rpc_txid of
               Inl error \<Rightarrow> Ok (short_circuit_inconclusive TransactionUnavailable (Some rpc_txid_hex)
                                (chain_presence_for error))
             | Inr tx \<Rightarrow> Ok (verify_fetched V verifier request expected_message disclosure expected_recipient rpc_txid tx))))))"

subsection \<open>Lemmas\<close>

lemmas unreconciled_defs = unreconciled_def short_circuit_malformed_def short_circuit_inconclusive_def
  verification_failure_response_def

lemma sum_checked_iff:
  "sum_checked t outs = Some v \<longleftrightarrow> unat v = unat t + sum_list (map (\<lambda>out. unat (vo_amount_zat out)) outs)"
proof (induction outs arbitrary: t)
  case Nil
  then show ?case by (auto simp: word_unat_eq_iff)
next
  case (Cons out outs)
  show ?case
  proof (cases "checked_add t (vo_amount_zat out)")
    case None
    then have "2 ^ 64 \<le> unat t + unat (vo_amount_zat out)" by (simp add: checked_add_None_iff)
    then have "unat v \<noteq> unat t + (unat (vo_amount_zat out) + n)" for n
      using unsigned_less [of v, where ?'a = nat] by simp
    then show ?thesis using None by simp
  next
    case (Some s)
    then show ?thesis using Cons.IH [of s] by (simp add: checked_add_unat add.assoc)
  qed
qed

lemma reconcile_full_match_iff:
  "(\<exists>r. reconcile_outputs outs amount bs = Some r \<and> rc_amount r = AmountMatch \<and> rc_recipient r = RecipientMatch) \<longleftrightarrow>
     outs \<noteq> [] \<and> (\<forall>out \<in> set outs. vo_recipient_bytes out = bs) \<and>
     sum_list (map (\<lambda>out. unat (vo_amount_zat out)) outs) = unat amount"
proof -
  have "sum_checked 0 outs = Some amount \<longleftrightarrow> sum_list (map (\<lambda>out. unat (vo_amount_zat out)) outs) = unat amount"
    using sum_checked_iff [of 0 outs amount] by auto
  then show ?thesis
    by (auto simp: reconcile_outputs_def unchecked_payment_reconciliation_def Let_def list_all_iff
        split: option.splits if_splits)
qed

definition outputs_for :: "ExpectedShieldedRecipient \<Rightarrow> VerifiedPaymentDisclosure \<Rightarrow> VerifiedOutput list" where
  "outputs_for e d = (case e of SaplingRecipient _ \<Rightarrow> vd_sapling_outputs d | IronwoodRecipient _ \<Rightarrow> vd_ironwood_outputs d)"

definition recipient_of :: "ExpectedShieldedRecipient \<Rightarrow> bytes" where
  "recipient_of e = (case e of SaplingRecipient r \<Rightarrow> r | IronwoodRecipient r \<Rightarrow> r)"

lemma compute_eq: "compute_payment_reconciliation d amount e = reconcile_outputs (outputs_for e d) amount (recipient_of e)"
  by (cases e) (simp_all add: outputs_for_def recipient_of_def)

text \<open>A response that vouches for the payment on every axis.\<close>

definition vouches :: "VerifyResponse \<Rightarrow> bool" where
  "vouches r \<longleftrightarrow> vs_cryptographic_verdict r = Valid \<and> vs_chain_presence r = PresenceMined \<and>
     vs_amount_reconciliation r = AmountMatch \<and> vs_recipient_reconciliation r = RecipientMatch \<and>
     vs_message_reconciliation r = MessageMatch"

lemma not_vouches_unreconciled [simp]: "\<not> vouches (unreconciled cv reason presence txid)"
  by (simp add: vouches_def unreconciled_def)

lemma verify_fetched_vouches:
  "vouches (verify_fetched V verifier request msg disclosure e rpc_txid tx) \<longleftrightarrow>
     dt_txid tx = rpc_txid \<and> vl_message V disclosure = msg \<and>
     (\<exists>d. verifier disclosure tx = Ok d \<and> outputs_for e d \<noteq> [] \<and>
        (\<forall>out \<in> set (outputs_for e d). vo_recipient_bytes out = recipient_of e) \<and>
        sum_list (map (\<lambda>out. unat (vo_amount_zat out)) (outputs_for e d)) = unat (vr_expected_amount_zat request))"
proof (cases "verifier disclosure tx")
  case (Inr d)
  show ?thesis
    using reconcile_full_match_iff [of "outputs_for e d" "vr_expected_amount_zat request" "recipient_of e"] Inr
    by (auto simp: verify_fetched_def compute_eq short_circuit_malformed_def vouches_def unreconciled_def Let_def
        split: option.splits)
qed (simp add: verify_fetched_def unreconciled_defs Let_def vouches_def)

text \<open>A response that only vouches for mined transactions and otherwise checks nothing.\<close>

definition closed :: "VerifyResponse \<Rightarrow> bool" where
  "closed r \<longleftrightarrow> (if vs_cryptographic_verdict r = Valid then vs_chain_presence r = PresenceMined \<and> vs_transaction_id r \<noteq> None
    else vs_amount_reconciliation r = AmountNotChecked \<and> vs_recipient_reconciliation r = RecipientNotChecked \<and>
      vs_message_reconciliation r = MessageNotChecked \<and> vs_disclosed_value_zat r = None)"

lemma closed_unreconciled: "cv \<noteq> Valid \<Longrightarrow> closed (unreconciled cv reason presence txid)"
  by (simp add: closed_def unreconciled_def)

lemma verdict_not_Valid: "verdict error \<noteq> Valid"
  by (cases error) simp_all

lemma closed_fetched: "closed (verify_fetched V verifier request msg disclosure e rpc_txid tx)"
proof -
  have "closed \<lparr>vs_cryptographic_verdict = Valid, vs_inconclusive_reason = None, vs_chain_presence = PresenceMined,
      vs_amount_reconciliation = a, vs_recipient_reconciliation = b, vs_message_reconciliation = c,
      vs_transaction_id = Some x, vs_payment_id = None, vs_disclosed_value_zat = v\<rparr>" for a b c x v
    by (simp add: closed_def)
  then show ?thesis
    by (simp add: verify_fetched_def Let_def short_circuit_malformed_def verification_failure_response_def
        closed_unreconciled verdict_not_Valid split: sum.splits option.splits)
qed

subsection \<open>The promises of verification\<close>

definition ex_lib :: "(unit, unit, unit) DisclosureLib" where
  "ex_lib = \<lparr>vl_hex_decode = (\<lambda>s. Ok (bytes_of s)), vl_hex_encode = (\<lambda>_. ''h''), vl_from_bytes = (\<lambda>_. Ok ()),
     vl_profile = (\<lambda>_. Zip311Draft1), vl_transaction_id = (\<lambda>_. bytes_of ''ba''), vl_message = (\<lambda>_. bytes_of ''m''),
     vl_decode_unified = (\<lambda>_ _. Some ()), vl_sapling = (\<lambda>_. Some [7]), vl_orchard = (\<lambda>_. None)\<rparr>"

definition ex_fetcher :: DisclosureFetcher where
  "ex_fetcher txid = Ok \<lparr>dt_txid = txid, dt_raw_transaction_bytes = [], dt_mined_height = 1\<rparr>"

definition ex_verifier :: "unit DisclosureVerifier" where
  "ex_verifier = local_verify_disclosure (\<lambda>_ _ _. Ok ([(0, [7], 3), (1, [7], 4)], []))"

definition ex_verify_request :: VerifyRequest where
  "ex_verify_request = \<lparr>vr_txid = ''0xab'', vr_expected_amount_zat = 7, vr_expected_pay_to = ''u1'',
     vr_expected_disclosure_message_hex = ''m'', vr_disclosure_payload_hex = ''p''\<rparr>"

text \<open>[C34] A disclosure is vouched for exactly when it proves the payment.  The answer of
  \<open>verify\<close> is valid, mined and matching in amount, recipient and message if and only if both
  hex fields decode, the disclosure parses, the expected recipient has the receiver of the
  disclosure's profile, the request names the disclosed transaction, the chain returns that very transaction
  as mined, the disclosure cryptography accepts it, it discloses at least one output of that pool, every
  disclosed output of the pool pays the expected receiver, their exact sum (not the 64-bit sum) is the
  expected amount, and the authenticated message is the expected one.\<close>
theorem verify_vouches_iff:
  "(\<exists>r. verify V network verifier fetcher request = Ok r \<and> vouches r) \<longleftrightarrow>
     (\<exists>msg raw disclosure e tx d.
        vl_hex_decode V (vr_expected_disclosure_message_hex request) = Ok msg \<and>
        vl_hex_decode V (vr_disclosure_payload_hex request) = Ok raw \<and>
        vl_from_bytes V raw = Ok disclosure \<and>
        expected_shielded_recipient V network (vr_expected_pay_to request) (vl_profile V disclosure) = Ok e \<and>
        request_txid_matches V (vr_txid request) (rev (vl_transaction_id V disclosure)) \<and>
        fetcher (rev (vl_transaction_id V disclosure)) = Ok tx \<and> dt_txid tx = rev (vl_transaction_id V disclosure) \<and>
        verifier disclosure tx = Ok d \<and> outputs_for e d \<noteq> [] \<and>
        (\<forall>out \<in> set (outputs_for e d). vo_recipient_bytes out = recipient_of e) \<and>
        sum_list (map (\<lambda>out. unat (vo_amount_zat out)) (outputs_for e d)) = unat (vr_expected_amount_zat request) \<and>
        vl_message V disclosure = msg)"
  unfolding verify_def
  by (auto simp: Let_def rpc_transaction_id_bytes_def verify_fetched_vouches short_circuit_malformed_def short_circuit_inconclusive_def
      split: sum.splits CodecError.splits)

theorem verify_vouches_iff_witness:
  "\<exists>r. verify ex_lib () ex_verifier ex_fetcher ex_verify_request = Ok r \<and> vouches r"
proof (subst verify_vouches_iff, intro exI conjI)
  show "vl_hex_decode ex_lib (vr_expected_disclosure_message_hex ex_verify_request) = Ok (bytes_of ''m'')"
    by (simp add: ex_lib_def ex_verify_request_def)
  show "vl_hex_decode ex_lib (vr_disclosure_payload_hex ex_verify_request) = Ok (bytes_of ''p'')"
    by (simp add: ex_lib_def ex_verify_request_def)
  show "vl_from_bytes ex_lib (bytes_of ''p'') = Ok ()" by (simp add: ex_lib_def)
  show "expected_shielded_recipient ex_lib () (vr_expected_pay_to ex_verify_request) (vl_profile ex_lib ()) = Ok (SaplingRecipient [7])"
    by (simp add: ex_lib_def expected_shielded_recipient_def)
  show "request_txid_matches ex_lib (vr_txid ex_verify_request) (rev (vl_transaction_id ex_lib ()))"
    by (simp add: ex_lib_def ex_verify_request_def request_txid_matches_def bytes_of_def)
  show "ex_fetcher (rev (vl_transaction_id ex_lib ())) =
      Ok \<lparr>dt_txid = rev (vl_transaction_id ex_lib ()), dt_raw_transaction_bytes = [], dt_mined_height = 1\<rparr>"
    by (simp add: ex_fetcher_def)
  show "ex_verifier () \<lparr>dt_txid = rev (vl_transaction_id ex_lib ()), dt_raw_transaction_bytes = [], dt_mined_height = 1\<rparr> =
      Ok \<lparr>vd_sapling_outputs = [\<lparr>vo_index = 0, vo_recipient_bytes = [7], vo_amount_zat = 3\<rparr>,
        \<lparr>vo_index = 1, vo_recipient_bytes = [7], vo_amount_zat = 4\<rparr>], vd_ironwood_outputs = []\<rparr>"
    by (simp add: ex_verifier_def local_verify_disclosure_def)
qed (simp_all add: ex_verifier_def local_verify_disclosure_def outputs_for_def recipient_of_def ex_lib_def ex_verify_request_def)

text \<open>Verification fails closed.  An answer whose cryptographic verdict is not
  \<open>Valid\<close> (the disclosure did not verify, was malformed, or the transaction could not be
  fetched) checks nothing: it reports no amount, recipient or message verdict and no disclosed value, so no
  reader can take a partial match from it; and a valid verdict is only given to a transaction the chain
  returned as mined.\<close>
theorem verify_fails_closed:
  assumes "verify V network verifier fetcher request = Ok r"
  shows "if vs_cryptographic_verdict r = Valid then vs_chain_presence r = PresenceMined \<and> vs_transaction_id r \<noteq> None
    else vs_amount_reconciliation r = AmountNotChecked \<and> vs_recipient_reconciliation r = RecipientNotChecked \<and>
      vs_message_reconciliation r = MessageNotChecked \<and> vs_disclosed_value_zat r = None"
proof -
  have "closed r" using assms unfolding verify_def short_circuit_malformed_def short_circuit_inconclusive_def Let_def
    by (auto simp: closed_fetched closed_unreconciled split: sum.splits CodecError.splits if_splits)
  then show ?thesis unfolding closed_def .
qed

theorem verify_fails_closed_witness:
  "\<exists>r. verify ex_lib () ex_verifier (\<lambda>_. Err FetchNotFound) ex_verify_request = Ok r \<and> vs_disclosed_value_zat r = None"
proof -
  have v: "verify ex_lib () ex_verifier (\<lambda>_. Err FetchNotFound) ex_verify_request =
      Ok (short_circuit_inconclusive TransactionUnavailable (Some ''h'') PresenceNotFound)"
    by (simp add: verify_def ex_lib_def ex_verify_request_def expected_shielded_recipient_def request_txid_matches_def
        rpc_transaction_id_bytes_def bytes_of_def)
  show ?thesis using verify_fails_closed [OF v] v by (simp add: unreconciled_defs)
qed

end
