(* ===== verification/Dpop.thy ===== *)
theory Dpop
  imports Prelude
begin

text \<open>
  DPoP proof verification: the shared primitives of \<open>zpay-dpop/src/lib.rs\<close> and the
  facilitator's verifier of \<open>zpay-x402/src/dpop.rs\<close> with its replay store.

  The JWT, base64, JSON, SHA-256 and URL libraries are external: they are the fields of the
  record \<open>DpopLib\<close>.  The monotonic clock is an integer of nanoseconds; the earliest instant
  the platform can represent is the parameter \<open>floor\<close>, on which \<open>Instant::checked_sub\<close>
  depends.  The wall clock is the \<open>i64\<close> of epoch seconds.  The contract of a replay store is
  the locale \<open>replay_store\<close>; the in-memory store is its interpretation \<open>mem_replay\<close>.
\<close>

subsection \<open>External libraries\<close>

datatype Algorithm = ES256 | EdDSA | OtherAlgorithm string

fun algorithm_debug :: "Algorithm \<Rightarrow> string" where
  "algorithm_debug ES256 = ''ES256''"
| "algorithm_debug EdDSA = ''EdDSA''"
| "algorithm_debug (OtherAlgorithm s) = s"

datatype Curve = P256 | OtherCurve string

datatype AlgorithmParameters =
    OctetKeyPair
  | EllipticCurve (ec_curve: Curve) (ec_x: string) (ec_y: string)
  | RSAKey
  | OctetKey

record Jwk =
  jwk_kid :: "string option"
  jwk_params :: AlgorithmParameters

record JwtHeader =
  jh_alg :: Algorithm
  jh_typ :: "string option"
  jh_kid :: "string option"
  jh_jwk :: "Jwk option"

record 'json ProofHeader =
  ph_typ :: "string option"
  ph_alg :: string
  ph_jwk :: 'json

record EcJwk =
  ej_kty :: string
  ej_crv :: string
  ej_x :: string
  ej_y :: string

record ProofClaims =
  pc_htm :: string
  pc_htu :: string
  pc_jti :: string
  pc_iat :: i64

record ('json, 'key, 'url) DpopLib =
  dl_decode_header :: "string \<Rightarrow> string + JwtHeader"
  dl_b64_decode :: "string \<Rightarrow> string + bytes"
  dl_b64_encode :: "bytes \<Rightarrow> string"
  dl_sha256 :: "bytes \<Rightarrow> bytes"
  dl_header_from_slice :: "bytes \<Rightarrow> string + 'json ProofHeader"
  dl_jwk_from_value :: "'json \<Rightarrow> string + EcJwk"
  dl_claims_from_slice :: "bytes \<Rightarrow> string + ProofClaims"
  dl_from_ec_components :: "string \<Rightarrow> string \<Rightarrow> string + 'key"
  dl_decode_es256 :: "string \<Rightarrow> 'key \<Rightarrow> string + ProofClaims"
  dl_url_parse :: "string \<Rightarrow> string + 'url"
  dl_url_scheme :: "'url \<Rightarrow> string"
  dl_url_without_query :: "'url \<Rightarrow> 'url"
  dl_url_without_fragment :: "'url \<Rightarrow> 'url"
  dl_url_to_string :: "'url \<Rightarrow> string"

subsection \<open>Shared primitives\<close>

datatype CanonicalUrlError = UrlParse string | SchemeUnsupported string

fun canonical_url_error_text :: "CanonicalUrlError \<Rightarrow> string" where
  "canonical_url_error_text (UrlParse reason) = ''url parse failed: '' @ reason"
| "canonical_url_error_text (SchemeUnsupported scheme) = ''url scheme must be http or https, got '' @ scheme"

definition compute_ec_jwk_thumbprint ::
  "('json, 'key, 'url) DpopLib \<Rightarrow> string \<Rightarrow> string \<Rightarrow> string \<Rightarrow> string \<Rightarrow> string" where
  "compute_ec_jwk_thumbprint L crv kty x y =
     dl_b64_encode L (dl_sha256 L (bytes_of
       (''{\"crv\":\"'' @ crv @ ''\",\"kty\":\"'' @ kty @ ''\",\"x\":\"'' @ x @ ''\",\"y\":\"'' @ y @ ''\"}'')))"

definition canonicalize_http_url ::
  "('json, 'key, 'url) DpopLib \<Rightarrow> string \<Rightarrow> CanonicalUrlError + string" where
  "canonicalize_http_url L raw =
    (case dl_url_parse L raw of
       Inl reason \<Rightarrow> Err (UrlParse reason)
     | Inr parsed \<Rightarrow>
       let scheme = dl_url_scheme L parsed in
       if scheme \<noteq> ''http'' \<and> scheme \<noteq> ''https'' then Err (SchemeUnsupported scheme)
       else Ok (dl_url_to_string L (dl_url_without_fragment L (dl_url_without_query L parsed))))"

subsection \<open>The replay store\<close>

definition CLOCK_SKEW_SECONDS :: u64 where "CLOCK_SKEW_SECONDS = 60"
definition REPLAY_WINDOW_SECONDS :: nat where "REPLAY_WINDOW_SECONDS = 300"
definition MAX_JTI_LEN :: nat where "MAX_JTI_LEN = 128"

definition from_secs :: "nat \<Rightarrow> int" where "from_secs s = 1000000000 * int s"

datatype ReplayOutcome = Fresh | Already

type_synonym 's observe_fn = "int \<Rightarrow> string \<Rightarrow> string \<Rightarrow> int \<Rightarrow> 's \<Rightarrow> ReplayOutcome \<times> 's"

record InMemoryReplayStore =
  rp_inner :: "(string \<times> string, int) hashmap"

definition replay_store_new :: InMemoryReplayStore where
  "replay_store_new = \<lparr>rp_inner = []\<rparr>"

definition instant_checked_sub :: "int \<Rightarrow> int \<Rightarrow> int \<Rightarrow> int option" where
  "instant_checked_sub floor now ttl = (if floor \<le> now - ttl then Some (now - ttl) else None)"

definition replay_observe :: "int \<Rightarrow> InMemoryReplayStore observe_fn" where
  "replay_observe floor now jkt jti ttl s =
    (let cutoff = (case instant_checked_sub floor now ttl of Some c \<Rightarrow> c | None \<Rightarrow> now);
         guard = hm_retain (\<lambda>_ seen_at. seen_at > cutoff) (rp_inner s);
         key = (jkt, jti)
     in if hm_get guard key \<noteq> None then (Already, s\<lparr>rp_inner := guard\<rparr>)
        else (Fresh, s\<lparr>rp_inner := hm_insert key now guard\<rparr>))"

subsection \<open>The verifier\<close>

datatype DpopError = Missing | InvalidProof string | ClockSkew u64 | Replay

definition from_canonical_url_error :: "CanonicalUrlError \<Rightarrow> DpopError" where
  "from_canonical_url_error e = InvalidProof (canonical_url_error_text e)"

record VerifiedDpopProof = vd_jkt :: string

record DpopExpectations =
  de_expected_scheme :: string
  de_expected_host :: "string option"

definition unbound_expectations :: "string \<Rightarrow> DpopExpectations" where
  "unbound_expectations scheme = \<lparr>de_expected_scheme = scheme, de_expected_host = None\<rparr>"

definition pinned_expectations :: "string \<Rightarrow> string \<Rightarrow> DpopExpectations" where
  "pinned_expectations scheme host = \<lparr>de_expected_scheme = scheme, de_expected_host = Some host\<rparr>"

definition i64_saturating_sub :: "i64 \<Rightarrow> i64 \<Rightarrow> i64" where
  "i64_saturating_sub a b = max i64_min (min i64_max (a - b))"

definition unsigned_abs :: "i64 \<Rightarrow> u64" where "unsigned_abs x = word_of_int \<bar>x\<bar>"

definition abs_drift_seconds :: "i64 \<Rightarrow> i64 \<Rightarrow> u64" where
  "abs_drift_seconds iat_claim now_secs =
    (let drift = unsigned_abs (i64_saturating_sub iat_claim now_secs);
         other = unsigned_abs (i64_saturating_sub now_secs iat_claim)
     in max drift other)"

fun split_on :: "char \<Rightarrow> string \<Rightarrow> string list" where
  "split_on c [] = [[]]"
| "split_on c (x # xs) = (if x = c then [] # split_on c xs
     else (case split_on c xs of [] \<Rightarrow> [[x]] | p # ps \<Rightarrow> (x # p) # ps))"

definition nth_part :: "string list \<Rightarrow> nat \<Rightarrow> string" where
  "nth_part ps n = (if n < length ps then ps ! n else [])"

definition decode_unverified_header ::
  "('json, 'key, 'url) DpopLib \<Rightarrow> string \<Rightarrow> string + 'json ProofHeader" where
  "decode_unverified_header L proof =
    (case dl_b64_decode L (nth_part (split_on CHR ''.'' proof) 0) of
       Inl e \<Rightarrow> Err e | Inr header_bytes \<Rightarrow> dl_header_from_slice L header_bytes)"

definition decode_unverified_claims :: "('json, 'key, 'url) DpopLib \<Rightarrow> string \<Rightarrow> string + ProofClaims" where
  "decode_unverified_claims L proof =
    (case dl_b64_decode L (nth_part (split_on CHR ''.'' proof) 1) of
       Inl e \<Rightarrow> Err e | Inr claims_bytes \<Rightarrow> dl_claims_from_slice L claims_bytes)"

definition decoding_key_from_ec_jwk ::
  "('json, 'key, 'url) DpopLib \<Rightarrow> string \<Rightarrow> string \<Rightarrow> DpopError + 'key" where
  "decoding_key_from_ec_jwk L x_b64 y_b64 =
    (case dl_from_ec_components L x_b64 y_b64 of
       Inl err \<Rightarrow> Err (InvalidProof (''jwk components rejected: '' @ err)) | Inr k \<Rightarrow> Ok k)"

text \<open>The checks that only read the proof, up to the \<open>(jkt, jti)\<close> pair.\<close>

definition check_proof_header :: "('json, 'key, 'url) DpopLib \<Rightarrow> string \<Rightarrow> DpopError + EcJwk" where
  "check_proof_header L proof =
    (if trim proof = [] then Err Missing else
     case dl_decode_header L proof of
       Inl err \<Rightarrow> Err (InvalidProof (''header decode failed: '' @ err))
     | Inr header \<Rightarrow>
     if jh_alg header \<noteq> ES256
     then Err (InvalidProof (''alg must be ES256, got '' @ algorithm_debug (jh_alg header))) else
     case decode_unverified_header L proof of
       Inl err \<Rightarrow> Err (InvalidProof (''custom header decode failed: '' @ err))
     | Inr proof_header \<Rightarrow>
     if ph_typ proof_header \<noteq> Some ''dpop+jwt'' then Err (InvalidProof ''typ must be dpop+jwt'')
     else if ph_alg proof_header \<noteq> ''ES256''
     then Err (InvalidProof (''alg must be ES256, got '' @ ph_alg proof_header)) else
     case dl_jwk_from_value L (ph_jwk proof_header) of
       Inl err \<Rightarrow> Err (InvalidProof (''jwk parse failed: '' @ err))
     | Inr ec_jwk \<Rightarrow>
     if ej_kty ec_jwk \<noteq> ''EC'' then Err (InvalidProof (''jwk.kty must be EC, got '' @ ej_kty ec_jwk))
     else if ej_crv ec_jwk \<noteq> ''P-256''
     then Err (InvalidProof (''jwk.crv must be P-256, got '' @ ej_crv ec_jwk))
     else Ok ec_jwk)"

definition parse_proof ::
  "('json, 'key, 'url) DpopLib \<Rightarrow> string \<Rightarrow> DpopError + (EcJwk \<times> ProofClaims \<times> string \<times> string)" where
  "parse_proof L proof =
    (case check_proof_header L proof of
       Inl e \<Rightarrow> Err e
     | Inr ec_jwk \<Rightarrow>
     case decode_unverified_claims L proof of
       Inl err \<Rightarrow> Err (InvalidProof (''claims decode failed: '' @ err))
     | Inr claims \<Rightarrow>
       let jti = trim (pc_jti claims) in
       if jti = [] then Err (InvalidProof ''jti must be non-empty'')
       else if length jti > MAX_JTI_LEN
       then Err (InvalidProof (''jti exceeds '' @ dec_str MAX_JTI_LEN @ ''-byte cap''))
       else Ok (ec_jwk, claims, compute_ec_jwk_thumbprint L (ej_crv ec_jwk) (ej_kty ec_jwk) (ej_x ec_jwk) (ej_y ec_jwk), jti))"

text \<open>The checks after the pair has been burned.\<close>

definition check_htu ::
  "('json, 'key, 'url) DpopLib \<Rightarrow> string \<Rightarrow> string \<Rightarrow> DpopError + unit" where
  "check_htu L url htu =
    (case canonicalize_http_url L url of
       Inl e \<Rightarrow> Err (from_canonical_url_error e)
     | Inr want \<Rightarrow>
     case canonicalize_http_url L htu of
       Inl e \<Rightarrow> Err (from_canonical_url_error e)
     | Inr got \<Rightarrow>
     if want \<noteq> got then Err (InvalidProof (''htu mismatch: expected '' @ want @ '', got '' @ got))
     else Ok ())"

definition check_signature ::
  "('json, 'key, 'url) DpopLib \<Rightarrow> EcJwk \<Rightarrow> string \<Rightarrow> DpopError + unit" where
  "check_signature L ec_jwk proof =
    (case decoding_key_from_ec_jwk L (ej_x ec_jwk) (ej_y ec_jwk) of
       Inl e \<Rightarrow> Err e
     | Inr decoding_key \<Rightarrow>
     case dl_decode_es256 L proof decoding_key of
       Inl err \<Rightarrow> Err (InvalidProof (''signature verification failed: '' @ err))
     | Inr _ \<Rightarrow> Ok ())"

definition check_bindings ::
  "('json, 'key, 'url) DpopLib \<Rightarrow> i64 \<Rightarrow> string \<Rightarrow> string \<Rightarrow> string \<Rightarrow> EcJwk \<Rightarrow> ProofClaims \<Rightarrow> DpopError + unit" where
  "check_bindings L wall http_method url proof ec_jwk claims =
    (if http_method \<noteq> pc_htm claims
     then Err (InvalidProof (''htm mismatch: expected '' @ http_method @ '', got '' @ pc_htm claims)) else
     case check_htu L url (pc_htu claims) of
       Inl e \<Rightarrow> Err e
     | Inr _ \<Rightarrow>
       let drift = abs_drift_seconds (pc_iat claims) wall in
       if drift > CLOCK_SKEW_SECONDS then Err (ClockSkew drift)
       else check_signature L ec_jwk proof)"

definition verify_dpop_proof ::
  "('json, 'key, 'url) DpopLib \<Rightarrow> 's observe_fn \<Rightarrow> int \<Rightarrow> i64 \<Rightarrow> string \<Rightarrow> string \<Rightarrow> string \<Rightarrow> 's
    \<Rightarrow> (DpopError + VerifiedDpopProof) \<times> 's" where
  "verify_dpop_proof L observe now wall http_method url proof s =
    (case parse_proof L proof of
       Inl e \<Rightarrow> (Err e, s)
     | Inr (ec_jwk, claims, jkt, jti) \<Rightarrow>
     (case observe now jkt jti (from_secs REPLAY_WINDOW_SECONDS) s of
        (Already, s') \<Rightarrow> (Err Replay, s')
      | (Fresh, s') \<Rightarrow>
        (case check_bindings L wall http_method url proof ec_jwk claims of
           Inl e \<Rightarrow> (Err e, s')
         | Inr _ \<Rightarrow> (Ok \<lparr>vd_jkt = jkt\<rparr>, s'))))"

subsection \<open>What a replay store promises\<close>

text \<open>\<open>held later s key\<close>: the pair is recorded and still inside the window \<open>ttl\<close> at
  \<open>later\<close>.  \<open>usable now ttl\<close> says that the clock can express the start of the window.\<close>

locale replay_store =
  fixes observe :: "'s observe_fn"
    and usable :: "int \<Rightarrow> int \<Rightarrow> bool"
    and inv :: "'s \<Rightarrow> bool"
    and held :: "int \<Rightarrow> int \<Rightarrow> 's \<Rightarrow> string \<times> string \<Rightarrow> bool"
  assumes observe_inv: "inv s \<Longrightarrow> inv (snd (observe now jkt jti ttl s))"
    and observe_outcome: "inv s \<Longrightarrow> usable now ttl \<Longrightarrow>
      fst (observe now jkt jti ttl s) = Already \<longleftrightarrow> held now ttl s (jkt, jti)"
    and observe_records: "inv s \<Longrightarrow> fst (observe now jkt jti ttl s) = Fresh \<Longrightarrow> later < now + ttl \<Longrightarrow>
      held later ttl (snd (observe now jkt jti ttl s)) (jkt, jti)"
    and observe_keeps: "inv s \<Longrightarrow> usable now ttl \<Longrightarrow> held later ttl s key \<Longrightarrow> now \<le> later \<Longrightarrow>
      held later ttl (snd (observe now jkt jti ttl s)) key"

definition replay_usable :: "int \<Rightarrow> int \<Rightarrow> int \<Rightarrow> bool" where
  "replay_usable floor now ttl \<longleftrightarrow> floor + ttl \<le> now"

definition replay_held :: "int \<Rightarrow> int \<Rightarrow> InMemoryReplayStore \<Rightarrow> string \<times> string \<Rightarrow> bool" where
  "replay_held later ttl s key \<longleftrightarrow> (case hm_get (rp_inner s) key of None \<Rightarrow> False | Some t \<Rightarrow> later < t + ttl)"

definition replay_wf :: "InMemoryReplayStore \<Rightarrow> bool" where
  "replay_wf s \<longleftrightarrow> hm_wf (rp_inner s)"

interpretation mem_replay: replay_store "replay_observe floor" "replay_usable floor" replay_wf replay_held
  for floor
proof
  fix s now jkt jti ttl later key
  show "replay_wf s \<Longrightarrow> replay_wf (snd (replay_observe floor now jkt jti ttl s))"
    by (simp add: replay_wf_def replay_observe_def Let_def)
  show "replay_wf s \<Longrightarrow> replay_usable floor now ttl \<Longrightarrow>
      fst (replay_observe floor now jkt jti ttl s) = Already \<longleftrightarrow> replay_held now ttl s (jkt, jti)"
    by (auto simp: replay_wf_def replay_observe_def replay_usable_def replay_held_def Let_def
        instant_checked_sub_def hm_simps split: option.splits)
  show "replay_wf s \<Longrightarrow> fst (replay_observe floor now jkt jti ttl s) = Fresh \<Longrightarrow> later < now + ttl \<Longrightarrow>
      replay_held later ttl (snd (replay_observe floor now jkt jti ttl s)) (jkt, jti)"
    by (auto simp: replay_observe_def replay_held_def Let_def hm_simps split: if_splits)
  show "replay_wf s \<Longrightarrow> replay_usable floor now ttl \<Longrightarrow> replay_held later ttl s key \<Longrightarrow> now \<le> later \<Longrightarrow>
      replay_held later ttl (snd (replay_observe floor now jkt jti ttl s)) key"
    by (auto simp: replay_wf_def replay_observe_def replay_usable_def replay_held_def Let_def
        instant_checked_sub_def hm_simps split: option.splits if_splits)
qed

subsection \<open>Sequences of verifications\<close>

record DpopAttempt =
  da_now :: int
  da_wall :: i64
  da_method :: string
  da_url :: string
  da_proof :: string

definition attempt_dpop ::
  "('json, 'key, 'url) DpopLib \<Rightarrow> 's observe_fn \<Rightarrow> DpopAttempt \<Rightarrow> 's \<Rightarrow> (DpopError + VerifiedDpopProof) \<times> 's" where
  "attempt_dpop L observe a s =
     verify_dpop_proof L observe (da_now a) (da_wall a) (da_method a) (da_url a) (da_proof a) s"

fun after_attempts ::
  "('json, 'key, 'url) DpopLib \<Rightarrow> 's observe_fn \<Rightarrow> DpopAttempt list \<Rightarrow> 's \<Rightarrow> 's" where
  "after_attempts L observe [] s = s"
| "after_attempts L observe (a # as) s = after_attempts L observe as (snd (attempt_dpop L observe a s))"

definition pair_of :: "('json, 'key, 'url) DpopLib \<Rightarrow> string \<Rightarrow> (string \<times> string) option" where
  "pair_of L proof = (case parse_proof L proof of Inl _ \<Rightarrow> None | Inr (_, _, jkt, jti) \<Rightarrow> Some (jkt, jti))"

abbreviation REPLAY_TTL :: int where "REPLAY_TTL \<equiv> from_secs REPLAY_WINDOW_SECONDS"

lemma attempt_state:
  "snd (attempt_dpop L observe a s) = (case pair_of L (da_proof a) of None \<Rightarrow> s
     | Some (jkt, jti) \<Rightarrow> snd (observe (da_now a) jkt jti REPLAY_TTL s))"
  by (auto simp: attempt_dpop_def verify_dpop_proof_def pair_of_def split: sum.splits prod.splits ReplayOutcome.splits)

lemma attempt_Already:
  "pair_of L (da_proof a) = Some (jkt, jti) \<Longrightarrow> fst (observe (da_now a) jkt jti REPLAY_TTL s) = Already \<Longrightarrow>
     fst (attempt_dpop L observe a s) = Err Replay"
  by (auto simp: attempt_dpop_def verify_dpop_proof_def pair_of_def split: sum.splits prod.splits)

lemma attempt_Ok:
  "fst (attempt_dpop L observe a s) = Ok v \<longleftrightarrow> (\<exists>ec claims jkt jti.
     parse_proof L (da_proof a) = Ok (ec, claims, jkt, jti) \<and> fst (observe (da_now a) jkt jti REPLAY_TTL s) = Fresh \<and>
     check_bindings L (da_wall a) (da_method a) (da_url a) (da_proof a) ec claims = Ok () \<and> v = \<lparr>vd_jkt = jkt\<rparr>)"
  by (auto simp: attempt_dpop_def verify_dpop_proof_def split: sum.splits prod.splits ReplayOutcome.splits)

context replay_store
begin

lemma attempt_inv: "inv s \<Longrightarrow> inv (snd (attempt_dpop L observe a s))"
  by (auto simp: attempt_state observe_inv split: option.splits prod.splits)

lemma attempt_keeps:
  "inv s \<Longrightarrow> usable (da_now a) REPLAY_TTL \<Longrightarrow> held later REPLAY_TTL s key \<Longrightarrow> da_now a \<le> later \<Longrightarrow>
     held later REPLAY_TTL (snd (attempt_dpop L observe a s)) key"
  by (auto simp: attempt_state observe_keeps split: option.splits prod.splits)

lemma attempt_burns:
  assumes "inv s" "usable (da_now a) REPLAY_TTL" "pair_of L (da_proof a) = Some key" "da_now a \<le> later"
    and "fst (attempt_dpop L observe a s) \<noteq> Err Replay" "later < da_now a + REPLAY_TTL"
  shows "held later REPLAY_TTL (snd (attempt_dpop L observe a s)) key"
proof -
  obtain jkt jti where key: "key = (jkt, jti)" by (cases key)
  then have "fst (observe (da_now a) jkt jti REPLAY_TTL s) = Fresh"
    using attempt_Already [of L a jkt jti observe s] assms(3,5)
    by (cases "fst (observe (da_now a) jkt jti REPLAY_TTL s)") auto
  then show ?thesis using observe_records [OF assms(1) _ assms(6)] assms(3)
    by (simp add: attempt_state key)
qed

lemma run_inv: "inv s \<Longrightarrow> inv (after_attempts L observe as s)"
  by (induction as arbitrary: s) (simp_all add: attempt_inv)

lemma run_keeps:
  "inv s \<Longrightarrow> \<forall>a \<in> set as. usable (da_now a) REPLAY_TTL \<and> da_now a \<le> later \<Longrightarrow> held later REPLAY_TTL s key \<Longrightarrow>
     held later REPLAY_TTL (after_attempts L observe as s) key"
  by (induction as arbitrary: s) (simp_all add: attempt_inv attempt_keeps)

lemma burned_pair_replayed:
  assumes "inv s" "\<forall>x \<in> set (a # as @ [b]). usable (da_now x) REPLAY_TTL \<and> da_now x \<le> da_now b"
    and "pair_of L (da_proof a) = Some key" "pair_of L (da_proof b) = Some key"
    and "fst (attempt_dpop L observe a s) \<noteq> Err Replay" "da_now b < da_now a + REPLAY_TTL"
  shows "fst (attempt_dpop L observe b (after_attempts L observe (a # as) s)) = Err Replay"
proof -
  obtain jkt jti where key: "key = (jkt, jti)" by (cases key)
  let ?s = "after_attempts L observe (a # as) s"
  have i: "inv ?s" by (rule run_inv [OF assms(1)])
  have "held (da_now b) REPLAY_TTL (snd (attempt_dpop L observe a s)) key"
    using attempt_burns [OF assms(1) _ assms(3) _ assms(5,6)] assms(2) by simp
  then have "held (da_now b) REPLAY_TTL ?s key"
    using run_keeps [OF attempt_inv [OF assms(1)], of as "da_now b" L a key L] assms(2) by simp
  then have "fst (observe (da_now b) jkt jti REPLAY_TTL ?s) = Already"
    using observe_outcome [OF i, of "da_now b" REPLAY_TTL jkt jti] assms(2) unfolding key by simp
  then show ?thesis by (rule attempt_Already [OF assms(4) [unfolded key]])
qed

end

subsection \<open>Clock drift\<close>

lemma uint_unsigned_abs: "\<bar>x\<bar> < 2 ^ 64 \<Longrightarrow> uint (unsigned_abs x) = \<bar>x\<bar>"
  by (simp add: unsigned_abs_def uint_word_of_int)

lemma abs_drift_exact:
  "uint (abs_drift_seconds a b) = min \<bar>a - b\<bar> (2 ^ 63)"
proof -
  have "uint (unsigned_abs (i64_saturating_sub a b)) = \<bar>i64_saturating_sub a b\<bar>"
    and "uint (unsigned_abs (i64_saturating_sub b a)) = \<bar>i64_saturating_sub b a\<bar>"
    by (rule uint_unsigned_abs; simp add: i64_saturating_sub_def i64_min_def i64_max_def)+
  then have "uint (abs_drift_seconds a b) = max \<bar>i64_saturating_sub a b\<bar> \<bar>i64_saturating_sub b a\<bar>"
    by (simp add: abs_drift_seconds_def Let_def max_def word_le_def)
  moreover consider "a - b \<le> - (2 ^ 63)" | "- (2 ^ 63) < a - b" "a - b < 2 ^ 63" | "2 ^ 63 \<le> a - b" by linarith
  then have "max \<bar>i64_saturating_sub a b\<bar> \<bar>i64_saturating_sub b a\<bar> = min \<bar>a - b\<bar> (2 ^ 63)"
    by cases (simp_all add: i64_saturating_sub_def i64_min_def i64_max_def)
  ultimately show ?thesis by simp
qed

lemma abs_drift_le: "abs_drift_seconds a b \<le> 60 \<longleftrightarrow> \<bar>a - b\<bar> \<le> 60"
proof -
  have "abs_drift_seconds a b \<le> 60 \<longleftrightarrow> uint (abs_drift_seconds a b) \<le> 60" by (simp add: word_le_def)
  then show ?thesis unfolding abs_drift_exact by (simp add: min_def)
qed

lemma check_bindings_Ok:
  "check_bindings L wall m url proof ec claims = Ok () \<longleftrightarrow>
     m = pc_htm claims \<and>
     (\<exists>u. canonicalize_http_url L url = Ok u \<and> canonicalize_http_url L (pc_htu claims) = Ok u) \<and>
     \<bar>pc_iat claims - wall\<bar> \<le> 60 \<and>
     (\<exists>k signed_claims. dl_from_ec_components L (ej_x ec) (ej_y ec) = Ok k \<and> dl_decode_es256 L proof k = Ok signed_claims)"
  by (auto simp: check_bindings_def check_htu_def check_signature_def decoding_key_from_ec_jwk_def
      CLOCK_SKEW_SECONDS_def Let_def not_less result_iffs abs_drift_le split: sum.splits if_splits)

lemma parse_proof_Ok:
  "parse_proof L proof = Ok (ec, claims, jkt, jti) \<longleftrightarrow>
     check_proof_header L proof = Ok ec \<and> decode_unverified_claims L proof = Ok claims \<and>
     jti = trim (pc_jti claims) \<and> jti \<noteq> [] \<and> length jti \<le> 128 \<and>
     jkt = compute_ec_jwk_thumbprint L (ej_crv ec) (ej_kty ec) (ej_x ec) (ej_y ec)"
  by (auto simp: parse_proof_def Let_def MAX_JTI_LEN_def not_less split: sum.splits if_splits)

lemma check_proof_header_Ok:
  "check_proof_header L proof = Ok ec \<Longrightarrow> trim proof \<noteq> [] \<and> ej_kty ec = ''EC'' \<and> ej_crv ec = ''P-256'' \<and>
     (\<exists>h. dl_decode_header L proof = Ok h \<and> jh_alg h = ES256)"
  by (auto simp: check_proof_header_def split: sum.splits if_splits)

subsection \<open>The promises of the verifier\<close>

definition ex_claims :: ProofClaims where
  "ex_claims = \<lparr>pc_htm = ''POST'', pc_htu = ''https://z/p'', pc_jti = ''j'', pc_iat = 1000\<rparr>"

definition ex_dpop_lib :: "(unit, unit, string) DpopLib" where
  "ex_dpop_lib = \<lparr>dl_decode_header = (\<lambda>_. Ok \<lparr>jh_alg = ES256, jh_typ = None, jh_kid = None, jh_jwk = None\<rparr>),
     dl_b64_decode = (\<lambda>s. Ok (bytes_of s)), dl_b64_encode = (\<lambda>_. ''k''), dl_sha256 = id,
     dl_header_from_slice = (\<lambda>_. Ok \<lparr>ph_typ = Some ''dpop+jwt'', ph_alg = ''ES256'', ph_jwk = ()\<rparr>),
     dl_jwk_from_value = (\<lambda>_. Ok \<lparr>ej_kty = ''EC'', ej_crv = ''P-256'', ej_x = ''x'', ej_y = ''y''\<rparr>),
     dl_claims_from_slice = (\<lambda>_. Ok ex_claims), dl_from_ec_components = (\<lambda>_ _. Ok ()),
     dl_decode_es256 = (\<lambda>_ _. Ok ex_claims), dl_url_parse = Ok, dl_url_scheme = (\<lambda>_. ''https''),
     dl_url_without_query = id, dl_url_without_fragment = id, dl_url_to_string = id\<rparr>"

definition ex_attempt :: "int \<Rightarrow> i64 \<Rightarrow> string \<Rightarrow> DpopAttempt" where
  "ex_attempt now wall m = \<lparr>da_now = now, da_wall = wall, da_method = m, da_url = ''https://z/p'', da_proof = ''p''\<rparr>"

lemma trim_ex: "trim ''p'' = ''p''" "trim ''j'' = ''j''"
  by (simp_all add: trim_def trim_start_def trim_end_def trim_with.simps ws_len_def byte_of_def)

lemma ex_parse_proof: "parse_proof ex_dpop_lib ''p'' =
    Ok (\<lparr>ej_kty = ''EC'', ej_crv = ''P-256'', ej_x = ''x'', ej_y = ''y''\<rparr>, ex_claims, ''k'', ''j'')"
  by (simp add: parse_proof_def check_proof_header_def decode_unverified_header_def decode_unverified_claims_def
      ex_dpop_lib_def compute_ec_jwk_thumbprint_def trim_ex MAX_JTI_LEN_def ex_claims_def Let_def)

lemma ex_check_bindings:
  "check_bindings ex_dpop_lib 1010 m ''https://z/p'' ''p'' ec ex_claims =
     (if m = ''POST'' then Ok () else Err (InvalidProof (''htm mismatch: expected '' @ m @ '', got '' @ ''POST'')))"
  by (simp add: check_bindings_def check_htu_def canonicalize_http_url_def check_signature_def
      decoding_key_from_ec_jwk_def ex_claims_def ex_dpop_lib_def abs_drift_seconds_def unsigned_abs_def
      i64_saturating_sub_def i64_min_def i64_max_def CLOCK_SKEW_SECONDS_def Let_def)

lemma ex_attempt_first:
  "fst (attempt_dpop ex_dpop_lib (replay_observe 0) (ex_attempt 300000000000 1010 m) replay_store_new) =
     (if m = ''POST'' then Ok \<lparr>vd_jkt = ''k''\<rparr>
      else Err (InvalidProof (''htm mismatch: expected '' @ m @ '', got '' @ ''POST'')))"
  by (simp add: attempt_dpop_def verify_dpop_proof_def ex_attempt_def ex_parse_proof replay_observe_def
      replay_store_new_def hm_retain_def ex_check_bindings)

text \<open>[C5] What an accepted proof establishes.  When the verifier answers with a thumbprint, the
  proof names the algorithm ES256 and an EC P-256 key, the thumbprint is the RFC 7638 thumbprint of that
  key, its \<open>htm\<close> is the request method, its \<open>htu\<close> and the request URL have the same canonical
  form, its \<open>iat\<close> is at most sixty seconds away from the wall clock (as integers, so no wrap-around
  lets a far time through), its trimmed \<open>jti\<close> is non-empty, at most 128 bytes long and had not been seen in
  the replay window, and the JWT library accepts the signature under the very key that was thumbprinted.\<close>
theorem dpop_accept_sound:
  assumes "replay_wf s" "replay_usable floor now REPLAY_TTL"
    and "fst (verify_dpop_proof L (replay_observe floor) now wall m url proof s) = Ok v"
  shows "\<exists>h (ec :: EcJwk) claims u k signed_claims. dl_decode_header L proof = Ok h \<and> jh_alg h = ES256 \<and>
     ej_kty ec = ''EC'' \<and> ej_crv ec = ''P-256'' \<and>
     vd_jkt v = compute_ec_jwk_thumbprint L ''P-256'' ''EC'' (ej_x ec) (ej_y ec) \<and>
     decode_unverified_claims L proof = Ok claims \<and> pc_htm claims = m \<and>
     canonicalize_http_url L url = Ok u \<and> canonicalize_http_url L (pc_htu claims) = Ok u \<and>
     \<bar>pc_iat claims - wall\<bar> \<le> 60 \<and> trim (pc_jti claims) \<noteq> [] \<and> length (trim (pc_jti claims)) \<le> 128 \<and>
     \<not> replay_held now REPLAY_TTL s (vd_jkt v, trim (pc_jti claims)) \<and>
     dl_from_ec_components L (ej_x ec) (ej_y ec) = Ok k \<and> dl_decode_es256 L proof k = Ok signed_claims"
proof -
  let ?a = "\<lparr>da_now = now, da_wall = wall, da_method = m, da_url = url, da_proof = proof\<rparr>"
  have "fst (attempt_dpop L (replay_observe floor) ?a s) = Ok v" using assms(3) by (simp add: attempt_dpop_def)
  then obtain ec claims jkt jti where
      p: "parse_proof L proof = Ok (ec, claims, jkt, jti)"
      and o: "fst (replay_observe floor now jkt jti REPLAY_TTL s) = Fresh"
      and b: "check_bindings L wall m url proof ec claims = Ok ()" and v: "v = \<lparr>vd_jkt = jkt\<rparr>"
    unfolding attempt_Ok by auto
  have "\<not> replay_held now REPLAY_TTL s (jkt, jti)"
    using mem_replay.observe_outcome [OF assms(1,2), of jkt jti] o by simp
  moreover obtain h where "dl_decode_header L proof = Ok h" "jh_alg h = ES256" "ej_kty ec = ''EC''" "ej_crv ec = ''P-256''"
    using p check_proof_header_Ok [of L "proof" ec] by (auto simp: parse_proof_Ok)
  moreover obtain u k signed_claims where "canonicalize_http_url L url = Ok u" "canonicalize_http_url L (pc_htu claims) = Ok u"
      "dl_from_ec_components L (ej_x ec) (ej_y ec) = Ok k" "dl_decode_es256 L proof k = Ok signed_claims"
    using b by (auto simp: check_bindings_Ok)
  ultimately show ?thesis using p b unfolding v
    by - (rule exI [of _ h], rule exI [of _ ec], rule exI [of _ claims], rule exI [of _ u], rule exI [of _ k],
      rule exI [of _ signed_claims], clarsimp simp: parse_proof_Ok check_bindings_Ok)
qed

theorem dpop_accept_sound_witness:
  "\<exists>claims. decode_unverified_claims ex_dpop_lib ''p'' = Ok claims \<and> \<bar>pc_iat claims - 1010\<bar> \<le> 60"
proof -
  have wf: "replay_wf replay_store_new" by (simp add: replay_wf_def replay_store_new_def)
  have u: "replay_usable 0 300000000000 REPLAY_TTL"
    by (simp add: replay_usable_def from_secs_def REPLAY_WINDOW_SECONDS_def)
  have ok: "fst (verify_dpop_proof ex_dpop_lib (replay_observe 0) 300000000000 1010 ''POST'' ''https://z/p'' ''p''
      replay_store_new) = Ok \<lparr>vd_jkt = ''k''\<rparr>"
    using ex_attempt_first [of "''POST''"] by (simp add: attempt_dpop_def ex_attempt_def)
  show ?thesis using dpop_accept_sound [OF wf u ok] by blast
qed

text \<open>The boot window: a clock too young to express the start of the replay window makes the sweep drop every pair
  seen up to now, the pair of the very proof that is presented again included.\<close>

lemma young_clock_forgets:
  assumes wf: "replay_wf s" and "\<not> replay_usable floor (da_now b) REPLAY_TTL" "da_now a \<le> da_now b"
    and "fst (attempt_dpop L (replay_observe floor) a s) = Ok v" "da_proof b = da_proof a"
    and "da_method b = da_method a" "da_url b = da_url a" "da_wall b = da_wall a"
  shows "fst (attempt_dpop L (replay_observe floor) b (snd (attempt_dpop L (replay_observe floor) a s))) = Ok v"
proof -
  obtain ec claims jkt jti where p: "parse_proof L (da_proof a) = Ok (ec, claims, jkt, jti)"
      and o: "fst (replay_observe floor (da_now a) jkt jti REPLAY_TTL s) = Fresh"
      and c: "check_bindings L (da_wall a) (da_method a) (da_url a) (da_proof a) ec claims = Ok ()" and v: "v = \<lparr>vd_jkt = jkt\<rparr>"
    using assms(4) unfolding attempt_Ok by blast
  let ?s = "snd (attempt_dpop L (replay_observe floor) a s)"
  have "?s = snd (replay_observe floor (da_now a) jkt jti REPLAY_TTL s)"
    using p o by (simp add: attempt_dpop_def verify_dpop_proof_def split: prod.splits ReplayOutcome.splits sum.splits)
  moreover from this have swf: "replay_wf ?s" using mem_replay.observe_inv [OF wf] by simp
  ultimately have "hm_get (rp_inner ?s) (jkt, jti) = Some (da_now a)"
    using o by (auto simp: replay_observe_def Let_def hm_simps split: if_splits)
  moreover have "instant_checked_sub floor (da_now b) REPLAY_TTL = None"
    using assms(2) by (simp add: replay_usable_def instant_checked_sub_def)
  ultimately have "fst (replay_observe floor (da_now b) jkt jti REPLAY_TTL ?s) = Fresh"
    using assms(3) swf by (simp add: replay_observe_def Let_def hm_simps replay_wf_def)
  then show ?thesis unfolding attempt_Ok using p c v assms(5-8) by auto
qed

text \<open>[C21] A proof is accepted at most once, outside the boot window.  Between the two attempts any number of other proofs may be
  verified.  Hypotheses on the clocks: the monotonic clock does not run backwards and can express the start of
  the replay window, and when it has advanced by the whole replay window of 300 seconds, the wall clock
  has advanced by more than twice the 60 second skew tolerance.  Then the second presentation
  of an accepted proof is refused, whatever request it is attached to: inside the window because the pair is
  still recorded, after it because its \<open>iat\<close> has become too old.  The second part says that the hypothesis is
  needed: while the monotonic clock is too young to express the start of the window, an accepted proof
  presented again for the same request in the same second is accepted again.\<close>
theorem dpop_proof_accepted_once:
  assumes "replay_wf s" "\<forall>x \<in> set (a # as @ [b]). da_now x \<le> da_now b"
    and "fst (attempt_dpop L (replay_observe floor) a s) = Ok v" "da_proof b = da_proof a"
  shows "((\<forall>x \<in> set (a # as @ [b]). replay_usable floor (da_now x) REPLAY_TTL)
        \<and> (da_now a + REPLAY_TTL \<le> da_now b \<longrightarrow> da_wall a + 120 < da_wall b) \<longrightarrow>
      (\<exists>e. fst (attempt_dpop L (replay_observe floor) b (after_attempts L (replay_observe floor) (a # as) s)) = Err e))
    \<and> (\<not> replay_usable floor (da_now b) REPLAY_TTL
        \<and> da_method b = da_method a \<and> da_url b = da_url a \<and> da_wall b = da_wall a \<longrightarrow>
      fst (attempt_dpop L (replay_observe floor) b (snd (attempt_dpop L (replay_observe floor) a s))) = Ok v)"
proof (intro conjI impI)
  assume clocks: "(\<forall>x \<in> set (a # as @ [b]). replay_usable floor (da_now x) REPLAY_TTL)
        \<and> (da_now a + REPLAY_TTL \<le> da_now b \<longrightarrow> da_wall a + 120 < da_wall b)"
  then have usable: "\<forall>x \<in> set (a # as @ [b]). replay_usable floor (da_now x) REPLAY_TTL \<and> da_now x \<le> da_now b"
    using assms(2) by blast
  let ?s = "after_attempts L (replay_observe floor) (a # as) s"
  obtain ec claims jkt jti where p: "parse_proof L (da_proof a) = Ok (ec, claims, jkt, jti)"
      and c: "check_bindings L (da_wall a) (da_method a) (da_url a) (da_proof a) ec claims = Ok ()"
    using assms(3) unfolding attempt_Ok by blast
  have iat: "\<bar>pc_iat claims - da_wall a\<bar> \<le> 60"
    using c by (simp add: check_bindings_Ok)
  show "\<exists>e. fst (attempt_dpop L (replay_observe floor) b ?s) = Err e"
  proof (cases "da_now b < da_now a + REPLAY_TTL")
    case True
    have "pair_of L (da_proof a) = Some (jkt, jti)" by (simp add: pair_of_def p)
    then show ?thesis
      using mem_replay.burned_pair_replayed [OF assms(1) usable, of L "(jkt, jti)"] assms(3,4) True by auto
  next
    case False
    then have "120 < da_wall b - da_wall a" using clocks by linarith
    then have "\<not> \<bar>pc_iat claims - da_wall b\<bar> \<le> 60" using iat by linarith
    then have "fst (attempt_dpop L (replay_observe floor) b ?s) \<noteq> Ok w" for w
      using p assms(4) unfolding attempt_Ok check_bindings_Ok by auto
    then show ?thesis by (cases "fst (attempt_dpop L (replay_observe floor) b ?s)") auto
  qed
qed (use young_clock_forgets [of s floor b a L v] assms in simp)

theorem dpop_proof_accepted_once_witness:
  "\<exists>e. fst (attempt_dpop ex_dpop_lib (replay_observe 0) (ex_attempt 700000000000 1410 ''POST'')
     (after_attempts ex_dpop_lib (replay_observe 0)
       [ex_attempt 300000000000 1010 ''POST'', ex_attempt 400000000000 1110 ''GET''] replay_store_new)) = Err e"
proof -
  have u: "\<forall>x \<in> set (ex_attempt 300000000000 1010 ''POST'' # [ex_attempt 400000000000 1110 ''GET'']
        @ [ex_attempt 700000000000 1410 ''POST'']).
      replay_usable 0 (da_now x) REPLAY_TTL \<and> da_now x \<le> da_now (ex_attempt 700000000000 1410 ''POST'')"
    by (simp add: ex_attempt_def replay_usable_def from_secs_def REPLAY_WINDOW_SECONDS_def)
  show ?thesis
    using dpop_proof_accepted_once [of replay_store_new "ex_attempt 300000000000 1010 ''POST''"
        "[ex_attempt 400000000000 1110 ''GET'']" "ex_attempt 700000000000 1410 ''POST''" ex_dpop_lib 0] u ex_attempt_first [of "''POST''"]
    by (simp add: replay_wf_def replay_store_new_def ex_attempt_def)
qed

text \<open>A rejected proof stays burned.  Any attempt whose proof is well formed enough to have a
  \<open>(jkt, jti)\<close> pair, accepted or rejected for its method, URL, age or signature, makes every later
  attempt with the same pair inside the 300 second window fail as a replay, whatever is verified in between
  and however the later proof corrects the earlier one.\<close>
theorem dpop_rejection_burns_jti:
  assumes "replay_wf s"
    and "\<forall>x \<in> set (a # as @ [b]). replay_usable floor (da_now x) REPLAY_TTL \<and> da_now x \<le> da_now b"
    and "parse_proof L (da_proof a) = Ok (ec, claims, jkt, jti)" "parse_proof L (da_proof b) = Ok (ec', claims', jkt, jti)"
    and "fst (attempt_dpop L (replay_observe floor) a s) \<noteq> Err Replay" "da_now b < da_now a + REPLAY_TTL"
  shows "fst (attempt_dpop L (replay_observe floor) b (after_attempts L (replay_observe floor) (a # as) s)) = Err Replay"
  using mem_replay.burned_pair_replayed [OF assms(1,2), of L "(jkt, jti)"] assms(3-6) by (simp add: pair_of_def)

theorem dpop_rejection_burns_jti_witness:
  "fst (attempt_dpop ex_dpop_lib (replay_observe 0) (ex_attempt 400000000000 1010 ''POST'')
     (after_attempts ex_dpop_lib (replay_observe 0) [ex_attempt 300000000000 1010 ''GET''] replay_store_new)) = Err Replay"
proof -
  have u: "\<forall>x \<in> set (ex_attempt 300000000000 1010 ''GET'' # [] @ [ex_attempt 400000000000 1010 ''POST'']).
      replay_usable 0 (da_now x) REPLAY_TTL \<and> da_now x \<le> da_now (ex_attempt 400000000000 1010 ''POST'')"
    by (simp add: ex_attempt_def replay_usable_def from_secs_def REPLAY_WINDOW_SECONDS_def)
  show ?thesis
    using dpop_rejection_burns_jti [OF _ u, of replay_store_new ex_dpop_lib] ex_attempt_first [of "''GET''"] ex_parse_proof
    by (simp add: replay_wf_def replay_store_new_def ex_attempt_def from_secs_def REPLAY_WINDOW_SECONDS_def)
qed

end
