(* ===== verification/Rate_Limit.thy ===== *)
theory Rate_Limit
  imports Prelude
begin

text \<open>
  The fixed-window rate limiter of the wire layer
  (\<open>zpay-x402/src/rate_limit.rs\<close>).  Instants are natural numbers of
  nanoseconds (\<open>duration_since\<close> saturates at zero, as truncated subtraction
  does); an IP address is its text.  \<open>check\<close> takes the instant it reads.
\<close>

type_synonym Instant = nat

definition NANOS :: nat where "NANOS = 1000000000"
definition WINDOW :: nat where "WINDOW = 60 * NANOS"

datatype RateLimitDecision = Allowed | Limited (retry_after_seconds: nat)

datatype RateLimitKey = Jkt string | Ip string

record Window =
  wn_count :: u32
  wn_started_at :: Instant

record RateLimitSnapshot =
  rs_per_jkt_per_minute :: u32
  rs_per_ip_per_minute :: u32
  rs_tracked_jkt_count :: nat
  rs_tracked_ip_count :: nat
  rs_limited_total_count :: u64

record RateLimiter =
  rl_per_jkt_per_minute :: u32
  rl_per_ip_per_minute :: u32
  rl_windows :: "(RateLimitKey, Window) hashmap"
  rl_last_sweep :: Instant
  rl_limited_total :: u64

definition rate_limiter_new :: "Instant \<Rightarrow> u32 \<Rightarrow> u32 \<Rightarrow> RateLimiter" where
  "rate_limiter_new now per_jkt per_ip =
     \<lparr>rl_per_jkt_per_minute = per_jkt, rl_per_ip_per_minute = per_ip, rl_windows = [],
      rl_last_sweep = now, rl_limited_total = 0\<rparr>"

fun is_jkt_key :: "RateLimitKey \<Rightarrow> bool" where
  "is_jkt_key (Jkt _) = True"
| "is_jkt_key (Ip _) = False"

definition snapshot :: "Instant \<Rightarrow> RateLimiter \<Rightarrow> RateLimitSnapshot" where
  "snapshot now r =
    (let live = filter (\<lambda>(_, w). \<not> now - wn_started_at w \<ge> WINDOW) (rl_windows r)
     in \<lparr>rs_per_jkt_per_minute = rl_per_jkt_per_minute r, rs_per_ip_per_minute = rl_per_ip_per_minute r,
         rs_tracked_jkt_count = length (filter (\<lambda>(k, _). is_jkt_key k) live),
         rs_tracked_ip_count = length (filter (\<lambda>(k, _). \<not> is_jkt_key k) live),
         rs_limited_total_count = rl_limited_total r\<rparr>)"

definition sweep_if_due :: "Instant \<Rightarrow> RateLimiter \<Rightarrow> RateLimiter" where
  "sweep_if_due now r =
    (if now - rl_last_sweep r < WINDOW then r
     else r\<lparr>rl_last_sweep := now,
            rl_windows := hm_retain (\<lambda>_ w. now - wn_started_at w < WINDOW) (rl_windows r)\<rparr>)"

definition check :: "Instant \<Rightarrow> RateLimitKey \<Rightarrow> u32 \<Rightarrow> RateLimiter \<Rightarrow> RateLimitDecision \<times> RateLimiter" where
  "check now key per_minute r0 =
    (if per_minute = 0 then (Allowed, r0)
     else
       let r = sweep_if_due now r0;
           w0 = (case hm_get (rl_windows r) key of Some w \<Rightarrow> w
                 | None \<Rightarrow> \<lparr>wn_count = 0, wn_started_at = now\<rparr>);
           w = (if now - wn_started_at w0 \<ge> WINDOW then \<lparr>wn_count = 0, wn_started_at = now\<rparr> else w0)
       in if wn_count w \<ge> per_minute
          then (Limited (max ((WINDOW - (now - wn_started_at w)) div NANOS) 1),
                r\<lparr>rl_windows := hm_insert key w (rl_windows r),
                  rl_limited_total := rl_limited_total r + 1\<rparr>)
          else (Allowed, r\<lparr>rl_windows :=
                  hm_insert key (w\<lparr>wn_count := wn_count w + 1\<rparr>) (rl_windows r)\<rparr>))"

definition check_jkt :: "Instant \<Rightarrow> string \<Rightarrow> RateLimiter \<Rightarrow> RateLimitDecision \<times> RateLimiter" where
  "check_jkt now jkt r = check now (Jkt jkt) (rl_per_jkt_per_minute r) r"

definition check_ip :: "Instant \<Rightarrow> string \<Rightarrow> RateLimiter \<Rightarrow> RateLimitDecision \<times> RateLimiter" where
  "check_ip now ip r = check now (Ip ip) (rl_per_ip_per_minute r) r"

subsection \<open>The live window of a key\<close>

text \<open>\<open>used now k r\<close> is the number of requests of the key counted in a window that is
  still open at \<open>now\<close>; sweeping never changes it.\<close>

definition live_window :: "Instant \<Rightarrow> RateLimitKey \<Rightarrow> RateLimiter \<Rightarrow> Window option" where
  "live_window now k r = (case hm_get (rl_windows r) k of None \<Rightarrow> None
     | Some w \<Rightarrow> if now - wn_started_at w < WINDOW then Some w else None)"

definition rl_wf :: "RateLimiter \<Rightarrow> bool" where
  "rl_wf r \<longleftrightarrow> hm_wf (rl_windows r)"

lemma WINDOW_pos [simp]: "0 < WINDOW" "\<not> WINDOW \<le> 0" "WINDOW \<noteq> 0"
  by (simp_all add: WINDOW_def NANOS_def)

lemma rl_wf_sweep: "rl_wf r \<Longrightarrow> rl_wf (sweep_if_due now r)"
  by (simp add: rl_wf_def sweep_if_due_def)

lemma live_window_sweep:
  "rl_wf r \<Longrightarrow> live_window now k (sweep_if_due now r) = live_window now k r"
  by (auto simp: live_window_def sweep_if_due_def rl_wf_def hm_simps split: option.splits)

lemma check_cases:
  assumes "rl_wf r" "per_minute \<noteq> 0" "check now k per_minute r = (d, r')"
  shows "rl_wf r'"
    and "case live_window now k r of
      None \<Rightarrow> d = Allowed \<and> live_window now k r' = Some \<lparr>wn_count = 1, wn_started_at = now\<rparr>
    | Some w \<Rightarrow> if wn_count w \<ge> per_minute
        then d = Limited (max ((WINDOW - (now - wn_started_at w)) div NANOS) 1) \<and> live_window now k r' = Some w
        else d = Allowed \<and> live_window now k r' = Some (w\<lparr>wn_count := wn_count w + 1\<rparr>)"
proof -
  have pos: "\<not> per_minute \<le> 0" using assms(2) by simp
  have wf: "rl_wf (sweep_if_due now r)" by (rule rl_wf_sweep [OF assms(1)])
  show "rl_wf r'" using assms(2,3) wf
    by (auto simp: check_def Let_def rl_wf_def split: if_splits)
  have live: "live_window now k (sweep_if_due now r) = live_window now k r" by (rule live_window_sweep [OF assms(1)])
  show "case live_window now k r of
      None \<Rightarrow> d = Allowed \<and> live_window now k r' = Some \<lparr>wn_count = 1, wn_started_at = now\<rparr>
    | Some w \<Rightarrow> if wn_count w \<ge> per_minute
        then d = Limited (max ((WINDOW - (now - wn_started_at w)) div NANOS) 1) \<and> live_window now k r' = Some w
        else d = Allowed \<and> live_window now k r' = Some (w\<lparr>wn_count := wn_count w + 1\<rparr>)"
  proof (cases "hm_get (rl_windows (sweep_if_due now r)) k")
    case None
    then have "live_window now k r = None" using live by (simp add: live_window_def)
    then show ?thesis using assms(2,3) None pos
      by (auto simp: check_def Let_def live_window_def hm_simps split: if_splits)
  next
    case (Some w)
    then show ?thesis
    proof (cases "now - wn_started_at w < WINDOW")
      case True
      then have "live_window now k r = Some w" using live Some by (simp add: live_window_def)
      then show ?thesis using assms(2,3) Some True
        by (auto simp: check_def Let_def live_window_def hm_simps split: if_splits)
    next
      case False
      then have "live_window now k r = None" using live Some by (simp add: live_window_def)
      then show ?thesis using assms(2,3) Some False pos
        by (auto simp: check_def Let_def live_window_def hm_simps split: if_splits)
    qed
  qed
qed

lemma check_other_key:
  assumes "rl_wf r" "check now k n r = (d, r')" "k' \<noteq> k" "now' \<ge> now"
  shows "live_window now' k' r' = live_window now' k' r"
proof -
  have "live_window now' k' (sweep_if_due now r) = live_window now' k' r"
    using assms(1,4) by (auto simp: live_window_def sweep_if_due_def rl_wf_def hm_simps split: option.splits)
  then show ?thesis using assms(2,3)
    by (auto simp: check_def Let_def live_window_def hm_simps split: if_splits)
qed

subsection \<open>Runs of checks\<close>

definition limit_for :: "RateLimiter \<Rightarrow> RateLimitKey \<Rightarrow> u32" where
  "limit_for r k = (case k of Jkt _ \<Rightarrow> rl_per_jkt_per_minute r | Ip _ \<Rightarrow> rl_per_ip_per_minute r)"

fun run_checks :: "(Instant \<times> RateLimitKey) list \<Rightarrow> RateLimiter \<Rightarrow> RateLimitDecision list \<times> RateLimiter" where
  "run_checks [] r = ([], r)"
| "run_checks ((now, k) # es) r =
    (let (d, r1) = (case k of Jkt j \<Rightarrow> check_jkt now j r | Ip i \<Rightarrow> check_ip now i r);
         (ds, r2) = run_checks es r1 in (d # ds, r2))"

definition allowed_of :: "RateLimitKey \<Rightarrow> (Instant \<times> RateLimitKey) list \<Rightarrow> RateLimitDecision list \<Rightarrow> nat" where
  "allowed_of k es ds = length (filter (\<lambda>((_, k'), d). k' = k \<and> d = Allowed) (zip es ds))"

definition requests_of :: "RateLimitKey \<Rightarrow> (Instant \<times> RateLimitKey) list \<Rightarrow> nat" where
  "requests_of k es = length (filter (\<lambda>(_, k'). k' = k) es)"

lemma run_checks_step:
  "run_checks ((now, k) # es) r =
    (let (d, r1) = check now k (limit_for r k) r; (ds, r2) = run_checks es r1 in (d # ds, r2))"
  by (cases k) (simp_all add: check_jkt_def check_ip_def limit_for_def)

lemma check_limits: "check now k n r = (d, r') \<Longrightarrow> limit_for r' k' = limit_for r k'"
  by (cases k') (auto simp: check_def Let_def limit_for_def sweep_if_due_def split: if_splits)

text \<open>\<open>counted t0 t k c r\<close>: from \<open>t\<close> to the end of the window opened no earlier than
  \<open>t0\<close>, the live window of the key holds exactly \<open>c\<close> requests.\<close>

definition counted :: "Instant \<Rightarrow> Instant \<Rightarrow> RateLimitKey \<Rightarrow> nat \<Rightarrow> RateLimiter \<Rightarrow> bool" where
  "counted t0 t k c r \<longleftrightarrow> (\<forall>now. t \<le> now \<longrightarrow> now < t0 + WINDOW \<longrightarrow>
     (if c = 0 then live_window now k r = None
      else \<exists>s. t0 \<le> s \<and> live_window now k r = Some \<lparr>wn_count = of_nat c, wn_started_at = s\<rparr>))"

lemma live_window_keep:
  assumes "live_window now k r = Some w" "t0 \<le> wn_started_at w" "now' < t0 + WINDOW"
  shows "live_window now' k r = Some w"
proof -
  have "hm_get (rl_windows r) k = Some w" using assms(1) by (simp add: live_window_def split: option.splits if_splits)
  moreover have "now' - wn_started_at w < WINDOW" using assms(2,3) WINDOW_pos(1) by linarith
  ultimately show ?thesis by (simp add: live_window_def)
qed

lemma counted_check_same:
  assumes "rl_wf r" "counted t0 now k c r" "c \<le> unat n" "n \<noteq> 0" "t0 \<le> now" "now < t0 + WINDOW"
    and "check now k n r = (d, r')"
  shows "counted t0 now k (min (unat n) (c + 1)) r' \<and> (d = Allowed \<longleftrightarrow> c < unat n)"
proof (cases "c = 0")
  case True
  then have "live_window now k r = None" using assms(2,5,6) by (simp add: counted_def)
  then have "d = Allowed" and w: "live_window now k r' = Some \<lparr>wn_count = 1, wn_started_at = now\<rparr>"
    using check_cases(2) [OF assms(1,4,7)] by simp_all
  moreover have pos: "0 < unat n" using assms(4) by (simp add: unat_gt_0)
  moreover have "min (unat n) (c + 1) = 1" using True pos by simp
  ultimately show ?thesis using True live_window_keep [OF w, of t0] assms(5)
    by (auto simp: counted_def)
next
  case False
  then obtain s where s: "t0 \<le> s" "live_window now k r = Some \<lparr>wn_count = of_nat c, wn_started_at = s\<rparr>"
    using assms(2,5,6) by (auto simp: counted_def)
  have c: "unat (of_nat c :: u32) = c" using assms(3) unsigned_less [of n, where ?'a = nat] by (simp add: unat_of_nat)
  then have le: "n \<le> of_nat c \<longleftrightarrow> unat n \<le> c" by (simp add: word_le_nat_alt)
  show ?thesis
  proof (cases "unat n \<le> c")
    case True
    then have "c = unat n" using assms(3) by simp
    moreover have "d \<noteq> Allowed" and w: "live_window now k r' = Some \<lparr>wn_count = of_nat c, wn_started_at = s\<rparr>"
      using check_cases(2) [OF assms(1,4,7)] s(2) True le by auto
    ultimately show ?thesis using live_window_keep [OF w, of t0] s(1) False by (auto simp: counted_def)
  next
    case False
    then have "d = Allowed" and w: "live_window now k r' = Some \<lparr>wn_count = of_nat (c + 1), wn_started_at = s\<rparr>"
      using check_cases(2) [OF assms(1,4,7)] s(2) le by (auto simp: add.commute)
    moreover have "min (unat n) (c + 1) = c + 1" using False by simp
    ultimately show ?thesis using live_window_keep [OF w, of t0] s(1) False by (auto simp: counted_def)
  qed
qed

lemma counted_check_other:
  assumes "rl_wf r" "counted t0 t k c r" "t \<le> now" "k' \<noteq> k" "check now k' n r = (d, r')"
  shows "counted t0 now k c r'"
  using assms check_other_key [OF assms(1,5)] by (auto simp: counted_def)

lemma counted_later: "counted t0 t k c r \<Longrightarrow> t \<le> t' \<Longrightarrow> counted t0 t' k c r"
  by (simp add: counted_def)

lemma rl_wf_check: "rl_wf r \<Longrightarrow> check now k n r = (d, r') \<Longrightarrow> rl_wf r'"
  using check_cases(1) by (cases "n = 0") (auto simp: check_def)

lemma run_checks_allowed:
  assumes "rl_wf r" "counted t0 t k c r" "c \<le> unat (limit_for r k)" "limit_for r k \<noteq> 0"
    and "sorted (t # map fst es)" "t0 \<le> t" "\<forall>now \<in> fst ` set es. now < t0 + WINDOW"
    and "run_checks es r = (ds, r')"
  shows "allowed_of k es ds = min (unat (limit_for r k) - c) (requests_of k es)"
  using assms
proof (induction es arbitrary: r c t ds r')
  case Nil
  then show ?case by (simp add: allowed_of_def requests_of_def)
next
  case (Cons e es)
  obtain now k' where e: "e = (now, k')" by (cases e)
  obtain d r1 where ch: "check now k' (limit_for r k') r = (d, r1)" by fastforce
  obtain ds1 r2 where rest: "run_checks es r1 = (ds1, r2)" by fastforce
  have ds: "ds = d # ds1" using Cons.prems(8) ch rest unfolding e run_checks_step by simp
  have wf1: "rl_wf r1" by (rule rl_wf_check [OF Cons.prems(1) ch])
  have lim: "limit_for r1 k = limit_for r k" by (rule check_limits [OF ch])
  have t: "t \<le> now" "t0 \<le> now" "now < t0 + WINDOW" "sorted (now # map fst es)"
    "\<forall>now \<in> fst ` set es. now < t0 + WINDOW"
    using Cons.prems(5-7) by (auto simp: e)
  have at: "counted t0 now k c r" by (rule counted_later [OF Cons.prems(2) t(1)])
  show ?case
  proof (cases "k' = k")
    case True
    note step = counted_check_same [OF Cons.prems(1) at Cons.prems(3,4) t(2,3) ch [unfolded True]]
    have "allowed_of k es ds1 = min (unat (limit_for r k) - min (unat (limit_for r k)) (c + 1)) (requests_of k es)"
      using Cons.IH [OF wf1 conjunct1 [OF step] _ _ t(4,2,5) rest] lim Cons.prems(4) by simp
    moreover have "allowed_of k (e # es) ds = (if d = Allowed then 1 else 0) + allowed_of k es ds1"
      by (simp add: allowed_of_def e True ds)
    moreover have "requests_of k (e # es) = Suc (requests_of k es)" by (simp add: requests_of_def e True)
    ultimately show ?thesis using step Cons.prems(3) by auto
  next
    case False
    have "counted t0 now k c r1" by (rule counted_check_other [OF Cons.prems(1) at order.refl False ch])
    then have "allowed_of k es ds1 = min (unat (limit_for r k) - c) (requests_of k es)"
      using Cons.IH [OF wf1 _ _ _ t(4,2,5) rest] lim Cons.prems(3,4) by simp
    then show ?thesis using False by (simp add: allowed_of_def requests_of_def e ds)
  qed
qed

subsection \<open>The promises of the limiter\<close>

lemma counted_fresh: "counted t0 t k 0 (rate_limiter_new t0 pj pi)"
  by (simp add: counted_def live_window_def rate_limiter_new_def)

lemma check_Limited_bounds:
  assumes "rl_wf r" "check now k n r = (Limited s, r')"
  shows "1 \<le> s \<and> s \<le> 60"
proof -
  have n: "n \<noteq> 0" using assms(2) by (auto simp: check_def)
  have "\<exists>x. s = max ((WINDOW - x) div NANOS) 1"
    using check_cases(2) [OF assms(1) n assms(2)]
    by (auto split: option.splits if_splits)
  then obtain x where s: "s = max ((WINDOW - x) div NANOS) 1" ..
  have "(WINDOW - x) div NANOS \<le> WINDOW div NANOS" by (rule div_le_mono) simp
  then show ?thesis unfolding s by (simp add: WINDOW_def NANOS_def)
qed

definition ex_limiter :: RateLimiter where
  "ex_limiter = rate_limiter_new 5 2 0"

text \<open>[C27] The per-key budget of the fixed-window limiter.  Take a limiter whose map holds
  each key once and a key with no window that is still open at \<open>t0\<close>.  Whatever requests of
  this and other keys arrive, in time order, within one window length of \<open>t0\<close>, and whatever
  sweeps they trigger, the limiter admits exactly the budget of the key's dimension, or all of the
  key's requests if there are fewer: no request within the budget is refused, none beyond it is
  admitted, and other keys do not consume it.\<close>
theorem window_budget_exact:
  assumes "rl_wf r" "live_window t0 k r = None" "limit_for r k \<noteq> 0"
    and "sorted (t0 # map fst es)" "\<forall>now \<in> fst ` set es. now < t0 + WINDOW"
    and "run_checks es r = (ds, r')"
  shows "allowed_of k es ds = min (unat (limit_for r k)) (requests_of k es)"
proof -
  have "counted t0 t0 k 0 r" using assms(2)
    by (auto simp: counted_def live_window_def split: option.splits if_splits)
  then show ?thesis
    using run_checks_allowed [OF assms(1) _ _ assms(3,4) order.refl assms(5,6), of 0] by simp
qed

theorem window_budget_exact_witness:
  "allowed_of (Jkt ''a'') [(5, Jkt ''a''), (6, Ip ''i''), (7, Jkt ''a''), (8, Jkt ''a'')]
     (fst (run_checks [(5, Jkt ''a''), (6, Ip ''i''), (7, Jkt ''a''), (8, Jkt ''a'')] ex_limiter)) = 2"
proof -
  let ?es = "[(5, Jkt ''a''), (6, Ip ''i''), (7, Jkt ''a''), (8, Jkt ''a'')]"
  have r: "run_checks ?es ex_limiter = (fst (run_checks ?es ex_limiter), snd (run_checks ?es ex_limiter))" by simp
  have "allowed_of (Jkt ''a'') ?es (fst (run_checks ?es ex_limiter))
      = min (unat (limit_for ex_limiter (Jkt ''a''))) (requests_of (Jkt ''a'') ?es)"
    by (rule window_budget_exact [OF _ _ _ _ _ r, where ?t0.0 = 5])
      (simp_all add: ex_limiter_def rate_limiter_new_def rl_wf_def live_window_def limit_for_def WINDOW_def NANOS_def)
  then show ?thesis by (simp add: limit_for_def ex_limiter_def rate_limiter_new_def requests_of_def)
qed

text \<open>A refusal of the limiter always names a wait of at least one second and at most the sixty
  seconds of a window (the clock is monotonic: no window was opened later than now), it leaves the count of the refused key as it was (a refused request does not
  extend the refusal), and once the named wait and one more second have passed the key's window is
  over and the next request is admitted.\<close>
theorem limited_then_admitted:
  assumes "rl_wf r" "check now k n r = (Limited s, r')" "now + (s + 1) * NANOS \<le> later"
    and "\<forall>w \<in> snd ` set (rl_windows r). wn_started_at w \<le> now"
  shows "1 \<le> s \<and> s \<le> 60 \<and> live_window now k r' = live_window now k r \<and> fst (check later k n r') = Allowed"
proof -
  have n: "n \<noteq> 0" using assms(2) by (auto simp: check_def)
  have wf': "rl_wf r'" using check_cases(1) [OF assms(1) n assms(2)] .
  obtain w where w: "live_window now k r = Some w" "live_window now k r' = Some w"
      "s = max ((WINDOW - (now - wn_started_at w)) div NANOS) 1"
    using check_cases(2) [OF assms(1) n assms(2)] by (auto split: option.splits if_splits)
  have "WINDOW - (now - wn_started_at w) < (s + 1) * NANOS"
  proof -
    have "(WINDOW - (now - wn_started_at w)) div NANOS < s + 1" using w(3) by simp
    then show ?thesis by (simp add: NANOS_def div_less_iff_less_mult)
  qed
  moreover have "wn_started_at w \<le> now"
    using w(1) assms(4) by (force simp: live_window_def dest: map_of_SomeD split: option.splits if_splits)
  ultimately have "WINDOW \<le> later - wn_started_at w" using assms(3) WINDOW_pos(1) by linarith
  moreover have "hm_get (rl_windows r') k = Some w"
    using w(2) by (simp add: live_window_def split: option.splits if_splits)
  ultimately have none: "live_window later k r' = None" by (simp add: live_window_def)
  obtain d r2 where ch: "check later k n r' = (d, r2)" by fastforce
  then have "d = Allowed" using check_cases(2) [OF wf' n ch] none by simp
  then show ?thesis using check_Limited_bounds [OF assms(1,2)] w(1,2) ch by simp
qed

theorem limited_then_admitted_witness:
  "fst (check (5 + 61 * NANOS) (Jkt ''a'') 1 (snd (check 5 (Jkt ''a'') 1 (snd (check 5 (Jkt ''a'') 1 ex_limiter))))) = Allowed"
proof -
  let ?r = "snd (check 5 (Jkt ''a'') 1 ex_limiter)"
  have wf: "rl_wf ?r"
    by (simp add: rl_wf_def hm_wf_def ex_limiter_def rate_limiter_new_def check_def sweep_if_due_def WINDOW_def NANOS_def)
  have l: "check 5 (Jkt ''a'') 1 ?r = (Limited 60, snd (check 5 (Jkt ''a'') 1 ?r))"
    by (simp add: ex_limiter_def rate_limiter_new_def check_def sweep_if_due_def WINDOW_def NANOS_def)
  have "\<forall>w \<in> snd ` set (rl_windows ?r). wn_started_at w \<le> 5"
    by (simp add: ex_limiter_def rate_limiter_new_def check_def sweep_if_due_def WINDOW_def NANOS_def)
  then show ?thesis using limited_then_admitted [OF wf l, of "5 + 61 * NANOS"] by simp
qed

end
