(* ===== verification/Http.thy ===== *)
theory Http
  imports Zcash_Exact Verify Dpop Rate_Limit
begin

text \<open>
  The HTTP surface shared by the handlers of \<open>zpay-x402/src/lib.rs\<close>: responses and problem
  documents, the mapping of every error to its status, the client-IP rate limit and the
  DPoP gate in front of the lifecycle writes.

  A header map gives the text of a header, if it is present and readable as text.  Every
  response body is a value of \<open>ApiBody\<close>; \<open>serializes\<close> says whether the JSON
  serializer accepts it.  Address parsing and the \<open>Debug\<close> rendering of a string are parameters.  A
  request is handled at one reading of its two clocks.  Metrics and logs are not modelled.
\<close>

subsection \<open>Responses\<close>

datatype ApiBody =
    ProblemBody (pb_title: string) (pb_kind: string) (pb_detail: string) (pb_retryable: bool)
  | PreparationBody Preparation
  | SettlementBody SettlementOutcome
  | StatusBody PaymentStatusSnapshot
  | AcceptsBody "AcceptsEntry list"
  | TipBody ChainTip
  | VerifyBody VerifyResponse
  | SupportedBody SupportedResponse
  | X402VerifyBody X402VerifyResponse
  | X402SettleBody X402SettleResponse
  | SseBody PaymentId PaymentStatusSnapshot

record Response =
  re_status :: nat
  re_content_type :: string
  re_headers :: "(string \<times> string) list"
  re_body :: ApiBody

type_synonym HeaderMap = "(string, string) hashmap"

record Clock =
  ck_mono :: nat
  ck_wall :: u64

definition problem_response :: "nat \<Rightarrow> string \<Rightarrow> string \<Rightarrow> string \<Rightarrow> bool \<Rightarrow> Response" where
  "problem_response status title kind detail retryable =
    \<lparr>re_status = status, re_content_type = ''application/problem+json'', re_headers = [],
     re_body = ProblemBody title kind detail retryable\<rparr>"

definition json_ok :: "(ApiBody \<Rightarrow> bool) \<Rightarrow> ApiBody \<Rightarrow> Response" where
  "json_ok serializes body =
    (if serializes body
     then \<lparr>re_status = 200, re_content_type = ''application/json'', re_headers = [], re_body = body\<rparr>
     else problem_response 500 ''Internal'' ''serialization_failed'' ''response serialization failed'' False)"

definition rate_limited_response :: "nat \<Rightarrow> Response" where
  "rate_limited_response seconds =
    \<lparr>re_status = 429, re_content_type = ''application/problem+json'',
     re_headers = [(''retry-after'', dec_str seconds)],
     re_body = ProblemBody ''Too Many Requests'' ''rate_limited''
       ''per-key request rate limit exceeded; retry after the window resets'' True\<rparr>"

definition outcome_label :: "nat \<Rightarrow> string" where
  "outcome_label status =
    (if 200 \<le> status \<and> status < 300 then ''success''
     else if 400 \<le> status \<and> status < 500 then ''client_error''
     else if 500 \<le> status \<and> status < 600 then ''server_error'' else ''other'')"

fun broadcast_kind_label :: "BroadcastOutcome \<Rightarrow> string" where
  "broadcast_kind_label (Accepted _) = ''accepted''"
| "broadcast_kind_label (Duplicate _) = ''duplicate''"
| "broadcast_kind_label (InvalidEncoding _) = ''invalid_encoding''"
| "broadcast_kind_label (Rejected _) = ''rejected''"
| "broadcast_kind_label (Unknown _) = ''unknown''"

fun broadcast_failure_reason :: "BroadcastOutcome \<Rightarrow> string" where
  "broadcast_failure_reason (InvalidEncoding _) = ''zcash_exact_transaction_invalid_encoding''"
| "broadcast_failure_reason (Rejected _) = ''zcash_exact_transaction_rejected''"
| "broadcast_failure_reason (Accepted _) = ''zcash_exact_settlement_succeeded''"
| "broadcast_failure_reason (Duplicate _) = ''zcash_exact_settlement_succeeded''"
| "broadcast_failure_reason (Unknown _) = ''zcash_exact_settlement_unknown''"

subsection \<open>Errors as problem documents\<close>

fun dpop_error_response :: "DpopError \<Rightarrow> Response" where
  "dpop_error_response Missing = problem_response 401 ''Unauthorized'' ''dpop_missing''
     ''DPoP proof header is required for this endpoint'' False"
| "dpop_error_response (InvalidProof reason) = problem_response 401 ''Unauthorized'' ''dpop_invalid_proof''
     (''DPoP proof invalid: '' @ reason) False"
| "dpop_error_response (ClockSkew drift) = problem_response 401 ''Unauthorized'' ''dpop_clock_skew''
     (''DPoP proof clock drift '' @ dec_str (unat drift) @ ''s exceeds tolerance'') True"
| "dpop_error_response Replay = problem_response 401 ''Unauthorized'' ''dpop_replay''
     ''DPoP proof has already been used'' False"

fun prepare_error_response :: "PrepareError \<Rightarrow> Response" where
  "prepare_error_response (PayeeUnknown _) = problem_response 404 ''Not Found'' ''payee_unknown''
     ''payee_id is not registered with this deployment'' False"
| "prepare_error_response (SchemeNetworkUnsupported _ _ _) = problem_response 422 ''Invalid Argument''
     ''scheme_network_unsupported''
     ''registered payee does not advertise the requested scheme on the requested network'' False"
| "prepare_error_response ExpiryHeightInvalid = problem_response 502 ''Bad Gateway'' ''tip_oracle_zero_tip''
     ''chain tip oracle returned a zero tip; the operator must point the runtime at a healthy chain plane'' True"
| "prepare_error_response (PrepareTipOracle _) = problem_response 502 ''Bad Gateway'' ''tip_oracle_unavailable''
     ''chain tip oracle is currently unavailable'' True"
| "prepare_error_response (PrepareStorage _) = problem_response 503 ''Service Unavailable''
     ''prepared_store_unavailable'' ''prepared-tx store is currently unavailable'' True"

fun tip_error_response :: "TipError \<Rightarrow> Response" where
  "tip_error_response (TipUnavailable _) = problem_response 502 ''Bad Gateway'' ''tip_oracle_unavailable''
     ''chain tip oracle is currently unavailable'' True"
| "tip_error_response (NetworkUnsupported _) = problem_response 422 ''Invalid Argument'' ''network_unsupported''
     ''chain tip oracle does not serve the requested network'' False"

fun settle_error_response :: "SettleError \<Rightarrow> Response" where
  "settle_error_response (PreparationNotFound _) = problem_response 404 ''Not Found'' ''preparation_not_found''
     ''preparation not found or already settled'' False"
| "settle_error_response RawTxHexInvalid = problem_response 422 ''Invalid Argument'' ''raw_tx_hex_invalid''
     ''raw_tx_hex must be non-empty and contain only hex characters'' False"
| "settle_error_response (SettleChainUnavailable _) = problem_response 502 ''Bad Gateway'' ''chain_unavailable''
     ''chain plane is currently unavailable'' True"
| "settle_error_response (TransactionMalformed reason) = problem_response 422 ''Invalid Argument''
     ''transaction_malformed'' (''raw_tx_hex did not parse as a Zcash v5 transaction: '' @ reason) False"
| "settle_error_response (ExpiryHeightMismatch _ _) = problem_response 422 ''Invalid Argument''
     ''expiry_height_mismatch'' ''expiry_height in the signed transaction does not match the prepared row'' False"
| "settle_error_response (ObsoleteMemoVersion _) = problem_response 409 ''Obsolete Memo Version''
     ''obsolete_memo_version''
     ''cached preparation carries an obsolete protocol memo version; re-prepare against this runtime'' False"
| "settle_error_response DpopMismatch = problem_response 403 ''Forbidden'' ''dpop_mismatch''
     ''settle was signed with a different DPoP key than prepare'' False"
| "settle_error_response (SettleStorage _) = problem_response 503 ''Service Unavailable''
     ''settle_store_unavailable'' ''settle store is currently unavailable'' True"

fun verify_error_response :: "VerifyError \<Rightarrow> Response" where
  "verify_error_response (PayloadInvalid _) = problem_response 422 ''Invalid Argument'' ''disclosure_payload_invalid''
     ''disclosure_payload_hex must be valid hex'' False"
| "verify_error_response ExpectedPayToInvalid = problem_response 422 ''Invalid Argument'' ''expected_pay_to_invalid''
     ''expected_pay_to must be a Unified Address with a Sapling receiver on the configured network'' False"
| "verify_error_response (ExpectedDisclosureMessageInvalid _) = problem_response 422 ''Invalid Argument''
     ''expected_disclosure_message_invalid'' ''expected_disclosure_message_hex must be valid hex'' False"

subsection \<open>Client addresses and the IP rate limit\<close>

definition UNSPECIFIED_IP :: string where "UNSPECIFIED_IP = ''0.0.0.0''"

definition forwarded_client_ip :: "(string \<Rightarrow> string option) \<Rightarrow> HeaderMap \<Rightarrow> string option" where
  "forwarded_client_ip parse_ip headers =
    (let first = (case hm_get headers ''x-forwarded-for'' of None \<Rightarrow> None
                  | Some forwarded \<Rightarrow> parse_ip (trim (nth_part (split_on CHR '','' forwarded) 0)))
     in case first of Some ip \<Rightarrow> Some ip
        | None \<Rightarrow> (case hm_get headers ''x-real-ip'' of None \<Rightarrow> None | Some raw \<Rightarrow> parse_ip (trim raw)))"

definition client_ip :: "(string \<Rightarrow> string option) \<Rightarrow> HeaderMap \<Rightarrow> string option \<Rightarrow> bool \<Rightarrow> string" where
  "client_ip parse_ip headers peer trust_forwarded_headers =
    (case (if trust_forwarded_headers then forwarded_client_ip parse_ip headers else None) of
       Some ip \<Rightarrow> ip
     | None \<Rightarrow> (case peer of None \<Rightarrow> UNSPECIFIED_IP | Some addr \<Rightarrow> addr))"

definition ip_rate_limit ::
  "(string \<Rightarrow> string option) \<Rightarrow> bool \<Rightarrow> Clock \<Rightarrow> HeaderMap \<Rightarrow> string option \<Rightarrow> RateLimiter
    \<Rightarrow> Response option \<times> RateLimiter" where
  "ip_rate_limit parse_ip trust_forwarded_headers clock headers peer limiter =
    (case check_ip (ck_mono clock) (client_ip parse_ip headers peer trust_forwarded_headers) limiter of
       (Limited s, r) \<Rightarrow> (Some (rate_limited_response s), r)
     | (Allowed, r) \<Rightarrow> (None, r))"

subsection \<open>The DPoP gate\<close>

record ('json, 'key, 'url, 's) DpopGate =
  dg_lib :: "('json, 'key, 'url) DpopLib"
  dg_observe :: "'s observe_fn"
  dg_expectations :: DpopExpectations

definition nonempty_header :: "HeaderMap \<Rightarrow> string \<Rightarrow> string option" where
  "nonempty_header headers name =
    (case hm_get headers name of None \<Rightarrow> None
     | Some raw \<Rightarrow> if trim raw = [] then None else Some (trim raw))"

definition request_url :: "('json, 'key, 'url, 's) DpopGate \<Rightarrow> string \<Rightarrow> HeaderMap \<Rightarrow> string" where
  "request_url G path headers =
    (let host = (case de_expected_host (dg_expectations G) of
                   Some h \<Rightarrow> h
                 | None \<Rightarrow> (case nonempty_header headers ''host'' of Some h \<Rightarrow> h | None \<Rightarrow> ''localhost''))
     in de_expected_scheme (dg_expectations G) @ ''://'' @ host @ path)"

definition verify_request_dpop ::
  "('json, 'key, 'url, 's) DpopGate \<Rightarrow> Clock \<Rightarrow> string \<Rightarrow> string \<Rightarrow> HeaderMap \<Rightarrow> 's
    \<Rightarrow> (DpopError + VerifiedDpopProof) \<times> 's" where
  "verify_request_dpop G clock http_method path headers s =
    (case nonempty_header headers ''dpop'' of
       None \<Rightarrow> (Err Missing, s)
     | Some dpop_proof \<Rightarrow>
       verify_dpop_proof (dg_lib G) (dg_observe G) (int (ck_mono clock))
         (settle_current_unix_seconds (ck_wall clock)) http_method (request_url G path headers) dpop_proof s)"

definition accept_lifecycle_write ::
  "('json, 'key, 'url, 's) DpopGate \<Rightarrow> Clock \<Rightarrow> string \<Rightarrow> HeaderMap \<Rightarrow> 's \<Rightarrow> RateLimiter
    \<Rightarrow> (Response + string) \<times> 's \<times> RateLimiter" where
  "accept_lifecycle_write G clock path headers s limiter =
    (case verify_request_dpop G clock ''POST'' path headers s of
       (Inl err, s') \<Rightarrow> (Err (dpop_error_response err), s', limiter)
     | (Inr verified, s') \<Rightarrow>
       (case check_jkt (ck_mono clock) (vd_jkt verified) limiter of
          (Limited retry, r) \<Rightarrow> (Err (rate_limited_response retry), s', r)
        | (Allowed, r) \<Rightarrow> (Ok (vd_jkt verified), s', r)))"

definition parse_network :: "(string \<Rightarrow> string) \<Rightarrow> string \<Rightarrow> string + PaymentNetwork" where
  "parse_network dbg raw =
    (if raw = ''mainnet'' then Ok Mainnet else if raw = ''testnet'' then Ok Testnet
     else if raw = ''regtest'' then Ok Regtest
     else Err (''network must be one of mainnet, testnet, regtest; got '' @ dbg raw))"

fun payment_id_error_text :: "PaymentIdParseError \<Rightarrow> string" where
  "payment_id_error_text PaymentIdEmpty = ''payment_id must not be empty or whitespace''"
| "payment_id_error_text PaymentIdTooLong = ''payment_id exceeds '' @ dec_str PAYMENT_ID_MAX_LEN @ '' characters''"

subsection \<open>Statuses are informative\<close>

definition is_problem :: "Response \<Rightarrow> bool" where
  "is_problem r \<longleftrightarrow> (case re_body r of ProblemBody _ _ _ _ \<Rightarrow> 400 \<le> re_status r \<and> re_content_type r = ''application/problem+json''
     | _ \<Rightarrow> False)"

lemma problem_response_status [simp]: "re_status (problem_response st a b c d) = st"
  and problem_response_body [simp]: "re_body (problem_response st a b c d) = ProblemBody a b c d"
  and problem_response_type [simp]: "re_content_type (problem_response st a b c d) = ''application/problem+json''"
  by (simp_all add: problem_response_def)

lemma dpop_error_is_problem: "is_problem (dpop_error_response e)"
  by (cases e) (simp_all add: is_problem_def)

lemma prepare_error_is_problem: "is_problem (prepare_error_response e)"
  by (cases e) (simp_all add: is_problem_def)

lemma settle_error_is_problem: "is_problem (settle_error_response e)"
  by (cases e) (simp_all add: is_problem_def)

lemma tip_error_is_problem: "is_problem (tip_error_response e)"
  by (cases e) (simp_all add: is_problem_def)

lemma verify_error_is_problem: "is_problem (verify_error_response e)"
  by (cases e) (simp_all add: is_problem_def)

lemma rate_limited_is_problem: "is_problem (rate_limited_response n)"
  by (simp add: is_problem_def rate_limited_response_def)

lemmas error_responses_are_problems = dpop_error_is_problem prepare_error_is_problem settle_error_is_problem
  tip_error_is_problem verify_error_is_problem rate_limited_is_problem

lemma accept_lifecycle_write_Ok:
  assumes "accept_lifecycle_write G clock path headers s limiter = (Ok jkt, s', limiter')"
  shows "\<exists>p. nonempty_header headers ''dpop'' = Some p \<and>
     verify_dpop_proof (dg_lib G) (dg_observe G) (int (ck_mono clock)) (settle_current_unix_seconds (ck_wall clock)) ''POST''
       (request_url G path headers) p s = (Ok \<lparr>vd_jkt = jkt\<rparr>, s') \<and>
     check_jkt (ck_mono clock) jkt limiter = (Allowed, limiter')"
proof -
  obtain v where v: "verify_request_dpop G clock ''POST'' path headers s = (Ok v, s')"
    and c: "vd_jkt v = jkt" "check_jkt (ck_mono clock) jkt limiter = (Allowed, limiter')"
    using assms unfolding accept_lifecycle_write_def
    by (simp split: prod.splits sum.splits RateLimitDecision.splits)
  obtain p where p: "nonempty_header headers ''dpop'' = Some p"
    using v by (cases "nonempty_header headers ''dpop''") (simp_all add: verify_request_dpop_def)
  have "verify_dpop_proof (dg_lib G) (dg_observe G) (int (ck_mono clock)) (settle_current_unix_seconds (ck_wall clock))
      ''POST'' (request_url G path headers) p s = (Ok v, s')"
    using v p by (simp add: verify_request_dpop_def)
  moreover have "v = \<lparr>vd_jkt = jkt\<rparr>" using c(1) by (cases v) simp
  ultimately show ?thesis using p c(2) by (intro exI [of _ p]) simp
qed

end
