(* ===== verification/Events.thy ===== *)
theory Events
  imports Http
begin

text \<open>
  The per-payment event hub and the SSE body stream (\<open>zpay-x402/src/events.rs\<close>).  The
  bounded broadcast channel is an external library: \<open>BroadcastLib\<close> for the hub, and for the
  stream the poll function of its receiver, whose items are snapshots or a lag notice.  The JSON
  serializer is a parameter.  The body stream is the explicit state machine \<open>poll_next\<close>; a run
  \<open>drive\<close> polls it any number of times, the environment changing the channel before each
  poll and answering the re-read of the stores.
\<close>

subsection \<open>The hub\<close>

definition CHANNEL_CAPACITY :: nat where "CHANNEL_CAPACITY = 16"
definition KEEPALIVE_INTERVAL_SECONDS :: nat where "KEEPALIVE_INTERVAL_SECONDS = 15"

record ('c, 'r) BroadcastLib =
  bl_channel :: "nat \<Rightarrow> 'c"
  bl_subscribe :: "'c \<Rightarrow> 'r \<times> 'c"
  bl_send :: "PaymentStatusSnapshot \<Rightarrow> 'c \<Rightarrow> 'c"
  bl_receiver_count :: "'c \<Rightarrow> nat"

type_synonym 'c PaymentEventHub = "(PaymentId, 'c) hashmap"

definition hub_new :: "'c PaymentEventHub" where "hub_new = []"

definition hub_subscribe ::
  "('c, 'r) BroadcastLib \<Rightarrow> PaymentId \<Rightarrow> 'c PaymentEventHub \<Rightarrow> 'r \<times> 'c PaymentEventHub" where
  "hub_subscribe B payment_id channels =
    (let sender = (case hm_get channels payment_id of Some c \<Rightarrow> c | None \<Rightarrow> bl_channel B CHANNEL_CAPACITY);
         (rx, sender') = bl_subscribe B sender
     in (rx, hm_insert payment_id sender' channels))"

definition publish ::
  "('c, 'r) BroadcastLib \<Rightarrow> PaymentId \<Rightarrow> PaymentStatusSnapshot \<Rightarrow> 'c PaymentEventHub \<Rightarrow> 'c PaymentEventHub" where
  "publish B payment_id snap channels =
    (case hm_get channels payment_id of
       None \<Rightarrow> channels
     | Some sender \<Rightarrow> hm_insert payment_id (bl_send B snap sender) channels)"

definition has_subscribers :: "('c, 'r) BroadcastLib \<Rightarrow> PaymentId \<Rightarrow> 'c PaymentEventHub \<Rightarrow> bool" where
  "has_subscribers B payment_id channels =
    (case hm_get channels payment_id of None \<Rightarrow> False | Some sender \<Rightarrow> bl_receiver_count B sender > 0)"

subsection \<open>The body stream\<close>

record Event =
  ev_event :: string
  ev_data :: string

record SseLib =
  sse_json :: "PaymentStatusSnapshot \<Rightarrow> string option"
  sse_payment_id_json :: "PaymentId \<Rightarrow> string"

definition lag_event :: Event where
  "lag_event = \<lparr>ev_event = ''lag'', ev_data = ''{\"reason\":\"resync\"}''\<rparr>"

definition serialization_failed_event :: "SseLib \<Rightarrow> PaymentId \<Rightarrow> Event" where
  "serialization_failed_event S pid = \<lparr>ev_event = ''serialization_failed'', ev_data = sse_payment_id_json S pid\<rparr>"

definition resync_failed_event :: "SseLib \<Rightarrow> PaymentId \<Rightarrow> Event" where
  "resync_failed_event S pid = \<lparr>ev_event = ''resync_failed'', ev_data = sse_payment_id_json S pid\<rparr>"

definition snapshot_to_event :: "SseLib \<Rightarrow> PaymentStatusSnapshot \<Rightarrow> PaymentId \<Rightarrow> Event" where
  "snapshot_to_event S snap pid =
    (case sse_json S snap of
       Some body \<Rightarrow> \<lparr>ev_event = ''snapshot'', ev_data = body\<rparr>
     | None \<Rightarrow> serialization_failed_event S pid)"

datatype 'a Poll = Ready 'a | Pending

datatype TailItem = TailSnapshot PaymentStatusSnapshot | TailLagged nat

record 't EventStream =
  es_payment_id :: PaymentId
  es_head :: "PaymentStatusSnapshot option"
  es_tail :: 't
  es_resync_in_flight :: bool
  es_closed :: bool

definition event_stream_new :: "PaymentId \<Rightarrow> PaymentStatusSnapshot \<Rightarrow> 't \<Rightarrow> 't EventStream" where
  "event_stream_new payment_id initial rx =
    \<lparr>es_payment_id = payment_id, es_head = Some initial, es_tail = rx, es_resync_in_flight = False, es_closed = False\<rparr>"

definition deliver :: "SseLib \<Rightarrow> PaymentStatusSnapshot \<Rightarrow> 't EventStream \<Rightarrow> Event option Poll \<times> 't EventStream" where
  "deliver S snap es =
    (Ready (Some (snapshot_to_event S snap (es_payment_id es))),
     if stream_closed snap then es\<lparr>es_closed := True\<rparr> else es)"

definition poll_tail ::
  "SseLib \<Rightarrow> ('t \<Rightarrow> TailItem option Poll \<times> 't) \<Rightarrow> 't EventStream \<Rightarrow> Event option Poll \<times> 't EventStream" where
  "poll_tail S poll es =
    (case poll (es_tail es) of
       (Ready (Some (TailSnapshot snap)), t) \<Rightarrow> deliver S snap (es\<lparr>es_tail := t\<rparr>)
     | (Ready (Some (TailLagged _)), t) \<Rightarrow>
        (Ready (Some lag_event), es\<lparr>es_tail := t, es_resync_in_flight := True\<rparr>)
     | (Ready None, t) \<Rightarrow> (Ready None, es\<lparr>es_tail := t, es_closed := True\<rparr>)
     | (Pending, t) \<Rightarrow> (Pending, es\<lparr>es_tail := t\<rparr>))"

definition poll_next ::
  "SseLib \<Rightarrow> ('t \<Rightarrow> TailItem option Poll \<times> 't) \<Rightarrow> (StoreError + PaymentStatusSnapshot) Poll
    \<Rightarrow> 't EventStream \<Rightarrow> Event option Poll \<times> 't EventStream" where
  "poll_next S poll re_read es =
    (if es_closed es then (Ready None, es)
     else case es_head es of
       Some initial \<Rightarrow> deliver S initial (es\<lparr>es_head := None\<rparr>)
     | None \<Rightarrow>
       if es_resync_in_flight es then
         (case re_read of
            Pending \<Rightarrow> (Pending, es)
          | Ready (Inr snap) \<Rightarrow> deliver S snap (es\<lparr>es_resync_in_flight := False\<rparr>)
          | Ready (Inl _) \<Rightarrow>
              (Ready (Some (resync_failed_event S (es_payment_id es))),
               es\<lparr>es_resync_in_flight := False, es_closed := True\<rparr>))
       else poll_tail S poll es)"

subsection \<open>The handler\<close>

definition re_read ::
  "'p PreparedTxStore \<Rightarrow> 'l SettlementLedgerStore \<Rightarrow> u32 \<Rightarrow> ChainStatusCache \<Rightarrow> u64 \<Rightarrow> PaymentId \<Rightarrow> 'p \<Rightarrow> 'l
    \<Rightarrow> StoreError + PaymentStatusSnapshot" where
  "re_read P L finality_depth chain_status now payment_id p l =
     lookup_payment_status P L now payment_id finality_depth (cache_load chain_status) p l"

definition status_store_unavailable :: Response where
  "status_store_unavailable = problem_response 503 ''Service Unavailable'' ''status_store_unavailable''
     ''payment status store is currently unavailable'' True"

definition payment_id_invalid :: "PaymentIdParseError \<Rightarrow> Response" where
  "payment_id_invalid reason = problem_response 422 ''Invalid Argument'' ''payment_id_invalid''
     (payment_id_error_text reason) False"

definition sse_response :: "PaymentId \<Rightarrow> PaymentStatusSnapshot \<Rightarrow> Response" where
  "sse_response payment_id initial =
    \<lparr>re_status = 200, re_content_type = ''text/event-stream'',
     re_headers = [(''cache-control'', ''no-cache, no-transform''), (''x-accel-buffering'', ''no'')],
     re_body = SseBody payment_id initial\<rparr>"

text \<open>The two reads of the stores may see different states (\<open>probe\<close>, \<open>canonical\<close>): other
  requests run between them.\<close>

definition events_handler ::
  "('c, 'r) BroadcastLib \<Rightarrow> (string \<Rightarrow> string option) \<Rightarrow> bool \<Rightarrow> (PaymentId \<Rightarrow> StoreError + PaymentStatusSnapshot)
    \<Rightarrow> (PaymentId \<Rightarrow> StoreError + PaymentStatusSnapshot) \<Rightarrow> Clock \<Rightarrow> HeaderMap \<Rightarrow> string option \<Rightarrow> string
    \<Rightarrow> RateLimiter \<Rightarrow> 'c PaymentEventHub
    \<Rightarrow> (Response \<times> (PaymentStatusSnapshot \<times> 'r) option) \<times> RateLimiter \<times> 'c PaymentEventHub" where
  "events_handler B parse_ip trust probe canonical clock headers peer payment_id_raw limiter hub =
    (case ip_rate_limit parse_ip trust clock headers peer limiter of
       (Some limited, r) \<Rightarrow> ((limited, None), r, hub)
     | (None, r) \<Rightarrow>
    (case payment_id_from_str payment_id_raw of
       Inl reason \<Rightarrow> ((payment_id_invalid reason, None), r, hub)
     | Inr payment_id \<Rightarrow>
    (case probe payment_id of
       Inl _ \<Rightarrow> ((status_store_unavailable, None), r, hub)
     | Inr snap \<Rightarrow>
       if sn_status snap = NeverIssued then
         ((problem_response 404 ''Not Found'' ''payment_id_unknown''
             ''payment_id is not registered with this deployment'' False, None), r, hub)
       else
         let (rx, hub') = hub_subscribe B payment_id hub in
         (case canonical payment_id of
            Inl _ \<Rightarrow> ((status_store_unavailable, None), r, hub')
          | Inr initial \<Rightarrow> ((sse_response payment_id initial, Some (initial, rx)), r, hub')))))"

subsection \<open>Runs of the stream\<close>

text \<open>A step of a run: the environment acts on the channel, then the stream is polled, the re-read of the
  stores giving the recorded answer.\<close>

type_synonym 't poll_env = "('t \<Rightarrow> 't) \<times> (StoreError + PaymentStatusSnapshot) Poll"

fun drive ::
  "SseLib \<Rightarrow> ('t \<Rightarrow> TailItem option Poll \<times> 't) \<Rightarrow> 't poll_env list \<Rightarrow> 't EventStream \<Rightarrow> Event option Poll list" where
  "drive S poll [] es = []"
| "drive S poll ((env, answer) # steps) es =
    (let (r, es') = poll_next S poll answer (es\<lparr>es_tail := env (es_tail es)\<rparr>)
     in r # drive S poll steps es')"

definition final_event :: "SseLib \<Rightarrow> PaymentId \<Rightarrow> Event \<Rightarrow> bool" where
  "final_event S pid e \<longleftrightarrow> e = resync_failed_event S pid \<or> (\<exists>snap. stream_closed snap \<and> e = snapshot_to_event S snap pid)"

definition ended :: "Event option Poll list \<Rightarrow> bool" where
  "ended rs \<longleftrightarrow> (\<forall>r \<in> set rs. r = Ready None)"

text \<open>The order the subscriber may rely on, over the answers of the polls: the stream has ended after a
  closing event and after the end of the channel, and a lag notice is followed by the state re-read from
  the stores or by the notice that this failed.\<close>

fun in_order :: "SseLib \<Rightarrow> PaymentId \<Rightarrow> PaymentStatusSnapshot set \<Rightarrow> bool \<Rightarrow> Event option Poll list \<Rightarrow> bool" where
  "in_order S pid reread resync [] = True"
| "in_order S pid reread resync (Pending # rs) = in_order S pid reread resync rs"
| "in_order S pid reread resync (Ready None # rs) = (\<not> resync \<and> ended rs)"
| "in_order S pid reread resync (Ready (Some e) # rs) =
    ((resync \<longrightarrow> e = resync_failed_event S pid \<or> (\<exists>snap \<in> reread. e = snapshot_to_event S snap pid)) \<and>
     (final_event S pid e \<longrightarrow> ended rs) \<and> (\<not> final_event S pid e \<longrightarrow> in_order S pid reread (e = lag_event) rs))"

definition rereads :: "'t poll_env list \<Rightarrow> PaymentStatusSnapshot set" where
  "rereads steps = {snap. Ready (Inr snap) \<in> snd ` set steps}"

lemma drive_closed: "es_closed es \<Longrightarrow> ended (drive S poll steps es)"
proof (induction steps arbitrary: es)
  case (Cons step steps)
  obtain env answer where st: "step = (env, answer)" by (cases step)
  have "ended (drive S poll steps (es\<lparr>es_tail := env (es_tail es)\<rparr>))" using Cons by simp
  then show ?case using Cons.prems by (simp add: st poll_next_def ended_def)
qed (simp add: ended_def)

lemma snapshot_event_names:
  "snapshot_to_event S snap pid \<noteq> lag_event" "snapshot_to_event S snap pid \<noteq> resync_failed_event S pid"
  "lag_event \<noteq> resync_failed_event S pid" "lag_event \<noteq> snapshot_to_event S snap pid"
  by (simp_all add: snapshot_to_event_def lag_event_def resync_failed_event_def serialization_failed_event_def
      split: option.splits)

lemma final_event_resync_failed [simp]: "final_event S pid (resync_failed_event S pid)"
  by (simp add: final_event_def)

lemma not_final_lag [simp]: "\<not> final_event S pid lag_event"
  by (simp add: final_event_def snapshot_event_names)

text \<open>Hypothesis on the serializer: the JSON of a snapshot tells whether the snapshot closes the stream.\<close>

definition closing_visible :: "SseLib \<Rightarrow> bool" where
  "closing_visible S \<longleftrightarrow> (\<forall>x y. sse_json S x = sse_json S y \<longrightarrow> stream_closed x = stream_closed y)"

lemma final_event_snapshot:
  assumes "closing_visible S"
  shows "final_event S pid (snapshot_to_event S snap pid) \<longleftrightarrow> stream_closed snap"
proof -
  have "stream_closed x = stream_closed snap" if "snapshot_to_event S snap pid = snapshot_to_event S x pid" for x
  proof -
    have "sse_json S snap = sse_json S x"
      using that by (simp add: snapshot_to_event_def serialization_failed_event_def split: option.splits)
    then show ?thesis using assms unfolding closing_visible_def by blast
  qed
  then show ?thesis unfolding final_event_def using snapshot_event_names(2) by blast
qed

lemma deliver_in_order:
  assumes "closing_visible S" "deliver S snap es = (r, es')" "es_payment_id es = pid"
    and "resync \<longrightarrow> snap \<in> R" "es_closed es' \<Longrightarrow> ended rs" "\<not> es_closed es' \<Longrightarrow> in_order S pid R False rs"
    and "\<not> es_closed es"
  shows "in_order S pid R resync (r # rs)"
proof -
  have r: "r = Ready (Some (snapshot_to_event S snap pid))" and c: "es_closed es' \<longleftrightarrow> stream_closed snap"
    using assms(2,3,7) by (auto simp: deliver_def split: if_splits)
  show ?thesis using assms(4,5,6) final_event_snapshot [OF assms(1)] unfolding r c
    by (auto simp: snapshot_event_names)
qed

text \<open>One poll after the initial snapshot: it never runs ahead of a re-read in flight.\<close>

lemma drive_in_order:
  assumes "closing_visible S" "rereads steps \<subseteq> R"
  shows "\<not> es_closed es \<Longrightarrow> es_head es = None \<Longrightarrow> es_payment_id es = pid \<Longrightarrow>
    in_order S pid R (es_resync_in_flight es) (drive S poll steps es)"
  using assms(2)
proof (induction steps arbitrary: es)
  case (Cons step steps)
  obtain env answer where st: "step = (env, answer)" by (cases step)
  let ?es = "es\<lparr>es_tail := env (es_tail es)\<rparr>"
  obtain r es' where poll: "poll_next S poll answer ?es = (r, es')" by fastforce
  have sub: "rereads steps \<subseteq> R" using Cons.prems(4) by (auto simp: rereads_def)
  have ans: "answer = Ready (Inr snap) \<Longrightarrow> snap \<in> R" for snap
    using Cons.prems(4) by (auto simp: rereads_def st)
  have IH: "\<not> es_closed es' \<Longrightarrow> es_head es' = None \<Longrightarrow> es_payment_id es' = pid \<Longrightarrow>
      in_order S pid R (es_resync_in_flight es') (drive S poll steps es')"
    by (rule Cons.IH [OF _ _ _ sub])
  have fin: "es_closed es' \<Longrightarrow> ended (drive S poll steps es')" by (rule drive_closed)
  have "in_order S pid R (es_resync_in_flight es) (r # drive S poll steps es')"
  proof (cases "es_resync_in_flight es")
    case True
    show ?thesis
    proof (cases answer)
      case (Ready a)
      show ?thesis
      proof (cases a)
        case (Inl x)
        then show ?thesis using poll Cons.prems(1-3) True Ready fin by (auto simp: poll_next_def)
      next
        case (Inr snap)
        have d: "deliver S snap (?es\<lparr>es_resync_in_flight := False\<rparr>) = (r, es')"
          using poll Cons.prems(1,2) True Ready Inr by (simp add: poll_next_def)
        have "\<not> es_resync_in_flight es' \<and> es_head es' = None \<and> es_payment_id es' = pid"
          using d Cons.prems(2,3) by (auto simp: deliver_def split: if_splits)
        then show ?thesis using deliver_in_order [OF assms(1) d, of pid] Cons.prems(1,3) IH fin ans Ready Inr by simp
      qed
    next
      case Pending
      then show ?thesis using poll Cons.prems True IH by (auto simp: poll_next_def)
    qed
  next
    case False
    then have t: "poll_tail S poll ?es = (r, es')" using poll Cons.prems(1,2) by (simp add: poll_next_def)
    obtain item t1 where item: "poll (env (es_tail es)) = (item, t1)" by fastforce
    consider (snap) snap where "item = Ready (Some (TailSnapshot snap))" | (lag) n where "item = Ready (Some (TailLagged n))"
      | (ended) "item = Ready None" | (pending) "item = Pending"
      by (cases item; metis TailItem.exhaust option.exhaust)
    then show ?thesis
    proof cases
      case snap
      have d: "deliver S snap (?es\<lparr>es_tail := t1\<rparr>) = (r, es')" using t item snap by (simp add: poll_tail_def)
      have "\<not> es_resync_in_flight es' \<and> es_head es' = None \<and> es_payment_id es' = pid"
        using d Cons.prems(2,3) False by (auto simp: deliver_def split: if_splits)
      then show ?thesis using deliver_in_order [OF assms(1) d, of pid] Cons.prems(1,3) IH fin False by simp
    qed (use t item False Cons.prems(1-3) IH fin in \<open>auto simp: poll_tail_def\<close>)
  qed
  then show ?case using poll by (simp add: st)
qed simp

lemma hub_subscribe_keys: "fst ` set (snd (hub_subscribe B pid hub)) = insert pid (fst ` set hub)"
  by (auto simp: hub_subscribe_def Let_def dom_update split: prod.splits option.splits)

lemma publish_keys: "fst ` set (publish B pid snap hub) = fst ` set hub"
  by (auto simp: publish_def dom_update insert_absorb split: option.splits dest: map_of_SomeD)
    (metis fst_conv image_eqI map_of_SomeD)+

subsection \<open>The promises of the event stream\<close>

definition ex_snapshot :: "PaymentStatus \<Rightarrow> PaymentStatusSnapshot" where
  "ex_snapshot st = plain_snapshot ''pay_1'' st"

definition ex_sse :: SseLib where
  "ex_sse = \<lparr>sse_json = (\<lambda>s. Some (if stream_closed s then ''closed'' else ''open'')), sse_payment_id_json = id\<rparr>"

fun ex_poll :: "TailItem list \<Rightarrow> TailItem option Poll \<times> TailItem list" where
  "ex_poll [] = (Pending, [])"
| "ex_poll (x # xs) = (Ready (Some x), xs)"

text \<open>[C33] The contract of the SSE body stream, for any behaviour of the channel and of the stores
  between the polls and any number of polls.  The first poll delivers the snapshot read at connect time.  A
  closing event (a settled or terminal snapshot, or the notice that a re-read failed) is
  delivered at most once and every later poll answers that the stream has ended.  After a lag notice the next
  event delivered is the state re-read from the stores, or the notice that this failed: nothing of the
  channel is delivered before it.  Hypothesis: the JSON of a snapshot tells whether it closes the stream.\<close>
theorem event_stream_contract:
  assumes "closing_visible S"
  shows "case drive S poll steps (event_stream_new pid initial rx) of
      [] \<Rightarrow> steps = []
    | r # rs \<Rightarrow> r = Ready (Some (snapshot_to_event S initial pid)) \<and> in_order S pid (rereads steps) False (r # rs)"
proof (cases steps)
  case (Cons step more)
  obtain env answer where st: "step = (env, answer)" by (cases step)
  let ?es = "(event_stream_new pid initial rx)\<lparr>es_tail := env rx, es_head := None\<rparr>"
  obtain r es' where d: "deliver S initial ?es = (r, es')" by fastforce
  have "poll_next S poll answer ((event_stream_new pid initial rx)\<lparr>es_tail := env (es_tail (event_stream_new pid initial rx))\<rparr>) = (r, es')"
    using d by (simp add: poll_next_def event_stream_new_def)
  then have run: "drive S poll steps (event_stream_new pid initial rx) = r # drive S poll more es'"
    by (simp add: Cons st)
  have es': "\<not> es_resync_in_flight es'" "es_head es' = None" "es_payment_id es' = pid"
    using d by (auto simp: deliver_def event_stream_new_def split: if_splits)
  have sub: "rereads more \<subseteq> rereads steps" by (auto simp: rereads_def Cons)
  have "in_order S pid (rereads steps) False (r # drive S poll more es')"
  proof (rule deliver_in_order [OF assms d])
    show "\<not> es_closed es' \<Longrightarrow> in_order S pid (rereads steps) False (drive S poll more es')"
      using drive_in_order [OF assms sub, of es' pid poll] es' by simp
  qed (simp_all add: event_stream_new_def drive_closed)
  moreover have "r = Ready (Some (snapshot_to_event S initial pid))"
    using d by (simp add: deliver_def event_stream_new_def)
  ultimately show ?thesis using run by simp
qed simp

theorem event_stream_contract_witness:
  "drive ex_sse ex_poll [(id, Pending), (id, Pending), (id, Ready (Ok (ex_snapshot Expired))), (id, Pending)]
     (event_stream_new ''pay_1'' (ex_snapshot Awaiting) [TailLagged 3, TailSnapshot (ex_snapshot Awaiting)]) =
     [Ready (Some (snapshot_to_event ex_sse (ex_snapshot Awaiting) ''pay_1'')), Ready (Some lag_event),
      Ready (Some (snapshot_to_event ex_sse (ex_snapshot Expired) ''pay_1'')), Ready None] \<and>
   in_order ex_sse ''pay_1'' {ex_snapshot Expired} False
     [Ready (Some (snapshot_to_event ex_sse (ex_snapshot Awaiting) ''pay_1'')), Ready (Some lag_event),
      Ready (Some (snapshot_to_event ex_sse (ex_snapshot Expired) ''pay_1'')), Ready None]"
  (is "?run = ?rs \<and> _")
proof -
  have vis: "closing_visible ex_sse" by (simp add: closing_visible_def ex_sse_def)
  have run: "?run = ?rs"
    by (simp add: event_stream_new_def poll_next_def deliver_def poll_tail_def ex_snapshot_def plain_snapshot_def
        stream_closed_def)
  have "rereads [(id :: TailItem list \<Rightarrow> TailItem list, Pending), (id, Pending), (id, Ready (Ok (ex_snapshot Expired))), (id, Pending)] = {ex_snapshot Expired}"
    by (auto simp: rereads_def)
  then show ?thesis
    using event_stream_contract [OF vis, where poll = ex_poll and pid = "''pay_1''" and initial = "ex_snapshot Awaiting" and
        steps = "[(id, Pending), (id, Pending), (id, Ready (Ok (ex_snapshot Expired))), (id, Pending)]" and
        rx = "[TailLagged 3, TailSnapshot (ex_snapshot Awaiting)]"] run
    unfolding run by (simp del: in_order.simps)
qed

text \<open>The event hub only holds channels of payments the stores know.  A subscription
  request adds at most the channel of its own payment id, and only when the probe of the stores answered that
  this payment was issued; a request that is rate limited, malformed, unknown or meets a store failure
  at the probe adds nothing.  Publishing never adds a channel.\<close>
theorem hub_registry_bounded:
  "fst ` set (snd (snd (events_handler B parse_ip trust probe canonical clock headers peer raw limiter hub)))
     \<subseteq> fst ` set hub \<union> {pid. payment_id_from_str raw = Ok pid \<and> (\<exists>snap. probe pid = Ok snap \<and> sn_status snap \<noteq> NeverIssued)}
   \<and> fst ` set (publish B pid snap hub) = fst ` set hub"
proof
  show "fst ` set (publish B pid snap hub) = fst ` set hub" by (rule publish_keys)
  show "fst ` set (snd (snd (events_handler B parse_ip trust probe canonical clock headers peer raw limiter hub)))
     \<subseteq> fst ` set hub \<union> {pid. payment_id_from_str raw = Ok pid \<and> (\<exists>snap. probe pid = Ok snap \<and> sn_status snap \<noteq> NeverIssued)}"
  proof (cases "ip_rate_limit parse_ip trust clock headers peer limiter")
    case (Pair o1 r)
    then show ?thesis using hub_subscribe_keys [of B _ hub]
      by (auto simp: events_handler_def Let_def case_prod_beta split: option.splits sum.splits if_splits)
  qed
qed

end
