(* ===== verification/Reconcile.thy ===== *)
theory Reconcile
  imports Backends Events
begin

text \<open>
  Settlement reconciliation (\<open>zpay-runtime/src/main.rs\<close>): the confirmation poll
  \<open>poll_oracle_once\<close> with its row rule \<open>reconcile_unsettled_row\<close>, the reorg
  downgrade of one row, the publication of snapshots, and one tick of the prepared-transaction
  sweeper.  The chain plane is the record \<open>ConfirmationOracle\<close> of its two calls.  A tick reads
  the wall clock once.  The ledger is any store of the contract \<open>settlement_ledger_store\<close>;
  \<open>reconciled\<close> is the row function a poll applies.  Counters and log lines are not modelled.
\<close>

record ConfirmationOracle =
  co_fetch_confirmations :: "string \<Rightarrow> OracleError + ConfirmationOutcome"
  co_chain_status :: "OracleError + ChainStatusView"

text \<open>The runtime's \<open>now_unix_seconds\<close> is signed and saturates.\<close>

definition now_unix_seconds_i64 :: "int \<Rightarrow> i64" where
  "now_unix_seconds_i64 clock =
    (case u64_to_i64 (now_unix_seconds clock) of Some i \<Rightarrow> i | None \<Rightarrow> i64_max)"

definition downgrade_reorged_row :: "'l SettlementLedgerStore \<Rightarrow> int \<Rightarrow> SuccessKindRow \<Rightarrow> 'l \<Rightarrow> 'l" where
  "downgrade_reorged_row L clock row l =
     snd (sl_downgrade_on_reorg L (sk_payment_id row) (now_unix_seconds_i64 clock) l)"

definition reconcile_unsettled_row ::
  "ConfirmationOracle \<Rightarrow> 'l SettlementLedgerStore \<Rightarrow> int \<Rightarrow> SuccessKindRow \<Rightarrow> 'l \<Rightarrow> 'l" where
  "reconcile_unsettled_row oracle L clock row l =
    (case co_fetch_confirmations oracle (sk_transaction_id row) of
       Inl err \<Rightarrow> l
     | Inr outcome \<Rightarrow>
       (case outcome of
          Mined block_height confirmation_count \<Rightarrow>
            snd (sl_record_confirmation L (sk_payment_id row) confirmation_count (Some block_height) l)
        | InMempool \<Rightarrow>
            if sk_mined_block_height row \<noteq> None then downgrade_reorged_row L clock row l
            else snd (sl_record_confirmation L (sk_payment_id row) 0 None l)
        | NotFound \<Rightarrow>
            if sk_mined_block_height row \<noteq> None then downgrade_reorged_row L clock row l else l
        | ConflictingChain \<Rightarrow>
            if sk_mined_block_height row \<noteq> None then downgrade_reorged_row L clock row l else l))"

definition publish_snapshot ::
  "('c, 'r) BroadcastLib \<Rightarrow> 'p PreparedTxStore \<Rightarrow> 'l SettlementLedgerStore \<Rightarrow> int \<Rightarrow> ChainStatusView \<Rightarrow> u32
    \<Rightarrow> PaymentId \<Rightarrow> 'p \<Rightarrow> 'l \<Rightarrow> 'c PaymentEventHub \<Rightarrow> 'c PaymentEventHub" where
  "publish_snapshot B P L clock view finality_depth pid p l hub =
    (case lookup_payment_status P L (now_unix_seconds clock) pid finality_depth view p l of
       Inr snap \<Rightarrow> publish B pid snap hub
     | Inl err \<Rightarrow> hub)"

definition row_settled :: "ChainStatusView \<Rightarrow> SuccessKindRow \<Rightarrow> bool" where
  "row_settled view row =
    (case sk_mined_block_height row of None \<Rightarrow> False | Some height \<Rightarrow> is_settled_at view height)"

fun reconcile_rows ::
  "('c, 'r) BroadcastLib \<Rightarrow> ConfirmationOracle \<Rightarrow> 'p PreparedTxStore \<Rightarrow> 'l SettlementLedgerStore \<Rightarrow> int
    \<Rightarrow> ChainStatusView \<Rightarrow> u32 \<Rightarrow> 'p \<Rightarrow> SuccessKindRow list \<Rightarrow> 'l \<times> 'c PaymentEventHub
    \<Rightarrow> 'l \<times> 'c PaymentEventHub" where
  "reconcile_rows B oracle P L clock view depth p [] (l, hub) = (l, hub)"
| "reconcile_rows B oracle P L clock view depth p (row # rows) (l, hub) =
    (let l1 = (if \<not> row_settled view row then reconcile_unsettled_row oracle L clock row l else l);
         hub1 = (if has_subscribers B (sk_payment_id row) hub
                 then publish_snapshot B P L clock view depth (sk_payment_id row) p l1 hub else hub)
     in reconcile_rows B oracle P L clock view depth p rows (l1, hub1))"

definition refresh_chain_view ::
  "ConfirmationOracle \<Rightarrow> int \<Rightarrow> ChainStatusCache \<Rightarrow> ChainStatusView \<times> ChainStatusCache" where
  "refresh_chain_view oracle clock cache =
    (case co_chain_status oracle of
       Inr view \<Rightarrow>
        (view, case (visible_tip_height view, settled_tip_height view) of
                 (Some visible, Some settled) \<Rightarrow> cache_store (now_unix_seconds clock) visible settled cache
               | _ \<Rightarrow> cache)
     | Inl err \<Rightarrow> (cache_load cache, cache))"

definition poll_oracle_once ::
  "('c, 'r) BroadcastLib \<Rightarrow> ConfirmationOracle \<Rightarrow> 'p PreparedTxStore \<Rightarrow> 'l SettlementLedgerStore \<Rightarrow> int
    \<Rightarrow> u32 \<Rightarrow> 'p \<Rightarrow> 'l \<times> 'c PaymentEventHub \<times> ChainStatusCache
    \<Rightarrow> 'l \<times> 'c PaymentEventHub \<times> ChainStatusCache" where
  "poll_oracle_once B oracle P L clock finality_depth p st =
    (let (l, hub, cache) = st;
         (view, cache') = refresh_chain_view oracle clock cache
     in case sl_success_kind_transactions L l of
          Inl err \<Rightarrow> (l, hub, cache')
        | Inr rows \<Rightarrow>
            let (l', hub') = reconcile_rows B oracle P L clock view finality_depth p rows (l, hub)
            in (l', hub', cache'))"

definition PREPARED_TX_SWEEP_INTERVAL_SECONDS :: nat where "PREPARED_TX_SWEEP_INTERVAL_SECONDS = 30"
definition CONFIRMATION_ORACLE_POLL_SECONDS :: nat where "CONFIRMATION_ORACLE_POLL_SECONDS = 60"

definition sweep_tick :: "'p PreparedTxStore \<Rightarrow> int \<Rightarrow> 'p \<Rightarrow> 'p" where
  "sweep_tick P clock p = snd (pts_sweep_expired P (now_unix_seconds clock) p)"

subsection \<open>The row function of a poll\<close>

definition reconciled ::
  "ConfirmationOracle \<Rightarrow> i64 \<Rightarrow> ChainStatusView \<Rightarrow> SettlementLedgerEntry \<Rightarrow> SettlementLedgerEntry" where
  "reconciled oracle at view e =
    (case transaction_id (le_broadcast_outcome e) of
       None \<Rightarrow> e
     | Some txid \<Rightarrow>
        if (case le_mined_block_height e of None \<Rightarrow> False | Some h \<Rightarrow> is_settled_at view h) then e
        else (case co_fetch_confirmations oracle txid of
                Inl err \<Rightarrow> e
              | Inr (Mined h c) \<Rightarrow> confirm_entry c (Some h) e
              | Inr InMempool \<Rightarrow>
                  if le_mined_block_height e \<noteq> None then downgrade_entry at e else confirm_entry 0 None e
              | Inr NotFound \<Rightarrow> downgrade_if_mined at e
              | Inr ConflictingChain \<Rightarrow> downgrade_if_mined at e))"

text \<open>Heights come from the chain plane: the bound of the ledger's columns is a fact about it.\<close>

definition oracle_fits :: "(u64 \<Rightarrow> bool) \<Rightarrow> ConfirmationOracle \<Rightarrow> bool" where
  "oracle_fits fits oracle \<longleftrightarrow> (\<forall>txid h c. co_fetch_confirmations oracle txid = Inr (Mined h c) \<longrightarrow> fits h)"

text \<open>A ledger whose backend answers every call of the poll; only the libSQL transport can fail.\<close>

definition ledger_live :: "('l \<Rightarrow> bool) \<Rightarrow> 'l SettlementLedgerStore \<Rightarrow> bool" where
  "ledger_live ok L \<longleftrightarrow> (\<forall>l. ok l \<longrightarrow> \<not> isl (sl_success_kind_transactions L l))
     \<and> (\<forall>p c h l. ok l \<longrightarrow> \<not> isl (fst (sl_record_confirmation L p c h l)))
     \<and> (\<forall>p at l. ok l \<longrightarrow> \<not> isl (fst (sl_downgrade_on_reorg L p at l)))"

definition reconciled_or_kept ::
  "bool \<Rightarrow> ConfirmationOracle \<Rightarrow> i64 \<Rightarrow> ChainStatusView \<Rightarrow> SettlementLedgerEntry option
    \<Rightarrow> SettlementLedgerEntry option \<Rightarrow> bool" where
  "reconciled_or_kept live oracle at view before after \<longleftrightarrow>
     \<not> live \<and> after = before \<or> after = map_option (reconciled oracle at view) before"

lemma reconciled_settled:
  assumes "success_row_of p e = Some row" "row_settled view row"
  shows "reconciled oracle at view e = e"
  using assms by (auto simp: success_row_of_def row_settled_def reconciled_def split: option.splits)

context payment_stores
begin

lemma confirm_effect:
  assumes "linv l" "pred_option fits h"
  shows "linv (snd (sl_record_confirmation L p c h l))
    \<and> (\<forall>q. q \<noteq> p \<longrightarrow> led (snd (sl_record_confirmation L p c h l)) q = led l q)
    \<and> (\<not> ledger_live linv L \<and> led (snd (sl_record_confirmation L p c h l)) p = led l p
       \<or> led (snd (sl_record_confirmation L p c h l)) p = map_option (confirm_entry c h) (led l p))"
proof -
  obtain x l1 where r: "sl_record_confirmation L p c h l = (x, l1)" by fastforce
  have "\<not> ledger_live linv L" if "isl x" using that r assms(1) unfolding ledger_live_def by (metis fst_conv)
  then show ?thesis using r assms(1) ledg.confirm_ok [OF assms, of p c _ l1] ledg.confirm_err [of p c h l _ l1]
    by (cases x) auto
qed

lemma downgrade_effect:
  assumes "linv l"
  shows "linv (snd (sl_downgrade_on_reorg L p at l))
    \<and> (\<forall>q. q \<noteq> p \<longrightarrow> led (snd (sl_downgrade_on_reorg L p at l)) q = led l q)
    \<and> (\<not> ledger_live linv L \<and> led (snd (sl_downgrade_on_reorg L p at l)) p = led l p
       \<or> led (snd (sl_downgrade_on_reorg L p at l)) p = map_option (downgrade_if_mined at) (led l p))"
proof -
  obtain x l1 where r: "sl_downgrade_on_reorg L p at l = (x, l1)" by fastforce
  have "\<not> ledger_live linv L" if "isl x" using that r assms(1) unfolding ledger_live_def by (metis fst_conv)
  then show ?thesis using r assms ledg.downgrade_ok [OF assms, of p at _ l1] ledg.downgrade_err [of p at l _ l1]
    by (cases x) auto
qed

lemma reconcile_unsettled_effect:
  assumes "linv l" "oracle_fits fits oracle" "led l p = Some e" "success_row_of p e = Some row"
    and "\<not> row_settled view row"
  shows "linv (reconcile_unsettled_row oracle L clock row l)
    \<and> (\<forall>q. q \<noteq> p \<longrightarrow> led (reconcile_unsettled_row oracle L clock row l) q = led l q)
    \<and> reconciled_or_kept (ledger_live linv L) oracle (now_unix_seconds_i64 clock) view (led l p)
        (led (reconcile_unsettled_row oracle L clock row l) p)"
proof -
  from assms(4) obtain txid where tx: "transaction_id (le_broadcast_outcome e) = Some txid"
    and row: "sk_payment_id row = p" "sk_transaction_id row = txid" "sk_mined_block_height row = le_mined_block_height e"
    by (auto simp: success_row_of_def)
  have ns: "\<not> (case le_mined_block_height e of None \<Rightarrow> False | Some h \<Rightarrow> is_settled_at view h)"
    using assms(5) by (simp add: row_settled_def row)
  note defs = reconcile_unsettled_row_def row reconciled_or_kept_def reconciled_def downgrade_reorged_row_def
    downgrade_if_mined_def
  show ?thesis
  proof (cases "co_fetch_confirmations oracle txid")
    case (Inl err)
    then show ?thesis using assms(1,3) tx by (simp add: defs)
  next
    case (Inr outcome)
    show ?thesis
    proof (cases outcome)
      case (Mined h c)
      then have "pred_option fits (Some h)" using assms(2) Inr unfolding oracle_fits_def by auto
      then show ?thesis using confirm_effect [OF assms(1), of "Some h" p c] Inr Mined assms(3) tx ns by (simp add: defs)
    next
      case InMempool
      then show ?thesis
        using confirm_effect [OF assms(1), of None p 0] downgrade_effect [OF assms(1), of p "now_unix_seconds_i64 clock"] Inr assms(3) tx ns
        by (cases "le_mined_block_height e") (simp_all add: defs)
    next
      case NotFound
      then show ?thesis using downgrade_effect [OF assms(1), of p "now_unix_seconds_i64 clock"] assms(1) Inr assms(3) tx ns
        by (cases "le_mined_block_height e") (simp_all add: defs)
    next
      case ConflictingChain
      then show ?thesis using downgrade_effect [OF assms(1), of p "now_unix_seconds_i64 clock"] assms(1) Inr assms(3) tx ns
        by (cases "le_mined_block_height e") (simp_all add: defs)
    qed
  qed
qed

lemma reconcile_rows_effect:
  assumes "linv l" "oracle_fits fits oracle" "distinct (map sk_payment_id rs)"
    and "\<And>row. row \<in> set rs \<Longrightarrow> \<exists>e. led l (sk_payment_id row) = Some e \<and> success_row_of (sk_payment_id row) e = Some row"
    and "reconcile_rows B oracle P L clock view depth p rs (l, hub) = (l', hub')"
  shows "linv l' \<and> (\<forall>q. q \<notin> sk_payment_id ` set rs \<longrightarrow> led l' q = led l q)
    \<and> (\<forall>q \<in> sk_payment_id ` set rs.
          reconciled_or_kept (ledger_live linv L) oracle (now_unix_seconds_i64 clock) view (led l q) (led l' q))
    \<and> fst ` set hub' = fst ` set hub"
  using assms
proof (induction rs arbitrary: l hub)
  case Nil
  then show ?case by simp
next
  case (Cons row rs)
  let ?id = "sk_payment_id row"
  define l1 where "l1 = (if \<not> row_settled view row then reconcile_unsettled_row oracle L clock row l else l)"
  define hub1 where "hub1 = (if has_subscribers B ?id hub
                 then publish_snapshot B P L clock view depth ?id p l1 hub else hub)"
  obtain e where e: "led l ?id = Some e" "success_row_of ?id e = Some row" using Cons.prems(4) [of row] by auto
  have one: "linv l1 \<and> (\<forall>q. q \<noteq> ?id \<longrightarrow> led l1 q = led l q)
      \<and> reconciled_or_kept (ledger_live linv L) oracle (now_unix_seconds_i64 clock) view (led l ?id) (led l1 ?id)"
    using reconcile_unsettled_effect [OF Cons.prems(1,2) e, of view clock] Cons.prems(1) e(1)
      reconciled_settled [OF e(2), of view "oracle" "now_unix_seconds_i64 clock"]
    by (cases "row_settled view row") (simp_all add: l1_def reconciled_or_kept_def)
  have hub: "fst ` set hub1 = fst ` set hub"
    by (simp add: hub1_def publish_snapshot_def publish_keys split: sum.splits)
  have rest: "\<exists>e. led l1 (sk_payment_id r) = Some e \<and> success_row_of (sk_payment_id r) e = Some r" if "r \<in> set rs" for r
  proof -
    have "sk_payment_id r \<noteq> ?id" using that Cons.prems(3) by (metis image_eqI list.simps(9) distinct.simps(2) set_map)
    then show ?thesis using one Cons.prems(4) [of r] that by simp
  qed
  have "reconcile_rows B oracle P L clock view depth p rs (l1, hub1) = (l', hub')"
    using Cons.prems(5) by (simp only: reconcile_rows.simps Let_def l1_def hub1_def)
  from Cons.IH [OF _ Cons.prems(2) _ rest this] have IH: "linv l'"
    "\<forall>q. q \<notin> sk_payment_id ` set rs \<longrightarrow> led l' q = led l1 q"
    "\<forall>q \<in> sk_payment_id ` set rs.
      reconciled_or_kept (ledger_live linv L) oracle (now_unix_seconds_i64 clock) view (led l1 q) (led l' q)"
    "fst ` set hub' = fst ` set hub1"
    using one Cons.prems(3) by simp_all
  have "reconciled_or_kept (ledger_live linv L) oracle (now_unix_seconds_i64 clock) view (led l q) (led l' q)"
    if "q \<in> sk_payment_id ` set (row # rs)" for q
  proof (cases "q = ?id")
    case True
    then have "led l' q = led l1 q" using IH(2) Cons.prems(3) by simp
    then show ?thesis using one True by simp
  next
    case False
    then have "q \<in> sk_payment_id ` set rs" using that by simp
    then show ?thesis using IH(3) False one by (metis (no_types, lifting))
  qed
  then show ?case using IH one hub by simp
qed

text \<open>What one poll does to a ledger of the contract, whatever the store and the chain plane answer.\<close>

lemma poll_effect:
  assumes "linv l" "oracle_fits fits oracle"
    and "poll_oracle_once B oracle P L clock depth p (l, hub, cache) = (l', hub', cache')"
  shows "linv l' \<and> cache' = snd (refresh_chain_view oracle clock cache) \<and> fst ` set hub' = fst ` set hub
    \<and> (\<forall>q. reconciled_or_kept (ledger_live linv L) oracle (now_unix_seconds_i64 clock) (fst (refresh_chain_view oracle clock cache)) (led l q) (led l' q))"
proof -
  obtain view c where v: "refresh_chain_view oracle clock cache = (view, c)" by fastforce
  show ?thesis
  proof (cases "sl_success_kind_transactions L l")
    case (Inl err)
    then have "\<not> ledger_live linv L" using assms(1) unfolding ledger_live_def by (metis sum.disc(1))
    then show ?thesis using assms v Inl by (simp add: poll_oracle_once_def reconciled_or_kept_def)
  next
    case (Inr rs)
    obtain l1 hub1 where r: "reconcile_rows B oracle P L clock view depth p rs (l, hub) = (l1, hub1)" by fastforce
    have res: "l' = l1" "hub' = hub1" "cache' = c" using assms(3) v Inr r by (simp_all add: poll_oracle_once_def)
    have rs: "distinct (map sk_payment_id rs)"
      "set rs = {r. \<exists>p e. led l p = Some e \<and> success_row_of p e = Some r}"
      using ledg.success_ok [OF assms(1) Inr] by simp_all
    have "\<exists>e. led l (sk_payment_id row) = Some e \<and> success_row_of (sk_payment_id row) e = Some row"
      if "row \<in> set rs" for row
      using that unfolding rs(2) by (auto simp: success_row_of_def)
    note eff = reconcile_rows_effect [OF assms(1,2) rs(1) this r]
    have "reconciled_or_kept (ledger_live linv L) oracle (now_unix_seconds_i64 clock) view (led l q) (led l1 q)" for q
    proof (cases "q \<in> sk_payment_id ` set rs")
      case False
      then have "success_row_of q e = None" if "led l q = Some e" for e
        using that unfolding rs(2) by (cases "success_row_of q e") (force simp: success_row_of_def)+
      then have "map_option (reconciled oracle (now_unix_seconds_i64 clock) view) (led l q) = led l q"
        by (cases "led l q") (simp_all add: reconciled_def success_row_of_def)
      then show ?thesis using eff False by (simp add: reconciled_or_kept_def)
    qed (use eff in blast)
    then show ?thesis using eff res v by simp
  qed
qed

end

subsection \<open>Either backend\<close>

lemma any_ledger_live: "ledger_live any_ledger_inv (AnyLedger (\<lambda>_. None) now)"
proof -
  have "\<not> isl (any_success_kind_transactions (\<lambda>_. None) l)" if "any_ledger_inv l" for l
    using that collect_success_decoded
    by (cases l) (simp_all add: ledger_success_kind_transactions_def libsql_success_kind_transactions_def fetch_rows_def query_def
        execute_def attempt_def ledger_inv_def)
  moreover have "\<not> isl (fst (any_record_confirmation (\<lambda>_. None) now p c h l))" for p c h l
    by (cases l) (simp_all add: ledger_record_confirmation_def libsql_record_confirmation_def execute_def attempt_def
        confirm_stmt_def map_store_error_def split: option.splits)
  moreover have "\<not> isl (fst (any_downgrade_on_reorg (\<lambda>_. None) p at l))" for p at l
    by (cases l) (simp_all add: ledger_downgrade_on_reorg_def libsql_downgrade_on_reorg_def execute_def attempt_def
        downgrade_stmt_def map_store_error_def split: option.splits)
  ultimately show ?thesis by (simp add: ledger_live_def)
qed

lemma reconciled_mined:
  assumes "transaction_id (le_broadcast_outcome e) = Some txid" "le_mined_block_height e = None"
    and "co_fetch_confirmations oracle txid = Inr (Mined h c)"
  shows "reconciled oracle at view e = confirm_entry c (Some h) e"
  using assms by (simp add: reconciled_def)

definition ex_oracle :: ConfirmationOracle where
  "ex_oracle = \<lparr>co_fetch_confirmations = (\<lambda>txid. if txid = ''tx'' then Ok (Mined 900 4) else Ok NotFound),
     co_chain_status = Ok (ex_view 1000 900)\<rparr>"

definition ex_bcast :: "(nat, nat) BroadcastLib" where
  "ex_bcast = \<lparr>bl_channel = (\<lambda>_. 0), bl_subscribe = (\<lambda>c. (c, Suc c)), bl_send = (\<lambda>_ c. c),
     bl_receiver_count = (\<lambda>c. c)\<rparr>"

lemma ex_oracle_fits: "oracle_fits fits_i64 ex_oracle"
  by (auto simp: oracle_fits_def ex_oracle_def fits_i64_def i64_max_def split: if_splits)

subsection \<open>Properties\<close>

text \<open>[C35] A confirmation poll is row-wise: on either backend, and whatever faults the transport has, each
  ledger row is afterwards either as it was or the row function \<open>reconciled\<close> of it (mined: confirmed at
  that height; back in the mempool, unknown or conflicting: downgraded when it was mined; settled or
  failed rows and rows the chain plane cannot answer for: untouched), no row appears or disappears, and the
  invariant is kept.  When the backend answers, every row is the row function of its old value, in
  whatever order the rows were visited, and subscribers appear or disappear for none.\<close>

theorem poll_reconciles_rowwise:
  assumes "any_ledger_inv l" "oracle_fits fits_i64 oracle"
    and "poll_oracle_once B oracle (AnyPrepared b64 net) (AnyLedger net' now) clock depth p (l, hub, cache)
           = (l', hub', cache')"
  shows "any_ledger_inv l' \<and> fst ` set hub' = fst ` set hub
    \<and> (\<forall>q. any_ledger_rows l' q = any_ledger_rows l q
         \<or> any_ledger_rows l' q = map_option (reconciled oracle (now_unix_seconds_i64 clock)
              (fst (refresh_chain_view oracle clock cache))) (any_ledger_rows l q))
    \<and> (net' = (\<lambda>_. None) \<longrightarrow>
         any_ledger_rows l' = (\<lambda>q. map_option (reconciled oracle (now_unix_seconds_i64 clock)
              (fst (refresh_chain_view oracle clock cache))) (any_ledger_rows l q)))"
proof -
  have "ledger_live any_ledger_inv (AnyLedger net' now)" if "net' = (\<lambda>_. None)"
    using that any_ledger_live by simp
  then show ?thesis using any_stores.poll_effect [OF assms] by (auto simp: reconciled_or_kept_def)
qed

theorem poll_reconciles_rowwise_witness:
  "\<exists>l' hub' cache'. poll_oracle_once ex_bcast ex_oracle (AnyPrepared ex_b64 (\<lambda>_. None)) (AnyLedger (\<lambda>_. None) 7) 7 3
      (PreparedMemory cache_empty) (LedgerMemory [(''id1'', ex_ledger_entry None None)], hub_new, cache_new) = (l', hub', cache')
    \<and> any_ledger_rows l' ''id1'' = Some (ex_ledger_entry (Some 4) (Some 900))"
proof -
  obtain l' hub' cache' where r: "poll_oracle_once ex_bcast ex_oracle (AnyPrepared ex_b64 (\<lambda>_. None)) (AnyLedger (\<lambda>_. None) 7) 7 3
      (PreparedMemory cache_empty) (LedgerMemory [(''id1'', ex_ledger_entry None None)], hub_new, cache_new) = (l', hub', cache')"
    using prod_cases3 by blast
  have "any_ledger_inv (LedgerMemory [(''id1'', ex_ledger_entry None None)])" by (simp add: hm_wf_def)
  from poll_reconciles_rowwise [OF this ex_oracle_fits r]
  have "any_ledger_rows l' ''id1'' = Some (ex_ledger_entry (Some 4) (Some 900))"
    by (simp add: reconciled_def ex_oracle_def ex_ledger_entry_def confirm_entry_def)
  then show ?thesis using r by blast
qed

text \<open>[C36] Mined payments settle: on either backend that answers, after one poll that sees an unmined broadcast
  payment mined with a confirmation at a height at or below the settled tip it read, every status lookup
  under the refreshed chain view reports the payment settled at that height, and its stream closes.\<close>

theorem poll_settles_mined_payment:
  assumes "any_ledger_inv l" "any_prepared_inv p" "oracle_fits fits_i64 oracle"
    and "poll_oracle_once B oracle (AnyPrepared b64 net) (AnyLedger (\<lambda>_. None) now) clock depth p (l, hub, cache)
           = (l', hub', cache')"
    and "any_ledger_rows l q = Some e" "transaction_id (le_broadcast_outcome e) = Some txid"
    and "le_mined_block_height e = None" "co_fetch_confirmations oracle txid = Inr (Mined h c)" "1 \<le> c"
    and "co_chain_status oracle = Inr view" "view = \<lparr>visible_tip_height = Some v, settled_tip_height = Some s\<rparr>" "h \<le> s"
    and "lookup_payment_status (AnyPrepared b64 net2) (AnyLedger net3 now3) now4 q depth' (cache_load cache') p l' = Ok snap"
  shows "sn_settled snap \<and> stream_closed snap \<and> sn_mined_block_height snap = Some h"
proof -
  note eff = any_stores.poll_effect [OF assms(1,3,4)]
  have row: "any_ledger_rows l' q = Some (confirm_entry c (Some h) e)"
    using eff any_ledger_live reconciled_mined [OF assms(6-8)] assms(5) by (auto simp: reconciled_or_kept_def)
  have "cache_load cache' = view" using eff assms(10,11) by (simp add: refresh_chain_view_def)
  moreover have "snap = project_rows now4 q depth' (cache_load cache') (any_ledger_rows l' q) (any_prepared_rows b64 p q)"
    using any_stores.lookup_projects [OF assms(2) _ assms(13)] eff by blast
  moreover have "is_success (le_broadcast_outcome e)" using assms(6) by (simp add: is_success_iff_transaction_id)
  ultimately show ?thesis using row assms(9,11,12)
    by (simp add: project_rows_def ledger_snapshot_def classify_success_row_def confirm_entry_def is_settled_at_def
        stream_closed_def)
qed

theorem poll_settles_mined_payment_witness:
  "\<exists>l' hub' cache' snap. poll_oracle_once ex_bcast ex_oracle (AnyPrepared ex_b64 (\<lambda>_. None)) (AnyLedger (\<lambda>_. None) 7) 7 3
      (PreparedMemory cache_empty) (LedgerMemory [(''id1'', ex_ledger_entry None None)], hub_new, cache_new) = (l', hub', cache')
    \<and> lookup_payment_status (AnyPrepared ex_b64 (\<lambda>_. None)) (AnyLedger (\<lambda>_. None) 8) 8 ''id1'' 3 (cache_load cache')
        (PreparedMemory cache_empty) l' = Ok snap \<and> sn_settled snap"
proof -
  let ?l = "LedgerMemory [(''id1'', ex_ledger_entry None None)]" and ?p = "PreparedMemory cache_empty"
  obtain l' hub' cache' where r: "poll_oracle_once ex_bcast ex_oracle (AnyPrepared ex_b64 (\<lambda>_. None)) (AnyLedger (\<lambda>_. None) 7) 7 3
      ?p (?l, hub_new, cache_new) = (l', hub', cache')"
    using prod_cases3 by blast
  then have "l' = LedgerMemory [(''id1'', ex_ledger_entry (Some 4) (Some 900))]"
    by (simp add: poll_oracle_once_def refresh_chain_view_def ex_oracle_def ex_view_def ledger_success_kind_transactions_def
        List.map_filter_simps ex_ledger_entry_def row_settled_def reconcile_unsettled_row_def ledger_record_confirmation_def
        confirm_entry_def Let_def split: prod.splits)
  then obtain snap where s: "lookup_payment_status (AnyPrepared ex_b64 (\<lambda>_. None)) (AnyLedger (\<lambda>_. None) 8) 8 ''id1'' 3
      (cache_load cache') ?p l' = Ok snap"
    by (simp add: lookup_payment_status_def ledger_find_def)
  have "sn_settled snap \<and> stream_closed snap \<and> sn_mined_block_height snap = Some 900"
    by (rule poll_settles_mined_payment [OF _ _ ex_oracle_fits r _ _ _ _ _ _ _ _ s, where c = 4 and s = 900
        and e = "ex_ledger_entry None None" and txid = "''tx''"])
      (simp_all add: hm_wf_def cache_inv_empty ex_ledger_entry_def ex_oracle_def ex_view_def)
  then show ?thesis using r s by blast
qed

end
