(* ===== verification/Chain_Events.thy ===== *)
theory Chain_Events
  imports Reconcile
begin

text \<open>
  The live chain-event subscription (\<open>zpay-runtime/src/chain_events.rs\<close>): the generic
  subscribe, drain and resume loop over an event source and a sink, the production source over
  the chain plane's client, and the production sink over the stores.  An opened stream is the list of
  the items it yields before it ends.  The client library is a parameter.  The production loop never
  ends, so \<open>run_loop\<close> takes the number of subscription attempts it may make; every statement is
  about all such numbers.
\<close>

definition RECONNECT_BACKOFF_INITIAL_SECONDS :: nat where "RECONNECT_BACKOFF_INITIAL_SECONDS = 1"
definition RECONNECT_BACKOFF_MAX_SECONDS :: nat where "RECONNECT_BACKOFF_MAX_SECONDS = 30"

datatype 'c Resume = LiveTail | After 'c

record 'c Delivery =
  dl_visible_tip :: u64
  dl_settled_tip :: u64
  dl_cursor :: 'c
  dl_reverted :: "(u64 \<times> u64) option"

datatype 'c StreamItem = Delivered "'c Delivery" | ItemCursorExpired | Disconnect

datatype 'c SubscribeOutcome = Open "'c StreamItem list" | SubscribeCursorExpired | Reconnect | Stop

datatype DrainStop = StopCursorExpired | StopReconnect

text \<open>The traits: a source with its own state, and the sink as four state transformers.\<close>

type_synonym ('c, 's) EventSource = "'c Resume \<Rightarrow> 's \<Rightarrow> 'c SubscribeOutcome \<times> 's"

record 'k LoopSink =
  ks_reconcile :: "'k \<Rightarrow> 'k"
  ks_store_chain_view :: "u64 \<Rightarrow> u64 \<Rightarrow> 'k \<Rightarrow> 'k"
  ks_handle_reorg :: "u64 \<Rightarrow> u64 \<Rightarrow> 'k \<Rightarrow> 'k"
  ks_backoff_sleep :: "nat \<Rightarrow> 'k \<Rightarrow> 'k"

definition grow :: "nat \<Rightarrow> nat" where
  "grow backoff = min (backoff * 2) RECONNECT_BACKOFF_MAX_SECONDS"

definition apply_delivery :: "'k LoopSink \<Rightarrow> 'c Delivery \<Rightarrow> 'k \<Rightarrow> 'k" where
  "apply_delivery K d k =
    (let k1 = ks_store_chain_view K (dl_visible_tip d) (dl_settled_tip d) k in
     case dl_reverted d of None \<Rightarrow> k1 | Some (start_height, end_height) \<Rightarrow> ks_handle_reorg K start_height end_height k1)"

fun drain_from ::
  "'k LoopSink \<Rightarrow> 'c StreamItem list \<Rightarrow> bool \<Rightarrow> 'c Resume \<Rightarrow> 'k \<Rightarrow> (DrainStop \<times> bool) \<times> 'c Resume \<times> 'k" where
  "drain_from K [] progressed resume k = ((StopReconnect, progressed), resume, k)"
| "drain_from K (Delivered d # items) progressed resume k =
     drain_from K items True (After (dl_cursor d)) (apply_delivery K d k)"
| "drain_from K (ItemCursorExpired # items) progressed resume k = ((StopCursorExpired, progressed), resume, k)"
| "drain_from K (Disconnect # items) progressed resume k = ((StopReconnect, progressed), resume, k)"

definition drain ::
  "'k LoopSink \<Rightarrow> 'c StreamItem list \<Rightarrow> 'c Resume \<Rightarrow> 'k \<Rightarrow> (DrainStop \<times> bool) \<times> 'c Resume \<times> 'k" where
  "drain K stream resume k = drain_from K stream False resume k"

fun subscribe_loop ::
  "nat \<Rightarrow> ('c, 's) EventSource \<Rightarrow> 'k LoopSink \<Rightarrow> 'c Resume \<Rightarrow> nat \<Rightarrow> 's \<Rightarrow> 'k \<Rightarrow> 'c Resume \<times> nat \<times> 's \<times> 'k" where
  "subscribe_loop 0 src K resume backoff s k = (resume, backoff, s, k)"
| "subscribe_loop (Suc n) src K resume backoff s k =
    (case src resume s of
       (Open stream, s') \<Rightarrow>
         (case drain K stream resume k of
            ((stop, progressed), resume', k') \<Rightarrow>
              let backoff' = (if progressed then RECONNECT_BACKOFF_INITIAL_SECONDS else backoff) in
              (case stop of
                 StopCursorExpired \<Rightarrow> subscribe_loop n src K LiveTail backoff' s' (ks_reconcile K k')
               | StopReconnect \<Rightarrow>
                   subscribe_loop n src K resume' (grow backoff') s' (ks_backoff_sleep K backoff' k')))
     | (SubscribeCursorExpired, s') \<Rightarrow> subscribe_loop n src K LiveTail backoff s' (ks_reconcile K k)
     | (Reconnect, s') \<Rightarrow> subscribe_loop n src K resume (grow backoff) s' (ks_backoff_sleep K backoff k)
     | (Stop, s') \<Rightarrow> (resume, backoff, s', k))"

definition run_loop ::
  "nat \<Rightarrow> ('c, 's) EventSource \<Rightarrow> 'k LoopSink \<Rightarrow> 's \<Rightarrow> 'k \<Rightarrow> 'c Resume \<times> nat \<times> 's \<times> 'k" where
  "run_loop n src K s k =
     subscribe_loop n src K LiveTail RECONNECT_BACKOFF_INITIAL_SECONDS s (ks_reconcile K k)"

subsection \<open>The production source\<close>

text \<open>What the code names of the client's types; \<open>OtherEvent\<close> and \<open>IndexerOther\<close> stand for
  every other variant.\<close>

record BlockRange =
  br_start :: u32
  br_end :: u32

datatype ChainEvent = ChainReorged BlockRange | OtherEvent

record ChainEpoch =
  ep_visible_tip_height :: u32
  ep_settled_tip_height :: u32

record 'c ChainEventEnvelope =
  en_event :: ChainEvent
  en_chain_epoch :: ChainEpoch
  en_cursor :: 'c

datatype IndexerError = FailedPrecondition string | InvalidRequest string | IndexerOther string

datatype 'c EventStreamStart = StartLiveTail | AfterCursor 'c

type_synonym ('c, 's) ChainIndexEvents =
  "'c EventStreamStart \<Rightarrow> 's \<Rightarrow> (IndexerError + (IndexerError + 'c ChainEventEnvelope) list) \<times> 's"

fun is_cursor_error :: "IndexerError \<Rightarrow> bool" where
  "is_cursor_error (FailedPrecondition _) = True"
| "is_cursor_error (InvalidRequest reason) = contains reason ''cursor''"
| "is_cursor_error (IndexerOther _) = False"

definition delivery_from_envelope :: "'c ChainEventEnvelope \<Rightarrow> 'c Delivery" where
  "delivery_from_envelope envelope =
    \<lparr>dl_visible_tip = ucast (ep_visible_tip_height (en_chain_epoch envelope)),
     dl_settled_tip = ucast (ep_settled_tip_height (en_chain_epoch envelope)),
     dl_cursor = en_cursor envelope,
     dl_reverted = (case en_event envelope of
        ChainReorged reverted \<Rightarrow> Some (ucast (br_start reverted), ucast (br_end reverted))
      | OtherEvent \<Rightarrow> None)\<rparr>"

definition next_item :: "IndexerError + 'c ChainEventEnvelope \<Rightarrow> 'c StreamItem" where
  "next_item item =
    (case item of
       Inr envelope \<Rightarrow> Delivered (delivery_from_envelope envelope)
     | Inl err \<Rightarrow> if is_cursor_error err then ItemCursorExpired else Disconnect)"

definition remote_subscribe :: "('c, 's) ChainIndexEvents \<Rightarrow> ('c, 's) EventSource" where
  "remote_subscribe chain_events resume s =
    (let start = (case resume of LiveTail \<Rightarrow> StartLiveTail | After cursor \<Rightarrow> AfterCursor cursor) in
     case chain_events start s of
       (Inr stream, s') \<Rightarrow> (Open (map next_item stream), s')
     | (Inl err, s') \<Rightarrow> (if is_cursor_error err then SubscribeCursorExpired else Reconnect, s'))"

subsection \<open>The production sink\<close>

type_synonym ('l, 'c) RuntimeState = "'l \<times> 'c PaymentEventHub \<times> ChainStatusCache"

fun publish_downgraded ::
  "('c, 'r) BroadcastLib \<Rightarrow> 'p PreparedTxStore \<Rightarrow> 'l SettlementLedgerStore \<Rightarrow> int \<Rightarrow> ChainStatusView \<Rightarrow> u32
    \<Rightarrow> 'p \<Rightarrow> 'l \<Rightarrow> PaymentId list \<Rightarrow> 'c PaymentEventHub \<Rightarrow> 'c PaymentEventHub" where
  "publish_downgraded B P L clock view depth p l [] hub = hub"
| "publish_downgraded B P L clock view depth p l (pid # pids) hub =
     publish_downgraded B P L clock view depth p l pids
       (if has_subscribers B pid hub then publish_snapshot B P L clock view depth pid p l hub else hub)"

definition handle_reorg ::
  "('c, 'r) BroadcastLib \<Rightarrow> 'p PreparedTxStore \<Rightarrow> 'l SettlementLedgerStore \<Rightarrow> int \<Rightarrow> u32 \<Rightarrow> 'p
    \<Rightarrow> u64 \<Rightarrow> u64 \<Rightarrow> ('l, 'c) RuntimeState \<Rightarrow> ('l, 'c) RuntimeState" where
  "handle_reorg B P L clock depth p start_height end_height st =
    (let (l, hub, cache) = st in
     case sl_downgrade_reorged_range L start_height end_height (now_unix_seconds_i64 clock) l of
       (Inl err, l') \<Rightarrow> (l', hub, cache)
     | (Inr downgraded, l') \<Rightarrow>
         if downgraded = [] then (l', hub, cache)
         else (l', publish_downgraded B P L clock (cache_load cache) depth p l' downgraded hub, cache))"

text \<open>Each sink call reads the clock anew: the state counts the calls and \<open>clock n\<close> is the reading
  of the \<open>n\<close>-th.\<close>

definition ticked ::
  "(nat \<Rightarrow> int) \<Rightarrow> (int \<Rightarrow> 'st \<Rightarrow> 'st) \<Rightarrow> 'st \<times> nat \<Rightarrow> 'st \<times> nat" where
  "ticked clock f sn = (case sn of (st, n) \<Rightarrow> (f (clock n) st, Suc n))"

definition RuntimeSink ::
  "('c, 'r) BroadcastLib \<Rightarrow> ConfirmationOracle \<Rightarrow> 'p PreparedTxStore \<Rightarrow> 'l SettlementLedgerStore \<Rightarrow> (nat \<Rightarrow> int)
    \<Rightarrow> u32 \<Rightarrow> 'p \<Rightarrow> (('l, 'c) RuntimeState \<times> nat) LoopSink" where
  "RuntimeSink B oracle P L clock depth p =
    \<lparr>ks_reconcile = ticked clock (\<lambda>now. poll_oracle_once B oracle P L now depth p),
     ks_store_chain_view = (\<lambda>visible settled. ticked clock (\<lambda>now (l, hub, cache).
        (l, hub, cache_store (now_unix_seconds now) visible settled cache))),
     ks_handle_reorg = (\<lambda>lo hi. ticked clock (\<lambda>now. handle_reorg B P L now depth p lo hi)),
     ks_backoff_sleep = (\<lambda>backoff sn. sn)\<rparr>"

subsection \<open>The loop acts on the sink through its calls only\<close>

datatype SinkCall = CallReconcile | CallStore u64 u64 | CallReorg u64 u64 | CallSleep nat

definition TraceSink :: "SinkCall list LoopSink" where
  "TraceSink = \<lparr>ks_reconcile = (\<lambda>tr. tr @ [CallReconcile]),
     ks_store_chain_view = (\<lambda>v s tr. tr @ [CallStore v s]),
     ks_handle_reorg = (\<lambda>a b tr. tr @ [CallReorg a b]),
     ks_backoff_sleep = (\<lambda>b tr. tr @ [CallSleep b])\<rparr>"

fun perform :: "'k LoopSink \<Rightarrow> SinkCall \<Rightarrow> 'k \<Rightarrow> 'k" where
  "perform K CallReconcile = ks_reconcile K"
| "perform K (CallStore v s) = ks_store_chain_view K v s"
| "perform K (CallReorg a b) = ks_handle_reorg K a b"
| "perform K (CallSleep b) = ks_backoff_sleep K b"

definition delivery_calls :: "'c Delivery \<Rightarrow> SinkCall list" where
  "delivery_calls d = CallStore (dl_visible_tip d) (dl_settled_tip d) #
     (case dl_reverted d of None \<Rightarrow> [] | Some (a, b) \<Rightarrow> [CallReorg a b])"

fun deliveries :: "'c StreamItem list \<Rightarrow> 'c Delivery list" where
  "deliveries (Delivered d # items) = d # deliveries items"
| "deliveries _ = []"

fun stop_of :: "'c StreamItem list \<Rightarrow> DrainStop" where
  "stop_of (Delivered d # items) = stop_of items"
| "stop_of (ItemCursorExpired # items) = StopCursorExpired"
| "stop_of _ = StopReconnect"

definition resume_after :: "'c Resume \<Rightarrow> 'c Delivery list \<Rightarrow> 'c Resume" where
  "resume_after r ds = (if ds = [] then r else After (dl_cursor (last ds)))"

lemma TraceSink_ops [simp]:
  "ks_reconcile TraceSink tr = tr @ [CallReconcile]"
  "ks_store_chain_view TraceSink v s tr = tr @ [CallStore v s]"
  "ks_handle_reorg TraceSink a b tr = tr @ [CallReorg a b]"
  "ks_backoff_sleep TraceSink n tr = tr @ [CallSleep n]"
  by (simp_all add: TraceSink_def)

lemma apply_delivery_perform: "apply_delivery K d k = fold (perform K) (delivery_calls d) k"
  by (simp add: apply_delivery_def delivery_calls_def Let_def split: option.splits prod.splits)

lemma apply_delivery_trace: "apply_delivery TraceSink d tr = tr @ delivery_calls d"
  by (simp add: apply_delivery_def delivery_calls_def Let_def split: option.splits prod.splits)

lemma drain_from_eq:
  "drain_from K items progressed resume k =
     ((stop_of items, progressed \<or> deliveries items \<noteq> []), resume_after resume (deliveries items),
      fold (perform K) (concat (map delivery_calls (deliveries items))) k)"
  by (induction K items progressed resume k rule: drain_from.induct)
    (auto simp: apply_delivery_perform resume_after_def)

lemma fold_perform_trace: "fold (perform TraceSink) cs tr = tr @ cs"
proof (induction cs arbitrary: tr)
  case (Cons c cs)
  then show ?case by (cases c) simp_all
qed simp

lemma drain_trace:
  "drain TraceSink items resume tr =
     ((stop_of items, deliveries items \<noteq> []), resume_after resume (deliveries items),
      tr @ concat (map delivery_calls (deliveries items)))"
  by (simp add: drain_def drain_from_eq fold_perform_trace)

lemma subscribe_loop_trace:
  "subscribe_loop n src K resume backoff s (fold (perform K) tr k) =
    (case subscribe_loop n src TraceSink resume backoff s tr of
       (r', b', s', tr') \<Rightarrow> (r', b', s', fold (perform K) tr' k))"
proof (induction n arbitrary: resume backoff s tr)
  case (Suc n)
  have snoc: "perform K c (fold (perform K) tr k) = fold (perform K) (tr @ [c]) k" for c tr by simp
  obtain out s' where src: "src resume s = (out, s')" by fastforce
  show ?case
  proof (cases out)
    case (Open stream)
    let ?tr = "tr @ concat (map delivery_calls (deliveries stream))"
      and ?b = "if deliveries stream \<noteq> [] then RECONNECT_BACKOFF_INITIAL_SECONDS else backoff"
    have "drain K stream resume (fold (perform K) tr k) =
        ((stop_of stream, deliveries stream \<noteq> []), resume_after resume (deliveries stream), fold (perform K) ?tr k)"
      by (simp add: drain_def drain_from_eq)
    then show ?thesis
      using Suc.IH [of _ _ _ "?tr @ [CallReconcile]"] Suc.IH [of _ _ _ "?tr @ [CallSleep ?b]"] src Open
      by (cases "stop_of stream") (simp_all add: drain_trace Let_def)
  next
    case SubscribeCursorExpired
    then show ?thesis using Suc.IH [of _ _ _ "tr @ [CallReconcile]"] src by simp
  next
    case Reconnect
    then show ?thesis using Suc.IH [of _ _ _ "tr @ [CallSleep backoff]"] src by simp
  qed (simp add: src)
qed simp

subsection \<open>No event is skipped between two sweeps\<close>

text \<open>The documented behaviour of the client: the chain plane keeps one log of events, a live-tail
  subscription yields consecutive events of it, and a subscription after a cursor yields the events that
  follow the event with that cursor.\<close>

definition follows_log :: "'c Delivery list \<Rightarrow> ('c, 's) EventSource \<Rightarrow> bool" where
  "follows_log log src \<longleftrightarrow> (\<forall>s s' stream. src LiveTail s = (Open stream, s') \<longrightarrow> sublist (deliveries stream) log)
     \<and> (\<forall>c s s' stream. src (After c) s = (Open stream, s') \<longrightarrow>
          (\<exists>pre d suf. log = pre @ d # suf \<and> dl_cursor d = c \<and> prefix (deliveries stream) suf))"

definition seg_calls :: "'c Delivery list \<Rightarrow> SinkCall list" where
  "seg_calls seg = CallReconcile # concat (map delivery_calls seg)"

fun is_sleep :: "SinkCall \<Rightarrow> bool" where
  "is_sleep (CallSleep _) = True"
| "is_sleep _ = False"

text \<open>A trace is made of segments, each opened by a sweep; the last one is where the cursor stands.\<close>

definition in_segments :: "'c Delivery list \<Rightarrow> 'c Resume \<Rightarrow> SinkCall list \<Rightarrow> bool" where
  "in_segments log resume tr \<longleftrightarrow> (\<exists>segs cur. filter (\<lambda>c. \<not> is_sleep c) tr = concat (map seg_calls (segs @ [cur]))
     \<and> (\<forall>seg \<in> set (segs @ [cur]). sublist seg log)
     \<and> (case resume of LiveTail \<Rightarrow> cur = [] | After c \<Rightarrow> cur \<noteq> [] \<and> dl_cursor (last cur) = c))"

lemma delivery_calls_no_sleep: "c \<in> set (delivery_calls d) \<Longrightarrow> \<not> is_sleep c"
  by (auto simp: delivery_calls_def split: option.splits)

lemma filter_calls [simp]:
  "filter (\<lambda>c. \<not> is_sleep c) (concat (map delivery_calls ds)) = concat (map delivery_calls ds)"
  by (rule filter_True) (auto dest: delivery_calls_no_sleep)

lemma sublist_extend:
  assumes "distinct (map dl_cursor log)" "sublist cur log" "cur \<noteq> []"
    and "log = pre @ d # suf" "dl_cursor d = dl_cursor (last cur)" "prefix ds suf"
  shows "sublist (cur @ ds) log"
proof -
  obtain a b where ab: "log = a @ cur @ b" using assms(2) by (auto simp: sublist_def)
  then have split: "log = (a @ butlast cur) @ last cur # b" using assms(3) by simp
  have d: "d = last cur" using assms(1,4,5) split
    by (metis distinct_map inj_onD in_set_conv_decomp)
  have "distinct (pre @ d # suf)" using assms(1) by (simp only: distinct_map assms(4))
  then have "d \<notin> set pre" "d \<notin> set suf" by auto
  then have "suf = b" using assms(4) split d by (metis append_Cons_eq_iff)
  then obtain r where "b = ds @ r" using assms(6) by (auto simp: prefix_def)
  then show ?thesis using ab by (auto simp: sublist_def)
qed

lemma in_segments_open:
  assumes "in_segments log resume tr" "follows_log log src" "distinct (map dl_cursor log)"
    and "src resume s = (Open stream, s')"
  shows "in_segments log (resume_after resume (deliveries stream)) (tr @ concat (map delivery_calls (deliveries stream)))"
proof -
  let ?ds = "deliveries stream"
  obtain segs cur where inv: "filter (\<lambda>c. \<not> is_sleep c) tr = concat (map seg_calls (segs @ [cur]))"
    "\<forall>seg \<in> set (segs @ [cur]). sublist seg log"
    "case resume of LiveTail \<Rightarrow> cur = [] | After c \<Rightarrow> cur \<noteq> [] \<and> dl_cursor (last cur) = c"
    using assms(1) unfolding in_segments_def by blast
  have "sublist (cur @ ?ds) log"
  proof (cases resume)
    case LiveTail
    then show ?thesis using inv(3) assms(2,4) by (simp add: follows_log_def)
  next
    case (After c)
    then obtain pre d suf where "log = pre @ d # suf" "dl_cursor d = c" "prefix ?ds suf"
      using assms(2,4) unfolding follows_log_def by blast
    then show ?thesis using sublist_extend [OF assms(3), of cur pre d suf ?ds] inv(2,3) After by simp
  qed
  then have "filter (\<lambda>c. \<not> is_sleep c) (tr @ concat (map delivery_calls ?ds)) = concat (map seg_calls (segs @ [cur @ ?ds]))"
    "\<forall>seg \<in> set (segs @ [cur @ ?ds]). sublist seg log"
    "case resume_after resume ?ds of LiveTail \<Rightarrow> cur @ ?ds = [] | After c \<Rightarrow> cur @ ?ds \<noteq> [] \<and> dl_cursor (last (cur @ ?ds)) = c"
    using inv by (simp_all add: seg_calls_def resume_after_def split: Resume.splits)
  then show ?thesis unfolding in_segments_def by blast
qed

lemma in_segments_sleep: "in_segments log resume tr \<Longrightarrow> in_segments log resume (tr @ [CallSleep b])"
  by (simp add: in_segments_def)

lemma in_segments_reconcile:
  assumes "in_segments log resume tr"
  shows "in_segments log LiveTail (tr @ [CallReconcile])"
proof -
  obtain segs cur where inv: "filter (\<lambda>c. \<not> is_sleep c) tr = concat (map seg_calls (segs @ [cur]))"
    "\<forall>seg \<in> set (segs @ [cur]). sublist seg log"
    using assms unfolding in_segments_def by blast
  then have "filter (\<lambda>c. \<not> is_sleep c) (tr @ [CallReconcile]) = concat (map seg_calls ((segs @ [cur]) @ [[]]))"
    "\<forall>seg \<in> set ((segs @ [cur]) @ [[]]). sublist seg log"
    by (simp_all add: seg_calls_def)
  then show ?thesis unfolding in_segments_def by fastforce
qed

lemma subscribe_loop_segments:
  assumes "in_segments log resume tr" "follows_log log src" "distinct (map dl_cursor log)"
    and "subscribe_loop n src TraceSink resume backoff s tr = (r', b', s', tr')"
  shows "in_segments log r' tr'"
  using assms(1,4)
proof (induction n arbitrary: resume backoff s tr)
  case (Suc n)
  obtain out s1 where src: "src resume s = (out, s1)" by fastforce
  show ?case
  proof (cases out)
    case (Open stream)
    note seg = in_segments_open [OF Suc.prems(1) assms(2,3) src [unfolded Open]]
    show ?thesis
      using Suc.IH [OF in_segments_reconcile [OF seg]] Suc.IH [OF in_segments_sleep [OF seg]] Suc.prems(2) src Open
      by (cases "stop_of stream") (auto simp: drain_trace Let_def)
  next
    case SubscribeCursorExpired
    then show ?thesis using Suc.IH [OF in_segments_reconcile [OF Suc.prems(1)]] Suc.prems(2) src by simp
  next
    case Reconnect
    then show ?thesis using Suc.IH [OF in_segments_sleep [OF Suc.prems(1)]] Suc.prems(2) src by simp
  next
    case Stop
    then show ?thesis using Suc.prems src by simp
  qed
qed simp

subsection \<open>Backoff\<close>

text \<open>The waits a trace may contain when the next one is \<open>b\<close>: a wait is exactly the expected one and
  doubles the next up to the cap; a delivered event resets it.\<close>

fun paced :: "nat \<Rightarrow> SinkCall list \<Rightarrow> bool" where
  "paced b [] = True"
| "paced b (CallSleep x # tr) = (x = b \<and> paced (min (2 * b) 30) tr)"
| "paced b (CallStore _ _ # tr) = paced 1 tr"
| "paced b (CallReorg _ _ # tr) = paced b tr"
| "paced b (CallReconcile # tr) = paced b tr"

fun next_wait :: "nat \<Rightarrow> SinkCall list \<Rightarrow> nat" where
  "next_wait b [] = b"
| "next_wait b (CallSleep x # tr) = next_wait (min (2 * b) 30) tr"
| "next_wait b (CallStore _ _ # tr) = next_wait 1 tr"
| "next_wait b (CallReorg _ _ # tr) = next_wait b tr"
| "next_wait b (CallReconcile # tr) = next_wait b tr"

lemma paced_append: "paced b (tr @ tr') \<longleftrightarrow> paced b tr \<and> paced (next_wait b tr) tr'"
  by (induction b tr rule: paced.induct) auto

lemma next_wait_append: "next_wait b (tr @ tr') = next_wait (next_wait b tr) tr'"
  by (induction b tr rule: paced.induct) auto

lemma paced_delivery: "paced b (delivery_calls d) \<and> next_wait b (delivery_calls d) = 1"
  by (auto simp: delivery_calls_def split: option.splits)

lemma paced_deliveries:
  "paced b (concat (map delivery_calls ds))
    \<and> next_wait b (concat (map delivery_calls ds)) = (if ds = [] then b else 1)"
  by (induction ds arbitrary: b) (simp_all add: paced_append next_wait_append paced_delivery)

lemma paced_bounds: "paced b tr \<Longrightarrow> 1 \<le> b \<Longrightarrow> b \<le> 30 \<Longrightarrow> CallSleep x \<in> set tr \<Longrightarrow> 1 \<le> x \<and> x \<le> 30"
  by (induction b tr rule: paced.induct) auto

lemma subscribe_loop_paced:
  assumes "paced b0 tr" "backoff = next_wait b0 tr"
    and "subscribe_loop n src TraceSink resume backoff s tr = (r', b', s', tr')"
  shows "paced b0 tr'"
  using assms
proof (induction n arbitrary: resume backoff s tr)
  case (Suc n)
  obtain out s1 where src: "src resume s = (out, s1)" by fastforce
  show ?case
  proof (cases out)
    case (Open stream)
    let ?tr = "tr @ concat (map delivery_calls (deliveries stream))"
    let ?b = "if deliveries stream \<noteq> [] then RECONNECT_BACKOFF_INITIAL_SECONDS else backoff"
    have p: "paced b0 ?tr" "?b = next_wait b0 ?tr"
      using Suc.prems(1,2) paced_deliveries [of backoff "deliveries stream"]
      by (simp_all add: paced_append next_wait_append RECONNECT_BACKOFF_INITIAL_SECONDS_def)
    then have "paced b0 (?tr @ [CallReconcile])" "?b = next_wait b0 (?tr @ [CallReconcile])"
      "paced b0 (?tr @ [CallSleep ?b])" "grow ?b = next_wait b0 (?tr @ [CallSleep ?b])"
      by (simp_all only: paced_append next_wait_append)
        (simp_all add: grow_def RECONNECT_BACKOFF_MAX_SECONDS_def mult.commute)
    then show ?thesis
      using Suc.IH [of "?tr @ [CallReconcile]" ?b] Suc.IH [of "?tr @ [CallSleep ?b]" "grow ?b"] Suc.prems(3) src Open
      by (cases "stop_of stream") (simp_all add: drain_trace Let_def)
  next
    case SubscribeCursorExpired
    then show ?thesis using Suc.IH [of "tr @ [CallReconcile]" backoff] Suc.prems src
      by (simp add: paced_append next_wait_append)
  next
    case Reconnect
    then show ?thesis using Suc.IH [of "tr @ [CallSleep backoff]" "grow backoff"] Suc.prems src
      by (simp add: paced_append next_wait_append grow_def RECONNECT_BACKOFF_MAX_SECONDS_def mult.commute)
  next
    case Stop
    then show ?thesis using Suc.prems src by simp
  qed
qed simp

subsection \<open>Properties\<close>

definition ex_delivery :: "nat \<Rightarrow> (u64 \<times> u64) option \<Rightarrow> nat Delivery" where
  "ex_delivery n reverted = \<lparr>dl_visible_tip = 1000, dl_settled_tip = 900, dl_cursor = n, dl_reverted = reverted\<rparr>"

definition ex_log :: "nat Delivery list" where
  "ex_log = [ex_delivery 0 None, ex_delivery 1 (Some (950, 960)), ex_delivery 2 None]"

text \<open>A source over the log that yields one event per subscription and then drops the connection.\<close>

definition ex_source :: "(nat, unit) EventSource" where
  "ex_source resume s =
    (case resume of LiveTail \<Rightarrow> (Open [Delivered (ex_log ! 0), Disconnect], s)
     | After c \<Rightarrow> if c < 2 then (Open [Delivered (ex_log ! Suc c), Disconnect], s) else (Stop, s))"

lemma ex_source_follows: "follows_log ex_log ex_source"
proof -
  have "\<exists>pre d suf. ex_log = pre @ d # suf \<and> dl_cursor d = c \<and> prefix [ex_log ! Suc c] suf" if "c < 2" for c
  proof (cases "c = 0")
    case True
    then show ?thesis
      by (intro exI [of _ "[]"] exI [of _ "ex_log ! 0"] exI [of _ "tl ex_log"]) (simp add: ex_log_def ex_delivery_def)
  next
    case False
    then have "c = 1" using that by simp
    then show ?thesis
      by (intro exI [of _ "[ex_log ! 0]"] exI [of _ "ex_log ! 1"] exI [of _ "[ex_log ! 2]"])
        (simp add: ex_log_def ex_delivery_def numeral_2_eq_2)
  qed
  moreover have "sublist [ex_log ! 0] ex_log" by (simp add: ex_log_def)
  ultimately show ?thesis
    unfolding follows_log_def by (auto simp: ex_source_def split: if_splits)
qed

text \<open>[C37] The subscription loop skips no chain event between two sweeps: when the chain plane serves one log with
  unique cursors, then after any number of subscription attempts, reconnects, mid-stream failures
  and cursor expiries, the effects on the sink, whatever sink it is, are a first sweep and then
  runs of consecutive events of the log, each event applied once and in order (chain view, then reverted range), with
  a full sweep before every run that does not continue the one before; the waits aside, nothing else is done.\<close>

theorem chain_events_gap_free:
  assumes "follows_log log src" "distinct (map dl_cursor log)" "run_loop n src K s k = (r', b', s', k')"
  shows "\<exists>tr segs. k' = fold (perform K) tr k
    \<and> filter (\<lambda>c. \<not> is_sleep c) tr = concat (map seg_calls segs) \<and> segs \<noteq> []
    \<and> (\<forall>seg \<in> set segs. sublist seg log)"
proof -
  let ?b = RECONNECT_BACKOFF_INITIAL_SECONDS
  obtain r2 b2 s2 tr where t: "subscribe_loop n src TraceSink LiveTail ?b s [CallReconcile] = (r2, b2, s2, tr)"
    by (metis prod_cases4)
  have "k' = fold (perform K) tr k"
    using subscribe_loop_trace [of n src K LiveTail ?b s "[CallReconcile]" k] t assms(3) by (simp add: run_loop_def)
  moreover have "in_segments log LiveTail [CallReconcile]"
    unfolding in_segments_def by (rule exI [of _ "[]"], rule exI [of _ "[]"]) (simp add: seg_calls_def)
  then have "in_segments log r2 tr" by (rule subscribe_loop_segments [OF _ assms(1,2) t])
  then obtain segs cur where "filter (\<lambda>c. \<not> is_sleep c) tr = concat (map seg_calls (segs @ [cur]))"
    "\<forall>seg \<in> set (segs @ [cur]). sublist seg log"
    unfolding in_segments_def by blast
  ultimately show ?thesis by (intro exI [of _ tr] exI [of _ "segs @ [cur]"]) simp
qed

theorem chain_events_gap_free_witness:
  "\<exists>tr (segs :: nat Delivery list list). run_loop 5 ex_source TraceSink () [] = (After 2, 2, (), tr)
    \<and> tr = fold (perform TraceSink) tr []
    \<and> filter (\<lambda>c. \<not> is_sleep c) tr = concat (map seg_calls segs) \<and> (\<forall>seg \<in> set segs. sublist seg ex_log)"
proof -
  obtain tr where run: "run_loop 5 ex_source TraceSink () [] = (After 2, 2, (), tr)"
    by (simp add: run_loop_def ex_source_def drain_def ex_log_def ex_delivery_def apply_delivery_def
        RECONNECT_BACKOFF_INITIAL_SECONDS_def grow_def RECONNECT_BACKOFF_MAX_SECONDS_def eval_nat_numeral)
  have "distinct (map dl_cursor ex_log)" by (simp add: ex_log_def ex_delivery_def)
  from chain_events_gap_free [OF ex_source_follows this run]
  show ?thesis using run by (auto simp: fold_perform_trace)
qed

text \<open>Reconnect waits are exact: whatever the source does, the first wait is one second, each further wait
  without a delivered event in between is twice the last up to thirty seconds, and a delivered event
  starts again at one second; every wait is between one and thirty seconds.\<close>

theorem backoff_exact:
  "\<exists>tr. snd (snd (snd (run_loop n src TraceSink s []))) = tr \<and> paced 1 tr
     \<and> list_all (\<lambda>c. case c of CallSleep x \<Rightarrow> 1 \<le> x \<and> x \<le> 30 | _ \<Rightarrow> True) tr"
proof -
  let ?b = RECONNECT_BACKOFF_INITIAL_SECONDS
  obtain r2 b2 s2 tr where t: "subscribe_loop n src TraceSink LiveTail ?b s [CallReconcile] = (r2, b2, s2, tr)"
    by (metis prod_cases4)
  have "paced 1 tr"
    by (rule subscribe_loop_paced [OF _ _ t]) (simp_all add: RECONNECT_BACKOFF_INITIAL_SECONDS_def)
  moreover have "1 \<le> x \<and> x \<le> 30" if "CallSleep x \<in> set tr" for x
    using paced_bounds [OF \<open>paced 1 tr\<close> _ _ that] by simp
  ultimately show ?thesis using t
    by (auto simp: run_loop_def list_all_iff split: SinkCall.splits)
qed

end
