(* ===== verification/X402.thy ===== *)
theory X402
  imports Events
begin

text \<open>
  The request handlers of \<open>zpay-x402/src/lib.rs\<close>.  The collaborators of \<open>AppState\<close> are the
  record \<open>Facilitator\<close> (with the DPoP gate, the PCZT library and the disclosure library as
  separate arguments), the state they act on is \<open>FacilitatorState\<close>.  A handler maps the state and the
  request to the response and the new state; a request is handled in one step, so
  concurrent requests interleave between handlers.
\<close>

record ('p, 'l, 'c, 'h, 'r) Facilitator =
  fa_prepared_store :: "'p PreparedTxStore"
  fa_ledger :: "'l SettlementLedgerStore"
  fa_chain :: "(ZallyNetwork, 'c) Submitter"
  fa_bus :: "('h, 'r) BroadcastLib"
  fa_payees :: PayeeRegistry
  fa_tip_oracle :: ChainTipOracle
  fa_finality_depth :: u32
  fa_trust_forwarded_headers :: bool
  fa_parse_ip :: "string \<Rightarrow> string option"
  fa_serializes :: "ApiBody \<Rightarrow> bool"
  fa_debug :: "string \<Rightarrow> string"
  fa_sha256 :: "bytes \<Rightarrow> bytes"
  fa_b64_encode :: "bytes \<Rightarrow> string"
  fa_b64_decode :: "string \<Rightarrow> string + bytes"
  fa_txlib :: TxLib

record ('p, 'l, 'c, 'h, 's) FacilitatorState =
  st_prepared :: 'p
  st_ledger :: 'l
  st_chain :: 'c
  st_events :: "'h PaymentEventHub"
  st_replay :: 's
  st_limiter :: RateLimiter
  st_chain_status :: ChainStatusCache

type_synonym ('p, 'l, 'c, 'h, 's) step = "Response \<times> ('p, 'l, 'c, 'h, 's) FacilitatorState"

definition status_of ::
  "('p, 'l, 'c, 'h, 'r) Facilitator \<Rightarrow> Clock \<Rightarrow> PaymentId \<Rightarrow> ('p, 'l, 'c, 'h, 's) FacilitatorState
    \<Rightarrow> StoreError + PaymentStatusSnapshot" where
  "status_of A clock payment_id st =
     lookup_payment_status (fa_prepared_store A) (fa_ledger A) (ck_wall clock) payment_id (fa_finality_depth A)
       (cache_load (st_chain_status st)) (st_prepared st) (st_ledger st)"

definition publish_status ::
  "('p, 'l, 'c, 'h, 'r) Facilitator \<Rightarrow> Clock \<Rightarrow> PaymentId \<Rightarrow> ('p, 'l, 'c, 'h, 's) FacilitatorState
    \<Rightarrow> ('p, 'l, 'c, 'h, 's) FacilitatorState" where
  "publish_status A clock payment_id st =
    (case status_of A clock payment_id st of
       Inl _ \<Rightarrow> st
     | Inr snap \<Rightarrow> st\<lparr>st_events := publish (fa_bus A) payment_id snap (st_events st)\<rparr>)"

definition with_ip_limit ::
  "('p, 'l, 'c, 'h, 'r) Facilitator \<Rightarrow> Clock \<Rightarrow> HeaderMap \<Rightarrow> string option
    \<Rightarrow> (('p, 'l, 'c, 'h, 's) FacilitatorState \<Rightarrow> ('p, 'l, 'c, 'h, 's) step)
    \<Rightarrow> ('p, 'l, 'c, 'h, 's) FacilitatorState \<Rightarrow> ('p, 'l, 'c, 'h, 's) step" where
  "with_ip_limit A clock headers peer rest st =
    (case ip_rate_limit (fa_parse_ip A) (fa_trust_forwarded_headers A) clock headers peer (st_limiter st) of
       (Some limited, r) \<Rightarrow> (limited, st\<lparr>st_limiter := r\<rparr>)
     | (None, r) \<Rightarrow> rest (st\<lparr>st_limiter := r\<rparr>))"

subsection \<open>x402 v2 facilitator\<close>

definition supported_handler ::
  "('p, 'l, 'c, 'h, 'r) Facilitator \<Rightarrow> ('p, 'l, 'c, 'h, 's) FacilitatorState \<Rightarrow> ('p, 'l, 'c, 'h, 's) step" where
  "supported_handler A st =
     (json_ok (fa_serializes A) (SupportedBody (supported_response (ch_network (fa_chain A)))), st)"

definition x402_request_invalid_reason ::
  "(string \<Rightarrow> string + bytes) \<Rightarrow> FacilitatorRequest \<Rightarrow> string option" where
  "x402_request_invalid_reason b64_decode request =
    (if fr_x402_version request \<noteq> X402_VERSION \<or> pp_x402_version (fr_payment_payload request) \<noteq> X402_VERSION
     then Some ''x402_version_unsupported''
     else if pp_accepted (fr_payment_payload request) \<noteq> fr_payment_requirements request
     then Some ''payment_requirements_mismatch''
     else if \<not> is_zcash_exact_request request then Some ''scheme_network_not_supported''
     else case zpay_payment_id (fr_payment_requirements request) of
            Inl reason \<Rightarrow> Some reason
          | Inr _ \<Rightarrow> request_invalid_reason b64_decode request)"

definition invalid_response ::
  "('p, 'l, 'c, 'h, 'r) Facilitator \<Rightarrow> FacilitatorRequest \<Rightarrow> string \<Rightarrow> Response" where
  "invalid_response A request reason = json_ok (fa_serializes A) (X402VerifyBody
     \<lparr>xv_is_valid = False, xv_invalid_reason = Some reason, xv_payer = None, xv_extra = response_extensions request\<rparr>)"

definition x402_verify_handler ::
  "('p, 'l, 'c, 'h, 'r) Facilitator \<Rightarrow> ('a, 'x) PcztLib \<Rightarrow> Clock \<Rightarrow> HeaderMap \<Rightarrow> string option
    \<Rightarrow> FacilitatorRequest \<Rightarrow> ('p, 'l, 'c, 'h, 's) FacilitatorState \<Rightarrow> ('p, 'l, 'c, 'h, 's) step" where
  "x402_verify_handler A Z clock headers peer request =
    with_ip_limit A clock headers peer (\<lambda>st.
      (case x402_request_invalid_reason (fa_b64_decode A) request of
         Some reason \<Rightarrow> (invalid_response A request reason, st)
       | None \<Rightarrow>
      (case settlement_request (fa_b64_decode A) request of
         Inl reason \<Rightarrow> (invalid_response A request reason, st)
       | Inr settlement \<Rightarrow>
      (case verify_pczt_settlement Z settlement of
         Inl err \<Rightarrow> (invalid_response A request (reason_code err), st)
       | Inr verified \<Rightarrow>
         (json_ok (fa_serializes A) (X402VerifyBody
            \<lparr>xv_is_valid = True, xv_invalid_reason = None, xv_payer = None,
             xv_extra = bt_insert ''expiryHeight'' (JNumber (dec_str (unat (vp_expiry_height verified))))
               (bt_insert ''transaction'' (JString (vp_transaction_id verified)) (response_extensions request))\<rparr>), st)))))"

record PreparedX402Settlement =
  px_payment_id :: PaymentId
  px_expiry_height :: u32
  px_payee_id :: PayeeId
  px_amount_zat :: Zatoshis

definition find_prepared_x402_settlement ::
  "'p PreparedTxStore \<Rightarrow> FacilitatorRequest \<Rightarrow> PcztSettlementRequest \<Rightarrow> 'p \<Rightarrow> string + PreparedX402Settlement option" where
  "find_prepared_x402_settlement P request settlement p =
    (case zpay_payment_id (fr_payment_requirements request) of
       Inl reason \<Rightarrow> Err reason
     | Inr None \<Rightarrow> Ok None
     | Inr (Some payment_id) \<Rightarrow>
    (case pts_find_by_payment_id P payment_id p of
       Inl _ \<Rightarrow> Err ''zpay_payment_store_unavailable''
     | Inr None \<Rightarrow> Err ''zpay_payment_not_prepared''
     | Inr (Some prepared) \<Rightarrow>
       if \<not> (pe_network prepared = ps_network settlement \<and> pe_amount_zat prepared = ps_amount_zat settlement \<and>
             pe_recipient_unified_address prepared = ps_pay_to settlement)
       then Err ''zpay_payment_requirements_mismatch''
       else Ok (Some \<lparr>px_payment_id = payment_id, px_expiry_height = pr_expiry_height (pe_preparation prepared),
                      px_payee_id = pe_payee_id prepared, px_amount_zat = pe_amount_zat prepared\<rparr>)))"

definition x402_ledger_entry :: "Clock \<Rightarrow> PreparedX402Settlement \<Rightarrow> BroadcastOutcome \<Rightarrow> SettlementLedgerEntry" where
  "x402_ledger_entry clock prepared outcome =
     \<lparr>le_broadcast_outcome = outcome,
      le_settled_at_unix_seconds = settle_current_unix_seconds (ck_wall clock),
      le_confirmation_count = None, le_mined_block_height = None, le_reorg_count = 0,
      le_last_reorged_at = None, le_expiry_height = Some (px_expiry_height prepared),
      le_payee_id = px_payee_id prepared, le_amount_zat = px_amount_zat prepared\<rparr>"

definition record_prepared_x402_settlement ::
  "'p PreparedTxStore \<Rightarrow> 'l SettlementLedgerStore \<Rightarrow> Clock \<Rightarrow> PreparedX402Settlement \<Rightarrow> PcztSettlementOutcome
    \<Rightarrow> 'p \<Rightarrow> 'l \<Rightarrow> (string + unit) \<times> 'p \<times> 'l" where
  "record_prepared_x402_settlement P L clock prepared outcome p l =
    (case sl_record L (px_payment_id prepared) (x402_ledger_entry clock prepared (po_broadcast_outcome outcome)) l of
       (Inl _, l') \<Rightarrow> (Err ''zpay_payment_ledger_unavailable'', p, l')
     | (Inr _, l') \<Rightarrow>
       if is_success (po_broadcast_outcome outcome) then
         (case pts_remove P (px_payment_id prepared) p of
            (Inl _, p') \<Rightarrow> (Err ''zpay_payment_store_unavailable'', p', l')
          | (Inr _, p') \<Rightarrow> (Ok (), p', l'))
       else (Ok (), p, l'))"

definition x402_settle_response_extensions ::
  "('p, 'l, 'c, 'h, 'r) Facilitator \<Rightarrow> Clock \<Rightarrow> FacilitatorRequest \<Rightarrow> PreparedX402Settlement option
    \<Rightarrow> PcztSettlementOutcome \<Rightarrow> ('p, 'l, 'c, 'h, 's) FacilitatorState
    \<Rightarrow> Json btree \<times> ('p, 'l, 'c, 'h, 's) FacilitatorState" where
  "x402_settle_response_extensions A clock request prepared_settlement outcome st =
    (let ext = bt_insert ''expiryHeight'' (JNumber (dec_str (unat (po_expiry_height outcome)))) (response_extensions request)
     in case prepared_settlement of
          None \<Rightarrow> (ext, st)
        | Some prepared \<Rightarrow>
          let ext1 = bt_insert ZPAY_PAYMENT_ID_EXTENSION (JString (px_payment_id prepared)) ext in
          (case record_prepared_x402_settlement (fa_prepared_store A) (fa_ledger A) clock prepared outcome
                  (st_prepared st) (st_ledger st) of
             (Inl reason, p, l) \<Rightarrow>
               (bt_insert ''zpayLifecycleRecord''
                  (JObject (bt_from [(''status'', JString ''failed''), (''reason'', JString reason)])) ext1,
                st\<lparr>st_prepared := p, st_ledger := l\<rparr>)
           | (Inr _, p, l) \<Rightarrow>
               (ext1, publish_status A clock (px_payment_id prepared) (st\<lparr>st_prepared := p, st_ledger := l\<rparr>))))"

definition x402_settle_failure_response ::
  "('p, 'l, 'c, 'h, 'r) Facilitator \<Rightarrow> FacilitatorRequest \<Rightarrow> string \<Rightarrow> Response" where
  "x402_settle_failure_response A request error_reason = json_ok (fa_serializes A) (X402SettleBody
     \<lparr>xs_success = False, xs_error_reason = Some error_reason, xs_payer = None, xs_transaction = None,
      xs_network = pq_network (fr_payment_requirements request), xs_amount = pq_amount (fr_payment_requirements request),
      xs_extensions = response_extensions request\<rparr>)"

definition x402_settle_success_response ::
  "('p, 'l, 'c, 'h, 'r) Facilitator \<Rightarrow> FacilitatorRequest \<Rightarrow> PcztSettlementOutcome \<Rightarrow> Json btree \<Rightarrow> Response" where
  "x402_settle_success_response A request outcome extensions = json_ok (fa_serializes A) (X402SettleBody
     \<lparr>xs_success = is_success (po_broadcast_outcome outcome),
      xs_error_reason = (if is_success (po_broadcast_outcome outcome) then None
                         else Some (broadcast_failure_reason (po_broadcast_outcome outcome))),
      xs_payer = None, xs_transaction = Some (po_transaction_id outcome),
      xs_network = pq_network (fr_payment_requirements request), xs_amount = pq_amount (fr_payment_requirements request),
      xs_extensions = extensions\<rparr>)"

text \<open>The checks of \<open>x402_settle_handler\<close> before the broadcast.\<close>

definition x402_settle_gate ::
  "('p, 'l, 'c, 'h, 'r) Facilitator \<Rightarrow> ('a, 'x) PcztLib \<Rightarrow> FacilitatorRequest \<Rightarrow> 'p
    \<Rightarrow> string + (PcztSettlementRequest \<times> PreparedX402Settlement option \<times> VerifiedPcztSettlement)" where
  "x402_settle_gate A Z request p =
    (case x402_request_invalid_reason (fa_b64_decode A) request of
       Some reason \<Rightarrow> Err reason
     | None \<Rightarrow>
    (case settlement_request (fa_b64_decode A) request of
       Inl reason \<Rightarrow> Err reason
     | Inr settlement \<Rightarrow>
    (case find_prepared_x402_settlement (fa_prepared_store A) request settlement p of
       Inl reason \<Rightarrow> Err reason
     | Inr prepared_settlement \<Rightarrow>
    (case verify_pczt_settlement Z settlement of
       Inl err \<Rightarrow> Err (reason_code err)
     | Inr verified \<Rightarrow>
       (case prepared_settlement of
          Some prepared \<Rightarrow>
            if vp_expiry_height verified \<noteq> px_expiry_height prepared then Err ''zpay_payment_expiry_mismatch''
            else Ok (settlement, prepared_settlement, verified)
        | None \<Rightarrow> Ok (settlement, prepared_settlement, verified))))))"

definition x402_settle_handler ::
  "('p, 'l, 'c, 'h, 'r) Facilitator \<Rightarrow> ('a, 'x) PcztLib \<Rightarrow> Clock \<Rightarrow> HeaderMap \<Rightarrow> string option
    \<Rightarrow> FacilitatorRequest \<Rightarrow> ('p, 'l, 'c, 'h, 's) FacilitatorState \<Rightarrow> ('p, 'l, 'c, 'h, 's) step" where
  "x402_settle_handler A Z clock headers peer request =
    with_ip_limit A clock headers peer (\<lambda>st.
      (case x402_settle_gate A Z request (st_prepared st) of
         Inl reason \<Rightarrow> (x402_settle_failure_response A request reason, st)
       | Inr (settlement, prepared_settlement, verified) \<Rightarrow>
      (case broadcast_verified_pczt_settlement Z (fa_chain A) settlement verified (st_chain st) of
         (Inl err, c) \<Rightarrow> (x402_settle_failure_response A request (reason_code err), st\<lparr>st_chain := c\<rparr>)
       | (Inr outcome, c) \<Rightarrow>
         (case x402_settle_response_extensions A clock request prepared_settlement outcome (st\<lparr>st_chain := c\<rparr>) of
            (extensions, st') \<Rightarrow> (x402_settle_success_response A request outcome extensions, st')))))"

subsection \<open>zpay lifecycle\<close>

definition with_dpop ::
  "('json, 'key, 'url, 's) DpopGate \<Rightarrow> Clock \<Rightarrow> string \<Rightarrow> HeaderMap
    \<Rightarrow> (string \<Rightarrow> ('p, 'l, 'c, 'h, 's) FacilitatorState \<Rightarrow> ('p, 'l, 'c, 'h, 's) step)
    \<Rightarrow> ('p, 'l, 'c, 'h, 's) FacilitatorState \<Rightarrow> ('p, 'l, 'c, 'h, 's) step" where
  "with_dpop G clock path headers rest st =
    (case accept_lifecycle_write G clock path headers (st_replay st) (st_limiter st) of
       (Inl response, s, r) \<Rightarrow> (response, st\<lparr>st_replay := s, st_limiter := r\<rparr>)
     | (Inr jkt, s, r) \<Rightarrow> rest jkt (st\<lparr>st_replay := s, st_limiter := r\<rparr>))"

definition effective_request :: "HeaderMap \<Rightarrow> PrepareRequest \<Rightarrow> PrepareRequest" where
  "effective_request headers body =
    (case nonempty_header headers ''idempotency-key'' of
       None \<Rightarrow> body | Some key \<Rightarrow> body\<lparr>rq_idempotency_key := Some key\<rparr>)"

definition prepare_handler ::
  "('p, 'l, 'c, 'h, 'r) Facilitator \<Rightarrow> ('json, 'key, 'url, 's) DpopGate \<Rightarrow> PaymentId \<Rightarrow> Clock \<Rightarrow> string \<Rightarrow> HeaderMap
    \<Rightarrow> PrepareRequest \<Rightarrow> ('p, 'l, 'c, 'h, 's) FacilitatorState \<Rightarrow> ('p, 'l, 'c, 'h, 's) step" where
  "prepare_handler A G fresh_id clock path headers body =
    with_dpop G clock path headers (\<lambda>jkt st.
      (case propose (fa_prepared_store A) (fa_sha256 A) (fa_b64_encode A) (fa_payees A) (fa_tip_oracle A) fresh_id
              (ck_wall clock) (effective_request headers body) jkt (st_prepared st) of
         (Inr preparation, p) \<Rightarrow> (json_ok (fa_serializes A) (PreparationBody preparation), st\<lparr>st_prepared := p\<rparr>)
       | (Inl err, p) \<Rightarrow> (prepare_error_response err, st\<lparr>st_prepared := p\<rparr>)))"

definition settle_handler ::
  "('p, 'l, 'c, 'h, 'r) Facilitator \<Rightarrow> ('json, 'key, 'url, 's) DpopGate \<Rightarrow> Clock \<Rightarrow> string \<Rightarrow> HeaderMap
    \<Rightarrow> SettleRequest \<Rightarrow> ('p, 'l, 'c, 'h, 's) FacilitatorState \<Rightarrow> ('p, 'l, 'c, 'h, 's) step" where
  "settle_handler A G clock path headers body =
    with_dpop G clock path headers (\<lambda>jkt st.
      (case submit_settlement (fa_prepared_store A) (fa_ledger A) (fa_chain A) (fa_txlib A) (ck_wall clock) body jkt
              (st_prepared st) (st_ledger st) (st_chain st) of
         (Inr outcome, p, l, c) \<Rightarrow>
           (json_ok (fa_serializes A) (SettlementBody outcome),
            publish_status A clock (so_payment_id outcome) (st\<lparr>st_prepared := p, st_ledger := l, st_chain := c\<rparr>))
       | (Inl err, p, l, c) \<Rightarrow>
           (settle_error_response err, st\<lparr>st_prepared := p, st_ledger := l, st_chain := c\<rparr>)))"

definition payment_status_handler ::
  "('p, 'l, 'c, 'h, 'r) Facilitator \<Rightarrow> Clock \<Rightarrow> HeaderMap \<Rightarrow> string option \<Rightarrow> string
    \<Rightarrow> ('p, 'l, 'c, 'h, 's) FacilitatorState \<Rightarrow> ('p, 'l, 'c, 'h, 's) step" where
  "payment_status_handler A clock headers peer payment_id_raw =
    with_ip_limit A clock headers peer (\<lambda>st.
      (case payment_id_from_str payment_id_raw of
         Inl reason \<Rightarrow> (payment_id_invalid reason, st)
       | Inr payment_id \<Rightarrow>
         (case status_of A clock payment_id st of
            Inl _ \<Rightarrow> (status_store_unavailable, st)
          | Inr snap \<Rightarrow> (json_ok (fa_serializes A) (StatusBody snap), st))))"

definition accepts_handler ::
  "('p, 'l, 'c, 'h, 'r) Facilitator \<Rightarrow> Clock \<Rightarrow> HeaderMap \<Rightarrow> string option \<Rightarrow> string option
    \<Rightarrow> ('p, 'l, 'c, 'h, 's) FacilitatorState \<Rightarrow> ('p, 'l, 'c, 'h, 's) step" where
  "accepts_handler A clock headers peer payee_id_query =
    with_ip_limit A clock headers peer (\<lambda>st.
      (case payee_id_query of
         None \<Rightarrow> (problem_response 422 ''Invalid Argument'' ''payee_id_required''
                  ''payee_id query parameter is required'' False, st)
       | Some payee_id \<Rightarrow>
         (case registry_find (fa_payees A) payee_id of
            None \<Rightarrow> (problem_response 404 ''Not Found'' ''payee_unknown''
                     (''payee_id '' @ fa_debug A payee_id @ '' is not registered with this deployment'') False, st)
          | Some entries \<Rightarrow> (json_ok (fa_serializes A) (AcceptsBody entries), st))))"

definition tip_handler ::
  "('p, 'l, 'c, 'h, 'r) Facilitator \<Rightarrow> Clock \<Rightarrow> HeaderMap \<Rightarrow> string option \<Rightarrow> string option
    \<Rightarrow> ('p, 'l, 'c, 'h, 's) FacilitatorState \<Rightarrow> ('p, 'l, 'c, 'h, 's) step" where
  "tip_handler A clock headers peer network_query =
    with_ip_limit A clock headers peer (\<lambda>st.
      (case network_query of
         None \<Rightarrow> (problem_response 422 ''Invalid Argument'' ''network_required''
                  ''network query parameter is required'' False, st)
       | Some raw \<Rightarrow>
         (case parse_network (fa_debug A) raw of
            Inl reason \<Rightarrow> (problem_response 422 ''Invalid Argument'' ''network_invalid'' reason False, st)
          | Inr network \<Rightarrow>
            (case fa_tip_oracle A network of
               Inr tip_height \<Rightarrow>
                 (json_ok (fa_serializes A) (TipBody \<lparr>ct_network = network, ct_tip_height = tip_height\<rparr>), st)
             | Inl err \<Rightarrow> (tip_error_response err, st)))))"

definition verify_handler ::
  "('p, 'l, 'c, 'h, 'r) Facilitator \<Rightarrow> (ZallyNetwork, 'd, 'ua) DisclosureLib \<Rightarrow> 'd DisclosureVerifier
    \<Rightarrow> DisclosureFetcher \<Rightarrow> Clock \<Rightarrow> HeaderMap \<Rightarrow> string option \<Rightarrow> VerifyRequest
    \<Rightarrow> ('p, 'l, 'c, 'h, 's) FacilitatorState \<Rightarrow> ('p, 'l, 'c, 'h, 's) step" where
  "verify_handler A V verifier fetcher clock headers peer body =
    with_ip_limit A clock headers peer (\<lambda>st.
      (case verify V (ch_network (fa_chain A)) verifier fetcher body of
         Inr response \<Rightarrow> (json_ok (fa_serializes A) (VerifyBody response), st)
       | Inl err \<Rightarrow> (verify_error_response err, st)))"

subsection \<open>Frames\<close>

lemma publish_status_frame [simp]:
  "st_chain (publish_status A clock pid st) = st_chain st" "st_prepared (publish_status A clock pid st) = st_prepared st"
  "st_ledger (publish_status A clock pid st) = st_ledger st"
  by (simp_all add: publish_status_def split: sum.splits)

lemma extensions_chain:
  "x402_settle_response_extensions A clock request prep outcome st = (ext, st') \<Longrightarrow> st_chain st' = st_chain st"
  by (auto simp: x402_settle_response_extensions_def Let_def split: option.splits prod.splits sum.splits)

lemma with_ip_limit_cases:
  assumes "with_ip_limit A clock headers peer rest st = (resp, st')"
  obtains (limited) n r where "resp = rate_limited_response n" "st' = st\<lparr>st_limiter := r\<rparr>"
  | (passed) r where "rest (st\<lparr>st_limiter := r\<rparr>) = (resp, st')"
  using assms by (auto simp: with_ip_limit_def ip_rate_limit_def split: prod.splits RateLimitDecision.splits)

lemma x402_settle_cases:
  assumes "x402_settle_handler A Z clock headers peer request st = (resp, st')"
  obtains (stopped) "st_chain st' = st_chain st" "st_prepared st' = st_prepared st" "st_ledger st' = st_ledger st"
      "\<forall>r. re_body resp = X402SettleBody r \<longrightarrow> \<not> xs_success r"
  | (failed) settlement prep verified err c where
      "x402_settle_gate A Z request (st_prepared st) = Ok (settlement, prep, verified)"
      "broadcast_verified_pczt_settlement Z (fa_chain A) settlement verified (st_chain st) = (Err err, c)"
      "st_chain st' = c" "st_prepared st' = st_prepared st" "st_ledger st' = st_ledger st"
      "\<forall>r. re_body resp = X402SettleBody r \<longrightarrow> \<not> xs_success r"
  | (sent) settlement prep verified outcome c r ext where
      "x402_settle_gate A Z request (st_prepared st) = Ok (settlement, prep, verified)"
      "broadcast_verified_pczt_settlement Z (fa_chain A) settlement verified (st_chain st) = (Ok outcome, c)"
      "x402_settle_response_extensions A clock request prep outcome (st\<lparr>st_limiter := r, st_chain := c\<rparr>) = (ext, st')"
      "resp = x402_settle_success_response A request outcome ext" "st_chain st' = c"
proof -
  have fails: "\<forall>r. re_body (x402_settle_failure_response A request reason) = X402SettleBody r \<longrightarrow> \<not> xs_success r" for reason
    by (auto simp: x402_settle_failure_response_def json_ok_def)
  from assms show thesis unfolding x402_settle_handler_def
  proof (cases rule: with_ip_limit_cases)
    case (limited n r)
    then show thesis using stopped by (simp add: rate_limited_response_def)
  next
    case (passed r)
    show thesis
    proof (cases "x402_settle_gate A Z request (st_prepared st)")
      case (Inl reason)
      then show thesis using passed fails stopped by auto
    next
      case (Inr g)
      obtain settlement prep verified where g: "g = (settlement, prep, verified)" by (cases g)
      obtain res c where b: "broadcast_verified_pczt_settlement Z (fa_chain A) settlement verified (st_chain st) = (res, c)"
        by fastforce
      show thesis
      proof (cases res)
        case (Inl err)
        then show thesis using passed Inr g b fails failed [of settlement prep verified err c] by auto
      next
        case o: (Inr outcome)
        obtain ext st2 where e: "x402_settle_response_extensions A clock request prep outcome
            (st\<lparr>st_limiter := r, st_chain := c\<rparr>) = (ext, st2)" by fastforce
        then have "(resp, st') = (x402_settle_success_response A request outcome ext, st2)"
          using passed Inr g b o by simp
        then show thesis using sent [of settlement prep verified outcome c r ext] Inr g b o e extensions_chain [OF e] by simp
      qed
    qed
  qed
qed

lemma x402_settle_gate_Ok:
  assumes "x402_settle_gate A Z request p = Ok (settlement, prep, verified)"
  shows "x402_request_invalid_reason (fa_b64_decode A) request = None"
    "settlement_request (fa_b64_decode A) request = Ok settlement" "verify_pczt_settlement Z settlement = Ok verified"
    "find_prepared_x402_settlement (fa_prepared_store A) request settlement p = Ok prep"
    "\<And>q. prep = Some q \<Longrightarrow> vp_expiry_height verified = px_expiry_height q"
  using assms by (auto simp: x402_settle_gate_def split: option.splits sum.splits if_splits)

lemma find_prepared_Some:
  assumes "find_prepared_x402_settlement P request settlement p = Ok prep"
    and "zpay_payment_id (fr_payment_requirements request) = Ok (Some pid)"
  shows "\<exists>e. pts_find_by_payment_id P pid p = Ok (Some e) \<and> pe_network e = ps_network settlement \<and>
     pe_amount_zat e = ps_amount_zat settlement \<and> pe_recipient_unified_address e = ps_pay_to settlement \<and>
     prep = Some \<lparr>px_payment_id = pid, px_expiry_height = pr_expiry_height (pe_preparation e),
                  px_payee_id = pe_payee_id e, px_amount_zat = pe_amount_zat e\<rparr>"
  using assms by (auto simp: find_prepared_x402_settlement_def split: sum.splits option.splits if_splits)

lemma with_dpop_cases:
  assumes "with_dpop G clock path headers rest st = (resp, st')"
  obtains (refused) s r where "is_problem resp" "st' = st\<lparr>st_replay := s, st_limiter := r\<rparr>"
  | (accepted) jkt s r where
      "accept_lifecycle_write G clock path headers (st_replay st) (st_limiter st) = (Ok jkt, s, r)"
      "rest jkt (st\<lparr>st_replay := s, st_limiter := r\<rparr>) = (resp, st')"
proof -
  obtain a s r where a: "accept_lifecycle_write G clock path headers (st_replay st) (st_limiter st) = (a, s, r)"
    by (metis prod_cases3)
  show thesis
  proof (cases a)
    case (Inl x)
    have "is_problem x"
      using a Inl unfolding accept_lifecycle_write_def
      by (auto simp: error_responses_are_problems split: prod.splits sum.splits RateLimitDecision.splits)
    then show thesis using assms a Inl refused [where s = s and r = r] by (auto simp: with_dpop_def)
  next
    case (Inr jkt)
    then show thesis using assms a accepted by (simp add: with_dpop_def)
  qed
qed

subsection \<open>Linked x402 settlements over any stores\<close>

context payment_stores
begin

lemma x402_record_effect:
  assumes "pinv p" "linv l" "fits (px_amount_zat prepared)"
    and "record_prepared_x402_settlement P L clock prepared outcome p l = (Ok u, p', l')"
  shows "pinv p' \<and> linv l' \<and>
    led l' = (led l)(px_payment_id prepared \<mapsto> x402_ledger_entry clock prepared (po_broadcast_outcome outcome)) \<and>
    rows p' = (if is_success (po_broadcast_outcome outcome) then (rows p)(px_payment_id prepared := None) else rows p)"
proof -
  let ?e = "x402_ledger_entry clock prepared (po_broadcast_outcome outcome)"
  have fit: "entry_fits fits ?e" using assms(3) by (simp add: entry_fits_def x402_ledger_entry_def)
  obtain v where rec: "sl_record L (px_payment_id prepared) ?e l = (Ok v, l')"
    using assms(4) by (auto simp: record_prepared_x402_settlement_def split: prod.splits sum.splits if_splits)
  note led = ledg.record_ok [OF assms(2) fit rec]
  show ?thesis
  proof (cases "is_success (po_broadcast_outcome outcome)")
    case True
    then obtain r where "pts_remove P (px_payment_id prepared) p = (Ok r, p')"
      using assms(4) rec by (auto simp: record_prepared_x402_settlement_def split: prod.splits sum.splits)
    then show ?thesis using led True prep.remove_ok [OF assms(1)] by auto
  next
    case False
    then have "p' = p" using assms(4) rec by (simp add: record_prepared_x402_settlement_def)
    then show ?thesis using led False assms(1) by simp
  qed
qed

end

subsection \<open>A concrete deployment\<close>

definition ex_facilitator :: "(CacheInner, SettlementLedger, nat, unit, unit) Facilitator" where
  "ex_facilitator = \<lparr>fa_prepared_store = PreparedTxCache, fa_ledger = SettlementLedgerMem,
     fa_chain = \<lparr>ch_network = ZallyTestnet, ch_network_debug = ''Testnet'', ch_submit = (\<lambda>b n. (Ok (SubmitAccepted [1]), n + 1))\<rparr>,
     fa_bus = \<lparr>bl_channel = (\<lambda>_. ()), bl_subscribe = (\<lambda>c. (c, c)), bl_send = (\<lambda>_ c. c), bl_receiver_count = (\<lambda>_. 0)\<rparr>,
     fa_payees = ex_registry, fa_tip_oracle = ex_tip, fa_finality_depth = 3, fa_trust_forwarded_headers = False,
     fa_parse_ip = Some, fa_serializes = (\<lambda>_. True), fa_debug = id, fa_sha256 = ex_sha, fa_b64_encode = ex_b64,
     fa_b64_decode = (\<lambda>s. Ok (bytes_of s)), fa_txlib = ex_txlib\<rparr>"

definition ex_requirements :: PaymentRequirements where
  "ex_requirements = \<lparr>pq_scheme = ''exact'', pq_network = ''zcash:testnet'', pq_amount = ''150000000'',
     pq_asset = ''ZEC'', pq_pay_to = ae_pay_to ex_accepts, pq_max_timeout_seconds = 60,
     pq_extra = [(''zpayPaymentId'', JString ''id1'')]\<rparr>"

definition ex_x402_request :: FacilitatorRequest where
  "ex_x402_request = \<lparr>fr_x402_version = 2,
     fr_payment_payload = \<lparr>pp_x402_version = 2,
       pp_resource = \<lparr>ri_url = ''/a'', ri_description = None, ri_mime_type = None, ri_service_name = None, ri_tags = [], ri_icon_url = None\<rparr>,
       pp_accepted = ex_requirements,
       pp_payload = JObject [(''format'', JString ''pczt-v2-extractable''), (''pczt'', JString ''x'')], pp_extensions = []\<rparr>,
     fr_payment_requirements = ex_requirements\<rparr>"

definition ex_pczt_lib :: "(unit, unit) PcztLib" where
  "ex_pczt_lib = \<lparr>pl_parse = (\<lambda>_ _. Ok \<lparr>pz_sapling_outputs = [], pz_orchard_outputs =
        [\<lparr>px_user_address = Some (ae_pay_to ex_accepts), px_recipient = Some [], px_value = Some (ae_amount_zat ex_accepts)\<rparr>],
        pz_ironwood_outputs = [], pz_transparent_user_addresses = [], pz_expiry_height = 1040\<rparr>),
     pl_decode_address = (\<lambda>_ _. Some ()), pl_sapling_address = (\<lambda>_. Some ()), pl_orchard_address = (\<lambda>_. Some ()),
     pl_corresponds = (\<lambda>_ _. True), pl_extract = (\<lambda>_ _. Ok ([1], [2])), pl_to_rpc_hex = (\<lambda>_. ''ab'')\<rparr>"

definition ex_state :: "(CacheInner, SettlementLedger, nat, unit, InMemoryReplayStore) FacilitatorState" where
  "ex_state = \<lparr>st_prepared = ex_cache, st_ledger = [], st_chain = 0, st_events = hub_new, st_replay = replay_store_new,
     st_limiter = rate_limiter_new 0 0 0, st_chain_status = cache_new\<rparr>"

definition ex_clock :: Clock where "ex_clock = \<lparr>ck_mono = 300000000000, ck_wall = 1010\<rparr>"

definition ex_settlement :: PcztSettlementRequest where
  "ex_settlement = \<lparr>ps_network = Testnet, ps_amount_zat = 150000000, ps_pay_to = ''utest1a'', ps_pczt_bytes = bytes_of ''x''\<rparr>"

definition ex_verified :: VerifiedPcztSettlement where
  "ex_verified = \<lparr>vp_raw_tx_bytes = [1], vp_transaction_id = ''ab'', vp_expiry_height = 1040\<rparr>"

definition ex_linked :: PreparedX402Settlement where
  "ex_linked = \<lparr>px_payment_id = ''id1'', px_expiry_height = 1040, px_payee_id = ''shop'', px_amount_zat = 150000000\<rparr>"

lemma ex_amount: "parse_u64 ''150000000'' = Some 150000000"
  by (simp add: parse_u64_def is_digit_def byte_of_def dec_val_def digit_val_def)

lemma ex_pid: "zpay_payment_id ex_requirements = Ok (Some ''id1'')"
  by (simp add: zpay_payment_id_def ex_requirements_def get_str_def ZPAY_PAYMENT_ID_EXTENSION_def payment_id_from_str_def
      trim_def trim_start_def trim_end_def trim_with.simps ws_len_def byte_of_def PAYMENT_ID_MAX_LEN_def)

lemma ex_settlement_request:
  "settlement_request (fa_b64_decode ex_facilitator) ex_x402_request = Ok ex_settlement"
  unfolding settlement_request_Ok_iff
  by (simp add: ex_x402_request_def ex_requirements_def ex_facilitator_def ex_settlement_def ex_amount has_zcash_exact_network_def
      is_zcash_network_def network_ids payment_network_def is_valid_zat_amount_def ZCASH_EXACT_MAX_ZAT_def
      ZCASH_EXACT_ASSET_def ZCASH_EXACT_SCHEME_def has_valid_recipient_prefix_def get_str_def ex_accepts_def
      ZCASH_EXACT_AUTHORIZATION_FORMAT_def)

lemma ex_x402_valid: "x402_request_invalid_reason (fa_b64_decode ex_facilitator) ex_x402_request = None"
proof -
  have "request_invalid_reason (fa_b64_decode ex_facilitator) ex_x402_request = None"
      "is_zcash_exact_request ex_x402_request"
    using ex_settlement_request by (auto simp: settlement_request_def split: if_splits option.splits)
  then show ?thesis using ex_pid by (simp add: x402_request_invalid_reason_def ex_x402_request_def X402_VERSION_def)
qed

lemma ex_pczt_verified: "verify_pczt_settlement ex_pczt_lib ex_settlement = Ok ex_verified"
  by (simp add: verify_pczt_settlement_def ex_pczt_lib_def ex_settlement_def ex_verified_def Let_def
      matched_pczt_amount_zat_def match_orchard_bundle_amount_zat_def ex_accepts_def add_matched_amount_zat_def checked_add_def)

lemma ex_find_linked: "find_prepared_x402_settlement PreparedTxCache ex_x402_request ex_settlement ex_cache = Ok (Some ex_linked)"
proof -
  have "hm_get (by_payment_id ex_cache) ''id1'' = Some ex_prepared" using ex_cache_rows by (simp add: cache_rows_def)
  then show ?thesis using ex_pid
    by (simp add: find_prepared_x402_settlement_def ex_x402_request_def cache_find_by_payment_id_def)
      (simp add: ex_prepared_def ex_settlement_def ex_linked_def ex_accepts_def ex_request_def)
qed

lemma ex_x402_gate:
  "x402_settle_gate ex_facilitator ex_pczt_lib ex_x402_request ex_cache = Ok (ex_settlement, Some ex_linked, ex_verified)"
proof -
  have "fa_prepared_store ex_facilitator = PreparedTxCache" by (simp add: ex_facilitator_def)
  then show ?thesis
    by (simp add: x402_settle_gate_def ex_x402_valid ex_settlement_request ex_pczt_verified ex_find_linked)
      (simp add: ex_verified_def ex_linked_def)
qed

lemma ex_x402_run:
  obtains ext st' where
    "x402_settle_handler ex_facilitator ex_pczt_lib ex_clock [] None ex_x402_request ex_state =
       (x402_settle_success_response ex_facilitator ex_x402_request
          \<lparr>po_broadcast_outcome = Accepted ''ab'', po_transaction_id = ''ab'', po_expiry_height = 1040\<rparr> ext, st')"
    "st_chain st' = 1"
proof -
  let ?o = "\<lparr>po_broadcast_outcome = Accepted ''ab'', po_transaction_id = ''ab'', po_expiry_height = 1040\<rparr>"
  have b: "broadcast_verified_pczt_settlement ex_pczt_lib (fa_chain ex_facilitator) ex_settlement ex_verified 0 = (Ok ?o, 1)"
    by (simp add: broadcast_verified_pczt_settlement_def ex_pczt_lib_def ex_facilitator_def ex_settlement_def ex_verified_def
       )
  obtain ext st' where e: "x402_settle_response_extensions ex_facilitator ex_clock ex_x402_request (Some ex_linked) ?o
      (ex_state\<lparr>st_chain := 1\<rparr>) = (ext, st')" by fastforce
  have ip: "ip_rate_limit (fa_parse_ip ex_facilitator) (fa_trust_forwarded_headers ex_facilitator) ex_clock [] None
      (st_limiter ex_state) = (None, st_limiter ex_state)"
    by (simp add: ip_rate_limit_def check_ip_def check_def ex_state_def rate_limiter_new_def)
  have "st_prepared ex_state = ex_cache" "st_chain ex_state = 0" by (simp_all add: ex_state_def)
  then have "x402_settle_handler ex_facilitator ex_pczt_lib ex_clock [] None ex_x402_request ex_state =
      (x402_settle_success_response ex_facilitator ex_x402_request ?o ext, st')"
    using ip b e by (simp add: x402_settle_handler_def with_ip_limit_def ex_x402_gate)
  then show thesis using that [of ext st'] extensions_chain [OF e] by simp
qed

subsection \<open>The promises of the handlers\<close>

text \<open>[C30] The x402 settle endpoint broadcasts only exact payments.  If handling a request
  touches the chain at all, the request was well formed for the binding, its PCZT had been verified to pay exactly the
  required amount to the required recipient, the chain plane serves the required network, and, when the request
  names a prepared payment, that preparation exists with the same network, amount, recipient and expiry
  height as the transaction.  Otherwise chain, prepared store and ledger are left as they were.\<close>
theorem x402_broadcast_only_exact:
  assumes "x402_settle_handler A Z clock headers peer request st = (resp, st')"
    and "st_chain st' \<noteq> st_chain st \<or> st_prepared st' \<noteq> st_prepared st \<or> st_ledger st' \<noteq> st_ledger st"
  shows "\<exists>settlement verified. x402_request_invalid_reason (fa_b64_decode A) request = None \<and>
     settlement_request (fa_b64_decode A) request = Ok settlement \<and> verify_pczt_settlement Z settlement = Ok verified \<and>
     ch_network (fa_chain A) = zally_network_for (ps_network settlement) \<and>
     (\<forall>pid. zpay_payment_id (fr_payment_requirements request) = Ok (Some pid) \<longrightarrow>
        (\<exists>e. pts_find_by_payment_id (fa_prepared_store A) pid (st_prepared st) = Ok (Some e) \<and>
           pe_network e = ps_network settlement \<and> pe_amount_zat e = ps_amount_zat settlement \<and>
           pe_recipient_unified_address e = ps_pay_to settlement \<and>
           pr_expiry_height (pe_preparation e) = vp_expiry_height verified))"
proof -
  obtain settlement prep verified b c where
      g: "x402_settle_gate A Z request (st_prepared st) = Ok (settlement, prep, verified)"
      and b: "broadcast_verified_pczt_settlement Z (fa_chain A) settlement verified (st_chain st) = (b, c)"
      and n: "b = Err e \<Longrightarrow> st_chain st \<noteq> c" for e
    using assms by (cases rule: x402_settle_cases) auto
  have net: "ch_network (fa_chain A) = zally_network_for (ps_network settlement)"
    using b n by (auto simp: broadcast_verified_pczt_settlement_def split: if_splits)
  have linked: "\<exists>e. pts_find_by_payment_id (fa_prepared_store A) pid (st_prepared st) = Ok (Some e) \<and>
           pe_network e = ps_network settlement \<and> pe_amount_zat e = ps_amount_zat settlement \<and>
           pe_recipient_unified_address e = ps_pay_to settlement \<and>
           pr_expiry_height (pe_preparation e) = vp_expiry_height verified"
    if "zpay_payment_id (fr_payment_requirements request) = Ok (Some pid)" for pid
    using find_prepared_Some [OF x402_settle_gate_Ok(4) [OF g] that] x402_settle_gate_Ok(5) [OF g] by auto
  show ?thesis using x402_settle_gate_Ok(1-3) [OF g] net linked by blast
qed

theorem x402_broadcast_only_exact_witness:
  "\<exists>settlement. settlement_request (fa_b64_decode ex_facilitator) ex_x402_request = Ok settlement \<and>
     ch_network (fa_chain ex_facilitator) = zally_network_for (ps_network settlement)"
proof (rule ex_x402_run)
  fix ext st'
  assume run: "x402_settle_handler ex_facilitator ex_pczt_lib ex_clock [] None ex_x402_request ex_state =
      (x402_settle_success_response ex_facilitator ex_x402_request
          \<lparr>po_broadcast_outcome = Accepted ''ab'', po_transaction_id = ''ab'', po_expiry_height = 1040\<rparr> ext, st')"
    and c: "st_chain st' = 1"
  show ?thesis using x402_broadcast_only_exact [OF run] c by (auto simp: ex_state_def)
qed

text \<open>[C32] Lifecycle writes act only under an accepted proof.  If the settle endpoint changes the
  stores, the chain or the event hub, the request carried a DPoP proof that the verifier accepted for a POST to the
  request URL (built from the pinned scheme and host when a host is pinned, so a forged \<open>Host\<close> header has no
  effect), the key was within its rate budget, and the settled payment was prepared by that very
  key.  A refused request gets a problem document and changes only the replay store and the limiter.\<close>
theorem settle_acts_only_under_proof:
  assumes "settle_handler A G clock path headers body st = (resp, st')"
    and "de_expected_host (dg_expectations G) = Some host"
  shows "is_problem resp \<and> (\<exists>s r. st' = st\<lparr>st_replay := s, st_limiter := r\<rparr>) \<or>
     (\<exists>p jkt s r. nonempty_header headers ''dpop'' = Some p \<and>
        verify_dpop_proof (dg_lib G) (dg_observe G) (int (ck_mono clock)) (settle_current_unix_seconds (ck_wall clock))
          ''POST'' (de_expected_scheme (dg_expectations G) @ ''://'' @ host @ path) p (st_replay st) = (Ok \<lparr>vd_jkt = jkt\<rparr>, s) \<and>
        check_jkt (ck_mono clock) jkt (st_limiter st) = (Allowed, r) \<and>
        (\<exists>e. pts_find_by_payment_id (fa_prepared_store A) (sr_payment_id body) (st_prepared st) = Ok (Some e) \<and>
           pe_agent_dpop_jkt e = jkt))"
  using assms(1) unfolding settle_handler_def
proof (cases rule: with_dpop_cases)
  case (refused s r)
  then show ?thesis by blast
next
  case (accepted jkt s r)
  obtain p where p: "nonempty_header headers ''dpop'' = Some p"
      "verify_dpop_proof (dg_lib G) (dg_observe G) (int (ck_mono clock)) (settle_current_unix_seconds (ck_wall clock))
        ''POST'' (request_url G path headers) p (st_replay st) = (Ok \<lparr>vd_jkt = jkt\<rparr>, s)"
      "check_jkt (ck_mono clock) jkt (st_limiter st) = (Allowed, r)"
    using accept_lifecycle_write_Ok [OF accepted(1)] by blast
  have url: "request_url G path headers = de_expected_scheme (dg_expectations G) @ ''://'' @ host @ path"
    using assms(2) by (simp add: request_url_def)
  show ?thesis
  proof (cases "settle_gate (fa_prepared_store A) (fa_txlib A) body jkt (st_prepared st)")
    case (Inl err)
    then have "resp = settle_error_response err \<and> st' = st\<lparr>st_replay := s, st_limiter := r\<rparr>"
      using accepted(2) by (simp add: submit_settlement_gated)
    then show ?thesis using settle_error_is_problem by blast
  next
    case (Inr e)
    then have "pts_find_by_payment_id (fa_prepared_store A) (sr_payment_id body) (st_prepared st) = Ok (Some e) \<and>
        pe_agent_dpop_jkt e = jkt"
      by (simp add: settle_gate_Ok_iff gate_passed_def)
    then show ?thesis using p unfolding url by blast
  qed
qed

theorem settle_acts_only_under_proof_witness:
  "\<exists>resp st'. settle_handler ex_facilitator \<lparr>dg_lib = ex_dpop_lib, dg_observe = replay_observe 0,
      dg_expectations = pinned_expectations ''https'' ''z''\<rparr> ex_clock ''/p'' [] ex_settle ex_state = (resp, st') \<and> is_problem resp"
proof -
  let ?G = "\<lparr>dg_lib = ex_dpop_lib, dg_observe = replay_observe 0, dg_expectations = pinned_expectations ''https'' ''z''\<rparr>"
  obtain resp st' where run: "settle_handler ex_facilitator ?G ex_clock ''/p'' [] ex_settle ex_state = (resp, st')" by fastforce
  have "de_expected_host (dg_expectations ?G) = Some ''z''" by (simp add: pinned_expectations_def)
  from settle_acts_only_under_proof [OF run this] show ?thesis using run by (auto simp: nonempty_header_def)
qed

text \<open>The retry hint of the problem documents.  For the lifecycle, tip and disclosure endpoints a
  problem is marked retryable exactly when its status is 502 or 503, that is when the chain plane or a store
  failed; every refusal of the request itself is a 4xx marked not retryable.\<close>
theorem retryable_iff_backend_failure:
  "\<forall>r. (\<exists>e. r = prepare_error_response e) \<or> (\<exists>e. r = settle_error_response e) \<or> (\<exists>e. r = tip_error_response e) \<or>
       (\<exists>e. r = verify_error_response e) \<longrightarrow>
     (pb_retryable (re_body r) \<longleftrightarrow> re_status r \<in> {502, 503}) \<and> (re_status r \<in> {502, 503} \<or> 400 \<le> re_status r \<and> re_status r < 500)"
proof (intro allI impI, elim disjE exE)
  fix r e
  show "r = prepare_error_response e \<Longrightarrow> (pb_retryable (re_body r) \<longleftrightarrow> re_status r \<in> {502, 503}) \<and>
      (re_status r \<in> {502, 503} \<or> 400 \<le> re_status r \<and> re_status r < 500)" by (cases e) simp_all
next
  fix r e
  show "r = settle_error_response e \<Longrightarrow> (pb_retryable (re_body r) \<longleftrightarrow> re_status r \<in> {502, 503}) \<and>
      (re_status r \<in> {502, 503} \<or> 400 \<le> re_status r \<and> re_status r < 500)" by (cases e) simp_all
next
  fix r e
  show "r = tip_error_response e \<Longrightarrow> (pb_retryable (re_body r) \<longleftrightarrow> re_status r \<in> {502, 503}) \<and>
      (re_status r \<in> {502, 503} \<or> 400 \<le> re_status r \<and> re_status r < 500)" by (cases e) simp_all
next
  fix r e
  show "r = verify_error_response e \<Longrightarrow> (pb_retryable (re_body r) \<longleftrightarrow> re_status r \<in> {502, 503}) \<and>
      (re_status r \<in> {502, 503} \<or> 400 \<le> re_status r \<and> re_status r < 500)" by (cases e) simp_all
qed

theorem retryable_iff_backend_failure_witness:
  "pb_retryable (re_body (settle_error_response (SettleStorage (StoreUnavailable ''x'')))) \<and>
   \<not> pb_retryable (re_body (settle_error_response DpopMismatch))"
  using retryable_iff_backend_failure [rule_format, of "settle_error_response (SettleStorage (StoreUnavailable ''x''))"]
    retryable_iff_backend_failure [rule_format, of "settle_error_response DpopMismatch"] by auto

end
