(* ===== verification/Chain_Plane.thy ===== *)
theory Chain_Plane
  imports Chain_Events X402
begin

text \<open>
  The runtime's adapters to the chain plane: the confirmation oracle
  (\<open>zpay-runtime/src/zinder_oracle.rs\<close>), the chain-tip oracles (\<open>tip_oracle.rs\<close>), the
  transaction fetchers (\<open>zinder_fetcher.rs\<close>, \<open>rejecting_fetcher.rs\<close>), and the variants the
  composition root chooses between (\<open>AnySubmitter\<close>, \<open>AnyTransactionFetcher\<close>,
  \<open>AnyTipOracle\<close> in \<open>main.rs\<close> and \<open>tip_oracle.rs\<close>).  The chain client is the record
  \<open>ChainIndex\<close> of the calls the adapters make.
\<close>

record MinedTransaction =
  mt_transaction_id :: bytes
  mt_block_height :: u32
  mt_confirmations :: u32
  mt_raw_transaction_bytes :: "bytes option"

text \<open>\<open>TxOther\<close> stands for the variants the code does not name.\<close>

datatype TxStatus = TxMined MinedTransaction | TxInMempool | TxNotFound | TxOther

record ChainIndex =
  ix_current_epoch :: "IndexerError + ChainEpoch"
  ix_transaction_by_id :: "bytes \<Rightarrow> IndexerError + TxStatus"
  ix_error_text :: "IndexerError \<Rightarrow> string"
  ix_from_rpc_hex :: "string \<Rightarrow> string + bytes"

subsection \<open>Confirmation oracle\<close>

definition oracle_indexer_error :: "ChainIndex \<Rightarrow> IndexerError \<Rightarrow> OracleError" where
  "oracle_indexer_error ix err = OracleUnavailable (ix_error_text ix err)"

definition decode_rpc_transaction_id :: "ChainIndex \<Rightarrow> string \<Rightarrow> OracleError + bytes" where
  "decode_rpc_transaction_id ix transaction_id_hex =
    (case ix_from_rpc_hex ix transaction_id_hex of
       Inl err \<Rightarrow> Err (ResponseMalformed (''transaction_id is not valid RPC hex: '' @ err))
     | Inr tx_id \<Rightarrow> Ok tx_id)"

definition zinder_fetch_confirmations :: "ChainIndex \<Rightarrow> string \<Rightarrow> OracleError + ConfirmationOutcome" where
  "zinder_fetch_confirmations ix transaction_id_hex =
    (case decode_rpc_transaction_id ix transaction_id_hex of
       Inl e \<Rightarrow> Err e
     | Inr txid \<Rightarrow>
       (case ix_transaction_by_id ix txid of
          Inl err \<Rightarrow> Err (oracle_indexer_error ix err)
        | Inr (TxMined mined) \<Rightarrow> Ok (Mined (ucast (mt_block_height mined)) (mt_confirmations mined))
        | Inr TxInMempool \<Rightarrow> Ok InMempool
        | Inr TxNotFound \<Rightarrow> Ok NotFound
        | Inr TxOther \<Rightarrow> Err (ResponseMalformed ''zinder returned an unsupported transaction status'')))"

definition zinder_chain_status :: "ChainIndex \<Rightarrow> OracleError + ChainStatusView" where
  "zinder_chain_status ix =
    (case ix_current_epoch ix of
       Inl err \<Rightarrow> Err (oracle_indexer_error ix err)
     | Inr epoch \<Rightarrow> Ok \<lparr>visible_tip_height = Some (ucast (ep_visible_tip_height epoch)),
                        settled_tip_height = Some (ucast (ep_settled_tip_height epoch))\<rparr>)"

definition ZinderConfirmationOracle :: "ChainIndex \<Rightarrow> ConfirmationOracle" where
  "ZinderConfirmationOracle ix =
    \<lparr>co_fetch_confirmations = zinder_fetch_confirmations ix, co_chain_status = zinder_chain_status ix\<rparr>"

subsection \<open>Tip oracles\<close>

definition zinder_current_tip :: "ChainIndex \<Rightarrow> ChainTipOracle" where
  "zinder_current_tip ix network =
    (case ix_current_epoch ix of
       Inl err \<Rightarrow> Err (TipUnavailable (ix_error_text ix err))
     | Inr epoch \<Rightarrow> Ok (ep_visible_tip_height epoch))"

definition static_current_tip :: "u32 \<Rightarrow> ChainTipOracle" where
  "static_current_tip fallback_tip network = Ok fallback_tip"

datatype AnyTipOracle = StaticTip u32 | ZinderTip ChainIndex

fun any_current_tip :: "AnyTipOracle \<Rightarrow> ChainTipOracle" where
  "any_current_tip (StaticTip fallback_tip) = static_current_tip fallback_tip"
| "any_current_tip (ZinderTip ix) = zinder_current_tip ix"

subsection \<open>Transaction fetchers\<close>

definition internal_transaction_id :: "bytes \<Rightarrow> bytes" where
  "internal_transaction_id rpc_txid = rev rpc_txid"

definition zinder_fetch_transaction :: "ChainIndex \<Rightarrow> DisclosureFetcher" where
  "zinder_fetch_transaction ix rpc_txid =
    (let expected_transaction_id = internal_transaction_id rpc_txid in
     case ix_transaction_by_id ix expected_transaction_id of
       Inl err \<Rightarrow> Err (FetchUnavailable (ix_error_text ix err))
     | Inr TxNotFound \<Rightarrow> Err FetchNotFound
     | Inr TxInMempool \<Rightarrow> Err FetchNotFound
     | Inr TxOther \<Rightarrow> Err (FetchUnavailable ''zinder returned an unsupported transaction status'')
     | Inr (TxMined mined) \<Rightarrow>
         if mt_transaction_id mined \<noteq> expected_transaction_id
         then Err (FetchUnavailable ''zinder returned a different transaction id'')
         else (case mt_raw_transaction_bytes mined of
                 None \<Rightarrow> Err (FetchUnavailable
                   ''zinder does not retain transaction blobs; set storage.raw_blob_policy to transactions or all before ingest'')
               | Some raw \<Rightarrow> Ok \<lparr>dt_txid = rpc_txid, dt_raw_transaction_bytes = raw,
                                  dt_mined_height = mt_block_height mined\<rparr>))"

definition REJECTING_FETCHER_REASON :: string where
  "REJECTING_FETCHER_REASON =
    ''transaction fetcher not configured; set ZPAY_CHAIN_SOURCE_URL to surface mined chain_presence on /verify''"

definition rejecting_fetch_transaction :: DisclosureFetcher where
  "rejecting_fetch_transaction txid = Err (FetchUnavailable REJECTING_FETCHER_REASON)"

datatype AnyTransactionFetcher = RejectingFetcher | ZinderFetcher ChainIndex

fun any_fetch_transaction :: "AnyTransactionFetcher \<Rightarrow> DisclosureFetcher" where
  "any_fetch_transaction RejectingFetcher = rejecting_fetch_transaction"
| "any_fetch_transaction (ZinderFetcher ix) = zinder_fetch_transaction ix"

subsection \<open>Submitter\<close>

text \<open>The configured submitter is the client library's; only the placeholder is the runtime's own.
  \<open>network_debug\<close> is the \<open>Debug\<close> rendering of the library's network type.\<close>

datatype 'c AnySubmitter = RejectingSubmitter ZallyNetwork | ZinderSubmitter "(ZallyNetwork, 'c) Submitter"

fun any_submitter :: "(ZallyNetwork \<Rightarrow> string) \<Rightarrow> 'c AnySubmitter \<Rightarrow> (ZallyNetwork, 'c) Submitter" where
  "any_submitter network_debug (RejectingSubmitter network) =
    \<lparr>ch_network = network, ch_network_debug = network_debug network,
     ch_submit = (\<lambda>raw_tx chain.
       (Err ''submitter not configured; set ZPAY_CHAIN_SOURCE_URL to enable settle'', chain))\<rparr>"
| "any_submitter network_debug (ZinderSubmitter submitter) = submitter"

subsection \<open>What the adapters promise\<close>

text \<open>Heights of the chain plane are 32-bit, so the ledger's 64-bit columns hold them all.\<close>

lemma fits_i64_ucast: "fits_i64 (ucast (h :: u32))"
  using uint_lt2p [of h] by (simp add: fits_i64_def i64_max_def unsigned_ucast_eq take_bit_eq_mod)

lemma zinder_oracle_fits: "oracle_fits fits_i64 (ZinderConfirmationOracle ix)"
  by (auto simp: oracle_fits_def ZinderConfirmationOracle_def zinder_fetch_confirmations_def fits_i64_ucast
      split: sum.splits TxStatus.splits)

lemma zinder_fetch_Ok_iff:
  "zinder_fetch_transaction ix rpc_txid = Ok tx \<longleftrightarrow>
    (\<exists>m raw. ix_transaction_by_id ix (rev rpc_txid) = Ok (TxMined m) \<and> mt_transaction_id m = rev rpc_txid
      \<and> mt_raw_transaction_bytes m = Some raw
      \<and> tx = \<lparr>dt_txid = rpc_txid, dt_raw_transaction_bytes = raw, dt_mined_height = mt_block_height m\<rparr>)"
  by (auto simp: zinder_fetch_transaction_def internal_transaction_id_def Let_def
      split: sum.splits TxStatus.splits option.splits)

end
