(* ===== verification/Lifecycle.thy ===== *)
theory Lifecycle
  imports Chain_Plane
begin

text \<open>
  The facilitator as a whole: every handler that changes a payment, the sweep, the confirmation poll and
  the reorg handler, interleaved in any order over either pair of stores, as the step relation
  \<open>facility_step\<close> with its closure \<open>facility_run\<close>.  Each step has its own collaborators, so transport faults, chain
  answers, clocks and limits vary freely; what is fixed is that the stores are those of the backends.
  Payment ids are fresh when they are issued, as the id generator promises, and amounts and heights fit the ledger's columns.
\<close>

subsection \<open>Effects over any stores\<close>

text \<open>On row maps: all prepared amounts fit a bound; and a step that only consumes preparations, and writes ledger
  rows only of payments that were prepared.\<close>

type_synonym prepared_map = "PaymentId \<Rightarrow> PreparedTxEntry option"
type_synonym ledger_map = "PaymentId \<Rightarrow> SettlementLedgerEntry option"

definition amounts_fit :: "(u64 \<Rightarrow> bool) \<Rightarrow> prepared_map \<Rightarrow> bool" where
  "amounts_fit fits r \<longleftrightarrow> (\<forall>q e. r q = Some e \<longrightarrow> fits (pe_amount_zat e))"

definition consumes :: "prepared_map \<Rightarrow> ledger_map \<Rightarrow> prepared_map \<Rightarrow> ledger_map \<Rightarrow> bool" where
  "consumes r m r' m' \<longleftrightarrow> (\<forall>q e. r' q = Some e \<longrightarrow> r q = Some e) \<and> (\<forall>q. r q = None \<longrightarrow> m' q = m q)"

lemma consumes_refl [simp]: "consumes r m r m"
  by (simp add: consumes_def)

lemma amounts_fit_consumed: "amounts_fit fits r \<Longrightarrow> consumes r m r' m' \<Longrightarrow> amounts_fit fits r'"
  by (auto simp: amounts_fit_def consumes_def)

context payment_stores
begin

lemma record_consumes:
  assumes "pinv p" "linv l" "rows p q = Some e" "entry_fits fits x"
    and "sl_record L q x l = (r, l')" "p' = p \<or> (\<exists>s. pts_remove P q p = (s, p'))"
  shows "pinv p' \<and> linv l' \<and> consumes (rows p) (led l) (rows p') (led l')"
proof -
  have l: "linv l' \<and> (\<forall>q'. q' \<noteq> q \<longrightarrow> led l' q' = led l q')"
    using assms(5) ledg.record_ok [OF assms(2,4), of q _ l'] ledg.record_err [of q x l _ l'] assms(2) by (cases r) auto
  have p: "pinv p' \<and> (\<forall>q' e. rows p' q' = Some e \<longrightarrow> rows p q' = Some e)"
    using assms(6)
  proof (elim disjE exE)
    fix s assume "pts_remove P q p = (s, p')"
    then show ?thesis using prep.remove_ok [OF assms(1), of q _ p'] prep.remove_err [of q p _ p'] assms(1)
      by (cases s) (auto split: if_splits)
  qed (use assms(1) in simp)
  show ?thesis using l p assms(3) by (simp add: consumes_def) (metis option.distinct(1))
qed

lemma settle_consumes:
  assumes "pinv p" "linv l" "amounts_fit fits (rows p)" "submit_settlement P L C T now request jkt p l c = (out, p', l', c')"
  shows "pinv p' \<and> linv l' \<and> consumes (rows p) (led l) (rows p') (led l')"
proof (cases "settle_gate P T request jkt p")
  case (Inl e)
  then show ?thesis using assms(1,2,4) by (simp add: submit_settlement_gated)
next
  case (Inr e)
  have row: "rows p (sr_payment_id request) = Some e"
    using Inr prep.find_ok [OF assms(1)] by (auto simp: settle_gate_Ok_iff)
  have fit: "entry_fits fits (settle_entry now e o')" for o'
    using assms(3) row by (auto simp: entry_fits_def settle_entry_def amounts_fit_def)
  have "p' = p \<and> l' = l \<or> (\<exists>o' r. sl_record L (sr_payment_id request) (settle_entry now e o') l = (r, l')
      \<and> (p' = p \<or> (\<exists>s. pts_remove P (sr_payment_id request) p = (s, p'))))"
    using assms(4) Inr by (simp add: submit_settlement_def Let_def split: sum.splits prod.splits if_splits) blast+
  then show ?thesis using assms(1,2) consumes_refl record_consumes [OF assms(1,2) row fit] by blast
qed

lemma x402_record_consumes:
  assumes "pinv p" "linv l" "rows p (px_payment_id prepared) = Some e" "fits (px_amount_zat prepared)"
    and "record_prepared_x402_settlement P L clock prepared outcome p l = (out, p', l')"
  shows "pinv p' \<and> linv l' \<and> consumes (rows p) (led l) (rows p') (led l')"
proof -
  have "entry_fits fits (x402_ledger_entry clock prepared (po_broadcast_outcome outcome))"
    using assms(4) by (simp add: entry_fits_def x402_ledger_entry_def)
  moreover have "\<exists>r. sl_record L (px_payment_id prepared) (x402_ledger_entry clock prepared (po_broadcast_outcome outcome)) l = (r, l')
      \<and> (p' = p \<or> (\<exists>s. pts_remove P (px_payment_id prepared) p = (s, p')))"
    using assms(5) by (simp add: record_prepared_x402_settlement_def split: sum.splits prod.splits if_splits)
  ultimately show ?thesis using record_consumes [OF assms(1-3)] by blast
qed

lemmas x402_recorded = x402_record_effect

text \<open>A recording that fails leaves the preparation in place; the ledger has the row only when it was the removal that failed.\<close>

lemma x402_record_failure:
  assumes "pinv p" "linv l" "fits (px_amount_zat prepared)"
    and "record_prepared_x402_settlement P L clock prepared outcome p l = (Err reason, p', l')"
  shows "p' = p \<and> (led l' = led l
    \<or> led l' = (led l)(px_payment_id prepared \<mapsto> x402_ledger_entry clock prepared (po_broadcast_outcome outcome)))"
proof -
  let ?e = "x402_ledger_entry clock prepared (po_broadcast_outcome outcome)"
  have fit: "entry_fits fits ?e" using assms(3) by (simp add: entry_fits_def x402_ledger_entry_def)
  obtain r l1 where rec: "sl_record L (px_payment_id prepared) ?e l = (r, l1)" by fastforce
  show ?thesis
  proof (cases r)
    case (Inl x)
    then show ?thesis using assms(4) rec ledg.record_err [of _ ?e l x l1] by (auto simp: record_prepared_x402_settlement_def)
  next
    case (Inr u)
    then have "l' = l1" "\<exists>x. pts_remove P (px_payment_id prepared) p = (Err x, p')"
      using assms(4) rec by (auto simp: record_prepared_x402_settlement_def split: if_splits prod.splits sum.splits)
    then show ?thesis using rec Inr ledg.record_ok [OF assms(2) fit] prep.remove_err by blast
  qed
qed

lemma sweep_consumes:
  assumes "pinv p" "linv l"
  shows "pinv (sweep_tick P clock p) \<and> consumes (rows p) (led l) (rows (sweep_tick P clock p)) (led l)"
proof -
  obtain r p' where s: "pts_sweep_expired P (now_unix_seconds clock) p = (r, p')" by fastforce
  then have "pinv p' \<and> (\<forall>q e. rows p' q = Some e \<longrightarrow> rows p q = Some e)"
    using prep.sweep_ok [OF assms(1) , of _ _ p'] prep.sweep_err [of _ p _ p'] assms(1)
    by (cases r) (auto simp: unexpired_def split: option.splits if_splits)
  then show ?thesis using assms(2) s by (simp add: consumes_def sweep_tick_def)
qed

lemma propose_adds:
  assumes "pinv p" "rows p fid = None" "\<And>x y z e. resolve reg x y z = Some e \<Longrightarrow> fits (ae_amount_zat e)" "amounts_fit fits (rows p)"
    and "propose P sha256 b64 reg tip fid now rq jkt p = (r, p')"
  shows "pinv p' \<and> amounts_fit fits (rows p') \<and> (\<forall>q. q \<noteq> fid \<longrightarrow> rows p' q = rows p q)"
proof (cases r)
  case (Inl x)
  then show ?thesis using assms prep.propose_fails_unchanged by blast
next
  case (Inr y)
  with assms(5) have "propose P sha256 b64 reg tip fid now rq jkt p = (Inr y, p')" by simp
  then show ?thesis
  proof (cases rule: prep.propose_Ok_cases)
    case replay
    then show ?thesis using assms(1,4) by blast
  next
    case fresh
    from prep.propose_fresh_row [OF assms(1,2) _ conjunct2 [OF fresh]] fresh obtain e h where
      new: "pinv p'" "resolve reg (rq_payee_id rq) (rq_scheme rq) (rq_network rq) = Some e"
        "rows p' = (rows p)(fid \<mapsto> proposed_entry sha256 b64 fid now rq jkt e (saturating_add h (expiry_delta e)))" by blast
    then show ?thesis using assms(3) [OF new(2)] assms(4) by (auto simp: amounts_fit_def)
  qed
qed

end

subsection \<open>The facilitator's steps\<close>

text \<open>A deployment as one step sees it: the stores over that step's transport, and the answers of the chain plane.\<close>

definition facing ::
  "(AnyPreparedTxStore, AnySettlementLedgerStore, 'c, 'h, 'r) Facilitator \<Rightarrow> net \<Rightarrow> net \<Rightarrow> i64
    \<Rightarrow> (ZallyNetwork, 'c) Submitter \<Rightarrow> ChainTipOracle
    \<Rightarrow> (AnyPreparedTxStore, AnySettlementLedgerStore, 'c, 'h, 'r) Facilitator" where
  "facing A net net' now C tip =
     A\<lparr>fa_prepared_store := AnyPrepared (fa_b64_encode A) net, fa_ledger := AnyLedger net' now, fa_chain := C,
       fa_tip_oracle := tip\<rparr>"

lemma facing_simps [simp]:
  "fa_prepared_store (facing A net net' now C tip) = AnyPrepared (fa_b64_encode A) net"
  "fa_ledger (facing A net net' now C tip) = AnyLedger net' now"
  "fa_b64_encode (facing A net net' now C tip) = fa_b64_encode A" "fa_payees (facing A net net' now C tip) = fa_payees A"
  by (simp_all add: facing_def)

definition registry_fits :: "PayeeRegistry \<Rightarrow> bool" where
  "registry_fits reg \<longleftrightarrow> (\<forall>x y z e. resolve reg x y z = Some e \<longrightarrow> fits_i64 (ae_amount_zat e))"

inductive facility_step ::
  "(AnyPreparedTxStore, AnySettlementLedgerStore, 'c, 'h, 'r) Facilitator \<Rightarrow> ('json, 'key, 'url, 's) DpopGate
    \<Rightarrow> ('a, 'x) PcztLib \<Rightarrow> (AnyPreparedTxStore, AnySettlementLedgerStore, 'c, 'h, 's) FacilitatorState
    \<Rightarrow> (AnyPreparedTxStore, AnySettlementLedgerStore, 'c, 'h, 's) FacilitatorState \<Rightarrow> bool"
  for A G Z where
  prepare: "prepare_handler (facing A net net' now C tip) G fresh_id clock path headers body st = (resp, st')
    \<Longrightarrow> any_prepared_rows (fa_b64_encode A) (st_prepared st) fresh_id = None \<Longrightarrow> any_ledger_rows (st_ledger st) fresh_id = None
    \<Longrightarrow> facility_step A G Z st st'"
| settle: "settle_handler (facing A net net' now C tip) G clock path headers body' st = (resp, st') \<Longrightarrow> facility_step A G Z st st'"
| x402: "x402_settle_handler (facing A net net' now C tip) Z clock headers peer request st = (resp, st')
    \<Longrightarrow> facility_step A G Z st st'"
| sweep: "facility_step A G Z st (st\<lparr>st_prepared := sweep_tick (AnyPrepared (fa_b64_encode A) net) wall (st_prepared st)\<rparr>)"
| poll: "poll_oracle_once (fa_bus A) oracle (AnyPrepared (fa_b64_encode A) net) (AnyLedger net' now) wall depth (st_prepared st)
      (st_ledger st, st_events st, st_chain_status st) = (l, hub, cache)
    \<Longrightarrow> oracle_fits fits_i64 oracle
    \<Longrightarrow> facility_step A G Z st (st\<lparr>st_ledger := l, st_events := hub, st_chain_status := cache\<rparr>)"
| reorg: "handle_reorg (fa_bus A) (AnyPrepared (fa_b64_encode A) net) (AnyLedger net' now) wall depth (st_prepared st) lo hi
      (st_ledger st, st_events st, st_chain_status st) = (l, hub, cache)
    \<Longrightarrow> fits_i64 lo \<Longrightarrow> fits_i64 hi
    \<Longrightarrow> facility_step A G Z st (st\<lparr>st_ledger := l, st_events := hub, st_chain_status := cache\<rparr>)"

inductive facility_run ::
  "(AnyPreparedTxStore, AnySettlementLedgerStore, 'c, 'h, 'r) Facilitator \<Rightarrow> ('json, 'key, 'url, 's) DpopGate
    \<Rightarrow> ('a, 'x) PcztLib \<Rightarrow> (AnyPreparedTxStore, AnySettlementLedgerStore, 'c, 'h, 's) FacilitatorState
    \<Rightarrow> (AnyPreparedTxStore, AnySettlementLedgerStore, 'c, 'h, 's) FacilitatorState \<Rightarrow> bool"
  for A G Z where
  stay: "facility_run A G Z st st"
| onward: "facility_run A G Z st st' \<Longrightarrow> facility_step A G Z st' st'' \<Longrightarrow> facility_run A G Z st st''"

definition facility_ok ::
  "(bytes \<Rightarrow> string) \<Rightarrow> (AnyPreparedTxStore, AnySettlementLedgerStore, 'c, 'h, 's) FacilitatorState \<Rightarrow> bool" where
  "facility_ok b64 st \<longleftrightarrow> any_prepared_inv (st_prepared st) \<and> any_ledger_inv (st_ledger st)
     \<and> amounts_fit fits_i64 (any_prepared_rows b64 (st_prepared st))"

definition same_payment :: "SettlementLedgerEntry \<Rightarrow> SettlementLedgerEntry \<Rightarrow> bool" where
  "same_payment e e' \<longleftrightarrow> le_broadcast_outcome e' = le_broadcast_outcome e \<and> le_payee_id e' = le_payee_id e
     \<and> le_amount_zat e' = le_amount_zat e \<and> le_expiry_height e' = le_expiry_height e
     \<and> le_settled_at_unix_seconds e' = le_settled_at_unix_seconds e"

lemma same_payment_refl [simp]: "same_payment e e"
  by (simp add: same_payment_def)

lemma same_payment_trans: "same_payment e e' \<Longrightarrow> same_payment e' e'' \<Longrightarrow> same_payment e e''"
  by (simp add: same_payment_def)

lemma same_payment_confirm [simp]: "same_payment e (confirm_entry c h e)"
  by (simp add: same_payment_def confirm_entry_def Let_def split: option.splits)

lemma same_payment_downgrade [simp]: "same_payment e (downgrade_entry at e)" "same_payment e (downgrade_if_mined at e)"
  "same_payment e (downgrade_in_range lo hi at e)"
  by (simp_all add: same_payment_def downgrade_if_mined_def downgrade_in_range_def downgrade_entry_def)

lemma same_payment_reconciled [simp]: "same_payment e (reconciled oracle at view e)"
  by (simp add: reconciled_def split: option.splits sum.splits ConfirmationOutcome.splits)

text \<open>A payment past preparation: consumed, and on record as \<open>e\<close>.\<close>

definition recorded_as ::
  "(bytes \<Rightarrow> string) \<Rightarrow> PaymentId \<Rightarrow> SettlementLedgerEntry
    \<Rightarrow> (AnyPreparedTxStore, AnySettlementLedgerStore, 'c, 'h, 's) FacilitatorState \<Rightarrow> bool" where
  "recorded_as b64 pid e st \<longleftrightarrow> facility_ok b64 st \<and> any_prepared_rows b64 (st_prepared st) pid = None
     \<and> (\<exists>e'. any_ledger_rows (st_ledger st) pid = Some e' \<and> same_payment e e')"

lemma recorded_consumes:
  assumes "recorded_as b64 pid e st" "any_prepared_inv (st_prepared st')" "any_ledger_inv (st_ledger st')"
    and "consumes (any_prepared_rows b64 (st_prepared st)) (any_ledger_rows (st_ledger st))
      (any_prepared_rows b64 (st_prepared st')) (any_ledger_rows (st_ledger st'))"
  shows "recorded_as b64 pid e st'"
proof -
  have "any_prepared_rows b64 (st_prepared st') pid = None"
    using assms(1,4) by (cases "any_prepared_rows b64 (st_prepared st') pid") (auto simp: consumes_def recorded_as_def)
  then show ?thesis using assms amounts_fit_consumed [OF _ assms(4)] by (auto simp: recorded_as_def facility_ok_def consumes_def)
qed

lemma recorded_relabelled:
  assumes "recorded_as b64 pid e st" "any_ledger_inv l" "st_prepared st' = st_prepared st" "st_ledger st' = l"
    and "\<And>x. any_ledger_rows (st_ledger st) pid = Some x \<Longrightarrow> \<exists>y. any_ledger_rows l pid = Some y \<and> same_payment x y"
  shows "recorded_as b64 pid e st'"
proof -
  obtain x where x: "any_ledger_rows (st_ledger st) pid = Some x" "same_payment e x"
    using assms(1) by (auto simp: recorded_as_def)
  then obtain y where "any_ledger_rows l pid = Some y" "same_payment e y"
    using assms(5) [OF x(1)] same_payment_trans by blast
  then show ?thesis using assms(1-4) by (auto simp: recorded_as_def facility_ok_def)
qed

text \<open>What a step keeps: well-formed stores, and every payment that is past preparation.\<close>

definition kept ::
  "(bytes \<Rightarrow> string) \<Rightarrow> (AnyPreparedTxStore, AnySettlementLedgerStore, 'c, 'h, 's) FacilitatorState
    \<Rightarrow> (AnyPreparedTxStore, AnySettlementLedgerStore, 'c, 'h, 's) FacilitatorState \<Rightarrow> bool" where
  "kept b64 st st' \<longleftrightarrow> facility_ok b64 st' \<and> (\<forall>pid e. recorded_as b64 pid e st \<longrightarrow> recorded_as b64 pid e st')"

lemma kept_frame:
  assumes "facility_ok b64 st" "st_prepared st' = st_prepared st" "st_ledger st' = st_ledger st"
  shows "kept b64 st st'"
  using assms by (simp add: kept_def recorded_as_def facility_ok_def)

lemma kept_consumes:
  assumes "facility_ok b64 st" "any_prepared_inv (st_prepared st')" "any_ledger_inv (st_ledger st')"
    and "consumes (any_prepared_rows b64 (st_prepared st)) (any_ledger_rows (st_ledger st))
      (any_prepared_rows b64 (st_prepared st')) (any_ledger_rows (st_ledger st'))"
  shows "kept b64 st st'"
  using assms recorded_consumes [OF _ assms(2-4)] amounts_fit_consumed [OF _ assms(4)] by (auto simp: kept_def facility_ok_def)

lemma kept_relabelled:
  assumes "facility_ok b64 st" "any_ledger_inv l" "st_prepared st' = st_prepared st" "st_ledger st' = l"
    and "\<And>pid x. any_ledger_rows (st_ledger st) pid = Some x \<Longrightarrow> \<exists>y. any_ledger_rows l pid = Some y \<and> same_payment x y"
  shows "kept b64 st st'"
  unfolding kept_def using assms(1-4) recorded_relabelled [OF _ assms(2-5)] by (auto simp: facility_ok_def)

subsection \<open>Every step keeps the stores well formed and the recorded payments\<close>

lemma prepare_kept:
  assumes "facility_ok (fa_b64_encode A) st" "registry_fits (fa_payees A)"
    and "prepare_handler (facing A net net' now C tip) G fresh_id clock path headers body st = (resp, st')"
    and "any_prepared_rows (fa_b64_encode A) (st_prepared st) fresh_id = None" "any_ledger_rows (st_ledger st) fresh_id = None"
  shows "kept (fa_b64_encode A) st st'"
  using assms(3) unfolding prepare_handler_def
proof (cases rule: with_dpop_cases)
  case (refused s r)
  then show ?thesis by (intro kept_frame [OF assms(1)]) simp_all
next
  case (accepted jkt s r)
  obtain out p where pr: "propose (AnyPrepared (fa_b64_encode A) net) (fa_sha256 (facing A net net' now C tip)) (fa_b64_encode A)
      (fa_payees A) (fa_tip_oracle (facing A net net' now C tip)) fresh_id (ck_wall clock) (effective_request headers body) jkt
      (st_prepared st) = (out, p)" by fastforce
  have st': "st_prepared st' = p" "st_ledger st' = st_ledger st"
    using accepted(2) pr by (cases out; auto)+
  have ok: "any_prepared_inv (st_prepared st)" "amounts_fit fits_i64 (any_prepared_rows (fa_b64_encode A) (st_prepared st))"
    using assms(1) by (simp_all add: facility_ok_def)
  have "pid \<noteq> fresh_id" if "recorded_as (fa_b64_encode A) pid e st" for pid e using that assms(5) by (auto simp: recorded_as_def)
  moreover have "any_prepared_inv p \<and> amounts_fit fits_i64 (any_prepared_rows (fa_b64_encode A) p)
      \<and> (\<forall>q. q \<noteq> fresh_id \<longrightarrow> any_prepared_rows (fa_b64_encode A) p q = any_prepared_rows (fa_b64_encode A) (st_prepared st) q)"
    by (rule any_stores.propose_adds [OF ok(1) assms(4) _ ok(2) pr]) (use assms(2) in \<open>auto simp: registry_fits_def\<close>)
  ultimately show ?thesis using assms(1) st' by (auto simp: kept_def recorded_as_def facility_ok_def)
qed

text \<open>A settlement, on either endpoint, only consumes preparations and writes only the ledger row of a prepared payment.\<close>

definition settles ::
  "(bytes \<Rightarrow> string) \<Rightarrow> (AnyPreparedTxStore, AnySettlementLedgerStore, 'c, 'h, 's) FacilitatorState
    \<Rightarrow> (AnyPreparedTxStore, AnySettlementLedgerStore, 'c, 'h, 's) FacilitatorState \<Rightarrow> bool" where
  "settles b64 st st' \<longleftrightarrow> any_prepared_inv (st_prepared st') \<and> any_ledger_inv (st_ledger st')
     \<and> consumes (any_prepared_rows b64 (st_prepared st)) (any_ledger_rows (st_ledger st))
         (any_prepared_rows b64 (st_prepared st')) (any_ledger_rows (st_ledger st'))"

lemma settles_frame:
  "facility_ok b64 st \<Longrightarrow> st_prepared st' = st_prepared st \<Longrightarrow> st_ledger st' = st_ledger st \<Longrightarrow> settles b64 st st'"
  by (simp add: settles_def facility_ok_def)

lemma settle_settles:
  assumes "facility_ok (fa_b64_encode A) st"
    and "settle_handler (facing A net net' now C tip) G clock path headers body st = (resp, st')"
  shows "settles (fa_b64_encode A) st st'"
  using assms(2) unfolding settle_handler_def
proof (cases rule: with_dpop_cases)
  case (refused s r)
  then show ?thesis by (intro settles_frame [OF assms(1)]) simp_all
next
  case (accepted jkt s r)
  obtain out p l c where sub: "submit_settlement (AnyPrepared (fa_b64_encode A) net) (AnyLedger net' now)
      (fa_chain (facing A net net' now C tip)) (fa_txlib (facing A net net' now C tip)) (ck_wall clock) body jkt
      (st_prepared st) (st_ledger st) (st_chain st) = (out, p, l, c)" by (metis prod_cases4)
  have st': "st_prepared st' = p" "st_ledger st' = l"
    using accepted(2) sub by (cases out; auto)+
  have "any_prepared_inv (st_prepared st)" "any_ledger_inv (st_ledger st)"
    "amounts_fit fits_i64 (any_prepared_rows (fa_b64_encode A) (st_prepared st))"
    using assms(1) by (simp_all add: facility_ok_def)
  note any_stores.settle_consumes [OF this sub]
  then show ?thesis using st' by (simp add: settles_def)
qed

text \<open>The row an x402 request is linked to.\<close>

lemma x402_linked_row:
  assumes "facility_ok (fa_b64_encode A) st"
    and "x402_settle_gate (facing A net net' now C tip) Z request (st_prepared st) = Ok (settlement, Some q, verified)"
  obtains e where "zpay_payment_id (fr_payment_requirements request) = Ok (Some (px_payment_id q))"
    "any_prepared_rows (fa_b64_encode A) (st_prepared st) (px_payment_id q) = Some e"
    "px_amount_zat q = pe_amount_zat e" "px_payee_id q = pe_payee_id e"
    "px_expiry_height q = pr_expiry_height (pe_preparation e)" "fits_i64 (px_amount_zat q)"
proof -
  have ok: "any_prepared_inv (st_prepared st)" "amounts_fit fits_i64 (any_prepared_rows (fa_b64_encode A) (st_prepared st))"
    using assms(1) by (simp_all add: facility_ok_def)
  have found: "find_prepared_x402_settlement (AnyPrepared (fa_b64_encode A) net) request settlement (st_prepared st) = Ok (Some q)"
    using x402_settle_gate_Ok(4) [OF assms(2)] by simp
  then obtain id where id: "zpay_payment_id (fr_payment_requirements request) = Ok (Some id)"
    by (auto simp: find_prepared_x402_settlement_def split: sum.splits option.splits)
  from find_prepared_Some [OF found this] obtain x where
    "pts_find_by_payment_id (AnyPrepared (fa_b64_encode A) net) id (st_prepared st) = Ok (Some x)"
    and q: "px_payment_id q = id" "px_amount_zat q = pe_amount_zat x" "px_payee_id q = pe_payee_id x"
      "px_expiry_height q = pr_expiry_height (pe_preparation x)" by auto
  then have row: "any_prepared_rows (fa_b64_encode A) (st_prepared st) (px_payment_id q) = Some x"
    using any_prepared.find_ok [OF ok(1)] by fastforce
  then have "fits_i64 (px_amount_zat q)" using ok(2) q by (auto simp: amounts_fit_def)
  with that [of x] row q id show thesis by simp
qed

lemma x402_settles:
  assumes "facility_ok (fa_b64_encode A) st"
    and "x402_settle_handler (facing A net net' now C tip) Z clock headers peer request st = (resp, st')"
  shows "settles (fa_b64_encode A) st st'"
  using assms(2)
proof (cases rule: x402_settle_cases)
  case stopped
  then show ?thesis by (intro settles_frame [OF assms(1)]) simp_all
next
  case (failed settlement prep verified err c)
  then show ?thesis by (intro settles_frame [OF assms(1)]) simp_all
next
  case (sent settlement prep verified outcome c r ext)
  show ?thesis
  proof (cases prep)
    case None
    then show ?thesis using sent(3)
      by (intro settles_frame [OF assms(1)]) (auto simp: x402_settle_response_extensions_def Let_def)
  next
    case (Some q)
    obtain out p l where rec: "record_prepared_x402_settlement (AnyPrepared (fa_b64_encode A) net) (AnyLedger net' now) clock q
        outcome (st_prepared st) (st_ledger st) = (out, p, l)" by (metis prod_cases3)
    have st': "st_prepared st' = p" "st_ledger st' = l"
      using sent(3) Some rec by (cases out; auto simp: x402_settle_response_extensions_def Let_def)+
    have ok: "any_prepared_inv (st_prepared st)" "any_ledger_inv (st_ledger st)"
      using assms(1) by (simp_all add: facility_ok_def)
    obtain e where "any_prepared_rows (fa_b64_encode A) (st_prepared st) (px_payment_id q) = Some e" "fits_i64 (px_amount_zat q)"
      by (rule x402_linked_row [OF assms(1) sent(1) [unfolded Some]])
    from any_stores.x402_record_consumes [OF ok this rec] show ?thesis using st' by (simp add: settles_def)
  qed
qed

lemma settles_kept: "facility_ok b64 st \<Longrightarrow> settles b64 st st' \<Longrightarrow> kept b64 st st'"
  using kept_consumes unfolding settles_def by blast

lemma reorg_kept:
  assumes "facility_ok b64 st" "fits_i64 lo" "fits_i64 hi"
    and "handle_reorg B P (AnyLedger net' now) wall depth p lo hi (st_ledger st, st_events st, st_chain_status st) = (l, hub, cache)"
  shows "kept b64 st (st\<lparr>st_ledger := l, st_events := hub, st_chain_status := cache\<rparr>)"
proof -
  obtain r l1 where d: "sl_downgrade_reorged_range (AnyLedger net' now) lo hi (now_unix_seconds_i64 wall) (st_ledger st) = (r, l1)"
    by fastforce
  have l: "l = l1" using assms(4) d by (cases r) (auto simp: handle_reorg_def Let_def split: if_splits)
  have inv: "any_ledger_inv (st_ledger st)" using assms(1) by (simp add: facility_ok_def)
  have eff: "any_ledger_inv l \<and> (any_ledger_rows l = any_ledger_rows (st_ledger st) \<or>
      any_ledger_rows l = (\<lambda>q. map_option (downgrade_in_range lo hi (now_unix_seconds_i64 wall)) (any_ledger_rows (st_ledger st) q)))"
  proof (cases r)
    case (Inl x)
    then show ?thesis using d l inv any_ledger.range_err by blast
  next
    case (Inr ids)
    then show ?thesis using d l any_ledger.range_ok [OF inv assms(2,3)] by blast
  qed
  show ?thesis
    by (rule kept_relabelled [OF assms(1) conjunct1 [OF eff]]) (use eff in auto)
qed

lemma poll_kept:
  assumes "facility_ok b64 st" "oracle_fits fits_i64 oracle"
    and "poll_oracle_once B oracle (AnyPrepared b64 net) (AnyLedger net' now) wall depth p
      (st_ledger st, st_events st, st_chain_status st) = (l, hub, cache)"
  shows "kept b64 st (st\<lparr>st_ledger := l, st_events := hub, st_chain_status := cache\<rparr>)"
proof -
  have inv: "any_ledger_inv (st_ledger st)" using assms(1) by (simp add: facility_ok_def)
  note eff = any_stores.poll_effect [OF inv assms(2,3)]
  show ?thesis
  proof (rule kept_relabelled [OF assms(1) conjunct1 [OF eff]])
    fix pid x assume x: "any_ledger_rows (st_ledger st) pid = Some x"
    show "\<exists>y. any_ledger_rows l pid = Some y \<and> same_payment x y"
      using eff [THEN conjunct2, THEN conjunct2, THEN conjunct2, rule_format, of pid] x
      by (auto simp: reconciled_or_kept_def)
  qed simp_all
qed

lemma facility_step_kept:
  assumes "facility_step A G Z st st'" "registry_fits (fa_payees A)" "facility_ok (fa_b64_encode A) st"
  shows "kept (fa_b64_encode A) st st'"
  using assms(1)
proof cases
  case (prepare net net' now C tip fresh_id clock path headers body resp)
  then show ?thesis using prepare_kept [OF assms(3,2)] by blast
next
  case (settle net net' now C tip clock path headers body' resp)
  then show ?thesis using settles_kept [OF assms(3)] settle_settles [OF assms(3)] by blast
next
  case (x402 net net' now C tip clock headers peer request resp)
  then show ?thesis using settles_kept [OF assms(3)] x402_settles [OF assms(3)] by blast
next
  case (sweep net wall)
  have ok: "any_prepared_inv (st_prepared st)" "any_ledger_inv (st_ledger st)"
    using assms(3) by (simp_all add: facility_ok_def)
  show ?thesis using kept_consumes [OF assms(3), of st'] any_stores.sweep_consumes [OF ok] ok(2) sweep by simp
next
  case (poll orc net net' now wall depth l hub cache)
  show ?thesis unfolding poll(1) by (rule poll_kept [OF assms(3) poll(3,2)])
next
  case (reorg net net' now wall depth lo hi l hub cache)
  show ?thesis unfolding reorg(1) by (rule reorg_kept [OF assms(3) reorg(3,4,2)])
qed

lemma facility_run_kept:
  assumes "facility_run A G Z st st'" "registry_fits (fa_payees A)" "facility_ok (fa_b64_encode A) st"
  shows "kept (fa_b64_encode A) st st'"
  using assms
proof (induction rule: facility_run.induct)
  case (stay st)
  then show ?case by (simp add: kept_def)
next
  case (onward st st' st'')
  then have "kept (fa_b64_encode A) st st'" by blast
  moreover from this have "kept (fa_b64_encode A) st' st''"
    using facility_step_kept [OF onward(2,4)] by (simp add: kept_def)
  ultimately show ?case by (auto simp: kept_def)
qed

lemma recorded_no_settle:
  assumes "recorded_as (fa_b64_encode A) pid e st" "sr_payment_id body = pid"
  shows "st_chain (snd (settle_handler (facing A net net' now C tip) G clock path headers body st)) = st_chain st"
proof -
  obtain resp st' where h: "settle_handler (facing A net net' now C tip) G clock path headers body st = (resp, st')" by fastforce
  then have "st_chain st' = st_chain st" unfolding settle_handler_def
  proof (cases rule: with_dpop_cases)
    case (accepted jkt s r)
    have "settle_gate (AnyPrepared (fa_b64_encode A) net) (fa_txlib (facing A net net' now C tip)) body jkt (st_prepared st) \<noteq> Ok x" for x
      using any_prepared.find_ok [of "st_prepared st"] assms
      by (fastforce simp: settle_gate_Ok_iff recorded_as_def facility_ok_def)
    then obtain err where "settle_gate (AnyPrepared (fa_b64_encode A) net) (fa_txlib (facing A net net' now C tip)) body jkt
        (st_prepared st) = Err err"
      by (cases "settle_gate (AnyPrepared (fa_b64_encode A) net) (fa_txlib (facing A net net' now C tip)) body jkt (st_prepared st)") auto
    then show ?thesis using accepted(2) by (auto simp: submit_settlement_gated)
  qed simp
  then show ?thesis by (simp add: h)
qed

lemma recorded_no_x402:
  assumes "recorded_as (fa_b64_encode A) pid e st" "zpay_payment_id (fr_payment_requirements request) = Ok (Some pid)"
  shows "st_chain (snd (x402_settle_handler (facing A net net' now C tip) Z clock headers peer request st)) = st_chain st"
proof -
  obtain resp st' where h: "x402_settle_handler (facing A net net' now C tip) Z clock headers peer request st = (resp, st')" by fastforce
  have no: "x402_settle_gate (facing A net net' now C tip) Z request (st_prepared st) \<noteq> Ok (settlement, prep, verified)"
    for settlement prep verified
    using find_prepared_Some [OF x402_settle_gate_Ok(4) assms(2), of "facing A net net' now C tip" Z "st_prepared st"]
      any_prepared.find_ok [of "st_prepared st" "fa_b64_encode A" net pid] assms(1)
    by (fastforce simp: recorded_as_def facility_ok_def)
  from h have "st_chain st' = st_chain st" by (cases rule: x402_settle_cases) (auto simp: no)
  then show ?thesis by (simp add: h)
qed

subsection \<open>Properties\<close>

text \<open>[C3] A settled payment is final for the facilitator.  Once a payment is in the ledger and its preparation is
  consumed, then after any interleaving of prepares, settlements on either endpoint, sweeps, confirmation polls
  and reorgs, over either backend and with any transport faults and chain answers, it is still in the
  ledger with the same broadcast outcome, payee, amount, expiry height and settlement time, it is not prepared
  again, and no settle or x402 request that names it reaches the chain.\<close>

theorem settled_payment_is_final:
  assumes "registry_fits (fa_payees A)" "facility_ok (fa_b64_encode A) st"
    and "any_ledger_rows (st_ledger st) pid = Some e" "any_prepared_rows (fa_b64_encode A) (st_prepared st) pid = None"
    and "facility_run A G Z st st'"
  shows "(\<exists>e'. any_ledger_rows (st_ledger st') pid = Some e' \<and> le_broadcast_outcome e' = le_broadcast_outcome e
      \<and> le_payee_id e' = le_payee_id e \<and> le_amount_zat e' = le_amount_zat e \<and> le_expiry_height e' = le_expiry_height e
      \<and> le_settled_at_unix_seconds e' = le_settled_at_unix_seconds e)
    \<and> any_prepared_rows (fa_b64_encode A) (st_prepared st') pid = None \<and> facility_ok (fa_b64_encode A) st'
    \<and> (sr_payment_id body = pid \<longrightarrow>
        st_chain (snd (settle_handler (facing A net net' now C tip) G' clock path headers body st')) = st_chain st')
    \<and> (zpay_payment_id (fr_payment_requirements request) = Ok (Some pid) \<longrightarrow>
        st_chain (snd (x402_settle_handler (facing A net net' now C tip) Z' clock headers peer request st')) = st_chain st')"
proof -
  have "recorded_as (fa_b64_encode A) pid e st" using assms(2-4) by (auto simp: recorded_as_def)
  then have rec: "recorded_as (fa_b64_encode A) pid e st'" using facility_run_kept [OF assms(5,1,2)] by (simp add: kept_def)
  then show ?thesis
    using recorded_no_settle [OF rec, of body net net' now C tip G' clock path headers]
      recorded_no_x402 [OF rec, of request net net' now C tip Z' clock headers peer]
    by (auto simp: recorded_as_def same_payment_def)
qed

definition ex_any_facilitator :: "(AnyPreparedTxStore, AnySettlementLedgerStore, nat, unit, unit) Facilitator" where
  "ex_any_facilitator = \<lparr>fa_prepared_store = AnyPrepared ex_b64 (\<lambda>_. None), fa_ledger = AnyLedger (\<lambda>_. None) 0,
     fa_chain = fa_chain ex_facilitator, fa_bus = fa_bus ex_facilitator, fa_payees = ex_registry, fa_tip_oracle = ex_tip,
     fa_finality_depth = 3, fa_trust_forwarded_headers = False, fa_parse_ip = Some, fa_serializes = (\<lambda>_. True), fa_debug = id,
     fa_sha256 = ex_sha, fa_b64_encode = ex_b64, fa_b64_decode = (\<lambda>s. Ok (bytes_of s)), fa_txlib = ex_txlib\<rparr>"

definition ex_settled_state :: "(AnyPreparedTxStore, AnySettlementLedgerStore, nat, unit, InMemoryReplayStore) FacilitatorState" where
  "ex_settled_state = \<lparr>st_prepared = PreparedMemory cache_empty,
     st_ledger = LedgerMemory [(''id1'', settle_entry 200 ex_prepared (Accepted ''ab''))], st_chain = 1, st_events = hub_new,
     st_replay = replay_store_new, st_limiter = rate_limiter_new 0 0 0, st_chain_status = cache_new\<rparr>"

definition ex_gate_config :: "(unit, unit, string, InMemoryReplayStore) DpopGate" where
  "ex_gate_config = \<lparr>dg_lib = ex_dpop_lib, dg_observe = replay_observe 0, dg_expectations = pinned_expectations ''https'' ''z''\<rparr>"

lemma ex_registry_fits: "registry_fits ex_registry"
  by (auto simp: registry_fits_def ex_registry_def resolve_find registry_new_def register_def ex_accepts_def fits_i64_def
      i64_max_def registry_find_def split: if_splits)

theorem settled_payment_is_final_witness:
  "\<exists>st' e'. facility_run ex_any_facilitator ex_gate_config ex_pczt_lib ex_settled_state st'
    \<and> any_ledger_rows (st_ledger st') ''id1'' = Some e' \<and> le_payee_id e' = ''shop''
    \<and> st_chain (snd (settle_handler (facing ex_any_facilitator (\<lambda>_. None) (\<lambda>_. None) 0 (fa_chain ex_facilitator) ex_tip)
        ex_gate_config ex_clock ''/p'' [] ex_settle st')) = st_chain st'"
proof -
  let ?A = ex_any_facilitator
  let ?st = "ex_settled_state\<lparr>st_prepared := sweep_tick (AnyPrepared (fa_b64_encode ?A) (\<lambda>_. None)) 500 (st_prepared ex_settled_state)\<rparr>"
  have run: "facility_run ?A ex_gate_config ex_pczt_lib ex_settled_state ?st"
    by (rule facility_run.onward [OF facility_run.stay facility_step.sweep])
  have reg: "registry_fits (fa_payees ?A)" using ex_registry_fits by (simp add: ex_any_facilitator_def)
  have ok: "facility_ok (fa_b64_encode ?A) ex_settled_state"
    using cache_inv_empty
    by (simp add: facility_ok_def ex_settled_state_def ex_any_facilitator_def amounts_fit_def hm_wf_def cache_rows_def cache_empty_def)
  have led: "any_ledger_rows (st_ledger ex_settled_state) ''id1'' = Some (settle_entry 200 ex_prepared (Accepted ''ab''))"
    by (simp add: ex_settled_state_def)
  have prep: "any_prepared_rows (fa_b64_encode ?A) (st_prepared ex_settled_state) ''id1'' = None"
    by (simp add: ex_settled_state_def cache_rows_def cache_empty_def)
  have id: "sr_payment_id ex_settle = ''id1''" by (simp add: ex_settle_def)
  have payee: "le_payee_id (settle_entry 200 ex_prepared (Accepted ''ab'')) = ''shop''"
    by (simp add: settle_entry_def ex_prepared_def ex_request_def)
  note final = settled_payment_is_final [OF reg ok led prep run, where body = ex_settle and net = "\<lambda>_. None"
      and net' = "\<lambda>_. None" and now = 0 and C = "fa_chain ex_facilitator" and tip = ex_tip and G' = ex_gate_config
      and clock = ex_clock and path = "''/p''" and headers = "[]" and request = ex_x402_request and Z' = ex_pczt_lib and peer = None]
  from conjunct1 [OF final] payee obtain e' where "any_ledger_rows (st_ledger ?st) ''id1'' = Some e'" "le_payee_id e' = ''shop''"
    by (elim exE conjE) simp
  with run final id show ?thesis by blast
qed

text \<open>A deployment in memory, with a prepared payment and a chain that accepts the first transaction and rejects every later one,
  as a double spend is.\<close>

definition first_wins :: "(ZallyNetwork, nat) Submitter" where
  "first_wins = \<lparr>ch_network = ZallyTestnet, ch_network_debug = ''Testnet'', ch_submit = (\<lambda>b n.
     (Ok (if n = 0 then SubmitAccepted [1] else SubmitRejected (RejectedOther ''Unknown'') ''double spend''), n + 1))\<rparr>"

definition ex_facing :: "(AnyPreparedTxStore, AnySettlementLedgerStore, nat, unit, unit) Facilitator" where
  "ex_facing = facing ex_any_facilitator (\<lambda>_. None) (\<lambda>_. None) 0 first_wins ex_tip"

definition ex_open_state :: "(AnyPreparedTxStore, AnySettlementLedgerStore, nat, unit, InMemoryReplayStore) FacilitatorState" where
  "ex_open_state = \<lparr>st_prepared = PreparedMemory ex_cache, st_ledger = LedgerMemory [], st_chain = 0, st_events = hub_new,
     st_replay = replay_store_new, st_limiter = rate_limiter_new 0 0 0, st_chain_status = cache_new\<rparr>"

definition ex_outcome :: "nat \<Rightarrow> PcztSettlementOutcome" where
  "ex_outcome n = \<lparr>po_broadcast_outcome = (if n = 0 then Accepted ''ab'' else Rejected ''Unknown: double spend''),
     po_transaction_id = ''ab'', po_expiry_height = 1040\<rparr>"

lemma ex_facing_gate:
  "x402_settle_gate ex_facing ex_pczt_lib ex_x402_request (PreparedMemory ex_cache) = Ok (ex_settlement, Some ex_linked, ex_verified)"
proof -
  have "fa_b64_decode ex_facing = fa_b64_decode ex_facilitator"
    by (simp add: ex_facing_def facing_def ex_any_facilitator_def ex_facilitator_def)
  moreover have "find_prepared_x402_settlement (fa_prepared_store ex_facing) ex_x402_request ex_settlement (PreparedMemory ex_cache)
      = Ok (Some ex_linked)"
  proof -
    have "pts_find_by_payment_id (fa_prepared_store ex_facing) pid (PreparedMemory c) = pts_find_by_payment_id PreparedTxCache pid c"
      for pid c by (simp add: ex_facing_def)
    then show ?thesis using ex_find_linked unfolding find_prepared_x402_settlement_def by presburger
  qed
  ultimately show ?thesis
    by (simp add: x402_settle_gate_def ex_x402_valid ex_settlement_request ex_pczt_verified) (simp add: ex_verified_def ex_linked_def)
qed

lemma ex_facing_broadcast:
  "broadcast_verified_pczt_settlement ex_pczt_lib (fa_chain ex_facing) ex_settlement ex_verified n = (Ok (ex_outcome n), n + 1)"
  by (simp add: broadcast_verified_pczt_settlement_def ex_facing_def facing_def first_wins_def ex_pczt_lib_def ex_settlement_def
      ex_verified_def ex_outcome_def)

lemma ex_facing_free:
  "ip_rate_limit (fa_parse_ip ex_facing) (fa_trust_forwarded_headers ex_facing) ex_clock [] None (rate_limiter_new 0 0 0)
    = (None, rate_limiter_new 0 0 0)"
  by (simp add: ip_rate_limit_def check_ip_def check_def rate_limiter_new_def)

lemma ex_facing_stores:
  "fa_prepared_store ex_facing = AnyPrepared ex_b64 (\<lambda>_. None)" "fa_ledger ex_facing = AnyLedger (\<lambda>_. None) 0"
  "fa_serializes ex_facing b"
  by (simp_all add: ex_facing_def ex_any_facilitator_def facing_def)

subsection \<open>A linked x402 settlement\<close>

text \<open>The answer carries \<open>zpayLifecycleRecord\<close> exactly when the recording failed.\<close>

lemma no_record_marker: "map_of (response_extensions request) ''zpayLifecycleRecord'' = None"
  by (simp add: response_extensions_def binding_extensions_def bt_from_def bt_insert_get)

lemma x402_success_recorded:
  assumes ok: "facility_ok (fa_b64_encode A) st"
    and named: "zpay_payment_id (fr_payment_requirements request) = Ok (Some pid)"
    and run: "x402_settle_handler (facing A net net' now C tip) Z clock headers peer request st = (resp, st')"
    and answer: "re_body resp = X402SettleBody r" "xs_success r"
  obtains e q outcome where "any_prepared_rows (fa_b64_encode A) (st_prepared st) pid = Some e"
    "px_payment_id q = pid" "px_amount_zat q = pe_amount_zat e" "px_payee_id q = pe_payee_id e"
    "px_expiry_height q = pr_expiry_height (pe_preparation e)" "is_success outcome"
    "map_of (xs_extensions r) ''zpayLifecycleRecord'' = None \<Longrightarrow>
       any_ledger_rows (st_ledger st') pid = Some (x402_ledger_entry clock q outcome)
       \<and> any_prepared_rows (fa_b64_encode A) (st_prepared st') pid = None"
    "map_of (xs_extensions r) ''zpayLifecycleRecord'' \<noteq> None \<Longrightarrow>
       st_prepared st' = st_prepared st \<and> (any_ledger_rows (st_ledger st') pid = any_ledger_rows (st_ledger st) pid
         \<or> any_ledger_rows (st_ledger st') pid = Some (x402_ledger_entry clock q outcome))"
  using run
proof (cases rule: x402_settle_cases)
  case (sent settlement prep verified outcome c lim ext)
  have inv: "any_prepared_inv (st_prepared st)" "any_ledger_inv (st_ledger st)" using ok by (simp_all add: facility_ok_def)
  have succ: "is_success (po_broadcast_outcome outcome)" and ext: "xs_extensions r = ext"
    using sent(4) answer by (auto simp: x402_settle_success_response_def json_ok_def split: if_splits)
  obtain q where q: "prep = Some q"
    using find_prepared_Some [OF x402_settle_gate_Ok(4) [OF sent(1)] named] by auto
  obtain e where row: "zpay_payment_id (fr_payment_requirements request) = Ok (Some (px_payment_id q))"
    "any_prepared_rows (fa_b64_encode A) (st_prepared st) (px_payment_id q) = Some e"
    "px_amount_zat q = pe_amount_zat e" "px_payee_id q = pe_payee_id e"
    "px_expiry_height q = pr_expiry_height (pe_preparation e)" "fits_i64 (px_amount_zat q)"
    by (rule x402_linked_row [OF ok sent(1) [unfolded q]])
  have id: "px_payment_id q = pid" using row(1) named by simp
  obtain out p l where rec: "record_prepared_x402_settlement (AnyPrepared (fa_b64_encode A) net) (AnyLedger net' now) clock q
      outcome (st_prepared st) (st_ledger st) = (out, p, l)" by (metis prod_cases3)
  have st': "st_prepared st' = p" "st_ledger st' = l"
    using sent(3) q rec by (cases out; auto simp: x402_settle_response_extensions_def Let_def)+
  have marker: "map_of ext ''zpayLifecycleRecord'' = None \<longleftrightarrow> (\<exists>u. out = Ok u)"
    using sent(3) q rec no_record_marker
    by (cases out) (auto simp: x402_settle_response_extensions_def Let_def bt_insert_get ZPAY_PAYMENT_ID_EXTENSION_def)
  show thesis
  proof (rule that [of e q "po_broadcast_outcome outcome"])
    assume "map_of (xs_extensions r) ''zpayLifecycleRecord'' = None"
    then obtain u where "out = Ok u" using marker ext by auto
    then show "any_ledger_rows (st_ledger st') pid = Some (x402_ledger_entry clock q (po_broadcast_outcome outcome))
        \<and> any_prepared_rows (fa_b64_encode A) (st_prepared st') pid = None"
      using any_stores.x402_recorded [OF inv row(6) rec [unfolded \<open>out = Ok u\<close>]] st' succ id by simp
  next
    assume "map_of (xs_extensions r) ''zpayLifecycleRecord'' \<noteq> None"
    then obtain x where "out = Err x" using marker ext by (cases out) auto
    then show "st_prepared st' = st_prepared st \<and> (any_ledger_rows (st_ledger st') pid = any_ledger_rows (st_ledger st) pid
         \<or> any_ledger_rows (st_ledger st') pid = Some (x402_ledger_entry clock q (po_broadcast_outcome outcome)))"
      using any_stores.x402_record_failure [OF inv row(6) rec [unfolded \<open>out = Err x\<close>]] st' id by auto
  qed (use row id succ in auto)
qed (use answer in auto)


lemma ex_linked_run:
  "\<exists>resp st1 r. x402_settle_handler ex_facing ex_pczt_lib ex_clock [] None ex_x402_request ex_open_state = (resp, st1)
    \<and> re_body resp = X402SettleBody r \<and> xs_success r \<and> map_of (xs_extensions r) ''zpayLifecycleRecord'' = None \<and> st_chain st1 = 1"
proof -
  obtain x p where rm: "cache_remove ''id1'' ex_cache = (Ok x, p)" by (simp add: cache_remove_def Let_def)
  show ?thesis
    unfolding x402_settle_handler_def with_ip_limit_def ex_open_state_def
    by (simp add: ex_facing_free ex_facing_gate ex_facing_broadcast x402_settle_response_extensions_def Let_def)
       (simp add: record_prepared_x402_settlement_def ex_facing_stores ex_linked_def ledger_record_def ex_outcome_def rm
         x402_settle_success_response_def json_ok_def publish_status_def bt_insert_get no_record_marker
         ZPAY_PAYMENT_ID_EXTENSION_def split: sum.split)
qed

lemma ex_open_ok: "facility_ok (fa_b64_encode ex_any_facilitator) ex_open_state"
proof -
  have "fits_i64 (pe_amount_zat ex_prepared)" by (simp add: ex_prepared_def ex_accepts_def fits_i64_def i64_max_def)
  then show ?thesis using ex_cache_inv ex_cache_rows
    by (simp add: facility_ok_def ex_open_state_def amounts_fit_def hm_wf_def ex_any_facilitator_def split: if_splits)
qed


subsection \<open>Settled until reverted\<close>

text \<open>The steps that leave a payment mined at height \<open>h\<close> alone: every request and sweep, a poll whose view of the chain still
  has its settled tip at or above \<open>h\<close>, and a reorg of a range without \<open>h\<close>.\<close>

inductive calm_step ::
  "(AnyPreparedTxStore, AnySettlementLedgerStore, 'c, 'h, 'r) Facilitator \<Rightarrow> ('json, 'key, 'url, 's) DpopGate
    \<Rightarrow> ('a, 'x) PcztLib \<Rightarrow> u64 \<Rightarrow> (AnyPreparedTxStore, AnySettlementLedgerStore, 'c, 'h, 's) FacilitatorState
    \<Rightarrow> (AnyPreparedTxStore, AnySettlementLedgerStore, 'c, 'h, 's) FacilitatorState \<Rightarrow> bool"
  for A G Z h where
  prepare: "prepare_handler (facing A net net' now C tip) G fresh_id clock path headers body st = (resp, st')
    \<Longrightarrow> any_prepared_rows (fa_b64_encode A) (st_prepared st) fresh_id = None \<Longrightarrow> any_ledger_rows (st_ledger st) fresh_id = None
    \<Longrightarrow> calm_step A G Z h st st'"
| settle: "settle_handler (facing A net net' now C tip) G clock path headers body' st = (resp, st') \<Longrightarrow> calm_step A G Z h st st'"
| x402: "x402_settle_handler (facing A net net' now C tip) Z clock headers peer request st = (resp, st')
    \<Longrightarrow> calm_step A G Z h st st'"
| sweep: "calm_step A G Z h st (st\<lparr>st_prepared := sweep_tick (AnyPrepared (fa_b64_encode A) net) wall (st_prepared st)\<rparr>)"
| poll: "poll_oracle_once (fa_bus A) oracle (AnyPrepared (fa_b64_encode A) net) (AnyLedger net' now) wall depth (st_prepared st)
      (st_ledger st, st_events st, st_chain_status st) = (l, hub, cache)
    \<Longrightarrow> oracle_fits fits_i64 oracle \<Longrightarrow> is_settled_at (fst (refresh_chain_view oracle wall (st_chain_status st))) h
    \<Longrightarrow> calm_step A G Z h st (st\<lparr>st_ledger := l, st_events := hub, st_chain_status := cache\<rparr>)"
| reorg: "handle_reorg (fa_bus A) (AnyPrepared (fa_b64_encode A) net) (AnyLedger net' now) wall depth (st_prepared st) lo hi
      (st_ledger st, st_events st, st_chain_status st) = (l, hub, cache)
    \<Longrightarrow> fits_i64 lo \<Longrightarrow> fits_i64 hi \<Longrightarrow> \<not> (lo \<le> h \<and> h \<le> hi)
    \<Longrightarrow> calm_step A G Z h st (st\<lparr>st_ledger := l, st_events := hub, st_chain_status := cache\<rparr>)"

lemma calm_facility_step: "calm_step A G Z h st st' \<Longrightarrow> facility_step A G Z st st'"
  by (induction rule: calm_step.induct) (auto intro: facility_step.intros)

definition settled_as ::
  "(bytes \<Rightarrow> string) \<Rightarrow> PaymentId \<Rightarrow> u64 \<Rightarrow> SettlementLedgerEntry
    \<Rightarrow> (AnyPreparedTxStore, AnySettlementLedgerStore, 'c, 'h, 's) FacilitatorState \<Rightarrow> bool" where
  "settled_as b64 pid h e st \<longleftrightarrow> facility_ok b64 st \<and> any_prepared_rows b64 (st_prepared st) pid = None
     \<and> any_ledger_rows (st_ledger st) pid = Some e \<and> le_mined_block_height e = Some h
     \<and> is_settled_at (cache_load (st_chain_status st)) h"

text \<open>No request touches the cached view of the chain.\<close>

lemma requests_keep_view:
  "st_chain_status (snd (prepare_handler A G fresh_id clock path headers rq st)) = st_chain_status st"
  "st_chain_status (snd (settle_handler A G clock path headers body st)) = st_chain_status st"
  "st_chain_status (snd (x402_settle_handler A Z clock headers peer request st)) = st_chain_status st"
  by (simp_all add: prepare_handler_def settle_handler_def x402_settle_handler_def with_dpop_def with_ip_limit_def publish_status_def
      x402_settle_response_extensions_def Let_def split: prod.split sum.split option.split)

lemma settled_as_settles:
  assumes "settled_as b64 pid h e st" "settles b64 st st'" "st_chain_status st' = st_chain_status st"
  shows "settled_as b64 pid h e st'"
proof -
  have "facility_ok b64 st'" using settles_kept [OF _ assms(2)] assms(1) by (simp add: settled_as_def kept_def)
  moreover have "any_prepared_rows b64 (st_prepared st') pid = None"
    using assms(1,2) by (cases "any_prepared_rows b64 (st_prepared st') pid") (auto simp: settles_def consumes_def settled_as_def)
  ultimately show ?thesis using assms by (simp add: settled_as_def settles_def consumes_def)
qed

lemma refreshed_view:
  assumes "is_settled_at (fst (refresh_chain_view oracle wall cache)) h" "is_settled_at (cache_load cache) h"
  shows "is_settled_at (cache_load (snd (refresh_chain_view oracle wall cache))) h"
  using assms by (auto simp: refresh_chain_view_def is_settled_at_def split: sum.splits option.splits)

lemma calm_step_settled:
  assumes "calm_step A G Z h st st'" "registry_fits (fa_payees A)" "settled_as (fa_b64_encode A) pid h e st"
  shows "settled_as (fa_b64_encode A) pid h e st'"
proof -
  have ok: "facility_ok (fa_b64_encode A) st" using assms(3) by (simp add: settled_as_def)
  then have inv: "any_prepared_inv (st_prepared st)" "any_ledger_inv (st_ledger st)" by (simp_all add: facility_ok_def)
  have kept: "kept (fa_b64_encode A) st st'" by (rule facility_step_kept [OF calm_facility_step [OF assms(1)] assms(2) ok])
  have "recorded_as (fa_b64_encode A) pid e st" using assms(3) by (simp add: settled_as_def recorded_as_def)
  then have rec: "recorded_as (fa_b64_encode A) pid e st'" using kept by (simp add: kept_def)
  have frame: "settled_as (fa_b64_encode A) pid h e st'" if
    "any_ledger_rows (st_ledger st') pid = any_ledger_rows (st_ledger st) pid" "is_settled_at (cache_load (st_chain_status st')) h"
    using that rec assms(3) by (simp add: settled_as_def recorded_as_def)
  show ?thesis using assms(1)
  proof cases
    case (prepare net net' now C tip fresh_id clock path headers body resp)
    have "st_ledger st' = st_ledger st"
      using prepare(1) by (auto simp: prepare_handler_def with_dpop_def split: prod.splits sum.splits)
    then show ?thesis using frame requests_keep_view(1) [of "facing A net net' now C tip"] prepare(1) assms(3)
      by (metis settled_as_def snd_conv)
  next
    case (settle net net' now C tip clock path headers body' resp)
    show ?thesis by (rule settled_as_settles [OF assms(3) settle_settles [OF ok settle]])
      (use requests_keep_view(2) [of "facing A net net' now C tip"] settle in \<open>metis snd_conv\<close>)
  next
    case (x402 net net' now C tip clock headers peer request resp)
    show ?thesis by (rule settled_as_settles [OF assms(3) x402_settles [OF ok x402]])
      (use requests_keep_view(3) [of "facing A net net' now C tip"] x402 in \<open>metis snd_conv\<close>)
  next
    case (sweep net wall)
    then show ?thesis using frame assms(3) by (simp add: settled_as_def)
  next
    case (poll orc net net' now wall depth l hub cache)
    note eff = any_stores.poll_effect [OF inv(2) poll(3,2)]
    have "reconciled orc (now_unix_seconds_i64 wall) (fst (refresh_chain_view orc wall (st_chain_status st))) e = e"
      using poll(4) assms(3) by (simp add: reconciled_def settled_as_def split: option.split)
    then have "any_ledger_rows l pid = any_ledger_rows (st_ledger st) pid"
      using eff [THEN conjunct2, THEN conjunct2, THEN conjunct2, rule_format, of pid] assms(3)
      by (auto simp: reconciled_or_kept_def settled_as_def)
    moreover have "is_settled_at (cache_load cache) h"
      using refreshed_view [OF poll(4)] assms(3) eff by (simp add: settled_as_def)
    ultimately show ?thesis using frame poll(1) by simp
  next
    case (reorg net net' now wall depth lo hi l hub cache)
    obtain r l1 where d: "sl_downgrade_reorged_range (AnyLedger net' now) lo hi (now_unix_seconds_i64 wall) (st_ledger st) = (r, l1)"
      by fastforce
    have l: "l = l1" "cache = st_chain_status st"
      using reorg(2) d by (cases r; auto simp: handle_reorg_def Let_def split: if_splits)+
    have "any_ledger_rows l pid = any_ledger_rows (st_ledger st) pid"
    proof (cases r)
      case (Inl x)
      then show ?thesis using d l(1) any_ledger.range_err by blast
    next
      case (Inr ids)
      then show ?thesis using d l(1) any_ledger.range_ok [OF inv(2) reorg(3,4)] reorg(5) assms(3)
        by (auto simp: settled_as_def downgrade_in_range_def in_reverted_range_iff)
    qed
    then show ?thesis using frame reorg(1) l(2) assms(3) by (simp add: settled_as_def)
  qed
qed

lemma calm_run_settled:
  assumes "(calm_step A G Z h)\<^sup>*\<^sup>* st st'" "registry_fits (fa_payees A)" "settled_as (fa_b64_encode A) pid h e st"
  shows "settled_as (fa_b64_encode A) pid h e st'"
  using assms by (induction rule: rtranclp_induct) (auto dest: calm_step_settled)


text \<open>The instance: a payment mined at 900 under a settled tip of 900, a sweep, and a reorg of the range from 850 to 950.\<close>

definition ex_final_state :: "(AnyPreparedTxStore, AnySettlementLedgerStore, nat, unit, InMemoryReplayStore) FacilitatorState" where
  "ex_final_state = ex_settled_state\<lparr>st_ledger := LedgerMemory [(''id1'', ex_ledger_entry (Some 1) (Some 900))],
     st_chain_status := cache_store 0 1000 900 cache_new\<rparr>"


end
