(* ===== verification/Runtime.thy ===== *)
theory Runtime
  imports Chain_Plane
begin

text \<open>
  The composition root and the operations listener (\<open>zpay-runtime/src/main.rs\<close>): the
  environment configuration \<open>ResolvedConfig\<close>, the startup gates and builders, readiness and the operator
  payments view.  The environment is a function from variable names to their value, if set and
  readable; socket addresses, the payees file with its TOML reader, the chain client's connect call and
  the \<open>Display\<close> rendering of a socket address are parameters.
  Binding listeners, serving and signal handling are not modelled.
\<close>

definition DEFAULT_STATIC_TIP_FALLBACK :: u32 where "DEFAULT_STATIC_TIP_FALLBACK = 4000000"
definition DEFAULT_RATE_LIMIT_PER_JKT_PER_MINUTE :: u32 where "DEFAULT_RATE_LIMIT_PER_JKT_PER_MINUTE = 120"
definition DEFAULT_RATE_LIMIT_PER_IP_PER_MINUTE :: u32 where "DEFAULT_RATE_LIMIT_PER_IP_PER_MINUTE = 600"

subsection \<open>Configuration\<close>

type_synonym Env = "string \<Rightarrow> string option"

record 'addr ResolvedConfig =
  rc_app_bind_addr :: 'addr
  rc_ops_bind_addr :: 'addr
  rc_network :: string
  rc_indexer_grpc_addr :: "string option"
  rc_payees_config_path :: "string option"
  rc_store_backend :: string
  rc_store_url :: string
  rc_store_auth_token :: "string option"
  rc_static_tip_fallback :: u32
  rc_finality_depth :: u32
  rc_expected_host :: "string option"
  rc_expected_scheme :: string
  rc_allow_demo_payee :: bool
  rc_rate_limit_per_jkt_per_minute :: u32
  rc_rate_limit_per_ip_per_minute :: u32
  rc_rate_limit_trust_forwarded_headers :: bool
  rc_cors_allowlist :: "string list"

text \<open>\<open>str::parse::<u32>\<close>, as for 64 bits.\<close>

definition parse_u32 :: "string \<Rightarrow> u32 option" where
  "parse_u32 s =
    (let d = (case s of c # cs \<Rightarrow> if c = CHR ''+'' \<and> cs \<noteq> [] then cs else s | [] \<Rightarrow> s)
     in if d = [] \<or> \<not> list_all is_digit d \<or> dec_val d \<ge> 2 ^ 32 then None else Some (of_nat (dec_val d)))"

definition ascii_lower :: "char \<Rightarrow> char" where
  "ascii_lower c = (let b = byte_of c in if 65 \<le> b \<and> b \<le> 90 then char_of (b + 32) else c)"

definition parse_truthy :: "string \<Rightarrow> bool" where
  "parse_truthy raw = (map ascii_lower (trim raw) \<in> {''1'', ''true'', ''yes''})"

definition parse_u32_env :: "Env \<Rightarrow> string \<Rightarrow> u32 \<Rightarrow> StartupError + u32" where
  "parse_u32_env env field fallback =
    (let trimmed = trim (case env field of Some raw \<Rightarrow> raw | None \<Rightarrow> []) in
     if trimmed = [] then Ok fallback
     else (case parse_u32 trimmed of None \<Rightarrow> Err (EnvU32Invalid field trimmed) | Some v \<Rightarrow> Ok v))"

definition default_expected_scheme :: "string option \<Rightarrow> string" where
  "default_expected_scheme expected_host = (if expected_host \<noteq> None then ''https'' else ''http'')"

definition var_or :: "Env \<Rightarrow> string \<Rightarrow> string \<Rightarrow> string" where
  "var_or env field fallback = (case env field of Some raw \<Rightarrow> raw | None \<Rightarrow> fallback)"

definition var_nonblank :: "Env \<Rightarrow> string \<Rightarrow> string option" where
  "var_nonblank env field = (case env field of Some raw \<Rightarrow> if trim raw = [] then None else Some raw | None \<Rightarrow> None)"

definition number_var :: "Env \<Rightarrow> string \<Rightarrow> u32 \<Rightarrow> (string \<Rightarrow> StartupError) \<Rightarrow> StartupError + u32" where
  "number_var env field fallback invalid =
    (case env field of
       None \<Rightarrow> Ok fallback
     | Some raw \<Rightarrow>
        let trimmed = trim raw in
        if trimmed = [] then Ok fallback
        else (case parse_u32 trimmed of None \<Rightarrow> Err (invalid trimmed) | Some v \<Rightarrow> Ok v))"

definition resolve_scheme :: "Env \<Rightarrow> string option \<Rightarrow> string" where
  "resolve_scheme env expected_host =
    (case env ''ZPAY_EXPECTED_SCHEME'' of
       None \<Rightarrow> default_expected_scheme expected_host
     | Some raw \<Rightarrow> let trimmed = trim raw in
        if trimmed = [] then default_expected_scheme expected_host else trimmed)"

definition truthy_var :: "Env \<Rightarrow> string \<Rightarrow> bool" where
  "truthy_var env field = (case env field of Some raw \<Rightarrow> parse_truthy raw | None \<Rightarrow> False)"

definition from_env :: "(string \<Rightarrow> 'addr option) \<Rightarrow> Env \<Rightarrow> StartupError + 'addr ResolvedConfig" where
  "from_env parse_addr env =
    (let app_bind_raw = var_or env ''ZPAY_SERVER__BIND_ADDR'' ''127.0.0.1:8080'';
         ops_bind_raw = var_or env ''ZPAY_OPS__BIND_ADDR'' ''127.0.0.1:9295'' in
     case number_var env ''ZPAY_STATIC_TIP_FALLBACK'' DEFAULT_STATIC_TIP_FALLBACK StaticTipInvalid of
       Inl e \<Rightarrow> Err e
     | Inr static_tip_fallback \<Rightarrow>
    (case number_var env ''ZPAY_FINALITY_DEPTH'' DEFAULT_FINALITY_DEPTH FinalityDepthInvalid of
       Inl e \<Rightarrow> Err e
     | Inr finality_depth \<Rightarrow>
    (case parse_addr app_bind_raw of
       None \<Rightarrow> Err (BindAddress ''ZPAY_SERVER__BIND_ADDR'' app_bind_raw)
     | Some app_bind_addr \<Rightarrow>
    (case parse_addr ops_bind_raw of
       None \<Rightarrow> Err (BindAddress ''ZPAY_OPS__BIND_ADDR'' ops_bind_raw)
     | Some ops_bind_addr \<Rightarrow>
       let expected_host = (case env ''ZPAY_EXPECTED_HOST'' of None \<Rightarrow> None
                            | Some raw \<Rightarrow> if trim raw = [] then None else Some (trim raw)) in
    (case parse_u32_env env ''ZPAY_RATE_LIMIT__PER_JKT_PER_MINUTE'' DEFAULT_RATE_LIMIT_PER_JKT_PER_MINUTE of
       Inl e \<Rightarrow> Err e
     | Inr per_jkt \<Rightarrow>
    (case parse_u32_env env ''ZPAY_RATE_LIMIT__PER_IP_PER_MINUTE'' DEFAULT_RATE_LIMIT_PER_IP_PER_MINUTE of
       Inl e \<Rightarrow> Err e
     | Inr per_ip \<Rightarrow>
       Ok \<lparr>rc_app_bind_addr = app_bind_addr, rc_ops_bind_addr = ops_bind_addr,
           rc_network = var_or env ''ZPAY_NETWORK'' ''regtest'',
           rc_indexer_grpc_addr = var_nonblank env ''ZPAY_CHAIN_SOURCE_URL'',
           rc_payees_config_path = var_nonblank env ''ZPAY_PAYEES__CONFIG_PATH'',
           rc_store_backend = var_or env ''ZPAY_STORE__BACKEND'' ''libsql'',
           rc_store_url = var_or env ''ZPAY_STORE__URL'' ''file:./zpay.libsql'',
           rc_store_auth_token = var_nonblank env ''ZPAY_STORE__AUTH_TOKEN'',
           rc_static_tip_fallback = static_tip_fallback, rc_finality_depth = finality_depth,
           rc_expected_host = expected_host, rc_expected_scheme = resolve_scheme env expected_host,
           rc_allow_demo_payee = truthy_var env ''ZPAY_ALLOW_DEMO_PAYEE'',
           rc_rate_limit_per_jkt_per_minute = per_jkt, rc_rate_limit_per_ip_per_minute = per_ip,
           rc_rate_limit_trust_forwarded_headers = truthy_var env ''ZPAY_RATE_LIMIT__TRUST_FORWARDED_HEADERS'',
           rc_cors_allowlist = (case env ''ZPAY_SERVER__CORS__ALLOWLIST'' of None \<Rightarrow> []
             | Some raw \<Rightarrow> filter (\<lambda>origin. origin \<noteq> []) (map trim (split_on CHR '','' raw)))\<rparr>))))))"

subsection \<open>Builders and startup gates\<close>

definition build_dpop_expectations :: "'addr ResolvedConfig \<Rightarrow> DpopExpectations" where
  "build_dpop_expectations config =
    (case rc_expected_host config of
       None \<Rightarrow> unbound_expectations (rc_expected_scheme config)
     | Some host \<Rightarrow> pinned_expectations (rc_expected_scheme config) host)"

definition zally_network_from_config_str :: "string \<Rightarrow> StartupError + ZallyNetwork" where
  "zally_network_from_config_str raw =
    (if raw = ''mainnet'' then Ok ZallyMainnet else if raw = ''testnet'' then Ok ZallyTestnet
     else if raw = ''regtest'' then Ok ZallyRegtest else Err (NetworkInvalid raw))"

datatype ZinderNetwork = ZcashMainnet | ZcashTestnet | ZcashRegtest

definition zinder_network_from_str :: "string \<Rightarrow> StartupError + ZinderNetwork" where
  "zinder_network_from_str raw =
    (if raw = ''mainnet'' then Ok ZcashMainnet else if raw = ''testnet'' then Ok ZcashTestnet
     else if raw = ''regtest'' then Ok ZcashRegtest else Err (NetworkInvalid raw))"

definition connect_configured_zinder_chain ::
  "(string \<Rightarrow> ZinderNetwork \<Rightarrow> string + 'ix) \<Rightarrow> string \<Rightarrow> string \<Rightarrow> StartupError + 'ix" where
  "connect_configured_zinder_chain connect endpoint network =
    (case zinder_network_from_str network of
       Inl e \<Rightarrow> Err e
     | Inr n \<Rightarrow>
       (case connect endpoint n of
          Inl source \<Rightarrow> Err (SubmitterFailed endpoint (''invalid zinder endpoint URI: '' @ source))
        | Inr ix \<Rightarrow> Ok ix))"

definition build_broadcast_client ::
  "(string \<Rightarrow> ZinderNetwork \<Rightarrow> string + 'ix) \<Rightarrow> ('ix \<Rightarrow> ZallyNetwork \<Rightarrow> (ZallyNetwork, 'c) Submitter)
    \<Rightarrow> 'addr ResolvedConfig \<Rightarrow> StartupError + 'c AnySubmitter" where
  "build_broadcast_client connect from_chain_index config =
    (case zally_network_from_config_str (rc_network config) of
       Inl e \<Rightarrow> Err e
     | Inr zally_network \<Rightarrow>
       (case rc_indexer_grpc_addr config of
          None \<Rightarrow> Ok (RejectingSubmitter zally_network)
        | Some endpoint \<Rightarrow>
          (case connect_configured_zinder_chain connect endpoint (rc_network config) of
             Inl e \<Rightarrow> Err e
           | Inr ix \<Rightarrow> Ok (ZinderSubmitter (from_chain_index ix zally_network)))))"

definition build_tip_oracle ::
  "(string \<Rightarrow> ZinderNetwork \<Rightarrow> string + ChainIndex) \<Rightarrow> 'addr ResolvedConfig \<Rightarrow> StartupError + AnyTipOracle" where
  "build_tip_oracle connect config =
    (case rc_indexer_grpc_addr config of
       None \<Rightarrow> Ok (StaticTip (rc_static_tip_fallback config))
     | Some endpoint \<Rightarrow>
       (case connect_configured_zinder_chain connect endpoint (rc_network config) of
          Inl e \<Rightarrow> Err e | Inr ix \<Rightarrow> Ok (ZinderTip ix)))"

definition build_transaction_fetcher ::
  "(string \<Rightarrow> ZinderNetwork \<Rightarrow> string + ChainIndex) \<Rightarrow> 'addr ResolvedConfig \<Rightarrow> StartupError + AnyTransactionFetcher" where
  "build_transaction_fetcher connect config =
    (case rc_indexer_grpc_addr config of
       None \<Rightarrow> Ok RejectingFetcher
     | Some endpoint \<Rightarrow>
       (case connect_configured_zinder_chain connect endpoint (rc_network config) of
          Inl e \<Rightarrow> Err e | Inr ix \<Rightarrow> Ok (ZinderFetcher ix)))"

definition load_payee_registry ::
  "(string \<Rightarrow> string + string) \<Rightarrow> (string \<Rightarrow> string + (string, AcceptsEntry list) hashmap) \<Rightarrow> 'addr ResolvedConfig
    \<Rightarrow> StartupError + PayeeRegistry" where
  "load_payee_registry read_to_string parse_toml config =
    (case rc_payees_config_path config of
       None \<Rightarrow> Ok registry_new
     | Some path \<Rightarrow>
       (case read_to_string path of
          Inl reason \<Rightarrow> Err (PayeesConfig path reason)
        | Inr raw \<Rightarrow>
          (case parse_toml raw of
             Inl reason \<Rightarrow> Err (PayeesConfig path reason)
           | Inr payees \<Rightarrow> Ok (fold (\<lambda>(payee_id, accepts) registry. register payee_id accepts registry) payees registry_new))))"

definition PLACEHOLDER_PAY_TO_PREFIX :: string where "PLACEHOLDER_PAY_TO_PREFIX = ''utest1q''"
definition PLACEHOLDER_PAY_TO_MIN_LEN :: nat where "PLACEHOLDER_PAY_TO_MIN_LEN = 100"

definition is_placeholder_pay_to :: "string \<Rightarrow> bool" where
  "is_placeholder_pay_to pay_to =
    (if \<not> prefix PLACEHOLDER_PAY_TO_PREFIX pay_to \<or> length pay_to < PLACEHOLDER_PAY_TO_MIN_LEN then False
     else list_all (\<lambda>b. b = CHR ''q'') (drop 6 pay_to))"

fun validate_entries :: "bool \<Rightarrow> PayeeId \<Rightarrow> AcceptsEntry list \<Rightarrow> StartupError + unit" where
  "validate_entries allow_demo payee_id [] = Ok ()"
| "validate_entries allow_demo payee_id (entry # entries) =
    (if \<not> is_placeholder_pay_to (ae_pay_to entry) then validate_entries allow_demo payee_id entries
     else if allow_demo then validate_entries allow_demo payee_id entries
     else Err (PlaceholderPayee payee_id))"

fun validate_payees_loop :: "bool \<Rightarrow> (PayeeId \<times> AcceptsEntry list) list \<Rightarrow> StartupError + unit" where
  "validate_payees_loop allow_demo [] = Ok ()"
| "validate_payees_loop allow_demo ((payee_id, entries) # rest) =
    (case validate_entries allow_demo payee_id entries of
       Inl e \<Rightarrow> Err e | Inr _ \<Rightarrow> validate_payees_loop allow_demo rest)"

definition validate_payees :: "PayeeRegistry \<Rightarrow> bool \<Rightarrow> StartupError + unit" where
  "validate_payees registry allow_demo = validate_payees_loop allow_demo (registry_iter registry)"

subsection \<open>Readiness\<close>

definition CHAIN_STATUS_FRESHNESS_CEILING_SECONDS :: u64 where
  "CHAIN_STATUS_FRESHNESS_CEILING_SECONDS = of_nat (3 * CONFIRMATION_ORACLE_POLL_SECONDS)"

fun store_error_text :: "StoreError \<Rightarrow> string" where
  "store_error_text (StoreUnavailable reason) = ''store unavailable: '' @ reason"
| "store_error_text (MigrationPending current required) =
     ''migration pending: current='' @ dec_str (unat current) @ '', required='' @ dec_str (unat required)"
| "store_error_text (IntegrityViolation constraint) = ''integrity violation: '' @ constraint"
| "store_error_text (RowMalformed reason) = ''stored row malformed: '' @ reason"
| "store_error_text (SchemaInvariantViolation invariant violating_rows) =
     ''store schema invariant \"'' @ invariant @ ''\" violated by '' @ dec_str (unat violating_rows) @ '' row(s)''"

definition store_liveness :: "'p PreparedTxStore \<Rightarrow> 'p \<Rightarrow> string + unit" where
  "store_liveness P p = (case pts_entry_count P p of Inl err \<Rightarrow> Err (store_error_text err) | Inr _ \<Rightarrow> Ok ())"

text \<open>The live read of the chain plane under its deadline.\<close>

datatype LiveProbe = LiveAnswered "string + ChainStatusView" | LiveTimeout

definition json_opt_u64 :: "u64 option \<Rightarrow> Json" where
  "json_opt_u64 x = (case x of None \<Rightarrow> JNull | Some w \<Rightarrow> JNumber (dec_str (unat w)))"

definition chain_dependency ::
  "LiveProbe option \<Rightarrow> ChainStatusView \<Rightarrow> u64 option \<Rightarrow> bool \<times> Json" where
  "chain_dependency chain_probe view cache_age_seconds =
    (let body = (\<lambda>status live_probe. JObject [(''status'', JString status), (''live_probe'', JString live_probe),
           (''visible_tip_height'', json_opt_u64 (visible_tip_height view)),
           (''settled_tip_height'', json_opt_u64 (settled_tip_height view)),
           (''cache_age_seconds'', json_opt_u64 cache_age_seconds)]) in
     case chain_probe of
       None \<Rightarrow> (True, body ''not_configured'' ''not_configured'')
     | Some live \<Rightarrow>
        let live_ok = (case live of LiveAnswered (Inr _) \<Rightarrow> True | _ \<Rightarrow> False);
            live_probe = (case live of LiveAnswered (Inr _) \<Rightarrow> ''ok'' | LiveAnswered (Inl _) \<Rightarrow> ''unreachable''
                          | LiveTimeout \<Rightarrow> ''timeout'');
            fresh = (case cache_age_seconds of None \<Rightarrow> False
                     | Some age \<Rightarrow> age \<le> CHAIN_STATUS_FRESHNESS_CEILING_SECONDS);
            ready = (live_ok \<and> fresh)
        in (ready, body (if ready then ''ready'' else ''not_ready'') live_probe))"

definition evaluate_readiness ::
  "('addr \<Rightarrow> string) \<Rightarrow> LiveProbe option \<Rightarrow> string + unit \<Rightarrow> ChainStatusCache \<Rightarrow> int \<Rightarrow> 'addr \<Rightarrow> 'addr \<Rightarrow> nat \<times> Json" where
  "evaluate_readiness addr_text chain_probe store_result chain_status clock app_bind_addr ops_bind_addr =
    (let store_json = (case store_result of
           Inr _ \<Rightarrow> JObject [(''status'', JString ''ready''), (''probe'', JString ''ok'')]
         | Inl reason \<Rightarrow> JObject [(''status'', JString ''not_ready''), (''probe'', JString reason)]);
         store_ready = \<not> isl store_result;
         view = cache_load chain_status;
         now = (case i64_to_u64 (now_unix_seconds_i64 clock) of Some w \<Rightarrow> w | None \<Rightarrow> 0);
         cache_age_seconds = map_option (\<lambda>refreshed. saturating_sub now refreshed) (last_refresh_unix_seconds chain_status);
         (chain_ready, chain_json) = chain_dependency chain_probe view cache_age_seconds;
         ready = (store_ready \<and> chain_ready);
         body = JObject [(''status'', JString (if ready then ''ready'' else ''not_ready'')),
                   (''dependencies'', JObject [(''chain'', chain_json), (''store'', store_json)]),
                   (''listeners'', JObject [(''app'', JString (addr_text app_bind_addr)), (''ops'', JString (addr_text ops_bind_addr))])]
     in (if ready then 200 else 503, body))"

subsection \<open>Operator payments view\<close>

definition OPS_PAYMENTS_DEFAULT_LIMIT :: u32 where "OPS_PAYMENTS_DEFAULT_LIMIT = 50"
definition OPS_PAYMENTS_MAX_LIMIT :: u32 where "OPS_PAYMENTS_MAX_LIMIT = 200"

record OpsPaymentsQuery =
  oq_limit :: "u32 option"
  oq_payee_id :: "string option"

record OpsPaymentRow =
  or_payment_id :: string
  or_payee_id :: string
  or_amount_zat :: u64
  or_broadcast_outcome :: BroadcastOutcome
  or_confirmation_count :: "u32 option"
  or_mined_block_height :: "u64 option"
  or_reorg_count :: u32
  or_settled_at_unix_seconds :: i64

record OpsPaymentsBody =
  ob_payments :: "OpsPaymentRow list"
  ob_rate_limits :: RateLimitSnapshot

definition clamp_ops_payments_limit :: "u32 option \<Rightarrow> u32" where
  "clamp_ops_payments_limit requested =
    max 1 (min OPS_PAYMENTS_MAX_LIMIT (case requested of Some n \<Rightarrow> n | None \<Rightarrow> OPS_PAYMENTS_DEFAULT_LIMIT))"

definition ops_payment_rows :: "(PaymentId \<times> SettlementLedgerEntry) list \<Rightarrow> OpsPaymentRow list" where
  "ops_payment_rows entries = map (\<lambda>(payment_id, entry).
     \<lparr>or_payment_id = payment_id, or_payee_id = le_payee_id entry, or_amount_zat = le_amount_zat entry,
      or_broadcast_outcome = le_broadcast_outcome entry, or_confirmation_count = le_confirmation_count entry,
      or_mined_block_height = le_mined_block_height entry, or_reorg_count = le_reorg_count entry,
      or_settled_at_unix_seconds = le_settled_at_unix_seconds entry\<rparr>) entries"

definition ops_payments_route ::
  "'l SettlementLedgerStore \<Rightarrow> OpsPaymentsQuery \<Rightarrow> Instant \<Rightarrow> RateLimiter \<Rightarrow> 'l \<Rightarrow> string + OpsPaymentsBody" where
  "ops_payments_route L q now limiter l =
    (case sl_list_recent L (clamp_ops_payments_limit (oq_limit q)) (oq_payee_id q) l of
       Inl err \<Rightarrow> Err (store_error_text err)
     | Inr rows \<Rightarrow> Ok \<lparr>ob_payments = ops_payment_rows rows, ob_rate_limits = snapshot now limiter\<rparr>)"

subsection \<open>What startup and operations guarantee\<close>

lemma placeholder_iff:
  "is_placeholder_pay_to s \<longleftrightarrow> (\<exists>n \<ge> 94. s = ''utest1'' @ replicate n CHR ''q'')"
proof
  assume p: "is_placeholder_pay_to s"
  then obtain t where t: "s = ''utest1q'' @ t" and len: "100 \<le> length s"
    by (auto simp: is_placeholder_pay_to_def PLACEHOLDER_PAY_TO_PREFIX_def PLACEHOLDER_PAY_TO_MIN_LEN_def prefix_def
        split: if_splits)
  then have "list_all (\<lambda>b. b = CHR ''q'') t"
    using p by (simp add: is_placeholder_pay_to_def split: if_splits)
  then have "t = replicate (length t) CHR ''q''" by (simp add: list_all_iff replicate_eqI)
  then have "s = ''utest1'' @ replicate (Suc (length t)) CHR ''q''" using t by simp
  then show "\<exists>n \<ge> 94. s = ''utest1'' @ replicate n CHR ''q''" using len t by (intro exI [of _ "Suc (length t)"]) simp
next
  assume "\<exists>n \<ge> 94. s = ''utest1'' @ replicate n CHR ''q''"
  then obtain n where n: "94 \<le> n" "s = ''utest1'' @ replicate n CHR ''q''" by blast
  then obtain m where "n = Suc m" by (cases n) auto
  then show "is_placeholder_pay_to s" using n
    by (simp add: is_placeholder_pay_to_def PLACEHOLDER_PAY_TO_PREFIX_def PLACEHOLDER_PAY_TO_MIN_LEN_def list_all_iff)
qed

lemma validate_entries_Ok_iff:
  "validate_entries allow pid es = Ok () \<longleftrightarrow> allow \<or> (\<forall>e \<in> set es. \<not> is_placeholder_pay_to (ae_pay_to e))"
  by (induction allow pid es rule: validate_entries.induct) auto

lemma validate_payees_Ok_iff:
  "validate_payees r allow = Ok () \<longleftrightarrow>
    allow \<or> (\<forall>(pid, es) \<in> set r. \<forall>e \<in> set es. \<not> is_placeholder_pay_to (ae_pay_to e))"
proof -
  have "validate_payees_loop allow r = Ok () \<longleftrightarrow>
    allow \<or> (\<forall>(pid, es) \<in> set r. \<forall>e \<in> set es. \<not> is_placeholder_pay_to (ae_pay_to e))"
  proof (induction allow r rule: validate_payees_loop.induct)
    case (2 allow pid es rest)
    then show ?case using validate_entries_Ok_iff [of allow pid es]
      by (cases "validate_entries allow pid es") auto
  qed simp
  then show ?thesis by (simp add: validate_payees_def registry_iter_def)
qed

lemma number_var_Ok:
  assumes "number_var env field fallback invalid = Ok v"
  shows "trim (var_or env field []) = [] \<and> v = fallback \<or> parse_u32 (trim (var_or env field [])) = Some v"
  using assms by (auto simp: number_var_def var_or_def Let_def split: option.splits if_splits)

lemma parse_u32_env_Ok:
  assumes "parse_u32_env env field fallback = Ok v"
  shows "trim (var_or env field []) = [] \<and> v = fallback \<or> parse_u32 (trim (var_or env field [])) = Some v"
  using assms by (auto simp: parse_u32_env_def var_or_def Let_def split: option.splits if_splits)

lemma from_env_Ok:
  assumes "from_env parse_addr env = Ok cfg"
  shows "number_var env ''ZPAY_STATIC_TIP_FALLBACK'' DEFAULT_STATIC_TIP_FALLBACK StaticTipInvalid = Ok (rc_static_tip_fallback cfg)"
    and "number_var env ''ZPAY_FINALITY_DEPTH'' DEFAULT_FINALITY_DEPTH FinalityDepthInvalid = Ok (rc_finality_depth cfg)"
    and "parse_u32_env env ''ZPAY_RATE_LIMIT__PER_JKT_PER_MINUTE'' DEFAULT_RATE_LIMIT_PER_JKT_PER_MINUTE
           = Ok (rc_rate_limit_per_jkt_per_minute cfg)"
    and "parse_u32_env env ''ZPAY_RATE_LIMIT__PER_IP_PER_MINUTE'' DEFAULT_RATE_LIMIT_PER_IP_PER_MINUTE
           = Ok (rc_rate_limit_per_ip_per_minute cfg)"
    and "rc_allow_demo_payee cfg = truthy_var env ''ZPAY_ALLOW_DEMO_PAYEE''"
    and "rc_rate_limit_trust_forwarded_headers cfg = truthy_var env ''ZPAY_RATE_LIMIT__TRUST_FORWARDED_HEADERS''"
    and "rc_expected_scheme cfg = resolve_scheme env (rc_expected_host cfg)"
  using assms by (auto simp: from_env_def Let_def split: sum.splits option.splits)

definition env_number :: "Env \<Rightarrow> string \<Rightarrow> u32 \<Rightarrow> u32 \<Rightarrow> bool" where
  "env_number env field fallback v \<longleftrightarrow>
    trim (var_or env field []) = [] \<and> v = fallback \<or> parse_u32 (trim (var_or env field [])) = Some v"

subsection \<open>Properties\<close>

text \<open>No typo changes the safety of a deployment silently: when the configuration resolves, each of the four
  numbers is the documented fallback exactly when its variable is unset or blank and otherwise the value the
  whole trimmed text denotes (anything else stops the start), the demo-payee and
  forwarded-header switches are on only for a trimmed, case-insensitive \<open>1\<close>, \<open>true\<close> or
  \<open>yes\<close>, and an unset or blank scheme is https exactly when a host is pinned.\<close>

theorem config_fails_closed:
  assumes "from_env parse_addr env = Ok cfg"
  shows "env_number env ''ZPAY_RATE_LIMIT__PER_JKT_PER_MINUTE'' 120 (rc_rate_limit_per_jkt_per_minute cfg)
    \<and> env_number env ''ZPAY_RATE_LIMIT__PER_IP_PER_MINUTE'' 600 (rc_rate_limit_per_ip_per_minute cfg)
    \<and> env_number env ''ZPAY_FINALITY_DEPTH'' 3 (rc_finality_depth cfg)
    \<and> env_number env ''ZPAY_STATIC_TIP_FALLBACK'' 4000000 (rc_static_tip_fallback cfg)
    \<and> (rc_allow_demo_payee cfg \<longrightarrow>
         (\<exists>raw. env ''ZPAY_ALLOW_DEMO_PAYEE'' = Some raw \<and> map ascii_lower (trim raw) \<in> {''1'', ''true'', ''yes''}))
    \<and> (rc_rate_limit_trust_forwarded_headers cfg \<longrightarrow>
         (\<exists>raw. env ''ZPAY_RATE_LIMIT__TRUST_FORWARDED_HEADERS'' = Some raw
            \<and> map ascii_lower (trim raw) \<in> {''1'', ''true'', ''yes''}))
    \<and> (trim (var_or env ''ZPAY_EXPECTED_SCHEME'' []) = [] \<longrightarrow>
         rc_expected_scheme cfg = (if rc_expected_host cfg = None then ''http'' else ''https''))"
  using number_var_Ok [OF from_env_Ok(1) [OF assms]] number_var_Ok [OF from_env_Ok(2) [OF assms]]
    parse_u32_env_Ok [OF from_env_Ok(3) [OF assms]] parse_u32_env_Ok [OF from_env_Ok(4) [OF assms]] from_env_Ok(5-7) [OF assms]
  unfolding env_number_def
  by (auto simp: DEFAULT_STATIC_TIP_FALLBACK_def DEFAULT_FINALITY_DEPTH_def DEFAULT_RATE_LIMIT_PER_JKT_PER_MINUTE_def
      DEFAULT_RATE_LIMIT_PER_IP_PER_MINUTE_def truthy_var_def parse_truthy_def resolve_scheme_def var_or_def
      default_expected_scheme_def Let_def split: option.splits)

theorem config_fails_closed_witness:
  "\<exists>cfg. from_env Some (\<lambda>_. None) = Ok cfg \<and> rc_rate_limit_per_jkt_per_minute cfg = 120 \<and> rc_expected_scheme cfg = ''http''"
proof -
  obtain cfg :: "string ResolvedConfig" where cfg: "from_env Some (\<lambda>_. None) = Ok cfg" "rc_expected_host cfg = None"
    by (simp add: from_env_def number_var_def parse_u32_env_def Let_def)
  have "\<not> parse_u32 [] = Some v" for v by (simp add: parse_u32_def)
  then show ?thesis using config_fails_closed [OF cfg(1)] cfg by (simp add: env_number_def var_or_def)
qed

text \<open>The placeholder gate is exact: startup accepts a registry exactly when the operator opted out or no
  advertised receiver of any payee is the demo shape, the testnet prefix \<open>utest1\<close> followed by at least 94
  letters \<open>q\<close> and nothing else.\<close>

theorem placeholder_gate_exact:
  "validate_payees r allow = Ok () \<longleftrightarrow>
    allow \<or> (\<forall>(pid, es) \<in> set r. \<forall>e \<in> set es. \<not> (\<exists>n \<ge> 94. ae_pay_to e = ''utest1'' @ replicate n CHR ''q''))"
  unfolding validate_payees_Ok_iff placeholder_iff by (rule refl)

theorem placeholder_gate_exact_witness:
  "validate_payees [(''shop'', [ex_accepts\<lparr>ae_pay_to := ''utest1'' @ replicate 94 CHR ''q''\<rparr>])] False \<noteq> Ok ()"
  unfolding placeholder_gate_exact by (auto intro!: exI [of _ "94 :: nat"])

text \<open>Readiness is exact: the readiness endpoint answers 200 exactly when the store answers and, if a chain plane
  is configured, the live read answered in time and the shared chain view was refreshed and is at most 180
  seconds old; every other state answers 503.\<close>

theorem ready_iff_dependencies_ready:
  "fst (evaluate_readiness addr_text probe store_result cache clock app ops) =
    (if \<not> isl store_result \<and>
        (case probe of None \<Rightarrow> True
         | Some live \<Rightarrow> (\<exists>view. live = LiveAnswered (Ok view)) \<and> cc_known cache
             \<and> saturating_sub (case i64_to_u64 (now_unix_seconds_i64 clock) of Some w \<Rightarrow> w | None \<Rightarrow> 0)
                 (cc_refreshed_at_unix_seconds cache) \<le> 180)
     then 200 else 503)"
proof (cases probe)
  case None
  then show ?thesis by (simp add: evaluate_readiness_def chain_dependency_def Let_def)
next
  case (Some live)
  show ?thesis
  proof (cases live)
    case (LiveAnswered r)
    then show ?thesis using Some
      by (cases r) (simp_all add: evaluate_readiness_def chain_dependency_def Let_def last_refresh_unix_seconds_def
          CHAIN_STATUS_FRESHNESS_CEILING_SECONDS_def CONFIRMATION_ORACLE_POLL_SECONDS_def)
  qed (simp add: Some evaluate_readiness_def chain_dependency_def Let_def)
qed

text \<open>The operator view is a bounded, faithful window: on either backend it returns between none and 200 rows, at most
  as many as asked for, each a row of the ledger of the payee asked for, newest payment id first, and when it
  returns fewer than its limit it has left out no row of that payee.\<close>

theorem ops_payments_window:
  assumes "any_ledger_inv l"
    and "ops_payments_route (AnyLedger net now) q instant limiter l = Ok body"
  shows "length (ob_payments body) \<le> unat (clamp_ops_payments_limit (oq_limit q))
    \<and> 1 \<le> clamp_ops_payments_limit (oq_limit q) \<and> clamp_ops_payments_limit (oq_limit q) \<le> 200
    \<and> sorted_wrt (\<lambda>x y. or_payment_id y < or_payment_id x) (ob_payments body)
    \<and> (\<forall>row \<in> set (ob_payments body). \<exists>e. any_ledger_rows l (or_payment_id row) = Some e
         \<and> row \<in> set (ops_payment_rows [(or_payment_id row, e)]) \<and> payee_wanted (oq_payee_id q) e)
    \<and> (length (ob_payments body) < unat (clamp_ops_payments_limit (oq_limit q)) \<longrightarrow>
        (\<forall>p e. any_ledger_rows l p = Some e \<longrightarrow> payee_wanted (oq_payee_id q) e \<longrightarrow>
           p \<in> or_payment_id ` set (ob_payments body)))"
proof -
  let ?n = "clamp_ops_payments_limit (oq_limit q)"
  obtain rs where rs: "any_list_recent net ?n (oq_payee_id q) l = Ok rs" "ob_payments body = ops_payment_rows rs"
    using assms(2) by (auto simp: ops_payments_route_def split: sum.splits)
  have recent: "recent_rows ?n (oq_payee_id q) (any_ledger_rows l) rs"
    using any_ledger.recent_ok [OF assms(1)] rs(1) by simp
  have clamp: "1 \<le> ?n" "?n \<le> 200"
    by (simp_all add: clamp_ops_payments_limit_def OPS_PAYMENTS_MAX_LIMIT_def)
  have ids: "map or_payment_id (ops_payment_rows rs) = map fst rs"
    by (simp add: ops_payment_rows_def case_prod_beta)
  have srt: "sorted_wrt (\<lambda>x y. or_payment_id y < or_payment_id x) (ops_payment_rows rs)"
    using recent by (simp add: recent_rows_def ops_payment_rows_def sorted_wrt_map case_prod_beta)
  have rows: "\<exists>e. any_ledger_rows l (or_payment_id row) = Some e
         \<and> row \<in> set (ops_payment_rows [(or_payment_id row, e)]) \<and> payee_wanted (oq_payee_id q) e"
    if "row \<in> set (ops_payment_rows rs)" for row
    using that recent by (fastforce simp: recent_rows_def ops_payment_rows_def)
  have "p \<in> or_payment_id ` set (ops_payment_rows rs)"
    if "length rs < unat ?n" "any_ledger_rows l p = Some e" "payee_wanted (oq_payee_id q) e" for p e
  proof -
    have "(p, e) \<in> set rs" using that recent unfolding recent_rows_def by fastforce
    then have "p \<in> set (map or_payment_id (ops_payment_rows rs))" unfolding ids by force
    then show ?thesis by simp
  qed
  moreover have "length (ops_payment_rows rs) = length rs" by (simp add: ops_payment_rows_def)
  moreover have "length rs \<le> unat ?n" using recent by (simp add: recent_rows_def)
  ultimately show ?thesis using rs(2) clamp srt rows by simp
qed

theorem ops_payments_window_witness:
  "\<exists>body. ops_payments_route (AnyLedger (\<lambda>_. None) 7) \<lparr>oq_limit = Some 0, oq_payee_id = None\<rparr> 7 (rate_limiter_new 0 120 600)
       (LedgerMemory [(''id1'', ex_ledger_entry None None), (''id2'', ex_ledger_entry None None)]) = Ok body
    \<and> length (ob_payments body) \<le> 1"
proof -
  let ?l = "LedgerMemory [(''id1'', ex_ledger_entry None None), (''id2'', ex_ledger_entry None None)]"
    and ?q = "\<lparr>oq_limit = Some 0, oq_payee_id = None\<rparr>"
  obtain body where b: "ops_payments_route (AnyLedger (\<lambda>_. None) 7) ?q 7 (rate_limiter_new 0 120 600) ?l = Ok body"
    by (simp add: ops_payments_route_def ledger_list_recent_def)
  have "any_ledger_inv ?l" by (simp add: hm_wf_def)
  from ops_payments_window [OF this b] show ?thesis using b
    by (auto simp: clamp_ops_payments_limit_def OPS_PAYMENTS_MAX_LIMIT_def)
qed

text \<open>A deployment without a chain plane fails closed: when no endpoint is configured, the built submitter makes
  every settlement an error that changes no store and reaches no chain, whatever the stores are, and the
  built fetcher answers every lookup with unavailable.\<close>

theorem unconfigured_chain_fails_closed:
  assumes "rc_indexer_grpc_addr config = None"
    and "build_broadcast_client connect from_chain_index config = Ok submitter"
    and "build_transaction_fetcher connect' config = Ok fetcher"
  shows "(\<exists>e. submit_settlement P L (any_submitter dbg submitter) T now request jkt p l c = (Err e, p, l, c))
    \<and> (\<exists>reason. any_fetch_transaction fetcher txid = Err (FetchUnavailable reason))"
proof -
  obtain n where sub: "submitter = RejectingSubmitter n"
    using assms(1,2) by (auto simp: build_broadcast_client_def split: sum.splits)
  have "\<exists>e. submit_settlement P L (any_submitter dbg submitter) T now request jkt p l c = (Err e, p, l, c)"
    by (simp add: submit_settlement_def sub split: sum.splits)
  moreover have "fetcher = RejectingFetcher" using assms(1,3) by (simp add: build_transaction_fetcher_def)
  ultimately show ?thesis by (simp add: rejecting_fetch_transaction_def)
qed

definition ex_from_index :: "unit \<Rightarrow> ZallyNetwork \<Rightarrow> (ZallyNetwork, unit) Submitter" where
  "ex_from_index ix n = \<lparr>ch_network = n, ch_network_debug = [], ch_submit = (\<lambda>raw c. (Ok (SubmitAccepted raw), c))\<rparr>"

theorem unconfigured_chain_fails_closed_witness:
  "\<exists>cfg submitter fetcher. from_env Some (\<lambda>_. None) = Ok cfg
    \<and> build_broadcast_client (\<lambda>_ _. Err []) ex_from_index cfg = Ok submitter
    \<and> build_transaction_fetcher (\<lambda>_ _. Err []) cfg = Ok fetcher
    \<and> (\<exists>reason. any_fetch_transaction fetcher [] = Err (FetchUnavailable reason))"
proof -
  obtain cfg :: "string ResolvedConfig" where cfg: "from_env Some (\<lambda>_. None) = Ok cfg"
      "rc_indexer_grpc_addr cfg = None" "rc_network cfg = ''regtest''"
    by (simp add: from_env_def number_var_def parse_u32_env_def var_nonblank_def var_or_def Let_def)
  have b: "build_broadcast_client (\<lambda>_ _. Err []) ex_from_index cfg
      = Ok (RejectingSubmitter ZallyRegtest)"
    using cfg by (simp add: build_broadcast_client_def zally_network_from_config_str_def)
  have f: "build_transaction_fetcher (\<lambda>_ _. Err []) cfg = Ok RejectingFetcher"
    using cfg by (simp add: build_transaction_fetcher_def)
  have "\<exists>reason. any_fetch_transaction RejectingFetcher [] = Err (FetchUnavailable reason)"
    using unconfigured_chain_fails_closed [OF cfg(2) b f, of PreparedTxCache SettlementLedgerMem _ _ _ _ _ _ _ _ "[]"]
    by (rule conjunct2)
  then show ?thesis using cfg(1) b f by blast
qed

end
