(* ===== verification/Startup.thy ===== *)
theory Startup
  imports Lifecycle Runtime
begin

text \<open>
  The facilitator's composition root (\<open>zpay-runtime/src/main.rs\<close>: \<open>build_app_router\<close>,
  \<open>spawn_settlement_reconciliation\<close>, \<open>main\<close>; \<open>zpay-x402/src/lib.rs\<close>: the routers and the CORS layer): the order in which
  the collaborators are built, each failure that stops the start, the initial state, and the routes of the two
  listeners.  Connecting to the chain, reading files, the Sapling prover and binding sockets are parameters.  The theorem
  ties startup to the step relation of \<open>Lifecycle\<close>: every state of a started facilitator is well formed.
\<close>

subsection \<open>Routes and cross-origin policy\<close>

datatype RouteHandler =
    HandleSupported | HandleX402Verify | HandleX402Settle | HandleAccepts | HandleTip | HandlePrepare | HandleSettle | HandleVerify
  | HandlePaymentStatus | HandleEvents | HandleHealthz | HandleReadyz | HandleMetrics | HandleOpsPayments

type_synonym Routes = "(string \<times> string \<times> RouteHandler) list"

definition x402_routes :: Routes where
  "x402_routes = [(''GET'', ''/supported'', HandleSupported), (''POST'', ''/verify'', HandleX402Verify),
     (''POST'', ''/settle'', HandleX402Settle)]"

definition lifecycle_routes :: Routes where
  "lifecycle_routes = [(''GET'', ''/accepts'', HandleAccepts), (''GET'', ''/tip'', HandleTip), (''POST'', ''/prepare'', HandlePrepare),
     (''POST'', ''/settle'', HandleSettle), (''POST'', ''/verify'', HandleVerify), (''GET'', ''/payments/{payment_id}'', HandlePaymentStatus),
     (''GET'', ''/payments/{payment_id}/events'', HandleEvents)]"

definition nest :: "string \<Rightarrow> Routes \<Rightarrow> Routes" where
  "nest path routes = map (\<lambda>(method, p, h). (method, path @ p, h)) routes"

definition app_routes :: Routes where
  "app_routes = (''GET'', ''/healthz'', HandleHealthz) # nest ''/x402/v2'' x402_routes @ nest ''/zpay/v1'' lifecycle_routes"

definition build_ops_router :: Routes where
  "build_ops_router = [(''GET'', ''/healthz'', HandleHealthz), (''GET'', ''/readyz'', HandleReadyz), (''GET'', ''/metrics'', HandleMetrics),
     (''GET'', ''/payments'', HandleOpsPayments)]"

record CorsLayer =
  cors_allow_origin :: "string list"
  cors_allow_methods :: "string list"
  cors_allow_headers :: "string list"
  cors_expose_headers :: "string list"

text \<open>\<open>is_header_value\<close> is the parser of header values.\<close>

definition build_cors_layer :: "(string \<Rightarrow> bool) \<Rightarrow> string list \<Rightarrow> CorsLayer option" where
  "build_cors_layer is_header_value allowlist =
    (if allowlist = [] then None
     else let origins = filter is_header_value allowlist in
       if origins = [] then None
       else Some \<lparr>cors_allow_origin = origins, cors_allow_methods = [''GET'', ''POST''],
         cors_allow_headers = [''content-type'', ''authorization'', ''dpop'', ''idempotency-key'', ''payment-signature''],
         cors_expose_headers = [''payment-required'', ''payment-response'']\<rparr>)"

lemma cors_exact:
  "(\<exists>layer. build_cors_layer ok allowlist = Some layer \<and> origin \<in> set (cors_allow_origin layer)) \<longleftrightarrow> origin \<in> set allowlist \<and> ok origin"
  by (auto simp: build_cors_layer_def Let_def filter_empty_conv)

text \<open>The public listener has no operator route.\<close>

lemma app_routes_public:
  "set (map (snd \<circ> snd) app_routes) \<inter> {HandleReadyz, HandleMetrics, HandleOpsPayments} = {}"
  by (simp add: app_routes_def nest_def x402_routes_def lifecycle_routes_def)

subsection \<open>Building the application\<close>

record ('ix, 'c) StartupLib =
  su_connect :: "string \<Rightarrow> ZinderNetwork \<Rightarrow> string + 'ix"
  su_submitter :: "'ix \<Rightarrow> ZallyNetwork \<Rightarrow> (ZallyNetwork, 'c) Submitter"
  su_chain_index :: "'ix \<Rightarrow> ChainIndex"
  su_prover_available :: bool
  su_read_to_string :: "string \<Rightarrow> string + string"
  su_parse_toml :: "string \<Rightarrow> string + (string, AcceptsEntry list) hashmap"
  su_is_header_value :: "string \<Rightarrow> bool"
  su_store_net :: net

record ('c, 'h) AppPlane =
  ap_payees :: PayeeRegistry
  ap_chain :: "'c AnySubmitter"
  ap_verifier_network :: ZallyNetwork
  ap_fetcher :: AnyTransactionFetcher
  ap_tip_oracle :: AnyTipOracle
  ap_expectations :: DpopExpectations
  ap_finality_depth :: u32
  ap_trust_forwarded_headers :: bool
  ap_cors :: "CorsLayer option"
  ap_routes :: Routes
  ap_state :: "(AnyPreparedTxStore, AnySettlementLedgerStore, 'c, 'h, InMemoryReplayStore) FacilitatorState"

definition connect_index :: "('ix, 'c) StartupLib \<Rightarrow> string \<Rightarrow> ZinderNetwork \<Rightarrow> string + ChainIndex" where
  "connect_index S endpoint n = (case su_connect S endpoint n of Inl e \<Rightarrow> Err e | Inr ix \<Rightarrow> Ok (su_chain_index S ix))"

text \<open>\<open>db\<close> and \<open>prepared\<close> are the tables of the configured database, \<open>now\<close> the monotonic clock, \<open>chain\<close> the state of the chain
  the submitter acts on.\<close>

definition build_app_router ::
  "('ix, 'c) StartupLib \<Rightarrow> 'addr ResolvedConfig \<Rightarrow> MigrationDb \<Rightarrow> PreparedTable \<Rightarrow> Instant \<Rightarrow> 'c \<Rightarrow> StartupError + ('c, 'h) AppPlane" where
  "build_app_router S config db prepared now chain =
    (case build_broadcast_client (su_connect S) (su_submitter S) config of
       Inl e \<Rightarrow> Err e
     | Inr submitter \<Rightarrow>
       if \<not> su_prover_available S then Err SaplingParametersUnavailable
       else
    (case zally_network_from_config_str (rc_network config) of
       Inl e \<Rightarrow> Err e
     | Inr verifier_network \<Rightarrow>
    (case build_transaction_fetcher (connect_index S) config of
       Inl e \<Rightarrow> Err e
     | Inr fetcher \<Rightarrow>
    (case load_payee_registry (su_read_to_string S) (su_parse_toml S) config of
       Inl e \<Rightarrow> Err e
     | Inr payees \<Rightarrow>
    (case validate_payees payees (rc_allow_demo_payee config) of
       Inl e \<Rightarrow> Err e
     | Inr _ \<Rightarrow>
    (case build_tip_oracle (connect_index S) config of
       Inl e \<Rightarrow> Err e
     | Inr tip_oracle \<Rightarrow>
    (case build_stores (su_store_net S) (rc_store_backend config) (rc_store_url config) (rc_store_auth_token config) db prepared of
       Inl e \<Rightarrow> Err e
     | Inr (prepared_store, ledger) \<Rightarrow>
       Ok \<lparr>ap_payees = payees, ap_chain = submitter, ap_verifier_network = verifier_network, ap_fetcher = fetcher,
           ap_tip_oracle = tip_oracle, ap_expectations = build_dpop_expectations config, ap_finality_depth = rc_finality_depth config,
           ap_trust_forwarded_headers = rc_rate_limit_trust_forwarded_headers config,
           ap_cors = build_cors_layer (su_is_header_value S) (rc_cors_allowlist config), ap_routes = app_routes,
           ap_state = \<lparr>st_prepared = prepared_store, st_ledger = ledger, st_chain = chain, st_events = hub_new,
             st_replay = replay_store_new,
             st_limiter = rate_limiter_new now (rc_rate_limit_per_jkt_per_minute config) (rc_rate_limit_per_ip_per_minute config),
             st_chain_status = cache_new\<rparr>\<rparr>)))))))"

text \<open>The background tasks need a chain plane; without an endpoint none is started.  With one, the oracle and the
  subscription get a connection each.\<close>

definition spawn_settlement_reconciliation ::
  "('ix, 'c) StartupLib \<Rightarrow> 'addr ResolvedConfig \<Rightarrow> StartupError + ('ix \<times> 'ix) option" where
  "spawn_settlement_reconciliation S config =
    (case rc_indexer_grpc_addr config of
       None \<Rightarrow> Ok None
     | Some endpoint \<Rightarrow>
       (case connect_configured_zinder_chain (su_connect S) endpoint (rc_network config) of
          Inl e \<Rightarrow> Err e
        | Inr oracle_ix \<Rightarrow>
          (case connect_configured_zinder_chain (su_connect S) endpoint (rc_network config) of
             Inl e \<Rightarrow> Err e
           | Inr chain_ix \<Rightarrow> Ok (Some (oracle_ix, chain_ix)))))"

text \<open>The start up to the bound listeners: \<open>tracing\<close> and \<open>metrics\<close> are the outcomes of installing the subscriber and the
  recorder, \<open>bind\<close> that of binding an address.  With \<open>--print-config\<close> nothing is started.\<close>

definition zpay_main ::
  "('ix, 'c) StartupLib \<Rightarrow> (string \<Rightarrow> 'addr option) \<Rightarrow> Env \<Rightarrow> bool \<Rightarrow> string + unit \<Rightarrow> string + unit \<Rightarrow> ('addr \<Rightarrow> string + unit)
    \<Rightarrow> MigrationDb \<Rightarrow> PreparedTable \<Rightarrow> Instant \<Rightarrow> 'c \<Rightarrow> StartupError + (('c, 'h) AppPlane \<times> ('ix \<times> 'ix) option) option" where
  "zpay_main S parse_addr env print_config tracing metrics bind db prepared now chain =
    (case tracing of
       Inl source \<Rightarrow> Err (TracingFailed source)
     | Inr _ \<Rightarrow>
    (case from_env parse_addr env of
       Inl e \<Rightarrow> Err e
     | Inr config \<Rightarrow>
       if print_config then Ok None
       else
    (case metrics of
       Inl reason \<Rightarrow> Err (MetricsFailed reason)
     | Inr _ \<Rightarrow>
    (case build_app_router S config db prepared now chain of
       Inl e \<Rightarrow> Err e
     | Inr plane \<Rightarrow>
    (case spawn_settlement_reconciliation S config of
       Inl e \<Rightarrow> Err e
     | Inr probe \<Rightarrow>
    (case bind (rc_app_bind_addr config) of
       Inl source \<Rightarrow> Err (BindFailed source)
     | Inr _ \<Rightarrow>
    (case bind (rc_ops_bind_addr config) of
       Inl source \<Rightarrow> Err (BindFailed source)
     | Inr _ \<Rightarrow> Ok (Some (plane, probe)))))))))"

subsection \<open>A started facilitator\<close>

lemma main_Ok:
  assumes "zpay_main S parse_addr env pc tracing metrics bind db prepared now chain = Ok (Some (plane, probe))"
  obtains config where "from_env parse_addr env = Ok config" "build_app_router S config db prepared now chain = Ok plane"
    "spawn_settlement_reconciliation S config = Ok probe"
  using assms by (auto simp: zpay_main_def split: sum.splits if_splits)

lemma build_app_Ok:
  assumes "build_app_router S config db prepared now chain = Ok plane"
  obtains stores where "build_stores (su_store_net S) (rc_store_backend config) (rc_store_url config) (rc_store_auth_token config) db prepared
      = Ok stores"
    "st_prepared (ap_state plane) = fst stores" "st_ledger (ap_state plane) = snd stores"
    "validate_payees (ap_payees plane) (rc_allow_demo_payee config) = Ok ()"
    "zally_network_from_config_str (rc_network config) = Ok (ap_verifier_network plane)" "ap_routes plane = app_routes"
    "ap_cors plane = build_cors_layer (su_is_header_value S) (rc_cors_allowlist config)"
  using assms unfolding build_app_router_def try_Ok_iff guard_Ok_iff
  by (elim exE conjE) (auto split: prod.splits intro: that)

text \<open>The migrations establish the outcome columns and keep the ranges of the counters.\<close>

lemma migrated_ledger_inv:
  assumes "mig_inv db" "ledger_ranges (mg_ledger db)" "open_and_migrate net url token db = (Ok connection, db')"
  shows "ledger_inv (mg_ledger db')"
proof -
  obtain u where "run_migrations net db = (Ok u, db')"
    using assms(3) by (auto simp: open_and_migrate_def split: sum.splits prod.splits)
  note run = this
  have "ledger_ranges (mg_ledger db')" using run_effect [OF assms(1) run] assms(2) by (simp add: follows_def)
  then show ?thesis using migrations_effect(1) [OF assms(1) run]
    by (auto simp: ledger_inv_def ledger_ranges_def lrow_ok_def list_all_iff)
qed

lemma built_stores_ok:
  assumes "build_stores net backend url token db prepared = Ok stores"
    and "mig_inv db" "ledger_ranges (mg_ledger db)" "prepared_inv prepared" "amounts_fit fits_i64 (prepared_rows b64 prepared)"
    and "st_prepared st = fst stores" "st_ledger st = snd stores"
  shows "facility_ok b64 st"
  using assms(1)
proof (cases "backend = ''memory''")
  case True
  then have "stores = (PreparedMemory cache_empty, LedgerMemory [])" using assms(1) by (simp add: build_stores_def)
  then show ?thesis using assms(6,7) cache_inv_empty
    by (simp add: facility_ok_def amounts_fit_def hm_wf_def cache_rows_def cache_empty_def)
next
  case False
  then obtain connection db' where m: "open_and_migrate net url token db = (Ok connection, db')"
    and s: "stores = (PreparedLibsql prepared, LedgerLibsql (mg_ledger db'))"
    using assms(1) by (auto simp: build_stores_def split: if_splits prod.splits sum.splits)
  then show ?thesis using assms(4-7) migrated_ledger_inv [OF assms(2,3) m] by (simp add: facility_ok_def)
qed

lemma network_labels:
  "zally_network_from_config_str raw = Ok n \<Longrightarrow> raw \<in> {''mainnet'', ''testnet'', ''regtest''}"
  by (auto simp: zally_network_from_config_str_def split: if_splits)

text \<open>[C9] A facilitator that comes up is well formed and stays so.  If the process starts, on whichever store
  backend and after any earlier migrations, then the network is one the chain plane knows, no
  placeholder payee is advertised unless the operator allowed it, only configured origins may read responses
  across origins, the public listener has no operator route, and after any interleaving of the
  facilitator's handlers and background tasks both stores satisfy their invariants and every prepared amount fits the ledger.\<close>

theorem started_facilitator_well_formed:
  assumes "zpay_main S parse_addr env pc tracing metrics bind db prepared now chain = Ok (Some (plane, probe))"
    and "mig_inv db" "ledger_ranges (mg_ledger db)" "prepared_inv prepared"
    and "amounts_fit fits_i64 (prepared_rows (fa_b64_encode A) prepared)" "registry_fits (ap_payees plane)"
    and "fa_payees A = ap_payees plane" "facility_run A G Z (ap_state plane) st'"
  shows "facility_ok (fa_b64_encode A) st'
    \<and> (\<exists>config. from_env parse_addr env = Ok config \<and> rc_network config \<in> {''mainnet'', ''testnet'', ''regtest''}
        \<and> (rc_allow_demo_payee config \<or> (\<forall>(payee, entries) \<in> set (ap_payees plane). \<forall>e \<in> set entries. \<not> is_placeholder_pay_to (ae_pay_to e)))
        \<and> (\<forall>layer. ap_cors plane = Some layer \<longrightarrow> set (cors_allow_origin layer) \<subseteq> set (rc_cors_allowlist config))
        \<and> (probe = None \<longleftrightarrow> rc_indexer_grpc_addr config = None))
    \<and> set (map (snd \<circ> snd) (ap_routes plane)) \<inter> {HandleReadyz, HandleMetrics, HandleOpsPayments} = {}"
proof -
  obtain config where c: "from_env parse_addr env = Ok config" "build_app_router S config db prepared now chain = Ok plane"
    "spawn_settlement_reconciliation S config = Ok probe" by (rule main_Ok [OF assms(1)])
  from c(2) obtain stores where b: "build_stores (su_store_net S) (rc_store_backend config) (rc_store_url config) (rc_store_auth_token config)
      db prepared = Ok stores" "st_prepared (ap_state plane) = fst stores" "st_ledger (ap_state plane) = snd stores"
    "validate_payees (ap_payees plane) (rc_allow_demo_payee config) = Ok ()"
    "zally_network_from_config_str (rc_network config) = Ok (ap_verifier_network plane)" "ap_routes plane = app_routes"
    "ap_cors plane = build_cors_layer (su_is_header_value S) (rc_cors_allowlist config)" by (rule build_app_Ok)
  have "facility_ok (fa_b64_encode A) (ap_state plane)" by (rule built_stores_ok [OF b(1) assms(2-5) b(2,3)])
  then have "facility_ok (fa_b64_encode A) st'"
    using facility_run_kept [OF assms(8)] assms(6,7) by (simp add: kept_def)
  moreover have "probe = None \<longleftrightarrow> rc_indexer_grpc_addr config = None"
    using c(3) by (auto simp: spawn_settlement_reconciliation_def split: option.splits sum.splits)
  moreover have "set (cors_allow_origin layer) \<subseteq> set (rc_cors_allowlist config)" if "ap_cors plane = Some layer" for layer
    using that b(7) by (auto simp: build_cors_layer_def Let_def split: if_splits)
  moreover have "set (map (snd \<circ> snd) (ap_routes plane)) \<inter> {HandleReadyz, HandleMetrics, HandleOpsPayments} = {}"
    unfolding b(6) by (rule app_routes_public)
  ultimately show ?thesis
    using network_labels [OF b(5)] b(4) [unfolded validate_payees_Ok_iff] by (intro conjI exI [of _ config]) (simp_all add: c(1))
qed

definition ex_startup :: "(unit, nat) StartupLib" where
  "ex_startup = \<lparr>su_connect = (\<lambda>_ _. Err ''offline''), su_submitter = (\<lambda>_ _. fa_chain ex_facilitator),
     su_chain_index = undefined, su_prover_available = True, su_read_to_string = Err, su_parse_toml = Err,
     su_is_header_value = (\<lambda>s. s \<noteq> []), su_store_net = (\<lambda>_. None)\<rparr>"

theorem started_facilitator_well_formed_witness:
  "\<exists>plane st'. zpay_main ex_startup Some (\<lambda>_. None) False (Ok ()) (Ok ()) (\<lambda>_. Ok ()) ex_mig [] 5 7 = Ok (Some (plane, None))
    \<and> facility_run (ex_any_facilitator\<lparr>fa_payees := registry_new\<rparr>) ex_gate_config ex_pczt_lib (ap_state plane) st'
    \<and> facility_ok ex_b64 st' \<and> set (map (snd \<circ> snd) (ap_routes plane)) \<inter> {HandleReadyz, HandleMetrics, HandleOpsPayments} = {}"
proof -
  let ?A = "ex_any_facilitator\<lparr>fa_payees := registry_new\<rparr>"
  have cfg: "\<exists>cfg :: string ResolvedConfig. from_env Some (\<lambda>_. None) = Ok cfg \<and> rc_network cfg = ''regtest'' \<and> rc_indexer_grpc_addr cfg = None
      \<and> rc_payees_config_path cfg = None \<and> rc_store_backend cfg = ''libsql'' \<and> rc_store_url cfg = ''file:./zpay.libsql''"
    by (simp add: from_env_def number_var_def parse_u32_env_def var_or_def var_nonblank_def Let_def)
  then obtain cfg :: "string ResolvedConfig" where cfg: "from_env Some (\<lambda>_. None) = Ok cfg" "rc_network cfg = ''regtest''"
    "rc_indexer_grpc_addr cfg = None" "rc_payees_config_path cfg = None" "rc_store_backend cfg = ''libsql''"
    "rc_store_url cfg = ''file:./zpay.libsql''" by blast
  have no_payees: "validate_payees registry_new a = Ok ()" for a
    by (simp add: validate_payees_def registry_iter_def registry_new_def)
  have "\<exists>plane :: (nat, unit) AppPlane. build_app_router ex_startup cfg ex_mig [] 5 7 = Ok plane \<and> ap_payees plane = registry_new"
    using cfg(2-6) ex_mig_run no_payees
    by (simp add: build_app_router_def build_broadcast_client_def build_transaction_fetcher_def load_payee_registry_def
        build_tip_oracle_def build_stores_def open_and_migrate_def build_connection_def zally_network_from_config_str_def
        ex_startup_def)
  then obtain plane :: "(nat, unit) AppPlane" where
    b: "build_app_router ex_startup cfg ex_mig [] 5 7 = Ok plane" "ap_payees plane = registry_new" by blast
  have m: "zpay_main ex_startup Some (\<lambda>_. None) False (Ok ()) (Ok ()) (\<lambda>_. Ok ()) ex_mig [] 5 7 = Ok (Some (plane, None))"
    using cfg(1,3) b(1) by (simp add: zpay_main_def spawn_settlement_reconciliation_def)
  have db: "mig_inv ex_mig" "ledger_ranges (mg_ledger ex_mig)" "prepared_inv []"
    "amounts_fit fits_i64 (prepared_rows (fa_b64_encode ?A) [])"
    by (simp_all add: mig_inv_def ex_mig_def ledger_ranges_def hm_wf_def encode_ledger_row_def ex_ledger_entry_def prepared_inv_def
        unique_keys_def amounts_fit_def prepared_rows_def)
  have reg: "registry_fits (ap_payees plane)" "fa_payees ?A = ap_payees plane"
    by (simp_all add: registry_fits_def b(2) resolve_find registry_find_def registry_new_def)
  have run: "facility_run ?A ex_gate_config ex_pczt_lib (ap_state plane) ((ap_state plane)\<lparr>st_prepared :=
      sweep_tick (AnyPrepared (fa_b64_encode ?A) (\<lambda>_. None)) 500 (st_prepared (ap_state plane))\<rparr>)"
    by (rule facility_run.onward [OF facility_run.stay facility_step.sweep])
  have e: "fa_b64_encode ?A = ex_b64" by (simp add: ex_any_facilitator_def)
  note w = started_facilitator_well_formed [OF m db reg run]
  have "facility_ok ex_b64 ((ap_state plane)\<lparr>st_prepared :=
      sweep_tick (AnyPrepared (fa_b64_encode ?A) (\<lambda>_. None)) 500 (st_prepared (ap_state plane))\<rparr>)"
    using conjunct1 [OF w] unfolding e .
  with m run conjunct2 [OF conjunct2 [OF w]] show ?thesis by blast
qed

end
