(* ===== verification/Zspend_Core.thy ===== *)
theory Zspend_Core
  imports Dpop Zcash_Exact
begin

text \<open>
  The trust boundary of the wallet service (\<open>zspend-core\<close>): the problem envelope
  (\<open>error.rs\<close>), the payment authorization (\<open>payment_authorization.rs\<close>), the access-token
  verifier (\<open>access_token.rs\<close>), the DPoP verifier bound to the access token (\<open>dpop.rs\<close>), the
  intent-hash recompute (\<open>intent.rs\<close>) and the signing policy (\<open>signing_policy.rs\<close>).
  The JWT library is the record \<open>AccessLib\<close>, the intent hasher and the URL and hash primitives are
  parameters; the shared DPoP primitives are those of \<open>Dpop\<close>.
\<close>

subsection \<open>Problems (error.rs)\<close>

datatype ProblemKind =
    PaymentRequestInvalid | IntentMismatch | AudienceMismatch | TokenAlreadyConsumed | InsufficientFunds
  | SeedUnavailable | ChainUnreachable | NotReady | WalletUnavailable | DpopProofInvalid | AccessTokenInvalid
  | TargetExpiryStale | TargetExpiryMismatchInternal | TokenRevoked | RecipientMismatch | AmountExceeded
  | AuthorizationExpired | RarTooManyEntries | RevocationCacheStale

record RemediationHint =
  rh_action :: string
  rh_docs_url :: "string option"
  rh_ciba_endpoint :: "string option"
  rh_authorize_endpoint :: "string option"

record ProblemDetail =
  pd_kind :: ProblemKind
  pd_title :: string
  pd_detail :: string
  pd_retryable :: bool
  pd_remediation :: "RemediationHint option"

definition not_retryable :: "ProblemKind \<Rightarrow> string \<Rightarrow> string \<Rightarrow> ProblemDetail" where
  "not_retryable kind title detail =
    \<lparr>pd_kind = kind, pd_title = title, pd_detail = detail, pd_retryable = False, pd_remediation = None\<rparr>"

definition retryable :: "ProblemKind \<Rightarrow> string \<Rightarrow> string \<Rightarrow> ProblemDetail" where
  "retryable kind title detail =
    \<lparr>pd_kind = kind, pd_title = title, pd_detail = detail, pd_retryable = True, pd_remediation = None\<rparr>"

definition with_remediation :: "RemediationHint \<Rightarrow> ProblemDetail \<Rightarrow> ProblemDetail" where
  "with_remediation hint p = p\<lparr>pd_remediation := Some hint\<rparr>"

subsection \<open>Payment authorization (payment\_authorization.rs)\<close>

text \<open>Amounts, units and expiries belong to the wallet library: a unit is its wire text, and
  \<open>ExpiresOther\<close> stands for the hidden tail of the expiry variants.\<close>

datatype ExpiresAt = BlockHeight u32 | Slot u64 | BlockNumber u64 | TimestampSeconds u64 | ExpiresOther

record Amount =
  am_currency :: string
  am_value :: string
  am_unit :: string

record ChainId =
  ci_namespace :: string
  ci_reference :: string

record PaymentAuthorization =
  pa_chain :: ChainId
  pa_recipient :: string
  pa_amount :: Amount
  pa_payment_id :: string
  pa_intent_hash :: string
  pa_expires_at :: ExpiresAt

subsection \<open>Access token (access\_token.rs)\<close>

record AccessTokenClaims =
  ac_aud :: string
  ac_jti :: string
  ac_exp :: i64
  ac_cnf_jkt :: string
  ac_authorization_details :: "PaymentAuthorization list"

definition payment_authorization :: "AccessTokenClaims \<Rightarrow> ProblemDetail + PaymentAuthorization" where
  "payment_authorization claims =
    (case ac_authorization_details claims of
       [single] \<Rightarrow> Ok single
     | entries \<Rightarrow> Err (not_retryable RarTooManyEntries ''rar_too_many_entries''
         (''v1 accepts exactly one authorization_details entry; got '' @ dec_str (length entries))))"

datatype AudClaim = AudOne string | AudMany "string list"

definition deserialize_aud :: "AudClaim \<Rightarrow> string + string" where
  "deserialize_aud claim =
    (case claim of
       AudOne aud \<Rightarrow> Ok aud
     | AudMany many \<Rightarrow> (case many of [] \<Rightarrow> Err ''aud array is empty'' | aud # _ \<Rightarrow> Ok aud))"

datatype JwtError = ExpiredSignature | InvalidAudience | JwtOther string

record Validation =
  va_algorithm :: Algorithm
  va_leeway :: u64
  va_audience :: "string list"
  va_required :: "string list"

text \<open>\<open>al_decode\<close> is \<open>jsonwebtoken::decode::<AccessTokenClaims>\<close>: it checks signature and
  claims against the validation and deserializes \<open>aud\<close> with the function it is given.\<close>

record 'key AccessLib =
  al_decode_header :: "string \<Rightarrow> JwtError + JwtHeader"
  al_from_jwk :: "Jwk \<Rightarrow> JwtError + 'key"
  al_decode :: "string \<Rightarrow> 'key \<Rightarrow> Validation \<Rightarrow> (AudClaim \<Rightarrow> string + string) \<Rightarrow> JwtError + AccessTokenClaims"
  al_error_text :: "JwtError \<Rightarrow> string"

type_synonym JwkSet = "Jwk list"

definition jwks_find :: "JwkSet \<Rightarrow> string \<Rightarrow> Jwk option" where
  "jwks_find jwks kid = List.find (\<lambda>jwk. jwk_kid jwk = Some kid) jwks"

definition access_invalid :: "'key AccessLib \<Rightarrow> string \<Rightarrow> JwtError \<Rightarrow> ProblemDetail" where
  "access_invalid A msg err = not_retryable AccessTokenInvalid ''access_token_invalid'' (msg @ '': '' @ al_error_text A err)"

definition access_invalid_msg :: "string \<Rightarrow> ProblemDetail" where
  "access_invalid_msg detail = not_retryable AccessTokenInvalid ''access_token_invalid'' detail"

definition jwk_algorithm :: "Jwk \<Rightarrow> ProblemDetail + Algorithm" where
  "jwk_algorithm jwk =
    (let unsupported = access_invalid_msg
       ''JWKS key type not supported for at+jwt verification (expected OKP/Ed25519 or EC/P-256)'' in
     case jwk_params jwk of
       OctetKeyPair \<Rightarrow> Ok EdDSA
     | EllipticCurve curve x y \<Rightarrow> if curve = P256 then Ok ES256 else Err unsupported
     | RSAKey \<Rightarrow> Err unsupported
     | OctetKey \<Rightarrow> Err unsupported)"

definition map_decode_error :: "'key AccessLib \<Rightarrow> JwtError \<Rightarrow> ProblemDetail" where
  "map_decode_error A err =
    (if err = ExpiredSignature then not_retryable AuthorizationExpired ''authorization_expired''
       ''the access token has expired; request a new authorization''
     else if err = InvalidAudience then not_retryable AudienceMismatch ''audience_mismatch''
       ''the access token aud does not match this wallet's audience''
     else access_invalid A ''access token failed verification'' err)"

definition verify_access_token ::
  "'key AccessLib \<Rightarrow> string \<Rightarrow> JwkSet \<Rightarrow> string \<Rightarrow> u64 \<Rightarrow> ProblemDetail + AccessTokenClaims" where
  "verify_access_token A token jwks expected_audience leeway_seconds =
    (case al_decode_header A token of
       Inl err \<Rightarrow> Err (access_invalid A ''malformed token header'' err)
     | Inr header \<Rightarrow>
    (case jh_kid header of
       None \<Rightarrow> Err (access_invalid_msg ''access token header carries no kid'')
     | Some kid \<Rightarrow>
    (case jwks_find jwks kid of
       None \<Rightarrow> Err (access_invalid_msg ''no JWKS key matches the token kid'')
     | Some jwk \<Rightarrow>
    (case jwk_algorithm jwk of
       Inl e \<Rightarrow> Err e
     | Inr key_alg \<Rightarrow>
       if jh_alg header \<noteq> key_alg
       then Err (access_invalid_msg ''token header alg does not match the JWKS key type (alg-confusion guard)'')
       else
    (case al_from_jwk A jwk of
       Inl err \<Rightarrow> Err (access_invalid A ''unusable JWKS key'' err)
     | Inr decoding_key \<Rightarrow>
    (case al_decode A token decoding_key
            \<lparr>va_algorithm = key_alg, va_leeway = leeway_seconds, va_audience = [expected_audience],
             va_required = [''exp'', ''aud'']\<rparr> deserialize_aud of
       Inl err \<Rightarrow> Err (map_decode_error A err)
     | Inr claims \<Rightarrow> Ok claims))))))"

subsection \<open>DPoP bound to the access token (dpop.rs)\<close>

definition DPOP_CLOCK_SKEW_SECONDS :: u64 where "DPOP_CLOCK_SKEW_SECONDS = 60"

record DpopClaims =
  dc_htm :: string
  dc_htu :: string
  dc_jti :: string
  dc_iat :: i64
  dc_ath :: string

record DpopBinding =
  db_method :: string
  db_request_url :: string
  db_access_token :: string
  db_bound_jkt :: string

record VerifiedDpop =
  vf_jti :: string
  vf_jkt :: string

definition dpop_invalid :: "string \<Rightarrow> ProblemDetail" where
  "dpop_invalid detail = not_retryable DpopProofInvalid ''dpop_proof_invalid'' detail"

definition canonicalize_url :: "('json, 'key, 'url) DpopLib \<Rightarrow> string \<Rightarrow> ProblemDetail + string" where
  "canonicalize_url L raw =
    (case canonicalize_http_url L raw of Inl err \<Rightarrow> Err (dpop_invalid (canonical_url_error_text err)) | Inr u \<Rightarrow> Ok u)"

text \<open>\<open>decode_claims\<close> is the ES256 signature check with the claims type of this crate, without
  \<open>exp\<close>, \<open>nbf\<close> and \<open>aud\<close> validation; \<open>dec\<close> renders a number.\<close>

definition zspend_verify_dpop_proof ::
  "('json, 'key, 'url) DpopLib \<Rightarrow> (string \<Rightarrow> 'key \<Rightarrow> string + DpopClaims) \<Rightarrow> string \<Rightarrow> DpopBinding \<Rightarrow> i64 \<Rightarrow> u64
    \<Rightarrow> ProblemDetail + VerifiedDpop" where
  "zspend_verify_dpop_proof L decode_claims proof_jwt binding now_unix skew_seconds =
    (case dl_decode_header L proof_jwt of
       Inl err \<Rightarrow> Err (dpop_invalid (''header decode failed: '' @ err))
     | Inr header \<Rightarrow>
       if jh_typ header \<noteq> Some ''dpop+jwt'' then Err (dpop_invalid ''typ must be dpop+jwt'')
       else if jh_alg header \<noteq> ES256
       then Err (dpop_invalid (''alg must be ES256, got '' @ algorithm_debug (jh_alg header)))
       else
    (case jh_jwk header of
       None \<Rightarrow> Err (dpop_invalid ''proof header carries no jwk'')
     | Some jwk \<Rightarrow>
    (case jwk_params jwk of
       EllipticCurve curve x y \<Rightarrow>
         if curve \<noteq> P256 then Err (dpop_invalid ''proof jwk curve must be P-256'')
         else
           let jkt = compute_ec_jwk_thumbprint L ''P-256'' ''EC'' x y in
           if jkt \<noteq> db_bound_jkt binding
           then Err (dpop_invalid ''proof key thumbprint does not match the access token cnf.jkt'')
           else
    (case dl_from_ec_components L x y of
       Inl err \<Rightarrow> Err (dpop_invalid (''jwk components rejected: '' @ err))
     | Inr decoding_key \<Rightarrow>
    (case decode_claims proof_jwt decoding_key of
       Inl err \<Rightarrow> Err (dpop_invalid (''signature verification failed: '' @ err))
     | Inr claims \<Rightarrow>
       if dc_htm claims \<noteq> db_method binding
       then Err (dpop_invalid (''htm mismatch: expected '' @ db_method binding @ '', got '' @ dc_htm claims))
       else
    (case canonicalize_url L (dc_htu claims) of
       Inl e \<Rightarrow> Err e
     | Inr got \<Rightarrow>
    (case canonicalize_url L (db_request_url binding) of
       Inl e \<Rightarrow> Err e
     | Inr want \<Rightarrow>
       if got \<noteq> want then Err (dpop_invalid ''htu mismatch'')
       else
         let drift = abs_drift_seconds (dc_iat claims) now_unix in
         if drift > skew_seconds
         then Err (dpop_invalid (''iat skew '' @ dec_str (unat drift) @ ''s exceeds '' @ dec_str (unat skew_seconds) @ ''s tolerance''))
         else
           let expected_ath = dl_b64_encode L (dl_sha256 L (bytes_of (db_access_token binding))) in
           if dc_ath claims \<noteq> expected_ath
           then Err (dpop_invalid ''ath does not match the presented access token'')
           else Ok \<lparr>vf_jti = dc_jti claims, vf_jkt = jkt\<rparr>))))
     | _ \<Rightarrow> Err (dpop_invalid ''proof jwk must be an EC key''))))"

subsection \<open>Intent hash (intent.rs)\<close>

record IntentInput =
  in_chain_namespace :: string
  in_chain_reference :: string
  in_recipient_caip10 :: string
  in_amount_value :: u64
  in_amount_unit :: string
  in_payment_id :: string
  in_expiry_height :: u64

fun expiry_height :: "ExpiresAt \<Rightarrow> u64" where
  "expiry_height (BlockHeight height) = ucast height"
| "expiry_height (Slot scalar) = scalar"
| "expiry_height (BlockNumber scalar) = scalar"
| "expiry_height (TimestampSeconds scalar) = scalar"
| "expiry_height ExpiresOther = 0"

definition recompute_intent_hash ::
  "(IntentInput \<Rightarrow> string + string) \<Rightarrow> PaymentAuthorization \<Rightarrow> string \<Rightarrow> u64 \<Rightarrow> string + string" where
  "recompute_intent_hash hasher auth recipient_caip10 amount_value =
     hasher \<lparr>in_chain_namespace = ci_namespace (pa_chain auth), in_chain_reference = ci_reference (pa_chain auth),
       in_recipient_caip10 = recipient_caip10, in_amount_value = amount_value, in_amount_unit = am_unit (pa_amount auth),
       in_payment_id = pa_payment_id auth, in_expiry_height = expiry_height (pa_expires_at auth)\<rparr>"

definition intent_matches ::
  "(IntentInput \<Rightarrow> string + string) \<Rightarrow> PaymentAuthorization \<Rightarrow> string \<Rightarrow> u64 \<Rightarrow> string + bool" where
  "intent_matches hasher auth recipient_caip10 amount_value =
    (case recompute_intent_hash hasher auth recipient_caip10 amount_value of
       Inl e \<Rightarrow> Err e | Inr wire \<Rightarrow> Ok (wire = pa_intent_hash auth))"

subsection \<open>Signing policy (signing\_policy.rs)\<close>

record SigningPolicy =
  sp_network :: ZallyNetwork
  sp_max_amount_zat :: u64
  sp_recipient_allowlist :: "string list option"
  sp_audience :: string

record SigningPolicyBuilder =
  sb_network :: "ZallyNetwork option"
  sb_max_amount_zat :: "u64 option"
  sb_recipient_allowlist :: "string list option"
  sb_audience :: "string option"

datatype SigningPolicyError = MissingField string | InvalidAudienceUri string

definition policy_build :: "(string \<Rightarrow> bool) \<Rightarrow> SigningPolicyBuilder \<Rightarrow> SigningPolicyError + SigningPolicy" where
  "policy_build url_parses b =
    (case sb_network b of
       None \<Rightarrow> Err (MissingField ''network'')
     | Some network \<Rightarrow>
    (case sb_max_amount_zat b of
       None \<Rightarrow> Err (MissingField ''max_amount_zat'')
     | Some max_amount_zat \<Rightarrow>
    (case sb_audience b of
       None \<Rightarrow> Err (MissingField ''audience'')
     | Some audience \<Rightarrow>
       if \<not> url_parses audience then Err (InvalidAudienceUri audience)
       else Ok \<lparr>sp_network = network, sp_max_amount_zat = max_amount_zat,
                sp_recipient_allowlist = sb_recipient_allowlist b, sp_audience = audience\<rparr>)))"

subsection \<open>What an accepted token and proof establish\<close>

lemma verify_access_token_Ok:
  assumes "verify_access_token A token jwks aud leeway = Ok claims"
  shows "\<exists>header kid jwk alg key. al_decode_header A token = Ok header \<and> jh_kid header = Some kid
    \<and> jwks_find jwks kid = Some jwk \<and> jwk_algorithm jwk = Ok alg \<and> jh_alg header = alg \<and> (alg = EdDSA \<or> alg = ES256)
    \<and> al_from_jwk A jwk = Ok key
    \<and> al_decode A token key \<lparr>va_algorithm = alg, va_leeway = leeway, va_audience = [aud], va_required = [''exp'', ''aud'']\<rparr>
        deserialize_aud = Ok claims"
proof -
  have "alg = EdDSA \<or> alg = ES256" if "jwk_algorithm jwk = Ok alg" for jwk alg
    using that by (auto simp: jwk_algorithm_def Let_def split: AlgorithmParameters.splits if_splits)
  then show ?thesis using assms
    by (auto simp: verify_access_token_def split: sum.splits option.splits if_splits)
qed

lemma zspend_dpop_Ok:
  assumes "zspend_verify_dpop_proof L decode_claims proof_jwt b now skew = Ok v"
  shows "\<exists>header x y key claims jwk. dl_decode_header L proof_jwt = Ok header \<and> jh_alg header = ES256
    \<and> jh_jwk header = Some jwk \<and> jwk_params jwk = EllipticCurve P256 x y
    \<and> compute_ec_jwk_thumbprint L ''P-256'' ''EC'' x y = db_bound_jkt b \<and> vf_jkt v = db_bound_jkt b
    \<and> dl_from_ec_components L x y = Ok key \<and> decode_claims proof_jwt key = Ok claims \<and> vf_jti v = dc_jti claims
    \<and> dc_htm claims = db_method b
    \<and> (\<exists>u. canonicalize_http_url L (dc_htu claims) = Ok u \<and> canonicalize_http_url L (db_request_url b) = Ok u)
    \<and> abs_drift_seconds (dc_iat claims) now \<le> skew
    \<and> dc_ath claims = dl_b64_encode L (dl_sha256 L (bytes_of (db_access_token b)))"
proof -
  have canon: "canonicalize_http_url L raw = Ok u" if "canonicalize_url L raw = Ok u" for raw u
    using that by (simp add: canonicalize_url_def split: sum.splits)
  show ?thesis using assms
    by (auto simp: zspend_verify_dpop_proof_def Let_def split: sum.splits option.splits if_splits AlgorithmParameters.splits
        dest!: canon)
qed

end
