(* ===== verification/Usage_Ledger.thy ===== *)
theory Usage_Ledger
  imports Store_Libsql Dpop
begin

text \<open>
  The wallet's single-use ledger of access-token ids (\<open>zspend-runtime/src/ledger.rs\<close>): reserve
  before signing, commit after, release on failure, over the libSQL connection of \<open>zpay-store\<close>.
  A statement outside a transaction has the connection's retry-once rule; the statements of the
  IMMEDIATE transaction of \<open>reserve\<close> have none, and a fault in it rolls it back.  The fault positions of
  \<open>reserve\<close> are 0 (begin), 1 (insert), 2 (select), 3 (update) and 4 (commit).  The JSON codec of the stored
  response is a parameter.  The contract is the locale \<open>single_use_ledger\<close>; the test-only backend is not
  modelled.
\<close>

definition PENDING_RESERVATION_TTL_MS :: i64 where "PENDING_RESERVATION_TTL_MS = 120000"
definition USAGE_SCHEMA_VERSION :: u32 where "USAGE_SCHEMA_VERSION = 1"

datatype 'r Reservation = ReservedFresh | ReservedCompleted 'r | IntentConflict | ReservedPending

datatype LedgerError =
    LedgerOpen string string
  | MissingAuthToken string
  | SchemaTooNew u32
  | LedgerStatement string
  | LedgerRowMalformed string

record UsageRow =
  ur_intent_hash :: string
  ur_state :: string
  ur_response_json :: "string option"
  ur_reserved_at_ms :: i64

type_synonym UsageTable = "(string, UsageRow) hashmap"

record 'r ResponseJson =
  rj_to_string :: "'r \<Rightarrow> string + string"
  rj_from_str :: "string \<Rightarrow> string + 'r"

definition now_ms :: "int \<Rightarrow> i64" where
  "now_ms elapsed = (if elapsed < 0 then 0 else if elapsed \<le> i64_max then elapsed else i64_max)"

definition classify_existing ::
  "'r ResponseJson \<Rightarrow> net \<Rightarrow> string \<Rightarrow> string \<Rightarrow> i64 \<Rightarrow> UsageRow \<Rightarrow> UsageTable
    \<Rightarrow> (LedgerError + 'r Reservation) \<times> UsageTable" where
  "classify_existing J net jti intent_hash now row t =
    (if ur_state row = ''completed'' then
       if ur_intent_hash row \<noteq> intent_hash then (Ok IntentConflict, t)
       else (case ur_response_json row of
               None \<Rightarrow> (Err (LedgerRowMalformed (''completed jti '' @ jti @ '' has no stored payload'')), t)
             | Some json \<Rightarrow>
               (case rj_from_str J json of
                  Inl err \<Rightarrow> (Err (LedgerRowMalformed (''stored payload for jti '' @ jti @ '' did not parse: '' @ err)), t)
                | Inr response \<Rightarrow> (Ok (ReservedCompleted response), t)))
     else if ur_intent_hash row \<noteq> intent_hash then (Ok IntentConflict, t)
     else if i64_saturating_sub now (ur_reserved_at_ms row) \<ge> PENDING_RESERVATION_TTL_MS then
       (case net 3 of
          Some err \<Rightarrow> (Err (LedgerStatement err), t)
        | None \<Rightarrow> (Ok ReservedFresh, hm_insert jti (row\<lparr>ur_reserved_at_ms := now\<rparr>) t))
     else (Ok ReservedPending, t))"

definition read_entry :: "net \<Rightarrow> string \<Rightarrow> UsageTable \<Rightarrow> LedgerError + UsageRow option" where
  "read_entry net jti t = (case net 2 of Some err \<Rightarrow> Err (LedgerStatement err) | None \<Rightarrow> Ok (hm_get t jti))"

definition reserve_libsql_at ::
  "'r ResponseJson \<Rightarrow> net \<Rightarrow> string \<Rightarrow> string \<Rightarrow> i64 \<Rightarrow> UsageTable \<Rightarrow> (LedgerError + 'r Reservation) \<times> UsageTable" where
  "reserve_libsql_at J net jti intent_hash now t =
    (case net 0 of Some err \<Rightarrow> (Err (LedgerStatement err), t) | None \<Rightarrow>
    (case net 1 of Some err \<Rightarrow> (Err (LedgerStatement err), t) | None \<Rightarrow>
     let inserted = (if hm_get t jti = None then 1 else 0 :: nat);
         t1 = (if hm_get t jti = None
               then hm_insert jti \<lparr>ur_intent_hash = intent_hash, ur_state = ''pending'', ur_response_json = None,
                                   ur_reserved_at_ms = now\<rparr> t
               else t) in
     if inserted = 1 then
       (case net 4 of Some err \<Rightarrow> (Err (LedgerStatement err), t) | None \<Rightarrow> (Ok ReservedFresh, t1))
     else
       (case read_entry net jti t1 of
          Inl e \<Rightarrow> (Err e, t)
        | Inr None \<Rightarrow> (Err (LedgerRowMalformed (''jti '' @ jti @ '' conflicted on insert but no row was found'')), t)
        | Inr (Some row) \<Rightarrow>
          (case classify_existing J net jti intent_hash now row t1 of
             (Inl e, _) \<Rightarrow> (Err e, t)
           | (Inr outcome, t2) \<Rightarrow>
             (case net 4 of Some err \<Rightarrow> (Err (LedgerStatement err), t) | None \<Rightarrow> (Ok outcome, t2))))))"

definition commit_row :: "string \<Rightarrow> string \<Rightarrow> i64 \<Rightarrow> UsageRow option \<Rightarrow> UsageRow" where
  "commit_row intent_hash json now existing =
    (case existing of
       None \<Rightarrow> \<lparr>ur_intent_hash = intent_hash, ur_state = ''completed'', ur_response_json = Some json, ur_reserved_at_ms = now\<rparr>
     | Some row \<Rightarrow> row\<lparr>ur_state := ''completed'', ur_intent_hash := intent_hash, ur_response_json := Some json\<rparr>)"

definition commit_libsql ::
  "'r ResponseJson \<Rightarrow> net \<Rightarrow> string \<Rightarrow> string \<Rightarrow> 'r \<Rightarrow> i64 \<Rightarrow> UsageTable \<Rightarrow> (LedgerError + unit) \<times> UsageTable" where
  "commit_libsql J net jti intent_hash response now t =
    (case rj_to_string J response of
       Inl err \<Rightarrow> (Err (LedgerStatement (''signed payload did not serialize: '' @ err)), t)
     | Inr json \<Rightarrow>
       (case execute net 0 (\<lambda>t. (Ok (), hm_insert jti (commit_row intent_hash json now (hm_get t jti)) t)) t of
          (Inl err, t') \<Rightarrow> (Err (LedgerStatement err), t') | (Inr _, t') \<Rightarrow> (Ok (), t')))"

definition release_libsql :: "net \<Rightarrow> string \<Rightarrow> UsageTable \<Rightarrow> (LedgerError + unit) \<times> UsageTable" where
  "release_libsql net jti t =
    (case execute net 0 (\<lambda>t. (Ok (), hm_retain (\<lambda>k row. \<not> (k = jti \<and> ur_state row = ''pending'')) t)) t of
       (Inl err, t') \<Rightarrow> (Err (LedgerStatement err), t') | (Inr _, t') \<Rightarrow> (Ok (), t'))"

definition usage_max_applied_version :: "net \<Rightarrow> int list \<Rightarrow> LedgerError + u32" where
  "usage_max_applied_version net versions =
    (case query net 2 (\<lambda>vs. foldr max vs 0) versions of
       Inl err \<Rightarrow> Err (LedgerStatement err)
     | Inr raw \<Rightarrow> (case i64_to_u32 raw of None \<Rightarrow> Err (LedgerRowMalformed ''migration version overflowed u32'') | Some v \<Rightarrow> Ok v))"

text \<open>The initial script creates the tables if missing and records version 1 once.\<close>

definition usage_run_migrations :: "net \<Rightarrow> int list \<Rightarrow> (LedgerError + unit) \<times> int list" where
  "usage_run_migrations net versions =
    (case execute net 0 (\<lambda>vs. (Ok (), if 1 \<in> set vs then vs else 1 # vs)) versions of
       (Inl err, vs) \<Rightarrow> (Err (LedgerStatement err), vs)
     | (Inr _, vs) \<Rightarrow>
       (case usage_max_applied_version net vs of
          Inl e \<Rightarrow> (Err e, vs)
        | Inr applied \<Rightarrow> if applied > USAGE_SCHEMA_VERSION then (Err (SchemaTooNew applied), vs) else (Ok (), vs)))"

definition usage_open ::
  "(StoreError \<Rightarrow> string) \<Rightarrow> net \<Rightarrow> string \<Rightarrow> string option \<Rightarrow> int list \<Rightarrow> (LedgerError + StoreUrl) \<times> int list" where
  "usage_open err_text net url auth_token versions =
    (if take 9 url = ''libsql://'' \<and> auth_token = None then (Err (MissingAuthToken url), versions)
     else case build_connection url auth_token of
       Inl err \<Rightarrow> (Err (LedgerOpen url (err_text err)), versions)
     | Inr connection \<Rightarrow>
       (case usage_run_migrations net versions of
          (Inl e, vs) \<Rightarrow> (Err e, vs) | (Inr _, vs) \<Rightarrow> (Ok connection, vs)))"

subsection \<open>The contract\<close>

datatype 'r usage = Pend string i64 | Used string 'r

fun reserved :: "string \<Rightarrow> i64 \<Rightarrow> 'r usage option \<Rightarrow> 'r Reservation \<times> 'r usage option" where
  "reserved ih now None = (ReservedFresh, Some (Pend ih now))"
| "reserved ih now (Some (Used ih' r)) = (if ih' = ih then ReservedCompleted r else IntentConflict, Some (Used ih' r))"
| "reserved ih now (Some (Pend ih' at)) =
    (if ih' \<noteq> ih then (IntentConflict, Some (Pend ih' at))
     else if i64_saturating_sub now at \<ge> PENDING_RESERVATION_TTL_MS then (ReservedFresh, Some (Pend ih' now))
     else (ReservedPending, Some (Pend ih' at)))"

fun released :: "'r usage option \<Rightarrow> 'r usage option" where
  "released (Some (Pend ih at)) = None"
| "released u = u"

locale single_use_ledger =
  fixes reserve :: "net \<Rightarrow> string \<Rightarrow> string \<Rightarrow> i64 \<Rightarrow> 's \<Rightarrow> (LedgerError + 'r Reservation) \<times> 's"
    and commit :: "net \<Rightarrow> string \<Rightarrow> string \<Rightarrow> 'r \<Rightarrow> i64 \<Rightarrow> 's \<Rightarrow> (LedgerError + unit) \<times> 's"
    and release :: "net \<Rightarrow> string \<Rightarrow> 's \<Rightarrow> (LedgerError + unit) \<times> 's"
    and wf :: "'s \<Rightarrow> bool"
    and usage_of :: "'s \<Rightarrow> string \<Rightarrow> 'r usage option"
    and storable :: "'r \<Rightarrow> bool"
  assumes reserve_ok: "wf s \<Longrightarrow> reserve net jti ih now s = (Inr res, s') \<Longrightarrow>
        wf s' \<and> res = fst (reserved ih now (usage_of s jti))
        \<and> usage_of s' = (usage_of s)(jti := snd (reserved ih now (usage_of s jti)))"
    and reserve_err: "reserve net jti ih now s = (Inl e, s') \<Longrightarrow> s' = s"
    and commit_ok: "wf s \<Longrightarrow> storable r \<Longrightarrow> commit net jti ih r now s = (Inr u, s') \<Longrightarrow>
        wf s' \<and> usage_of s' = (usage_of s)(jti \<mapsto> Used ih r)"
    and commit_err: "commit net jti ih r now s = (Inl e, s') \<Longrightarrow> s' = s"
    and release_ok: "wf s \<Longrightarrow> release net jti s = (Inr u, s') \<Longrightarrow>
        wf s' \<and> usage_of s' = (usage_of s)(jti := released (usage_of s jti))"
    and release_err: "release net jti s = (Inl e, s') \<Longrightarrow> s' = s"
begin

text \<open>A sequence of ledger calls by any number of requests, each under its own faults.\<close>

lemma reserve_step:
  assumes "wf s" "reserve net jti ih now s = (x, s')"
  shows "wf s'" "usage_of s' = usage_of s \<or> usage_of s' = (usage_of s)(jti := snd (reserved ih now (usage_of s jti)))"
  using assms reserve_ok [OF assms(1), of net jti ih now _ s'] reserve_err [of net jti ih now s _ s'] by (cases x; auto)+

lemma release_step:
  assumes "wf s" "release net jti s = (x, s')"
  shows "wf s'" "usage_of s' = usage_of s \<or> usage_of s' = (usage_of s)(jti := released (usage_of s jti))"
  using assms release_ok [OF assms(1), of net jti _ s'] release_err [of net jti s _ s'] by (cases x; auto)+

lemma commit_step:
  assumes "wf s" "storable r" "commit net jti ih r now s = (x, s')"
  shows "wf s'" "usage_of s' = usage_of s \<or> usage_of s' = (usage_of s)(jti \<mapsto> Used ih r)"
  using assms commit_ok [OF assms(1,2), of net jti ih now _ s'] commit_err [of net jti ih r now s _ s'] by (cases x; auto)+

end

datatype 'r LedgerOp =
    OpReserve net string string i64
  | OpCommit net string string 'r i64
  | OpRelease net string

fun op_jti :: "'r LedgerOp \<Rightarrow> string" where
  "op_jti (OpReserve net jti ih now) = jti"
| "op_jti (OpCommit net jti ih r now) = jti"
| "op_jti (OpRelease net jti) = jti"

fun is_commit :: "'r LedgerOp \<Rightarrow> bool" where
  "is_commit (OpCommit net jti ih r now) = True"
| "is_commit _ = False"

fun is_release :: "'r LedgerOp \<Rightarrow> bool" where
  "is_release (OpRelease net jti) = True"
| "is_release _ = False"

fun ledger_op :: "'r ResponseJson \<Rightarrow> 'r LedgerOp \<Rightarrow> UsageTable \<Rightarrow> UsageTable" where
  "ledger_op J (OpReserve net jti ih now) t = snd (reserve_libsql_at J net jti ih now t)"
| "ledger_op J (OpCommit net jti ih r now) t = snd (commit_libsql J net jti ih r now t)"
| "ledger_op J (OpRelease net jti) t = snd (release_libsql net jti t)"

subsection \<open>The libSQL ledger meets the contract\<close>

definition usage_row_ok :: "'r ResponseJson \<Rightarrow> UsageRow \<Rightarrow> bool" where
  "usage_row_ok J row \<longleftrightarrow> ur_state row = ''pending'' \<or>
     ur_state row = ''completed'' \<and> (\<exists>json r. ur_response_json row = Some json \<and> rj_from_str J json = Inr r)"

definition usage_wf :: "'r ResponseJson \<Rightarrow> UsageTable \<Rightarrow> bool" where
  "usage_wf J t \<longleftrightarrow> hm_wf t \<and> (\<forall>jti row. hm_get t jti = Some row \<longrightarrow> usage_row_ok J row)"

definition row_usage :: "'r ResponseJson \<Rightarrow> UsageRow \<Rightarrow> 'r usage" where
  "row_usage J row =
    (if ur_state row = ''completed''
     then Used (ur_intent_hash row) (projr (rj_from_str J (the (ur_response_json row))))
     else Pend (ur_intent_hash row) (ur_reserved_at_ms row))"

definition table_usage :: "'r ResponseJson \<Rightarrow> UsageTable \<Rightarrow> string \<Rightarrow> 'r usage option" where
  "table_usage J t jti = map_option (row_usage J) (hm_get t jti)"

definition storable_json :: "'r ResponseJson \<Rightarrow> 'r \<Rightarrow> bool" where
  "storable_json J r \<longleftrightarrow> (\<forall>json. rj_to_string J r = Inr json \<longrightarrow> rj_from_str J json = Inr r)"

lemma usage_wf_insert: "usage_wf J t \<Longrightarrow> usage_row_ok J row \<Longrightarrow> usage_wf J (hm_insert jti row t)"
  by (auto simp: usage_wf_def hm_simps)

lemma table_usage_insert: "table_usage J (hm_insert jti row t) = (table_usage J t)(jti \<mapsto> row_usage J row)"
  by (auto simp: table_usage_def hm_simps fun_eq_iff)

lemma reserve_libsql_fresh:
  assumes "hm_get t jti = None" "reserve_libsql_at J net jti ih now t = (Inr res, t')"
  shows "res = ReservedFresh \<and> t' = hm_insert jti \<lparr>ur_intent_hash = ih, ur_state = ''pending'', ur_response_json = None,
           ur_reserved_at_ms = now\<rparr> t"
  using assms by (simp add: reserve_libsql_at_def Let_def split: option.splits)

lemma reserve_libsql_existing:
  assumes "hm_get t jti = Some row" "reserve_libsql_at J net jti ih now t = (Inr res, t')"
  shows "classify_existing J net jti ih now row t = (Inr res, t')"
  using assms by (auto simp: reserve_libsql_at_def read_entry_def Let_def split: option.splits sum.splits prod.splits)

lemma classify_existing_usage:
  assumes "usage_wf J t" "hm_get t jti = Some row" "classify_existing J net jti ih now row t = (Inr res, t')"
  shows "usage_wf J t' \<and> res = fst (reserved ih now (table_usage J t jti))
    \<and> table_usage J t' = (table_usage J t)(jti := snd (reserved ih now (table_usage J t jti)))"
proof -
  have ok: "usage_row_ok J row" using assms(1,2) by (simp add: usage_wf_def)
  have here: "table_usage J t jti = Some (row_usage J row)" by (simp add: table_usage_def assms(2))
  show ?thesis
  proof (cases "ur_state row = ''completed''")
    case True
    then show ?thesis using ok assms(1,3) here
      by (auto simp: usage_row_ok_def row_usage_def classify_existing_def split: if_splits)
  next
    case False
    then have pend: "row_usage J row = Pend (ur_intent_hash row) (ur_reserved_at_ms row)" by (simp add: row_usage_def)
    show ?thesis
    proof (cases "ur_intent_hash row = ih \<and> i64_saturating_sub now (ur_reserved_at_ms row) \<ge> PENDING_RESERVATION_TTL_MS")
      case True
      then have "res = ReservedFresh" "t' = hm_insert jti (row\<lparr>ur_reserved_at_ms := now\<rparr>) t"
        using False assms(3) by (auto simp: classify_existing_def split: option.splits)
      moreover have "usage_row_ok J (row\<lparr>ur_reserved_at_ms := now\<rparr>)" using ok by (simp add: usage_row_ok_def)
      moreover have "row_usage J (row\<lparr>ur_reserved_at_ms := now\<rparr>) = Pend ih now" using False True by (simp add: row_usage_def)
      ultimately show ?thesis using True here pend usage_wf_insert [OF assms(1)] by (simp add: table_usage_insert)
    next
      case notexp: False
      then have "t' = t" "res = fst (reserved ih now (Some (row_usage J row)))" "snd (reserved ih now (Some (row_usage J row))) = Some (row_usage J row)"
        using False assms(3) by (auto simp: classify_existing_def pend split: if_splits)
      then show ?thesis using assms(1) here by (simp add: fun_upd_idem)
    qed
  qed
qed

interpretation usage: single_use_ledger "reserve_libsql_at J" "commit_libsql J" release_libsql "usage_wf J" "table_usage J"
  "storable_json J" for J :: "'r ResponseJson"
proof (unfold_locales, goal_cases)
  case (1 s net jti ih now res s')
  show ?case
  proof (cases "hm_get s jti")
    case None
    then have "table_usage J s jti = None" by (simp add: table_usage_def)
    then show ?thesis using reserve_libsql_fresh [OF None 1(2)] usage_wf_insert [OF 1(1)]
      by (simp add: table_usage_insert usage_row_ok_def row_usage_def)
  next
    case (Some row)
    then show ?thesis using classify_existing_usage [OF 1(1) Some] reserve_libsql_existing [OF Some 1(2)] by simp
  qed
next
  case (2 net jti ih now s e s')
  then show ?case
    by (auto simp: reserve_libsql_at_def Let_def split: option.splits sum.splits prod.splits if_splits)
next
  case (3 s r net jti ih now u s')
  obtain json where j: "rj_to_string J r = Inr json"
    using 3(3) by (cases "rj_to_string J r") (simp_all add: commit_libsql_def)
  then have parse: "rj_from_str J json = Inr r" using 3(2) by (simp add: storable_json_def)
  let ?stmt = "\<lambda>t. (Ok () :: string + unit, hm_insert jti (commit_row ih json now (hm_get t jti)) t)"
  have "execute net 0 ?stmt s = (Ok (), s')"
    using 3(3) j by (simp add: commit_libsql_def split: prod.splits sum.splits)
  then have "s' = hm_insert jti (commit_row ih json now (hm_get s jti)) s"
    by (auto simp: execute_def attempt_def split: option.splits if_splits)
  moreover have "usage_row_ok J (commit_row ih json now (hm_get s jti))"
      "row_usage J (commit_row ih json now (hm_get s jti)) = Used ih r"
    using parse by (simp_all add: commit_row_def usage_row_ok_def row_usage_def split: option.splits)
  ultimately show ?case using usage_wf_insert [OF 3(1)] by (simp add: table_usage_insert)
next
  case (4 net jti ih r now s e s')
  then show ?case
    by (auto simp: commit_libsql_def execute_def attempt_def split: option.splits sum.splits prod.splits if_splits)
next
  case (5 s net jti u s')
  have wf: "hm_wf s" using 5(1) by (simp add: usage_wf_def)
  have "s' = hm_retain (\<lambda>k row. \<not> (k = jti \<and> ur_state row = ''pending'')) s"
    using 5(2) by (auto simp: release_libsql_def execute_def attempt_def split: option.splits sum.splits prod.splits if_splits)
  then show ?case using 5(1) wf
    by (auto simp: usage_wf_def table_usage_def hm_simps row_usage_def usage_row_ok_def fun_eq_iff split: option.splits)
next
  case (6 net jti s e s')
  then show ?case
    by (auto simp: release_libsql_def execute_def attempt_def split: option.splits sum.splits prod.splits if_splits)
qed

subsection \<open>Sequences of calls\<close>

text \<open>The calls other requests may make while an entry is watched: any reserve of a given bound, any release or
  commit of another id, and commits of what the codec can store.\<close>

fun storable_op :: "'r ResponseJson \<Rightarrow> 'r LedgerOp \<Rightarrow> bool" where
  "storable_op J (OpCommit net jti ih r now) = storable_json J r"
| "storable_op J _ = True"

fun reserves_within :: "string \<Rightarrow> i64 \<Rightarrow> 'r LedgerOp \<Rightarrow> bool" where
  "reserves_within jti at (OpReserve net jti' ih now) =
     (jti' = jti \<longrightarrow> i64_saturating_sub now at < PENDING_RESERVATION_TTL_MS)"
| "reserves_within jti at _ = True"

lemma ledger_op_step:
  assumes "usage_wf J t" "storable_op J op"
  shows "usage_wf J (ledger_op J op t)"
    and "q \<noteq> op_jti op \<Longrightarrow> table_usage J (ledger_op J op t) q = table_usage J t q"
    and "table_usage J t q = Some (Used ih r) \<Longrightarrow> q = op_jti op \<Longrightarrow> \<not> is_commit op \<Longrightarrow>
          table_usage J (ledger_op J op t) q = Some (Used ih r)"
    and "table_usage J t q = Some (Pend ih at) \<Longrightarrow> q = op_jti op \<Longrightarrow> \<not> is_commit op \<Longrightarrow> \<not> is_release op \<Longrightarrow>
          reserves_within q at op \<Longrightarrow> table_usage J (ledger_op J op t) q = Some (Pend ih at)"
proof -
  have all: "usage_wf J (ledger_op J op t)
    \<and> (q \<noteq> op_jti op \<longrightarrow> table_usage J (ledger_op J op t) q = table_usage J t q)
    \<and> (table_usage J t q = Some (Used ih r) \<longrightarrow> q = op_jti op \<longrightarrow> \<not> is_commit op \<longrightarrow>
          table_usage J (ledger_op J op t) q = Some (Used ih r))
    \<and> (table_usage J t q = Some (Pend ih at) \<longrightarrow> q = op_jti op \<longrightarrow> \<not> is_commit op \<longrightarrow> \<not> is_release op \<longrightarrow>
          reserves_within q at op \<longrightarrow> table_usage J (ledger_op J op t) q = Some (Pend ih at))"
  proof (cases op)
    case (OpReserve net jti ih' now)
    then show ?thesis
      using usage.reserve_step [OF assms(1), of net jti ih' now _ "ledger_op J op t"]
      by (cases "reserve_libsql_at J net jti ih' now t") auto
  next
    case (OpCommit net jti ih' r' now)
    then show ?thesis
      using usage.commit_step [OF assms(1), of r' net jti ih' now _ "ledger_op J op t"] assms(2)
      by (cases "commit_libsql J net jti ih' r' now t") auto
  next
    case (OpRelease net jti)
    then show ?thesis
      using usage.release_step [OF assms(1), of net jti _ "ledger_op J op t"]
      by (cases "release_libsql net jti t") auto
  qed
  show "usage_wf J (ledger_op J op t)" using all by blast
  show "q \<noteq> op_jti op \<Longrightarrow> table_usage J (ledger_op J op t) q = table_usage J t q" using all by blast
  show "table_usage J t q = Some (Used ih r) \<Longrightarrow> q = op_jti op \<Longrightarrow> \<not> is_commit op \<Longrightarrow>
          table_usage J (ledger_op J op t) q = Some (Used ih r)" using all by blast
  show "table_usage J t q = Some (Pend ih at) \<Longrightarrow> q = op_jti op \<Longrightarrow> \<not> is_commit op \<Longrightarrow> \<not> is_release op \<Longrightarrow>
          reserves_within q at op \<Longrightarrow> table_usage J (ledger_op J op t) q = Some (Pend ih at)" using all by blast
qed

lemma used_survives:
  assumes "usage_wf J t" "table_usage J t jti = Some (Used ih r)"
    and "list_all (\<lambda>op. storable_op J op \<and> \<not> (is_commit op \<and> op_jti op = jti)) ops"
  shows "usage_wf J (fold (ledger_op J) ops t) \<and> table_usage J (fold (ledger_op J) ops t) jti = Some (Used ih r)"
  using assms
proof (induction ops arbitrary: t)
  case (Cons op ops)
  have "storable_op J op" using Cons.prems(3) by simp
  note step = ledger_op_step [OF Cons.prems(1) this]
  have "table_usage J (ledger_op J op t) jti = Some (Used ih r)"
    using step(2) [of jti] step(3) [OF Cons.prems(2)] Cons.prems(2,3) by (cases "jti = op_jti op") auto
  then show ?case using Cons.IH [OF step(1)] Cons.prems(3) by simp
qed simp

lemma pending_survives:
  assumes "usage_wf J t" "table_usage J t jti = Some (Pend ih at)"
    and "list_all (\<lambda>op. storable_op J op \<and> reserves_within jti at op
           \<and> \<not> ((is_commit op \<or> is_release op) \<and> op_jti op = jti)) ops"
  shows "usage_wf J (fold (ledger_op J) ops t) \<and> table_usage J (fold (ledger_op J) ops t) jti = Some (Pend ih at)"
  using assms
proof (induction ops arbitrary: t)
  case (Cons op ops)
  have "storable_op J op" using Cons.prems(3) by simp
  note step = ledger_op_step [OF Cons.prems(1) this]
  have "table_usage J (ledger_op J op t) jti = Some (Pend ih at)"
    using step(2) [of jti] step(4) [OF Cons.prems(2)] Cons.prems(2,3) by (cases "jti = op_jti op") auto
  then show ?case using Cons.IH [OF step(1)] Cons.prems(3) by simp
qed simp

subsection \<open>Properties\<close>

definition ex_response_json :: "string ResponseJson" where
  "ex_response_json = \<lparr>rj_to_string = (\<lambda>r. Ok (CHR ''j'' # r)), rj_from_str = (\<lambda>j. Ok (tl j))\<rparr>"

text \<open>A committed token is never signed again: after the signed response of a token id was committed, whatever
  reserves and releases of any id and commits of other ids follow, with whatever faults, a reserve of that id
  never says fresh: with the same intent it returns exactly the committed response, with another intent it is
  refused, and it may fail; the record stays.\<close>

theorem committed_never_resigned:
  assumes "usage_wf J t" "storable_json J r" "commit_libsql J net jti ih r now t = (Ok (), t1)"
    and "list_all (\<lambda>op. storable_op J op \<and> \<not> (is_commit op \<and> op_jti op = jti)) ops"
    and "reserve_libsql_at J net' jti ih' now' (fold (ledger_op J) ops t1) = (x, t2)"
  shows "((\<exists>e. x = Err e) \<or> x = Ok (if ih' = ih then ReservedCompleted r else IntentConflict))
    \<and> table_usage J t2 jti = Some (Used ih r)"
proof -
  have "usage_wf J t1" "table_usage J t1 jti = Some (Used ih r)"
    using usage.commit_ok [OF assms(1-3)] by simp_all
  from used_survives [OF this assms(4)]
  have wf: "usage_wf J (fold (ledger_op J) ops t1)" and used: "table_usage J (fold (ledger_op J) ops t1) jti = Some (Used ih r)"
    by simp_all
  show ?thesis
  proof (cases x)
    case (Inl e)
    then show ?thesis using usage.reserve_err assms(5) used by blast
  next
    case (Inr res)
    then show ?thesis using usage.reserve_ok [OF wf, of net' jti ih' now' res t2] assms(5) used by simp
  qed
qed

theorem committed_never_resigned_witness:
  "reserve_libsql_at ex_response_json (\<lambda>_. None) ''j1'' ''h'' 500000
     (fold (ledger_op ex_response_json) [OpRelease (\<lambda>_. None) ''j1'']
       (snd (commit_libsql ex_response_json (\<lambda>_. None) ''j1'' ''h'' ''signed'' 7 []))) \<noteq>
   (Ok ReservedFresh, [])"
proof -
  let ?J = "ex_response_json"
  have wf: "usage_wf ?J []" by (simp add: usage_wf_def)
  have st: "storable_json ?J ''signed''" by (simp add: storable_json_def ex_response_json_def)
  obtain t1 where c: "commit_libsql ?J (\<lambda>_. None) ''j1'' ''h'' ''signed'' 7 [] = (Ok (), t1)"
    by (simp add: commit_libsql_def ex_response_json_def execute_def attempt_def)
  obtain x t2 where r: "reserve_libsql_at ?J (\<lambda>_. None) ''j1'' ''h'' 500000 (fold (ledger_op ?J) [OpRelease (\<lambda>_. None) ''j1''] t1) = (x, t2)"
    by fastforce
  from committed_never_resigned [OF wf st c _ r] show ?thesis using c r by auto
qed

text \<open>[C25] A reservation is exclusive for its two minutes: after a reserve said fresh, and until that id is
  released or committed, every reserve of the id within the pending window, interleaved with any other
  traffic and faults, is told to wait, is refused for a different intent, or fails; it is never fresh.\<close>

theorem reservation_exclusive:
  assumes "usage_wf J t" "table_usage J t jti = None"
    and "reserve_libsql_at J net jti ih at t = (Ok ReservedFresh, t1)"
    and "list_all (\<lambda>op. storable_op J op \<and> reserves_within jti at op
           \<and> \<not> ((is_commit op \<or> is_release op) \<and> op_jti op = jti)) ops"
    and "i64_saturating_sub now at < 120000"
    and "reserve_libsql_at J net' jti ih' now (fold (ledger_op J) ops t1) = (x, t2)"
  shows "(\<exists>e. x = Err e) \<or> x = Ok (if ih' = ih then ReservedPending else IntentConflict)"
proof -
  have "usage_wf J t1" "table_usage J t1 jti = Some (Pend ih at)"
    using usage.reserve_ok [OF assms(1,3)] assms(2) by simp_all
  from pending_survives [OF this assms(4)]
  have wf: "usage_wf J (fold (ledger_op J) ops t1)" and pend: "table_usage J (fold (ledger_op J) ops t1) jti = Some (Pend ih at)"
    by simp_all
  show ?thesis
  proof (cases x)
    case (Inr res)
    then show ?thesis using usage.reserve_ok [OF wf, of net' jti ih' now res t2] assms(5,6) pend
      by (simp add: PENDING_RESERVATION_TTL_MS_def)
  qed simp
qed

theorem reservation_exclusive_witness:
  "\<exists>t1 x t2. reserve_libsql_at ex_response_json (\<lambda>_. None) ''j1'' ''h'' 7 [] = (Ok ReservedFresh, t1)
    \<and> reserve_libsql_at ex_response_json (\<lambda>_. None) ''j1'' ''h'' 8 t1 = (x, t2) \<and> x \<noteq> Ok ReservedFresh"
proof -
  let ?J = "ex_response_json"
  have wf: "usage_wf ?J []" by (simp add: usage_wf_def)
  obtain t1 where r: "reserve_libsql_at ?J (\<lambda>_. None) ''j1'' ''h'' 7 [] = (Ok ReservedFresh, t1)"
    by (simp add: reserve_libsql_at_def)
  obtain x t2 where r2: "reserve_libsql_at ?J (\<lambda>_. None) ''j1'' ''h'' 8 t1 = (x, t2)" by fastforce
  have "(\<exists>e. x = Err e) \<or> x = Ok (if ''h'' = ''h'' then ReservedPending else IntentConflict)"
    by (rule reservation_exclusive [OF wf _ r, where ops = "[]" and now = 8])
      (use r2 in \<open>simp_all add: table_usage_def i64_saturating_sub_def i64_max_def i64_min_def\<close>)
  then have "x \<noteq> Ok ReservedFresh" by auto
  then show ?thesis using r r2 by blast
qed

end
