(* ===== verification/Revocation.thy ===== *)
theory Revocation
  imports Prelude
begin

text \<open>
  The access-token revocation cache of the wallet (\<open>zspend-runtime/src/revocation.rs\<close>): a
  delta-synced set of revoked token ids with a cursor and the time of the last complete refresh.
  The issuer is a parameter that answers the \<open>n\<close>-th request of a refresh; monotonic time and
  the staleness bound are natural numbers of nanoseconds, and a check reads it three times.
\<close>

definition REVOCATION_PAGE_LIMIT :: nat where "REVOCATION_PAGE_LIMIT = 500"
definition MAX_DELTA_PAGES :: nat where "MAX_DELTA_PAGES = 10000"

datatype RevocationOutcome = Live | Revoked | CacheStale

datatype RevocationRefreshError =
    RefreshRequest string
  | RefreshStatus nat
  | RefreshDecode string
  | NonAdvancing string

record RevocationPage =
  rv_next_since :: i64
  rv_revocations :: "string list"
  rv_truncated :: bool

record CacheState =
  cs_revoked :: "string list"
  cs_cursor :: i64
  cs_last_refresh :: "nat option"

record RevocationConfig =
  rg_issuer_url :: "string option"
  rg_bearer :: "string option"
  rg_max_staleness :: nat

text \<open>The HTTP client: the outcome of sending the \<open>n\<close>-th request for a URL with a bearer, as transport error
  or status and body.\<close>

type_synonym IssuerHttp = "nat \<Rightarrow> string \<Rightarrow> string option \<Rightarrow> string + nat \<times> (string + RevocationPage)"

definition revocation_new :: "string option \<Rightarrow> string option \<Rightarrow> nat \<Rightarrow> RevocationConfig \<times> CacheState" where
  "revocation_new issuer_url bearer max_staleness =
    (\<lparr>rg_issuer_url = issuer_url, rg_bearer = bearer, rg_max_staleness = max_staleness\<rparr>,
     \<lparr>cs_revoked = [], cs_cursor = 0, cs_last_refresh = None\<rparr>)"

definition revocation_disabled :: "RevocationConfig \<times> CacheState" where
  "revocation_disabled = revocation_new None None 0"

definition is_enabled :: "RevocationConfig \<Rightarrow> bool" where
  "is_enabled g \<longleftrightarrow> rg_issuer_url g \<noteq> None"

definition is_fresh :: "RevocationConfig \<Rightarrow> nat \<Rightarrow> CacheState \<Rightarrow> bool" where
  "is_fresh g now s = (case cs_last_refresh s of None \<Rightarrow> False | Some at \<Rightarrow> now - at < rg_max_staleness g)"

definition revocation_readiness :: "RevocationConfig \<Rightarrow> nat \<Rightarrow> CacheState \<Rightarrow> string" where
  "revocation_readiness g now s =
    (if \<not> is_enabled g then ''disabled'' else if is_fresh g now s then ''fresh'' else ''stale'')"

text \<open>Decimal rendering of a signed number.\<close>

definition int_str :: "i64 \<Rightarrow> string" where
  "int_str i = (if i < 0 then ''-'' @ dec_str (nat (- i)) else dec_str (nat i))"

definition fetch_page ::
  "IssuerHttp \<Rightarrow> RevocationConfig \<Rightarrow> string \<Rightarrow> nat \<Rightarrow> i64 \<Rightarrow> RevocationRefreshError + RevocationPage" where
  "fetch_page http g issuer_url n since =
    (let url = trim_end_matches CHR ''/'' issuer_url @ ''/api/auth/oauth2/revoked?since='' @ int_str since
           @ ''&limit='' @ dec_str REVOCATION_PAGE_LIMIT in
     case http n url (rg_bearer g) of
       Inl err \<Rightarrow> Err (RefreshRequest err)
     | Inr (status, body) \<Rightarrow>
       if \<not> (200 \<le> status \<and> status < 300) then Err (RefreshStatus status)
       else (case body of Inl err \<Rightarrow> Err (RefreshDecode err) | Inr page \<Rightarrow> Ok page))"

function drain_delta ::
  "(nat \<Rightarrow> i64 \<Rightarrow> RevocationRefreshError + RevocationPage) \<Rightarrow> i64 \<Rightarrow> string list \<Rightarrow> nat
    \<Rightarrow> RevocationRefreshError + i64 \<times> string list" where
  "drain_delta fetch cursor discovered pages =
    (case fetch pages cursor of
       Inl e \<Rightarrow> Err e
     | Inr page \<Rightarrow>
       let discovered' = discovered @ rv_revocations page in
       if \<not> rv_truncated page then Ok (rv_next_since page, discovered')
       else if rv_next_since page \<le> cursor
       then Err (NonAdvancing ''issuer returned truncated:true with a non-advancing next_since cursor'')
       else if pages + 1 \<ge> MAX_DELTA_PAGES
       then Err (NonAdvancing ''issuer exceeded the maximum truncated delta page count in one refresh'')
       else drain_delta fetch (rv_next_since page) discovered' (pages + 1))"
  by pat_completeness auto
termination by (relation "measure (\<lambda>(fetch, cursor, discovered, pages). MAX_DELTA_PAGES - pages)") auto

declare drain_delta.simps [simp del]

definition refresh ::
  "IssuerHttp \<Rightarrow> RevocationConfig \<Rightarrow> nat \<Rightarrow> CacheState \<Rightarrow> (RevocationRefreshError + unit) \<times> CacheState" where
  "refresh http g now s =
    (case rg_issuer_url g of
       None \<Rightarrow> (Ok (), s)
     | Some issuer_url \<Rightarrow>
       (case drain_delta (fetch_page http g issuer_url) (cs_cursor s) [] 0 of
          Inl e \<Rightarrow> (Err e, s)
        | Inr (cursor, discovered) \<Rightarrow>
          (Ok (), s\<lparr>cs_revoked := cs_revoked s @ discovered, cs_cursor := cursor, cs_last_refresh := Some now\<rparr>)))"

definition revocation_check ::
  "IssuerHttp \<Rightarrow> RevocationConfig \<Rightarrow> nat \<times> nat \<times> nat \<Rightarrow> string \<Rightarrow> CacheState \<Rightarrow> RevocationOutcome \<times> CacheState" where
  "revocation_check http g ts jti s =
    (case ts of (t1, t2, t3) \<Rightarrow>
     if rg_issuer_url g = None then (Live, s)
     else
       let s' = (if \<not> is_fresh g t1 s then snd (refresh http g t2 s) else s);
           fresh = is_fresh g t3 s';
           revoked = (jti \<in> set (cs_revoked s'))
       in (if revoked then Revoked else if fresh then Live else CacheStale, s'))"

subsection \<open>The drain\<close>

lemma drain_agree:
  assumes "\<And>n. n < MAX_DELTA_PAGES \<Longrightarrow> fetch n = fetch' n" "pages < MAX_DELTA_PAGES"
  shows "drain_delta fetch cursor disc pages = drain_delta fetch' cursor disc pages"
  using assms
proof (induction fetch cursor disc pages rule: drain_delta.induct)
  case (1 fetch cursor disc pages)
  show ?case
  proof (cases "fetch pages cursor")
    case (Inl e)
    then show ?thesis using 1(2,3) by (simp add: drain_delta.simps)
  next
    case (Inr page)
    have same: "fetch' pages cursor = Inr page" using 1(2,3) Inr by simp
    show ?thesis
    proof (cases "rv_truncated page \<and> cursor < rv_next_since page \<and> pages + 1 < MAX_DELTA_PAGES")
      case True
      have "drain_delta fetch (rv_next_since page) (disc @ rv_revocations page) (pages + 1) =
          drain_delta fetch' (rv_next_since page) (disc @ rv_revocations page) (pages + 1)"
        by (rule 1(1) [OF Inr refl]) (use True 1(2) in auto)
      then show ?thesis using Inr same by (subst (1 2) drain_delta.simps) (simp add: Let_def)
    next
      case False
      then show ?thesis using Inr same by (subst (1 2) drain_delta.simps) (auto simp: Let_def)
    qed
  qed
qed

lemma drain_keeps:
  "drain_delta fetch cursor disc pages = Ok (c, d) \<Longrightarrow> set disc \<subseteq> set d"
proof (induction fetch cursor disc pages rule: drain_delta.induct)
  case (1 fetch cursor disc pages)
  obtain page where p: "fetch pages cursor = Inr page"
    using 1(2) by (cases "fetch pages cursor") (simp_all add: drain_delta.simps)
  show ?case
  proof (cases "rv_truncated page")
    case False
    then show ?thesis using 1(2) p by (subst (asm) drain_delta.simps) auto
  next
    case True
    then have cont: "\<not> rv_next_since page \<le> cursor" "\<not> MAX_DELTA_PAGES \<le> pages + 1"
      "drain_delta fetch (rv_next_since page) (disc @ rv_revocations page) (pages + 1) = Ok (c, d)"
      using 1(2) p by (subst (asm) drain_delta.simps, auto simp: Let_def split: if_splits)+
    have "set (disc @ rv_revocations page) \<subseteq> set d"
      by (rule 1(1) [OF p refl _ cont(1,2)]) (use True cont(3) in auto)
    then show ?thesis by auto
  qed
qed

lemma refresh_grows: "set (cs_revoked s) \<subseteq> set (cs_revoked (snd (refresh http g now s)))"
  by (auto simp: refresh_def split: option.splits sum.splits prod.splits)

lemma check_grows: "set (cs_revoked s) \<subseteq> set (cs_revoked (snd (revocation_check http g ts jti s)))"
  using refresh_grows by (auto simp: revocation_check_def Let_def split: prod.splits)

text \<open>Checks of other requests, each with its own issuer answers, times and token.\<close>

type_synonym CheckCall = "IssuerHttp \<times> (nat \<times> nat \<times> nat) \<times> string"

definition after_checks :: "RevocationConfig \<Rightarrow> CheckCall list \<Rightarrow> CacheState \<Rightarrow> CacheState" where
  "after_checks g calls s = fold (\<lambda>(http, ts, jti) s. snd (revocation_check http g ts jti s)) calls s"

lemma after_checks_grows: "set (cs_revoked s) \<subseteq> set (cs_revoked (after_checks g calls s))"
proof (induction calls arbitrary: s)
  case (Cons c calls)
  obtain http ts jti where c: "c = (http, ts, jti)" by (cases c)
  show ?case using Cons [of "snd (revocation_check http g ts jti s)"] check_grows [of s http g ts jti]
    by (auto simp: after_checks_def c)
qed (simp add: after_checks_def)

subsection \<open>Properties\<close>

text \<open>[C26] Revocation is final and fails closed: with an issuer configured, a check says live only when the token is
  absent from the set and the last complete refresh is younger than the staleness bound; a token of the
  set is answered revoked, by this check and by every later one, whatever the issuer answers in between and
  however stale the cache is; and when the cache is stale and the refresh fails, the cache is unchanged
  and the answer is not live.\<close>

theorem revocation_fails_closed:
  assumes "is_enabled g" "revocation_check http g (t1, t2, t3) jti s = (out, s')"
  shows "(out = Live \<longrightarrow> jti \<notin> set (cs_revoked s') \<and> (\<exists>at. cs_last_refresh s' = Some at \<and> t3 - at < rg_max_staleness g))
    \<and> (jti \<in> set (cs_revoked s) \<longrightarrow> out = Revoked)
    \<and> (out = Revoked \<longrightarrow> fst (revocation_check http2 g ts jti (after_checks g calls s')) = Revoked)
    \<and> (\<not> is_fresh g t1 s \<longrightarrow> isl (fst (refresh http g t2 s)) \<longrightarrow> t1 \<le> t3 \<longrightarrow> s' = s \<and> out \<noteq> Live)"
proof -
  have on: "rg_issuer_url g \<noteq> None" using assms(1) by (simp add: is_enabled_def)
  define u where "u = (if \<not> is_fresh g t1 s then snd (refresh http g t2 s) else s)"
  have "revocation_check http g (t1, t2, t3) jti s =
      (if jti \<in> set (cs_revoked u) then Revoked else if is_fresh g t3 u then Live else CacheStale, u)"
    unfolding u_def revocation_check_def Let_def prod.case using on by (simp only: if_False)
  then have s': "s' = u"
    and out: "out = (if jti \<in> set (cs_revoked u) then Revoked else if is_fresh g t3 u then Live else CacheStale)"
    using assms(2) by (simp_all only: prod.inject)
  have grow: "set (cs_revoked s) \<subseteq> set (cs_revoked s')" using refresh_grows by (simp add: s' u_def)
  have later: "fst (revocation_check http2 g ts jti (after_checks g calls s')) = Revoked" if "jti \<in> set (cs_revoked s')"
  proof -
    have "jti \<in> set (cs_revoked (after_checks g calls s'))" using that after_checks_grows by blast
    moreover obtain u1 u2 u3 where "ts = (u1, u2, u3)" by (cases ts)
    ultimately show ?thesis using on refresh_grows [of "after_checks g calls s'" http2 g u2]
      by (auto simp: revocation_check_def Let_def)
  qed
  have "s' = s \<and> out \<noteq> Live" if "\<not> is_fresh g t1 s" "isl (fst (refresh http g t2 s))" "t1 \<le> t3"
  proof -
    have "snd (refresh http g t2 s) = s"
      using that(2) by (auto simp: refresh_def split: option.splits sum.splits prod.splits)
    moreover have "\<not> is_fresh g t3 s" using that(1,3) by (auto simp: is_fresh_def split: option.splits)
    ultimately show ?thesis using that(1) by (simp add: s' out u_def)
  qed
  then show ?thesis using out grow later s' by (auto simp: is_fresh_def split: if_splits option.splits)
qed

definition ex_revocation :: RevocationConfig where
  "ex_revocation = \<lparr>rg_issuer_url = Some ''https://issuer/'', rg_bearer = None, rg_max_staleness = 30000\<rparr>"

definition ex_issuer :: IssuerHttp where
  "ex_issuer n url bearer = (if n = 0 then Ok (200, Ok \<lparr>rv_next_since = 9, rv_revocations = [''bad''], rv_truncated = False\<rparr>)
     else Err ''unreachable'')"

theorem revocation_fails_closed_witness:
  "fst (revocation_check (\<lambda>_ _ _. Err ''down'') ex_revocation (90000, 90001, 90002) ''bad''
     (after_checks ex_revocation [] (snd (revocation_check ex_issuer ex_revocation (1, 2, 3) ''bad''
        \<lparr>cs_revoked = [], cs_cursor = 0, cs_last_refresh = None\<rparr>)))) = Revoked"
proof -
  let ?s = "\<lparr>cs_revoked = [], cs_cursor = 0, cs_last_refresh = None\<rparr>"
  obtain s' where r: "revocation_check ex_issuer ex_revocation (1, 2, 3) ''bad'' ?s = (Revoked, s')"
    by (simp add: revocation_check_def ex_revocation_def is_fresh_def refresh_def drain_delta.simps fetch_page_def
        ex_issuer_def Let_def)
  have "is_enabled ex_revocation" by (simp add: is_enabled_def ex_revocation_def)
  from revocation_fails_closed [OF this r] show ?thesis using r by simp
qed

definition ex_revocation_cache :: CacheState where
  "ex_revocation_cache = \<lparr>cs_revoked = [], cs_cursor = 0, cs_last_refresh = None\<rparr>"

text \<open>[C28] A refresh always ends and makes at most ten thousand requests: whatever the issuer answers, also when it
  announces more pages forever, the outcome is determined by its first ten thousand answers.\<close>

theorem refresh_bounded:
  assumes "\<And>n. n < 10000 \<Longrightarrow> http n = http' n"
  shows "refresh http g now s = refresh http' g now s"
proof -
  have "drain_delta (fetch_page http g u) c [] 0 = drain_delta (fetch_page http' g u) c [] 0" for u c
    by (rule drain_agree) (use assms in \<open>auto simp: fetch_page_def MAX_DELTA_PAGES_def fun_eq_iff\<close>)
  then show ?thesis by (simp add: refresh_def split: option.splits)
qed

theorem refresh_bounded_witness:
  "refresh (\<lambda>n url b. Ok (200, Ok \<lparr>rv_next_since = int n + 1, rv_revocations = [], rv_truncated = True\<rparr>)) ex_revocation 7 ex_revocation_cache =
   refresh (\<lambda>n url b. if n < 10000 then Ok (200, Ok \<lparr>rv_next_since = int n + 1, rv_revocations = [], rv_truncated = True\<rparr>)
      else Err ''unreachable'') ex_revocation 7 ex_revocation_cache"
  by (rule refresh_bounded) simp

end
