(* ===== verification/Sign.thy ===== *)
theory Sign
  imports Zspend_Core Usage_Ledger Revocation Http
begin

text \<open>
  The signing endpoint of the wallet service (\<open>zspend-runtime/src/main.rs\<close>) with its capturing
  submitter (\<open>capture_submitter.rs\<close>): the trust boundary, the revocation and freshness gates, the
  single-use reservation, the wallet's propose, prove, sign and extract steps, and the answers.

  The wallet library is the record \<open>WalletLib\<close> over a wallet state of any type, each call an error or a
  result and a new state; extraction is given the submitter and threads its buffer.  ZIP-321 parsing,
  transaction ids, the intent hasher, the JWT and DPoP libraries, and error and \<open>Debug\<close> texts of library types are
  parameters (\<open>SignLib\<close>).  What a request reads from its surroundings -- wall and monotonic clocks, the issuer's
  answers, the faults of its three ledger calls -- is the record \<open>SignContext\<close>.  Metrics and logs are not modelled.
\<close>

definition SIGNED_PAYLOAD_FORMAT_WIRE_LITERAL :: string where
  "SIGNED_PAYLOAD_FORMAT_WIRE_LITERAL = ''pczt-v2-extractable''"

definition DPOP_REPLAY_WINDOW_SECONDS :: nat where "DPOP_REPLAY_WINDOW_SECONDS = 300"
definition DEFAULT_REVOCATION_MAX_STALENESS_SECONDS :: nat where "DEFAULT_REVOCATION_MAX_STALENESS_SECONDS = 30"
definition DEFAULT_WALLET_SYNC_RETRY_SECONDS :: nat where "DEFAULT_WALLET_SYNC_RETRY_SECONDS = 5"

subsection \<open>Wire types\<close>

datatype WireNetwork = WireMainnet | WireTestnet | WireRegtest

fun to_zally :: "WireNetwork \<Rightarrow> ZallyNetwork" where
  "to_zally WireMainnet = ZallyMainnet"
| "to_zally WireTestnet = ZallyTestnet"
| "to_zally WireRegtest = ZallyRegtest"

fun from_zally :: "ZallyNetwork \<Rightarrow> WireNetwork" where
  "from_zally ZallyMainnet = WireMainnet"
| "from_zally ZallyRegtest = WireRegtest"
| "from_zally ZallyTestnet = WireTestnet"
| "from_zally (ZallyOther _) = WireTestnet"

record WirePaymentRequest =
  wq_scheme :: string
  wq_value :: string

record SignPaymentRequest =
  sq_payment_request :: WirePaymentRequest
  sq_network :: WireNetwork
  sq_payment_id :: string
  sq_target_expiry_height :: u32

record AmountWire =
  aw_currency :: string
  aw_value :: string
  aw_unit :: string

datatype ExpiresAtWire = WireBlockHeight u32

record SignedPayloadWire =
  sw_format :: string
  sw_bytes :: string
  sw_tx_id :: string
  sw_fee :: AmountWire
  sw_expires_at :: ExpiresAtWire
  sw_metadata :: Json

record SignPaymentResponse =
  sr_signed_payload :: SignedPayloadWire

subsection \<open>Problem responses\<close>

record ProblemResponse =
  pr_status :: nat
  pr_body :: ProblemDetail

fun status_for_kind :: "ProblemKind \<Rightarrow> nat" where
  "status_for_kind PaymentRequestInvalid = 400"
| "status_for_kind DpopProofInvalid = 401"
| "status_for_kind AccessTokenInvalid = 401"
| "status_for_kind TokenRevoked = 401"
| "status_for_kind IntentMismatch = 403"
| "status_for_kind ProblemKind.RecipientMismatch = 403"
| "status_for_kind AmountExceeded = 403"
| "status_for_kind AudienceMismatch = 403"
| "status_for_kind TokenAlreadyConsumed = 409"
| "status_for_kind TargetExpiryStale = 409"
| "status_for_kind AuthorizationExpired = 410"
| "status_for_kind InsufficientFunds = 422"
| "status_for_kind RarTooManyEntries = 422"
| "status_for_kind SeedUnavailable = 503"
| "status_for_kind ChainUnreachable = 503"
| "status_for_kind WalletUnavailable = 503"
| "status_for_kind RevocationCacheStale = 503"
| "status_for_kind NotReady = 503"
| "status_for_kind TargetExpiryMismatchInternal = 500"

definition spend_problem_response :: "ProblemDetail \<Rightarrow> ProblemResponse" where
  "spend_problem_response body = \<lparr>pr_status = status_for_kind (pd_kind body), pr_body = body\<rparr>"

definition bad_request :: "ProblemDetail \<Rightarrow> ProblemResponse" where
  "bad_request body = \<lparr>pr_status = 400, pr_body = body\<rparr>"

definition server_error :: "ProblemDetail \<Rightarrow> ProblemResponse" where
  "server_error body = \<lparr>pr_status = 500, pr_body = body\<rparr>"

fun retry_after_seconds :: "ProblemKind \<Rightarrow> nat option" where
  "retry_after_seconds RevocationCacheStale = Some DEFAULT_REVOCATION_MAX_STALENESS_SECONDS"
| "retry_after_seconds NotReady = Some (nat (PENDING_RESERVATION_TTL_MS div 1000))"
| "retry_after_seconds WalletUnavailable = Some DEFAULT_WALLET_SYNC_RETRY_SECONDS"
| "retry_after_seconds _ = None"

record SpendHttpResponse =
  sh_status :: nat
  sh_headers :: "(string \<times> string) list"
  sh_body :: string

definition into_response :: "(ProblemDetail \<Rightarrow> string + string) \<Rightarrow> ProblemResponse \<Rightarrow> SpendHttpResponse" where
  "into_response to_json p =
    \<lparr>sh_status = pr_status p,
     sh_headers = (''content-type'', ''application/problem+json'') #
       (case retry_after_seconds (pd_kind (pr_body p)) of None \<Rightarrow> [] | Some seconds \<Rightarrow> [(''retry-after'', dec_str seconds)]),
     sh_body = (case to_json (pr_body p) of Inr json \<Rightarrow> json
       | Inl _ \<Rightarrow> ''{\"kind\":\"not_ready\",\"title\":\"encode error\",\"detail\":\"failed to serialize problem detail\",\"retryable\":false}'')\<rparr>"

subsection \<open>The wallet and the capturing submitter\<close>

datatype WalletError =
    WalletTargetExpiryStale u32 u32
  | WalletTargetExpiryMismatch u32 u32
  | InsufficientBalance u64 u64
  | WalletOther string

record 'rcp ZipPayment =
  zp_recipient :: 'rcp
  zp_amount :: u64
  zp_memo :: "bytes option"

record 'rcp ProposalPlan =
  pp_account :: string
  pp_recipient :: 'rcp
  pp_amount :: u64
  pp_memo :: "bytes option"

record SendOutcome =
  sd_tx_id :: bytes
  sd_fee_zat :: u64
  sd_tx_expiry_height :: u32

record CaptureSubmitter =
  cp_network :: ZallyNetwork
  cp_captured :: "bytes option"

definition capture_new :: "ZallyNetwork \<Rightarrow> CaptureSubmitter" where
  "capture_new network = \<lparr>cp_network = network, cp_captured = None\<rparr>"

definition take_captured :: "CaptureSubmitter \<Rightarrow> bytes option \<times> CaptureSubmitter" where
  "take_captured c = (cp_captured c, c\<lparr>cp_captured := None\<rparr>)"

definition capture_submit ::
  "(bytes \<Rightarrow> string + bytes) \<Rightarrow> bytes \<Rightarrow> CaptureSubmitter \<Rightarrow> SubmitOutcome \<times> CaptureSubmitter" where
  "capture_submit parse_transaction_id raw_tx c =
    (case parse_transaction_id raw_tx of
       Inl err \<Rightarrow> (SubmitRejected RejectedEncoding err, c)
     | Inr tx_id \<Rightarrow> (SubmitQueued tx_id, c\<lparr>cp_captured := Some raw_tx\<rparr>))"

record ('w, 'rcp) WalletLib =
  wl_propose :: "'rcp ProposalPlan \<Rightarrow> u32 option \<Rightarrow> 'w \<Rightarrow> (WalletError + bytes) \<times> 'w"
  wl_prove :: "bytes \<Rightarrow> 'w \<Rightarrow> (WalletError + bytes) \<times> 'w"
  wl_sign :: "bytes \<Rightarrow> 'w \<Rightarrow> (WalletError + bytes) \<times> 'w"
  wl_extract_and_submit :: "bytes \<Rightarrow> (bytes \<Rightarrow> CaptureSubmitter \<Rightarrow> SubmitOutcome \<times> CaptureSubmitter)
    \<Rightarrow> 'w \<times> CaptureSubmitter \<Rightarrow> (WalletError + SendOutcome) \<times> 'w \<times> CaptureSubmitter"
  wl_error_text :: "WalletError \<Rightarrow> string"

record ('json, 'key, 'url, 'akey, 'rcp) SignLib =
  sl_dpop :: "('json, 'key, 'url) DpopLib"
  sl_decode_claims :: "string \<Rightarrow> 'key \<Rightarrow> string + DpopClaims"
  sl_access :: "'akey AccessLib"
  sl_hasher :: "IntentInput \<Rightarrow> string + string"
  sl_from_uri :: "string \<Rightarrow> ZallyNetwork \<Rightarrow> string + 'rcp ZipPayment list"
  sl_encoded :: "'rcp \<Rightarrow> string"
  sl_parse_transaction_id :: "bytes \<Rightarrow> string + bytes"
  sl_to_rpc_hex :: "bytes \<Rightarrow> string"
  sl_debug :: "string \<Rightarrow> string"
  sl_debug_network :: "ZallyNetwork \<Rightarrow> string"

definition map_wallet_err :: "('w, 'rcp) WalletLib \<Rightarrow> WalletError \<Rightarrow> ProblemResponse" where
  "map_wallet_err W err =
    (case err of
       WalletTargetExpiryStale target visible_tip \<Rightarrow>
         \<lparr>pr_status = 409, pr_body = not_retryable TargetExpiryStale ''target_expiry_height is past the chain tip''
           (''caller-supplied target_expiry_height='' @ dec_str (unat target)
            @ '' is at or below the wallet's observed tip='' @ dec_str (unat visible_tip)
            @ ''; request a fresh /prepare and retry'')\<rparr>
     | WalletTargetExpiryMismatch target signed_height \<Rightarrow>
         server_error (not_retryable TargetExpiryMismatchInternal ''signed expiry_height did not match target_expiry_height''
           (''wallet signed bytes with expiry_height='' @ dec_str (unat signed_height)
            @ '' but caller asked to commit to '' @ dec_str (unat target)
            @ ''; indicates a bug in the wallet's PCZT proposal path''))
     | InsufficientBalance requested_zat spendable_zat \<Rightarrow>
         server_error (not_retryable InsufficientFunds ''insufficient spendable balance''
           (''requested '' @ dec_str (unat requested_zat) @ '' zat, spendable '' @ dec_str (unat spendable_zat) @ '' zat''))
     | WalletOther _ \<Rightarrow> server_error (not_retryable NotReady ''wallet signing failed'' (wl_error_text W err)))"

definition signed_payload_response ::
  "('json, 'key, 'url, 'akey, 'rcp) SignLib \<Rightarrow> SendOutcome \<Rightarrow> bytes \<Rightarrow> SignPaymentResponse" where
  "signed_payload_response L outcome signed_pczt =
    \<lparr>sr_signed_payload =
      \<lparr>sw_format = SIGNED_PAYLOAD_FORMAT_WIRE_LITERAL, sw_bytes = dl_b64_encode (sl_dpop L) signed_pczt,
       sw_tx_id = sl_to_rpc_hex L (sd_tx_id outcome),
       sw_fee = \<lparr>aw_currency = ''ZEC'', aw_value = dec_str (unat (sd_fee_zat outcome)), aw_unit = ''base''\<rparr>,
       sw_expires_at = WireBlockHeight (sd_tx_expiry_height outcome), sw_metadata = JNull\<rparr>\<rparr>"

subsection \<open>Wallet synchronization snapshots\<close>

datatype WalletSyncPhase = PhaseStarting | PhaseSyncing | PhaseWaiting | PhaseRecovering | PhaseParked | PhaseClosing
  | PhaseClosed | PhaseUnknown

datatype WalletSyncScanStatus = ScanNotStarted | ScanWaitingForTip | ScanStarting | ScanCatchingUp | ScanAtTip
  | ScanTipRegressed | ScanUnknown

record WalletSyncFault =
  wf_reason :: string
  wf_repair :: string
  wf_occurred_at_ms :: u64
  wf_consecutive_faults :: u32

record WalletSyncSnapshot =
  ws_network :: ZallyNetwork
  ws_phase :: WalletSyncPhase
  ws_sync_status :: WalletSyncScanStatus
  ws_scanned_height :: "u32 option"
  ws_visible_tip_height :: "u32 option"
  ws_settled_tip_height :: "u32 option"
  ws_lag_blocks :: "u32 option"
  ws_last_fault :: "WalletSyncFault option"
  ws_published_at_ms :: u64

definition is_wallet_sync_fresh :: "WalletSyncSnapshot \<Rightarrow> ZallyNetwork \<Rightarrow> u32 \<Rightarrow> u64 \<Rightarrow> u64 \<Rightarrow> bool" where
  "is_wallet_sync_fresh snap expected_network max_lag_blocks stale_after_seconds snapshot_age_seconds =
    (if ws_network snap \<noteq> expected_network \<or> snapshot_age_seconds > stale_after_seconds then False
     else if \<not> (ws_phase snap = PhaseSyncing \<or> ws_phase snap = PhaseWaiting) then False
     else case ws_lag_blocks snap of
       None \<Rightarrow> False
     | Some lag_blocks \<Rightarrow>
       ws_scanned_height snap \<noteq> None \<and> ws_visible_tip_height snap \<noteq> None
       \<and> ws_settled_tip_height snap \<noteq> None \<and> lag_blocks \<le> max_lag_blocks)"

fun sync_phase_label :: "WalletSyncPhase \<Rightarrow> string" where
  "sync_phase_label PhaseStarting = ''starting''"
| "sync_phase_label PhaseSyncing = ''syncing''"
| "sync_phase_label PhaseWaiting = ''waiting''"
| "sync_phase_label PhaseRecovering = ''recovering''"
| "sync_phase_label PhaseParked = ''parked''"
| "sync_phase_label PhaseClosing = ''closing''"
| "sync_phase_label PhaseClosed = ''closed''"
| "sync_phase_label PhaseUnknown = ''unknown''"

text \<open>\<open>Debug\<close> of an optional number.\<close>

definition debug_opt :: "u32 option \<Rightarrow> string" where
  "debug_opt n = (case n of None \<Rightarrow> ''None'' | Some v \<Rightarrow> ''Some('' @ dec_str (unat v) @ '')'')"

definition snapshot_age_seconds :: "u64 \<Rightarrow> WalletSyncSnapshot \<Rightarrow> u64" where
  "snapshot_age_seconds wall_ms snap =
    (if ws_published_at_ms snap \<le> wall_ms then wall_ms - ws_published_at_ms snap else 0) div 1000"

subsection \<open>The service state\<close>

datatype SealingPosture = SealDev | SealHsm | SealKms | SealOther

record SpendConfig =
  sc_account_id :: string
  sc_policy :: SigningPolicy
  sc_jwks :: JwkSet
  sc_public_sign_url :: string
  sc_leeway_seconds :: u64
  sc_posture :: string
  sc_seal_posture :: SealingPosture
  sc_revocation :: RevocationConfig
  sc_wallet_sync_max_lag_blocks :: u32
  sc_wallet_sync_stale_after_seconds :: u64

record 'w SpendState =
  sv_wallet :: 'w
  sv_seen :: "(string, nat) hashmap"
  sv_ledger :: UsageTable
  sv_revocation :: CacheState
  sv_sync :: WalletSyncSnapshot

record SignContext =
  sx_now_unix :: i64
  sx_instant :: nat
  sx_issuer :: IssuerHttp
  sx_check_times :: "nat \<times> nat \<times> nat"
  sx_now_ms :: u64
  sx_reserve_at :: i64
  sx_reserve_net :: net
  sx_commit_at :: i64
  sx_commit_net :: net
  sx_release_net :: net

subsection \<open>The trust boundary\<close>

definition extract_dpop_bearer :: "HeaderMap \<Rightarrow> ProblemResponse + string \<times> string" where
  "extract_dpop_bearer headers =
    (let token = (case hm_get headers ''authorization'' of
                    None \<Rightarrow> None
                  | Some header \<Rightarrow>
                    if take 5 header \<noteq> ''DPoP '' then None
                    else let token = trim (drop 5 header) in if token = [] then None else Some token) in
     case token of
       None \<Rightarrow> Err (spend_problem_response (not_retryable AccessTokenInvalid ''access_token_invalid''
         ''missing or malformed Authorization: DPoP <at+jwt> header''))
     | Some access_token \<Rightarrow>
       (case nonempty_header headers ''dpop'' of
          None \<Rightarrow> Err (spend_problem_response (not_retryable DpopProofInvalid ''dpop_proof_invalid''
            ''missing DPoP proof header''))
        | Some dpop_proof \<Rightarrow> Ok (access_token, dpop_proof)))"

definition record_dpop_jti ::
  "nat \<Rightarrow> string \<Rightarrow> (string, nat) hashmap \<Rightarrow> (ProblemResponse + unit) \<times> (string, nat) hashmap" where
  "record_dpop_jti now jti seen =
    (let seen' = hm_retain (\<lambda>_ recorded. now - recorded < DPOP_REPLAY_WINDOW_SECONDS * 1000000000) seen in
     if hm_get seen' jti \<noteq> None
     then (Err (spend_problem_response (not_retryable DpopProofInvalid ''dpop_proof_invalid''
             ''DPoP proof jti was already presented in the replay window'')), seen')
     else (Ok (), hm_insert jti now seen'))"

definition verify_spend_authorization ::
  "('json, 'key, 'url, 'akey, 'rcp) SignLib \<Rightarrow> SpendConfig \<Rightarrow> SignContext \<Rightarrow> HeaderMap \<Rightarrow> (string, nat) hashmap
    \<Rightarrow> (ProblemResponse + AccessTokenClaims) \<times> (string, nat) hashmap" where
  "verify_spend_authorization L g x headers seen =
    (case extract_dpop_bearer headers of
       Inl e \<Rightarrow> (Err e, seen)
     | Inr (access_token, dpop_proof) \<Rightarrow>
    (case verify_access_token (sl_access L) access_token (sc_jwks g) (sp_audience (sc_policy g)) (sc_leeway_seconds g) of
       Inl e \<Rightarrow> (Err (spend_problem_response e), seen)
     | Inr claims \<Rightarrow>
    (case zspend_verify_dpop_proof (sl_dpop L) (sl_decode_claims L) dpop_proof
            \<lparr>db_method = ''POST'', db_request_url = sc_public_sign_url g, db_access_token = access_token,
             db_bound_jkt = ac_cnf_jkt claims\<rparr> (sx_now_unix x) DPOP_CLOCK_SKEW_SECONDS of
       Inl e \<Rightarrow> (Err (spend_problem_response e), seen)
     | Inr verified \<Rightarrow>
    (case record_dpop_jti (sx_instant x) (vf_jti verified) seen of
       (Inl e, seen') \<Rightarrow> (Err e, seen')
     | (Inr _, seen') \<Rightarrow> (Ok claims, seen')))))"

definition reject_intent :: "string \<Rightarrow> ProblemResponse" where
  "reject_intent detail = spend_problem_response (not_retryable IntentMismatch ''intent_mismatch'' detail)"

fun auth_expiry_height :: "ExpiresAt \<Rightarrow> ProblemDetail + u32" where
  "auth_expiry_height (BlockHeight height) = Ok height"
| "auth_expiry_height ExpiresOther =
     Err (not_retryable PaymentRequestInvalid ''unsupported expiry kind'' ''unknown expires_at kind'')"
| "auth_expiry_height _ = Err (not_retryable PaymentRequestInvalid ''unsupported expiry kind''
     ''zcash authorizations must carry a block_height expires_at'')"

fun body_reference :: "WireNetwork \<Rightarrow> string" where
  "body_reference WireMainnet = ''main''"
| "body_reference WireTestnet = ''test''"
| "body_reference WireRegtest = ''regtest''"

definition cross_check_request :: "PaymentAuthorization \<Rightarrow> SignPaymentRequest \<Rightarrow> ProblemResponse + unit" where
  "cross_check_request auth body =
    (if sq_payment_id body \<noteq> pa_payment_id auth
     then Err (reject_intent ''payment_id does not match the signed authorization'')
     else case auth_expiry_height (pa_expires_at auth) of
       Inl e \<Rightarrow> Err (spend_problem_response e)
     | Inr expiry \<Rightarrow>
       if sq_target_expiry_height body \<noteq> expiry
       then Err (reject_intent ''target_expiry_height does not match the signed authorization expires_at'')
       else if ci_namespace (pa_chain auth) \<noteq> ''zcash'' \<or> ci_reference (pa_chain auth) \<noteq> body_reference (sq_network body)
       then Err (reject_intent ''network does not match the signed authorization chain'')
       else Ok ())"

definition classify_intent_divergence ::
  "(IntentInput \<Rightarrow> string + string) \<Rightarrow> PaymentAuthorization \<Rightarrow> u64 \<Rightarrow> ProblemResponse" where
  "classify_intent_divergence hasher auth parsed_amount =
    (if recompute_intent_hash hasher auth (pa_recipient auth) parsed_amount = Ok (pa_intent_hash auth)
     then spend_problem_response (not_retryable ProblemKind.RecipientMismatch ''recipient_mismatch''
       ''parsed recipient does not match the recipient the issuer signed into the authorization'')
     else spend_problem_response (not_retryable IntentMismatch ''intent_mismatch''
       ''recomputed intent_hash does not match the signed authorization''))"

subsection \<open>The handler\<close>

text \<open>The request against the grant: everything up to the revocation check, which changes no state.\<close>

definition checked_payment ::
  "('json, 'key, 'url, 'akey, 'rcp) SignLib \<Rightarrow> SpendConfig \<Rightarrow> AccessTokenClaims \<Rightarrow> SignPaymentRequest
    \<Rightarrow> ProblemResponse + PaymentAuthorization \<times> 'rcp ZipPayment" where
  "checked_payment L g claims body =
    (case payment_authorization claims of
       Inl e \<Rightarrow> Err (spend_problem_response e)
     | Inr auth \<Rightarrow>
    (case cross_check_request auth body of
       Inl e \<Rightarrow> Err e
     | Inr _ \<Rightarrow>
       if wq_scheme (sq_payment_request body) \<noteq> ''zip321''
       then Err (bad_request (not_retryable PaymentRequestInvalid ''payment_request scheme not supported''
         (''scheme='' @ sl_debug L (wq_scheme (sq_payment_request body)) @ ''; only zip321 is supported in Phase 4'')))
       else
         let requested_network = to_zally (sq_network body) in
         if requested_network \<noteq> sp_network (sc_policy g)
         then Err (bad_request (not_retryable PaymentRequestInvalid ''network mismatch''
           (''request network='' @ sl_debug_network L requested_network @ '' does not match policy network=''
            @ sl_debug_network L (sp_network (sc_policy g)))))
         else
    (case sl_from_uri L (wq_value (sq_payment_request body)) requested_network of
       Inl err \<Rightarrow> Err (bad_request (not_retryable PaymentRequestInvalid ''ZIP-321 parse failed'' err))
     | Inr [] \<Rightarrow> Err (bad_request (not_retryable PaymentRequestInvalid ''payment_request carried no payments''
         ''ZIP-321 URI parsed but the payment list was empty''))
     | Inr (payment # _) \<Rightarrow>
       let recipient_caip10 = ''zcash:'' @ ci_reference (pa_chain auth) @ '':'' @ sl_encoded L (zp_recipient payment) in
    (case intent_matches (sl_hasher L) auth recipient_caip10 (zp_amount payment) of
       Inl err \<Rightarrow> Err (spend_problem_response (not_retryable IntentMismatch ''intent_mismatch'' err))
     | Inr intent_ok \<Rightarrow>
       if \<not> intent_ok then Err (classify_intent_divergence (sl_hasher L) auth (zp_amount payment))
       else if zp_amount payment > sp_max_amount_zat (sc_policy g)
       then Err (spend_problem_response (not_retryable AmountExceeded ''amount exceeds wallet backstop cap''
         (''requested '' @ dec_str (unat (zp_amount payment)) @ '' > max ''
          @ dec_str (unat (sp_max_amount_zat (sc_policy g))))))
       else Ok (auth, payment)))))"

definition require_wallet_sync_fresh :: "SpendConfig \<Rightarrow> u64 \<Rightarrow> WalletSyncSnapshot \<Rightarrow> ProblemResponse + unit" where
  "require_wallet_sync_fresh g wall_ms snap =
    (let age = snapshot_age_seconds wall_ms snap in
     if is_wallet_sync_fresh snap (sp_network (sc_policy g)) (sc_wallet_sync_max_lag_blocks g)
          (sc_wallet_sync_stale_after_seconds g) age
     then Ok ()
     else Err (spend_problem_response (retryable WalletUnavailable ''wallet_unavailable''
       (''wallet sync phase='' @ sync_phase_label (ws_phase snap) @ '' lag_blocks='' @ debug_opt (ws_lag_blocks snap)
        @ '' snapshot_age_seconds='' @ dec_str (unat age) @ ''; retry after sync freshness recovers''))))"

fun ledger_error_text :: "(string \<Rightarrow> string) \<Rightarrow> LedgerError \<Rightarrow> string" where
  "ledger_error_text dbg (LedgerOpen url reason) = ''ledger backend open failed for '' @ dbg url @ '': '' @ reason"
| "ledger_error_text dbg (MissingAuthToken url) = ''ledger backend at '' @ dbg url
     @ '' is a remote libsql:// URL but no auth token was provided; set ZSPEND_LEDGER_AUTH_TOKEN''"
| "ledger_error_text dbg (SchemaTooNew found) = ''ledger schema version '' @ dec_str (unat found)
     @ '' is newer than this binary supports''"
| "ledger_error_text dbg (LedgerStatement reason) = ''ledger statement failed: '' @ reason"
| "ledger_error_text dbg (LedgerRowMalformed reason) = ''ledger row malformed: '' @ reason"

definition ledger_unavailable :: "(string \<Rightarrow> string) \<Rightarrow> LedgerError \<Rightarrow> ProblemResponse" where
  "ledger_unavailable dbg err = spend_problem_response (retryable NotReady ''not_ready''
     (''single-use ledger is unavailable: '' @ ledger_error_text dbg err))"

definition release_reservation :: "SignContext \<Rightarrow> string \<Rightarrow> 'w SpendState \<Rightarrow> 'w SpendState" where
  "release_reservation x jti s = s\<lparr>sv_ledger := snd (release_libsql (sx_release_net x) jti (sv_ledger s))\<rparr>"

text \<open>Revocation, freshness and the reservation; \<open>Ok None\<close> lets the request sign, \<open>Ok (Some r)\<close> is a replay.\<close>

definition admit_spend ::
  "('json, 'key, 'url, 'akey, 'rcp) SignLib \<Rightarrow> SignPaymentResponse ResponseJson \<Rightarrow> SpendConfig \<Rightarrow> SignContext
    \<Rightarrow> string \<Rightarrow> string \<Rightarrow> 'w SpendState \<Rightarrow> (ProblemResponse + SignPaymentResponse option) \<times> 'w SpendState" where
  "admit_spend L J g x jti intent_hash s =
    (case revocation_check (sx_issuer x) (sc_revocation g) (sx_check_times x) jti (sv_revocation s) of
       (outcome, cache) \<Rightarrow>
     let s1 = s\<lparr>sv_revocation := cache\<rparr> in
     case outcome of
       Revoked \<Rightarrow> (Err (spend_problem_response (not_retryable TokenRevoked ''token_revoked''
         ''this access-token jti was revoked at the issuer after mint'')), s1)
     | CacheStale \<Rightarrow> (Err (spend_problem_response (retryable RevocationCacheStale ''revocation_cache_stale''
         ''the revocation cache is older than the staleness bound and the issuer is unreachable; retry shortly'')), s1)
     | Live \<Rightarrow>
    (case require_wallet_sync_fresh g (sx_now_ms x) (sv_sync s1) of
       Inl e \<Rightarrow> (Err e, s1)
     | Inr _ \<Rightarrow>
    (case reserve_libsql_at J (sx_reserve_net x) jti intent_hash (sx_reserve_at x) (sv_ledger s1) of
       (reservation, ledger) \<Rightarrow>
     let s2 = s1\<lparr>sv_ledger := ledger\<rparr> in
     case reservation of
       Inl err \<Rightarrow> (Err (ledger_unavailable (sl_debug L) err), s2)
     | Inr ReservedFresh \<Rightarrow> (Ok None, s2)
     | Inr (ReservedCompleted cached) \<Rightarrow> (Ok (Some cached), s2)
     | Inr IntentConflict \<Rightarrow> (Err (spend_problem_response (not_retryable TokenAlreadyConsumed ''token_already_consumed''
         ''this access-token jti was already used to sign a different intent'')), s2)
     | Inr ReservedPending \<Rightarrow> (Err (spend_problem_response (retryable NotReady ''not_ready''
         ''this access-token jti is being signed by an in-flight request; retry shortly'')), s2))))"

text \<open>The wallet steps of a reserved request.\<close>

definition wallet_failed ::
  "('w, 'rcp) WalletLib \<Rightarrow> SignContext \<Rightarrow> string \<Rightarrow> WalletError \<Rightarrow> 'w SpendState
    \<Rightarrow> (ProblemResponse + SignPaymentResponse) \<times> 'w SpendState" where
  "wallet_failed W x jti err s = (Err (map_wallet_err W err), release_reservation x jti s)"

definition sign_reserved ::
  "('json, 'key, 'url, 'akey, 'rcp) SignLib \<Rightarrow> ('w, 'rcp) WalletLib \<Rightarrow> SignPaymentResponse ResponseJson \<Rightarrow> SpendConfig
    \<Rightarrow> SignContext \<Rightarrow> SignPaymentRequest \<Rightarrow> string \<Rightarrow> PaymentAuthorization \<Rightarrow> 'rcp ZipPayment \<Rightarrow> 'w SpendState
    \<Rightarrow> (ProblemResponse + SignPaymentResponse) \<times> 'w SpendState" where
  "sign_reserved L W J g x body jti auth payment s =
    (let plan = \<lparr>pp_account = sc_account_id g, pp_recipient = zp_recipient payment, pp_amount = zp_amount payment,
                 pp_memo = zp_memo payment\<rparr> in
     case wl_propose W plan (Some (sq_target_expiry_height body)) (sv_wallet s) of
       (Inl err, w1) \<Rightarrow> wallet_failed W x jti err (s\<lparr>sv_wallet := w1\<rparr>)
     | (Inr unsigned_pczt, w1) \<Rightarrow>
    (case wl_prove W unsigned_pczt w1 of
       (Inl err, w2) \<Rightarrow> wallet_failed W x jti err (s\<lparr>sv_wallet := w2\<rparr>)
     | (Inr proven_pczt, w2) \<Rightarrow>
    (case wl_sign W proven_pczt w2 of
       (Inl err, w3) \<Rightarrow> wallet_failed W x jti err (s\<lparr>sv_wallet := w3\<rparr>)
     | (Inr signed_pczt, w3) \<Rightarrow>
    (case wl_extract_and_submit W signed_pczt (capture_submit (sl_parse_transaction_id L))
            (w3, capture_new (to_zally (sq_network body))) of
       (Inl err, w4, _) \<Rightarrow> wallet_failed W x jti err (s\<lparr>sv_wallet := w4\<rparr>)
     | (Inr send_outcome, w4, capture) \<Rightarrow>
       let s4 = s\<lparr>sv_wallet := w4\<rparr> in
    (case fst (take_captured capture) of
       None \<Rightarrow> (Err (server_error (not_retryable NotReady ''submitter captured no bytes''
           ''internal: CaptureSubmitter::submit was not invoked by PCZT extraction'')), release_reservation x jti s4)
     | Some _ \<Rightarrow>
       let response = signed_payload_response L send_outcome signed_pczt;
           ledger = snd (commit_libsql J (sx_commit_net x) jti (pa_intent_hash auth) response (sx_commit_at x) (sv_ledger s4))
       in (Ok response, s4\<lparr>sv_ledger := ledger\<rparr>))))))"

definition sign_payment_inner ::
  "('json, 'key, 'url, 'akey, 'rcp) SignLib \<Rightarrow> ('w, 'rcp) WalletLib \<Rightarrow> SignPaymentResponse ResponseJson \<Rightarrow> SpendConfig
    \<Rightarrow> SignContext \<Rightarrow> HeaderMap \<Rightarrow> SignPaymentRequest \<Rightarrow> 'w SpendState
    \<Rightarrow> (ProblemResponse + SignPaymentResponse) \<times> 'w SpendState" where
  "sign_payment_inner L W J g x headers body s =
    (case verify_spend_authorization L g x headers (sv_seen s) of
       (authorized, seen) \<Rightarrow>
     let s0 = s\<lparr>sv_seen := seen\<rparr> in
     case authorized of
       Inl e \<Rightarrow> (Err e, s0)
     | Inr claims \<Rightarrow>
    (case checked_payment L g claims body of
       Inl e \<Rightarrow> (Err e, s0)
     | Inr (auth, payment) \<Rightarrow>
    (case admit_spend L J g x (ac_jti claims) (pa_intent_hash auth) s0 of
       (Inl e, s1) \<Rightarrow> (Err e, s1)
     | (Inr (Some cached), s1) \<Rightarrow> (Ok cached, s1)
     | (Inr None, s1) \<Rightarrow> sign_reserved L W J g x body (ac_jti claims) auth payment s1)))"

end
