(* ===== verification/Sign_Safety.thy ===== *)
theory Sign_Safety
  imports Sign
begin

text \<open>
  What the signing endpoint guarantees: the wallet acts only for a verified, bound, unrevoked and freshly reserved
  request; a token yields at most one signed payment over any run of the service; and what a request leaves in
  the single-use ledger on every path, failing commits and releases included.  Runs are the closure \<open>spend_run\<close> of the step relation
  \<open>spend_step\<close>: handled requests, interleaved with the publication of synchronization snapshots and with the
  wallet's own background scanning.
\<close>

subsection \<open>The phases of a request\<close>

lemma record_dpop_jti_Ok:
  assumes "record_dpop_jti now jti seen = (Inr u, seen')"
  shows "\<forall>at. (jti, at) \<in> set seen \<longrightarrow> 300 * 1000000000 \<le> now - at"
proof -
  have "hm_get (hm_retain (\<lambda>_ recorded. now - recorded < DPOP_REPLAY_WINDOW_SECONDS * 1000000000) seen) jti = None"
    using assms by (simp add: record_dpop_jti_def Let_def split: if_splits)
  then show ?thesis
    by (force simp: map_of_eq_None_iff hm_retain_def DPOP_REPLAY_WINDOW_SECONDS_def not_less)
qed

lemma verify_spend_Ok:
  assumes "verify_spend_authorization L g x headers seen = (Inr claims, seen')"
  shows "\<exists>token dpop_proof v. extract_dpop_bearer headers = Ok (token, dpop_proof)
    \<and> verify_access_token (sl_access L) token (sc_jwks g) (sp_audience (sc_policy g)) (sc_leeway_seconds g) = Ok claims
    \<and> zspend_verify_dpop_proof (sl_dpop L) (sl_decode_claims L) dpop_proof
        \<lparr>db_method = ''POST'', db_request_url = sc_public_sign_url g, db_access_token = token, db_bound_jkt = ac_cnf_jkt claims\<rparr>
        (sx_now_unix x) DPOP_CLOCK_SKEW_SECONDS = Ok v
    \<and> (\<forall>at. (vf_jti v, at) \<in> set seen \<longrightarrow> 300 * 1000000000 \<le> sx_instant x - at)"
proof -
  obtain token dpop_proof v where 1: "extract_dpop_bearer headers = Ok (token, dpop_proof)"
    "verify_access_token (sl_access L) token (sc_jwks g) (sp_audience (sc_policy g)) (sc_leeway_seconds g) = Ok claims"
    "zspend_verify_dpop_proof (sl_dpop L) (sl_decode_claims L) dpop_proof
        \<lparr>db_method = ''POST'', db_request_url = sc_public_sign_url g, db_access_token = token, db_bound_jkt = ac_cnf_jkt claims\<rparr>
        (sx_now_unix x) DPOP_CLOCK_SKEW_SECONDS = Ok v"
    and "\<exists>u. record_dpop_jti (sx_instant x) (vf_jti v) seen = (Inr u, seen')"
    using assms by (simp add: verify_spend_authorization_def split: sum.splits prod.splits)
  then show ?thesis using record_dpop_jti_Ok by blast
qed

lemma checked_payment_Ok:
  assumes "checked_payment L g claims body = Ok (auth, payment)"
  shows "ac_authorization_details claims = [auth]" "sq_payment_id body = pa_payment_id auth"
    "pa_expires_at auth = BlockHeight (sq_target_expiry_height body)"
    "pa_chain auth = \<lparr>ci_namespace = ''zcash'', ci_reference = body_reference (sq_network body)\<rparr>"
    "to_zally (sq_network body) = sp_network (sc_policy g)"
    "\<exists>rest. sl_from_uri L (wq_value (sq_payment_request body)) (to_zally (sq_network body)) = Ok (payment # rest)"
    "recompute_intent_hash (sl_hasher L) auth
       (''zcash:'' @ body_reference (sq_network body) @ '':'' @ sl_encoded L (zp_recipient payment)) (zp_amount payment)
       = Ok (pa_intent_hash auth)"
    "zp_amount payment \<le> sp_max_amount_zat (sc_policy g)"
proof -
  have one: "ac_authorization_details claims = [auth]" if "payment_authorization claims = Inr auth"
    using that by (simp add: payment_authorization_def split: list.splits)
  have cross: "sq_payment_id body = pa_payment_id auth \<and> pa_expires_at auth = BlockHeight (sq_target_expiry_height body)
      \<and> ci_namespace (pa_chain auth) = ''zcash'' \<and> ci_reference (pa_chain auth) = body_reference (sq_network body)"
    if "cross_check_request auth body = Inr u" for u
    using that by (cases "pa_expires_at auth") (simp_all add: cross_check_request_def split: if_splits)
  have hash: "recompute_intent_hash h auth rcp a = Ok (pa_intent_hash auth)" if "intent_matches h auth rcp a = Inr True" for h rcp a
    using that by (simp add: intent_matches_def split: sum.splits)
  have facts: "payment_authorization claims = Inr auth \<and> (\<exists>u. cross_check_request auth body = Inr u)
    \<and> to_zally (sq_network body) = sp_network (sc_policy g)
    \<and> (\<exists>rest. sl_from_uri L (wq_value (sq_payment_request body)) (to_zally (sq_network body)) = Ok (payment # rest))
    \<and> intent_matches (sl_hasher L) auth (''zcash:'' @ ci_reference (pa_chain auth) @ '':'' @ sl_encoded L (zp_recipient payment))
        (zp_amount payment) = Inr True
    \<and> zp_amount payment \<le> sp_max_amount_zat (sc_policy g)"
    using assms by (auto simp: checked_payment_def Let_def split: sum.splits list.splits if_splits)
  then obtain u where "cross_check_request auth body = Inr u" by blast
  note c = cross [OF this]
  show "ac_authorization_details claims = [auth]" using facts one by blast
  show "sq_payment_id body = pa_payment_id auth" "pa_expires_at auth = BlockHeight (sq_target_expiry_height body)"
    using c by simp_all
  show "pa_chain auth = \<lparr>ci_namespace = ''zcash'', ci_reference = body_reference (sq_network body)\<rparr>" using c by simp
  show "to_zally (sq_network body) = sp_network (sc_policy g)" using facts by blast
  show "\<exists>rest. sl_from_uri L (wq_value (sq_payment_request body)) (to_zally (sq_network body)) = Ok (payment # rest)"
    using facts by blast
  show "recompute_intent_hash (sl_hasher L) auth
       (''zcash:'' @ body_reference (sq_network body) @ '':'' @ sl_encoded L (zp_recipient payment)) (zp_amount payment)
       = Ok (pa_intent_hash auth)" using facts c hash by simp
  show "zp_amount payment \<le> sp_max_amount_zat (sc_policy g)" using facts by blast
qed

lemma admit_frame:
  assumes "admit_spend L J g x jti ih s = (out, s1)"
  shows "sv_wallet s1 = sv_wallet s" "sv_seen s1 = sv_seen s" "sv_sync s1 = sv_sync s"
    "sv_ledger s1 = sv_ledger s \<or> sv_ledger s1 = snd (reserve_libsql_at J (sx_reserve_net x) jti ih (sx_reserve_at x) (sv_ledger s))"
  using assms
  by (auto simp: admit_spend_def Let_def split: prod.splits RevocationOutcome.splits sum.splits Reservation.splits)

lemma admit_Ok:
  assumes "admit_spend L J g x jti ih s = (Inr c, s1)"
  shows "fst (revocation_check (sx_issuer x) (sc_revocation g) (sx_check_times x) jti (sv_revocation s)) = Live"
    "is_wallet_sync_fresh (sv_sync s) (sp_network (sc_policy g)) (sc_wallet_sync_max_lag_blocks g)
       (sc_wallet_sync_stale_after_seconds g) (snapshot_age_seconds (sx_now_ms x) (sv_sync s))"
    "reserve_libsql_at J (sx_reserve_net x) jti ih (sx_reserve_at x) (sv_ledger s) =
       (Inr (case c of None \<Rightarrow> ReservedFresh | Some r \<Rightarrow> ReservedCompleted r), sv_ledger s1)"
proof -
  have sync: "is_wallet_sync_fresh (sv_sync s) (sp_network (sc_policy g)) (sc_wallet_sync_max_lag_blocks g)
       (sc_wallet_sync_stale_after_seconds g) (snapshot_age_seconds (sx_now_ms x) (sv_sync s))"
    if "require_wallet_sync_fresh g (sx_now_ms x) (sv_sync s) = Inr u" for u
    using that by (simp add: require_wallet_sync_fresh_def Let_def split: if_splits)
  have all: "fst (revocation_check (sx_issuer x) (sc_revocation g) (sx_check_times x) jti (sv_revocation s)) = Live
    \<and> (\<exists>u. require_wallet_sync_fresh g (sx_now_ms x) (sv_sync s) = Inr u)
    \<and> reserve_libsql_at J (sx_reserve_net x) jti ih (sx_reserve_at x) (sv_ledger s) =
       (Inr (case c of None \<Rightarrow> ReservedFresh | Some r \<Rightarrow> ReservedCompleted r), sv_ledger s1)"
    using assms
    by (auto simp: admit_spend_def Let_def split: prod.splits RevocationOutcome.splits sum.splits Reservation.splits)
  show "fst (revocation_check (sx_issuer x) (sc_revocation g) (sx_check_times x) jti (sv_revocation s)) = Live"
    using all by blast
  show "is_wallet_sync_fresh (sv_sync s) (sp_network (sc_policy g)) (sc_wallet_sync_max_lag_blocks g)
       (sc_wallet_sync_stale_after_seconds g) (snapshot_age_seconds (sx_now_ms x) (sv_sync s))" using all sync by blast
  show "reserve_libsql_at J (sx_reserve_net x) jti ih (sx_reserve_at x) (sv_ledger s) =
       (Inr (case c of None \<Rightarrow> ReservedFresh | Some r \<Rightarrow> ReservedCompleted r), sv_ledger s1)" using all by blast
qed

text \<open>A reserved request ends by committing its response or by releasing the reservation.\<close>

lemma sign_reserved_ledger:
  assumes "sign_reserved L W J g x body jti auth payment s = (out, s')"
  shows "(\<exists>r. out = Ok r \<and> sv_ledger s' = snd (commit_libsql J (sx_commit_net x) jti (pa_intent_hash auth) r (sx_commit_at x) (sv_ledger s)))
    \<or> (\<exists>e. out = Err e \<and> sv_ledger s' = snd (release_libsql (sx_release_net x) jti (sv_ledger s)))"
  using assms
  by (auto simp: sign_reserved_def wallet_failed_def release_reservation_def Let_def split: prod.splits sum.splits option.splits)

text \<open>The three ways a request ends.\<close>

lemma sign_inner_cases:
  assumes "sign_payment_inner L W J g x headers body s = (out, s')"
  obtains (unverified) e where "out = Err e" "sv_wallet s' = sv_wallet s" "sv_ledger s' = sv_ledger s"
    | (refused) claims auth payment seen e where
      "verify_spend_authorization L g x headers (sv_seen s) = (Inr claims, seen)"
      "checked_payment L g claims body = Ok (auth, payment)"
      "admit_spend L J g x (ac_jti claims) (pa_intent_hash auth) (s\<lparr>sv_seen := seen\<rparr>) = (Inl e, s')" "out = Err e"
    | (replayed) claims auth payment seen r where
      "verify_spend_authorization L g x headers (sv_seen s) = (Inr claims, seen)"
      "checked_payment L g claims body = Ok (auth, payment)"
      "admit_spend L J g x (ac_jti claims) (pa_intent_hash auth) (s\<lparr>sv_seen := seen\<rparr>) = (Inr (Some r), s')" "out = Ok r"
    | (signing) claims auth payment seen s1 where
      "verify_spend_authorization L g x headers (sv_seen s) = (Inr claims, seen)"
      "checked_payment L g claims body = Ok (auth, payment)"
      "admit_spend L J g x (ac_jti claims) (pa_intent_hash auth) (s\<lparr>sv_seen := seen\<rparr>) = (Inr None, s1)"
      "sign_reserved L W J g x body (ac_jti claims) auth payment s1 = (out, s')"
  using assms
  by (fastforce simp: sign_payment_inner_def Let_def split: prod.splits sum.splits option.splits)

subsection \<open>The ledger across a request\<close>

lemma admit_Err_usage:
  assumes "usage_wf J (sv_ledger s)" "admit_spend L J g x jti ih s = (Inl e, s1)"
  shows "usage_wf J (sv_ledger s1) \<and> table_usage J (sv_ledger s1) = table_usage J (sv_ledger s)"
proof -
  obtain res t where r: "reserve_libsql_at J (sx_reserve_net x) jti ih (sx_reserve_at x) (sv_ledger s) = (res, t)" by fastforce
  have "sv_ledger s1 = sv_ledger s \<or> sv_ledger s1 = t \<and> (\<forall>v. res = Inr v \<longrightarrow> v = IntentConflict \<or> v = ReservedPending)"
    using assms(2) r
    by (auto simp: admit_spend_def Let_def split: prod.splits RevocationOutcome.splits sum.splits Reservation.splits)
  moreover have "usage_wf J t \<and> table_usage J t = table_usage J (sv_ledger s)"
    if "\<forall>v. res = Inr v \<longrightarrow> v = IntentConflict \<or> v = ReservedPending"
  proof (cases res)
    case (Inl err)
    then show ?thesis using usage.reserve_err r assms(1) by blast
  next
    case (Inr v)
    note ok = usage.reserve_ok [OF assms(1) r [unfolded Inr]]
    have "snd (reserved ih (sx_reserve_at x) u) = u" if "fst (reserved ih (sx_reserve_at x) u) = v" for u
      using that \<open>\<forall>v. res = Inr v \<longrightarrow> v = IntentConflict \<or> v = ReservedPending\<close> Inr
      by (cases "(ih, sx_reserve_at x, u)" rule: reserved.cases) (auto split: if_splits)
    then show ?thesis using ok by (metis fun_upd_triv)
  qed
  ultimately show ?thesis using assms(1) by auto
qed

lemma admit_replay_usage:
  assumes "usage_wf J (sv_ledger s)" "admit_spend L J g x jti ih s = (Inr (Some r), s1)"
  shows "usage_wf J (sv_ledger s1) \<and> table_usage J (sv_ledger s1) = table_usage J (sv_ledger s)
    \<and> table_usage J (sv_ledger s) jti = Some (Used ih r)"
proof -
  note ok = usage.reserve_ok [OF assms(1) admit_Ok(3) [OF assms(2), simplified]]
  have "u = Some (Used ih r)" if "ReservedCompleted r = fst (reserved ih (sx_reserve_at x) u)" for u
    using that by (cases "(ih, sx_reserve_at x, u)" rule: reserved.cases) (auto split: if_splits)
  from this [OF conjunct1 [OF conjunct2 [OF ok]]] show ?thesis using ok by (simp add: fun_upd_idem)
qed

lemma admit_fresh_usage:
  assumes "usage_wf J (sv_ledger s)" "admit_spend L J g x jti ih s = (Inr None, s1)"
  shows "usage_wf J (sv_ledger s1)
    \<and> table_usage J (sv_ledger s1) = (table_usage J (sv_ledger s))(jti \<mapsto> Pend ih (sx_reserve_at x))
    \<and> (\<forall>ih' r. table_usage J (sv_ledger s) jti \<noteq> Some (Used ih' r))"
proof -
  note ok = usage.reserve_ok [OF assms(1) admit_Ok(3) [OF assms(2), simplified]]
  have "snd (reserved ih (sx_reserve_at x) u) = Some (Pend ih (sx_reserve_at x)) \<and> (\<forall>ih' r. u \<noteq> Some (Used ih' r))"
    if "ReservedFresh = fst (reserved ih (sx_reserve_at x) u)" for u
    using that by (cases "(ih, sx_reserve_at x, u)" rule: reserved.cases) (auto split: if_splits)
  from this [OF conjunct1 [OF conjunct2 [OF ok]]] show ?thesis using ok by simp
qed

lemma sign_reserved_usage:
  assumes "usage_wf J (sv_ledger s)" "\<And>r. storable_json J r" "sign_reserved L W J g x body jti auth payment s = (out, s')"
  shows "usage_wf J (sv_ledger s')" "q \<noteq> jti \<Longrightarrow> table_usage J (sv_ledger s') q = table_usage J (sv_ledger s) q"
proof -
  have "usage_wf J (sv_ledger s') \<and> (q \<noteq> jti \<longrightarrow> table_usage J (sv_ledger s') q = table_usage J (sv_ledger s) q)"
    using sign_reserved_ledger [OF assms(3)]
  proof (elim disjE exE conjE)
    fix r assume l: "sv_ledger s' = snd (commit_libsql J (sx_commit_net x) jti (pa_intent_hash auth) r (sx_commit_at x) (sv_ledger s))"
    have "commit_libsql J (sx_commit_net x) jti (pa_intent_hash auth) r (sx_commit_at x) (sv_ledger s) =
        (fst (commit_libsql J (sx_commit_net x) jti (pa_intent_hash auth) r (sx_commit_at x) (sv_ledger s)), sv_ledger s')"
      by (simp add: l)
    from usage.commit_step [OF assms(1,2) this] show ?thesis by auto
  next
    assume l: "sv_ledger s' = snd (release_libsql (sx_release_net x) jti (sv_ledger s))"
    have "release_libsql (sx_release_net x) jti (sv_ledger s) = (fst (release_libsql (sx_release_net x) jti (sv_ledger s)), sv_ledger s')"
      by (simp add: l)
    from usage.release_step [OF assms(1) this] show ?thesis by auto
  qed
  then show "usage_wf J (sv_ledger s')" "q \<noteq> jti \<Longrightarrow> table_usage J (sv_ledger s') q = table_usage J (sv_ledger s) q" by blast+
qed

text \<open>The token a request carries, when its access token verifies.\<close>

definition request_jti :: "('json, 'key, 'url, 'akey, 'rcp) SignLib \<Rightarrow> SpendConfig \<Rightarrow> HeaderMap \<Rightarrow> string option" where
  "request_jti L g headers =
    (case extract_dpop_bearer headers of
       Inl _ \<Rightarrow> None
     | Inr (token, _) \<Rightarrow>
       (case verify_access_token (sl_access L) token (sc_jwks g) (sp_audience (sc_policy g)) (sc_leeway_seconds g) of
          Inl _ \<Rightarrow> None | Inr claims \<Rightarrow> Some (ac_jti claims)))"

lemma verified_request_jti:
  "verify_spend_authorization L g x headers seen = (Inr claims, seen') \<Longrightarrow> request_jti L g headers = Some (ac_jti claims)"
  by (drule verify_spend_Ok) (auto simp: request_jti_def)

text \<open>A committed token keeps its record across any request, and a request that carries it changes no wallet and
  answers only that response.\<close>

lemma sign_inner_used:
  assumes "usage_wf J (sv_ledger s)" "\<And>r. storable_json J r" "table_usage J (sv_ledger s) q = Some (Used ih r)"
    and "sign_payment_inner L W J g x headers body s = (out, s')"
  shows "usage_wf J (sv_ledger s') \<and> table_usage J (sv_ledger s') q = Some (Used ih r)
    \<and> (request_jti L g headers = Some q \<longrightarrow> sv_wallet s' = sv_wallet s \<and> (\<forall>r'. out = Ok r' \<longrightarrow> r' = r))"
  using assms(4)
proof (cases rule: sign_inner_cases)
  case (unverified e)
  then show ?thesis using assms(1,3) by simp
next
  case (refused claims auth payment seen e)
  then show ?thesis using admit_Err_usage [OF _ refused(3)] admit_frame [OF refused(3)] assms(1,3) by simp
next
  case (replayed claims auth payment seen r')
  then show ?thesis using admit_replay_usage [OF _ replayed(3)] admit_frame [OF replayed(3)] assms(1,3)
      verified_request_jti [OF replayed(1)] by auto
next
  case (signing claims auth payment seen s1)
  have fresh: "usage_wf J (sv_ledger s1)"
    "table_usage J (sv_ledger s1) = (table_usage J (sv_ledger s))(ac_jti claims \<mapsto> Pend (pa_intent_hash auth) (sx_reserve_at x))"
    "\<forall>ih' r. table_usage J (sv_ledger s) (ac_jti claims) \<noteq> Some (Used ih' r)"
    using admit_fresh_usage [OF _ signing(3)] assms(1) by simp_all
  then have "q \<noteq> ac_jti claims" using assms(3) by auto
  then show ?thesis using sign_reserved_usage [OF fresh(1) assms(2) signing(4)] fresh(2) assms(3)
      verified_request_jti [OF signing(1)] by simp
qed

subsection \<open>Runs of the service\<close>

text \<open>A run interleaves handled requests, published synchronization snapshots and changes the wallet's own
  background scan makes.\<close>

inductive spend_step ::
  "('json, 'key, 'url, 'akey, 'rcp) SignLib \<Rightarrow> ('w, 'rcp) WalletLib \<Rightarrow> SignPaymentResponse ResponseJson \<Rightarrow> SpendConfig
    \<Rightarrow> 'w SpendState \<Rightarrow> 'w SpendState \<Rightarrow> bool"
  for L W J g where
  handled: "sign_payment_inner L W J g x headers body s = (out, s') \<Longrightarrow> spend_step L W J g s s'"
| published: "spend_step L W J g s (s\<lparr>sv_sync := snap\<rparr>)"
| scanned: "spend_step L W J g s (s\<lparr>sv_wallet := w\<rparr>)"

inductive_cases spend_stepE: "spend_step L W J g s s'"

inductive spend_run ::
  "('json, 'key, 'url, 'akey, 'rcp) SignLib \<Rightarrow> ('w, 'rcp) WalletLib \<Rightarrow> SignPaymentResponse ResponseJson \<Rightarrow> SpendConfig
    \<Rightarrow> 'w SpendState \<Rightarrow> 'w SpendState \<Rightarrow> bool"
  for L W J g where
  stop: "spend_run L W J g s s"
| go: "spend_run L W J g s s' \<Longrightarrow> spend_step L W J g s' s'' \<Longrightarrow> spend_run L W J g s s''"

lemma spend_run_used:
  assumes "spend_run L W J g s s'" "\<And>r. storable_json J r"
    and "usage_wf J (sv_ledger s)" "table_usage J (sv_ledger s) q = Some (Used ih r)"
  shows "usage_wf J (sv_ledger s') \<and> table_usage J (sv_ledger s') q = Some (Used ih r)"
  using assms
proof (induction rule: spend_run.induct)
  case (go s s' s'')
  then have inv: "usage_wf J (sv_ledger s')" "table_usage J (sv_ledger s') q = Some (Used ih r)" by simp_all
  from go.hyps(2) show ?case
  proof (cases rule: spend_step.cases)
    case (handled x headers body out)
    then show ?thesis using sign_inner_used [OF inv(1) assms(2) inv(2)] by blast
  qed (use inv in simp_all)
qed simp

lemma committed:
  assumes "usage_wf J t" "\<And>r. storable_json J r" "\<And>n. net n = None" "rj_to_string J r = Ok json"
  shows "table_usage J (snd (commit_libsql J net jti ih r now t)) = (table_usage J t)(jti \<mapsto> Used ih r)
    \<and> usage_wf J (snd (commit_libsql J net jti ih r now t))"
proof -
  obtain t' where c: "commit_libsql J net jti ih r now t = (Ok (), t')"
    using assms(3,4) by (simp add: commit_libsql_def execute_def attempt_def)
  then show ?thesis using usage.commit_ok [OF assms(1,2) c] by simp
qed

text \<open>A successful request whose commit reaches the store leaves its response on record.\<close>

lemma sign_inner_records:
  assumes "usage_wf J (sv_ledger s)" "\<And>r. storable_json J r" "\<And>n. sx_commit_net x n = None" "rj_to_string J r = Ok json"
    and "sign_payment_inner L W J g x headers body s = (Ok r, s')" "request_jti L g headers = Some jti"
  shows "usage_wf J (sv_ledger s') \<and> (\<exists>ih. table_usage J (sv_ledger s') jti = Some (Used ih r))"
  using assms(5)
proof (cases rule: sign_inner_cases)
  case (replayed claims auth payment seen r')
  then show ?thesis using admit_replay_usage [OF _ replayed(3)] assms(1,6) verified_request_jti [OF replayed(1)] by auto
next
  case (signing claims auth payment seen s1)
  have wf: "usage_wf J (sv_ledger s1)" using admit_fresh_usage [OF _ signing(3)] assms(1) by simp
  show ?thesis using sign_reserved_ledger [OF signing(4)] committed [OF wf assms(2-4)] assms(6)
      verified_request_jti [OF signing(1)] by auto
qed simp_all

subsection \<open>Properties\<close>

definition ex_grant :: PaymentAuthorization where
  "ex_grant = \<lparr>pa_chain = \<lparr>ci_namespace = ''zcash'', ci_reference = ''test''\<rparr>, pa_recipient = ''zcash:test:u1'',
     pa_amount = \<lparr>am_currency = ''ZEC'', am_value = ''5'', am_unit = ''base''\<rparr>, pa_payment_id = ''pay'',
     pa_intent_hash = ''h'', pa_expires_at = BlockHeight 100\<rparr>"

definition ex_access :: "unit AccessLib" where
  "ex_access = \<lparr>al_decode_header = (\<lambda>_. Ok \<lparr>jh_alg = EdDSA, jh_typ = None, jh_kid = Some ''i'', jh_jwk = None\<rparr>),
     al_from_jwk = (\<lambda>_. Ok ()),
     al_decode = (\<lambda>_ _ _ _. Ok \<lparr>ac_aud = ''wallet'', ac_jti = ''j1'', ac_exp = 9000, ac_cnf_jkt = ''k'',
                                 ac_authorization_details = [ex_grant]\<rparr>),
     al_error_text = (\<lambda>_. ''jwt'')\<rparr>"

definition ex_sign_lib :: "(unit, unit, string, unit, string) SignLib" where
  "ex_sign_lib = \<lparr>
     sl_dpop = ex_dpop_lib\<lparr>dl_decode_header := (\<lambda>_. Ok \<lparr>jh_alg = ES256, jh_typ = Some ''dpop+jwt'', jh_kid = None,
       jh_jwk = Some \<lparr>jwk_kid = None, jwk_params = EllipticCurve P256 ''x'' ''y''\<rparr>\<rparr>)\<rparr>,
     sl_decode_claims = (\<lambda>p _. Ok \<lparr>dc_htm = ''POST'', dc_htu = ''https://w/s'', dc_jti = p, dc_iat = 1000, dc_ath = ''k''\<rparr>),
     sl_access = ex_access, sl_hasher = (\<lambda>_. Ok ''h''),
     sl_from_uri = (\<lambda>_ _. Ok [\<lparr>zp_recipient = ''u1'', zp_amount = 5, zp_memo = None\<rparr>]), sl_encoded = id,
     sl_parse_transaction_id = (\<lambda>_. Ok [7]), sl_to_rpc_hex = (\<lambda>_. ''07''), sl_debug = id, sl_debug_network = (\<lambda>_. ''net'')\<rparr>"

definition ex_wallet :: "(nat, string) WalletLib" where
  "ex_wallet = \<lparr>wl_propose = (\<lambda>_ _ w. (Ok [1], w + 1)), wl_prove = (\<lambda>p w. (Ok p, w)), wl_sign = (\<lambda>p w. (Ok p, w)),
     wl_extract_and_submit = (\<lambda>p submit (w, c). (Ok \<lparr>sd_tx_id = [7], sd_fee_zat = 10, sd_tx_expiry_height = 100\<rparr>, w,
       snd (submit p c))),
     wl_error_text = (\<lambda>_. ''err'')\<rparr>"

definition ex_signed :: SignPaymentResponse where
  "ex_signed = signed_payload_response ex_sign_lib \<lparr>sd_tx_id = [7], sd_fee_zat = 10, sd_tx_expiry_height = 100\<rparr> [1]"

definition ex_signed_json :: "SignPaymentResponse ResponseJson" where
  "ex_signed_json = \<lparr>rj_to_string = (\<lambda>r. if r = ex_signed then Ok ''signed'' else Err ''unsupported''),
     rj_from_str = (\<lambda>_. Ok ex_signed)\<rparr>"

definition ex_spend_config :: SpendConfig where
  "ex_spend_config = \<lparr>sc_account_id = ''a'', sc_policy = \<lparr>sp_network = ZallyTestnet, sp_max_amount_zat = 10,
       sp_recipient_allowlist = None, sp_audience = ''wallet''\<rparr>,
     sc_jwks = [\<lparr>jwk_kid = Some ''i'', jwk_params = OctetKeyPair\<rparr>], sc_public_sign_url = ''https://w/s'', sc_leeway_seconds = 60,
     sc_posture = ''dev'', sc_seal_posture = SealDev,
     sc_revocation = \<lparr>rg_issuer_url = None, rg_bearer = None, rg_max_staleness = 0\<rparr>,
     sc_wallet_sync_max_lag_blocks = 3, sc_wallet_sync_stale_after_seconds = 30\<rparr>"

definition ex_spend_state :: "nat SpendState" where
  "ex_spend_state = \<lparr>sv_wallet = 0, sv_seen = [], sv_ledger = [],
     sv_revocation = \<lparr>cs_revoked = [], cs_cursor = 0, cs_last_refresh = None\<rparr>,
     sv_sync = \<lparr>ws_network = ZallyTestnet, ws_phase = PhaseWaiting, ws_sync_status = ScanAtTip, ws_scanned_height = Some 90,
       ws_visible_tip_height = Some 90, ws_settled_tip_height = Some 80, ws_lag_blocks = Some 0, ws_last_fault = None,
       ws_published_at_ms = 1000\<rparr>\<rparr>"

definition ex_sign_context :: "nat \<Rightarrow> SignContext" where
  "ex_sign_context n = \<lparr>sx_now_unix = 1001, sx_instant = n, sx_issuer = (\<lambda>_ _ _. Err ''down''), sx_check_times = (n, n, n),
     sx_now_ms = 2000, sx_reserve_at = 5, sx_reserve_net = (\<lambda>_. None), sx_commit_at = 6, sx_commit_net = (\<lambda>_. None),
     sx_release_net = (\<lambda>_. None)\<rparr>"

definition ex_sign_headers :: "string \<Rightarrow> HeaderMap" where
  "ex_sign_headers p = [(''authorization'', ''DPoP tok''), (''dpop'', p)]"

definition ex_sign_body :: SignPaymentRequest where
  "ex_sign_body = \<lparr>sq_payment_request = \<lparr>wq_scheme = ''zip321'', wq_value = ''zcash:u1''\<rparr>, sq_network = WireTestnet,
     sq_payment_id = ''pay'', sq_target_expiry_height = 100\<rparr>"

definition ex_access_claims :: AccessTokenClaims where
  "ex_access_claims = \<lparr>ac_aud = ''wallet'', ac_jti = ''j1'', ac_exp = 9000, ac_cnf_jkt = ''k'', ac_authorization_details = [ex_grant]\<rparr>"

definition ex_reserved :: "nat SpendState" where
  "ex_reserved = ex_spend_state\<lparr>sv_seen := [(''p'', 3)], sv_ledger := [(''j1'', \<lparr>ur_intent_hash = ''h'', ur_state = ''pending'',
     ur_response_json = None, ur_reserved_at_ms = 5\<rparr>)]\<rparr>"

lemma ex_trims: "trim ''p'' = ''p''" "trim ''q'' = ''q''" "trim ''tok'' = ''tok''"
  by (simp_all add: trim_def trim_start_def trim_end_def trim_with.simps ws_len_def byte_of_def)

lemma ex_bearer: "extract_dpop_bearer (ex_sign_headers ''p'') = Ok (''tok'', ''p'')"
    "extract_dpop_bearer (ex_sign_headers ''q'') = Ok (''tok'', ''q'')"
  by (simp_all add: extract_dpop_bearer_def ex_sign_headers_def ex_trims nonempty_header_def)

lemma ex_token: "verify_access_token (sl_access ex_sign_lib) ''tok'' (sc_jwks ex_spend_config) aud leeway = Ok ex_access_claims"
  by (simp add: verify_access_token_def ex_sign_lib_def ex_access_def ex_spend_config_def ex_access_claims_def jwks_find_def jwk_algorithm_def)

lemma ex_jti: "request_jti ex_sign_lib ex_spend_config (ex_sign_headers ''p'') = Some ''j1''"
    "request_jti ex_sign_lib ex_spend_config (ex_sign_headers ''q'') = Some ''j1''"
  by (simp_all add: request_jti_def ex_bearer ex_token) (simp_all add: ex_access_claims_def)

lemma ex_proof: "zspend_verify_dpop_proof (sl_dpop ex_sign_lib) (sl_decode_claims ex_sign_lib) p
    \<lparr>db_method = ''POST'', db_request_url = sc_public_sign_url ex_spend_config, db_access_token = ''tok'',
     db_bound_jkt = ac_cnf_jkt ex_access_claims\<rparr> 1001 DPOP_CLOCK_SKEW_SECONDS = Ok \<lparr>vf_jti = p, vf_jkt = ''k''\<rparr>"
  by (simp add: zspend_verify_dpop_proof_def ex_sign_lib_def ex_dpop_lib_def compute_ec_jwk_thumbprint_def canonicalize_url_def
      canonicalize_http_url_def abs_drift_seconds_def unsigned_abs_def i64_saturating_sub_def i64_max_def i64_min_def
      ex_access_claims_def ex_spend_config_def DPOP_CLOCK_SKEW_SECONDS_def Let_def)

lemma ex_authorized:
  "verify_spend_authorization ex_sign_lib ex_spend_config (ex_sign_context 3) (ex_sign_headers ''p'') [] = (Ok ex_access_claims, [(''p'', 3)])"
proof -
  have "sx_now_unix (ex_sign_context 3) = 1001" "sx_instant (ex_sign_context 3) = 3" by (simp_all add: ex_sign_context_def)
  then show ?thesis
    by (simp add: verify_spend_authorization_def ex_bearer ex_token ex_proof record_dpop_jti_def hm_retain_def)
qed

lemma ex_checked: "checked_payment ex_sign_lib ex_spend_config ex_access_claims ex_sign_body =
    Ok (ex_grant, \<lparr>zp_recipient = ''u1'', zp_amount = 5, zp_memo = None\<rparr>)"
  by (simp add: checked_payment_def payment_authorization_def ex_access_claims_def cross_check_request_def ex_grant_def
      ex_sign_body_def ex_sign_lib_def ex_spend_config_def intent_matches_def recompute_intent_hash_def Let_def)

lemma ex_admitted: "admit_spend ex_sign_lib ex_signed_json ex_spend_config (ex_sign_context 3) ''j1'' ''h''
    (ex_spend_state\<lparr>sv_seen := [(''p'', 3)]\<rparr>) = (Ok None, ex_reserved)"
  by (simp add: admit_spend_def revocation_check_def ex_spend_config_def ex_spend_state_def ex_sign_context_def
      require_wallet_sync_fresh_def is_wallet_sync_fresh_def snapshot_age_seconds_def reserve_libsql_at_def ex_reserved_def Let_def)

lemma ex_parse_tx: "sl_parse_transaction_id ex_sign_lib raw = Ok [7]"
  by (simp add: ex_sign_lib_def)

lemma ex_signs:
  "\<exists>s1. sign_payment_inner ex_sign_lib ex_wallet ex_signed_json ex_spend_config (ex_sign_context 3) (ex_sign_headers ''p'')
     ex_sign_body ex_spend_state = (Ok ex_signed, s1) \<and> sv_wallet s1 = 1"
proof -
  have "sv_seen ex_spend_state = []" by (simp add: ex_spend_state_def)
  moreover have "ac_jti ex_access_claims = ''j1''" "pa_intent_hash ex_grant = ''h''"
    by (simp_all add: ex_access_claims_def ex_grant_def)
  moreover have "\<exists>s1. sign_reserved ex_sign_lib ex_wallet ex_signed_json ex_spend_config (ex_sign_context 3) ex_sign_body ''j1''
      ex_grant \<lparr>zp_recipient = ''u1'', zp_amount = 5, zp_memo = None\<rparr> ex_reserved = (Ok ex_signed, s1) \<and> sv_wallet s1 = 1"
    by (simp add: sign_reserved_def ex_wallet_def capture_submit_def capture_new_def take_captured_def ex_signed_def
        Let_def ex_parse_tx ex_reserved_def ex_spend_state_def)
  ultimately show ?thesis
    by (simp add: sign_payment_inner_def ex_authorized ex_checked ex_admitted Let_def)
qed

lemma ex_storable: "storable_json ex_signed_json r"
  by (simp add: storable_json_def ex_signed_json_def)

text \<open>[C7] The wallet acts only for an authorized payment: a request is answered with a signed payload, or
  changes the wallet, only when it carries an access token that verifies against the issuer keys and this
  wallet's audience, with a DPoP proof by the token's key for this token and the sign URL whose id was not
  presented in the last 300 seconds; the token grants exactly one authorization, for this payment id, expiry
  height and chain, the served network; the first payment of the request hashes with it to the
  authorized intent and is within the cap; the token is not revoked and the wallet is in sync.  When the wallet
  changes, the token was freshly reserved for that intent and the wallet was run on exactly that payment and height.\<close>

theorem wallet_acts_only_authorized:
  assumes "sign_payment_inner L W J g x headers body s = (out, s')"
    and "sv_wallet s' \<noteq> sv_wallet s \<or> (\<exists>r. out = Ok r)"
  shows "\<exists>token dpop_proof claims v auth payment rest.
    extract_dpop_bearer headers = Ok (token, dpop_proof)
    \<and> verify_access_token (sl_access L) token (sc_jwks g) (sp_audience (sc_policy g)) (sc_leeway_seconds g) = Ok claims
    \<and> zspend_verify_dpop_proof (sl_dpop L) (sl_decode_claims L) dpop_proof
        \<lparr>db_method = ''POST'', db_request_url = sc_public_sign_url g, db_access_token = token, db_bound_jkt = ac_cnf_jkt claims\<rparr>
        (sx_now_unix x) 60 = Ok v
    \<and> (\<forall>at. (vf_jti v, at) \<in> set (sv_seen s) \<longrightarrow> 300 * 1000000000 \<le> sx_instant x - at)
    \<and> ac_authorization_details claims = [auth]
    \<and> sq_payment_id body = pa_payment_id auth \<and> pa_expires_at auth = BlockHeight (sq_target_expiry_height body)
    \<and> pa_chain auth = \<lparr>ci_namespace = ''zcash'', ci_reference = body_reference (sq_network body)\<rparr>
    \<and> to_zally (sq_network body) = sp_network (sc_policy g)
    \<and> sl_from_uri L (wq_value (sq_payment_request body)) (sp_network (sc_policy g)) = Ok (payment # rest)
    \<and> recompute_intent_hash (sl_hasher L) auth
        (''zcash:'' @ body_reference (sq_network body) @ '':'' @ sl_encoded L (zp_recipient payment)) (zp_amount payment)
        = Ok (pa_intent_hash auth)
    \<and> zp_amount payment \<le> sp_max_amount_zat (sc_policy g)
    \<and> fst (revocation_check (sx_issuer x) (sc_revocation g) (sx_check_times x) (ac_jti claims) (sv_revocation s)) = Live
    \<and> is_wallet_sync_fresh (sv_sync s) (sp_network (sc_policy g)) (sc_wallet_sync_max_lag_blocks g)
        (sc_wallet_sync_stale_after_seconds g) (snapshot_age_seconds (sx_now_ms x) (sv_sync s))
    \<and> (sv_wallet s' \<noteq> sv_wallet s \<longrightarrow> (\<exists>s1.
         reserve_libsql_at J (sx_reserve_net x) (ac_jti claims) (pa_intent_hash auth) (sx_reserve_at x) (sv_ledger s)
           = (Ok ReservedFresh, sv_ledger s1)
         \<and> sv_wallet s1 = sv_wallet s
         \<and> sign_reserved L W J g x body (ac_jti claims) auth payment s1 = (out, s')))"
proof -
  have core: ?thesis
    if v: "verify_spend_authorization L g x headers (sv_seen s) = (Inr claims, seen)"
      and c: "checked_payment L g claims body = Ok (auth, payment)"
      and a: "admit_spend L J g x (ac_jti claims) (pa_intent_hash auth) (s\<lparr>sv_seen := seen\<rparr>) = (Inr adm, s1)"
      and r: "sv_wallet s' \<noteq> sv_wallet s \<Longrightarrow> adm = None \<and> sign_reserved L W J g x body (ac_jti claims) auth payment s1 = (out, s')"
    for claims seen auth payment adm s1
  proof -
    from verify_spend_Ok [OF v] obtain token dpop_proof vd where 1: "extract_dpop_bearer headers = Ok (token, dpop_proof)"
      "verify_access_token (sl_access L) token (sc_jwks g) (sp_audience (sc_policy g)) (sc_leeway_seconds g) = Ok claims"
      "zspend_verify_dpop_proof (sl_dpop L) (sl_decode_claims L) dpop_proof
        \<lparr>db_method = ''POST'', db_request_url = sc_public_sign_url g, db_access_token = token, db_bound_jkt = ac_cnf_jkt claims\<rparr>
        (sx_now_unix x) 60 = Ok vd"
      "\<forall>at. (vf_jti vd, at) \<in> set (sv_seen s) \<longrightarrow> 300 * 1000000000 \<le> sx_instant x - at"
      unfolding DPOP_CLOCK_SKEW_SECONDS_def by blast
    note 2 = checked_payment_Ok [OF c]
    from 2(5,6) obtain rest where 3: "sl_from_uri L (wq_value (sq_payment_request body)) (sp_network (sc_policy g)) = Ok (payment # rest)"
      by auto
    have 4: "sv_wallet s' \<noteq> sv_wallet s \<longrightarrow> (\<exists>s1.
         reserve_libsql_at J (sx_reserve_net x) (ac_jti claims) (pa_intent_hash auth) (sx_reserve_at x) (sv_ledger s)
           = (Ok ReservedFresh, sv_ledger s1) \<and> sv_wallet s1 = sv_wallet s
         \<and> sign_reserved L W J g x body (ac_jti claims) auth payment s1 = (out, s'))"
    proof
      assume "sv_wallet s' \<noteq> sv_wallet s"
      from r [OF this] show "\<exists>s1. reserve_libsql_at J (sx_reserve_net x) (ac_jti claims) (pa_intent_hash auth) (sx_reserve_at x)
           (sv_ledger s) = (Ok ReservedFresh, sv_ledger s1) \<and> sv_wallet s1 = sv_wallet s
         \<and> sign_reserved L W J g x body (ac_jti claims) auth payment s1 = (out, s')"
        using admit_Ok(3) [OF a] admit_frame(1) [OF a] by (intro exI [of _ s1]) simp
    qed
    show ?thesis
      using 1 2(1-5,7,8) 3 4 admit_Ok(1,2) [OF a]
      by (intro exI [of _ token] exI [of _ dpop_proof] exI [of _ claims] exI [of _ vd] exI [of _ auth] exI [of _ payment]
          exI [of _ rest] conjI) simp_all
  qed
  from assms(1) show ?thesis
  proof (cases rule: sign_inner_cases)
    case (unverified e)
    then show ?thesis using assms(2) by simp
  next
    case (refused claims auth payment seen e)
    then show ?thesis using assms(2) admit_frame [OF refused(3)] by simp
  next
    case (replayed claims auth payment seen r)
    then show ?thesis using admit_frame [OF replayed(3)] by (intro core [OF replayed(1-3)]) simp
  next
    case (signing claims auth payment seen s1)
    then show ?thesis by (intro core [OF signing(1-3)]) simp
  qed
qed

theorem wallet_acts_only_authorized_witness:
  "\<exists>claims auth. verify_access_token (sl_access ex_sign_lib) ''tok'' (sc_jwks ex_spend_config) ''wallet'' 60 = Ok claims
    \<and> ac_authorization_details claims = [auth] \<and> sq_payment_id ex_sign_body = pa_payment_id auth"
proof -
  obtain s1 where r: "sign_payment_inner ex_sign_lib ex_wallet ex_signed_json ex_spend_config (ex_sign_context 3)
      (ex_sign_headers ''p'') ex_sign_body ex_spend_state = (Ok ex_signed, s1)" using ex_signs by blast
  have "sv_wallet s1 \<noteq> sv_wallet ex_spend_state \<or> (\<exists>r. (Ok ex_signed :: ProblemResponse + SignPaymentResponse) = Ok r)" by blast
  from wallet_acts_only_authorized [OF r this] obtain token dpop_proof claims auth where
    "extract_dpop_bearer (ex_sign_headers ''p'') = Ok (token, dpop_proof)"
    "verify_access_token (sl_access ex_sign_lib) token (sc_jwks ex_spend_config) (sp_audience (sc_policy ex_spend_config))
       (sc_leeway_seconds ex_spend_config) = Ok claims"
    "ac_authorization_details claims = [auth]" "sq_payment_id ex_sign_body = pa_payment_id auth" by blast
  moreover have "sp_audience (sc_policy ex_spend_config) = ''wallet''" "sc_leeway_seconds ex_spend_config = 60"
    by (simp_all add: ex_spend_config_def)
  ultimately show ?thesis using ex_bearer(1) by auto
qed

text \<open>[C8] A token is signed for once: after a request was answered with a signed payload and the commit reached the
  ledger, whatever run of the service follows -- requests of any kind with any faults, synchronization, wallet
  activity -- a request carrying that token id leaves the wallet untouched, and if it is answered with a
  payload it is that same one.\<close>

theorem token_signs_once:
  assumes "usage_wf J (sv_ledger s)" "\<And>r. storable_json J r"
    and "sign_payment_inner L W J g x headers body s = (Ok r, s1)" "request_jti L g headers = Some jti"
    and "\<And>n. sx_commit_net x n = None" "rj_to_string J r = Ok json"
    and "spend_run L W J g s1 s2"
    and "sign_payment_inner L W J g x' headers' body' s2 = (out, s3)" "request_jti L g headers' = Some jti"
  shows "sv_wallet s3 = sv_wallet s2 \<and> (\<forall>r'. out = Ok r' \<longrightarrow> r' = r)"
proof -
  obtain ih where "usage_wf J (sv_ledger s1)" "table_usage J (sv_ledger s1) jti = Some (Used ih r)"
    using sign_inner_records [OF assms(1,2,5,6,3,4)] by blast
  from spend_run_used [OF assms(7,2) this]
  show ?thesis using sign_inner_used [OF _ assms(2) _ assms(8)] assms(9) by blast
qed

theorem token_signs_once_witness:
  "\<exists>s1 out s3. sign_payment_inner ex_sign_lib ex_wallet ex_signed_json ex_spend_config (ex_sign_context 3)
      (ex_sign_headers ''p'') ex_sign_body ex_spend_state = (Ok ex_signed, s1)
    \<and> sign_payment_inner ex_sign_lib ex_wallet ex_signed_json ex_spend_config (ex_sign_context 4)
      (ex_sign_headers ''q'') ex_sign_body (s1\<lparr>sv_wallet := 9\<rparr>) = (out, s3) \<and> sv_wallet s3 = 9"
proof -
  obtain s1 where r: "sign_payment_inner ex_sign_lib ex_wallet ex_signed_json ex_spend_config (ex_sign_context 3)
      (ex_sign_headers ''p'') ex_sign_body ex_spend_state = (Ok ex_signed, s1)" using ex_signs by blast
  obtain out s3 where r2: "sign_payment_inner ex_sign_lib ex_wallet ex_signed_json ex_spend_config (ex_sign_context 4)
      (ex_sign_headers ''q'') ex_sign_body (s1\<lparr>sv_wallet := 9\<rparr>) = (out, s3)" by fastforce
  have wf: "usage_wf ex_signed_json (sv_ledger ex_spend_state)" by (simp add: usage_wf_def ex_spend_state_def)
  have net: "sx_commit_net (ex_sign_context 3) n = None" for n by (simp add: ex_sign_context_def)
  have json: "rj_to_string ex_signed_json ex_signed = Ok ''signed''" by (simp add: ex_signed_json_def)
  have run: "spend_run ex_sign_lib ex_wallet ex_signed_json ex_spend_config s1 (s1\<lparr>sv_wallet := 9\<rparr>)"
    by (rule spend_run.go [OF spend_run.stop spend_step.scanned])
  from token_signs_once [OF wf ex_storable r ex_jti(1) net json run r2 ex_jti(2)] show ?thesis using r r2 by simp
qed

text \<open>A single statement gets through when its first attempt does, or when the first lost its stream and the retry does.\<close>

definition delivered :: "net \<Rightarrow> bool" where
  "delivered net \<longleftrightarrow> (case net 0 of None \<Rightarrow> True | Some err \<Rightarrow> is_stream_not_found err \<and> net 1 = None)"

lemma commit_usage:
  assumes "usage_wf J t" "\<And>r. storable_json J r"
  shows "usage_wf J (snd (commit_libsql J net jti ih r now t)) \<and> table_usage J (snd (commit_libsql J net jti ih r now t)) =
    (if delivered net \<and> (\<exists>json. rj_to_string J r = Ok json) then (table_usage J t)(jti \<mapsto> Used ih r) else table_usage J t)"
proof (cases "delivered net \<and> (\<exists>json. rj_to_string J r = Ok json)")
  case True
  then obtain t' where c: "commit_libsql J net jti ih r now t = (Ok (), t')"
    by (auto simp: commit_libsql_def execute_def attempt_def delivered_def split: option.splits)
  then show ?thesis using True usage.commit_ok [OF assms c] by simp
next
  case False
  then have "snd (commit_libsql J net jti ih r now t) = t"
    by (auto simp: commit_libsql_def execute_def attempt_def delivered_def split: option.splits sum.splits)
  then show ?thesis using False assms(1) by auto
qed

lemma release_usage:
  assumes "usage_wf J t"
  shows "usage_wf J (snd (release_libsql net jti t)) \<and> table_usage J (snd (release_libsql net jti t)) =
    (if delivered net then (table_usage J t)(jti := released (table_usage J t jti)) else table_usage J t)"
proof (cases "delivered net")
  case True
  then obtain t' where c: "release_libsql net jti t = (Ok (), t')"
    by (auto simp: release_libsql_def execute_def attempt_def delivered_def split: option.splits)
  then show ?thesis using True usage.release_ok [OF assms c] by simp
next
  case False
  then have "snd (release_libsql net jti t) = t"
    by (auto simp: release_libsql_def execute_def attempt_def delivered_def split: option.splits)
  then show ?thesis using False assms(1) by auto
qed

text \<open>[C24] What a signing request leaves in the single-use ledger, on every path and whatever fails.  Either the request did not
  get past its reservation: then the ledger and the wallet are as before, and if it was answered with a payload, that
  payload was on record for its token.  Or it held the reservation, which it gets only for a token without a completed
  record: then a signed payload is recorded as the use of the token when the commit gets through, and otherwise the
  payload is answered all the same and only the pending row is left; and after an error the row of the token is removed when the
  release gets through, and otherwise the pending row is left, to be reclaimed after its two minutes.  No other token's row
  changes.\<close>

theorem sign_ledger_outcomes:
  assumes "usage_wf J (sv_ledger s)" "\<And>r. storable_json J r" "request_jti L g headers = Some jti"
    and "sign_payment_inner L W J g x headers body s = (out, s')"
  shows "usage_wf J (sv_ledger s') \<and>
    (table_usage J (sv_ledger s') = table_usage J (sv_ledger s) \<and> sv_wallet s' = sv_wallet s
        \<and> (\<forall>r. out = Ok r \<longrightarrow> (\<exists>ih. table_usage J (sv_ledger s) jti = Some (Used ih r)))
     \<or> (\<exists>ih. (\<forall>ih' r. table_usage J (sv_ledger s) jti \<noteq> Some (Used ih' r)) \<and> (case out of
          Inr r \<Rightarrow>
            table_usage J (sv_ledger s') = (table_usage J (sv_ledger s))(jti \<mapsto>
              (if delivered (sx_commit_net x) \<and> (\<exists>json. rj_to_string J r = Ok json) then Used ih r
               else Pend ih (sx_reserve_at x)))
        | Inl e \<Rightarrow>
            table_usage J (sv_ledger s') = (table_usage J (sv_ledger s))(jti :=
              (if delivered (sx_release_net x) then None else Some (Pend ih (sx_reserve_at x)))))))"
  using assms(4)
proof (cases rule: sign_inner_cases)
  case (unverified e)
  then show ?thesis using assms(1) by simp
next
  case (refused claims auth payment seen e)
  then show ?thesis using admit_Err_usage [OF _ refused(3)] admit_frame(1) [OF refused(3)] assms(1) by simp
next
  case (replayed claims auth payment seen r)
  then show ?thesis
    using admit_replay_usage [OF _ replayed(3)] admit_frame(1) [OF replayed(3)] assms(1,3) verified_request_jti [OF replayed(1)] by auto
next
  case (signing claims auth payment seen s1)
  have j: "ac_jti claims = jti" using assms(3) verified_request_jti [OF signing(1)] by simp
  have f: "usage_wf J (sv_ledger s1)" "\<forall>ih' r. table_usage J (sv_ledger s) jti \<noteq> Some (Used ih' r)"
    "table_usage J (sv_ledger s1) = (table_usage J (sv_ledger s))(jti \<mapsto> Pend (pa_intent_hash auth) (sx_reserve_at x))"
    using admit_fresh_usage [OF _ signing(3)] assms(1) by (simp_all add: j)
  have "usage_wf J (sv_ledger s') \<and> (case out of
          Inr r \<Rightarrow> table_usage J (sv_ledger s') = (table_usage J (sv_ledger s))(jti \<mapsto>
              (if delivered (sx_commit_net x) \<and> (\<exists>json. rj_to_string J r = Ok json) then Used (pa_intent_hash auth) r
               else Pend (pa_intent_hash auth) (sx_reserve_at x)))
        | Inl e \<Rightarrow> table_usage J (sv_ledger s') = (table_usage J (sv_ledger s))(jti :=
              (if delivered (sx_release_net x) then None else Some (Pend (pa_intent_hash auth) (sx_reserve_at x)))))"
    using sign_reserved_ledger [OF signing(4)]
  proof (elim disjE exE conjE)
    fix r assume "out = Ok r"
      "sv_ledger s' = snd (commit_libsql J (sx_commit_net x) (ac_jti claims) (pa_intent_hash auth) r (sx_commit_at x) (sv_ledger s1))"
    then show ?thesis using commit_usage [OF f(1) assms(2), of "sx_commit_net x" jti] f(3) by (auto simp: j)
  next
    fix e assume "out = Err e" "sv_ledger s' = snd (release_libsql (sx_release_net x) (ac_jti claims) (sv_ledger s1))"
    then show ?thesis using release_usage [OF f(1)] f(3) by (simp add: j)
  qed
  then show ?thesis using f(2) by blast
qed

theorem sign_ledger_outcomes_witness:
  "\<exists>s1 ih. sign_payment_inner ex_sign_lib ex_wallet ex_signed_json ex_spend_config (ex_sign_context 3)
      (ex_sign_headers ''p'') ex_sign_body ex_spend_state = (Ok ex_signed, s1)
    \<and> table_usage ex_signed_json (sv_ledger s1) ''j1'' = Some (Used ih ex_signed)"
proof -
  obtain s1 where r: "sign_payment_inner ex_sign_lib ex_wallet ex_signed_json ex_spend_config (ex_sign_context 3)
      (ex_sign_headers ''p'') ex_sign_body ex_spend_state = (Ok ex_signed, s1)" using ex_signs by blast
  have wf: "usage_wf ex_signed_json (sv_ledger ex_spend_state)" by (simp add: usage_wf_def ex_spend_state_def)
  have net: "delivered (sx_commit_net (ex_sign_context 3))" by (simp add: ex_sign_context_def delivered_def)
  have json: "\<exists>json. rj_to_string ex_signed_json ex_signed = Ok json" by (simp add: ex_signed_json_def)
  have none: "table_usage ex_signed_json (sv_ledger ex_spend_state) ''j1'' = None"
    by (simp add: table_usage_def ex_spend_state_def)
  from sign_ledger_outcomes [OF wf ex_storable ex_jti(1) r] net json none show ?thesis using r by auto
qed

end
