(* ===== verification/Wallet_Setup.thy ===== *)
theory Wallet_Setup
  imports Zcash_Exact
begin

text \<open>
  Provisioning and opening of the wallet (\<open>zspend-runtime/src/init.rs\<close>, \<open>bootstrap.rs\<close>).  The file
  system is a map from paths to files with their permission bits; the outcome of each system call on a path is
  part of the environment \<open>DiskFaults\<close>, so every failure of the source is a branch here.  The keystore library
  (mnemonics, seed derivation, the sealing format) and the wallet library are parameters.
\<close>

subsection \<open>The file system calls of the source\<close>

datatype IoError = IoNotFound | IoOther string

record DiskFile =
  df_content :: string
  df_mode :: nat

type_synonym Disk = "(string, DiskFile) hashmap"

record DiskFaults =
  dk_probe :: "string \<Rightarrow> IoError option"
  dk_remove :: "string \<Rightarrow> IoError option"
  dk_chmod :: "string \<Rightarrow> IoError option"

definition try_exists :: "DiskFaults \<Rightarrow> string \<Rightarrow> Disk \<Rightarrow> IoError + bool" where
  "try_exists F path disk = (case dk_probe F path of Some e \<Rightarrow> Err e | None \<Rightarrow> Ok (hm_get disk path \<noteq> None))"

definition remove_file :: "DiskFaults \<Rightarrow> string \<Rightarrow> Disk \<Rightarrow> (IoError + unit) \<times> Disk" where
  "remove_file F path disk =
    (case dk_remove F path of
       Some e \<Rightarrow> (Err e, disk)
     | None \<Rightarrow> if hm_get disk path = None then (Err IoNotFound, disk) else (Ok (), hm_remove path disk))"

definition set_permissions :: "DiskFaults \<Rightarrow> string \<Rightarrow> nat \<Rightarrow> Disk \<Rightarrow> (IoError + unit) \<times> Disk" where
  "set_permissions F path bits disk =
    (case dk_chmod F path of
       Some e \<Rightarrow> (Err e, disk)
     | None \<Rightarrow> (case hm_get disk path of
                 None \<Rightarrow> (Err IoNotFound, disk)
               | Some f \<Rightarrow> (Ok (), hm_insert path (f\<lparr>df_mode := bits\<rparr>) disk)))"

text \<open>\<open>Path::parent\<close> on a reversed path: trailing separators and \<open>.\<close> components are dropped.\<close>

fun path_trim :: "string \<Rightarrow> string" where
  "path_trim [] = []"
| "path_trim [c] = [c]"
| "path_trim (c # d # r) =
    (if c = CHR ''/'' then path_trim (d # r)
     else if c = CHR ''.'' \<and> d = CHR ''/'' then path_trim (d # r) else c # d # r)"

definition path_parent :: "string \<Rightarrow> string option" where
  "path_parent p =
    (let r = path_trim (rev p) in
     if r = [] \<or> r = ''/'' then None
     else Some (rev (path_trim (dropWhile (\<lambda>c. c \<noteq> CHR ''/'') r))))"

definition path_join :: "string \<Rightarrow> string \<Rightarrow> string" where
  "path_join base file = (if base = [] \<or> last base = CHR ''/'' then base @ file else base @ ''/'' @ file)"

subsection \<open>init\<close>

datatype InitError =
    AlreadyExists string
  | InitProbe string IoError
  | RemoveExisting string IoError
  | RemoveIdentity string IoError
  | StdinRead string
  | InvalidMnemonic string
  | SealFailed string
  | InitChmod string IoError

datatype PostSealAction = RevealMnemonic | LogUnbackedProvision

text \<open>The keystore: phrase parsing and printing, seed derivation with a passphrase, and sealing a seed at a path.\<close>

record ('m, 'seed) KeyLib =
  kl_from_phrase :: "string \<Rightarrow> string + 'm"
  kl_as_phrase :: "'m \<Rightarrow> string"
  kl_word_count :: "'m \<Rightarrow> nat"
  kl_from_mnemonic :: "'m \<Rightarrow> string \<Rightarrow> 'seed"
  kl_seal_seed :: "string \<Rightarrow> 'seed \<Rightarrow> Disk \<Rightarrow> (string + unit) \<times> Disk"

fun post_seal_action :: "bool \<Rightarrow> PostSealAction" where
  "post_seal_action auto_provision = (if auto_provision then LogUnbackedProvision else RevealMnemonic)"

definition identity_sidecar_path :: "string \<Rightarrow> string" where
  "identity_sidecar_path sealed_seed_path = sealed_seed_path @ ''.age-identity''"

definition tighten_permissions :: "DiskFaults \<Rightarrow> string \<Rightarrow> Disk \<Rightarrow> (InitError + unit) \<times> Disk" where
  "tighten_permissions F path disk =
    (case set_permissions F path 384 disk of
       (Inl e, disk') \<Rightarrow> (Err (InitChmod path e), disk')
     | (Inr _, disk') \<Rightarrow> (Ok (), disk'))"

text \<open>The overwrite policy: the steps of \<open>seal_mnemonic\<close> up to the point where the old seed is out of the way.\<close>

definition clear_existing :: "DiskFaults \<Rightarrow> string \<Rightarrow> bool \<Rightarrow> Disk \<Rightarrow> (InitError + unit) \<times> Disk" where
  "clear_existing F path force disk =
    (case try_exists F path disk of
       Inl e \<Rightarrow> (Err (InitProbe path e), disk)
     | Inr existed \<Rightarrow>
       if \<not> existed then (Ok (), disk)
       else if \<not> force then (Err (AlreadyExists path), disk)
       else
    (case remove_file F path disk of
       (Inl e, disk1) \<Rightarrow> (Err (RemoveExisting path e), disk1)
     | (Inr _, disk1) \<Rightarrow>
    (case remove_file F (identity_sidecar_path path) disk1 of
       (Inr _, disk2) \<Rightarrow> (Ok (), disk2)
     | (Inl IoNotFound, disk2) \<Rightarrow> (Ok (), disk2)
     | (Inl e, disk2) \<Rightarrow> (Err (RemoveIdentity (identity_sidecar_path path) e), disk2))))"

definition protect_sealed :: "DiskFaults \<Rightarrow> string \<Rightarrow> Disk \<Rightarrow> (InitError + unit) \<times> Disk" where
  "protect_sealed F path disk =
    (case tighten_permissions F path disk of
       (Inl e, disk1) \<Rightarrow> (Err e, disk1)
     | (Inr _, disk1) \<Rightarrow>
    (case try_exists F (identity_sidecar_path path) disk1 of
       Inl e \<Rightarrow> (Err (InitProbe (identity_sidecar_path path) e), disk1)
     | Inr present \<Rightarrow>
       if present then tighten_permissions F (identity_sidecar_path path) disk1 else (Ok (), disk1)))"

definition seal_mnemonic ::
  "('m, 'seed) KeyLib \<Rightarrow> DiskFaults \<Rightarrow> string \<Rightarrow> bool \<Rightarrow> 'm \<Rightarrow> Disk \<Rightarrow> (InitError + unit) \<times> Disk" where
  "seal_mnemonic K F path force mnemonic disk =
    (case clear_existing F path force disk of
       (Inl e, disk1) \<Rightarrow> (Err e, disk1)
     | (Inr _, disk1) \<Rightarrow>
    (case kl_seal_seed K path (kl_from_mnemonic K mnemonic []) disk1 of
       (Inl reason, disk2) \<Rightarrow> (Err (SealFailed reason), disk2)
     | (Inr _, disk2) \<Rightarrow> protect_sealed F path disk2))"

definition restore_from_phrase ::
  "('m, 'seed) KeyLib \<Rightarrow> DiskFaults \<Rightarrow> string \<Rightarrow> bool \<Rightarrow> string \<Rightarrow> Disk \<Rightarrow> (InitError + unit) \<times> Disk" where
  "restore_from_phrase K F path force phrase disk =
    (case kl_from_phrase K (trim phrase) of
       Inl reason \<Rightarrow> (Err (InvalidMnemonic reason), disk)
     | Inr mnemonic \<Rightarrow> seal_mnemonic K F path force mnemonic disk)"

definition reveal_mnemonic :: "('m, 'seed) KeyLib \<Rightarrow> 'm \<Rightarrow> string list" where
  "reveal_mnemonic K mnemonic =
    [''WALLET SEED BACKUP'',
     ''Write this BIP-39 mnemonic down and store it offline now. It is the ONLY backup of this '' @
     ''wallet, it will not be shown again, and anyone who reads it can spend the funds. Restore '' @
     ''it later with `zspend-runtime init --restore`.'',
     ''word count: '' @ dec_str (kl_word_count K mnemonic),
     kl_as_phrase K mnemonic]"

text \<open>The outcome of reading standard input to its end; both the read error and a failed reader task end up in
  \<open>StdinRead\<close>.\<close>

fun read_mnemonic_from_stdin :: "(string + string + string) \<Rightarrow> InitError + string" where
  "read_mnemonic_from_stdin (Inr (Inr buffer)) = Ok buffer"
| "read_mnemonic_from_stdin (Inr (Inl source)) = Err (StdinRead source)"
| "read_mnemonic_from_stdin (Inl join_err) = Err (StdinRead join_err)"

text \<open>The whole subcommand, with the lines it prints: \<open>generated\<close> is the fresh mnemonic, \<open>stdin\<close> what the reader task
  yields.\<close>

definition init_run ::
  "('m, 'seed) KeyLib \<Rightarrow> DiskFaults \<Rightarrow> 'm \<Rightarrow> (string + string + string) \<Rightarrow> string \<Rightarrow> bool \<Rightarrow> bool \<Rightarrow> bool \<Rightarrow> Disk
    \<Rightarrow> (InitError + unit) \<times> Disk \<times> string list" where
  "init_run K F generated stdin path force restore auto_provision disk =
    (if restore then
       (case read_mnemonic_from_stdin stdin of
          Inl e \<Rightarrow> (Err e, disk, [])
        | Inr phrase \<Rightarrow>
          (case restore_from_phrase K F path force phrase disk of (out, disk') \<Rightarrow> (out, disk', [])))
     else
       (case seal_mnemonic K F path force generated disk of
          (Inl e, disk') \<Rightarrow> (Err e, disk', [])
        | (Inr _, disk') \<Rightarrow>
          (case post_seal_action auto_provision of
             RevealMnemonic \<Rightarrow> (Ok (), disk', reveal_mnemonic K generated)
           | LogUnbackedProvision \<Rightarrow> (Ok (), disk', []))))"

subsection \<open>bootstrap\<close>

definition DEFAULT_MAINNET_BIRTHDAY :: u32 where "DEFAULT_MAINNET_BIRTHDAY = 2500000"
definition DEFAULT_TESTNET_BIRTHDAY :: u32 where "DEFAULT_TESTNET_BIRTHDAY = 4047000"
definition DEFAULT_REGTEST_BIRTHDAY :: u32 where "DEFAULT_REGTEST_BIRTHDAY = 1"

datatype BootstrapError =
    WalletOpen string
  | IndexerAddrMissing
  | IndexerAddrInvalid string string

datatype 'chain ChainSourceFactory = LiveChain | CustomChain 'chain

record 'chain BootstrapInputs =
  bi_network :: ZallyNetwork
  bi_sealed_seed_path :: string
  bi_storage_path :: string
  bi_indexer_grpc_addr :: "string option"
  bi_birthday_override :: "u32 option"
  bi_chain_source_factory :: "'chain ChainSourceFactory"

text \<open>The chain client and the wallet builder: connecting, the settled tip of the current epoch, and opening or
  creating the account at a birthday.\<close>

record ('chain, 'w) WalletBoot =
  wb_connect_remote :: "string \<Rightarrow> ZallyNetwork \<Rightarrow> string + 'chain"
  wb_current_epoch :: "'chain \<Rightarrow> string + u32"
  wb_open_or_create_account :: "ZallyNetwork \<Rightarrow> string \<Rightarrow> string \<Rightarrow> 'chain \<Rightarrow> u32 \<Rightarrow> string + 'w \<times> string"

fun default_birthday :: "ZallyNetwork \<Rightarrow> u32" where
  "default_birthday ZallyMainnet = DEFAULT_MAINNET_BIRTHDAY"
| "default_birthday ZallyRegtest = DEFAULT_REGTEST_BIRTHDAY"
| "default_birthday _ = DEFAULT_TESTNET_BIRTHDAY"

definition resolve_birthday :: "('chain, 'w) WalletBoot \<Rightarrow> ZallyNetwork \<Rightarrow> u32 option \<Rightarrow> 'chain \<Rightarrow> u32" where
  "resolve_birthday B network override_height chain =
    (case override_height of
       Some height \<Rightarrow> height
     | None \<Rightarrow> (case wb_current_epoch B chain of Inr settled_tip \<Rightarrow> settled_tip | Inl _ \<Rightarrow> default_birthday network))"

definition build_zinder_chain_source ::
  "('chain, 'w) WalletBoot \<Rightarrow> ZallyNetwork \<Rightarrow> string option \<Rightarrow> BootstrapError + 'chain" where
  "build_zinder_chain_source B network indexer_grpc_addr =
    (case indexer_grpc_addr of
       None \<Rightarrow> Err IndexerAddrMissing
     | Some raw \<Rightarrow>
       if trim raw = [] then Err IndexerAddrMissing
       else (case wb_connect_remote B (trim raw) network of
               Inl source \<Rightarrow> Err (IndexerAddrInvalid (trim raw) source)
             | Inr chain \<Rightarrow> Ok chain))"

definition bootstrap ::
  "('chain, 'w) WalletBoot \<Rightarrow> 'chain BootstrapInputs \<Rightarrow> BootstrapError + 'w \<times> string \<times> 'chain" where
  "bootstrap B inputs =
    (case (case bi_chain_source_factory inputs of
             LiveChain \<Rightarrow> build_zinder_chain_source B (bi_network inputs) (bi_indexer_grpc_addr inputs)
           | CustomChain custom \<Rightarrow> Ok custom) of
       Inl e \<Rightarrow> Err e
     | Inr chain \<Rightarrow>
       let birthday = resolve_birthday B (bi_network inputs) (bi_birthday_override inputs) chain in
       (case wb_open_or_create_account B (bi_network inputs) (bi_sealed_seed_path inputs) (bi_storage_path inputs) chain birthday of
          Inl source \<Rightarrow> Err (WalletOpen source)
        | Inr (wallet, account_id) \<Rightarrow> Ok (wallet, account_id, chain)))"

subsection \<open>What init leaves on disk\<close>

text \<open>The documented behaviour of the sealing library: it writes the sealed file and its identity sidecar and
  nothing else, and the sealed file is there when it reports success.\<close>

definition seals_in_place :: "('m, 'seed) KeyLib \<Rightarrow> bool" where
  "seals_in_place K \<longleftrightarrow> (\<forall>path seed disk out disk'. kl_seal_seed K path seed disk = (out, disk') \<longrightarrow>
     (\<forall>p. p \<noteq> path \<longrightarrow> p \<noteq> identity_sidecar_path path \<longrightarrow> hm_get disk' p = hm_get disk p)
     \<and> (out = Ok () \<longrightarrow> hm_get disk' path \<noteq> None))"

definition elsewhere_same :: "string \<Rightarrow> Disk \<Rightarrow> Disk \<Rightarrow> bool" where
  "elsewhere_same path disk disk' \<longleftrightarrow>
    (\<forall>p. p \<noteq> path \<longrightarrow> p \<noteq> identity_sidecar_path path \<longrightarrow> hm_get disk' p = hm_get disk p)"

definition owner_only :: "string \<Rightarrow> Disk \<Rightarrow> bool" where
  "owner_only path disk \<longleftrightarrow> (\<forall>f. hm_get disk path = Some f \<longrightarrow> df_mode f = 384)"

lemma elsewhere_refl [simp, intro]: "elsewhere_same path disk disk" by (simp add: elsewhere_same_def)

lemma elsewhere_trans: "elsewhere_same path d1 d2 \<Longrightarrow> elsewhere_same path d2 d3 \<Longrightarrow> elsewhere_same path d1 d3"
  by (simp add: elsewhere_same_def)

lemma sidecar_neq [simp]: "identity_sidecar_path path \<noteq> path" "path \<noteq> identity_sidecar_path path"
  by (simp_all add: identity_sidecar_path_def)

lemma remove_file_frame: "remove_file F q disk = (out, disk') \<Longrightarrow> p \<noteq> q \<Longrightarrow> hm_get disk' p = hm_get disk p"
  by (auto simp: remove_file_def split: option.splits if_splits)

lemma tighten_frame: "tighten_permissions F q disk = (out, disk') \<Longrightarrow> p \<noteq> q \<Longrightarrow> hm_get disk' p = hm_get disk p"
  by (auto simp: hm_simps tighten_permissions_def set_permissions_def split: option.splits if_splits)

lemma tighten_Ok: "tighten_permissions F q disk = (Ok u, disk') \<Longrightarrow> owner_only q disk' \<and> hm_get disk' q \<noteq> None"
  by (auto simp: hm_simps tighten_permissions_def set_permissions_def owner_only_def split: option.splits if_splits)

lemma clear_existing_frame: "clear_existing F path force disk = (out, disk') \<Longrightarrow> elsewhere_same path disk disk'"
  unfolding clear_existing_def elsewhere_same_def
  by (auto simp: remove_file_frame split: sum.splits prod.splits if_splits IoError.splits)

lemma clear_existing_kept:
  "clear_existing F path force disk = (out, disk') \<Longrightarrow> \<not> force \<Longrightarrow> disk' = disk \<and> (hm_get disk path \<noteq> None \<longrightarrow> (\<exists>e. out = Err e))"
  by (auto simp: clear_existing_def try_exists_def split: option.splits if_splits)

lemma protect_sealed_frame: "protect_sealed F path disk = (out, disk') \<Longrightarrow> elsewhere_same path disk disk'"
  unfolding protect_sealed_def elsewhere_same_def
  by (auto simp: tighten_frame split: sum.splits prod.splits if_splits)

lemma protect_sealed_Ok:
  assumes "protect_sealed F path disk = (Ok u, disk')"
  shows "owner_only path disk' \<and> hm_get disk' path \<noteq> None \<and> owner_only (identity_sidecar_path path) disk'"
proof -
  obtain disk1 present where t: "tighten_permissions F path disk = (Ok (), disk1)"
    and p: "try_exists F (identity_sidecar_path path) disk1 = Ok present"
    and r: "(if present then tighten_permissions F (identity_sidecar_path path) disk1 else (Ok (), disk1)) = (Ok u, disk')"
    using assms by (auto simp: protect_sealed_def split: sum.splits prod.splits)
  show ?thesis
  proof (cases present)
    case True
    then have t2: "tighten_permissions F (identity_sidecar_path path) disk1 = (Ok u, disk')" using r by simp
    show ?thesis using tighten_Ok [OF t] tighten_Ok [OF t2] tighten_frame [OF t2, of path] by (simp add: owner_only_def)
  next
    case False
    then show ?thesis using r p tighten_Ok [OF t] by (auto simp: try_exists_def owner_only_def split: option.splits)
  qed
qed

lemma seal_mnemonic_disk:
  assumes "seals_in_place K" "seal_mnemonic K F path force m disk = (out, disk')"
  shows "elsewhere_same path disk disk'"
    and "\<not> force \<Longrightarrow> hm_get disk path \<noteq> None \<Longrightarrow> disk' = disk \<and> (\<exists>e. out = Err e)"
    and "out = Ok () \<Longrightarrow> hm_get disk' path \<noteq> None \<and> owner_only path disk' \<and> owner_only (identity_sidecar_path path) disk'"
proof -
  obtain c d1 where c: "clear_existing F path force disk = (c, d1)" by fastforce
  obtain q d2 where q: "kl_seal_seed K path (kl_from_mnemonic K m []) d1 = (q, d2)" by fastforce
  note frame = clear_existing_frame [OF c]
  have seal: "elsewhere_same path d1 d2" using assms(1) q unfolding seals_in_place_def elsewhere_same_def by blast
  show "elsewhere_same path disk disk'"
    using assms(2) c q frame elsewhere_trans [OF frame seal] protect_sealed_frame elsewhere_trans
    by (fastforce simp: seal_mnemonic_def split: sum.splits)
  show "disk' = disk \<and> (\<exists>e. out = Err e)" if "\<not> force" "hm_get disk path \<noteq> None"
    using assms(2) c clear_existing_kept [OF c that(1)] that(2) by (auto simp: seal_mnemonic_def split: sum.splits)
  show "hm_get disk' path \<noteq> None \<and> owner_only path disk' \<and> owner_only (identity_sidecar_path path) disk'" if "out = Ok ()"
    using assms(2) c q that protect_sealed_Ok by (fastforce simp: seal_mnemonic_def split: sum.splits)
qed

lemma init_run_cases:
  assumes "init_run K F m stdin path force restore auto_provision disk = (out, disk', printed)"
  obtains (refused) e where "out = Err e" "disk' = disk" "printed = []" "restore"
      "\<And>phrase. stdin = Inr (Inr phrase) \<Longrightarrow> isl (kl_from_phrase K (trim phrase))"
  | (sealed) m' where "seal_mnemonic K F path force m' disk = (out, disk')"
      "restore \<longrightarrow> (\<exists>phrase. stdin = Inr (Inr phrase) \<and> kl_from_phrase K (trim phrase) = Ok m')" "restore \<or> m' = m"
      "printed = (if out = Ok () \<and> \<not> restore \<and> \<not> auto_provision then reveal_mnemonic K m else [])"
  using assms that unfolding init_run_def restore_from_phrase_def
  by (cases stdin rule: read_mnemonic_from_stdin.cases)
    (auto split: if_splits sum.splits prod.splits)

text \<open>[C39] Provisioning guards the seed: without \<open>--force\<close> an existing seed makes every run fail with the disk as it was; a
  restore whose input is not a phrase fails before it touches the disk, also with \<open>--force\<close>; no run touches a file
  other than the sealed seed and its identity sidecar; after success the sealed seed exists and both files are
  readable by their owner only; and the mnemonic is printed exactly when a generated seed was sealed for an operator.\<close>

theorem init_guards_seed:
  assumes "seals_in_place K" "init_run K F m stdin path force restore auto_provision disk = (out, disk', printed)"
  shows "(\<not> force \<and> hm_get disk path \<noteq> None \<longrightarrow> (\<exists>e. out = Err e) \<and> disk' = disk \<and> printed = [])
    \<and> (restore \<and> (\<forall>phrase. stdin = Inr (Inr phrase) \<longrightarrow> isl (kl_from_phrase K (trim phrase))) \<longrightarrow> (\<exists>e. out = Err e) \<and> disk' = disk)
    \<and> (\<forall>p. p \<noteq> path \<and> p \<noteq> identity_sidecar_path path \<longrightarrow> hm_get disk' p = hm_get disk p)
    \<and> (out = Ok () \<longrightarrow> (\<exists>f. hm_get disk' path = Some f \<and> df_mode f = 384)
        \<and> (\<forall>f. hm_get disk' (identity_sidecar_path path) = Some f \<longrightarrow> df_mode f = 384))
    \<and> printed = (if out = Ok () \<and> \<not> restore \<and> \<not> auto_provision then reveal_mnemonic K m else [])"
  using assms(2)
proof (cases rule: init_run_cases)
  case (refused e)
  then show ?thesis by auto
next
  case (sealed m')
  note d = seal_mnemonic_disk [OF assms(1) sealed(1)]
  show ?thesis using sealed(2,4) d by (auto simp: elsewhere_same_def owner_only_def)
qed

definition ex_keys :: "(string, string) KeyLib" where
  "ex_keys = \<lparr>kl_from_phrase = (\<lambda>p. if p = [] then Err ''empty'' else Ok p), kl_as_phrase = id, kl_word_count = (\<lambda>_. 24),
     kl_from_mnemonic = (\<lambda>m _. m),
     kl_seal_seed = (\<lambda>path seed disk. (Ok (), hm_insert path \<lparr>df_content = seed, df_mode = 420\<rparr> disk))\<rparr>"

definition ex_faults :: DiskFaults where
  "ex_faults = \<lparr>dk_probe = (\<lambda>_. None), dk_remove = (\<lambda>_. None), dk_chmod = (\<lambda>_. None)\<rparr>"

theorem init_guards_seed_witness:
  "init_run ex_keys ex_faults ''m'' (Err []) ''s'' False False False [] =
     (Ok (), [(''s'', \<lparr>df_content = ''m'', df_mode = 384\<rparr>)], reveal_mnemonic ex_keys ''m'')
   \<and> (\<exists>e. init_run ex_keys ex_faults ''n'' (Err []) ''s'' False False False [(''s'', \<lparr>df_content = ''m'', df_mode = 384\<rparr>)] =
       (Err e, [(''s'', \<lparr>df_content = ''m'', df_mode = 384\<rparr>)], []))"
proof -
  have k: "seals_in_place ex_keys" by (auto simp: hm_simps seals_in_place_def ex_keys_def)
  have 1: "init_run ex_keys ex_faults ''m'' (Err []) ''s'' False False False [] =
     (Ok (), [(''s'', \<lparr>df_content = ''m'', df_mode = 384\<rparr>)], reveal_mnemonic ex_keys ''m'')"
    by (simp add: init_run_def seal_mnemonic_def clear_existing_def protect_sealed_def tighten_permissions_def set_permissions_def
        try_exists_def ex_keys_def ex_faults_def identity_sidecar_path_def)
  obtain out disk' printed where r: "init_run ex_keys ex_faults ''n'' (Err []) ''s'' False False False
      [(''s'', \<lparr>df_content = ''m'', df_mode = 384\<rparr>)] = (out, disk', printed)"
    by (metis prod_cases3)
  from init_guards_seed [OF k this] 1 r show ?thesis by auto
qed

end
