(* ===== verification/Zspend_Runtime.thy ===== *)
theory Zspend_Runtime
  imports Sign_Safety Runtime Wallet_Setup
begin

text \<open>
  The composition root of the wallet service (\<open>zspend-runtime/src/main.rs\<close>): its environment
  configuration, the startup sequence of \<open>serve\<close> with its fail-closed gates, readiness, the wallet-address
  endpoint and the conversions of the sync driver's snapshots.  Socket addresses, files, the JWKS reader, the
  wallet bootstrap, the metrics recorder, the sync driver and the age sealing are parameters; \<open>serve\<close> is
  modelled up to the application state its router is built on.
\<close>

subsection \<open>Startup errors and configuration\<close>

datatype SpendStartupError =
    SpendBindAddress string
  | SpendBind string string
  | SpendServe string
  | SpendTracing string
  | SpendInit string
  | SpendMetrics string
  | NetworkInvalid string
  | EnvMissing string
  | JwksLoad string string
  | SpendBootstrap BootstrapError
  | SpendSyncDriver string
  | SpendSigningPolicy SigningPolicyError
  | ProductionPostureUnmet string
  | DevSeedPostureRefused
  | SpendLedger LedgerError

definition DEFAULT_WALLET_SYNC_POLL_INTERVAL_MS :: u64 where "DEFAULT_WALLET_SYNC_POLL_INTERVAL_MS = 5000"
definition DEFAULT_WALLET_SYNC_MAX_ITERATIONS_PER_WAKE_COUNT :: u32 where
  "DEFAULT_WALLET_SYNC_MAX_ITERATIONS_PER_WAKE_COUNT = 1000"
definition DEFAULT_WALLET_SYNC_TIMEOUT_SECONDS :: u64 where "DEFAULT_WALLET_SYNC_TIMEOUT_SECONDS = 120"
definition DEFAULT_WALLET_SYNC_MAX_LAG_BLOCKS :: u32 where "DEFAULT_WALLET_SYNC_MAX_LAG_BLOCKS = 3"
definition DEFAULT_WALLET_SYNC_STALE_AFTER_SECONDS :: u64 where "DEFAULT_WALLET_SYNC_STALE_AFTER_SECONDS = 30"

record 'addr ListenerConfig =
  lc_bind_addr :: 'addr
  lc_network :: ZallyNetwork

record WalletPaths =
  wp_sealed_seed_path :: string
  wp_storage_path :: string

record SigningConfig =
  sg_max_amount_zat :: u64
  sg_audience :: string
  sg_jwks_file :: "string option"
  sg_public_sign_url :: string
  sg_leeway_seconds :: u64

record WalletSyncConfig =
  wc_poll_interval_ms :: u64
  wc_max_iterations_per_wake_count :: u32
  wc_timeout_seconds :: u64
  wc_max_lag_blocks :: u32
  wc_stale_after_seconds :: u64

record 'addr SpendResolvedConfig =
  sz_bind_addr :: 'addr
  sz_network :: ZallyNetwork
  sz_wallet_paths :: WalletPaths
  sz_signing :: SigningConfig
  sz_posture :: string
  sz_ledger_url :: string
  sz_ledger_auth_token :: "string option"
  sz_allow_dev_seed :: bool
  sz_issuer_url :: "string option"
  sz_revocation_token :: "string option"
  sz_revocation_max_staleness :: nat
  sz_indexer_grpc_addr :: "string option"
  sz_birthday_override :: "u32 option"
  sz_wallet_sync :: WalletSyncConfig

definition optional_env :: "Env \<Rightarrow> string \<Rightarrow> string option" where
  "optional_env env name =
    (case env name of None \<Rightarrow> None | Some raw \<Rightarrow> if trim raw = [] then None else Some (trim raw))"

definition env_flag :: "Env \<Rightarrow> string \<Rightarrow> bool" where
  "env_flag env name = (case env name of None \<Rightarrow> False | Some raw \<Rightarrow> trim raw = ''1'')"

definition env_u64_or :: "Env \<Rightarrow> string \<Rightarrow> u64 \<Rightarrow> u64" where
  "env_u64_or env name fallback =
    (case env name of None \<Rightarrow> fallback | Some raw \<Rightarrow> (case parse_u64 (trim raw) of None \<Rightarrow> fallback | Some v \<Rightarrow> v))"

definition env_u32_or :: "Env \<Rightarrow> string \<Rightarrow> u32 \<Rightarrow> u32" where
  "env_u32_or env name fallback =
    (case env name of None \<Rightarrow> fallback | Some raw \<Rightarrow> (case parse_u32 (trim raw) of None \<Rightarrow> fallback | Some v \<Rightarrow> v))"

definition default_ledger_url :: "string \<Rightarrow> string" where
  "default_ledger_url storage_path =
    ''file:'' @ path_join (case path_parent storage_path of None \<Rightarrow> ''.'' | Some p \<Rightarrow> p) ''usage-ledger.db''"

definition required_path :: "Env \<Rightarrow> string \<Rightarrow> SpendStartupError + string" where
  "required_path env name =
    (case env name of None \<Rightarrow> Err (EnvMissing name)
     | Some raw \<Rightarrow> if trim raw = [] then Err (EnvMissing name) else Ok raw)"

definition parse_network :: "string \<Rightarrow> SpendStartupError + ZallyNetwork" where
  "parse_network raw =
    (if raw = ''mainnet'' then Ok ZallyMainnet
     else if raw = ''testnet'' then Ok ZallyTestnet
     else if raw = ''regtest'' then Ok ZallyRegtest
     else Err (NetworkInvalid raw))"

definition read_listener_config :: "(string \<Rightarrow> 'addr option) \<Rightarrow> Env \<Rightarrow> SpendStartupError + 'addr ListenerConfig" where
  "read_listener_config parse_addr env =
    (let bind_raw = var_or env ''ZSPEND_BIND_ADDR'' ''127.0.0.1:8090'' in
     case parse_addr bind_raw of
       None \<Rightarrow> Err (SpendBindAddress bind_raw)
     | Some bind_addr \<Rightarrow>
       (case parse_network (var_or env ''ZSPEND_NETWORK'' ''testnet'') of
          Inl e \<Rightarrow> Err e
        | Inr network \<Rightarrow> Ok \<lparr>lc_bind_addr = bind_addr, lc_network = network\<rparr>))"

definition read_wallet_paths :: "Env \<Rightarrow> SpendStartupError + WalletPaths" where
  "read_wallet_paths env =
    (case required_path env ''ZSPEND_SEALED_SEED_PATH'' of
       Inl e \<Rightarrow> Err e
     | Inr sealed_seed_path \<Rightarrow>
       (case required_path env ''ZSPEND_STORAGE_PATH'' of
          Inl e \<Rightarrow> Err e
        | Inr storage_path \<Rightarrow> Ok \<lparr>wp_sealed_seed_path = sealed_seed_path, wp_storage_path = storage_path\<rparr>))"

definition read_signing_config :: "('addr \<Rightarrow> string) \<Rightarrow> Env \<Rightarrow> 'addr \<Rightarrow> SpendStartupError + SigningConfig" where
  "read_signing_config addr_text env bind_addr =
    (let max_amount_zat = env_u64_or env ''ZSPEND_MAX_AMOUNT_ZAT'' 1000000000 in
     case optional_env env ''ZSPEND_AUDIENCE'' of
       None \<Rightarrow> Err (EnvMissing ''ZSPEND_AUDIENCE'')
     | Some audience \<Rightarrow>
       let public_base = (case optional_env env ''ZSPEND_PUBLIC_URL'' of Some u \<Rightarrow> u | None \<Rightarrow> ''http://'' @ addr_text bind_addr)
       in Ok \<lparr>sg_max_amount_zat = max_amount_zat, sg_audience = audience, sg_jwks_file = optional_env env ''ZSPEND_JWKS_FILE'',
              sg_public_sign_url = trim_end_matches CHR ''/'' public_base @ ''/v1/payments/sign'',
              sg_leeway_seconds = env_u64_or env ''ZSPEND_LEEWAY_SECONDS'' 60\<rparr>)"

definition read_wallet_sync_config :: "Env \<Rightarrow> WalletSyncConfig" where
  "read_wallet_sync_config env =
    \<lparr>wc_poll_interval_ms = env_u64_or env ''ZSPEND_WALLET_SYNC_POLL_INTERVAL_MS'' DEFAULT_WALLET_SYNC_POLL_INTERVAL_MS,
     wc_max_iterations_per_wake_count = env_u32_or env ''ZSPEND_WALLET_SYNC_MAX_ITERATIONS_PER_WAKE_COUNT''
       DEFAULT_WALLET_SYNC_MAX_ITERATIONS_PER_WAKE_COUNT,
     wc_timeout_seconds = env_u64_or env ''ZSPEND_WALLET_SYNC_TIMEOUT_SECONDS'' DEFAULT_WALLET_SYNC_TIMEOUT_SECONDS,
     wc_max_lag_blocks = env_u32_or env ''ZSPEND_WALLET_SYNC_MAX_LAG_BLOCKS'' DEFAULT_WALLET_SYNC_MAX_LAG_BLOCKS,
     wc_stale_after_seconds = env_u64_or env ''ZSPEND_WALLET_SYNC_STALE_AFTER_SECONDS''
       DEFAULT_WALLET_SYNC_STALE_AFTER_SECONDS\<rparr>"

fun posture_for_network :: "ZallyNetwork \<Rightarrow> string" where
  "posture_for_network ZallyMainnet = ''production''"
| "posture_for_network _ = ''dev''"

text \<open>The staleness bound in nanoseconds.\<close>

definition spend_from_env ::
  "(string \<Rightarrow> 'addr option) \<Rightarrow> ('addr \<Rightarrow> string) \<Rightarrow> Env \<Rightarrow> SpendStartupError + 'addr SpendResolvedConfig" where
  "spend_from_env parse_addr addr_text env =
    (case read_listener_config parse_addr env of
       Inl e \<Rightarrow> Err e
     | Inr listener \<Rightarrow>
    (case read_wallet_paths env of
       Inl e \<Rightarrow> Err e
     | Inr wallet_paths \<Rightarrow>
    (case read_signing_config addr_text env (lc_bind_addr listener) of
       Inl e \<Rightarrow> Err e
     | Inr signing \<Rightarrow>
       Ok \<lparr>sz_bind_addr = lc_bind_addr listener, sz_network = lc_network listener, sz_wallet_paths = wallet_paths,
           sz_signing = signing, sz_posture = posture_for_network (lc_network listener),
           sz_ledger_url = (case optional_env env ''ZSPEND_LEDGER_URL'' of Some u \<Rightarrow> u
                            | None \<Rightarrow> default_ledger_url (wp_storage_path wallet_paths)),
           sz_ledger_auth_token = optional_env env ''ZSPEND_LEDGER_AUTH_TOKEN'',
           sz_allow_dev_seed = env_flag env ''ZSPEND_ALLOW_DEV_SEED'',
           sz_issuer_url = optional_env env ''ZSPEND_ISSUER_URL'',
           sz_revocation_token = optional_env env ''ZSPEND_REVOCATION_TOKEN'',
           sz_revocation_max_staleness = 1000000000 * unat (env_u64_or env ''ZSPEND_REVOCATION_MAX_STALENESS_SECONDS''
             (of_nat DEFAULT_REVOCATION_MAX_STALENESS_SECONDS)),
           sz_indexer_grpc_addr = optional_env env ''ZSPEND_CHAIN_SOURCE_URL'',
           sz_birthday_override = (case env ''ZSPEND_BIRTHDAY_HEIGHT'' of None \<Rightarrow> None | Some raw \<Rightarrow> parse_u32 (trim raw)),
           sz_wallet_sync = read_wallet_sync_config env\<rparr>)))"

subsection \<open>Snapshots of the sync driver\<close>

text \<open>The driver's own types as far as the conversions tell their values apart; the \<open>Other\<close> values are the open tails.\<close>

datatype SyncDriverPhase = DriverStarting | DriverSyncing | DriverWaiting | DriverRecovering | DriverParked | DriverClosing
  | DriverClosed | DriverOther

datatype DriverSyncStatus = StatusNotStarted | StatusWaitingForTip | StatusStarting | StatusCatchingUp | StatusAtTip
  | StatusTipRegressed | StatusOther

record DriverFault =
  df_reason :: string
  df_repair_label :: string
  df_occurred_at_ms :: u64
  df_consecutive_faults :: u32

record SyncSnapshot =
  ds_network :: ZallyNetwork
  ds_phase :: SyncDriverPhase
  ds_sync_status :: DriverSyncStatus
  ds_scanned_height :: "u32 option"
  ds_visible_tip_height :: "u32 option"
  ds_settled_tip_height :: "u32 option"
  ds_lag_blocks :: "u32 option"
  ds_last_fault :: "DriverFault option"
  ds_published_at_ms :: u64

fun phase_from_driver :: "SyncDriverPhase \<Rightarrow> WalletSyncPhase" where
  "phase_from_driver DriverStarting = PhaseStarting"
| "phase_from_driver DriverSyncing = PhaseSyncing"
| "phase_from_driver DriverWaiting = PhaseWaiting"
| "phase_from_driver DriverRecovering = PhaseRecovering"
| "phase_from_driver DriverParked = PhaseParked"
| "phase_from_driver DriverClosing = PhaseClosing"
| "phase_from_driver DriverClosed = PhaseClosed"
| "phase_from_driver DriverOther = PhaseUnknown"

fun scan_from_driver :: "DriverSyncStatus \<Rightarrow> WalletSyncScanStatus" where
  "scan_from_driver StatusNotStarted = ScanNotStarted"
| "scan_from_driver StatusWaitingForTip = ScanWaitingForTip"
| "scan_from_driver StatusStarting = ScanStarting"
| "scan_from_driver StatusCatchingUp = ScanCatchingUp"
| "scan_from_driver StatusAtTip = ScanAtTip"
| "scan_from_driver StatusTipRegressed = ScanTipRegressed"
| "scan_from_driver StatusOther = ScanUnknown"

definition fault_from_driver :: "DriverFault \<Rightarrow> WalletSyncFault" where
  "fault_from_driver f = \<lparr>wf_reason = df_reason f, wf_repair = df_repair_label f, wf_occurred_at_ms = df_occurred_at_ms f,
     wf_consecutive_faults = df_consecutive_faults f\<rparr>"

definition snapshot_from_driver :: "SyncSnapshot \<Rightarrow> WalletSyncSnapshot" where
  "snapshot_from_driver d =
    \<lparr>ws_network = ds_network d, ws_phase = phase_from_driver (ds_phase d), ws_sync_status = scan_from_driver (ds_sync_status d),
     ws_scanned_height = ds_scanned_height d, ws_visible_tip_height = ds_visible_tip_height d,
     ws_settled_tip_height = ds_settled_tip_height d, ws_lag_blocks = ds_lag_blocks d,
     ws_last_fault = map_option fault_from_driver (ds_last_fault d), ws_published_at_ms = ds_published_at_ms d\<rparr>"

definition publish_sync :: "SyncSnapshot \<Rightarrow> 'w SpendState \<Rightarrow> 'w SpendState" where
  "publish_sync d s = s\<lparr>sv_sync := snapshot_from_driver d\<rparr>"

subsection \<open>Startup\<close>

definition enforce_production_posture ::
  "string \<Rightarrow> bool \<Rightarrow> bool \<Rightarrow> SealingPosture \<Rightarrow> bool \<Rightarrow> SpendStartupError + unit" where
  "enforce_production_posture posture issuer_present jwks_empty seal_posture allow_dev_seed =
    (if seal_posture = SealDev \<and> \<not> allow_dev_seed then Err DevSeedPostureRefused
     else if posture \<noteq> ''production'' then Ok ()
     else if \<not> issuer_present then Err (ProductionPostureUnmet ''ZSPEND_ISSUER_URL (revocation enforcement)'')
     else if jwks_empty then Err (ProductionPostureUnmet ''a non-empty issuer JWKS (ZSPEND_JWKS_FILE)'')
     else Ok ())"

definition load_jwks ::
  "(string \<Rightarrow> string + string) \<Rightarrow> (string \<Rightarrow> string + JwkSet) \<Rightarrow> string option \<Rightarrow> SpendStartupError + JwkSet" where
  "load_jwks read_to_string from_str path =
    (case path of
       None \<Rightarrow> Ok []
     | Some p \<Rightarrow>
       (case read_to_string p of
          Inl reason \<Rightarrow> Err (JwksLoad p reason)
        | Inr raw \<Rightarrow> (case from_str raw of Inl reason \<Rightarrow> Err (JwksLoad p reason) | Inr jwks \<Rightarrow> Ok jwks)))"

definition build_revocation_store :: "'addr SpendResolvedConfig \<Rightarrow> RevocationConfig \<times> CacheState" where
  "build_revocation_store config =
    (case sz_issuer_url config of
       None \<Rightarrow> revocation_disabled
     | Some _ \<Rightarrow> revocation_new (sz_issuer_url config) (sz_revocation_token config) (sz_revocation_max_staleness config))"

definition build_signing_policy :: "(string \<Rightarrow> bool) \<Rightarrow> 'addr SpendResolvedConfig \<Rightarrow> SpendStartupError + SigningPolicy" where
  "build_signing_policy url_parses config =
    (case policy_build url_parses \<lparr>sb_network = Some (sz_network config), sb_max_amount_zat = Some (sg_max_amount_zat (sz_signing config)),
            sb_recipient_allowlist = None, sb_audience = Some (sg_audience (sz_signing config))\<rparr> of
       Inl e \<Rightarrow> Err (SpendSigningPolicy e) | Inr p \<Rightarrow> Ok p)"

definition open_spend_idempotency_cache ::
  "(StoreError \<Rightarrow> string) \<Rightarrow> net \<Rightarrow> 'addr SpendResolvedConfig \<Rightarrow> int list \<Rightarrow> (SpendStartupError + StoreUrl) \<times> int list" where
  "open_spend_idempotency_cache err_text net config versions =
    (case usage_open err_text net (sz_ledger_url config) (sz_ledger_auth_token config) versions of
       (Inl e, vs) \<Rightarrow> (Err (SpendLedger e), vs) | (Inr c, vs) \<Rightarrow> (Ok c, vs))"

definition build_app_state ::
  "'addr SpendResolvedConfig \<Rightarrow> string \<Rightarrow> SigningPolicy \<Rightarrow> JwkSet \<Rightarrow> RevocationConfig \<times> CacheState \<Rightarrow> SealingPosture
    \<Rightarrow> 'w \<Rightarrow> UsageTable \<Rightarrow> WalletSyncSnapshot \<Rightarrow> SpendConfig \<times> 'w SpendState" where
  "build_app_state config account_id policy jwks revocation seal_posture wallet ledger wallet_sync =
    (\<lparr>sc_account_id = account_id, sc_policy = policy, sc_jwks = jwks, sc_public_sign_url = sg_public_sign_url (sz_signing config),
      sc_leeway_seconds = sg_leeway_seconds (sz_signing config), sc_posture = sz_posture config, sc_seal_posture = seal_posture,
      sc_revocation = fst revocation, sc_wallet_sync_max_lag_blocks = wc_max_lag_blocks (sz_wallet_sync config),
      sc_wallet_sync_stale_after_seconds = wc_stale_after_seconds (sz_wallet_sync config)\<rparr>,
     \<lparr>sv_wallet = wallet, sv_seen = [], sv_ledger = ledger, sv_revocation = snd revocation, sv_sync = wallet_sync\<rparr>)"

text \<open>The services startup calls.  The ledger database is the migration versions it records and its rows.\<close>

record ('addr, 'chain, 'w) SpendBoot =
  bo_parse_addr :: "string \<Rightarrow> 'addr option"
  bo_addr_text :: "'addr \<Rightarrow> string"
  bo_install_metrics :: "string + unit"
  bo_seal_posture :: "string \<Rightarrow> SealingPosture"
  bo_store_error_text :: "StoreError \<Rightarrow> string"
  bo_ledger_net :: net
  bo_wallet :: "('chain, 'w) WalletBoot"
  bo_start_sync :: "'w \<Rightarrow> 'chain \<Rightarrow> WalletSyncConfig \<Rightarrow> string + SyncSnapshot"
  bo_url_parses :: "string \<Rightarrow> bool"
  bo_read_to_string :: "string \<Rightarrow> string + string"
  bo_jwks_from_str :: "string \<Rightarrow> string + JwkSet"

definition start_wallet_sync ::
  "('addr, 'chain, 'w) SpendBoot \<Rightarrow> 'w \<Rightarrow> 'chain \<Rightarrow> WalletSyncConfig \<Rightarrow> SpendStartupError + WalletSyncSnapshot" where
  "start_wallet_sync B wallet chain config =
    (case bo_start_sync B wallet chain config of Inl reason \<Rightarrow> Err (SpendSyncDriver reason) | Inr d \<Rightarrow> Ok (snapshot_from_driver d))"

definition bootstrap_inputs :: "'addr SpendResolvedConfig \<Rightarrow> 'chain BootstrapInputs" where
  "bootstrap_inputs config =
    \<lparr>bi_network = sz_network config, bi_sealed_seed_path = wp_sealed_seed_path (sz_wallet_paths config),
     bi_storage_path = wp_storage_path (sz_wallet_paths config), bi_indexer_grpc_addr = sz_indexer_grpc_addr config,
     bi_birthday_override = sz_birthday_override config, bi_chain_source_factory = LiveChain\<rparr>"

definition serve ::
  "('addr, 'chain, 'w) SpendBoot \<Rightarrow> Env \<Rightarrow> int list \<times> UsageTable
    \<Rightarrow> (SpendStartupError + SpendConfig \<times> 'w SpendState) \<times> int list \<times> UsageTable" where
  "serve B env db =
    (case spend_from_env (bo_parse_addr B) (bo_addr_text B) env of
       Inl e \<Rightarrow> (Err e, db)
     | Inr config \<Rightarrow>
    (case bo_install_metrics B of
       Inl reason \<Rightarrow> (Err (SpendMetrics reason), db)
     | Inr _ \<Rightarrow>
       let revocation = build_revocation_store config;
           seal_posture = bo_seal_posture B (wp_sealed_seed_path (sz_wallet_paths config)) in
    (case open_spend_idempotency_cache (bo_store_error_text B) (bo_ledger_net B) config (fst db) of
       (Inl e, versions) \<Rightarrow> (Err e, versions, snd db)
     | (Inr _, versions) \<Rightarrow>
       let db1 = (versions, snd db) in
    (case bootstrap (bo_wallet B) (bootstrap_inputs config) of
       Inl source \<Rightarrow> (Err (SpendBootstrap source), db1)
     | Inr (wallet, account_id, chain) \<Rightarrow>
    (case start_wallet_sync B wallet chain (sz_wallet_sync config) of
       Inl e \<Rightarrow> (Err e, db1)
     | Inr wallet_sync \<Rightarrow>
    (case build_signing_policy (bo_url_parses B) config of
       Inl e \<Rightarrow> (Err e, db1)
     | Inr policy \<Rightarrow>
    (case load_jwks (bo_read_to_string B) (bo_jwks_from_str B) (sg_jwks_file (sz_signing config)) of
       Inl e \<Rightarrow> (Err e, db1)
     | Inr jwks \<Rightarrow>
    (case enforce_production_posture (sz_posture config) (sz_issuer_url config \<noteq> None) (jwks = []) seal_posture
            (sz_allow_dev_seed config) of
       Inl e \<Rightarrow> (Err e, db1)
     | Inr _ \<Rightarrow>
       (Ok (build_app_state config account_id policy jwks revocation seal_posture wallet (snd db) wallet_sync), db1)))))))))"

subsection \<open>The sign route\<close>

fun problem_kind_metric_label :: "ProblemKind \<Rightarrow> string" where
  "problem_kind_metric_label PaymentRequestInvalid = ''payment_request_invalid''"
| "problem_kind_metric_label IntentMismatch = ''intent_mismatch''"
| "problem_kind_metric_label AudienceMismatch = ''audience_mismatch''"
| "problem_kind_metric_label TokenAlreadyConsumed = ''token_already_consumed''"
| "problem_kind_metric_label InsufficientFunds = ''insufficient_funds''"
| "problem_kind_metric_label SeedUnavailable = ''seed_unavailable''"
| "problem_kind_metric_label ChainUnreachable = ''chain_unreachable''"
| "problem_kind_metric_label NotReady = ''not_ready''"
| "problem_kind_metric_label WalletUnavailable = ''wallet_unavailable''"
| "problem_kind_metric_label DpopProofInvalid = ''dpop_proof_invalid''"
| "problem_kind_metric_label AccessTokenInvalid = ''access_token_invalid''"
| "problem_kind_metric_label TargetExpiryStale = ''target_expiry_stale''"
| "problem_kind_metric_label TargetExpiryMismatchInternal = ''target_expiry_mismatch_internal''"
| "problem_kind_metric_label TokenRevoked = ''token_revoked''"
| "problem_kind_metric_label ProblemKind.RecipientMismatch = ''recipient_mismatch''"
| "problem_kind_metric_label AmountExceeded = ''amount_exceeded''"
| "problem_kind_metric_label AuthorizationExpired = ''authorization_expired''"
| "problem_kind_metric_label RarTooManyEntries = ''rar_too_many_entries''"
| "problem_kind_metric_label RevocationCacheStale = ''revocation_cache_stale''"

fun revocation_result_label :: "RevocationOutcome \<Rightarrow> string" where
  "revocation_result_label Live = ''live''"
| "revocation_result_label Revoked = ''revoked''"
| "revocation_result_label CacheStale = ''cache_stale''"

fun reservation_label :: "(LedgerError + 'r Reservation) \<Rightarrow> string" where
  "reservation_label (Inr ReservedFresh) = ''fresh''"
| "reservation_label (Inr (ReservedCompleted _)) = ''completed''"
| "reservation_label (Inr IntentConflict) = ''intent_conflict''"
| "reservation_label (Inr ReservedPending) = ''pending''"
| "reservation_label (Inl _) = ''error''"

text \<open>The handler with the \<open>outcome\<close> label it counts the request under.\<close>

definition sign_payment ::
  "('json, 'key, 'url, 'akey, 'rcp) SignLib \<Rightarrow> ('w, 'rcp) WalletLib \<Rightarrow> SignPaymentResponse ResponseJson \<Rightarrow> SpendConfig
    \<Rightarrow> SignContext \<Rightarrow> HeaderMap \<Rightarrow> SignPaymentRequest \<Rightarrow> 'w SpendState
    \<Rightarrow> (ProblemResponse + SignPaymentResponse) \<times> string \<times> 'w SpendState" where
  "sign_payment L W J g x headers body s =
    (case sign_payment_inner L W J g x headers body s of
       (answer, s') \<Rightarrow>
         (answer, (case answer of Inr _ \<Rightarrow> ''signed'' | Inl problem \<Rightarrow> problem_kind_metric_label (pd_kind (pr_body problem))), s'))"

lemma problem_label_inj: "problem_kind_metric_label a = problem_kind_metric_label b \<longleftrightarrow> a = b"
  by (cases a; cases b; simp)

lemma sign_payment_signed_iff:
  "sign_payment L W J g x headers body s = (out, label, s') \<Longrightarrow> label = ''signed'' \<longleftrightarrow> (\<exists>r. out = Ok r)"
proof -
  have "problem_kind_metric_label k \<noteq> ''signed''" for k by (cases k) simp_all
  then show "sign_payment L W J g x headers body s = (out, label, s') \<Longrightarrow> label = ''signed'' \<longleftrightarrow> (\<exists>r. out = Ok r)"
    by (auto simp: sign_payment_def split: sum.splits prod.splits)
qed

subsection \<open>Readiness\<close>

fun sync_status_label :: "WalletSyncScanStatus \<Rightarrow> string" where
  "sync_status_label ScanNotStarted = ''not_started''"
| "sync_status_label ScanWaitingForTip = ''waiting_for_tip''"
| "sync_status_label ScanStarting = ''starting''"
| "sync_status_label ScanCatchingUp = ''catching_up''"
| "sync_status_label ScanAtTip = ''at_tip''"
| "sync_status_label ScanTipRegressed = ''tip_regressed''"
| "sync_status_label ScanUnknown = ''unknown''"

fun network_label :: "ZallyNetwork \<Rightarrow> string" where
  "network_label ZallyMainnet = ''mainnet''"
| "network_label ZallyRegtest = ''regtest''"
| "network_label _ = ''testnet''"

fun seal_posture_str :: "SealingPosture \<Rightarrow> string" where
  "seal_posture_str SealDev = ''dev''"
| "seal_posture_str SealHsm = ''hsm''"
| "seal_posture_str SealKms = ''kms''"
| "seal_posture_str SealOther = ''unknown''"

definition json_num :: "nat \<Rightarrow> Json" where "json_num n = JNumber (dec_str n)"

definition json_opt :: "u32 option \<Rightarrow> Json" where
  "json_opt v = (case v of None \<Rightarrow> JNull | Some n \<Rightarrow> json_num (unat n))"

definition last_fault_body :: "WalletSyncFault \<Rightarrow> Json" where
  "last_fault_body fault = JObject
     [(''reason'', JString (wf_reason fault)), (''repair'', JString (wf_repair fault)),
      (''occurred_at_ms'', json_num (unat (wf_occurred_at_ms fault))),
      (''consecutive_faults'', json_num (unat (wf_consecutive_faults fault)))]"

definition wallet_sync_readiness :: "SpendConfig \<Rightarrow> u64 \<Rightarrow> WalletSyncSnapshot \<Rightarrow> Json \<times> bool" where
  "wallet_sync_readiness g wall_ms snap =
    (let age = snapshot_age_seconds wall_ms snap;
         fresh = is_wallet_sync_fresh snap (sp_network (sc_policy g)) (sc_wallet_sync_max_lag_blocks g)
           (sc_wallet_sync_stale_after_seconds g) age
     in (JObject
          [(''network'', JString (network_label (ws_network snap))), (''phase'', JString (sync_phase_label (ws_phase snap))),
           (''sync_status'', JString (sync_status_label (ws_sync_status snap))),
           (''scanned_height'', json_opt (ws_scanned_height snap)),
           (''visible_tip_height'', json_opt (ws_visible_tip_height snap)),
           (''settled_tip_height'', json_opt (ws_settled_tip_height snap)),
           (''lag_blocks'', json_opt (ws_lag_blocks snap)), (''snapshot_age_seconds'', json_num (unat age)),
           (''freshness'', JString (if fresh then ''fresh'' else ''stale'')), (''is_fresh'', JBool fresh),
           (''last_fault'', case ws_last_fault snap of None \<Rightarrow> JNull | Some fault \<Rightarrow> last_fault_body fault)], fresh))"

definition readyz_state :: "SpendConfig \<Rightarrow> nat \<Rightarrow> u64 \<Rightarrow> 'w SpendState \<Rightarrow> nat \<times> Json" where
  "readyz_state g instant wall_ms s =
    (let jwks_cache = (if sc_jwks g = [] then ''empty'' else ''loaded'');
         revocation_cache = revocation_readiness (sc_revocation g) instant (sv_revocation s);
         revocation_ready = (if revocation_cache = ''stale'' then False
           else if revocation_cache = ''disabled'' then sc_posture g \<noteq> ''production'' else True);
         (wallet_sync, wallet_sync_ready) = wallet_sync_readiness g wall_ms (sv_sync s);
         ready = (jwks_cache = ''loaded'' \<and> revocation_ready \<and> wallet_sync_ready)
     in (if ready then 200 else 503,
         JObject [(''network'', JString (network_label (sp_network (sc_policy g)))),
           (''sealed_seed'', JString (seal_posture_str (sc_seal_posture g))), (''posture'', JString (sc_posture g)),
           (''jwks_cache'', JString jwks_cache), (''revocation_cache'', JString revocation_cache), (''wallet_sync'', wallet_sync)]))"

subsection \<open>The wallet address\<close>

text \<open>The address book of the wallet: exposed addresses and the derivation of a new one, as encoded text.\<close>

record 'w AddressLib =
  ad_list_exposed :: "string \<Rightarrow> 'w \<Rightarrow> (string + string list) \<times> 'w"
  ad_derive_next :: "string \<Rightarrow> 'w \<Rightarrow> (string + string) \<times> 'w"

definition current_unified_address :: "'w AddressLib \<Rightarrow> SpendConfig \<Rightarrow> 'w \<Rightarrow> (string + string) \<times> 'w" where
  "current_unified_address A g w =
    (case ad_list_exposed A (sc_account_id g) w of
       (Inl e, w1) \<Rightarrow> (Err e, w1)
     | (Inr (row # _), w1) \<Rightarrow> (Ok row, w1)
     | (Inr [], w1) \<Rightarrow> ad_derive_next A (sc_account_id g) w1)"

record WalletAddressResponse =
  wa_ua :: string
  wa_network :: WireNetwork

definition get_wallet_address ::
  "'w AddressLib \<Rightarrow> SpendConfig \<Rightarrow> 'w SpendState \<Rightarrow> (ProblemResponse + WalletAddressResponse) \<times> 'w SpendState" where
  "get_wallet_address A g s =
    (case current_unified_address A g (sv_wallet s) of
       (Inl err, w) \<Rightarrow> (Err (server_error (not_retryable NotReady ''wallet not ready'' err)), s\<lparr>sv_wallet := w\<rparr>)
     | (Inr ua, w) \<Rightarrow> (Ok \<lparr>wa_ua = ua, wa_network = from_zally (sp_network (sc_policy g))\<rparr>, s\<lparr>sv_wallet := w\<rparr>))"

definition get_wallet_configuration :: "SpendConfig \<Rightarrow> Json" where
  "get_wallet_configuration g = JObject
     [(''supported_formats'', JArray [JString SIGNED_PAYLOAD_FORMAT_WIRE_LITERAL]), (''supported_schemes'', JArray [JString ''zip321'']),
      (''intent_hash_algorithm'', JString ''v1:sha256''), (''audience'', JString (sp_audience (sc_policy g)))]"

subsection \<open>Properties\<close>

text \<open>[C38] The wallet service starts only in a safe posture: when startup succeeds, the seed is sealed by something
  stronger than a file or the operator set \<open>ZSPEND_ALLOW_DEV_SEED\<close> to 1; on mainnet an issuer URL is
  configured, so that revocation is enforced, and the key set is not empty; the policy serves the
  configured network and a non-blank audience that is a URL, and no recipient allow list is in force; the
  replay set is empty and the ledger rows are those of the database.\<close>

theorem serve_safe_posture:
  assumes "serve B env db = (Ok (g, s), db')"
  shows "(sc_seal_posture g = SealDev \<longrightarrow> (\<exists>raw. env ''ZSPEND_ALLOW_DEV_SEED'' = Some raw \<and> trim raw = ''1''))
    \<and> (sp_network (sc_policy g) = ZallyMainnet \<longrightarrow>
         is_enabled (sc_revocation g) \<and> sc_jwks g \<noteq> [] \<and> sc_posture g = ''production'')
    \<and> (\<exists>raw. env ''ZSPEND_AUDIENCE'' = Some raw \<and> sp_audience (sc_policy g) = trim raw \<and> trim raw \<noteq> [])
    \<and> bo_url_parses B (sp_audience (sc_policy g)) \<and> sp_recipient_allowlist (sc_policy g) = None
    \<and> sv_seen s = [] \<and> sv_ledger s = snd db \<and> snd db' = snd db"
proof -
  obtain config wallet account_id wallet_sync policy jwks versions c where
    conf: "spend_from_env (bo_parse_addr B) (bo_addr_text B) env = Ok config"
    and pol: "build_signing_policy (bo_url_parses B) config = Ok policy"
    and post: "\<exists>u. enforce_production_posture (sz_posture config) (sz_issuer_url config \<noteq> None) (jwks = [])
            (bo_seal_posture B (wp_sealed_seed_path (sz_wallet_paths config))) (sz_allow_dev_seed config) = Ok u"
    and gs: "build_app_state config account_id policy jwks (build_revocation_store config)
            (bo_seal_posture B (wp_sealed_seed_path (sz_wallet_paths config))) wallet (snd db) wallet_sync = (g, s)"
    and db': "db' = (versions, snd db)"
    using assms by (auto simp: serve_def Let_def split: sum.splits prod.splits)
  note g = gs [unfolded build_app_state_def prod.inject]
  obtain signing where sign: "read_signing_config (bo_addr_text B) env (sz_bind_addr config) = Ok signing"
    and fields: "sz_signing config = signing" "sz_posture config = posture_for_network (sz_network config)"
      "sz_allow_dev_seed config = env_flag env ''ZSPEND_ALLOW_DEV_SEED''"
    using conf by (auto simp: spend_from_env_def split: sum.splits)
  have pol': "sp_network policy = sz_network config" "sp_audience policy = sg_audience signing"
    "bo_url_parses B (sp_audience policy)" "sp_recipient_allowlist policy = None"
    using pol fields(1) by (auto simp: build_signing_policy_def policy_build_def split: sum.splits if_splits)
  have aud: "\<exists>raw. env ''ZSPEND_AUDIENCE'' = Some raw \<and> sg_audience signing = trim raw \<and> trim raw \<noteq> []"
    using sign by (auto simp: read_signing_config_def optional_env_def Let_def split: option.splits if_splits)
  have seal: "bo_seal_posture B (wp_sealed_seed_path (sz_wallet_paths config)) = SealDev \<longrightarrow> sz_allow_dev_seed config"
    and prod: "sz_posture config = ''production'' \<longrightarrow> sz_issuer_url config \<noteq> None \<and> jwks \<noteq> []"
    using post by (auto simp: enforce_production_posture_def split: if_splits)
  have "is_enabled (fst (build_revocation_store config))" if "sz_issuer_url config \<noteq> None"
    using that by (auto simp: build_revocation_store_def revocation_new_def is_enabled_def)
  then show ?thesis
    using g pol' aud seal prod fields(2,3) db' by (auto simp: env_flag_def split: option.splits)
qed

definition ex_boot :: "(string, unit, nat) SpendBoot" where
  "ex_boot = \<lparr>bo_parse_addr = Some, bo_addr_text = id, bo_install_metrics = Ok (), bo_seal_posture = (\<lambda>_. SealKms),
     bo_store_error_text = (\<lambda>_. ''store''), bo_ledger_net = (\<lambda>_. None), 
     bo_wallet = \<lparr>wb_connect_remote = (\<lambda>_ _. Ok ()), wb_current_epoch = (\<lambda>_. Ok 7), wb_open_or_create_account = (\<lambda>_ _ _ _ _. Ok (0, ''a''))\<rparr>,
     bo_start_sync = (\<lambda>_ _ _. Ok \<lparr>ds_network = ZallyMainnet, ds_phase = DriverStarting, ds_sync_status = StatusNotStarted,
       ds_scanned_height = None, ds_visible_tip_height = None, ds_settled_tip_height = None, ds_lag_blocks = None,
       ds_last_fault = None, ds_published_at_ms = 0\<rparr>), bo_url_parses = (\<lambda>_. True), bo_read_to_string = Ok,
     bo_jwks_from_str = (\<lambda>_. Ok [\<lparr>jwk_kid = Some ''i'', jwk_params = OctetKeyPair\<rparr>])\<rparr>"

definition ex_spend_env :: Env where
  "ex_spend_env = map_of [(''ZSPEND_NETWORK'', ''mainnet''), (''ZSPEND_SEALED_SEED_PATH'', ''p''), (''ZSPEND_STORAGE_PATH'', ''q''),
     (''ZSPEND_AUDIENCE'', ''p''), (''ZSPEND_JWKS_FILE'', ''p''), (''ZSPEND_ISSUER_URL'', ''q''), (''ZSPEND_CHAIN_SOURCE_URL'', ''q'')]"

lemmas ex_startup = spend_from_env_def read_listener_config_def read_wallet_paths_def read_signing_config_def required_path_def
  optional_env_def var_or_def env_u64_or_def env_u32_or_def env_flag_def ex_trims parse_network_def default_ledger_url_def
  path_parent_def path_join_def open_spend_idempotency_cache_def usage_open_def build_connection_def usage_run_migrations_def
  usage_max_applied_version_def execute_def attempt_def query_def i64_to_u32_def USAGE_SCHEMA_VERSION_def build_signing_policy_def
  policy_build_def load_jwks_def start_wallet_sync_def enforce_production_posture_def build_app_state_def build_revocation_store_def
  bootstrap_def bootstrap_inputs_def build_zinder_chain_source_def resolve_birthday_def

theorem serve_safe_posture_witness:
  "\<exists>g s db'. serve ex_boot ex_spend_env ([], []) = (Ok (g, s), db') \<and> is_enabled (sc_revocation g) \<and> sc_jwks g \<noteq> []"
proof -
  have "\<exists>g s db'. serve ex_boot ex_spend_env ([], []) = (Ok (g, s), db') \<and> sp_network (sc_policy g) = ZallyMainnet"
    by (simp add: serve_def ex_boot_def ex_spend_env_def ex_startup Let_def)
  then obtain g s db' where r: "serve ex_boot ex_spend_env ([], []) = (Ok (g, s), db')" and m: "sp_network (sc_policy g) = ZallyMainnet"
    by blast
  from serve_safe_posture [OF r] show ?thesis using r m by blast
qed

text \<open>A ready wallet admits spends: when the readiness probe answers 200, a request handled at the same moment
  that passes the trust boundary, whose token is not in the revocation set and has no record, and whose
  reserve does not fail, is admitted to signing with a fresh reservation; no staleness refuses it.\<close>

theorem ready_wallet_admits:
  assumes "fst (readyz_state g t wall_ms s) = 200"
    and "sx_check_times x = (t, t, t)" "sx_now_ms x = wall_ms" "\<And>n. sx_reserve_net x n = None"
    and "jti \<notin> set (cs_revoked (sv_revocation s))" "hm_get (sv_ledger s) jti = None"
  shows "\<exists>s1. admit_spend L J g x jti ih s = (Ok None, s1) \<and> sv_wallet s1 = sv_wallet s
    \<and> hm_get (sv_ledger s1) jti = Some \<lparr>ur_intent_hash = ih, ur_state = ''pending'', ur_response_json = None,
        ur_reserved_at_ms = sx_reserve_at x\<rparr>"
proof -
  have ready: "revocation_readiness (sc_revocation g) t (sv_revocation s) \<noteq> ''stale''"
    and sync: "snd (wallet_sync_readiness g wall_ms (sv_sync s))"
    using assms(1) by (auto simp: readyz_state_def Let_def split: prod.splits if_splits)
  have "rg_issuer_url (sc_revocation g) = None \<or> is_fresh (sc_revocation g) t (sv_revocation s)"
    using ready by (auto simp: revocation_readiness_def is_enabled_def split: if_splits)
  then have live: "revocation_check (sx_issuer x) (sc_revocation g) (t, t, t) jti (sv_revocation s) = (Live, sv_revocation s)"
    using assms(5) by (auto simp: revocation_check_def Let_def)
  have fresh: "require_wallet_sync_fresh g (sx_now_ms x) (sv_sync s) = Ok ()"
    using sync assms(3) by (simp add: require_wallet_sync_fresh_def wallet_sync_readiness_def Let_def)
  show ?thesis
    using assms(2,4,6) by (simp add: admit_spend_def live fresh reserve_libsql_at_def Let_def hm_simps)
qed

theorem ready_wallet_admits_witness:
  "fst (readyz_state ex_spend_config 3 2000 ex_spend_state) = 200
    \<and> (\<exists>s1. admit_spend ex_sign_lib ex_signed_json ex_spend_config (ex_sign_context 3) ''j1'' ''h'' ex_spend_state = (Ok None, s1))"
proof -
  have r: "fst (readyz_state ex_spend_config 3 2000 ex_spend_state) = 200"
    by (simp add: readyz_state_def ex_spend_config_def ex_spend_state_def revocation_readiness_def is_enabled_def
        wallet_sync_readiness_def is_wallet_sync_fresh_def snapshot_age_seconds_def Let_def)
  have "\<exists>s1. admit_spend ex_sign_lib ex_signed_json ex_spend_config (ex_sign_context 3) ''j1'' ''h'' ex_spend_state = (Ok None, s1)
      \<and> sv_wallet s1 = sv_wallet ex_spend_state \<and> hm_get (sv_ledger s1) ''j1'' = Some \<lparr>ur_intent_hash = ''h'', ur_state = ''pending'',
        ur_response_json = None, ur_reserved_at_ms = sx_reserve_at (ex_sign_context 3)\<rparr>"
    by (rule ready_wallet_admits [OF r]) (simp_all add: ex_sign_context_def ex_spend_state_def)
  then show ?thesis using r by blast
qed

end
