(* ===== verification/Service.thy ===== *)
theory Service
  imports Startup Zspend_Runtime
begin

text \<open>
  The two services as their clients see them: an HTTP request goes to the handler of its route (\<open>build_app_router\<close> of
  \<open>zpay-runtime/src/main.rs\<close> with the routers of \<open>zpay-x402/src/lib.rs\<close>; \<open>build_router\<close>, \<open>observe_wallet_sync\<close> and \<open>main\<close> of
  \<open>zspend-runtime/src/main.rs\<close>).  The web framework is a parameter: when a path matches a pattern, how the body and the
  query are read, and what it answers itself when it does not call a handler.  Every request served is a step of the
  relations \<open>facility_step\<close> and \<open>spend_step\<close> or changes neither stores, chain nor wallet, so what \<open>Lifecycle\<close> and \<open>Sign_Safety\<close>
  prove of runs holds of the services with all their routes.
\<close>

subsection \<open>Routing\<close>

record HttpRequest =
  hq_method :: string
  hq_path :: string
  hq_query :: "string option"
  hq_headers :: HeaderMap
  hq_peer :: "string option"
  hq_body :: bytes

text \<open>\<open>ax_match pattern path\<close> is the captured path parameter (empty without one) when the path matches; \<open>ax_serves\<close> says which
  request methods a route answers (a \<open>GET\<close> route also answers \<open>HEAD\<close>); \<open>ax_unmatched\<close> is the framework's answer to everything
  else, cross-origin preflights included.\<close>

record 'j Axum =
  ax_match :: "string \<Rightarrow> string \<Rightarrow> string option"
  ax_serves :: "string \<Rightarrow> string \<Rightarrow> bool"
  ax_unmatched :: "HttpRequest \<Rightarrow> 'j"

definition route_for :: "'j Axum \<Rightarrow> (string \<times> string \<times> 'h) list \<Rightarrow> HttpRequest \<Rightarrow> ('h \<times> string) option" where
  "route_for X routes req =
    (case find (\<lambda>(method, pattern, _). ax_serves X method (hq_method req) \<and> ax_match X pattern (hq_path req) \<noteq> None) routes of
       None \<Rightarrow> None
     | Some (_, pattern, h) \<Rightarrow> (case ax_match X pattern (hq_path req) of None \<Rightarrow> None | Some captured \<Rightarrow> Some (h, captured)))"

lemma route_registered: "route_for X routes req = Some (h, captured) \<Longrightarrow> h \<in> set (map (snd \<circ> snd) routes)"
  unfolding route_for_def by (drule sym) (auto dest!: find_SomeD split: option.splits prod.splits intro!: rev_image_eqI)

subsection \<open>The facilitator\<close>

text \<open>A body or a query that does not have the expected shape is refused by the framework (\<open>Inl\<close>).\<close>

record 'j AppExtract =
  bx_prepare_body :: "HttpRequest \<Rightarrow> 'j + PrepareRequest"
  bx_settle_body :: "HttpRequest \<Rightarrow> 'j + SettleRequest"
  bx_verify_body :: "HttpRequest \<Rightarrow> 'j + VerifyRequest"
  bx_x402_body :: "HttpRequest \<Rightarrow> 'j + FacilitatorRequest"
  bx_payee_query :: "HttpRequest \<Rightarrow> 'j + string option"
  bx_network_query :: "HttpRequest \<Rightarrow> 'j + string option"

datatype ('j, 'r) AppAnswer = Refused 'j | Alive | Answered Response | Streaming Response "(PaymentStatusSnapshot \<times> 'r) option"

definition answer :: "('j + 'b) \<Rightarrow> ('b \<Rightarrow> 't \<Rightarrow> Response \<times> 't) \<Rightarrow> 't \<Rightarrow> ('j, 'r) AppAnswer \<times> 't" where
  "answer extracted handler st = (case extracted of Inl refusal \<Rightarrow> (Refused refusal, st) | Inr b \<Rightarrow> apfst Answered (handler b st))"

text \<open>The stream handler reads the status before and after it subscribes; \<open>A'\<close> and \<open>clock'\<close> are the collaborators and the clock of
  the second read.\<close>

definition events_route ::
  "('p, 'l, 'c, 'h, 'r) Facilitator \<Rightarrow> ('p, 'l, 'c, 'h, 'r) Facilitator \<Rightarrow> Clock \<Rightarrow> Clock \<Rightarrow> HttpRequest \<Rightarrow> string
    \<Rightarrow> ('p, 'l, 'c, 'h, 's) FacilitatorState \<Rightarrow> ('j, 'r) AppAnswer \<times> ('p, 'l, 'c, 'h, 's) FacilitatorState" where
  "events_route A A' clock clock' req payment_id_raw st =
    (case events_handler (fa_bus A) (fa_parse_ip A) (fa_trust_forwarded_headers A) (\<lambda>pid. status_of A clock pid st)
        (\<lambda>pid. status_of A' clock' pid st) clock (hq_headers req) (hq_peer req) payment_id_raw (st_limiter st) (st_events st) of
       ((resp, stream), limiter, hub) \<Rightarrow> (Streaming resp stream, st\<lparr>st_limiter := limiter, st_events := hub\<rparr>))"

definition serve_app ::
  "'j Axum \<Rightarrow> 'j AppExtract \<Rightarrow> ('p, 'l, 'c, 'h, 'r) Facilitator \<Rightarrow> ('p, 'l, 'c, 'h, 'r) Facilitator \<Rightarrow> ('json, 'key, 'url, 's) DpopGate
    \<Rightarrow> ('a, 'x) PcztLib \<Rightarrow> (ZallyNetwork, 'd, 'ua) DisclosureLib \<times> 'd DisclosureVerifier \<times> DisclosureFetcher
    \<Rightarrow> PaymentId \<Rightarrow> Clock \<Rightarrow> Clock \<Rightarrow> HttpRequest
    \<Rightarrow> ('p, 'l, 'c, 'h, 's) FacilitatorState \<Rightarrow> ('j, 'r) AppAnswer \<times> ('p, 'l, 'c, 'h, 's) FacilitatorState" where
  "serve_app X E A A' G Z D fresh_id clock clock' req st =
    (case route_for X app_routes req of
       None \<Rightarrow> (Refused (ax_unmatched X req), st)
     | Some (h, captured) \<Rightarrow>
       (case h of
          HandleHealthz \<Rightarrow> (Alive, st)
        | HandleSupported \<Rightarrow> apfst Answered (supported_handler A st)
        | HandleX402Verify \<Rightarrow> answer (bx_x402_body E req) (x402_verify_handler A Z clock (hq_headers req) (hq_peer req)) st
        | HandleX402Settle \<Rightarrow> answer (bx_x402_body E req) (x402_settle_handler A Z clock (hq_headers req) (hq_peer req)) st
        | HandleAccepts \<Rightarrow> answer (bx_payee_query E req) (accepts_handler A clock (hq_headers req) (hq_peer req)) st
        | HandleTip \<Rightarrow> answer (bx_network_query E req) (tip_handler A clock (hq_headers req) (hq_peer req)) st
        | HandlePrepare \<Rightarrow> answer (bx_prepare_body E req) (prepare_handler A G fresh_id clock (hq_path req) (hq_headers req)) st
        | HandleSettle \<Rightarrow> answer (bx_settle_body E req) (settle_handler A G clock (hq_path req) (hq_headers req)) st
        | HandleVerify \<Rightarrow> answer (bx_verify_body E req)
            (case D of (V, verifier, fetcher) \<Rightarrow> verify_handler A V verifier fetcher clock (hq_headers req) (hq_peer req)) st
        | HandlePaymentStatus \<Rightarrow> apfst Answered (payment_status_handler A clock (hq_headers req) (hq_peer req) captured st)
        | HandleEvents \<Rightarrow> events_route A A' clock clock' req captured st
        | HandleReadyz \<Rightarrow> (Refused (ax_unmatched X req), st)
        | HandleMetrics \<Rightarrow> (Refused (ax_unmatched X req), st)
        | HandleOpsPayments \<Rightarrow> (Refused (ax_unmatched X req), st)))"

text \<open>A request that only reads: it may spend rate budget and open a subscription.\<close>

definition reads_only :: "('p, 'l, 'c, 'h, 's) FacilitatorState \<Rightarrow> ('p, 'l, 'c, 'h, 's) FacilitatorState \<Rightarrow> bool" where
  "reads_only st st' \<longleftrightarrow> st' = st\<lparr>st_limiter := st_limiter st', st_events := st_events st'\<rparr>"

lemma reads_only_simps [simp]: "reads_only st st" "reads_only st (st\<lparr>st_limiter := l\<rparr>)" "reads_only st (st\<lparr>st_limiter := l, st_events := hub\<rparr>)"
  by (simp_all add: reads_only_def)

lemma reads_only_stores: "reads_only st st' \<Longrightarrow> st_prepared st' = st_prepared st \<and> st_ledger st' = st_ledger st"
  by (cases st; cases st') (simp add: reads_only_def)

lemma ip_limited_reads:
  assumes "with_ip_limit A clock headers peer rest st = (resp, st')" "\<And>st. snd (rest st) = st"
  shows "reads_only st st'"
  using assms(1)
proof (cases rule: with_ip_limit_cases)
  case (passed r)
  then show ?thesis using assms(2) [of "st\<lparr>st_limiter := r\<rparr>"] by simp
qed simp

lemma verify_reads: "x402_verify_handler A Z clock headers peer request st = (resp, st') \<Longrightarrow> reads_only st st'"
  unfolding x402_verify_handler_def by (erule ip_limited_reads) (simp split: option.split sum.split)

lemma accepts_reads: "accepts_handler A clock headers peer payee st = (resp, st') \<Longrightarrow> reads_only st st'"
  unfolding accepts_handler_def by (erule ip_limited_reads) (simp split: option.split)

lemma tip_reads: "tip_handler A clock headers peer network st = (resp, st') \<Longrightarrow> reads_only st st'"
  unfolding tip_handler_def by (erule ip_limited_reads) (simp split: option.split sum.split)

lemma disclosure_reads: "verify_handler A V verifier fetcher clock headers peer body st = (resp, st') \<Longrightarrow> reads_only st st'"
  unfolding verify_handler_def by (erule ip_limited_reads) (simp split: sum.split)

lemma status_reads: "payment_status_handler A clock headers peer raw st = (resp, st') \<Longrightarrow> reads_only st st'"
  unfolding payment_status_handler_def by (erule ip_limited_reads) (simp split: sum.split)

lemma events_reads: "events_route A A' clock clock' req raw st = (ans, st') \<Longrightarrow> reads_only st st'"
  by (auto simp: events_route_def split: prod.splits)

text \<open>Requests and background tasks in any order.\<close>

inductive service_run ::
  "'j Axum \<Rightarrow> 'j AppExtract \<Rightarrow> (AnyPreparedTxStore, AnySettlementLedgerStore, 'c, 'h, 'r) Facilitator \<Rightarrow> ('json, 'key, 'url, 's) DpopGate
    \<Rightarrow> ('a, 'x) PcztLib \<Rightarrow> (ZallyNetwork, 'd, 'ua) DisclosureLib \<times> 'd DisclosureVerifier \<times> DisclosureFetcher
    \<Rightarrow> (AnyPreparedTxStore, AnySettlementLedgerStore, 'c, 'h, 's) FacilitatorState
    \<Rightarrow> (AnyPreparedTxStore, AnySettlementLedgerStore, 'c, 'h, 's) FacilitatorState \<Rightarrow> bool"
  for X E A G Z D where
  idle: "service_run X E A G Z D st st"
| request: "service_run X E A G Z D st st' \<Longrightarrow> serve_app X E (facing A net net' now C tip) A' G Z D fresh_id clock clock' req st' = (ans, st'')
    \<Longrightarrow> any_prepared_rows (fa_b64_encode A) (st_prepared st') fresh_id = None \<Longrightarrow> any_ledger_rows (st_ledger st') fresh_id = None
    \<Longrightarrow> service_run X E A G Z D st st''"
| background: "service_run X E A G Z D st st' \<Longrightarrow> facility_step A G Z st' st'' \<Longrightarrow> service_run X E A G Z D st st''"

lemma answer_cases:
  assumes "answer b handler st = (ans, st')"
  obtains (refused) "st' = st" | (handled) x resp where "handler x st = (resp, st')"
  using assms by (cases b) (auto simp: answer_def apfst_def map_prod_def split: prod.splits)

lemma prepare_frame:
  assumes "prepare_handler A G fresh_id clock path headers body st = (resp, st')"
  shows "st_ledger st' = st_ledger st" "st_chain st' = st_chain st"
  using assms unfolding prepare_handler_def
  by (auto elim!: with_dpop_cases split: prod.splits sum.splits)

lemma x402_settle_replay: "x402_settle_handler A Z clock headers peer request st = (resp, st') \<Longrightarrow> st_replay st' = st_replay st"
  unfolding x402_settle_handler_def
  by (auto simp: x402_settle_response_extensions_def publish_status_def Let_def elim!: with_ip_limit_cases
      split: prod.splits sum.splits option.splits)

lemma served_step:
  assumes "serve_app X E (facing A net net' now C tip) A' G Z D fresh_id clock clock' req st = (ans, st')"
    and "any_prepared_rows (fa_b64_encode A) (st_prepared st) fresh_id = None" "any_ledger_rows (st_ledger st) fresh_id = None"
  shows "reads_only st st' \<or> facility_step A G Z st st' \<and> (\<exists>h captured. route_for X app_routes req = Some (h, captured)
    \<and> (h = HandlePrepare \<and> st_ledger st' = st_ledger st \<and> st_chain st' = st_chain st \<or> h = HandleSettle
       \<or> h = HandleX402Settle \<and> st_replay st' = st_replay st))"
proof (cases "route_for X app_routes req")
  case None
  then show ?thesis using assms(1) by (simp add: serve_app_def)
next
  case (Some p)
  obtain h captured where r: "route_for X app_routes req = Some (h, captured)" using Some by (cases p) simp
  note served = assms(1) [unfolded serve_app_def r option.case prod.case]
  show ?thesis
  proof (cases h)
    case HandlePrepare
    with served have "answer (bx_prepare_body E req) (prepare_handler (facing A net net' now C tip) G fresh_id clock (hq_path req) (hq_headers req)) st = (ans, st')" by simp
    then show ?thesis
    proof (cases rule: answer_cases)
      case (handled x resp)
      then show ?thesis using facility_step.prepare [OF handled assms(2,3), of Z] prepare_frame [OF handled] r HandlePrepare by simp
    qed simp
  next
    case HandleSettle
    with served have "answer (bx_settle_body E req) (settle_handler (facing A net net' now C tip) G clock (hq_path req) (hq_headers req)) st = (ans, st')" by simp
    then show ?thesis
    proof (cases rule: answer_cases)
      case (handled x resp)
      then show ?thesis using facility_step.settle [OF handled, of Z] r HandleSettle by simp
    qed simp
  next
    case HandleX402Settle
    with served have "answer (bx_x402_body E req) (x402_settle_handler (facing A net net' now C tip) Z clock (hq_headers req) (hq_peer req)) st = (ans, st')" by simp
    then show ?thesis
    proof (cases rule: answer_cases)
      case (handled x resp)
      then show ?thesis using facility_step.x402 [OF handled, of G] x402_settle_replay [OF handled] r HandleX402Settle by simp
    qed simp
  next
    case HandleEvents
    with served show ?thesis by (auto dest: events_reads)
  next
    case HandleVerify
    with served show ?thesis by (cases D) (auto dest: disclosure_reads elim!: answer_cases)
  qed (use served in \<open>auto dest: verify_reads accepts_reads tip_reads status_reads simp: supported_handler_def apfst_def map_prod_def
      elim!: answer_cases split: prod.splits\<close>)
qed

lemma served_kept:
  assumes "reads_only st st' \<or> facility_step A G Z st st'" "registry_fits (fa_payees A)" "facility_ok (fa_b64_encode A) st"
  shows "kept (fa_b64_encode A) st st'"
proof (cases "facility_step A G Z st st'")
  case False
  then show ?thesis using reads_only_stores assms(1) by (intro kept_frame [OF assms(3)]) blast+
qed (rule facility_step_kept [OF _ assms(2,3)])

lemma service_run_kept:
  assumes "service_run X E A G Z D st st'" "registry_fits (fa_payees A)" "facility_ok (fa_b64_encode A) st"
  shows "kept (fa_b64_encode A) st st'"
  using assms
proof (induction rule: service_run.induct)
  case (idle st)
  then show ?case by (simp add: kept_def)
next
  case (request st st' net net' now C tip A' fresh_id clock clock' req ans st'')
  then have k: "kept (fa_b64_encode A) st st'" by blast
  moreover have "kept (fa_b64_encode A) st' st''"
    by (rule served_kept [OF _ request.prems(1)]) (use served_step [OF request.hyps(2-4)] k in \<open>auto simp: kept_def\<close>)
  ultimately show ?case by (auto simp: kept_def)
next
  case (background st st' st'')
  then have k: "kept (fa_b64_encode A) st st'" by blast
  moreover have "kept (fa_b64_encode A) st' st''"
    by (rule facility_step_kept [OF background.hyps(2) background.prems(1)]) (use k in \<open>simp add: kept_def\<close>)
  ultimately show ?case by (auto simp: kept_def)
qed

text \<open>[C10] Every route of the public listener is accounted for.  Whatever requests and background tasks went before, over either
  backend and under faults: a served request leaves the stores well formed and every payment that is past preparation as
  recorded; it is a step of the facilitator's handlers or only reads, spending rate budget or opening a subscription; only
  \<open>POST /prepare\<close>, \<open>POST /settle\<close> and \<open>POST\<close> to the x402 settle route do more than read, preparing touches neither the ledger nor the
  chain, and the x402 route does not touch the proof replay store.\<close>

theorem served_requests_are_steps:
  assumes "service_run X E A G Z D st st'" "registry_fits (fa_payees A)" "facility_ok (fa_b64_encode A) st"
    and "serve_app X E (facing A net net' now C tip) A' G Z D fresh_id clock clock' req st' = (ans, st'')"
    and "any_prepared_rows (fa_b64_encode A) (st_prepared st') fresh_id = None" "any_ledger_rows (st_ledger st') fresh_id = None"
  shows "facility_ok (fa_b64_encode A) st'' \<and> (\<forall>pid e. recorded_as (fa_b64_encode A) pid e st \<longrightarrow> recorded_as (fa_b64_encode A) pid e st'')
    \<and> (reads_only st' st'' \<or> facility_step A G Z st' st'' \<and> (\<exists>h captured. route_for X app_routes req = Some (h, captured)
        \<and> (h = HandlePrepare \<and> st_ledger st'' = st_ledger st' \<and> st_chain st'' = st_chain st' \<or> h = HandleSettle
           \<or> h = HandleX402Settle \<and> st_replay st'' = st_replay st')))"
proof -
  note step = served_step [OF assms(4-6)]
  have "kept (fa_b64_encode A) st st''"
    by (rule service_run_kept [OF service_run.request [OF assms(1,4-6)] assms(2,3)])
  then show ?thesis using step unfolding kept_def by blast
qed

definition ex_axum :: "string Axum" where
  "ex_axum = \<lparr>ax_match = (\<lambda>pattern path. if pattern = path then Some [] else None), ax_serves = (=), ax_unmatched = (\<lambda>_. ''404'')\<rparr>"

definition ex_extract :: "string AppExtract" where
  "ex_extract = \<lparr>bx_prepare_body = (\<lambda>_. Err ''422''), bx_settle_body = (\<lambda>_. Ok ex_settle), bx_verify_body = (\<lambda>_. Err ''422''),
     bx_x402_body = (\<lambda>_. Ok ex_x402_request), bx_payee_query = (\<lambda>_. Ok None), bx_network_query = (\<lambda>_. Ok None)\<rparr>"

definition ex_disclosure :: "(ZallyNetwork, unit, unit) DisclosureLib" where
  "ex_disclosure = \<lparr>vl_hex_decode = (\<lambda>s. Ok (bytes_of s)), vl_hex_encode = (\<lambda>_. ''h''), vl_from_bytes = (\<lambda>_. Ok ()),
     vl_profile = (\<lambda>_. Zip311Draft1), vl_transaction_id = (\<lambda>_. [1]), vl_message = (\<lambda>_. []),
     vl_decode_unified = (\<lambda>_ _. Some ()), vl_sapling = (\<lambda>_. Some [7]), vl_orchard = (\<lambda>_. None)\<rparr>"

definition ex_http :: "string \<Rightarrow> string \<Rightarrow> HttpRequest" where
  "ex_http method path = \<lparr>hq_method = method, hq_path = path, hq_query = None, hq_headers = [], hq_peer = None, hq_body = []\<rparr>"

theorem served_requests_are_steps_witness:
  "\<exists>ans st''. serve_app ex_axum ex_extract (facing ex_any_facilitator (\<lambda>_. None) (\<lambda>_. None) 0 (fa_chain ex_facilitator) ex_tip)
      ex_any_facilitator ex_gate_config ex_pczt_lib (ex_disclosure, ex_verifier, ex_fetcher) ''id2'' ex_clock ex_clock (ex_http ''POST'' ''/x402/v2/settle'') ex_settled_state = (ans, st'')
    \<and> route_for ex_axum app_routes (ex_http ''POST'' ''/x402/v2/settle'') = Some (HandleX402Settle, [])
    \<and> recorded_as ex_b64 ''id1'' (settle_entry 200 ex_prepared (Accepted ''ab'')) st''"
proof -
  let ?A = ex_any_facilitator
  have e: "fa_b64_encode ?A = ex_b64" by (simp add: ex_any_facilitator_def)
  have route: "route_for ex_axum app_routes (ex_http ''POST'' ''/x402/v2/settle'') = Some (HandleX402Settle, [])"
    by (simp add: route_for_def ex_axum_def ex_http_def app_routes_def nest_def x402_routes_def lifecycle_routes_def)
  have reg: "registry_fits (fa_payees ?A)" using ex_registry_fits by (simp add: ex_any_facilitator_def)
  have rec: "recorded_as ex_b64 ''id1'' (settle_entry 200 ex_prepared (Accepted ''ab'')) ex_settled_state" using cache_inv_empty
    by (simp add: recorded_as_def facility_ok_def ex_settled_state_def amounts_fit_def hm_wf_def cache_rows_def cache_empty_def)
  then have ok: "facility_ok (fa_b64_encode ?A) ex_settled_state" by (simp add: recorded_as_def e)
  have fresh: "any_prepared_rows (fa_b64_encode ?A) (st_prepared ex_settled_state) ''id2'' = None"
    "any_ledger_rows (st_ledger ex_settled_state) ''id2'' = None"
    by (simp_all add: ex_settled_state_def cache_rows_def cache_empty_def)
  obtain ans st'' where run: "serve_app ex_axum ex_extract (facing ?A (\<lambda>_. None) (\<lambda>_. None) 0 (fa_chain ex_facilitator) ex_tip)
      ?A ex_gate_config ex_pczt_lib (ex_disclosure, ex_verifier, ex_fetcher) ''id2'' ex_clock ex_clock (ex_http ''POST'' ''/x402/v2/settle'') ex_settled_state = (ans, st'')"
    by fastforce
  have "recorded_as ex_b64 ''id1'' (settle_entry 200 ex_prepared (Accepted ''ab'')) st''"
    using served_requests_are_steps [OF service_run.idle reg ok run fresh] rec unfolding e by blast
  then show ?thesis using run route by blast
qed

subsection \<open>The wallet service\<close>

datatype SpendHandler =
  SpendHealthz | SpendReadyz | SpendMetricsPage | SpendCapabilities | SpendConfiguration | SpendSign | SpendAddress

definition build_router :: "(string \<times> string \<times> SpendHandler) list" where
  "build_router = [(''GET'', ''/healthz'', SpendHealthz), (''GET'', ''/readyz'', SpendReadyz), (''GET'', ''/metrics'', SpendMetricsPage),
     (''GET'', ''/v1/capabilities'', SpendCapabilities), (''GET'', ''/.well-known/wallet-configuration'', SpendConfiguration),
     (''POST'', ''/v1/payments/sign'', SpendSign), (''GET'', ''/v1/wallet/address'', SpendAddress)]"

datatype 'j SpendAnswer =
    SpendRefused 'j
  | SpendPage nat Json
  | SpendExposition string
  | SpendSigned "ProblemResponse + SignPaymentResponse"
  | SpendAddressed "ProblemResponse + WalletAddressResponse"

text \<open>\<open>render\<close> is the metrics exposition, \<open>body_of\<close> reads the signing request, \<open>wall_ms\<close> is the clock of the readiness probe.\<close>

definition serve_spend ::
  "'j Axum \<Rightarrow> (HttpRequest \<Rightarrow> 'j + SignPaymentRequest) \<Rightarrow> string \<Rightarrow> ('json, 'key, 'url, 'akey, 'rcp) SignLib \<Rightarrow> ('w, 'rcp) WalletLib
    \<Rightarrow> SignPaymentResponse ResponseJson \<Rightarrow> 'w AddressLib \<Rightarrow> SpendConfig \<Rightarrow> SignContext \<Rightarrow> u64 \<Rightarrow> HttpRequest \<Rightarrow> 'w SpendState
    \<Rightarrow> 'j SpendAnswer \<times> 'w SpendState" where
  "serve_spend X body_of render L W J B g x wall_ms req s =
    (case route_for X build_router req of
       None \<Rightarrow> (SpendRefused (ax_unmatched X req), s)
     | Some (h, _) \<Rightarrow>
       (case h of
          SpendHealthz \<Rightarrow> (SpendPage 200 (JObject [(''status'', JString ''alive'')]), s)
        | SpendReadyz \<Rightarrow> (case readyz_state g (sx_instant x) wall_ms s of (status, body) \<Rightarrow> (SpendPage status body, s))
        | SpendMetricsPage \<Rightarrow> (SpendExposition render, s)
        | SpendCapabilities \<Rightarrow> (SpendPage 200 (JObject [(''capabilities'', JArray [])]), s)
        | SpendConfiguration \<Rightarrow> (SpendPage 200 (get_wallet_configuration g), s)
        | SpendAddress \<Rightarrow> apfst SpendAddressed (get_wallet_address B g s)
        | SpendSign \<Rightarrow>
          (case body_of req of
             Inl refusal \<Rightarrow> (SpendRefused refusal, s)
           | Inr body \<Rightarrow> (case sign_payment L W J g x (hq_headers req) body s of (outcome, _, s') \<Rightarrow> (SpendSigned outcome, s')))))"

text \<open>The task that follows the wallet's synchronization publishes each snapshot of the driver.\<close>

definition observe_wallet_sync :: "SyncSnapshot list \<Rightarrow> 'w SpendState \<Rightarrow> 'w SpendState" where
  "observe_wallet_sync snapshots s = fold publish_sync snapshots s"

datatype SpendCommand = ServeCommand | InitCommand bool bool bool string

text \<open>The entry point: \<open>serve\<close> is the default command.  The outcome of a served process is the state its router starts
  from; \<open>revealed\<close> is what \<open>init\<close> printed.\<close>

definition spend_main ::
  "('addr, 'chain, 'w) SpendBoot \<Rightarrow> ('m, 'seed) KeyLib \<Rightarrow> DiskFaults \<Rightarrow> (InitError \<Rightarrow> string) \<Rightarrow> string + unit \<Rightarrow> Env \<Rightarrow> 'm
    \<Rightarrow> (string + string + string) \<Rightarrow> SpendCommand option \<Rightarrow> (int list \<times> UsageTable) \<times> Disk
    \<Rightarrow> (SpendStartupError + (SpendConfig \<times> 'w SpendState) option) \<times> ((int list \<times> UsageTable) \<times> Disk) \<times> string list" where
  "spend_main B K F init_text tracing env generated stdin command world =
    (case tracing of
       Inl reason \<Rightarrow> (Err (SpendTracing reason), world, [])
     | Inr _ \<Rightarrow>
       (case command of
          Some (InitCommand force restore auto_provision sealed_seed_path) \<Rightarrow>
            (case init_run K F generated stdin sealed_seed_path force restore auto_provision (snd world) of
               (Inl source, disk, revealed) \<Rightarrow> (Err (SpendInit (init_text source)), (fst world, disk), revealed)
             | (Inr _, disk, revealed) \<Rightarrow> (Ok None, (fst world, disk), revealed))
        | _ \<Rightarrow>
            (case serve B env (fst world) of
               (Inl e, db) \<Rightarrow> (Err e, (db, snd world), [])
             | (Inr plane, db) \<Rightarrow> (Ok (Some plane), (db, snd world), []))))"

text \<open>What a request to the wallet service may do: the replay set, the single-use ledger and the revocation cache change only
  by the signing route; the address route may derive an address; every change is a step of the runs of
  \<open>Sign_Safety\<close>, so a token id that was signed stays used.\<close>

theorem wallet_requests_are_steps:
  assumes "serve_spend X body_of render L W J B g x wall_ms req s = (ans, s')"
  shows "(s' = s \<or> spend_step L W J g s s')
    \<and> (s' \<noteq> s \<longrightarrow> (\<exists>captured. route_for X build_router req = Some (SpendSign, captured)
         \<or> route_for X build_router req = Some (SpendAddress, captured) \<and> s' = s\<lparr>sv_wallet := sv_wallet s'\<rparr>))"
proof (cases "route_for X build_router req")
  case None
  then show ?thesis using assms by (simp add: serve_spend_def)
next
  case (Some p)
  obtain h captured where r: "route_for X build_router req = Some (h, captured)" using Some by (cases p) simp
  note served = assms [unfolded serve_spend_def r option.case prod.case]
  show ?thesis
  proof (cases h)
    case SpendSign
    show ?thesis
    proof (cases "body_of req")
      case (Inr body)
      obtain outcome s1 where inner: "sign_payment_inner L W J g x (hq_headers req) body s = (outcome, s1)" by fastforce
      then have "s' = s1" using served SpendSign Inr by (simp add: sign_payment_def)
      then show ?thesis using spend_step.handled [OF inner] r SpendSign by simp
    qed (use served SpendSign in simp)
  next
    case SpendAddress
    obtain out s1 where addr: "get_wallet_address B g s = (out, s1)" by fastforce
    then have "\<exists>w. s1 = s\<lparr>sv_wallet := w\<rparr>" by (auto simp: get_wallet_address_def split: prod.splits sum.splits)
    moreover have "s' = s1" using served SpendAddress addr by simp
    ultimately show ?thesis using spend_step.scanned [of L W J g s] r SpendAddress by auto
  qed (use served in \<open>auto split: prod.splits\<close>)
qed

lemma observed_run: "spend_run L W J g s (observe_wallet_sync snapshots s)"
proof (induction snapshots rule: rev_induct)
  case (snoc d ds)
  then show ?case using spend_run.go [OF _ spend_step.published] by (simp add: observe_wallet_sync_def publish_sync_def)
qed (simp add: observe_wallet_sync_def spend_run.stop)

end
