(* ===== verification/Agent_Kit.thy ===== *)
theory Agent_Kit
  imports Sign
begin

text \<open>
  The agent's side of the protocol (\<open>zpay-testkit/src/lib.rs\<close>): DPoP keys and proofs, DPoP-bound access tokens,
  the signing call to the wallet, and the x402 request for a signed PCZT.  JWT encoding, key generation and the
  JSON form of an authorization are parameters (\<open>AgentLib\<close>).  An HTTP reply is a transport error, or a status with the
  body as text and as the outcome of decoding it.  JSON objects are ordered maps, as in \<open>serde_json\<close>.
\<close>

definition PCZT_FORMAT :: string where "PCZT_FORMAT = ''pczt-v2-extractable''"
definition X402_ZCASH_EXACT_BINDING :: string where "X402_ZCASH_EXACT_BINDING = ''x402-zcash-exact-v1''"

subsection \<open>Replies and libraries\<close>

type_synonym 't HttpReply = "string + nat \<times> string \<times> (string + 't)"

definition http_success :: "nat \<Rightarrow> bool" where
  "http_success status \<longleftrightarrow> 200 \<le> status \<and> status < 300"

text \<open>\<open>ag_point_x\<close>, \<open>ag_point_y\<close>, \<open>ag_pkcs8_pem\<close> read a P-256 signing key; \<open>ag_encode\<close> is \<open>jsonwebtoken::encode\<close>.\<close>

record ('sk, 'ekey) AgentLib =
  ag_point_x :: "'sk \<Rightarrow> bytes option"
  ag_point_y :: "'sk \<Rightarrow> bytes option"
  ag_pkcs8_pem :: "'sk \<Rightarrow> string + string"
  ag_from_ec_pem :: "bytes \<Rightarrow> string + 'ekey"
  ag_b64_encode :: "bytes \<Rightarrow> string"
  ag_b64_decode :: "string \<Rightarrow> string + bytes"
  ag_sha256 :: "bytes \<Rightarrow> bytes"
  ag_thumbprint :: "string \<Rightarrow> string \<Rightarrow> string \<Rightarrow> string \<Rightarrow> string"
  ag_jwk_from_value :: "Json \<Rightarrow> string + Jwk"
  ag_encode :: "JwtHeader \<Rightarrow> Json \<Rightarrow> 'ekey \<Rightarrow> string + string"
  ag_authorization_value :: "PaymentAuthorization \<Rightarrow> Json"

text \<open>The clock readings of one call: milliseconds and seconds since the epoch, zero before it.\<close>

record AgentClock =
  at_ms :: nat
  at_seconds :: u64

subsection \<open>DPoP keys and proofs\<close>

datatype DpopKeyError = DpopEncoding string

record 'ekey DpopKey =
  dk_encoding_key :: 'ekey
  dk_x_coordinate :: string
  dk_y_coordinate :: string
  dk_jkt :: string

definition dpop_key_generate :: "('sk, 'ekey) AgentLib \<Rightarrow> 'sk \<Rightarrow> DpopKeyError + 'ekey DpopKey" where
  "dpop_key_generate A signing_key =
    (case ag_point_x A signing_key of
       None \<Rightarrow> Err (DpopEncoding ''P-256 point missing x coordinate'')
     | Some x \<Rightarrow>
    (case ag_point_y A signing_key of
       None \<Rightarrow> Err (DpopEncoding ''P-256 point missing y coordinate'')
     | Some y \<Rightarrow>
    (case ag_pkcs8_pem A signing_key of
       Inl err \<Rightarrow> Err (DpopEncoding err)
     | Inr pem \<Rightarrow>
    (case ag_from_ec_pem A (bytes_of pem) of
       Inl err \<Rightarrow> Err (DpopEncoding err)
     | Inr encoding_key \<Rightarrow>
       Ok \<lparr>dk_encoding_key = encoding_key, dk_x_coordinate = ag_b64_encode A x, dk_y_coordinate = ag_b64_encode A y,
           dk_jkt = ag_thumbprint A ''P-256'' ''EC'' (ag_b64_encode A x) (ag_b64_encode A y)\<rparr>))))"

text \<open>\<open>Header::new\<close>: the algorithm with type \<open>JWT\<close>.\<close>

definition jwt_header_new :: "Algorithm \<Rightarrow> JwtHeader" where
  "jwt_header_new alg = \<lparr>jh_alg = alg, jh_typ = Some ''JWT'', jh_kid = None, jh_jwk = None\<rparr>"

definition proof_claims_value :: "AgentClock \<Rightarrow> string \<Rightarrow> string \<Rightarrow> string \<Rightarrow> string option \<Rightarrow> Json" where
  "proof_claims_value clock method proof_url dpop_jti_prefix access_token_hash =
    (let claims = bt_from
       [(''htm'', JString method), (''htu'', JString proof_url),
        (''jti'', JString (dpop_jti_prefix @ ''-'' @ dec_str (at_ms clock))),
        (''iat'', JNumber (dec_str (unat (at_seconds clock))))]
     in JObject (case access_token_hash of None \<Rightarrow> claims | Some hash \<Rightarrow> bt_insert ''ath'' (JString hash) claims))"

definition mint_proof_inner ::
  "('sk, 'ekey) AgentLib \<Rightarrow> AgentClock \<Rightarrow> 'ekey DpopKey \<Rightarrow> string \<Rightarrow> string \<Rightarrow> string \<Rightarrow> string option \<Rightarrow> DpopKeyError + string" where
  "mint_proof_inner A clock key method proof_url dpop_jti_prefix access_token_hash =
    (case ag_jwk_from_value A (JObject (bt_from
         [(''kty'', JString ''EC''), (''crv'', JString ''P-256''), (''x'', JString (dk_x_coordinate key)),
          (''y'', JString (dk_y_coordinate key))])) of
       Inl err \<Rightarrow> Err (DpopEncoding err)
     | Inr jwk \<Rightarrow>
    (case ag_encode A ((jwt_header_new ES256)\<lparr>jh_typ := Some ''dpop+jwt'', jh_jwk := Some jwk\<rparr>)
            (proof_claims_value clock method proof_url dpop_jti_prefix access_token_hash) (dk_encoding_key key) of
       Inl err \<Rightarrow> Err (DpopEncoding err)
     | Inr minted \<Rightarrow> Ok minted))"

definition mint_proof ::
  "('sk, 'ekey) AgentLib \<Rightarrow> AgentClock \<Rightarrow> 'ekey DpopKey \<Rightarrow> string \<Rightarrow> string \<Rightarrow> string \<Rightarrow> DpopKeyError + string" where
  "mint_proof A clock key method proof_url dpop_jti_prefix = mint_proof_inner A clock key method proof_url dpop_jti_prefix None"

definition mint_access_bound_proof ::
  "('sk, 'ekey) AgentLib \<Rightarrow> AgentClock \<Rightarrow> 'ekey DpopKey \<Rightarrow> string \<Rightarrow> string \<Rightarrow> string \<Rightarrow> string \<Rightarrow> DpopKeyError + string" where
  "mint_access_bound_proof A clock key access_token method proof_url dpop_jti_prefix =
     mint_proof_inner A clock key method proof_url dpop_jti_prefix (Some (ag_b64_encode A (ag_sha256 A (bytes_of access_token))))"

subsection \<open>Access tokens\<close>

datatype AccessTokenError = AccessTokenEncoding string

record 'ekey AccessTokenGrant =
  tg_issuer_key :: 'ekey
  tg_issuer_algorithm :: Algorithm
  tg_issuer_kid :: string
  tg_audience :: string
  tg_dpop_jkt :: string
  tg_authorization :: PaymentAuthorization
  tg_token_ttl_seconds :: u64
  tg_jti_prefix :: string

definition token_claims_value :: "('sk, 'ekey) AgentLib \<Rightarrow> AgentClock \<Rightarrow> 'ekey AccessTokenGrant \<Rightarrow> Json" where
  "token_claims_value A clock g =
     JObject (bt_from
       [(''aud'', JString (tg_audience g)),
        (''jti'', JString (tg_jti_prefix g @ ''-'' @ dec_str (at_ms clock))),
        (''exp'', JNumber (dec_str (unat (saturating_add (at_seconds clock) (tg_token_ttl_seconds g))))),
        (''cnf'', JObject [(''jkt'', JString (tg_dpop_jkt g))]),
        (''authorization_details'', JArray [ag_authorization_value A (tg_authorization g)])])"

definition mint_access_token :: "('sk, 'ekey) AgentLib \<Rightarrow> AgentClock \<Rightarrow> 'ekey AccessTokenGrant \<Rightarrow> AccessTokenError + string" where
  "mint_access_token A clock g =
    (case ag_encode A ((jwt_header_new (tg_issuer_algorithm g))\<lparr>jh_kid := Some (tg_issuer_kid g)\<rparr>)
            (token_claims_value A clock g) (tg_issuer_key g) of
       Inl err \<Rightarrow> Err (AccessTokenEncoding err)
     | Inr token \<Rightarrow> Ok token)"

subsection \<open>The signing call\<close>

record ZspendSignCall =
  zc_call_sign_url :: string
  zc_access_token :: string
  zc_dpop_proof :: string
  zc_payment_uri :: string
  zc_network_label :: string
  zc_payment_id :: string
  zc_target_expiry_height :: u32

record AgentSignedPczt =
  as_tx_id :: string
  as_pczt_base64 :: string
  as_pczt_byte_count :: nat

datatype ZspendSignError =
    SignRequestFailed string
  | SignRejected nat string
  | SignResponseMalformed string
  | SignedFormat string
  | SignedBytes string

record WirePaymentRequestBody =
  wy_scheme :: string
  wy_request_uri :: string

record SignPaymentRequestBody =
  sy_payment_request :: WirePaymentRequestBody
  sy_network :: string
  sy_payment_id :: string
  sy_target_expiry_height :: u32

record SignedSpendWire =
  ss_format :: string
  ss_bytes :: string
  ss_tx_id :: string

definition sign_request_body :: "ZspendSignCall \<Rightarrow> SignPaymentRequestBody" where
  "sign_request_body call =
    \<lparr>sy_payment_request = \<lparr>wy_scheme = ''zip321'', wy_request_uri = zc_payment_uri call\<rparr>, sy_network = zc_network_label call,
     sy_payment_id = zc_payment_id call, sy_target_expiry_height = zc_target_expiry_height call\<rparr>"

definition sign_request_headers :: "ZspendSignCall \<Rightarrow> (string \<times> string) list" where
  "sign_request_headers call = [(''authorization'', ''DPoP '' @ zc_access_token call), (''dpop'', zc_dpop_proof call)]"

text \<open>The reply is decoded to the \<open>signed_payload\<close> member of the answer.\<close>

definition request_zspend_signature ::
  "('sk, 'ekey) AgentLib \<Rightarrow> (string \<Rightarrow> (string \<times> string) list \<Rightarrow> SignPaymentRequestBody \<Rightarrow> 'n \<Rightarrow> SignedSpendWire HttpReply \<times> 'n)
    \<Rightarrow> ZspendSignCall \<Rightarrow> 'n \<Rightarrow> (ZspendSignError + AgentSignedPczt) \<times> 'n" where
  "request_zspend_signature A post call n =
    (case post (zc_call_sign_url call) (sign_request_headers call) (sign_request_body call) n of
       (Inl err, n') \<Rightarrow> (Err (SignRequestFailed err), n')
     | (Inr (status, body, decoded), n') \<Rightarrow>
       if \<not> http_success status then (Err (SignRejected status body), n')
       else (case decoded of
               Inl err \<Rightarrow> (Err (SignResponseMalformed err), n')
             | Inr payload \<Rightarrow>
               if ss_format payload \<noteq> PCZT_FORMAT then (Err (SignedFormat (ss_format payload)), n')
               else (case ag_b64_decode A (ss_bytes payload) of
                       Inl err \<Rightarrow> (Err (SignedBytes err), n')
                     | Inr decoded_bytes \<Rightarrow>
                       (Ok \<lparr>as_tx_id = ss_tx_id payload, as_pczt_base64 = ss_bytes payload,
                            as_pczt_byte_count = length decoded_bytes\<rparr>, n'))))"

subsection \<open>The x402 request\<close>

record X402PcztPayment =
  xp_network :: ZallyNetwork
  xp_recipient :: string
  xp_amount_zat :: u64
  xp_payment_timeout_seconds :: u64
  xp_payment_id :: string
  xp_resource :: ResourceInfo
  xp_pczt_base64 :: string

fun x402_network_id :: "ZallyNetwork \<Rightarrow> string" where
  "x402_network_id ZallyMainnet = ''zcash:mainnet''"
| "x402_network_id ZallyRegtest = ''zcash:regtest''"
| "x402_network_id ZallyTestnet = ''zcash:testnet''"
| "x402_network_id (ZallyOther _) = ''zcash:testnet''"

definition x402_pczt_requirements :: "X402PcztPayment \<Rightarrow> PaymentRequirements" where
  "x402_pczt_requirements payment =
    \<lparr>pq_scheme = ''exact'', pq_network = x402_network_id (xp_network payment), pq_amount = dec_str (unat (xp_amount_zat payment)),
     pq_asset = ''ZEC'', pq_pay_to = xp_recipient payment, pq_max_timeout_seconds = xp_payment_timeout_seconds payment,
     pq_extra = bt_from
       [(''binding'', JString X402_ZCASH_EXACT_BINDING), (''amountUnit'', JString ''zat''),
        (''authorizationFormat'', JString PCZT_FORMAT), (''zpayPaymentId'', JString (xp_payment_id payment))]\<rparr>"

definition build_x402_pczt_facilitator_request :: "X402PcztPayment \<Rightarrow> FacilitatorRequest" where
  "build_x402_pczt_facilitator_request payment =
    \<lparr>fr_x402_version = X402_VERSION,
     fr_payment_payload =
       \<lparr>pp_x402_version = X402_VERSION, pp_resource = xp_resource payment, pp_accepted = x402_pczt_requirements payment,
        pp_payload = JObject (bt_from [(''format'', JString PCZT_FORMAT), (''pczt'', JString (xp_pczt_base64 payment))]),
        pp_extensions = []\<rparr>,
     fr_payment_requirements = x402_pczt_requirements payment\<rparr>"

end
