(* ===== verification/Gateway.thy ===== *)
theory Gateway
  imports Agent_Kit Wallet_Setup Runtime
begin

text \<open>
  The demo gateway (\<open>zpay-demo/src/lib.rs\<close>): a process that owns a local wallet and demo credentials and drives a
  payment through the facilitator and the wallet service on behalf of a browser.  Its state is the table of
  payments it started (\<open>gs_payments\<close>), its wallet, its disk and the rest of the world (\<open>gs_net\<close>), which
  the HTTP client changes.  The client's calls, the wallet library, key parsing, the chain client and the random keys
  and clock readings of a request are parameters; a route runs to its end before the next one starts.
\<close>

subsection \<open>Errors\<close>

record DemoError =
  de_status :: nat
  de_title :: string
  de_kind :: string
  de_detail :: string
  de_retryable :: bool

definition demo_config_error :: "string \<Rightarrow> DemoError" where
  "demo_config_error detail =
    \<lparr>de_status = 422, de_title = ''Invalid configuration'', de_kind = ''demo_config_invalid'', de_detail = detail,
     de_retryable = False\<rparr>"

definition unavailable :: "string \<Rightarrow> string \<Rightarrow> DemoError" where
  "unavailable kind detail =
    \<lparr>de_status = 502, de_title = ''Dependency unavailable'', de_kind = kind, de_detail = detail, de_retryable = True\<rparr>"

definition not_found :: "string \<Rightarrow> string \<Rightarrow> DemoError" where
  "not_found kind detail =
    \<lparr>de_status = 404, de_title = ''Not found'', de_kind = kind, de_detail = detail, de_retryable = False\<rparr>"

definition rejected :: "string \<Rightarrow> string \<Rightarrow> DemoError" where
  "rejected kind detail =
    \<lparr>de_status = 409, de_title = ''Rejected'', de_kind = kind, de_detail = detail, de_retryable = False\<rparr>"

definition demo_error_text :: "DemoError \<Rightarrow> string" where
  "demo_error_text e = de_kind e @ '': '' @ de_detail e"

definition wallet_unavailable :: "string \<Rightarrow> DemoError" where "wallet_unavailable err = unavailable ''wallet_unavailable'' err"
definition zinder_unavailable :: "string \<Rightarrow> DemoError" where "zinder_unavailable err = unavailable ''zinder_unavailable'' err"

definition dpop_key_invalid :: "DpopKeyError \<Rightarrow> DemoError" where
  "dpop_key_invalid e = (case e of DpopEncoding reason \<Rightarrow> rejected ''dpop_key_invalid'' reason)"

definition dpop_proof_invalid :: "DpopKeyError \<Rightarrow> DemoError" where
  "dpop_proof_invalid e = (case e of DpopEncoding reason \<Rightarrow> rejected ''dpop_proof_invalid'' reason)"

definition access_token_invalid :: "AccessTokenError \<Rightarrow> DemoError" where
  "access_token_invalid e = (case e of AccessTokenEncoding reason \<Rightarrow> rejected ''access_token_invalid'' reason)"

fun zspend_sign_error :: "ZspendSignError \<Rightarrow> DemoError" where
  "zspend_sign_error (SignRequestFailed reason) = unavailable ''zspend_unavailable'' reason"
| "zspend_sign_error (SignRejected status body) =
     unavailable ''zspend_sign_failed'' (''zspend /v1/payments/sign returned '' @ dec_str status @ '': '' @ body)"
| "zspend_sign_error (SignResponseMalformed reason) = unavailable ''zspend_sign_malformed'' reason"
| "zspend_sign_error (SignedFormat format) = rejected ''signed_format_invalid'' (''expected pczt-v2-extractable, got '' @ format)"
| "zspend_sign_error (SignedBytes reason) = rejected ''signed_bytes_invalid'' reason"

subsection \<open>Configuration\<close>

definition DEFAULT_BIRTHDAY_LOOKBACK_BLOCKS :: u32 where "DEFAULT_BIRTHDAY_LOOKBACK_BLOCKS = 500"
definition DEMO_FEE_BUFFER_ZAT :: u64 where "DEMO_FEE_BUFFER_ZAT = 5000"

record 'addr DemoConfig =
  gy_bind_addr :: 'addr
  gy_zpay_url :: string
  gy_zpay_public_url :: string
  gy_zpay_ops_url :: string
  gy_zspend_url :: string
  gy_zspend_public_url :: string
  gy_zinder_url :: string
  gy_wallet_dir :: string
  gy_birthday_height :: "u32 option"
  gy_network_label :: string
  gy_network :: ZallyNetwork
  gy_payee_id :: string
  gy_resource_uri :: string
  gy_fauzec_url :: string
  gy_zexplorer_tx_url :: string
  gy_issuer_key_path :: string
  gy_issuer_jwks_path :: string
  gy_issuer_kid :: string
  gy_zspend_audience :: string
  gy_token_ttl_seconds :: u64
  gy_min_funded_zat :: u64
  gy_static_dir :: "string option"

definition env_path :: "Env \<Rightarrow> string \<Rightarrow> string option" where
  "env_path env name = (case env name of None \<Rightarrow> None | Some raw \<Rightarrow> if trim raw = [] then None else Some (trim raw))"

definition env_string :: "Env \<Rightarrow> string \<Rightarrow> string \<Rightarrow> string" where
  "env_string env name fallback = (case env_path env name of None \<Rightarrow> fallback | Some raw \<Rightarrow> raw)"

definition env_socket_addr :: "(string \<Rightarrow> string + 'addr) \<Rightarrow> Env \<Rightarrow> string \<Rightarrow> string \<Rightarrow> DemoError + 'addr" where
  "env_socket_addr parse_addr env name fallback =
    (case parse_addr (env_string env name fallback) of
       Inl err \<Rightarrow> Err (demo_config_error (name @ '' is invalid: '' @ err)) | Inr addr \<Rightarrow> Ok addr)"

text \<open>\<open>err_text\<close> renders the integer parse error of a text.\<close>

definition env_optional_u32 :: "(string \<Rightarrow> string) \<Rightarrow> Env \<Rightarrow> string \<Rightarrow> DemoError + u32 option" where
  "env_optional_u32 err_text env name =
    (case env name of
       None \<Rightarrow> Ok None
     | Some raw \<Rightarrow> (case parse_u32 raw of
                     None \<Rightarrow> Err (demo_config_error (name @ '' is invalid: '' @ err_text raw)) | Some v \<Rightarrow> Ok (Some v)))"

definition env_u64 :: "(string \<Rightarrow> string) \<Rightarrow> Env \<Rightarrow> string \<Rightarrow> u64 \<Rightarrow> DemoError + u64" where
  "env_u64 err_text env name fallback =
    (case env name of
       None \<Rightarrow> Ok fallback
     | Some raw \<Rightarrow> (case parse_u64 raw of
                     None \<Rightarrow> Err (demo_config_error (name @ '' is invalid: '' @ err_text raw)) | Some v \<Rightarrow> Ok v))"

definition parse_demo_network :: "string \<Rightarrow> DemoError + ZallyNetwork" where
  "parse_demo_network raw =
    (if raw = ''testnet'' then Ok ZallyTestnet
     else if raw = ''regtest'' then Ok ZallyRegtest
     else if raw = ''mainnet'' then Err (demo_config_error ''The demo gateway refuses mainnet'')
     else Err (demo_config_error (''network '' @ raw @ '' is unsupported'')))"

fun chain_reference :: "ZallyNetwork \<Rightarrow> string" where
  "chain_reference ZallyMainnet = ''main''"
| "chain_reference ZallyRegtest = ''regtest''"
| "chain_reference ZallyTestnet = ''test''"
| "chain_reference (ZallyOther _) = ''test''"

definition demo_from_env ::
  "(string \<Rightarrow> string + 'addr) \<Rightarrow> (string \<Rightarrow> string) \<Rightarrow> Env \<Rightarrow> DemoError + 'addr DemoConfig" where
  "demo_from_env parse_addr err_text env =
    (let network_label = env_string env ''ZPAY_DEMO_NETWORK'' ''testnet'' in
     case parse_demo_network network_label of
       Inl e \<Rightarrow> Err e
     | Inr network \<Rightarrow>
       let zpay_url = env_string env ''ZPAY_DEMO_ZPAY_URL'' ''http://127.0.0.1:8080'';
           zspend_url = env_string env ''ZPAY_DEMO_ZSPEND_URL'' ''http://127.0.0.1:8090'';
           wallet_dir = env_string env ''ZPAY_DEMO_WALLET_DIR'' ''.tmp/zpay-demo/wallet'';
           issuer_key_path = (case env_path env ''ZPAY_DEMO_ISSUER_KEY_PATH'' of
              Some p \<Rightarrow> p | None \<Rightarrow> path_join wallet_dir ''dev-issuer-p256.pem'');
           issuer_jwks_path = (case env_path env ''ZPAY_DEMO_ISSUER_JWKS_PATH'' of
              Some p \<Rightarrow> p | None \<Rightarrow> path_join wallet_dir ''dev-jwks.json'') in
    (case env_socket_addr parse_addr env ''ZPAY_DEMO_BIND_ADDR'' ''127.0.0.1:7410'' of
       Inl e \<Rightarrow> Err e
     | Inr bind_addr \<Rightarrow>
    (case env_optional_u32 err_text env ''ZPAY_DEMO_BIRTHDAY_HEIGHT'' of
       Inl e \<Rightarrow> Err e
     | Inr birthday_height \<Rightarrow>
    (case env_u64 err_text env ''ZPAY_DEMO_TOKEN_TTL_SECONDS'' 120 of
       Inl e \<Rightarrow> Err e
     | Inr token_ttl_seconds \<Rightarrow>
    (case env_u64 err_text env ''ZPAY_DEMO_MIN_FUNDED_ZAT'' 15000 of
       Inl e \<Rightarrow> Err e
     | Inr min_funded_zat \<Rightarrow>
       Ok \<lparr>gy_bind_addr = bind_addr, gy_zpay_url = zpay_url,
           gy_zpay_public_url = env_string env ''ZPAY_DEMO_ZPAY_PUBLIC_URL'' zpay_url,
           gy_zpay_ops_url = env_string env ''ZPAY_DEMO_ZPAY_OPS_URL'' ''http://127.0.0.1:9295'',
           gy_zspend_url = zspend_url,
           gy_zspend_public_url = env_string env ''ZPAY_DEMO_ZSPEND_PUBLIC_URL'' zspend_url,
           gy_zinder_url = env_string env ''ZPAY_DEMO_ZINDER_URL'' ''http://127.0.0.1:19102'',
           gy_wallet_dir = wallet_dir, gy_birthday_height = birthday_height, gy_network_label = network_label,
           gy_network = network, gy_payee_id = env_string env ''ZPAY_DEMO_PAYEE_ID'' ''aether-demo'',
           gy_resource_uri = env_string env ''ZPAY_DEMO_RESOURCE_URI'' ''https://zpay.local/demo/reports/aether-brief'',
           gy_fauzec_url = env_string env ''ZPAY_DEMO_FAUZEC_URL'' ''https://fauzec.com'',
           gy_zexplorer_tx_url = env_string env ''ZPAY_DEMO_ZEXPLORER_TX_URL'' ''https://zexplorer.app/testnet/tx'',
           gy_issuer_key_path = issuer_key_path, gy_issuer_jwks_path = issuer_jwks_path,
           gy_issuer_kid = env_string env ''ZPAY_DEMO_ISSUER_KID'' ''zpay-demo-dev'',
           gy_zspend_audience = env_string env ''ZPAY_DEMO_ZSPEND_AUDIENCE'' ''urn:zpay:zspend:local-dev'',
           gy_token_ttl_seconds = token_ttl_seconds, gy_min_funded_zat = min_funded_zat,
           gy_static_dir = env_path env ''ZPAY_DEMO_STATIC_DIR''\<rparr>)))))"

subsection \<open>Payments and their stages\<close>

datatype PaymentMode = Checkout | Autopay

datatype DemoStage =
    StageReady | StageNeedsFunds | StageReview | StageSigning | StageSettling | StageConfirming | StageMined | StageFinal
  | StagePaid | StageFailed | StageExpired

fun stage_is_terminal :: "DemoStage \<Rightarrow> bool" where
  "stage_is_terminal StagePaid = True"
| "stage_is_terminal StageFailed = True"
| "stage_is_terminal StageExpired = True"
| "stage_is_terminal _ = False"

text \<open>The UTF-8 bytes of the ellipsis.\<close>

definition ellipsis :: string where "ellipsis = [CHR 0xE2, CHR 0x80, CHR 0xA6]"

fun stage_message :: "DemoStage \<Rightarrow> string" where
  "stage_message StageReady = ''Ready to start checkout''"
| "stage_message StageNeedsFunds = ''The demo wallet needs testnet funds''"
| "stage_message StageReview = ''Review the payment before signing''"
| "stage_message StageSigning = ''Signing'' @ ellipsis"
| "stage_message StageSettling = ''Settling'' @ ellipsis"
| "stage_message StageConfirming = ''Confirming'' @ ellipsis"
| "stage_message StageMined = ''Payment mined''"
| "stage_message StageFinal = ''Payment final''"
| "stage_message StagePaid = ''Payment settled''"
| "stage_message StageFailed = ''Payment failed. Try again''"
| "stage_message StageExpired = ''This payment expired. Start a new checkout''"

record PreparedPayment =
  gp_payment_id :: string
  gp_payment_uri :: string
  gp_memo_bytes :: bytes
  gp_expiry_height :: u32
  gp_amount_zat :: u64

record StoredDisclosure =
  sl_payload_hex :: string
  sl_message_hex :: string

record StoredPayment =
  st_prepared_payment :: PreparedPayment
  st_mode :: PaymentMode
  st_stage_override :: "DemoStage option"
  st_settled_transaction_id :: "string option"
  st_disclosure :: "StoredDisclosure option"

record SettlementArtifacts =
  sa_transaction_id :: string
  sa_disclosure :: "StoredDisclosure option"

record ('w, 'n) DemoState =
  gs_wallet :: 'w
  gs_net :: 'n
  gs_disk :: Disk
  gs_payments :: "(string, StoredPayment) hashmap"

definition stored_payment :: "('w, 'n) DemoState \<Rightarrow> string \<Rightarrow> DemoError + StoredPayment" where
  "stored_payment s payment_id =
    (case hm_get (gs_payments s) payment_id of
       None \<Rightarrow> Err (not_found ''payment_unknown'' ''This payment is unknown'') | Some stored \<Rightarrow> Ok stored)"

text \<open>A change of the table entry of a payment, if there is one.\<close>

definition update_payment :: "string \<Rightarrow> (StoredPayment \<Rightarrow> StoredPayment) \<Rightarrow> ('w, 'n) DemoState \<Rightarrow> ('w, 'n) DemoState" where
  "update_payment payment_id f s =
    (case hm_get (gs_payments s) payment_id of
       None \<Rightarrow> s | Some stored \<Rightarrow> s\<lparr>gs_payments := hm_insert payment_id (f stored) (gs_payments s)\<rparr>)"

definition set_stage_override :: "string \<Rightarrow> DemoStage option \<Rightarrow> ('w, 'n) DemoState \<Rightarrow> ('w, 'n) DemoState" where
  "set_stage_override payment_id stage s = update_payment payment_id (\<lambda>stored. stored\<lparr>st_stage_override := stage\<rparr>) s"

definition record_settlement :: "string \<Rightarrow> SettlementArtifacts \<Rightarrow> ('w, 'n) DemoState \<Rightarrow> ('w, 'n) DemoState" where
  "record_settlement payment_id artifacts s =
    update_payment payment_id (\<lambda>stored. stored\<lparr>st_settled_transaction_id := Some (sa_transaction_id artifacts),
      st_disclosure := sa_disclosure artifacts, st_stage_override := None\<rparr>) s"

definition payment_ids_most_recent_first :: "string list \<Rightarrow> string list" where
  "payment_ids_most_recent_first ids = rev (sort ids)"

subsection \<open>Wire bodies\<close>

record BroadcastOutcomeBody =
  bb_kind :: string
  bb_transaction_id :: "string option"
  bb_upstream_message :: "string option"

record PaymentStatusBody =
  pb_status :: string
  pb_broadcast_outcome :: "BroadcastOutcomeBody option"
  pb_confirmation_count :: "u32 option"
  pb_mined_block_height :: "u64 option"
  pb_reorg_count :: u32
  pb_settled :: bool

record PaymentBody =
  py_payment_id :: string
  py_mode :: PaymentMode
  py_stage :: DemoStage
  py_amount_zat :: u64
  py_expiry_height :: u32
  py_status :: "string option"
  py_confirmation_count :: "u32 option"
  py_mined_block_height :: "u64 option"
  py_reorg_count :: u32
  py_settled :: bool
  py_transaction_id :: "string option"
  py_zexplorer_url :: "string option"
  py_can_settle :: bool
  py_message :: string

definition payment_body_error :: "string \<Rightarrow> string \<Rightarrow> PaymentBody" where
  "payment_body_error payment_id detail =
    \<lparr>py_payment_id = payment_id, py_mode = Checkout, py_stage = StageFailed, py_amount_zat = 0, py_expiry_height = 0,
     py_status = Some ''failed'', py_confirmation_count = None, py_mined_block_height = None, py_reorg_count = 0,
     py_settled = False, py_transaction_id = None, py_zexplorer_url = None, py_can_settle = False, py_message = detail\<rparr>"

record PrepareRequestBody =
  qb_payee_id :: string
  qb_network :: string
  qb_scheme :: string
  qb_resource_uri :: string
  qb_nonce :: string
  qb_evidence_pack_hash :: "bytes option"
  qb_idempotency_key :: "string option"

record DisclosureVerifyRequestBody =
  vq_txid :: string
  vq_expected_amount_zat :: u64
  vq_expected_pay_to :: string
  vq_expected_disclosure_message_hex :: string
  vq_disclosure_payload_hex :: string

record DisclosureVerifyResponseBody =
  vr_cryptographic_verdict :: string
  vr_inconclusive_reason :: "string option"
  vr_chain_presence :: string
  vr_amount_reconciliation :: string
  vr_recipient_reconciliation :: string
  vr_message_reconciliation :: string
  vr_transaction_id :: "string option"
  vr_payment_id :: "string option"
  vr_disclosed_value_zat :: "u64 option"

record ConsolePaymentRow =
  cr_payment_id :: string
  cr_payee_id :: string
  cr_amount_zat :: u64
  cr_broadcast_outcome :: BroadcastOutcomeBody
  cr_confirmation_count :: "u32 option"
  cr_mined_block_height :: "u64 option"
  cr_reorg_count :: u32
  cr_settled_at_unix_seconds :: i64

record ConsoleRateLimitsBody =
  cl_per_jkt_per_minute :: u32
  cl_per_ip_per_minute :: u32
  cl_tracked_jkt_count :: nat
  cl_tracked_ip_count :: nat
  cl_limited_total_count :: u64

record ConsolePaymentsBody =
  cb_payments :: "ConsolePaymentRow list"
  cb_rate_limits :: ConsoleRateLimitsBody

record FaucetClaimBody =
  fc_request_id :: "string option"
  fc_txid :: "string option"
  fc_state :: "string option"
  fc_outcome :: "string option"
  fc_confirmed_height :: "u32 option"
  fc_error_code :: "string option"
  fc_next_eligible_at_ms :: "u64 option"

record WalletBody =
  wy_network :: string
  wy_address :: string
  wy_sapling_zat :: u64
  wy_orchard_zat :: u64
  wy_ironwood_zat :: u64
  wy_transparent_mature_zat :: u64
  wy_transparent_immature_zat :: u64
  wy_total_zat :: u64
  wy_is_funded :: bool
  wy_as_of_height :: "u32 option"

record DependencyBody =
  dy_status :: string
  dy_kind :: "string option"
  dy_detail :: "string option"
  dy_retryable :: bool
  dy_height :: "u32 option"

record ReadinessBody =
  ry_network :: string
  ry_zpay :: DependencyBody
  ry_zspend :: DependencyBody
  ry_zinder :: DependencyBody
  ry_wallet :: DependencyBody
  ry_faucet :: DependencyBody

definition ready_with_height :: "string \<Rightarrow> u32 option \<Rightarrow> DependencyBody" where
  "ready_with_height status height =
    \<lparr>dy_status = status, dy_kind = None, dy_detail = None, dy_retryable = False, dy_height = height\<rparr>"

definition dependency_not_ready :: "string \<Rightarrow> string \<Rightarrow> bool \<Rightarrow> DependencyBody" where
  "dependency_not_ready kind detail is_retryable =
    \<lparr>dy_status = ''not_ready'', dy_kind = Some kind, dy_detail = Some detail, dy_retryable = is_retryable, dy_height = None\<rparr>"

subsection \<open>The libraries the gateway calls\<close>

text \<open>One entry per call of the HTTP client: URL, what is sent, and the reply with the new state of the world.  A probe
  and a chain read can also time out (\<open>None\<close>).\<close>

record 'n DemoHttp =
  hp_prepare :: "string \<Rightarrow> (string \<times> string) list \<Rightarrow> PrepareRequestBody \<Rightarrow> 'n \<Rightarrow> PreparedPayment HttpReply \<times> 'n"
  hp_sign :: "string \<Rightarrow> (string \<times> string) list \<Rightarrow> SignPaymentRequestBody \<Rightarrow> 'n \<Rightarrow> SignedSpendWire HttpReply \<times> 'n"
  hp_x402_verify :: "string \<Rightarrow> FacilitatorRequest \<Rightarrow> 'n \<Rightarrow> X402VerifyResponse HttpReply \<times> 'n"
  hp_x402_settle :: "string \<Rightarrow> FacilitatorRequest \<Rightarrow> 'n \<Rightarrow> X402SettleResponse HttpReply \<times> 'n"
  hp_payment_status :: "string \<Rightarrow> 'n \<Rightarrow> PaymentStatusBody HttpReply \<times> 'n"
  hp_disclosure_verify :: "string \<Rightarrow> DisclosureVerifyRequestBody \<Rightarrow> 'n \<Rightarrow> DisclosureVerifyResponseBody HttpReply \<times> 'n"
  hp_console :: "string \<Rightarrow> 'n \<Rightarrow> ConsolePaymentsBody HttpReply \<times> 'n"
  hp_faucet_claim :: "string \<Rightarrow> string \<Rightarrow> string \<Rightarrow> string \<Rightarrow> 'n \<Rightarrow> FaucetClaimBody HttpReply \<times> 'n"
  hp_faucet_status :: "string \<Rightarrow> 'n \<Rightarrow> FaucetClaimBody HttpReply \<times> 'n"
  hp_probe :: "string \<Rightarrow> 'n \<Rightarrow> (string + nat) option \<times> 'n"
  hp_current_epoch :: "'n \<Rightarrow> (string + u32 \<times> u32) option \<times> 'n"

record AccountBalance =
  ab_sapling_zat :: u64
  ab_orchard_zat :: u64
  ab_ironwood_zat :: u64
  ab_transparent_mature_zat :: u64
  ab_transparent_immature_zat :: u64
  ab_as_of_height :: "u32 option"

datatype RecipientKind = SaplingAddress | UnifiedAddress | TransparentAddress | TexAddress | OtherRecipient

datatype PaymentDisclosureProfile = Zip311Draft1 | ZallyIronwood

record 'rcp ExportPaymentDisclosurePlan =
  ed_transaction_id :: bytes
  ed_recipient :: 'rcp
  ed_amount :: u64
  ed_message :: bytes
  ed_profile :: PaymentDisclosureProfile

text \<open>The wallet library over a wallet state, with its errors as their texts; an exposed address is whether it has a
  transparent receiver, and its encoding on the network.  \<open>dw_memo\<close> reads a 512 byte memo field.\<close>

record ('w, 'rcp) DemoWallet =
  dw_account_id :: string
  dw_balance :: "'w \<Rightarrow> (string + AccountBalance) \<times> 'w"
  dw_total_zat :: "AccountBalance \<Rightarrow> u64"
  dw_exposed :: "ZallyNetwork \<Rightarrow> 'w \<Rightarrow> (string + (bool \<times> string) list) \<times> 'w"
  dw_derive_next :: "ZallyNetwork \<Rightarrow> 'w \<Rightarrow> (string + string) \<times> 'w"
  dw_propose :: "'rcp ProposalPlan \<Rightarrow> u32 option \<Rightarrow> 'w \<Rightarrow> (string + bytes) \<times> 'w"
  dw_prove :: "bytes \<Rightarrow> 'w \<Rightarrow> (string + bytes) \<times> 'w"
  dw_sign :: "bytes \<Rightarrow> 'w \<Rightarrow> (string + bytes) \<times> 'w"
  dw_extract :: "bytes \<Rightarrow> 'w \<Rightarrow> (string + bytes) \<times> 'w"
  dw_export_disclosure :: "'rcp ExportPaymentDisclosurePlan \<Rightarrow> 'w \<Rightarrow> (string + bytes) \<times> 'w"
  dw_memo :: "bytes \<Rightarrow> string + bytes"
  dw_recipient_kind :: "'rcp \<Rightarrow> RecipientKind"
  dw_hex :: "bytes \<Rightarrow> string"

text \<open>Running a fallible wallet call on the gateway's state.\<close>

definition on_wallet ::
  "('w \<Rightarrow> (string + 'a) \<times> 'w) \<Rightarrow> ('w, 'n) DemoState \<Rightarrow> (DemoError + 'a) \<times> ('w, 'n) DemoState" where
  "on_wallet call s =
    (case call (gs_wallet s) of
       (Inl err, w) \<Rightarrow> (Err (wallet_unavailable err), s\<lparr>gs_wallet := w\<rparr>)
     | (Inr v, w) \<Rightarrow> (Ok v, s\<lparr>gs_wallet := w\<rparr>))"

text \<open>Sequencing of fallible steps on the state, as the source's \<open>?\<close> operator does it.\<close>

definition bind_step :: "('s \<Rightarrow> ('e + 'a) \<times> 's) \<Rightarrow> ('a \<Rightarrow> 's \<Rightarrow> ('e + 'b) \<times> 's) \<Rightarrow> 's \<Rightarrow> ('e + 'b) \<times> 's" where
  "bind_step m k s = (case m s of (Inl e, s') \<Rightarrow> (Err e, s') | (Inr v, s') \<Rightarrow> k v s')"

definition pure_step :: "('e + 'a) \<Rightarrow> 's \<Rightarrow> ('e + 'a) \<times> 's" where
  "pure_step r s = (r, s)"

definition update_step :: "('s \<Rightarrow> 's) \<Rightarrow> 's \<Rightarrow> ('e + unit) \<times> 's" where
  "update_step f s = (Ok (), f s)"

text \<open>An HTTP call whose answer must be a success with a body that decodes: the three ways it fails.\<close>

definition call_json ::
  "('n \<Rightarrow> 't HttpReply \<times> 'n) \<Rightarrow> string \<Rightarrow> (nat \<Rightarrow> string \<Rightarrow> DemoError) \<Rightarrow> string \<Rightarrow> ('w, 'n) DemoState
    \<Rightarrow> (DemoError + 't) \<times> ('w, 'n) DemoState" where
  "call_json call transport_kind failed malformed_kind s =
    (case call (gs_net s) of
       (Inl err, n) \<Rightarrow> (Err (unavailable transport_kind err), s\<lparr>gs_net := n\<rparr>)
     | (Inr (status, text, parsed), n) \<Rightarrow>
       (if \<not> http_success status then Err (failed status text)
        else (case parsed of Inl err \<Rightarrow> Err (unavailable malformed_kind err) | Inr v \<Rightarrow> Ok v), s\<lparr>gs_net := n\<rparr>))"

definition failed_with :: "string \<Rightarrow> string \<Rightarrow> nat \<Rightarrow> string \<Rightarrow> DemoError" where
  "failed_with kind endpoint status text = unavailable kind (endpoint @ '' returned '' @ dec_str status @ '': '' @ text)"

definition base_url :: "string \<Rightarrow> string" where "base_url url = trim_end_matches CHR ''/'' url"

subsection \<open>Wallet view and readiness\<close>

definition wallet_address ::
  "('w, 'rcp) DemoWallet \<Rightarrow> 'addr DemoConfig \<Rightarrow> ('w, 'n) DemoState \<Rightarrow> (DemoError + string) \<times> ('w, 'n) DemoState" where
  "wallet_address W g = bind_step (on_wallet (dw_exposed W (gy_network g))) (\<lambda>exposed.
     case (case List.find fst exposed of Some a \<Rightarrow> Some a | None \<Rightarrow> (case exposed of [] \<Rightarrow> None | a # _ \<Rightarrow> Some a)) of
       Some a \<Rightarrow> pure_step (Ok (snd a))
     | None \<Rightarrow> on_wallet (dw_derive_next W (gy_network g)))"

definition wallet_body ::
  "('w, 'rcp) DemoWallet \<Rightarrow> 'addr DemoConfig \<Rightarrow> ('w, 'n) DemoState \<Rightarrow> (DemoError + WalletBody) \<times> ('w, 'n) DemoState" where
  "wallet_body W g = bind_step (wallet_address W g) (\<lambda>address. bind_step (on_wallet (dw_balance W)) (\<lambda>balance.
     pure_step (Ok
       \<lparr>wy_network = gy_network_label g, wy_address = address, wy_sapling_zat = ab_sapling_zat balance,
        wy_orchard_zat = ab_orchard_zat balance, wy_ironwood_zat = ab_ironwood_zat balance,
        wy_transparent_mature_zat = ab_transparent_mature_zat balance,
        wy_transparent_immature_zat = ab_transparent_immature_zat balance, wy_total_zat = dw_total_zat W balance,
        wy_is_funded = (dw_total_zat W balance \<ge> gy_min_funded_zat g), wy_as_of_height = ab_as_of_height balance\<rparr>)))"

definition probe_http :: "'n DemoHttp \<Rightarrow> string \<Rightarrow> ('w, 'n) DemoState \<Rightarrow> DependencyBody \<times> ('w, 'n) DemoState" where
  "probe_http H url s =
    (case hp_probe H url (gs_net s) of
       (reply, n) \<Rightarrow>
         ((case reply of
             Some (Inr status) \<Rightarrow>
               if http_success status then ready_with_height ''ready'' None
               else dependency_not_ready ''http_not_ready'' (''HTTP '' @ dec_str status) True
           | Some (Inl err) \<Rightarrow> dependency_not_ready ''http_unavailable'' err True
           | None \<Rightarrow> dependency_not_ready ''http_timeout'' ''HTTP probe timed out'' True), s\<lparr>gs_net := n\<rparr>))"

definition probe_zinder :: "'n DemoHttp \<Rightarrow> ('w, 'n) DemoState \<Rightarrow> DependencyBody \<times> ('w, 'n) DemoState" where
  "probe_zinder H s =
    (case hp_current_epoch H (gs_net s) of
       (reply, n) \<Rightarrow>
         ((case reply of
             Some (Inr (visible_tip, _)) \<Rightarrow> ready_with_height ''ready'' (Some visible_tip)
           | Some (Inl err) \<Rightarrow> dependency_not_ready ''zinder_unavailable'' err True
           | None \<Rightarrow> dependency_not_ready ''zinder_timeout'' ''zinder probe timed out'' True), s\<lparr>gs_net := n\<rparr>))"

definition probe_wallet ::
  "('w, 'rcp) DemoWallet \<Rightarrow> 'addr DemoConfig \<Rightarrow> ('w, 'n) DemoState \<Rightarrow> DependencyBody \<times> ('w, 'n) DemoState" where
  "probe_wallet W g s =
    (case wallet_body W g s of
       (Inr wallet, s') \<Rightarrow>
         (\<lparr>dy_status = (if wy_is_funded wallet then ''ready'' else ''needs_funds''), dy_kind = None,
           dy_detail = Some (if wy_is_funded wallet then ''Demo wallet has spendable funds'' else ''The demo wallet needs testnet funds''),
           dy_retryable = True, dy_height = wy_as_of_height wallet\<rparr>, s')
     | (Inl err, s') \<Rightarrow> (dependency_not_ready ''wallet_unavailable'' (de_detail err) True, s'))"

definition readiness_snapshot ::
  "'n DemoHttp \<Rightarrow> ('w, 'rcp) DemoWallet \<Rightarrow> 'addr DemoConfig \<Rightarrow> ('w, 'n) DemoState \<Rightarrow> ReadinessBody \<times> ('w, 'n) DemoState" where
  "readiness_snapshot H W g s =
    (case probe_http H (gy_zpay_ops_url g @ ''/readyz'') s of (zpay, s1) \<Rightarrow>
     case probe_http H (gy_zspend_url g @ ''/readyz'') s1 of (zspend, s2) \<Rightarrow>
     case probe_http H (gy_fauzec_url g) s2 of (faucet, s3) \<Rightarrow>
     case probe_zinder H s3 of (zinder, s4) \<Rightarrow>
     case probe_wallet W g s4 of (wallet, s5) \<Rightarrow>
       (\<lparr>ry_network = gy_network_label g, ry_zpay = zpay, ry_zspend = zspend, ry_zinder = zinder, ry_wallet = wallet,
         ry_faucet = faucet\<rparr>, s5))"

subsection \<open>The faucet\<close>

definition parse_faucet_response ::
  "('n \<Rightarrow> FaucetClaimBody HttpReply \<times> 'n) \<Rightarrow> ('w, 'n) DemoState \<Rightarrow> (DemoError + FaucetClaimBody) \<times> ('w, 'n) DemoState" where
  "parse_faucet_response call s =
    (case call (gs_net s) of
       (Inl err, n) \<Rightarrow> (Err (unavailable ''faucet_unavailable'' err), s\<lparr>gs_net := n\<rparr>)
     | (Inr (status, _, Inl err), n) \<Rightarrow> (Err (unavailable ''faucet_malformed'' err), s\<lparr>gs_net := n\<rparr>)
     | (Inr (status, _, Inr body), n) \<Rightarrow>
       (if \<not> http_success status \<and> fc_error_code body = None
        then Err (unavailable ''faucet_unavailable'' (''fauzec returned HTTP '' @ dec_str status))
        else Ok body, s\<lparr>gs_net := n\<rparr>))"

definition create_faucet_claim_route ::
  "'n DemoHttp \<Rightarrow> ('w, 'rcp) DemoWallet \<Rightarrow> 'addr DemoConfig \<Rightarrow> string option \<Rightarrow> ('w, 'n) DemoState
    \<Rightarrow> (DemoError + FaucetClaimBody) \<times> ('w, 'n) DemoState" where
  "create_faucet_claim_route H W g address =
     bind_step
       (case address of Some a \<Rightarrow> if trim a \<noteq> [] then pure_step (Ok a) else wallet_address W g | None \<Rightarrow> wallet_address W g)
       (\<lambda>a. parse_faucet_response
          (hp_faucet_claim H (base_url (gy_fauzec_url g) @ ''/api/v1/claim'') (gy_network_label g) a ''zpay demo UI''))"

definition faucet_claim_route ::
  "'n DemoHttp \<Rightarrow> 'addr DemoConfig \<Rightarrow> string \<Rightarrow> ('w, 'n) DemoState \<Rightarrow> (DemoError + FaucetClaimBody) \<times> ('w, 'n) DemoState" where
  "faucet_claim_route H g request_id = parse_faucet_response
     (hp_faucet_status H (base_url (gy_fauzec_url g) @ ''/api/v1/status/'' @ gy_network_label g @ ''/'' @ request_id))"

subsection \<open>Preparing a payment\<close>

text \<open>What a request draws: random keys and clock readings.\<close>

record 'sk DemoDraw =
  dr_dpop_key :: 'sk
  dr_issuer_key :: 'sk
  dr_prepare_ms :: nat
  dr_token_clock :: AgentClock
  dr_proof_clock :: AgentClock

definition call_prepare ::
  "'n DemoHttp \<Rightarrow> ('sk, 'ekey) AgentLib \<Rightarrow> 'addr DemoConfig \<Rightarrow> 'sk DemoDraw \<Rightarrow> 'ekey DpopKey \<Rightarrow> ('w, 'n) DemoState
    \<Rightarrow> (DemoError + PreparedPayment) \<times> ('w, 'n) DemoState" where
  "call_prepare H A g draw key =
    (let idempotency_key = ''zpay-demo-'' @ dec_str (dr_prepare_ms draw);
         body = \<lparr>qb_payee_id = gy_payee_id g, qb_network = gy_network_label g, qb_scheme = ''zcash'',
                 qb_resource_uri = gy_resource_uri g, qb_nonce = idempotency_key, qb_evidence_pack_hash = None,
                 qb_idempotency_key = Some idempotency_key\<rparr> in
     case mint_proof A (dr_proof_clock draw) key ''POST'' (base_url (gy_zpay_public_url g) @ ''/zpay/v1/prepare'') ''zpay-demo-dpop'' of
       Inl e \<Rightarrow> pure_step (Err (dpop_proof_invalid e))
     | Inr dpop_proof \<Rightarrow>
       call_json (hp_prepare H (base_url (gy_zpay_url g) @ ''/zpay/v1/prepare'') [(''dpop'', dpop_proof)] body)
         ''zpay_unavailable'' (failed_with ''prepare_failed'' ''zpay /prepare'') ''prepare_malformed'')"

definition fetch_payment_status ::
  "'n DemoHttp \<Rightarrow> 'addr DemoConfig \<Rightarrow> string \<Rightarrow> ('w, 'n) DemoState \<Rightarrow> (DemoError + PaymentStatusBody) \<times> ('w, 'n) DemoState" where
  "fetch_payment_status H g payment_id =
     call_json (hp_payment_status H (base_url (gy_zpay_url g) @ ''/zpay/v1/payments/'' @ payment_id)) ''zpay_unavailable''
       (\<lambda>status _. unavailable ''payment_status_unavailable'' (''zpay status returned HTTP '' @ dec_str status))
       ''payment_status_malformed''"

definition stage_from_status :: "PaymentStatusBody \<Rightarrow> DemoStage" where
  "stage_from_status status =
    (if pb_status status = ''awaiting'' then StageReview
     else if pb_status status = ''mined'' then StageMined
     else if pb_status status = ''final'' then (if pb_settled status then StagePaid else StageFinal)
     else if pb_status status = ''expired'' then StageExpired
     else if pb_status status = ''failed'' \<or> pb_status status = ''never_issued'' then StageFailed
     else StageConfirming)"

definition demo_is_settled :: "PaymentStatusBody option \<Rightarrow> bool" where
  "demo_is_settled status = (case status of None \<Rightarrow> False | Some snap \<Rightarrow> pb_settled snap)"

definition payment_view :: "'addr DemoConfig \<Rightarrow> string \<Rightarrow> StoredPayment \<Rightarrow> PaymentStatusBody option \<Rightarrow> PaymentBody" where
  "payment_view g payment_id stored status =
    (let ui_stage = (case st_stage_override stored of Some stage \<Rightarrow> stage
            | None \<Rightarrow> (case status of Some snap \<Rightarrow> stage_from_status snap | None \<Rightarrow> StageReview));
         tx_id = (case Option.bind (Option.bind status pb_broadcast_outcome) bb_transaction_id of
            Some t \<Rightarrow> Some t | None \<Rightarrow> st_settled_transaction_id stored) in
     \<lparr>py_payment_id = payment_id, py_mode = st_mode stored, py_stage = ui_stage,
      py_amount_zat = gp_amount_zat (st_prepared_payment stored), py_expiry_height = gp_expiry_height (st_prepared_payment stored),
      py_status = map_option pb_status status, py_confirmation_count = Option.bind status pb_confirmation_count,
      py_mined_block_height = Option.bind status pb_mined_block_height,
      py_reorg_count = (case status of None \<Rightarrow> 0 | Some snap \<Rightarrow> pb_reorg_count snap), py_settled = demo_is_settled status,
      py_transaction_id = tx_id, py_zexplorer_url = map_option (\<lambda>t. base_url (gy_zexplorer_tx_url g) @ ''/'' @ t) tx_id,
      py_can_settle = (ui_stage = StageReview), py_message = stage_message ui_stage\<rparr>)"

definition payment_snapshot ::
  "'n DemoHttp \<Rightarrow> 'addr DemoConfig \<Rightarrow> string \<Rightarrow> ('w, 'n) DemoState \<Rightarrow> (DemoError + PaymentBody) \<times> ('w, 'n) DemoState" where
  "payment_snapshot H g payment_id s =
    (case stored_payment s payment_id of
       Inl e \<Rightarrow> (Err e, s)
     | Inr stored \<Rightarrow>
       (case fetch_payment_status H g payment_id s of
          (answer, s') \<Rightarrow>
            (Ok (payment_view g payment_id stored (case answer of Inr status \<Rightarrow> Some status | Inl _ \<Rightarrow> None)), s')))"

definition create_payment_route ::
  "'n DemoHttp \<Rightarrow> ('w, 'rcp) DemoWallet \<Rightarrow> ('sk, 'ekey) AgentLib \<Rightarrow> 'addr DemoConfig \<Rightarrow> 'sk DemoDraw \<Rightarrow> PaymentMode
    \<Rightarrow> ('w, 'n) DemoState \<Rightarrow> (DemoError + PaymentBody) \<times> ('w, 'n) DemoState" where
  "create_payment_route H W A g draw mode = bind_step (wallet_body W g) (\<lambda>wallet.
     if \<not> wy_is_funded wallet then pure_step (Err (rejected ''wallet_needs_funds'' ''The demo wallet needs testnet funds''))
     else case dpop_key_generate A (dr_dpop_key draw) of
       Inl e \<Rightarrow> pure_step (Err (dpop_key_invalid e))
     | Inr key \<Rightarrow> bind_step (call_prepare H A g draw key) (\<lambda>prepared.
         bind_step (update_step (\<lambda>s. s\<lparr>gs_payments := hm_insert (gp_payment_id prepared)
             \<lparr>st_prepared_payment = prepared, st_mode = mode, st_stage_override = Some StageReview,
              st_settled_transaction_id = None, st_disclosure = None\<rparr> (gs_payments s)\<rparr>))
           (\<lambda>_. payment_snapshot H g (gp_payment_id prepared))))"

fun snapshots_of ::
  "'n DemoHttp \<Rightarrow> 'addr DemoConfig \<Rightarrow> string list \<Rightarrow> ('w, 'n) DemoState \<Rightarrow> (DemoError + PaymentBody list) \<times> ('w, 'n) DemoState" where
  "snapshots_of H g [] s = (Ok [], s)"
| "snapshots_of H g (payment_id # ids) s =
    (case payment_snapshot H g payment_id s of
       (Inl e, s') \<Rightarrow> (Err e, s')
     | (Inr body, s') \<Rightarrow>
       (case snapshots_of H g ids s' of (Inl e, s'') \<Rightarrow> (Err e, s'') | (Inr bodies, s'') \<Rightarrow> (Ok (body # bodies), s'')))"

text \<open>\<open>HashMap::keys\<close> in any order; the sort makes the order irrelevant.\<close>

definition payments_route ::
  "'n DemoHttp \<Rightarrow> 'addr DemoConfig \<Rightarrow> ('w, 'n) DemoState \<Rightarrow> (DemoError + PaymentBody list) \<times> ('w, 'n) DemoState" where
  "payments_route H g s = snapshots_of H g (payment_ids_most_recent_first (map fst (gs_payments s))) s"

text \<open>One step of the event stream of a payment: nothing after the stream is done, otherwise the snapshot, or an error
  body that shows the failure, and whether the stream ends with it.\<close>

definition payment_events_step ::
  "'n DemoHttp \<Rightarrow> 'addr DemoConfig \<Rightarrow> string \<Rightarrow> bool \<Rightarrow> ('w, 'n) DemoState \<Rightarrow> (PaymentBody \<times> bool) option \<times> ('w, 'n) DemoState" where
  "payment_events_step H g payment_id is_done s =
    (if is_done then (None, s)
     else case payment_snapshot H g payment_id s of
       (answer, s') \<Rightarrow>
         let snap = (case answer of Inr body \<Rightarrow> body | Inl err \<Rightarrow> payment_body_error payment_id (de_detail err))
         in (Some (snap, stage_is_terminal (py_stage snap)), s'))"

end
