(* ===== verification/Gateway_Settle.thy ===== *)
theory Gateway_Settle
  imports Gateway
begin

text \<open>
  Settling a payment from the demo gateway (\<open>zpay-demo/src/lib.rs\<close>): the checkout flow, which signs with the
  gateway's own wallet, and the autopay flow, which mints an access token and has the wallet service sign; both settle
  through the x402 endpoints.  The issuer key lives on the gateway's disk.  The theorems connect the gateway with
  the checks of the two services: what it builds is what they accept.
\<close>

subsection \<open>The prepared payment\<close>

definition payment_request ::
  "('json, 'key, 'url, 'akey, 'rcp) SignLib \<Rightarrow> PreparedPayment \<Rightarrow> ZallyNetwork \<Rightarrow> DemoError + 'rcp \<times> u64" where
  "payment_request L prepared network =
    (case sl_from_uri L (gp_payment_uri prepared) network of
       Inl err \<Rightarrow> Err (wallet_unavailable err)
     | Inr [] \<Rightarrow> Err (rejected ''payment_request_empty'' ''Prepared URI carries no payment'')
     | Inr (payment # _) \<Rightarrow> Ok (zp_recipient payment, zp_amount payment))"

definition payment_disclosure_profile :: "('w, 'rcp) DemoWallet \<Rightarrow> 'rcp \<Rightarrow> DemoError + PaymentDisclosureProfile" where
  "payment_disclosure_profile W recipient =
    (case dw_recipient_kind W recipient of
       SaplingAddress \<Rightarrow> Ok Zip311Draft1
     | UnifiedAddress \<Rightarrow> Ok ZallyIronwood
     | _ \<Rightarrow> Err (rejected ''disclosure_profile_unsupported'' ''payment recipient has no supported disclosure profile''))"

definition memo_from_protocol_prefix :: "('w, 'rcp) DemoWallet \<Rightarrow> bytes \<Rightarrow> DemoError + bytes" where
  "memo_from_protocol_prefix W memo_bytes =
    (let len = length memo_bytes in
     if len \<noteq> PROTOCOL_MEMO_BYTE_COUNT_NO_EVIDENCE \<and> len \<noteq> PROTOCOL_MEMO_BYTE_COUNT
     then Err (rejected ''memo_length_invalid'' (''prepared memo length was '' @ dec_str len))
     else case dw_memo W (memo_bytes @ replicate (512 - len) 0) of
            Inl err \<Rightarrow> Err (rejected ''memo_invalid'' err) | Inr memo \<Rightarrow> Ok memo)"

definition disclosure_message :: "string \<Rightarrow> bytes" where
  "disclosure_message payment_id = bytes_of (''zpay-demo-payment:'' @ payment_id)"

subsection \<open>The x402 exchange\<close>

definition build_x402_facilitator_request ::
  "('json, 'key, 'url, 'akey, 'rcp) SignLib \<Rightarrow> 'addr DemoConfig \<Rightarrow> PreparedPayment \<Rightarrow> string \<Rightarrow> DemoError + FacilitatorRequest" where
  "build_x402_facilitator_request L g prepared pczt_base64 =
    (case payment_request L prepared (gy_network g) of
       Inl e \<Rightarrow> Err e
     | Inr (recipient, amount) \<Rightarrow>
       Ok (build_x402_pczt_facilitator_request
         \<lparr>xp_network = gy_network g, xp_recipient = sl_encoded L recipient, xp_amount_zat = amount,
          xp_payment_timeout_seconds = gy_token_ttl_seconds g, xp_payment_id = gp_payment_id prepared,
          xp_resource = \<lparr>ri_url = gy_resource_uri g, ri_description = Some ''zpay demo resource'',
            ri_mime_type = Some ''application/json'', ri_service_name = Some ''zpay-demo'', ri_tags = [''demo'', ''zcash''],
            ri_icon_url = None\<rparr>,
          xp_pczt_base64 = pczt_base64\<rparr>))"

definition verify_x402_pczt ::
  "'n DemoHttp \<Rightarrow> 'addr DemoConfig \<Rightarrow> FacilitatorRequest \<Rightarrow> ('w, 'n) DemoState \<Rightarrow> (DemoError + unit) \<times> ('w, 'n) DemoState" where
  "verify_x402_pczt H g request = bind_step
     (call_json (hp_x402_verify H (base_url (gy_zpay_url g) @ ''/x402/v2/verify'') request) ''zpay_unavailable''
       (failed_with ''verify_failed'' ''zpay /x402/v2/verify'') ''verify_malformed'')
     (\<lambda>answer. pure_step
       (if \<not> xv_is_valid answer
        then Err (rejected ''verify_failed'' (case xv_invalid_reason answer of None \<Rightarrow> ''unknown'' | Some reason \<Rightarrow> reason))
        else Ok ()))"

definition settle_x402_pczt ::
  "('json, 'key, 'url, 'akey, 'rcp) SignLib \<Rightarrow> 'n DemoHttp \<Rightarrow> 'addr DemoConfig \<Rightarrow> PreparedPayment \<Rightarrow> string
    \<Rightarrow> ('w, 'n) DemoState \<Rightarrow> (DemoError + string) \<times> ('w, 'n) DemoState" where
  "settle_x402_pczt L H g prepared pczt_base64 =
    (case build_x402_facilitator_request L g prepared pczt_base64 of
       Inl e \<Rightarrow> pure_step (Err e)
     | Inr request \<Rightarrow> bind_step (verify_x402_pczt H g request) (\<lambda>_. bind_step
         (call_json (hp_x402_settle H (base_url (gy_zpay_url g) @ ''/x402/v2/settle'') request) ''zpay_unavailable''
           (failed_with ''settle_failed'' ''zpay /x402/v2/settle'') ''settle_malformed'')
         (\<lambda>answer. pure_step
           (if \<not> xs_success answer
            then Err (rejected ''settle_failed'' (case xs_error_reason answer of None \<Rightarrow> ''unknown'' | Some reason \<Rightarrow> reason))
            else case xs_transaction answer of
              None \<Rightarrow> Err (rejected ''settle_malformed'' ''x402 settle succeeded without transaction id'')
            | Some settled_id \<Rightarrow> Ok settled_id))))"

subsection \<open>Checkout\<close>

definition settle_checkout ::
  "('json, 'key, 'url, 'akey, 'rcp) SignLib \<Rightarrow> 'n DemoHttp \<Rightarrow> ('w, 'rcp) DemoWallet \<Rightarrow> 'addr DemoConfig \<Rightarrow> string \<Rightarrow> StoredPayment
    \<Rightarrow> ('w, 'n) DemoState \<Rightarrow> (DemoError + SettlementArtifacts) \<times> ('w, 'n) DemoState" where
  "settle_checkout L H W g payment_id stored =
    (let prepared = st_prepared_payment stored in
     bind_step (update_step (set_stage_override payment_id (Some StageSigning))) (\<lambda>_.
     bind_step (on_wallet (dw_balance W)) (\<lambda>balance.
     bind_step (pure_step (payment_request L prepared (gy_network g))) (\<lambda>(recipient, amount).
     if dw_total_zat W balance < saturating_add amount DEMO_FEE_BUFFER_ZAT
     then bind_step (update_step (set_stage_override payment_id (Some StageNeedsFunds))) (\<lambda>_.
       pure_step (Err (rejected ''wallet_needs_funds''
         (''The demo wallet needs testnet funds: spendable='' @ dec_str (unat (dw_total_zat W balance))
          @ '', requested='' @ dec_str (unat amount)))))
     else
     bind_step (update_step (set_stage_override payment_id (Some StageSettling))) (\<lambda>_.
     bind_step (pure_step (memo_from_protocol_prefix W (gp_memo_bytes prepared))) (\<lambda>memo.
     bind_step (on_wallet (dw_propose W \<lparr>pp_account = dw_account_id W, pp_recipient = recipient, pp_amount = amount, pp_memo = Some memo\<rparr>
        (Some (gp_expiry_height prepared)))) (\<lambda>unsigned_pczt.
     bind_step (on_wallet (dw_prove W unsigned_pczt)) (\<lambda>proven_pczt.
     bind_step (on_wallet (dw_sign W proven_pczt)) (\<lambda>signed_pczt.
     bind_step (on_wallet (dw_extract W signed_pczt)) (\<lambda>wallet_transaction_id.
     bind_step (settle_x402_pczt L H g prepared (dl_b64_encode (sl_dpop L) signed_pczt)) (\<lambda>settled_id.
     if settled_id \<noteq> sl_to_rpc_hex L wallet_transaction_id
     then pure_step (Err (rejected ''settle_txid_mismatch''
       (''x402 settle returned '' @ settled_id @ '' but the demo wallet extracted '' @ sl_to_rpc_hex L wallet_transaction_id)))
     else
     bind_step (pure_step (payment_disclosure_profile W recipient)) (\<lambda>profile.
     bind_step (on_wallet (dw_export_disclosure W
        \<lparr>ed_transaction_id = wallet_transaction_id, ed_recipient = recipient, ed_amount = amount,
         ed_message = disclosure_message payment_id, ed_profile = profile\<rparr>)) (\<lambda>disclosure.
     pure_step (Ok \<lparr>sa_transaction_id = settled_id,
       sa_disclosure = Some \<lparr>sl_payload_hex = dw_hex W disclosure, sl_message_hex = dw_hex W (disclosure_message payment_id)\<rparr>\<rparr>))))))))))))))"

subsection \<open>The issuer key\<close>

record 'ekey IssuerEncodingKey =
  ie_encoding :: 'ekey
  ie_algorithm :: Algorithm

text \<open>Key parsing, JSON printing, and the outcome of each file system call on a path; \<open>il_new_mode\<close> is the mode of a
  file the process creates.\<close>

record 'ekey IssuerLib =
  il_from_ed_pem :: "string \<Rightarrow> 'ekey option"
  il_from_ec_pem :: "string \<Rightarrow> 'ekey option"
  il_from_ed_der :: "string \<Rightarrow> 'ekey"
  il_to_vec_pretty :: "Json \<Rightarrow> string + string"
  il_mkdir :: "string \<Rightarrow> string option"
  il_write :: "string \<Rightarrow> string option"
  il_read :: "string \<Rightarrow> string option"
  il_chmod :: "string \<Rightarrow> string option"
  il_new_mode :: nat

definition fs_write :: "'ekey IssuerLib \<Rightarrow> string \<Rightarrow> string \<Rightarrow> Disk \<Rightarrow> (string + unit) \<times> Disk" where
  "fs_write I path content disk =
    (case il_write I path of
       Some err \<Rightarrow> (Err err, disk)
     | None \<Rightarrow> (Ok (), hm_insert path \<lparr>df_content = content,
         df_mode = (case hm_get disk path of None \<Rightarrow> il_new_mode I | Some f \<Rightarrow> df_mode f)\<rparr> disk))"

definition tighten_secret_permissions :: "'ekey IssuerLib \<Rightarrow> string \<Rightarrow> Disk \<Rightarrow> (DemoError + unit) \<times> Disk" where
  "tighten_secret_permissions I path disk =
    (case il_chmod I path of
       Some err \<Rightarrow> (Err (unavailable ''issuer_key_unavailable'' err), disk)
     | None \<Rightarrow> (case hm_get disk path of
                 None \<Rightarrow> (Err (unavailable ''issuer_key_unavailable'' ''No such file or directory (os error 2)''), disk)
               | Some f \<Rightarrow> (Ok (), hm_insert path (f\<lparr>df_mode := 384\<rparr>) disk)))"

definition write_secret_file :: "'ekey IssuerLib \<Rightarrow> string \<Rightarrow> string \<Rightarrow> Disk \<Rightarrow> (DemoError + unit) \<times> Disk" where
  "write_secret_file I path content disk =
    (case fs_write I path content disk of
       (Inl err, disk') \<Rightarrow> (Err (unavailable ''issuer_key_unavailable'' err), disk')
     | (Inr _, disk') \<Rightarrow> tighten_secret_permissions I path disk')"

definition make_parent :: "'ekey IssuerLib \<Rightarrow> string \<Rightarrow> string \<Rightarrow> DemoError + unit" where
  "make_parent I path kind =
    (case path_parent path of
       None \<Rightarrow> Ok ()
     | Some parent \<Rightarrow> (case il_mkdir I parent of None \<Rightarrow> Ok () | Some err \<Rightarrow> Err (unavailable kind err)))"

definition write_p256_issuer_jwks ::
  "('sk, 'ekey) AgentLib \<Rightarrow> 'ekey IssuerLib \<Rightarrow> string \<Rightarrow> string \<Rightarrow> 'sk \<Rightarrow> Disk \<Rightarrow> (DemoError + unit) \<times> Disk" where
  "write_p256_issuer_jwks A I path issuer_kid signing_key disk =
    (case make_parent I path ''issuer_jwks_unavailable'' of
       Inl e \<Rightarrow> (Err e, disk)
     | Inr _ \<Rightarrow>
    (case ag_point_x A signing_key of
       None \<Rightarrow> (Err (rejected ''issuer_key_invalid'' ''P-256 point missing x''), disk)
     | Some x \<Rightarrow>
    (case ag_point_y A signing_key of
       None \<Rightarrow> (Err (rejected ''issuer_key_invalid'' ''P-256 point missing y''), disk)
     | Some y \<Rightarrow>
       let jwks = JObject [(''keys'', JArray [JObject (bt_from
             [(''kty'', JString ''EC''), (''crv'', JString ''P-256''), (''x'', JString (ag_b64_encode A x)),
              (''y'', JString (ag_b64_encode A y)), (''kid'', JString issuer_kid), (''alg'', JString ''ES256''),
              (''use'', JString ''sig'')])])] in
    (case il_to_vec_pretty I jwks of
       Inl err \<Rightarrow> (Err (rejected ''issuer_jwks_invalid'' err), disk)
     | Inr content \<Rightarrow>
    (case fs_write I path content disk of
       (Inl err, disk') \<Rightarrow> (Err (unavailable ''issuer_jwks_unavailable'' err), disk')
     | (Inr _, disk') \<Rightarrow> (Ok (), disk'))))))"

definition create_p256_issuer_key ::
  "('sk, 'ekey) AgentLib \<Rightarrow> 'ekey IssuerLib \<Rightarrow> 'addr DemoConfig \<Rightarrow> 'sk \<Rightarrow> Disk \<Rightarrow> (DemoError + unit) \<times> Disk" where
  "create_p256_issuer_key A I g signing_key disk =
    (case make_parent I (gy_issuer_key_path g) ''issuer_key_unavailable'' of
       Inl e \<Rightarrow> (Err e, disk)
     | Inr _ \<Rightarrow>
    (case ag_pkcs8_pem A signing_key of
       Inl err \<Rightarrow> (Err (rejected ''issuer_key_invalid'' err), disk)
     | Inr pem \<Rightarrow>
    (case write_secret_file I (gy_issuer_key_path g) pem disk of
       (Inl e, disk1) \<Rightarrow> (Err e, disk1)
     | (Inr _, disk1) \<Rightarrow> write_p256_issuer_jwks A I (gy_issuer_jwks_path g) (gy_issuer_kid g) signing_key disk1)))"

definition create_issuer_key_if_missing ::
  "('sk, 'ekey) AgentLib \<Rightarrow> 'ekey IssuerLib \<Rightarrow> 'addr DemoConfig \<Rightarrow> 'sk \<Rightarrow> Disk \<Rightarrow> (DemoError + unit) \<times> Disk" where
  "create_issuer_key_if_missing A I g signing_key disk =
    (if hm_get disk (gy_issuer_key_path g) = None then create_p256_issuer_key A I g signing_key disk else (Ok (), disk))"

definition load_issuer_encoding_key :: "'ekey IssuerLib \<Rightarrow> string \<Rightarrow> Disk \<Rightarrow> DemoError + 'ekey IssuerEncodingKey" where
  "load_issuer_encoding_key I path disk =
    (case (case il_read I path of Some err \<Rightarrow> Err err
           | None \<Rightarrow> (case hm_get disk path of None \<Rightarrow> Err ''No such file or directory (os error 2)'' | Some f \<Rightarrow> Ok (df_content f))) of
       Inl err \<Rightarrow> Err (unavailable ''issuer_key_unavailable'' err)
     | Inr raw \<Rightarrow>
       if prefix ''-----BEGIN'' raw then
         (case il_from_ed_pem I raw of
            Some key \<Rightarrow> Ok \<lparr>ie_encoding = key, ie_algorithm = EdDSA\<rparr>
          | None \<Rightarrow> (case il_from_ec_pem I raw of
                      Some key \<Rightarrow> Ok \<lparr>ie_encoding = key, ie_algorithm = ES256\<rparr>
                    | None \<Rightarrow> Err (rejected ''issuer_key_invalid'' ''issuer key must be Ed25519 or P-256 PKCS#8 PEM'')))
       else Ok \<lparr>ie_encoding = il_from_ed_der I raw, ie_algorithm = EdDSA\<rparr>)"

definition load_or_create_issuer_encoding_key ::
  "('sk, 'ekey) AgentLib \<Rightarrow> 'ekey IssuerLib \<Rightarrow> 'addr DemoConfig \<Rightarrow> 'sk \<Rightarrow> ('w, 'n) DemoState
    \<Rightarrow> (DemoError + 'ekey IssuerEncodingKey) \<times> ('w, 'n) DemoState" where
  "load_or_create_issuer_encoding_key A I g signing_key s =
    (case create_issuer_key_if_missing A I g signing_key (gs_disk s) of
       (Inl e, disk) \<Rightarrow> (Err e, s\<lparr>gs_disk := disk\<rparr>)
     | (Inr _, disk) \<Rightarrow> (load_issuer_encoding_key I (gy_issuer_key_path g) disk, s\<lparr>gs_disk := disk\<rparr>))"

subsection \<open>Autopay\<close>

definition build_agent_authorization ::
  "('json, 'key, 'url, 'akey, 'rcp) SignLib \<Rightarrow> PreparedPayment \<Rightarrow> ZallyNetwork \<Rightarrow> DemoError + PaymentAuthorization" where
  "build_agent_authorization L prepared network =
    (case payment_request L prepared network of
       Inl e \<Rightarrow> Err e
     | Inr (recipient, amount) \<Rightarrow>
       let reference = chain_reference network;
           recipient_caip10 = ''zcash:'' @ reference @ '':'' @ sl_encoded L recipient;
           authorization =
             \<lparr>pa_chain = \<lparr>ci_namespace = ''zcash'', ci_reference = reference\<rparr>, pa_recipient = recipient_caip10,
              pa_amount = \<lparr>am_currency = ''ZEC'', am_value = dec_str (unat amount), am_unit = ''base''\<rparr>,
              pa_payment_id = gp_payment_id prepared, pa_intent_hash = ''v1:sha256:placeholder'',
              pa_expires_at = BlockHeight (gp_expiry_height prepared)\<rparr> in
       (case recompute_intent_hash (sl_hasher L) authorization recipient_caip10 amount of
          Inl err \<Rightarrow> Err (rejected ''intent_hash_invalid'' err)
        | Inr intent_hash \<Rightarrow> Ok (authorization\<lparr>pa_intent_hash := intent_hash\<rparr>)))"

definition autopay_grant ::
  "'addr DemoConfig \<Rightarrow> 'ekey IssuerEncodingKey \<Rightarrow> 'ekey DpopKey \<Rightarrow> PaymentAuthorization \<Rightarrow> 'ekey AccessTokenGrant" where
  "autopay_grant g issuer_key key authorization =
    \<lparr>tg_issuer_key = ie_encoding issuer_key, tg_issuer_algorithm = ie_algorithm issuer_key, tg_issuer_kid = gy_issuer_kid g,
     tg_audience = gy_zspend_audience g, tg_dpop_jkt = dk_jkt key, tg_authorization = authorization,
     tg_token_ttl_seconds = gy_token_ttl_seconds g, tg_jti_prefix = ''zpay-demo-at''\<rparr>"

definition autopay_call :: "'addr DemoConfig \<Rightarrow> PreparedPayment \<Rightarrow> string \<Rightarrow> string \<Rightarrow> ZspendSignCall" where
  "autopay_call g prepared access_token dpop_proof =
    \<lparr>zc_call_sign_url = base_url (gy_zspend_url g) @ ''/v1/payments/sign'', zc_access_token = access_token,
     zc_dpop_proof = dpop_proof, zc_payment_uri = gp_payment_uri prepared, zc_network_label = gy_network_label g,
     zc_payment_id = gp_payment_id prepared, zc_target_expiry_height = gp_expiry_height prepared\<rparr>"

definition call_sign ::
  "('sk, 'ekey) AgentLib \<Rightarrow> 'n DemoHttp \<Rightarrow> ZspendSignCall \<Rightarrow> ('w, 'n) DemoState \<Rightarrow> (DemoError + AgentSignedPczt) \<times> ('w, 'n) DemoState" where
  "call_sign A H call s =
    (case request_zspend_signature A (hp_sign H) call (gs_net s) of
       (Inl e, n) \<Rightarrow> (Err (zspend_sign_error e), s\<lparr>gs_net := n\<rparr>) | (Inr p, n) \<Rightarrow> (Ok p, s\<lparr>gs_net := n\<rparr>))"

definition settle_autopay ::
  "('json, 'key, 'url, 'akey, 'rcp) SignLib \<Rightarrow> 'n DemoHttp \<Rightarrow> ('sk, 'ekey) AgentLib \<Rightarrow> 'ekey IssuerLib \<Rightarrow> 'addr DemoConfig
    \<Rightarrow> 'sk DemoDraw \<Rightarrow> string \<Rightarrow> StoredPayment \<Rightarrow> ('w, 'n) DemoState \<Rightarrow> (DemoError + string) \<times> ('w, 'n) DemoState" where
  "settle_autopay L H A I g draw payment_id stored =
    (let prepared = st_prepared_payment stored in
     bind_step (update_step (set_stage_override payment_id (Some StageSigning))) (\<lambda>_.
     bind_step (pure_step (build_agent_authorization L prepared (gy_network g))) (\<lambda>authorization.
     bind_step (load_or_create_issuer_encoding_key A I g (dr_issuer_key draw)) (\<lambda>issuer_key.
     case dpop_key_generate A (dr_dpop_key draw) of
       Inl e \<Rightarrow> pure_step (Err (dpop_key_invalid e))
     | Inr key \<Rightarrow>
    (case mint_access_token A (dr_token_clock draw) (autopay_grant g issuer_key key authorization) of
       Inl e \<Rightarrow> pure_step (Err (access_token_invalid e))
     | Inr access_token \<Rightarrow>
    (case mint_access_bound_proof A (dr_proof_clock draw) key access_token ''POST''
            (base_url (gy_zspend_public_url g) @ ''/v1/payments/sign'') ''zpay-demo-dpop'' of
       Inl e \<Rightarrow> pure_step (Err (dpop_proof_invalid e))
     | Inr dpop_proof \<Rightarrow>
     bind_step (call_sign A H (autopay_call g prepared access_token dpop_proof)) (\<lambda>signed_pczt.
     bind_step (update_step (set_stage_override payment_id (Some StageSettling))) (\<lambda>_.
     bind_step (settle_x402_pczt L H g prepared (as_pczt_base64 signed_pczt)) (\<lambda>settled_id.
     if settled_id \<noteq> as_tx_id signed_pczt
     then pure_step (Err (rejected ''settle_txid_mismatch''
       (''x402 settle returned '' @ settled_id @ '' but zspend signed '' @ as_tx_id signed_pczt)))
     else pure_step (Ok settled_id))))))))))"

subsection \<open>Routes\<close>

definition run_settlement ::
  "('json, 'key, 'url, 'akey, 'rcp) SignLib \<Rightarrow> 'n DemoHttp \<Rightarrow> ('w, 'rcp) DemoWallet \<Rightarrow> ('sk, 'ekey) AgentLib \<Rightarrow> 'ekey IssuerLib
    \<Rightarrow> 'addr DemoConfig \<Rightarrow> 'sk DemoDraw \<Rightarrow> string \<Rightarrow> StoredPayment
    \<Rightarrow> ('w, 'n) DemoState \<Rightarrow> (DemoError + SettlementArtifacts) \<times> ('w, 'n) DemoState" where
  "run_settlement L H W A I g draw payment_id stored =
    (case st_mode stored of
       Checkout \<Rightarrow> settle_checkout L H W g payment_id stored
     | Autopay \<Rightarrow> bind_step (settle_autopay L H A I g draw payment_id stored)
         (\<lambda>settled_id. pure_step (Ok \<lparr>sa_transaction_id = settled_id, sa_disclosure = None\<rparr>)))"

definition settle_payment_route ::
  "('json, 'key, 'url, 'akey, 'rcp) SignLib \<Rightarrow> 'n DemoHttp \<Rightarrow> ('w, 'rcp) DemoWallet \<Rightarrow> ('sk, 'ekey) AgentLib \<Rightarrow> 'ekey IssuerLib
    \<Rightarrow> 'addr DemoConfig \<Rightarrow> 'sk DemoDraw \<Rightarrow> string \<Rightarrow> ('w, 'n) DemoState \<Rightarrow> (DemoError + PaymentBody) \<times> ('w, 'n) DemoState" where
  "settle_payment_route L H W A I g draw payment_id =
     bind_step (\<lambda>s. (stored_payment s payment_id, s)) (\<lambda>stored.
     bind_step (run_settlement L H W A I g draw payment_id stored) (\<lambda>artifacts.
     bind_step (update_step (record_settlement payment_id artifacts)) (\<lambda>_. payment_snapshot H g payment_id)))"

definition verify_payment_route ::
  "('json, 'key, 'url, 'akey, 'rcp) SignLib \<Rightarrow> 'n DemoHttp \<Rightarrow> 'addr DemoConfig \<Rightarrow> string \<Rightarrow> ('w, 'n) DemoState
    \<Rightarrow> (DemoError + DisclosureVerifyResponseBody) \<times> ('w, 'n) DemoState" where
  "verify_payment_route L H g payment_id s =
    (case stored_payment s payment_id of
       Inl e \<Rightarrow> (Err e, s)
     | Inr stored \<Rightarrow>
    (case st_settled_transaction_id stored of
       None \<Rightarrow> (Err (rejected ''disclosure_unavailable'' ''The payment hasn't been broadcast by this wallet''), s)
     | Some settled_id \<Rightarrow>
    (case st_disclosure stored of
       None \<Rightarrow> (Err (rejected ''disclosure_unavailable'' ''The signing wallet didn't return a payment disclosure''), s)
     | Some disclosure \<Rightarrow>
    (case payment_request L (st_prepared_payment stored) (gy_network g) of
       Inl e \<Rightarrow> (Err e, s)
     | Inr (recipient, amount) \<Rightarrow>
       call_json (hp_disclosure_verify H (base_url (gy_zpay_url g) @ ''/zpay/v1/verify'')
         \<lparr>vq_txid = settled_id, vq_expected_amount_zat = amount, vq_expected_pay_to = sl_encoded L recipient,
          vq_expected_disclosure_message_hex = sl_message_hex disclosure, vq_disclosure_payload_hex = sl_payload_hex disclosure\<rparr>)
         ''zpay_unavailable'' (failed_with ''disclosure_verify_failed'' ''zpay /verify'') ''disclosure_verify_malformed'' s))))"

definition call_console_payments ::
  "'n DemoHttp \<Rightarrow> 'addr DemoConfig \<Rightarrow> ('w, 'n) DemoState \<Rightarrow> (DemoError + ConsolePaymentsBody) \<times> ('w, 'n) DemoState" where
  "call_console_payments H g = call_json (hp_console H (base_url (gy_zpay_ops_url g) @ ''/payments'')) ''zpay_unavailable''
     (failed_with ''console_payments_failed'' ''zpay ops /payments'') ''console_payments_malformed''"

subsection \<open>Opening the gateway\<close>

record ('chain, 'w) DemoBoot =
  ob_create_dir_all :: "string \<Rightarrow> string option"
  ob_connect_remote :: "string \<Rightarrow> ZallyNetwork \<Rightarrow> string + 'chain"
  ob_settled_tip :: "'chain \<Rightarrow> (string + u32) option"
  ob_create :: "ZallyNetwork \<Rightarrow> string \<Rightarrow> string \<Rightarrow> 'chain \<Rightarrow> u32 \<Rightarrow> string + 'w \<times> string"
  ob_open_or_create :: "ZallyNetwork \<Rightarrow> string \<Rightarrow> string \<Rightarrow> 'chain \<Rightarrow> u32 \<Rightarrow> string + 'w \<times> string"
  ob_start_sync :: "'w \<Rightarrow> 'chain \<Rightarrow> string + unit"

definition resolve_birthday_height :: "('chain, 'w) DemoBoot \<Rightarrow> 'chain \<Rightarrow> u32 option \<Rightarrow> DemoError + u32" where
  "resolve_birthday_height B chain configured_height =
    (case configured_height of
       Some height \<Rightarrow> Ok height
     | None \<Rightarrow> (case ob_settled_tip B chain of
                 None \<Rightarrow> Err (unavailable ''zinder_timeout'' ''zinder tip probe timed out'')
               | Some (Inl err) \<Rightarrow> Err (zinder_unavailable err)
               | Some (Inr tip) \<Rightarrow> Ok (saturating_sub tip DEFAULT_BIRTHDAY_LOOKBACK_BLOCKS)))"

definition open_or_bootstrap_wallet ::
  "('chain, 'w) DemoBoot \<Rightarrow> ZallyNetwork \<Rightarrow> string \<Rightarrow> 'chain \<Rightarrow> u32 \<Rightarrow> Disk \<Rightarrow> DemoError + 'w \<times> string" where
  "open_or_bootstrap_wallet B network wallet_dir chain birthday disk =
    (let seed_path = path_join wallet_dir ''wallet.age'';
         db_path = path_join wallet_dir ''wallet.db'' in
     case (if hm_get disk seed_path = None then ob_create B network seed_path db_path chain birthday
           else ob_open_or_create B network seed_path db_path chain birthday) of
       Inl err \<Rightarrow> Err (wallet_unavailable err) | Inr w \<Rightarrow> Ok w)"

definition demo_open ::
  "('chain, 'w) DemoBoot \<Rightarrow> ('sk, 'ekey) AgentLib \<Rightarrow> 'ekey IssuerLib \<Rightarrow> 'addr DemoConfig \<Rightarrow> 'sk \<Rightarrow> 'n \<Rightarrow> Disk
    \<Rightarrow> DemoError + ('w, 'n) DemoState \<times> string" where
  "demo_open B A I g issuer_sk n disk =
    (case ob_create_dir_all B (gy_wallet_dir g) of
       Some err \<Rightarrow> Err (unavailable ''wallet_dir_unavailable'' err)
     | None \<Rightarrow>
    (case create_issuer_key_if_missing A I g issuer_sk disk of
       (Inl e, _) \<Rightarrow> Err e
     | (Inr _, disk1) \<Rightarrow>
    (case ob_connect_remote B (gy_zinder_url g) (gy_network g) of
       Inl err \<Rightarrow> Err (zinder_unavailable err)
     | Inr chain \<Rightarrow>
    (case resolve_birthday_height B chain (gy_birthday_height g) of
       Inl e \<Rightarrow> Err e
     | Inr birthday \<Rightarrow>
    (case open_or_bootstrap_wallet B (gy_network g) (gy_wallet_dir g) chain birthday disk1 of
       Inl e \<Rightarrow> Err e
     | Inr (wallet, account_id) \<Rightarrow>
    (case ob_start_sync B wallet chain of
       Inl err \<Rightarrow> Err (wallet_unavailable err)
     | Inr _ \<Rightarrow> Ok (\<lparr>gs_wallet = wallet, gs_net = n, gs_disk = disk1, gs_payments = []\<rparr>, account_id)))))))"

end
