(* ===== verification/Gateway_Safety.thy ===== *)
theory Gateway_Safety
  imports Gateway_Settle Sign_Safety
begin

text \<open>
  What the demo gateway guarantees and how it meets the services: the authorization it builds passes the
  wallet's request checks, the x402 request it builds is exactly the settlement of the prepared payment, and it
  records a payment as settled only on the facilitator's word for the transaction it had signed.  The frame argument is
  the locale \<open>step_frame\<close>: a preorder on states that every step of a sequence keeps is kept by the sequence.
\<close>

subsection \<open>Sequences of steps\<close>

lemma bind_step_Ok_iff:
  "bind_step m k s = (Inr v, s') \<longleftrightarrow> (\<exists>a s1. m s = (Inr a, s1) \<and> k a s1 = (Inr v, s'))"
  by (auto simp: bind_step_def split: prod.splits sum.splits)

lemma case_pure_Ok_iff:
  "(case x of Inl e \<Rightarrow> pure_step (Inl (f e)) | Inr v \<Rightarrow> k v) s = (Inr r, s') \<longleftrightarrow> (\<exists>v. x = Inr v \<and> k v s = (Inr r, s'))"
  by (simp add: pure_step_def split: sum.splits)

lemma pure_step_iff: "pure_step r s = (r', s') \<longleftrightarrow> r' = r \<and> s' = s" by (auto simp: pure_step_def)

locale step_frame =
  fixes R :: "'s \<Rightarrow> 's \<Rightarrow> bool"
  assumes refl: "R s s"
    and trans: "R s1 s2 \<Longrightarrow> R s2 s3 \<Longrightarrow> R s1 s3"
begin

definition keeps :: "('s \<Rightarrow> 'r \<times> 's) \<Rightarrow> bool" where
  "keeps m \<longleftrightarrow> (\<forall>s. R s (snd (m s)))"

lemma keepsI: "(\<And>s. R s (snd (m s))) \<Longrightarrow> keeps m" by (simp add: keeps_def)

lemma keepsD: "keeps m \<Longrightarrow> m s = (r, s') \<Longrightarrow> R s s'" unfolding keeps_def by (metis snd_conv)

lemma keeps_pure: "keeps (pure_step r)" by (simp add: keeps_def pure_step_def refl)

lemma keeps_update: "(\<And>s. R s (f s)) \<Longrightarrow> keeps (update_step f)" by (simp add: keeps_def update_step_def)

lemma keeps_bind:
  assumes "keeps m" "\<And>a. keeps (k a)"
  shows "keeps (bind_step m k)"
proof (rule keepsI)
  fix s
  obtain r s1 where m: "m s = (r, s1)" by fastforce
  have "R s s1" using assms(1) m by (rule keepsD)
  moreover have "R s1 (snd (k a s1))" for a using assms(2) by (simp add: keeps_def)
  ultimately show "R s (snd (bind_step m k s))" using m trans by (auto simp: bind_step_def split: sum.splits)
qed

end

subsection \<open>What a settlement may change\<close>

text \<open>All but the stage that is shown for one payment.\<close>

definition settlement_of :: "StoredPayment \<Rightarrow> PreparedPayment \<times> PaymentMode \<times> string option \<times> StoredDisclosure option" where
  "settlement_of stored = (st_prepared_payment stored, st_mode stored, st_settled_transaction_id stored, st_disclosure stored)"

definition same_settlements :: "string \<Rightarrow> ('w, 'n) DemoState \<Rightarrow> ('w, 'n) DemoState \<Rightarrow> bool" where
  "same_settlements pid s s' \<longleftrightarrow>
    (\<forall>p. p \<noteq> pid \<longrightarrow> hm_get (gs_payments s') p = hm_get (gs_payments s) p)
    \<and> map_option settlement_of (hm_get (gs_payments s') pid) = map_option settlement_of (hm_get (gs_payments s) pid)"

interpretation frame: step_frame "same_settlements pid" for pid
  by unfold_locales (simp_all add: same_settlements_def)

lemma same_payments: "gs_payments s' = gs_payments s \<Longrightarrow> same_settlements pid s s'"
  by (simp add: same_settlements_def)

lemma keeps_wallet: "frame.keeps pid (on_wallet call)"
  by (rule frame.keepsI, rule same_payments) (simp add: on_wallet_def split: prod.splits sum.splits)

lemma keeps_call_json: "frame.keeps pid (call_json call t f m)"
  by (rule frame.keepsI, rule same_payments) (simp add: call_json_def split: prod.splits sum.splits)

lemma keeps_call_sign: "frame.keeps pid (call_sign A H call)"
  by (rule frame.keepsI, rule same_payments) (simp add: call_sign_def split: prod.splits sum.splits)

lemma keeps_issuer_key: "frame.keeps pid (load_or_create_issuer_encoding_key A I g sk)"
  by (rule frame.keepsI, rule same_payments) (simp add: load_or_create_issuer_encoding_key_def split: prod.splits sum.splits)

lemma keeps_stage: "frame.keeps pid (update_step (set_stage_override pid stage))"
  by (rule frame.keeps_update)
    (auto simp: same_settlements_def set_stage_override_def update_payment_def settlement_of_def hm_simps split: option.splits)

lemmas keeps_steps = frame.keeps_bind frame.keeps_pure keeps_wallet keeps_call_json keeps_call_sign keeps_issuer_key keeps_stage

lemma keeps_x402: "frame.keeps pid (settle_x402_pczt L H g prepared pczt)"
proof (cases "build_x402_facilitator_request L g prepared pczt")
  case (Inr request)
  show ?thesis unfolding settle_x402_pczt_def verify_x402_pczt_def Inr by (simp, intro keeps_steps)
qed (simp add: settle_x402_pczt_def frame.keeps_pure)

lemma keeps_checkout: "frame.keeps pid (settle_checkout L H W g pid stored)"
  unfolding settle_checkout_def Let_def by (intro keeps_steps keeps_x402 | simp split: prod.splits | safe)+

lemma keeps_autopay: "frame.keeps pid (settle_autopay L H A I g draw pid stored)"
  unfolding settle_autopay_def Let_def by (intro keeps_steps keeps_x402 | simp split: sum.splits | safe)+

lemma keeps_settlement: "frame.keeps pid (run_settlement L H W A I g draw pid stored)"
  unfolding run_settlement_def
  by (cases "st_mode stored") (simp_all add: keeps_checkout frame.keeps_bind frame.keeps_pure keeps_autopay)

subsection \<open>The x402 exchange\<close>

text \<open>The facilitator called a request valid and then settled it as a transaction.\<close>

definition settled_by :: "'n DemoHttp \<Rightarrow> 'addr DemoConfig \<Rightarrow> FacilitatorRequest \<Rightarrow> string \<Rightarrow> bool" where
  "settled_by H g request tx \<longleftrightarrow>
    (\<exists>n n1 n2 status text va status2 text2 sa.
       hp_x402_verify H (base_url (gy_zpay_url g) @ ''/x402/v2/verify'') request n = (Inr (status, text, Inr va), n1)
       \<and> http_success status \<and> xv_is_valid va
       \<and> hp_x402_settle H (base_url (gy_zpay_url g) @ ''/x402/v2/settle'') request n1 = (Inr (status2, text2, Inr sa), n2)
       \<and> http_success status2 \<and> xs_success sa \<and> xs_transaction sa = Some tx)"

lemma call_json_Ok:
  "call_json call t f m s = (Inr v, s') \<Longrightarrow>
    \<exists>status text n. call (gs_net s) = (Inr (status, text, Inr v), n) \<and> http_success status \<and> s' = s\<lparr>gs_net := n\<rparr>"
  by (auto simp: call_json_def split: prod.splits sum.splits if_splits)

lemma settle_x402_Ok:
  assumes "settle_x402_pczt L H g prepared pczt s = (Inr tx, s')"
  shows "\<exists>request. build_x402_facilitator_request L g prepared pczt = Ok request \<and> settled_by H g request tx"
proof -
  obtain request where b: "build_x402_facilitator_request L g prepared pczt = Ok request"
    using assms by (auto simp: settle_x402_pczt_def pure_step_def split: sum.splits)
  obtain va s1 sa s2 where v: "call_json (hp_x402_verify H (base_url (gy_zpay_url g) @ ''/x402/v2/verify'') request) ''zpay_unavailable''
        (failed_with ''verify_failed'' ''zpay /x402/v2/verify'') ''verify_malformed'' s = (Inr va, s1)" "xv_is_valid va"
    and t: "call_json (hp_x402_settle H (base_url (gy_zpay_url g) @ ''/x402/v2/settle'') request) ''zpay_unavailable''
        (failed_with ''settle_failed'' ''zpay /x402/v2/settle'') ''settle_malformed'' s1 = (Inr sa, s2)"
      "xs_success sa" "xs_transaction sa = Some tx"
    using assms unfolding settle_x402_pczt_def verify_x402_pczt_def b
    by (auto simp: bind_step_Ok_iff pure_step_iff split: if_splits option.splits)
  from call_json_Ok [OF v(1)] call_json_Ok [OF t(1)] v(2) t(2,3) b show ?thesis
    unfolding settled_by_def by fastforce
qed

text \<open>The transaction id the signer of a payment stands for.\<close>

definition signed_as ::
  "('json, 'key, 'url, 'akey, 'rcp) SignLib \<Rightarrow> 'n DemoHttp \<Rightarrow> ('w, 'rcp) DemoWallet \<Rightarrow> ('sk, 'ekey) AgentLib \<Rightarrow> 'addr DemoConfig
    \<Rightarrow> StoredPayment \<Rightarrow> string \<Rightarrow> string \<Rightarrow> bool" where
  "signed_as L H W A g stored pczt tx \<longleftrightarrow>
    (case st_mode stored of
       Checkout \<Rightarrow> \<exists>signed_pczt w id w'. dw_extract W signed_pczt w = (Inr id, w')
         \<and> pczt = dl_b64_encode (sl_dpop L) signed_pczt \<and> tx = sl_to_rpc_hex L id
     | Autopay \<Rightarrow> \<exists>token dpop_proof n answer n'.
         request_zspend_signature A (hp_sign H) (autopay_call g (st_prepared_payment stored) token dpop_proof) n = (Inr answer, n')
         \<and> pczt = as_pczt_base64 answer \<and> tx = as_tx_id answer)"

lemma on_wallet_Ok: "on_wallet call s = (Inr v, s') \<Longrightarrow> \<exists>w'. call (gs_wallet s) = (Inr v, w')"
  by (auto simp: on_wallet_def split: prod.splits sum.splits)

lemma call_sign_Ok: "call_sign A H call s = (Inr p, s') \<Longrightarrow> \<exists>n'. request_zspend_signature A (hp_sign H) call (gs_net s) = (Inr p, n')"
  by (auto simp: call_sign_def split: prod.splits sum.splits)

lemma checkout_Ok:
  assumes "settle_checkout L H W g pid stored s = (Inr art, s')"
  shows "\<exists>signed_pczt w id w' request. dw_extract W signed_pczt w = (Inr id, w')
    \<and> build_x402_facilitator_request L g (st_prepared_payment stored) (dl_b64_encode (sl_dpop L) signed_pczt) = Ok request
    \<and> settled_by H g request (sa_transaction_id art) \<and> sa_transaction_id art = sl_to_rpc_hex L id"
proof -
  obtain signed_pczt s1 id s2 s3 where "on_wallet (dw_extract W signed_pczt) s1 = (Inr id, s2)"
    "settle_x402_pczt L H g (st_prepared_payment stored) (dl_b64_encode (sl_dpop L) signed_pczt) s2 = (Inr (sa_transaction_id art), s3)"
    "sa_transaction_id art = sl_to_rpc_hex L id"
    using assms unfolding settle_checkout_def Let_def
    by (clarsimp simp: bind_step_Ok_iff pure_step_iff split: if_splits)
  with on_wallet_Ok [of "dw_extract W signed_pczt"] settle_x402_Ok [of L H g] show ?thesis by meson
qed

lemma autopay_Ok:
  fixes s :: "('w, 'n) DemoState"
  assumes "settle_autopay L H A I g draw pid stored s = (Inr tx, s')"
  shows "\<exists>token dpop_proof n answer n' request.
    request_zspend_signature A (hp_sign H) (autopay_call g (st_prepared_payment stored) token dpop_proof) n = (Inr answer, n')
    \<and> build_x402_facilitator_request L g (st_prepared_payment stored) (as_pczt_base64 answer) = Ok request
    \<and> settled_by H g request tx \<and> tx = as_tx_id answer"
proof -
  have "\<exists>token dpop_proof (s1 :: ('w, 'n) DemoState) answer s2 (s3 :: ('w, 'n) DemoState) s4.
      call_sign A H (autopay_call g (st_prepared_payment stored) token dpop_proof) s1 = (Inr answer, s2)
      \<and> settle_x402_pczt L H g (st_prepared_payment stored) (as_pczt_base64 answer) s3 = (Inr (as_tx_id answer), s4)
      \<and> tx = as_tx_id answer"
    using assms unfolding settle_autopay_def Let_def
    by (clarsimp simp: bind_step_Ok_iff case_pure_Ok_iff pure_step_iff split: if_splits) blast
  then obtain token dpop_proof and s1 :: "('w, 'n) DemoState" and answer s2 and s3 :: "('w, 'n) DemoState" and s4
    where c: "call_sign A H (autopay_call g (st_prepared_payment stored) token dpop_proof) s1 = (Inr answer, s2)"
      and x: "settle_x402_pczt L H g (st_prepared_payment stored) (as_pczt_base64 answer) s3 = (Inr (as_tx_id answer), s4)"
      and t: "tx = as_tx_id answer" by blast
  from call_sign_Ok [OF c] settle_x402_Ok [OF x] t show ?thesis by blast
qed

lemma run_settlement_Ok:
  assumes "run_settlement L H W A I g draw pid stored s = (Inr art, s')"
  shows "\<exists>pczt request. build_x402_facilitator_request L g (st_prepared_payment stored) pczt = Ok request
    \<and> settled_by H g request (sa_transaction_id art) \<and> signed_as L H W A g stored pczt (sa_transaction_id art)"
proof (cases "st_mode stored")
  case Checkout
  then have "settle_checkout L H W g pid stored s = (Inr art, s')" using assms by (simp add: run_settlement_def)
  from checkout_Ok [OF this] show ?thesis using Checkout unfolding signed_as_def by simp metis
next
  case Autopay
  then obtain s1 where "settle_autopay L H A I g draw pid stored s = (Inr (sa_transaction_id art), s1)"
    using assms by (auto simp: run_settlement_def bind_step_Ok_iff pure_step_iff)
  from autopay_Ok [OF this] show ?thesis using Autopay unfolding signed_as_def by simp metis
qed

subsection \<open>A concrete gateway\<close>

definition ex_gateway :: "string DemoConfig" where
  "ex_gateway = projr (demo_from_env Inr id (\<lambda>_. None))"

definition ex_prepared_payment :: PreparedPayment where
  "ex_prepared_payment = \<lparr>gp_payment_id = ''p'', gp_payment_uri = ''zcash:u1'', gp_memo_bytes = replicate 66 0, gp_expiry_height = 100,
     gp_amount_zat = 5\<rparr>"

definition ex_demo_wallet :: "(unit, string) DemoWallet" where
  "ex_demo_wallet = \<lparr>dw_account_id = ''a'', dw_balance = (\<lambda>w. (Ok \<lparr>ab_sapling_zat = 0, ab_orchard_zat = 9000, ab_ironwood_zat = 0,
       ab_transparent_mature_zat = 0, ab_transparent_immature_zat = 0, ab_as_of_height = None\<rparr>, w)),
     dw_total_zat = ab_orchard_zat, dw_exposed = (\<lambda>_ w. (Ok [], w)), dw_derive_next = (\<lambda>_ w. (Ok ''utest1w'', w)),
     dw_propose = (\<lambda>_ _ w. (Ok [1], w)), dw_prove = (\<lambda>p w. (Ok p, w)), dw_sign = (\<lambda>p w. (Ok p, w)),
     dw_extract = (\<lambda>_ w. (Ok [7], w)), dw_export_disclosure = (\<lambda>_ w. (Ok [9], w)), dw_memo = Ok,
     dw_recipient_kind = (\<lambda>_. UnifiedAddress), dw_hex = (\<lambda>_. ''09'')\<rparr>"

definition ex_demo_http :: "unit DemoHttp" where
  "ex_demo_http = \<lparr>hp_prepare = (\<lambda>_ _ _ n. (Inl ''x'', n)), hp_sign = (\<lambda>_ _ _ n. (Inl ''x'', n)),
     hp_x402_verify = (\<lambda>_ _ n. (Inr (200, [], Inr \<lparr>xv_is_valid = True, xv_invalid_reason = None, xv_payer = None, xv_extra = []\<rparr>), n)),
     hp_x402_settle = (\<lambda>_ _ n. (Inr (200, [], Inr \<lparr>xs_success = True, xs_error_reason = None, xs_payer = None,
       xs_transaction = Some ''07'', xs_network = [], xs_amount = [], xs_extensions = []\<rparr>), n)),
     hp_payment_status = (\<lambda>_ n. (Inl ''x'', n)), hp_disclosure_verify = (\<lambda>_ _ n. (Inl ''x'', n)), hp_console = (\<lambda>_ n. (Inl ''x'', n)),
     hp_faucet_claim = (\<lambda>_ _ _ _ n. (Inl ''x'', n)), hp_faucet_status = (\<lambda>_ n. (Inl ''x'', n)), hp_probe = (\<lambda>_ n. (None, n)),
     hp_current_epoch = (\<lambda>n. (None, n))\<rparr>"

definition ex_demo_state :: "(unit, unit) DemoState" where
  "ex_demo_state = \<lparr>gs_wallet = (), gs_net = (), gs_disk = [], gs_payments = [(''p'', \<lparr>st_prepared_payment = ex_prepared_payment,
     st_mode = Checkout, st_stage_override = Some StageReview, st_settled_transaction_id = None, st_disclosure = None\<rparr>)]\<rparr>"

lemma ex_gateway_from_env: "demo_from_env Inr id (\<lambda>_. None) = Ok ex_gateway"
  by (simp add: ex_gateway_def demo_from_env_def env_string_def env_path_def parse_demo_network_def env_socket_addr_def
      env_optional_u32_def env_u64_def Let_def)

lemma ex_gateway_network: "gy_network ex_gateway = ZallyTestnet"
  by (simp add: ex_gateway_def demo_from_env_def env_string_def env_path_def parse_demo_network_def env_socket_addr_def
      env_optional_u32_def env_u64_def Let_def)

definition ex_agent :: "(unit, unit) AgentLib" where
  "ex_agent = \<lparr>ag_point_x = (\<lambda>_. Some [1]), ag_point_y = (\<lambda>_. Some [2]), ag_pkcs8_pem = (\<lambda>_. Ok ''pem''), ag_from_ec_pem = (\<lambda>_. Ok ()),
     ag_b64_encode = (\<lambda>_. ''k''), ag_b64_decode = (\<lambda>s. Ok (bytes_of s)), ag_sha256 = id, ag_thumbprint = (\<lambda>_ _ _ _. ''k''),
     ag_jwk_from_value = (\<lambda>_. Ok \<lparr>jwk_kid = None, jwk_params = EllipticCurve P256 ''k'' ''k''\<rparr>), ag_encode = (\<lambda>_ _ _. Ok ''p''),
     ag_authorization_value = (\<lambda>_. JNull)\<rparr>"

definition ex_issuer_lib :: "unit IssuerLib" where
  "ex_issuer_lib = \<lparr>il_from_ed_pem = (\<lambda>_. None), il_from_ec_pem = (\<lambda>_. Some ()), il_from_ed_der = (\<lambda>_. ()), il_to_vec_pretty = (\<lambda>_. Ok ''j''),
     il_mkdir = (\<lambda>_. None), il_write = (\<lambda>_. None), il_read = (\<lambda>_. None), il_chmod = (\<lambda>_. None), il_new_mode = 420\<rparr>"

definition ex_draw :: "unit DemoDraw" where
  "ex_draw = \<lparr>dr_dpop_key = (), dr_issuer_key = (), dr_prepare_ms = 7, dr_token_clock = \<lparr>at_ms = 7, at_seconds = 7\<rparr>,
     dr_proof_clock = \<lparr>at_ms = 7, at_seconds = 7\<rparr>\<rparr>"

lemmas ex_route = settle_payment_route_def run_settlement_def settle_checkout_def settle_x402_pczt_def verify_x402_pczt_def
  build_x402_facilitator_request_def payment_request_def memo_from_protocol_prefix_def payment_disclosure_profile_def
  bind_step_def update_step_def pure_step_def on_wallet_def call_json_def http_success_def stored_payment_def set_stage_override_def
  update_payment_def record_settlement_def payment_snapshot_def fetch_payment_status_def Let_def

lemma snapshot_payments: "gs_payments (snd (payment_snapshot H g pid s)) = gs_payments s"
  by (simp add: payment_snapshot_def fetch_payment_status_def call_json_def split: sum.splits prod.splits)

text \<open>[C40] The gateway records a payment as settled only when it is: settling a payment leaves every other payment as it
  was and changes, of its own record, nothing but the stage it shows, except when the facilitator answered that the
  x402 request of the prepared payment is valid and then that it is settled, as the very transaction that
  the signer (the gateway's wallet or the wallet service) stands for; then that transaction is recorded.\<close>

theorem gateway_records_only_settled:
  assumes "settle_payment_route L H W A I g draw pid s = (out, s')"
  shows "(\<forall>p. p \<noteq> pid \<longrightarrow> hm_get (gs_payments s') p = hm_get (gs_payments s) p)
    \<and> (map_option settlement_of (hm_get (gs_payments s') pid) = map_option settlement_of (hm_get (gs_payments s) pid)
       \<or> (\<exists>stored stored' pczt request tx. hm_get (gs_payments s) pid = Some stored \<and> hm_get (gs_payments s') pid = Some stored'
            \<and> build_x402_facilitator_request L g (st_prepared_payment stored) pczt = Ok request
            \<and> settled_by H g request tx \<and> signed_as L H W A g stored pczt tx
            \<and> st_settled_transaction_id stored' = Some tx \<and> st_prepared_payment stored' = st_prepared_payment stored
            \<and> st_mode stored' = st_mode stored))"
proof (cases "hm_get (gs_payments s) pid")
  case None
  then have "s' = s" using assms by (auto simp: settle_payment_route_def bind_step_def stored_payment_def)
  then show ?thesis by simp
next
  case (Some stored)
  obtain r s1 where run: "run_settlement L H W A I g draw pid stored s = (r, s1)" by fastforce
  have keep: "same_settlements pid s s1" using keeps_settlement run by (rule frame.keepsD)
  show ?thesis
  proof (cases r)
    case (Inl e)
    then have "s' = s1" using assms Some run by (auto simp: settle_payment_route_def bind_step_def stored_payment_def)
    then show ?thesis using keep by (simp add: same_settlements_def)
  next
    case (Inr art)
    have "s' = snd (payment_snapshot H g pid (record_settlement pid art s1))"
      using assms Some run Inr by (auto simp: settle_payment_route_def bind_step_def stored_payment_def update_step_def split: prod.splits sum.splits)
    then have p: "gs_payments s' = gs_payments (record_settlement pid art s1)" by (simp add: snapshot_payments)
    obtain stored1 where s1: "hm_get (gs_payments s1) pid = Some stored1" "settlement_of stored1 = settlement_of stored"
      using keep Some by (auto simp: same_settlements_def)
    have get: "hm_get (gs_payments s') q = (if q = pid then Some (stored1\<lparr>st_settled_transaction_id := Some (sa_transaction_id art),
        st_disclosure := sa_disclosure art, st_stage_override := None\<rparr>) else hm_get (gs_payments s1) q)" for q
      using s1(1) unfolding p by (simp add: record_settlement_def update_payment_def hm_simps)
    from run_settlement_Ok [OF run [unfolded Inr]] show ?thesis
      using keep Some s1(2) unfolding get same_settlements_def by (auto simp: settlement_of_def)
  qed
qed

theorem gateway_records_only_settled_witness:
  "\<exists>request stored'. settled_by ex_demo_http ex_gateway request ''07'' \<and> st_settled_transaction_id stored' = Some ''07''
    \<and> hm_get (gs_payments (snd (settle_payment_route ex_sign_lib ex_demo_http ex_demo_wallet ex_agent ex_issuer_lib
        ex_gateway ex_draw ''p'' ex_demo_state))) ''p'' = Some stored'"
proof -
  let ?run = "settle_payment_route ex_sign_lib ex_demo_http ex_demo_wallet ex_agent ex_issuer_lib
        ex_gateway ex_draw ''p'' ex_demo_state"
  obtain out s' where r: "?run = (out, s')" by fastforce
  have s: "\<exists>stored'. hm_get (gs_payments (snd ?run)) ''p'' = Some stored' \<and> st_settled_transaction_id stored' = Some ''07''"
    by (simp add: ex_route ex_demo_state_def ex_prepared_payment_def ex_demo_wallet_def ex_demo_http_def ex_sign_lib_def
        DEMO_FEE_BUFFER_ZAT_def saturating_add_def PROTOCOL_MEMO_BYTE_COUNT_NO_EVIDENCE_def)
  have n: "map_option settlement_of (hm_get (gs_payments ex_demo_state) ''p'') =
      Some (ex_prepared_payment, Checkout, None, None)" by (simp add: ex_demo_state_def settlement_of_def)
  from gateway_records_only_settled [OF r] show ?thesis using r s n by (fastforce simp: settlement_of_def)
qed

subsection \<open>Meeting the wallet\<close>

text \<open>Deserialization of the signing request at the wallet, with its lower-case network names.\<close>

definition wire_network_from_label :: "string \<Rightarrow> WireNetwork option" where
  "wire_network_from_label label =
    (if label = ''mainnet'' then Some WireMainnet else if label = ''testnet'' then Some WireTestnet
     else if label = ''regtest'' then Some WireRegtest else None)"

definition sign_request_from_wire :: "SignPaymentRequestBody \<Rightarrow> SignPaymentRequest option" where
  "sign_request_from_wire body =
     map_option (\<lambda>network. \<lparr>sq_payment_request = \<lparr>wq_scheme = wy_scheme (sy_payment_request body),
         wq_value = wy_request_uri (sy_payment_request body)\<rparr>, sq_network = network, sq_payment_id = sy_payment_id body,
         sq_target_expiry_height = sy_target_expiry_height body\<rparr>) (wire_network_from_label (sy_network body))"

lemma demo_from_env_network:
  assumes "demo_from_env pa et env = Ok g"
  shows "gy_network_label g = ''testnet'' \<and> gy_network g = ZallyTestnet \<or> gy_network_label g = ''regtest'' \<and> gy_network g = ZallyRegtest"
  using assms by (auto simp: demo_from_env_def parse_demo_network_def Let_def split: sum.splits if_splits)

lemma payment_request_Ok_iff:
  "payment_request L prepared network = Ok (recipient, amount) \<longleftrightarrow>
    (\<exists>payment rest. sl_from_uri L (gp_payment_uri prepared) network = Ok (payment # rest)
       \<and> zp_recipient payment = recipient \<and> zp_amount payment = amount)"
  by (auto simp: payment_request_def split: sum.splits list.splits)

lemma build_authorization_Ok:
  assumes "build_agent_authorization L prepared network = Ok auth"
  obtains recipient amount where "payment_request L prepared network = Ok (recipient, amount)"
    "pa_chain auth = \<lparr>ci_namespace = ''zcash'', ci_reference = chain_reference network\<rparr>"
    "pa_payment_id auth = gp_payment_id prepared" "pa_expires_at auth = BlockHeight (gp_expiry_height prepared)"
    "recompute_intent_hash (sl_hasher L) auth (''zcash:'' @ chain_reference network @ '':'' @ sl_encoded L recipient) amount
      = Ok (pa_intent_hash auth)"
  using assms that by (auto simp: build_agent_authorization_def recompute_intent_hash_def Let_def split: sum.splits)

text \<open>[C11] The gateway and the wallet service agree on the payment: for a gateway configured from its environment and a wallet
  that serves the same network, the signing request the gateway sends for a prepared payment decodes at the
  wallet, and with the authorization the gateway builds for it the wallet's checks of the request against the grant --
  payment id, expiry, chain, network, intent hash over the parsed payment, amount cap -- all succeed, with the very
  recipient and amount of the prepared payment, provided the amount is within the cap.\<close>

theorem agent_request_passes_wallet:
  assumes "demo_from_env pa et env = Ok g" "build_agent_authorization L prepared (gy_network g) = Ok auth"
    and "ac_authorization_details claims = [auth]" "sp_network (sc_policy c) = gy_network g"
    and "payment_request L prepared (gy_network g) = Ok (recipient, amount)" "amount \<le> sp_max_amount_zat (sc_policy c)"
  shows "\<exists>body payment. sign_request_from_wire (sign_request_body (autopay_call g prepared token dpop_proof)) = Some body
    \<and> checked_payment L c claims body = Ok (auth, payment) \<and> zp_recipient payment = recipient \<and> zp_amount payment = amount"
proof -
  obtain payment rest where u: "sl_from_uri L (gp_payment_uri prepared) (gy_network g) = Ok (payment # rest)"
    "zp_recipient payment = recipient" "zp_amount payment = amount"
    using assms(5) by (auto simp: payment_request_Ok_iff)
  obtain network where n: "wire_network_from_label (gy_network_label g) = Some network" "to_zally network = gy_network g"
    "body_reference network = chain_reference (gy_network g)"
    using demo_from_env_network [OF assms(1)] by (auto simp: wire_network_from_label_def)
  from assms(2) show ?thesis
  proof (cases rule: build_authorization_Ok)
    case (1 recipient' amount')
    then have "recompute_intent_hash (sl_hasher L) auth (''zcash:'' @ chain_reference (gy_network g) @ '':'' @ sl_encoded L recipient) amount
        = Ok (pa_intent_hash auth)" using assms(5) by simp
    then show ?thesis using assms(3,4,6) u n 1(2-4)
      by (simp add: sign_request_from_wire_def sign_request_body_def autopay_call_def checked_payment_def payment_authorization_def
          cross_check_request_def intent_matches_def Let_def not_less)
  qed
qed

theorem agent_request_passes_wallet_witness:
  "\<exists>auth body payment. build_agent_authorization ex_sign_lib ex_prepared_payment (gy_network ex_gateway) = Ok auth
    \<and> sign_request_from_wire (sign_request_body (autopay_call ex_gateway ex_prepared_payment ''tok'' ''p'')) = Some body
    \<and> checked_payment ex_sign_lib ex_spend_config (ex_access_claims\<lparr>ac_authorization_details := [auth]\<rparr>) body = Ok (auth, payment)
    \<and> zp_amount payment = 5"
proof -
  have pr: "payment_request ex_sign_lib ex_prepared_payment (gy_network ex_gateway) = Ok (''u1'', 5)"
    by (simp add: payment_request_def ex_sign_lib_def)
  then obtain auth where b: "build_agent_authorization ex_sign_lib ex_prepared_payment (gy_network ex_gateway) = Ok auth"
    by (simp add: build_agent_authorization_def recompute_intent_hash_def ex_sign_lib_def Let_def)
  have "\<exists>body payment. sign_request_from_wire (sign_request_body (autopay_call ex_gateway ex_prepared_payment ''tok'' ''p'')) = Some body
    \<and> checked_payment ex_sign_lib ex_spend_config (ex_access_claims\<lparr>ac_authorization_details := [auth]\<rparr>) body = Ok (auth, payment)
    \<and> zp_recipient payment = ''u1'' \<and> zp_amount payment = 5"
    by (rule agent_request_passes_wallet [OF ex_gateway_from_env b _ _ pr]) (simp_all add: ex_spend_config_def ex_gateway_network)
  with b show ?thesis by blast
qed

subsection \<open>Meeting the facilitator\<close>

lemma parse_dec_str: "parse_u64 (dec_str (unat w)) = Some w"
proof (rule parse_u64_digits)
  show "list_all is_digit (dec_str (unat w))"
    using dec_str_digits by (fastforce simp: list_all_iff is_digit_def digit_char_def byte_of_def)
qed (simp_all add: dec_val_dec_str)

text \<open>[C12] The gateway and the facilitator agree on the payment: the x402 request the gateway builds for a prepared payment and a
  signed PCZT is read by the facilitator as exactly the settlement of that payment -- the configured network, the
  recipient and amount of the payment URI, the bytes of the PCZT -- linked to the prepared payment id, whenever
  the amount is a valid one, the recipient belongs to the network and the PCZT text decodes.\<close>

theorem gateway_request_settles_exactly:
  assumes "demo_from_env pa et env = Ok g" "build_x402_facilitator_request L g prepared pczt = Ok request"
    and "payment_request L prepared (gy_network g) = Ok (recipient, amount)" "0 < amount" "amount \<le> ZCASH_EXACT_MAX_ZAT"
    and "has_valid_recipient_prefix (x402_network_id (gy_network g)) (sl_encoded L recipient)"
    and "pczt \<noteq> []" "b64_decode pczt = Ok pczt_bytes"
    and "payment_id_from_str (gp_payment_id prepared) = Ok (gp_payment_id prepared)"
  shows "settlement_request b64_decode request =
      Ok \<lparr>ps_network = (if gy_network g = ZallyTestnet then Testnet else Regtest), ps_amount_zat = amount,
          ps_pay_to = sl_encoded L recipient, ps_pczt_bytes = pczt_bytes\<rparr>
    \<and> zpay_payment_id (fr_payment_requirements request) = Ok (Some (gp_payment_id prepared))"
proof -
  have r: "request = build_x402_pczt_facilitator_request
         \<lparr>xp_network = gy_network g, xp_recipient = sl_encoded L recipient, xp_amount_zat = amount,
          xp_payment_timeout_seconds = gy_token_ttl_seconds g, xp_payment_id = gp_payment_id prepared,
          xp_resource = \<lparr>ri_url = gy_resource_uri g, ri_description = Some ''zpay demo resource'',
            ri_mime_type = Some ''application/json'', ri_service_name = Some ''zpay-demo'', ri_tags = [''demo'', ''zcash''],
            ri_icon_url = None\<rparr>,
          xp_pczt_base64 = pczt\<rparr>"
    using assms(2,3) by (simp add: build_x402_facilitator_request_def)
  have net: "is_zcash_network (x402_network_id (gy_network g))"
    "payment_network (x402_network_id (gy_network g)) = Some (if gy_network g = ZallyTestnet then Testnet else Regtest)"
    using demo_from_env_network [OF assms(1)] by (auto simp: is_zcash_network_def payment_network_def network_ids)
  show ?thesis
    unfolding settlement_request_Ok_iff using net assms(4-9)
    by (simp add: r build_x402_pczt_facilitator_request_def x402_pczt_requirements_def has_zcash_exact_network_def
        ZCASH_EXACT_SCHEME_def ZCASH_EXACT_ASSET_def is_valid_zat_amount_def parse_dec_str get_str_def bt_from_def bt_insert_get
        PCZT_FORMAT_def ZCASH_EXACT_AUTHORIZATION_FORMAT_def zpay_payment_id_def ZPAY_PAYMENT_ID_EXTENSION_def)
qed

theorem gateway_request_settles_exactly_witness:
  "\<exists>request. build_x402_facilitator_request (ex_sign_lib\<lparr>sl_encoded := (\<lambda>_. ''utest1x'')\<rparr>) ex_gateway ex_prepared_payment ''q'' = Ok request
    \<and> settlement_request (\<lambda>s. Ok (bytes_of s)) request =
        Ok \<lparr>ps_network = Testnet, ps_amount_zat = 5, ps_pay_to = ''utest1x'', ps_pczt_bytes = bytes_of ''q''\<rparr>"
proof -
  let ?L = "ex_sign_lib\<lparr>sl_encoded := (\<lambda>_. ''utest1x'')\<rparr>"
  have pr: "payment_request ?L ex_prepared_payment (gy_network ex_gateway) = Ok (''u1'', 5)"
    by (simp add: payment_request_def ex_sign_lib_def)
  then obtain request where b: "build_x402_facilitator_request ?L ex_gateway ex_prepared_payment ''q'' = Ok request"
    by (simp add: build_x402_facilitator_request_def)
  have "settlement_request (\<lambda>s. Ok (bytes_of s)) request =
      Ok \<lparr>ps_network = (if gy_network ex_gateway = ZallyTestnet then Testnet else Regtest), ps_amount_zat = 5,
          ps_pay_to = sl_encoded ?L ''u1'', ps_pczt_bytes = bytes_of ''q''\<rparr>
    \<and> zpay_payment_id (fr_payment_requirements request) = Ok (Some (gp_payment_id ex_prepared_payment))"
    by (rule gateway_request_settles_exactly [OF ex_gateway_from_env b pr])
      (simp_all add: ZCASH_EXACT_MAX_ZAT_def ex_gateway_network has_valid_recipient_prefix_def network_ids payment_id_from_str_def
        ex_prepared_payment_def ex_trims PAYMENT_ID_MAX_LEN_def)
  then show ?thesis using b by (simp add: ex_gateway_network)
qed

end
