(* ===== verification/Harness_Safety.thy ===== *)
theory Harness_Safety
  imports Harness
begin

text \<open>
  What the end-to-end validator guarantees: when its commands end, and what its time limits bound, given that the HTTP
  clients have no timeout; that a successful agent run is a chain of calls, each made in the world the one before
  left, in which the facilitator settled and recorded the very transaction the wallet service signed; and that paying
  through the facilitator's settle endpoint tells the wallet what the chain plane answered.
\<close>

subsection \<open>The polling loops\<close>

text \<open>The clock does not run backwards, whichever call is made in between, and a sleep takes at least its time.\<close>

definition clock_advances :: "'n HarnessHttp \<Rightarrow> ('n \<Rightarrow> Instant) \<Rightarrow> bool" where
  "clock_advances H time \<longleftrightarrow>
    (\<forall>n. fst (hh_now H n) = time n \<and> time n \<le> time (snd (hh_now H n)))
    \<and> (\<forall>d n. time n + d \<le> time (hh_sleep H d n))
    \<and> (\<forall>url n. time n \<le> time (snd (hh_status H url n))) \<and> (\<forall>url n. time n \<le> time (snd (hh_probe H url n)))"

text \<open>The world before the \<open>k\<close>-th look.\<close>

primrec poll_world :: "'n HarnessHttp \<Rightarrow> nat \<Rightarrow> ('n \<Rightarrow> Look \<times> 'n) \<Rightarrow> 'n \<Rightarrow> nat \<Rightarrow> 'n" where
  "poll_world H pause look n 0 = n"
| "poll_world H pause look n (Suc k) = hh_sleep H pause (snd (hh_now H (snd (look (poll_world H pause look n k)))))"

lemma poll_world_shift:
  "poll_world H pause look n (Suc k) = poll_world H pause look (hh_sleep H pause (snd (hh_now H (snd (look n))))) k"
  by (induction k) simp_all

text \<open>A look after which the loop pauses and looks again, and what the loop makes of any other look.\<close>

definition goes_on :: "'n HarnessHttp \<Rightarrow> ('n \<Rightarrow> Look \<times> 'n) \<Rightarrow> Instant \<Rightarrow> 'n \<Rightarrow> bool" where
  "goes_on H look deadline n \<longleftrightarrow>
    \<not> hh_stuck H (snd (look n)) \<and> (\<exists>late. fst (look n) = Pending_look late) \<and> fst (hh_now H (snd (look n))) < deadline"

definition last_look ::
  "'n HarnessHttp \<Rightarrow> ('n \<Rightarrow> Look \<times> 'n) \<Rightarrow> Instant \<Rightarrow> 'n \<Rightarrow> ((HarnessError + unit) \<times> 'n) option \<Rightarrow> bool" where
  "last_look H look deadline n out \<longleftrightarrow>
    (case out of
       None \<Rightarrow> hh_stuck H (snd (look n))
     | Some (r, n') \<Rightarrow> \<not> hh_stuck H (snd (look n))
         \<and> (case fst (look n) of
              Settled_look r' \<Rightarrow> r = r' \<and> n' = snd (look n)
            | Pending_look late \<Rightarrow> (deadline \<le> fst (hh_now H (snd (look n)))) \<and> r = Err late \<and> n' = snd (hh_now H (snd (look n)))))"

lemma poll_until_goes_on:
  "goes_on H look deadline n \<Longrightarrow>
    poll_until H pause look deadline n = poll_until H pause look deadline (hh_sleep H pause (snd (hh_now H (snd (look n)))))"
  by (subst poll_until.simps) (auto simp: goes_on_def split: prod.splits)

lemma poll_until_last:
  "\<not> goes_on H look deadline n \<Longrightarrow> last_look H look deadline n (poll_until H pause look deadline n)"
  by (subst poll_until.simps) (auto simp: goes_on_def last_look_def split: prod.splits Look.splits)

lemma poll_until_skip:
  "\<forall>i < k. goes_on H look deadline (poll_world H pause look n i) \<Longrightarrow>
    poll_until H pause look deadline n = poll_until H pause look deadline (poll_world H pause look n k)"
  by (induction k) (auto simp: less_Suc_eq poll_until_goes_on)

lemma poll_until_stops:
  assumes "\<not> goes_on H look deadline (poll_world H pause look n j)"
  obtains k where "\<forall>i < k. goes_on H look deadline (poll_world H pause look n i)"
    "last_look H look deadline (poll_world H pause look n k) (poll_until H pause look deadline n)"
proof -
  let ?k = "LEAST k. \<not> goes_on H look deadline (poll_world H pause look n k)"
  have k: "\<not> goes_on H look deadline (poll_world H pause look n ?k)" using assms by (rule LeastI)
  have before: "\<forall>i < ?k. goes_on H look deadline (poll_world H pause look n i)" using not_less_Least by blast
  then show thesis using that poll_until_last [OF k] by (simp add: poll_until_skip [OF before])
qed

lemma poll_until_returned:
  assumes "poll_until H pause look deadline n = Some out"
  shows "\<exists>k. \<not> goes_on H look deadline (poll_world H pause look n k)"
proof (rule poll_until.raw_induct [where P = "\<lambda>H pause look deadline n out. \<exists>k. \<not> goes_on H look deadline (poll_world H pause look n k)",
      OF _ assms])
  fix f H pause deadline n out and look :: "'b \<Rightarrow> Look \<times> 'b"
  assume IH: "\<And>H pause look deadline n out. f H pause look deadline n = Some out \<Longrightarrow>
      \<exists>k. \<not> goes_on H look deadline (poll_world H pause look n k)"
    and eq: "(case look n of (found, n1) \<Rightarrow>
       if hh_stuck H n1 then None
       else (case found of
               Settled_look r \<Rightarrow> Some (r, n1)
             | Pending_look late \<Rightarrow>
               (case hh_now H n1 of (t, n2) \<Rightarrow>
                  if t \<ge> deadline then Some (Err late, n2) else f H pause look deadline (hh_sleep H pause n2)))) = Some out"
  show "\<exists>k. \<not> goes_on H look deadline (poll_world H pause look n k)"
  proof (cases "goes_on H look deadline n")
    case True
    then have "f H pause look deadline (hh_sleep H pause (snd (hh_now H (snd (look n))))) = Some out"
      using eq by (auto simp: goes_on_def split: prod.splits)
    then show ?thesis using IH poll_world_shift by metis
  next
    case False
    then show ?thesis by (intro exI [of _ 0]) simp
  qed
qed

text \<open>A loop with a clock that advances stops, and its looks keep to the deadline.\<close>

lemma poll_world_time:
  assumes "clock_advances H time" "\<And>n. time n \<le> time (snd (look n))"
  shows "time n + k * pause \<le> time (poll_world H pause look n k)"
proof (induction k)
  case (Suc k)
  let ?n = "snd (look (poll_world H pause look n k))"
  have "time (poll_world H pause look n k) \<le> time ?n" "time ?n \<le> time (snd (hh_now H ?n))"
    "time (snd (hh_now H ?n)) + pause \<le> time (hh_sleep H pause (snd (hh_now H ?n)))"
    using assms unfolding clock_advances_def by blast+
  then show ?case using Suc by simp
qed simp

lemma goes_on_time:
  assumes "clock_advances H time" "\<And>n. time n \<le> time (snd (look n))" "goes_on H look deadline (poll_world H pause look n k)"
  shows "time n + k * pause < deadline"
proof -
  let ?n = "poll_world H pause look n k"
  have "time (snd (look ?n)) < deadline" using assms(1,3) by (simp add: goes_on_def clock_advances_def)
  moreover have "time ?n \<le> time (snd (look ?n))" by (rule assms(2))
  ultimately show ?thesis using poll_world_time [of H time look n k pause, OF assms(1,2)] by linarith
qed

lemma poll_until_ends:
  assumes "clock_advances H time" "0 < pause" "\<And>n. time n \<le> time (snd (look n))"
  obtains k where "k * pause < deadline - time n + pause" "\<forall>i < k. goes_on H look deadline (poll_world H pause look n i)"
    "last_look H look deadline (poll_world H pause look n k) (poll_until H pause look deadline n)"
proof -
  have "\<not> goes_on H look deadline (poll_world H pause look n deadline)"
  proof
    assume "goes_on H look deadline (poll_world H pause look n deadline)"
    then have "time n + deadline * pause < deadline" by (rule goes_on_time [OF assms(1,3)])
    moreover have "deadline * 1 \<le> deadline * pause" using assms(2) by (intro mult_le_mono) simp_all
    ultimately show False by simp
  qed
  then obtain k where k: "\<forall>i < k. goes_on H look deadline (poll_world H pause look n i)"
    "last_look H look deadline (poll_world H pause look n k) (poll_until H pause look deadline n)" by (rule poll_until_stops)
  have "k * pause < deadline - time n + pause"
  proof (cases k)
    case (Suc j)
    then have "time n + j * pause < deadline" using k(1) by (intro goes_on_time [OF assms(1,3)]) simp
    then show ?thesis using Suc by simp
  qed (use assms(2) in simp)
  then show thesis using k by (rule that)
qed

text \<open>An answer of the status endpoint.\<close>

definition status_answer :: "'n HarnessHttp \<Rightarrow> string \<Rightarrow> 'n \<Rightarrow> PaymentStatusData \<Rightarrow> bool" where
  "status_answer H url n body \<longleftrightarrow> fst (harness_get (hh_status H url) n) = Ok body"

lemma harness_get_world [simp]: "snd (harness_get call n) = snd (call n)"
  by (auto simp: harness_get_def split: prod.splits sum.splits)

lemma look_world [simp]:
  "snd (completion_look H url completion n) = snd (hh_status H url n)" "snd (zexplorer_look H url' n) = snd (hh_probe H url' n)"
  using harness_get_world [of "hh_status H url" n]
  by (auto simp: completion_look_def zexplorer_look_def simp del: harness_get_world split: prod.splits sum.splits)

lemma look_times:
  assumes "clock_advances H time"
  shows "time n \<le> time (snd (completion_look H url completion n))" "time n \<le> time (snd (zexplorer_look H url n))"
  using assms by (simp_all add: clock_advances_def)

lemma completion_look_iff:
  "fst (completion_look H url completion n) = Settled_look (Ok ()) \<longleftrightarrow> (\<exists>body. status_answer H url n body \<and> is_observed completion body)"
  "fst (completion_look H url completion n) = Settled_look (Err e) \<longleftrightarrow> fst (harness_get (hh_status H url) n) = Err e"
  "fst (completion_look H url completion n) = Pending_look late \<longleftrightarrow>
    late = HeSettlementCompletionTimedOut (completion_label completion)
    \<and> (\<exists>body. status_answer H url n body \<and> \<not> is_observed completion body)"
  by (auto simp: completion_look_def status_answer_def split: prod.splits sum.splits if_splits)

text \<open>The polls of the status endpoint, from the start of the wait: the world before each, and the clock read after it.
  A poll is short of the requested state when its answer is not yet there.\<close>

definition status_poll :: "'n HarnessHttp \<Rightarrow> string \<Rightarrow> SettlementCompletion \<Rightarrow> 'n \<Rightarrow> nat \<Rightarrow> 'n" where
  "status_poll H url completion n = poll_world H (15 * NANOS) (completion_look H url completion) (snd (hh_now H n))"

definition clock_after_poll :: "'n HarnessHttp \<Rightarrow> string \<Rightarrow> 'n \<Rightarrow> Instant" where
  "clock_after_poll H url n = fst (hh_now H (snd (hh_status H url n)))"

definition short_poll :: "'n HarnessHttp \<Rightarrow> string \<Rightarrow> SettlementCompletion \<Rightarrow> 'n \<Rightarrow> bool" where
  "short_poll H url completion n \<longleftrightarrow>
    \<not> hh_stuck H (snd (hh_status H url n)) \<and> (\<exists>body. status_answer H url n body \<and> \<not> is_observed completion body)"

text \<open>What the last poll was when the wait gave a result, or none.\<close>

definition last_poll ::
  "'n HarnessHttp \<Rightarrow> string \<Rightarrow> SettlementCompletion \<Rightarrow> Instant \<Rightarrow> 'n \<Rightarrow> ((HarnessError + unit) \<times> 'n) option \<Rightarrow> bool" where
  "last_poll H url completion limit n out \<longleftrightarrow>
    (case out of
       None \<Rightarrow> hh_stuck H (snd (hh_status H url n))
     | Some (Inr _, n') \<Rightarrow> \<not> hh_stuck H (snd (hh_status H url n)) \<and> n' = snd (hh_status H url n)
         \<and> (\<exists>body. status_answer H url n body \<and> is_observed completion body)
     | Some (Inl e, _) \<Rightarrow> \<not> hh_stuck H (snd (hh_status H url n))
         \<and> (fst (harness_get (hh_status H url) n) = Err e
            \<or> e = HeSettlementCompletionTimedOut (completion_label completion) \<and> short_poll H url completion n
              \<and> limit \<le> clock_after_poll H url n))"

lemma goes_on_poll:
  "goes_on H (completion_look H url completion) limit n \<longleftrightarrow> short_poll H url completion n \<and> clock_after_poll H url n < limit"
  by (auto simp: goes_on_def short_poll_def clock_after_poll_def completion_look_iff)

lemma last_look_poll:
  assumes "last_look H (completion_look H url completion) limit n out"
  shows "last_poll H url completion limit n out"
proof (cases out)
  case None
  then show ?thesis using assms by (simp add: last_look_def last_poll_def)
next
  case (Some pair)
  let ?look = "completion_look H url completion"
  obtain r n' where out: "out = Some (r, n')" using Some by (cases pair) simp
  have quick: "\<not> hh_stuck H (snd (hh_status H url n))" using assms by (simp add: last_look_def out)
  show ?thesis
  proof (cases "fst (?look n)")
    case (Settled_look r')
    then have r: "r = r'" "n' = snd (hh_status H url n)" using assms by (simp_all add: last_look_def out)
    show ?thesis
    proof (cases r')
      case (Inl e)
      then show ?thesis using Settled_look quick r completion_look_iff(2) [of H url completion n e] by (simp add: last_poll_def out)
    next
      case (Inr u)
      then show ?thesis using Settled_look quick r completion_look_iff(1) [of H url completion n] by (simp add: last_poll_def out)
    qed
  next
    case (Pending_look late)
    then have "r = Err late" "limit \<le> clock_after_poll H url n"
      using assms by (simp_all add: last_look_def out clock_after_poll_def)
    then show ?thesis using quick Pending_look completion_look_iff(3) [of H url completion n late]
      by (simp add: last_poll_def short_poll_def out)
  qed
qed

lemma wait_polls:
  "wait_for_settlement_completion H zpay_url pid completion secs n =
    poll_until H (15 * NANOS) (completion_look H (status_url zpay_url pid) completion) (fst (hh_now H n) + unat secs * NANOS)
      (snd (hh_now H n))"
  by (simp add: wait_for_settlement_completion_def split: prod.splits)

lemma wait_ends:
  assumes "clock_advances H time"
  shows "\<exists>k. 15 * k < unat secs + 15
    \<and> (\<forall>i < k. short_poll H (status_url zpay_url pid) completion (status_poll H (status_url zpay_url pid) completion n i)
        \<and> clock_after_poll H (status_url zpay_url pid) (status_poll H (status_url zpay_url pid) completion n i)
            < time n + unat secs * NANOS)
    \<and> last_poll H (status_url zpay_url pid) completion (time n + unat secs * NANOS)
        (status_poll H (status_url zpay_url pid) completion n k)
        (wait_for_settlement_completion H zpay_url pid completion secs n)"
proof -
  let ?look = "completion_look H (status_url zpay_url pid) completion"
  have now: "fst (hh_now H n) = time n" "time n \<le> time (snd (hh_now H n))" using assms by (simp_all add: clock_advances_def)
  obtain k where k: "k * (15 * NANOS) < time n + unat secs * NANOS - time (snd (hh_now H n)) + 15 * NANOS"
      "\<forall>i < k. goes_on H ?look (time n + unat secs * NANOS) (poll_world H (15 * NANOS) ?look (snd (hh_now H n)) i)"
      "last_look H ?look (time n + unat secs * NANOS) (poll_world H (15 * NANOS) ?look (snd (hh_now H n)) k)
        (poll_until H (15 * NANOS) ?look (time n + unat secs * NANOS) (snd (hh_now H n)))"
    using poll_until_ends [OF assms, of "15 * NANOS" ?look "time n + unat secs * NANOS" "snd (hh_now H n)"] look_times(1) [OF assms]
    by (auto simp: NANOS_def)
  have "(15 * k) * NANOS < (unat secs + 15) * NANOS" using k(1) now(2) by (simp add: algebra_simps)
  then show ?thesis using k(2,3) last_look_poll
    by (intro exI [of _ k]) (simp add: goes_on_poll status_poll_def wait_polls now(1))
qed

subsection \<open>The commands end\<close>

text \<open>Every call of the HTTP client and of the wallet library returns: none leaves a stuck world.  Sending a payment returns when
  the submitter it calls back does.\<close>

definition returning :: "('s \<Rightarrow> bool) \<Rightarrow> ('s \<Rightarrow> 'a \<times> 's) \<Rightarrow> bool" where
  "returning stuck call \<longleftrightarrow> (\<forall>s. \<not> stuck s \<longrightarrow> \<not> stuck (snd (call s)))"

definition http_returns :: "'n HarnessHttp \<Rightarrow> bool" where
  "http_returns H \<longleftrightarrow>
    (\<forall>url headers body. returning (hh_stuck H) (hh_prepare H url headers body))
    \<and> (\<forall>url headers body. returning (hh_stuck H) (hh_sign H url headers body))
    \<and> (\<forall>url request. returning (hh_stuck H) (hh_x402_verify H url request))
    \<and> (\<forall>url request. returning (hh_stuck H) (hh_x402_settle H url request))
    \<and> (\<forall>url. returning (hh_stuck H) (hh_status H url))
    \<and> (\<forall>url headers body. returning (hh_stuck H) (hh_settle H url headers body))
    \<and> (\<forall>url. returning (hh_stuck H) (hh_probe H url))
    \<and> returning (hh_stuck H) (hh_now H) \<and> returning (hh_stuck H) (hh_clock H)
    \<and> (\<forall>d n. \<not> hh_stuck H n \<longrightarrow> \<not> hh_stuck H (hh_sleep H d n))"

definition wallet_returns :: "'n HarnessHttp \<Rightarrow> ('w, 'n, 'rcp) HarnessWallet \<Rightarrow> bool" where
  "wallet_returns H W \<longleftrightarrow>
    returning (hw_stuck W) (hw_sync W) \<and> returning (hw_stuck W) (hw_balance W)
    \<and> (\<forall>network. returning (hw_stuck W) (hw_derive_next W network)) \<and> (\<forall>key zat. returning (hw_stuck W) (hw_shield W key zat))
    \<and> (\<forall>plan submit. (\<forall>raw. returning (hh_stuck H) (submit raw)) \<longrightarrow>
         returning (\<lambda>(w, n). hw_stuck W w \<or> hh_stuck H n) (hw_send_payment W plan submit))"

definition ends :: "('s \<Rightarrow> bool) \<Rightarrow> ('s \<Rightarrow> ('a \<times> 's) option) \<Rightarrow> bool" where
  "ends stuck m \<longleftrightarrow> (\<forall>s. \<not> stuck s \<longrightarrow> (\<exists>out s'. m s = Some (out, s') \<and> \<not> stuck s'))"

lemma endsE:
  assumes "ends stuck m" "\<not> stuck s"
  obtains out s' where "m s = Some (out, s')" "\<not> stuck s'"
  using assms unfolding ends_def by blast

lemma ends_run_step: "returning stuck m \<Longrightarrow> (\<And>v. ends stuck (k v)) \<Longrightarrow> ends stuck (run_step stuck m k)"
  by (force simp: ends_def returning_def run_step_def split: prod.splits sum.splits)

lemma ends_run_pure: "ends stuck (run_pure r)" by (simp add: ends_def run_pure_def)

lemma ends_if: "ends stuck m \<Longrightarrow> ends stuck m' \<Longrightarrow> ends stuck (if b then m else m')" by simp

lemma returning_pure: "returning stuck (pure_step r)" by (simp add: returning_def pure_step_def)

lemma returning_bind: "returning stuck m \<Longrightarrow> (\<And>v. returning stuck (k v)) \<Longrightarrow> returning stuck (bind_step m k)"
  by (force simp: returning_def bind_step_def split: prod.splits sum.splits)

lemma returning_call: "returning stuck call \<Longrightarrow> returning stuck (harness_call call failed)"
  by (force simp: returning_def harness_call_def split: prod.splits sum.splits)

lemma returning_get: "returning stuck call \<Longrightarrow> returning stuck (harness_get call)"
  by (simp add: returning_def)

lemma returning_apply: "returning stuck m \<Longrightarrow> m s = (r, s') \<Longrightarrow> \<not> stuck s \<Longrightarrow> \<not> stuck s'"
  by (metis returning_def snd_conv)

lemma returning_prepare:
  assumes "http_returns H"
  shows "returning (hh_stuck H) (harness_call_prepare H A zpay_url payee_id network_label key)"
proof -
  have clock: "returning (hh_stuck H) (hh_clock H)" using assms by (simp add: http_returns_def)
  have call: "returning (hh_stuck H) (harness_call (hh_prepare H url headers body) HePrepareFailed)" for url headers body
    using assms by (intro returning_call) (simp add: http_returns_def)
  then have call: "\<not> hh_stuck H n \<Longrightarrow> \<not> hh_stuck H (snd (harness_call (hh_prepare H url headers body) HePrepareFailed n))"
    for url headers body n by (simp add: returning_def)
  show ?thesis unfolding returning_def
    by (auto simp: harness_call_prepare_def Let_def call split: prod.splits sum.splits DpopKeyError.splits
        dest!: returning_apply [OF clock])
qed

lemma returning_mint:
  assumes "http_returns H"
  shows "returning (hh_stuck H) (mint_agent_token H A grant)" "returning (hh_stuck H) (mint_agent_proof H A key token url)"
  using assms by (auto simp: http_returns_def returning_def mint_agent_token_def mint_agent_proof_def split: prod.splits)

lemma returning_sign:
  assumes "http_returns H"
  shows "returning (hh_stuck H) (harness_call_sign H A call)"
proof -
  have sign: "returning (hh_stuck H) (hh_sign H url headers body)" for url headers body using assms by (simp add: http_returns_def)
  show ?thesis unfolding returning_def
    by (auto simp: harness_call_sign_def request_zspend_signature_def Let_def split: prod.splits sum.splits if_splits
        dest: returning_apply [OF sign])
qed

lemma returning_submit:
  assumes "http_returns H"
  shows "returning (hh_stuck H) (zpay_submit H A J z raw)"
proof -
  have clock: "returning (hh_stuck H) (hh_clock H)" using assms by (simp add: http_returns_def)
  have settle: "returning (hh_stuck H) (hh_settle H url headers body)" for url headers body using assms by (simp add: http_returns_def)
  show ?thesis unfolding returning_def
    by (auto simp: zpay_submit_def Let_def split: prod.splits sum.splits DpopKeyError.splits
        dest!: returning_apply [OF clock] dest: returning_apply [OF settle])
qed

lemma returning_x402:
  assumes "http_returns H"
  shows "returning (hh_stuck H) (verify_x402_payment H url request)" "returning (hh_stuck H) (settle_x402_payment H url request)"
    "returning (hh_stuck H) (confirm_x402_lifecycle_record H url pid tx)"
  using assms unfolding verify_x402_payment_def settle_x402_payment_def confirm_x402_lifecycle_record_def Let_def
  by (intro returning_bind returning_call returning_get returning_pure; simp add: http_returns_def)+

lemma agent_settle_ends:
  assumes "http_returns H"
  shows "ends (hh_stuck H) (agent_settle L H A J inputs sk1 sk2)"
  using assms unfolding agent_settle_def Let_def harness_key_def
  by (intro ends_run_step ends_if ends_run_pure returning_pure returning_prepare returning_mint returning_sign returning_x402)

lemma returning_lift:
  "returning (hw_stuck W) call \<Longrightarrow> returning (harness_stuck H W) (on_harness_wallet call)"
  "returning (hh_stuck H) net \<Longrightarrow> returning (harness_stuck H W) (on_net net)"
  "returning (\<lambda>(w, n). hw_stuck W w \<or> hh_stuck H n) send \<Longrightarrow> returning (harness_stuck H W) (on_harness_send send)"
  by (force simp: returning_def harness_stuck_def on_harness_wallet_def on_net_def on_harness_send_def split: prod.splits sum.splits)+

lemma wallet_commands_end:
  assumes "http_returns H" "wallet_returns H W"
  shows "ends (harness_stuck H W) (print_wallet_address H W network)" "ends (harness_stuck H W) (print_wallet_status H W)"
    "ends (harness_stuck H W) (shield_funds H W zat)"
proof -
  have "returning (hh_stuck H) (\<lambda>n. case hh_clock H n of (wall, n') \<Rightarrow> (Ok wall :: HarnessError + _, n'))"
    using assms(1) by (auto simp: http_returns_def returning_def split: prod.splits)
  then show "ends (harness_stuck H W) (print_wallet_address H W network)" "ends (harness_stuck H W) (print_wallet_status H W)"
    "ends (harness_stuck H W) (shield_funds H W zat)"
    using assms(2) unfolding print_wallet_address_def print_wallet_status_def shield_funds_def
    by (intro ends_run_step ends_run_pure returning_pure returning_lift; simp add: wallet_returns_def)+
qed

lemma wallet_settle_ends:
  assumes "http_returns H" "wallet_returns H W"
  shows "ends (harness_stuck H W) (wallet_settle L H W A J zpay_url payee_id network network_label sk)"
proof -
  have sync: "returning (hw_stuck W) (hw_sync W)" and balance: "returning (hw_stuck W) (hw_balance W)"
    using assms(2) by (simp_all add: wallet_returns_def)
  have send: "returning (\<lambda>(w, n). hw_stuck W w \<or> hh_stuck H n) (hw_send_payment W plan (zpay_submit H A J z))" for plan z
    using assms(2) returning_submit [OF assms(1), where A = A and J = J and z = z] by (simp add: wallet_returns_def)
  show ?thesis unfolding wallet_settle_def harness_key_def
    by (intro ends_run_step ends_if ends_run_pure returning_pure returning_lift(1) [OF sync] returning_lift(1) [OF balance]
        returning_lift(2) [OF returning_prepare [OF assms(1)]] returning_lift(3) [OF send])
qed

lemma poll_until_ends_unstuck:
  assumes "clock_advances H time" "0 < pause" "\<And>n. time n \<le> time (snd (look n))" "http_returns H" "returning (hh_stuck H) look"
  shows "ends (hh_stuck H) (poll_until H pause look deadline)"
  unfolding ends_def
proof (intro allI impI)
  fix n assume n: "\<not> hh_stuck H n"
  have now: "\<not> hh_stuck H m \<Longrightarrow> \<not> hh_stuck H (snd (hh_now H m))" for m using assms(4) by (simp add: http_returns_def returning_def)
  have seen: "\<not> hh_stuck H m \<Longrightarrow> \<not> hh_stuck H (snd (look m))" for m using assms(5) by (simp add: returning_def)
  have world: "\<not> hh_stuck H (poll_world H pause look n k)" for k
    using n now seen assms(4) by (induction k) (simp_all add: http_returns_def)
  obtain k where "last_look H look deadline (poll_world H pause look n k) (poll_until H pause look deadline n)"
    by (rule poll_until_ends [OF assms(1-3)])
  then show "\<exists>out s'. poll_until H pause look deadline n = Some (out, s') \<and> \<not> hh_stuck H s'"
    using seen [OF world [of k]] now [OF seen [OF world [of k]]]
    by (cases "poll_until H pause look deadline n"; cases "fst (look (poll_world H pause look n k))") (auto simp: last_look_def)
qed

lemma waits_end:
  assumes "clock_advances H time" "http_returns H"
  shows "ends (hh_stuck H) (wait_for_settlement_completion H zpay_url pid completion secs)"
    "ends (hh_stuck H) (check_zexplorer H network url tx secs)"
proof -
  have now: "\<not> hh_stuck H m \<Longrightarrow> \<not> hh_stuck H (snd (hh_now H m))" for m using assms(2) by (simp add: http_returns_def returning_def)
  have looks: "returning (hh_stuck H) (completion_look H u completion)" "returning (hh_stuck H) (zexplorer_look H u)" for u
    using assms(2) by (simp_all add: http_returns_def returning_def)
  have "ends (hh_stuck H) (poll_until H (15 * NANOS) (completion_look H u completion) deadline)"
    "ends (hh_stuck H) (poll_until H (5 * NANOS) (zexplorer_look H u) deadline)" for u deadline
    by (rule poll_until_ends_unstuck [OF assms(1) _ look_times(1) [OF assms(1)] assms(2) looks(1)]
        poll_until_ends_unstuck [OF assms(1) _ look_times(2) [OF assms(1)] assms(2) looks(2)]; simp add: NANOS_def)+
  then show "ends (hh_stuck H) (wait_for_settlement_completion H zpay_url pid completion secs)"
    "ends (hh_stuck H) (check_zexplorer H network url tx secs)"
    using now unfolding ends_def wait_polls by (simp_all add: check_zexplorer_def case_prod_beta)
qed

lemma agent_flow_ends:
  assumes "clock_advances H time" "http_returns H"
  shows "ends (hh_stuck H) (run_agent_signed_flow L H A J inputs sk1 sk2)"
  unfolding ends_def
proof (intro allI impI)
  fix n assume "\<not> hh_stuck H n"
  then obtain v n1 where v: "agent_settle L H A J inputs sk1 sk2 n = Some (v, n1)" "\<not> hh_stuck H n1"
    by (rule endsE [OF agent_settle_ends [OF assms(2)]])
  show "\<exists>out s'. run_agent_signed_flow L H A J inputs sk1 sk2 n = Some (out, s') \<and> \<not> hh_stuck H s'"
  proof (cases v)
    case (Inr q)
    obtain pid tx where q: "q = (pid, tx)" by fastforce
    obtain out n2 where w: "wait_for_settlement_completion H (rx_zpay_url inputs) pid (ha_settlement_completion (rx_args inputs))
        (ha_poll_seconds (rx_args inputs)) n1 = Some (out, n2)" "\<not> hh_stuck H n2"
      by (rule endsE [OF waits_end(1) [OF assms] v(2)])
    obtain out' n3 where "check_zexplorer H (rx_network inputs) (ha_zexplorer_tx_url (rx_args inputs)) tx
        (ha_poll_seconds (rx_args inputs)) n2 = Some (out', n3)" "\<not> hh_stuck H n3"
      by (rule endsE [OF waits_end(2) [OF assms] w(2)])
    then show ?thesis using v Inr q w by (cases out) (simp_all add: run_agent_signed_flow_def)
  qed (use v in \<open>simp add: run_agent_signed_flow_def\<close>)
qed

lemma run_flow_ends:
  assumes "clock_advances H time" "http_returns H" "wallet_returns H W"
  shows "ends (harness_stuck H W) (run_flow L H W A J zpay_url payee_id completion secs network network_label sk)"
  unfolding ends_def
proof (intro allI impI)
  fix s assume "\<not> harness_stuck H W s"
  then obtain v s1 where v: "wallet_settle L H W A J zpay_url payee_id network network_label sk s = Some (v, s1)"
      "\<not> harness_stuck H W s1"
    by (rule endsE [OF wallet_settle_ends [OF assms(2,3)]])
  show "\<exists>out s'. run_flow L H W A J zpay_url payee_id completion secs network network_label sk s = Some (out, s')
      \<and> \<not> harness_stuck H W s'"
  proof (cases v)
    case (Inr q)
    obtain pid tx where q: "q = (pid, tx)" by fastforce
    have "\<not> hh_stuck H (hs_net s1)" using v(2) by (simp add: harness_stuck_def)
    then obtain out n where "wait_for_settlement_completion H zpay_url pid completion secs (hs_net s1) = Some (out, n)" "\<not> hh_stuck H n"
      by (rule endsE [OF waits_end(1) [OF assms(1,2)]])
    then show ?thesis using v Inr q by (simp add: run_flow_def harness_stuck_def)
  qed (use v in \<open>simp add: run_flow_def\<close>)
qed

lemma run_command_ends:
  assumes "clock_advances H time" "http_returns H" "wallet_returns H W" "\<not> harness_stuck H W s"
  shows "\<exists>out s'. run_command L H W A J c sk1 sk2 command s = Some (out, s')"
proof (cases command)
  case CommandAddress
  obtain out s' where "print_wallet_address H W (hx_network c) s = Some (out, s')" by (rule endsE [OF wallet_commands_end(1) [OF assms(2,3)] assms(4)])
  then show ?thesis by (simp add: CommandAddress run_command_def)
next
  case CommandStatus
  obtain out s' where "print_wallet_status H W s = Some (out, s')" by (rule endsE [OF wallet_commands_end(2) [OF assms(2,3)] assms(4)])
  then show ?thesis by (simp add: CommandStatus run_command_def)
next
  case (CommandShield zat)
  obtain out s' where "shield_funds H W zat s = Some (out, s')" by (rule endsE [OF wallet_commands_end(3) [OF assms(2,3)] assms(4)])
  then show ?thesis by (simp add: CommandShield run_command_def)
next
  case (CommandRun payee completion secs)
  obtain out s' where "run_flow L H W A J (hx_zpay_url c) payee completion secs (hx_network c) (hx_network_label c) sk1 s = Some (out, s')" by (rule endsE [OF run_flow_ends [OF assms(1-3)] assms(4)])
  then show ?thesis by (simp add: CommandRun run_command_def)
next
  case (CommandAgentRun args)
  have "\<not> hh_stuck H (hs_net s)" using assms(4) by (simp add: harness_stuck_def)
  then obtain out s' where "run_agent_signed_flow L H A J \<lparr>rx_zpay_url = hx_zpay_url c, rx_zspend_url = hx_zspend_url c,
      rx_network = hx_network c, rx_network_label = hx_network_label c, rx_args = args\<rparr> sk1 sk2 (hs_net s) = Some (out, s')" by (rule endsE [OF agent_flow_ends [OF assms(1,2)]])
  then show ?thesis by (simp add: CommandAgentRun run_command_def)
qed

text \<open>[C15] What the time limit of a wait bounds, and when a command ends.  Nothing limits a call: the wait gives no
  result exactly when one of its polls never returns.  Otherwise it ends, if the clock advances.  After every poll but
  the last the clock was read before the limit and the answer was short of the requested state; so, at one
  poll every 15 seconds, there is at most one poll more than fit into the limit.  The wait succeeds when the last poll was
  answered with the requested state, in the world that poll left; it times out only when the last poll was
  answered short of it and the clock had reached the limit; any other error is that of the last poll.  A command ends if, beside,
  every call of the HTTP client and of the wallet library returns.\<close>

theorem harness_commands_end:
  assumes "clock_advances H time"
  shows "(http_returns H \<and> wallet_returns H W \<and> \<not> harness_stuck H W s \<longrightarrow>
      (\<exists>out s'. run_command L H W A J c sk1 sk2 command s = Some (out, s')))
    \<and> (\<exists>k. 15 * k < unat secs + 15
      \<and> (\<forall>i < k. short_poll H (status_url zpay_url pid) completion (status_poll H (status_url zpay_url pid) completion n i)
          \<and> clock_after_poll H (status_url zpay_url pid) (status_poll H (status_url zpay_url pid) completion n i)
              < time n + unat secs * NANOS)
      \<and> last_poll H (status_url zpay_url pid) completion (time n + unat secs * NANOS)
          (status_poll H (status_url zpay_url pid) completion n k)
          (wait_for_settlement_completion H zpay_url pid completion secs n))"
proof (intro conjI impI)
  assume "http_returns H \<and> wallet_returns H W \<and> \<not> harness_stuck H W s"
  then show "\<exists>out s'. run_command L H W A J c sk1 sk2 command s = Some (out, s')" by (intro run_command_ends [OF assms]) simp_all
qed (rule wait_ends [OF assms])

definition ex_harness_http :: "nat HarnessHttp" where
  "ex_harness_http = \<lparr>hh_prepare = (\<lambda>_ _ _ n. (Inr (200, [], Inr ex_prepared_payment), n)),
     hh_sign = (\<lambda>_ _ _ n. (Inr (200, [], Inr \<lparr>ss_format = PCZT_FORMAT, ss_bytes = ''q'', ss_tx_id = ''07''\<rparr>), n)),
     hh_x402_verify = (\<lambda>_ _ n. (Inr (200, [], Inr \<lparr>xv_is_valid = True, xv_invalid_reason = None, xv_payer = None, xv_extra = []\<rparr>), n)),
     hh_x402_settle = (\<lambda>_ _ n. (Inr (200, [], Inr \<lparr>xs_success = True, xs_error_reason = None, xs_payer = None,
       xs_transaction = Some ''07'', xs_network = [], xs_amount = [], xs_extensions = []\<rparr>), n)),
     hh_status = (\<lambda>_ n. (Inr (200, [], Inr \<lparr>hd_payment_id = ''p'', hd_status = ''mined'',
       hd_confirmation_count = (if n < 15 * NANOS then None else Some 1), hd_mined_block_height = None, hd_settled = False,
       hd_broadcast_outcome = Some \<lparr>bb_kind = ''accepted'', bb_transaction_id = Some ''07'', bb_upstream_message = None\<rparr>\<rparr>), n)),
     hh_settle = (\<lambda>_ _ _ n. (Inl ''x'', n)), hh_probe = (\<lambda>_ n. (Ok 200, n)), hh_now = (\<lambda>n. (n, n)), hh_sleep = (\<lambda>d n. n + d),
     hh_clock = (\<lambda>n. (\<lparr>at_ms = 7, at_seconds = 7\<rparr>, n)), hh_stuck = (\<lambda>_. False)\<rparr>"

definition ex_harness_wallet :: "(nat, nat, string) HarnessWallet" where
  "ex_harness_wallet = \<lparr>hw_account_id = ''a'', hw_sync = (\<lambda>w. (Ok (0, 0), w)), hw_balance = (\<lambda>w. (Err ''b'', w)), hw_total_zat = (\<lambda>_. 0),
     hw_derive_next = (\<lambda>_ w. (Ok ''d'', w)), hw_shield = (\<lambda>_ _ w. (Ok ''t'', w)),
     hw_send_payment = (\<lambda>_ submit (w, n). (Ok ''07'', w, snd (submit [] n))), hw_idempotency_key = Ok, hw_zatoshis = Ok,
     hw_memo_field = Ok, hw_memo = Ok, hw_stuck = (\<lambda>_. False)\<rparr>"

definition ex_harness_lib :: "unit HarnessLib" where
  "ex_harness_lib = \<lparr>hl_problem = (\<lambda>_. None), hl_settlement = (\<lambda>_. None), hl_from_rpc_hex = (\<lambda>_. None), hl_hex = (\<lambda>_. ''0500''),
     hl_read = Ok, hl_from_ed_pem = (\<lambda>_. Ok ()), hl_from_ed_der = (\<lambda>_. ())\<rparr>"

definition ex_run_inputs :: AgentRunInputs where
  "ex_run_inputs = \<lparr>rx_zpay_url = ''z'', rx_zspend_url = ''s'', rx_network = ZallyTestnet, rx_network_label = ''testnet'',
     rx_args = \<lparr>ha_payee_id = ''shop'', ha_audience = ''a'', ha_issuer_key_path = ''k'', ha_issuer_kid = ''i'', ha_zspend_public_url = None,
       ha_token_ttl_seconds = 120, ha_settlement_completion = CompletionMined, ha_poll_seconds = 20, ha_zexplorer_tx_url = ''x''\<rparr>\<rparr>"

definition ex_harness_context :: HarnessContext where
  "ex_harness_context = \<lparr>hx_zpay_url = ''z'', hx_zspend_url = ''s'', hx_network = ZallyTestnet, hx_network_label = ''testnet''\<rparr>"

lemma ex_clock_advances: "clock_advances (ex_harness_http\<lparr>hh_stuck := stuck\<rparr>) id"
  by (simp add: clock_advances_def ex_harness_http_def)

lemma ex_all_return:
  "http_returns ex_harness_http" "wallet_returns ex_harness_http ex_harness_wallet" "\<not> harness_stuck ex_harness_http ex_harness_wallet s"
  by (simp_all add: http_returns_def wallet_returns_def harness_stuck_def returning_def ex_harness_http_def ex_harness_wallet_def)

lemmas ex_wait_defs = wait_for_settlement_completion_def ex_harness_http_def poll_until.simps completion_look_def harness_get_def NANOS_def

theorem harness_commands_end_witness:
  "(\<exists>out s'. run_command ex_sign_lib ex_harness_http ex_harness_wallet ex_agent ex_harness_lib ex_harness_context () ()
      (CommandRun ''shop'' CompletionMined 20) \<lparr>hs_wallet = 0, hs_net = 0\<rparr> = Some (out, s'))
    \<and> wait_for_settlement_completion ex_harness_http ''z'' ''p'' CompletionMined 20 0 = Some (Ok (), 15 * NANOS)
    \<and> (\<exists>k \<le> 2. last_poll ex_harness_http (status_url ''z'' ''p'') CompletionMined (20 * NANOS)
        (status_poll ex_harness_http (status_url ''z'' ''p'') CompletionMined 0 k) (Some (Ok (), 15 * NANOS)))
    \<and> (let stalls = ex_harness_http\<lparr>hh_stuck := \<lambda>n. 15 * NANOS \<le> n\<rparr> in
       wait_for_settlement_completion stalls ''z'' ''p'' CompletionMined 20 0 = None
       \<and> (\<exists>k \<le> 2. last_poll stalls (status_url ''z'' ''p'') CompletionMined (20 * NANOS)
          (status_poll stalls (status_url ''z'' ''p'') CompletionMined 0 k) None))"
proof -
  let ?stalls = "ex_harness_http\<lparr>hh_stuck := \<lambda>n. 15 * NANOS \<le> n\<rparr>"
  have good: "clock_advances ex_harness_http id" using ex_clock_advances [of "hh_stuck ex_harness_http"] by simp
  have run: "\<exists>out s'. run_command ex_sign_lib ex_harness_http ex_harness_wallet ex_agent ex_harness_lib ex_harness_context () ()
      (CommandRun ''shop'' CompletionMined 20) \<lparr>hs_wallet = 0, hs_net = 0\<rparr> = Some (out, s')"
    by (rule harness_commands_end [OF good, THEN conjunct1, rule_format]) (simp add: ex_all_return)
  have w: "wait_for_settlement_completion ex_harness_http ''z'' ''p'' CompletionMined 20 0 = Some (Ok (), 15 * NANOS)"
    by (simp add: ex_wait_defs)
  have w': "wait_for_settlement_completion ?stalls ''z'' ''p'' CompletionMined 20 0 = None"
    by (simp add: ex_wait_defs)
  obtain k where k: "15 * k < unat (20 :: u64) + 15" "last_poll ex_harness_http (status_url ''z'' ''p'') CompletionMined (id 0 + unat (20 :: u64) * NANOS)
      (status_poll ex_harness_http (status_url ''z'' ''p'') CompletionMined 0 k) (Some (Ok (), 15 * NANOS))"
    using harness_commands_end [OF good, where zpay_url = "''z''" and pid = "''p''" and completion = CompletionMined
        and secs = 20 and n = 0, THEN conjunct2] unfolding w by (elim exE conjE) simp
  obtain k' where k': "15 * k' < unat (20 :: u64) + 15" "last_poll ?stalls (status_url ''z'' ''p'') CompletionMined (id 0 + unat (20 :: u64) * NANOS)
      (status_poll ?stalls (status_url ''z'' ''p'') CompletionMined 0 k') None"
    using harness_commands_end [OF ex_clock_advances [of "\<lambda>n. 15 * NANOS \<le> n"], where zpay_url = "''z''" and pid = "''p''"
        and completion = CompletionMined and secs = 20 and n = 0, THEN conjunct2] unfolding w' by (elim exE conjE) simp
  have "k \<le> 2" "k' \<le> 2" using k(1) k'(1) by simp_all
  with run w w' k(2) k'(2) show ?thesis by (auto simp: Let_def)
qed

subsection \<open>A successful agent run\<close>

lemma run_step_Ok_iff:
  "run_step stuck m k s = Some (Inr v, s') \<longleftrightarrow> (\<exists>a s1. m s = (Inr a, s1) \<and> \<not> stuck s1 \<and> k a s1 = Some (Inr v, s'))"
  by (auto simp: run_step_def split: prod.splits sum.splits)

lemma run_pure_Ok_iff: "run_pure r s = Some (Inr v, s') \<longleftrightarrow> r = Inr v \<and> s' = s" by (auto simp: run_pure_def)

lemma pure_step_Ok_iff: "pure_step r s = (Inr v, s') \<longleftrightarrow> r = Inr v \<and> s' = s" by (auto simp: pure_step_def)

lemma if_pure_iff:
  "(if b then run_pure (Inl e) else k) s = Some (Inr v, s') \<longleftrightarrow> \<not> b \<and> k s = Some (Inr v, s')" by (simp add: run_pure_def)

lemma harness_key_Ok_iff: "harness_key A sk n = (Inr key, n') \<longleftrightarrow> dpop_key_generate A sk = Ok key \<and> n' = n"
  by (auto simp: harness_key_def pure_step_def split: sum.splits DpopKeyError.splits)

lemma harness_call_sign_Ok_iff:
  "harness_call_sign H A call n = (Inr answer, n') \<longleftrightarrow> request_zspend_signature A (hh_sign H) call n = (Inr answer, n')"
  by (auto simp: harness_call_sign_def split: prod.splits sum.splits)

lemma harness_call_Ok:
  "harness_call call failed n = (Inr v, n') \<longleftrightarrow> (\<exists>status text. call n = (Inr (status, text, Inr v), n') \<and> http_success status)"
  by (auto simp: harness_call_def split: prod.splits sum.splits if_splits)

text \<open>From world \<open>n\<close> to world \<open>n'\<close> the facilitator called a request valid and then settled it as a transaction.\<close>

definition x402_settled :: "'n HarnessHttp \<Rightarrow> string \<Rightarrow> FacilitatorRequest \<Rightarrow> string \<Rightarrow> 'n \<Rightarrow> 'n \<Rightarrow> bool" where
  "x402_settled H zpay_url request tx n n' \<longleftrightarrow>
    (\<exists>n1 status text va status2 text2 sa.
       hh_x402_verify H (base_url zpay_url @ ''/x402/v2/verify'') request n = (Inr (status, text, Inr va), n1)
       \<and> http_success status \<and> xv_is_valid va
       \<and> hh_x402_settle H (base_url zpay_url @ ''/x402/v2/settle'') request n1 = (Inr (status2, text2, Inr sa), n')
       \<and> http_success status2 \<and> xs_success sa \<and> xs_transaction sa = Some tx)"

lemma verify_then_settle:
  assumes "verify_x402_payment H zpay_url request n = (Inr u, n1)" "settle_x402_payment H zpay_url request n1 = (Inr tx, n2)"
  shows "x402_settled H zpay_url request tx n n2"
proof -
  obtain va where v: "harness_call (hh_x402_verify H (base_url zpay_url @ ''/x402/v2/verify'') request) HeVerifyFailed n = (Inr va, n1)"
    "xv_is_valid va"
    using assms(1) by (auto simp: verify_x402_payment_def bind_step_Ok_iff pure_step_iff split: if_splits)
  obtain sa where t: "harness_call (hh_x402_settle H (base_url zpay_url @ ''/x402/v2/settle'') request) HeSettleFailed n1 = (Inr sa, n2)"
    "xs_success sa" "xs_transaction sa = Some tx"
    using assms(2) by (auto simp: settle_x402_payment_def bind_step_Ok_iff pure_step_iff split: if_splits option.splits)
  from v t show ?thesis unfolding x402_settled_def harness_call_Ok by blast
qed

text \<open>In world \<open>n\<close> the status endpoint has the transaction on record for the payment.\<close>

definition records_tx :: "'n HarnessHttp \<Rightarrow> string \<Rightarrow> string \<Rightarrow> 'n \<Rightarrow> bool" where
  "records_tx H url tx n \<longleftrightarrow>
    (\<exists>body. status_answer H url n body \<and> unwrap_or_default (Option.bind (hd_broadcast_outcome body) bb_transaction_id) = tx)"

lemma confirm_recorded:
  assumes "confirm_x402_lifecycle_record H zpay_url pid tx n = (Inr u, n')"
  shows "records_tx H (status_url zpay_url pid) tx n" "n' = snd (hh_status H (status_url zpay_url pid) n)"
proof -
  obtain body n1 where b: "harness_get (hh_status H (status_url zpay_url pid)) n = (Inr body, n1)"
    "unwrap_or_default (Option.bind (hd_broadcast_outcome body) bb_transaction_id) = tx" "n' = n1"
    using assms by (auto simp: confirm_x402_lifecycle_record_def bind_step_Ok_iff pure_step_iff Let_def split: if_splits)
  then show "records_tx H (status_url zpay_url pid) tx n" by (auto simp: records_tx_def status_answer_def)
  show "n' = snd (hh_status H (status_url zpay_url pid) n)"
    using b(1,3) harness_get_world [of "hh_status H (status_url zpay_url pid)" n] by simp
qed

text \<open>The chain of calls of a successful run up to the recorded settlement: each call is made in the world the one before
  left, and uses what it answered.\<close>

definition agent_chain ::
  "('json, 'key, 'url, 'akey, 'rcp) SignLib \<Rightarrow> 'n HarnessHttp \<Rightarrow> ('sk, 'ekey) AgentLib \<Rightarrow> 'ekey HarnessLib \<Rightarrow> AgentRunInputs
    \<Rightarrow> 'sk \<Rightarrow> 'sk \<Rightarrow> 'n \<Rightarrow> PreparedPayment \<Rightarrow> string \<Rightarrow> 'n \<Rightarrow> bool" where
  "agent_chain L H A J inputs sk1 sk2 n prepared tx n' \<longleftrightarrow>
    (\<exists>zpay_key n1 recipient authorization issuer_key key access_token n2 dpop_proof n3 answer n4 request n5.
       dpop_key_generate A sk1 = Ok zpay_key
     \<and> harness_call_prepare H A (rx_zpay_url inputs) (ha_payee_id (rx_args inputs)) (rx_network_label inputs) zpay_key n = (Ok prepared, n1)
     \<and> prepared_payment_target L prepared (rx_network inputs) = Ok (recipient, gp_amount_zat prepared)
     \<and> harness_build_agent_authorization L prepared (rx_network inputs) = Ok authorization
     \<and> harness_load_issuer_encoding_key J (ha_issuer_key_path (rx_args inputs)) = Ok issuer_key
     \<and> dpop_key_generate A sk2 = Ok key
     \<and> mint_agent_token H A (agent_grant (rx_args inputs) issuer_key key authorization) n1 = (Ok access_token, n2)
     \<and> mint_agent_proof H A key access_token
         (base_url (case ha_zspend_public_url (rx_args inputs) of None \<Rightarrow> rx_zspend_url inputs | Some u \<Rightarrow> u) @ ''/v1/payments/sign'') n2
         = (Ok dpop_proof, n3)
     \<and> request_zspend_signature A (hh_sign H) (agent_sign_call inputs prepared access_token dpop_proof) n3 = (Ok answer, n4)
     \<and> as_tx_id answer = tx
     \<and> harness_x402_facilitator_request L (rx_network inputs) (rx_zpay_url inputs) prepared (as_pczt_base64 answer) = Ok request
     \<and> x402_settled H (rx_zpay_url inputs) request tx n4 n5
     \<and> records_tx H (status_url (rx_zpay_url inputs) (gp_payment_id prepared)) tx n5
     \<and> n' = snd (hh_status H (status_url (rx_zpay_url inputs) (gp_payment_id prepared)) n5))"

lemma agent_settle_Ok:
  assumes "agent_settle L H A J inputs sk1 sk2 n = Some (Inr (pid, tx), n')"
  obtains prepared where "pid = gp_payment_id prepared" "agent_chain L H A J inputs sk1 sk2 n prepared tx n'"
proof -
  obtain zpay_key prepared n1 authorization issuer_key key access_token n2 dpop_proof n3 answer n4 request m u m' u' where
    r: "dpop_key_generate A sk1 = Ok zpay_key"
      "harness_call_prepare H A (rx_zpay_url inputs) (ha_payee_id (rx_args inputs)) (rx_network_label inputs) zpay_key n = (Ok prepared, n1)"
      "harness_build_agent_authorization L prepared (rx_network inputs) = Ok authorization"
      "harness_load_issuer_encoding_key J (ha_issuer_key_path (rx_args inputs)) = Ok issuer_key"
      "dpop_key_generate A sk2 = Ok key"
      "mint_agent_token H A (agent_grant (rx_args inputs) issuer_key key authorization) n1 = (Ok access_token, n2)"
      "mint_agent_proof H A key access_token
        (base_url (case ha_zspend_public_url (rx_args inputs) of None \<Rightarrow> rx_zspend_url inputs | Some u \<Rightarrow> u) @ ''/v1/payments/sign'') n2
        = (Ok dpop_proof, n3)"
      "request_zspend_signature A (hh_sign H) (agent_sign_call inputs prepared access_token dpop_proof) n3 = (Ok answer, n4)"
      "harness_x402_facilitator_request L (rx_network inputs) (rx_zpay_url inputs) prepared (as_pczt_base64 answer) = Ok request"
      "verify_x402_payment H (rx_zpay_url inputs) request n4 = (Inr u, m)"
      "settle_x402_payment H (rx_zpay_url inputs) request m = (Inr tx, m')" "tx = as_tx_id answer"
      "confirm_x402_lifecycle_record H (rx_zpay_url inputs) (gp_payment_id prepared) tx m' = (Inr u', n')"
      "pid = gp_payment_id prepared"
    using assms unfolding agent_settle_def Let_def run_step_Ok_iff run_pure_Ok_iff pure_step_Ok_iff if_pure_iff harness_key_Ok_iff
      harness_call_sign_Ok_iff prod.inject sum.inject
    by (elim exE conjE) blast
  obtain recipient where target: "prepared_payment_target L prepared (rx_network inputs) = Ok (recipient, gp_amount_zat prepared)"
    using r(9) by (auto simp: harness_x402_facilitator_request_def prepared_payment_target_def split: sum.splits list.splits if_splits)
  have "agent_chain L H A J inputs sk1 sk2 n prepared tx n'" unfolding agent_chain_def
    using r(1-9) r(12) [symmetric] target verify_then_settle [OF r(10,11)] confirm_recorded [OF r(13)] by blast
  with r(14) show thesis by (rule that)
qed

lemma agent_flow_Ok:
  assumes "run_agent_signed_flow L H A J inputs sk1 sk2 n = Some (Ok (), n')"
  obtains pid tx n1 n2 where "agent_settle L H A J inputs sk1 sk2 n = Some (Inr (pid, tx), n1)"
    "wait_for_settlement_completion H (rx_zpay_url inputs) pid (ha_settlement_completion (rx_args inputs))
       (ha_poll_seconds (rx_args inputs)) n1 = Some (Ok (), n2)"
    "check_zexplorer H (rx_network inputs) (ha_zexplorer_tx_url (rx_args inputs)) tx (ha_poll_seconds (rx_args inputs)) n2 = Some (Ok (), n')"
  using assms by (auto simp: run_agent_signed_flow_def split: prod.splits sum.splits option.splits)

lemma wait_Ok:
  assumes "wait_for_settlement_completion H zpay_url pid completion secs n = Some (Ok (), n')"
  shows "\<exists>k body. (\<forall>i < k. short_poll H (status_url zpay_url pid) completion (status_poll H (status_url zpay_url pid) completion n i))
    \<and> status_answer H (status_url zpay_url pid) (status_poll H (status_url zpay_url pid) completion n k) body \<and> is_observed completion body
    \<and> n' = snd (hh_status H (status_url zpay_url pid) (status_poll H (status_url zpay_url pid) completion n k))"
proof -
  let ?look = "completion_look H (status_url zpay_url pid) completion" and ?limit = "fst (hh_now H n) + unat secs * NANOS"
  have run: "poll_until H (15 * NANOS) ?look ?limit (snd (hh_now H n)) = Some (Ok (), n')" using assms unfolding wait_polls .
  obtain j where "\<not> goes_on H ?look ?limit (poll_world H (15 * NANOS) ?look (snd (hh_now H n)) j)" using poll_until_returned [OF run] by blast
  then obtain k where k: "\<forall>i < k. goes_on H ?look ?limit (poll_world H (15 * NANOS) ?look (snd (hh_now H n)) i)"
    "last_look H ?look ?limit (poll_world H (15 * NANOS) ?look (snd (hh_now H n)) k)
      (poll_until H (15 * NANOS) ?look ?limit (snd (hh_now H n)))"
    by (rule poll_until_stops)
  show ?thesis using k(1) last_look_poll [OF k(2)] run unfolding goes_on_poll last_poll_def status_poll_def by auto
qed

text \<open>[C14] A successful agent run is evidence for the whole path, one call after the other: starting from the world \<open>n\<close> of the run,
  the facilitator prepared a payment for the payee asked for, whose payment URI carries a single payment with the amount the
  facilitator announced; the token and the proof for it were minted, and with them the wallet service signed it;
  after that the facilitator called the x402 request built from exactly this payment and the signed PCZT valid, and
  after that settled it as the very transaction the wallet service signed; after that its status endpoint recorded
  that transaction for the payment; then the status endpoint was polled, at first with answers short of the
  requested lifecycle state, and at last with that state; and from there the explorer check on that transaction led to the
  world \<open>n'\<close> in which the run ended.\<close>

theorem agent_run_is_evidence:
  assumes "run_agent_signed_flow L H A J inputs sk1 sk2 n = Some (Ok (), n')"
  shows "\<exists>prepared tx n1 k final_body.
      let url = status_url (rx_zpay_url inputs) (gp_payment_id prepared);
          completion = ha_settlement_completion (rx_args inputs) in
      agent_chain L H A J inputs sk1 sk2 n prepared tx n1
    \<and> (\<forall>i < k. short_poll H url completion (status_poll H url completion n1 i))
    \<and> status_answer H url (status_poll H url completion n1 k) final_body \<and> is_observed completion final_body
    \<and> check_zexplorer H (rx_network inputs) (ha_zexplorer_tx_url (rx_args inputs)) tx (ha_poll_seconds (rx_args inputs))
        (snd (hh_status H url (status_poll H url completion n1 k))) = Some (Ok (), n')"
proof -
  obtain pid tx n1 n2 where s: "agent_settle L H A J inputs sk1 sk2 n = Some (Inr (pid, tx), n1)"
    and w: "wait_for_settlement_completion H (rx_zpay_url inputs) pid (ha_settlement_completion (rx_args inputs))
       (ha_poll_seconds (rx_args inputs)) n1 = Some (Ok (), n2)"
    and z: "check_zexplorer H (rx_network inputs) (ha_zexplorer_tx_url (rx_args inputs)) tx (ha_poll_seconds (rx_args inputs)) n2
      = Some (Ok (), n')" by (rule agent_flow_Ok [OF assms])
  obtain prepared where p: "pid = gp_payment_id prepared" "agent_chain L H A J inputs sk1 sk2 n prepared tx n1"
    by (rule agent_settle_Ok [OF s])
  show ?thesis using wait_Ok [OF w] p z unfolding Let_def by blast
qed

lemmas ex_run_defs = run_agent_signed_flow_def agent_settle_def harness_key_def dpop_key_generate_def harness_call_prepare_def
  mint_proof_def mint_proof_inner_def harness_call_def harness_build_agent_authorization_def prepared_payment_target_def
  recompute_intent_hash_def harness_load_issuer_encoding_key_def mint_agent_token_def mint_access_token_def mint_agent_proof_def
  mint_access_bound_proof_def harness_call_sign_def request_zspend_signature_def harness_x402_facilitator_request_def
  verify_x402_payment_def settle_x402_payment_def confirm_x402_lifecycle_record_def harness_get_def run_step_def run_pure_def
  bind_step_def pure_step_def
  wait_for_settlement_completion_def completion_look_def check_zexplorer_def zexplorer_look_def poll_until.simps http_success_def
  unwrap_or_default_def Let_def

theorem agent_run_is_evidence_witness:
  "\<exists>prepared n1 k final_body.
      agent_chain ex_sign_lib ex_harness_http ex_agent ex_harness_lib ex_run_inputs () () 0 prepared ''07'' n1
    \<and> status_answer ex_harness_http (status_url ''z'' (gp_payment_id prepared))
        (status_poll ex_harness_http (status_url ''z'' (gp_payment_id prepared)) CompletionMined n1 k) final_body
    \<and> is_observed CompletionMined final_body"
proof -
  obtain n' where r: "run_agent_signed_flow ex_sign_lib ex_harness_http ex_agent ex_harness_lib ex_run_inputs () () 0 = Some (Ok (), n')"
    by (simp add: ex_run_defs ex_harness_http_def ex_agent_def ex_harness_lib_def ex_run_inputs_def ex_sign_lib_def ex_prepared_payment_def
        NANOS_def)
  have answer: "as_tx_id answer = ''07''"
    if "request_zspend_signature ex_agent (hh_sign ex_harness_http) call m = (Inr answer, m')" for call answer m m'
    using that by (auto simp: request_zspend_signature_def ex_harness_http_def ex_agent_def http_success_def)
  have tx: "tx = ''07''" if "agent_chain ex_sign_lib ex_harness_http ex_agent ex_harness_lib ex_run_inputs () () 0 prepared tx n1" for prepared tx n1
    using that unfolding agent_chain_def by (elim exE conjE) (metis answer)
  have inputs: "rx_zpay_url ex_run_inputs = ''z''" "ha_settlement_completion (rx_args ex_run_inputs) = CompletionMined"
    by (simp_all add: ex_run_inputs_def)
  from agent_run_is_evidence [OF r, unfolded inputs Let_def] show ?thesis by (elim exE conjE) (use tx in blast)
qed

subsection \<open>Paying through the facilitator\<close>

text \<open>The wire form of a settlement outcome, and a harness that reads the facilitator's bodies.\<close>

fun broadcast_outcome_wire :: "BroadcastOutcome \<Rightarrow> BroadcastOutcomeBody" where
  "broadcast_outcome_wire (Accepted t) = \<lparr>bb_kind = ''accepted'', bb_transaction_id = Some t, bb_upstream_message = None\<rparr>"
| "broadcast_outcome_wire (Duplicate t) = \<lparr>bb_kind = ''duplicate'', bb_transaction_id = Some t, bb_upstream_message = None\<rparr>"
| "broadcast_outcome_wire (InvalidEncoding m) = \<lparr>bb_kind = ''invalid_encoding'', bb_transaction_id = None, bb_upstream_message = Some m\<rparr>"
| "broadcast_outcome_wire (Rejected m) = \<lparr>bb_kind = ''rejected'', bb_transaction_id = None, bb_upstream_message = Some m\<rparr>"
| "broadcast_outcome_wire (Unknown m) = \<lparr>bb_kind = ''unknown'', bb_transaction_id = None, bb_upstream_message = Some m\<rparr>"

definition settlement_wire :: "SettlementOutcome \<Rightarrow> SettlementResponseData" where
  "settlement_wire outcome =
    \<lparr>hz_payment_id = so_payment_id outcome, hz_broadcast_outcome = broadcast_outcome_wire (so_broadcast_outcome outcome),
     hz_watch_id = so_watch_id outcome\<rparr>"

definition reads_body :: "'ek HarnessLib \<Rightarrow> ApiBody \<Rightarrow> string \<Rightarrow> bool" where
  "reads_body J body text \<longleftrightarrow>
    (case body of
       SettlementBody outcome \<Rightarrow> hl_settlement J text = Some (settlement_wire outcome)
     | ProblemBody _ kind detail retry \<Rightarrow> hl_problem J text = Some \<lparr>hb_kind = kind, hb_detail = detail, hb_retryable = retry\<rparr>
     | _ \<Rightarrow> True)"

text \<open>What the harness makes of an answer of the settle endpoint.\<close>

definition read_response :: "'ek HarnessLib \<Rightarrow> string \<Rightarrow> Response \<Rightarrow> SubmitterError + SubmitOutcome" where
  "read_response J payload resp =
    (if \<not> http_success (re_status resp) then map_settle_http_failure J (re_status resp) payload
     else (case parse_settle_success_body J payload of
             Inl e \<Rightarrow> Err e | Inr outcome \<Rightarrow> zpay_outcome_to_submit_outcome J outcome))"

lemma read_problem:
  assumes "reads_body J (re_body resp) payload" "is_problem resp"
  shows "\<exists>e. read_response J payload resp = Err e"
    "read_response J payload resp = Err (SubmitterUnavailable m) \<Longrightarrow> pb_retryable (re_body resp)"
  using assms by (auto simp: read_response_def is_problem_def http_success_def map_settle_http_failure_def reads_body_def
      split: ApiBody.splits if_splits)

lemma read_settlement:
  assumes "reads_body J (re_body resp) payload" "re_status resp = 200" "re_body resp = SettlementBody out"
    "so_broadcast_outcome out = from_submit_outcome hex so" "\<And>t. hl_from_rpc_hex J (hex t) = Some t"
  shows "read_response J payload resp =
    (case so of SubmitAccepted t \<Rightarrow> Ok (SubmitAccepted t) | SubmitQueued t \<Rightarrow> Ok (SubmitAccepted t)
     | SubmitDuplicate t \<Rightarrow> Ok (SubmitDuplicate t)
     | SubmitRejected (RejectedOther reason) detail \<Rightarrow> Ok (SubmitRejected (RejectedOther ''Unknown'') (reason @ '': '' @ detail))
     | _ \<Rightarrow> Err (SubmitterUnsupportedResponse ''zpay BroadcastOutcome.kind''))"
  using assms by (cases "(hex, so)" rule: from_submit_outcome.cases)
    (auto simp: read_response_def http_success_def parse_settle_success_body_def reads_body_def zpay_outcome_to_submit_outcome_def
      settlement_wire_def response_transaction_id_def unwrap_or_default_def Let_def)

lemma client_error_no_chain:
  assumes "submit_settlement P L C T now request jkt p l c = (Inl err, p', l', c')" "re_status (settle_error_response err) < 500"
  shows "c' = c"
  using assms by (auto simp: submit_settlement_def Let_def split: sum.splits prod.splits if_splits)

text \<open>The settle endpoint, as far as its answer tells about the chain.\<close>

lemma settle_handler_answers:
  assumes "settle_handler F G clock path headers request st = (resp, st')"
  obtains (problem) "is_problem resp" "re_status resp < 500 \<longrightarrow> st_chain st' = st_chain st"
  | (settled) out raw so where "re_status resp = 200" "re_body resp = SettlementBody out"
      "tl_hex_decode (fa_txlib F) (sr_raw_tx_hex request) = Ok raw" "ch_submit (fa_chain F) raw (st_chain st) = (Inr so, st_chain st')"
      "so_broadcast_outcome out = from_submit_outcome (tl_to_rpc_hex (fa_txlib F)) so"
  using assms unfolding settle_handler_def
proof (cases rule: with_dpop_cases)
  case (refused s r)
  then show thesis using problem by simp
next
  case (accepted jkt s r)
  obtain v p l c where sub: "submit_settlement (fa_prepared_store F) (fa_ledger F) (fa_chain F) (fa_txlib F) (ck_wall clock) request jkt
      (st_prepared st) (st_ledger st) (st_chain st) = (v, p, l, c)" by (metis prod_cases4)
  show thesis
  proof (cases v)
    case (Inl err)
    then have "resp = settle_error_response err" "st_chain st' = c" using accepted(2) sub by auto
    then show thesis using problem client_error_no_chain [OF sub [unfolded Inl]] settle_error_is_problem by auto
  next
    case (Inr out)
    then have st': "resp = json_ok (fa_serializes F) (SettlementBody out)" "st_chain st' = c" using accepted(2) sub by auto
    show thesis
    proof (cases "fa_serializes F (SettlementBody out)")
      case True
      then show thesis using submit_settlement_Ok [OF sub [unfolded Inr]] st' settled by (auto simp: json_ok_def)
    next
      case False
      then show thesis using st' problem by (simp add: json_ok_def is_problem_def)
    qed
  qed
qed

lemma zpay_submit_reads:
  assumes "\<And>url hs n. fst (hh_settle H url hs \<lparr>hq_payment_id = zs_payment_id z, hq_raw_tx_hex = hl_hex J raw\<rparr> n) =
      Ok (re_status resp, Ok payload)"
    and "zpay_submit H A J z raw n = (out, n')"
  shows "out = read_response J payload resp \<or> (\<exists>reason. out = Err (SubmitterUnavailable reason))"
proof -
  obtain clock n1 where c: "hh_clock H n = (clock, n1)" by fastforce
  let ?url = "base_url (zs_zpay_url z) @ ''/zpay/v1/settle''"
  show ?thesis
  proof (cases "mint_proof A clock (zs_dpop_key z) ''POST'' ?url ''zpay-e2e-dpop''")
    case (Inl e)
    then show ?thesis using assms(2) c by (cases e) (auto simp: zpay_submit_def Let_def)
  next
    case (Inr dpop_proof)
    obtain n2 where "hh_settle H ?url [(''dpop'', dpop_proof)] \<lparr>hq_payment_id = zs_payment_id z, hq_raw_tx_hex = hl_hex J raw\<rparr> n1 =
        (Ok (re_status resp, Ok payload), n2)" using assms(1) by (metis prod.collapse)
    then show ?thesis using assms(2) c Inr by (auto simp: zpay_submit_def read_response_def Let_def)
  qed
qed

text \<open>[C13] Paying through the facilitator tells the wallet what the chain plane answered.  When the validator's wallet submits a
  transaction through the settle endpoint, an accepted outcome means that the facilitator submitted exactly
  these bytes and the chain plane accepted or queued that transaction, a duplicate that it was a duplicate, a rejection
  that it was rejected, with the same detail; no other outcome is reported; and when the wallet is told that
  its request was rejected, the transaction never reached the chain plane.\<close>

theorem relayed_payment_reports_chain:
  assumes "settle_handler F G clock path headers \<lparr>sr_payment_id = zs_payment_id z, sr_raw_tx_hex = hl_hex J raw\<rparr> st = (resp, st')"
    and "\<And>url hs n. fst (hh_settle H url hs \<lparr>hq_payment_id = zs_payment_id z, hq_raw_tx_hex = hl_hex J raw\<rparr> n) =
      Ok (re_status resp, Ok payload)"
    and "reads_body J (re_body resp) payload" "\<And>t. hl_from_rpc_hex J (tl_to_rpc_hex (fa_txlib F) t) = Some t"
    and "tl_hex_decode (fa_txlib F) (hl_hex J raw) = Ok raw"
    and "zpay_submit H A J z raw n = (out, n')"
  shows "(\<forall>outcome. out = Ok outcome \<longrightarrow> (\<exists>so. ch_submit (fa_chain F) raw (st_chain st) = (Ok so, st_chain st')
      \<and> (case outcome of
           SubmitAccepted t \<Rightarrow> so = SubmitAccepted t \<or> so = SubmitQueued t
         | SubmitDuplicate t \<Rightarrow> so = SubmitDuplicate t
         | SubmitRejected r d \<Rightarrow> (\<exists>reason detail. so = SubmitRejected (RejectedOther reason) detail \<and> d = reason @ '': '' @ detail)
         | _ \<Rightarrow> False)))
    \<and> (\<forall>m. out = Err (SubmitterRequestRejected m) \<longrightarrow> st_chain st' = st_chain st)"
proof -
  have out: "out = read_response J payload resp \<or> (\<exists>reason. out = Err (SubmitterUnavailable reason))"
    by (rule zpay_submit_reads [where payload = payload and resp = resp, OF assms(2) assms(6)])
  show ?thesis using assms(1)
  proof (cases rule: settle_handler_answers)
    case problem
    have "re_status resp < 500" if "read_response J payload resp = Err (SubmitterRequestRejected m)" for m
      using that problem(1) assms(3)
      by (auto simp: read_response_def is_problem_def http_success_def map_settle_http_failure_def reads_body_def
          split: ApiBody.splits if_splits)
    then show ?thesis using out problem(2) read_problem(1) [OF assms(3) problem(1)] by auto
  next
    case (settled o' raw' so)
    have "raw' = raw" using settled(3) assms(5) by simp
    moreover note read_settlement [OF assms(3) settled(1,2,5) assms(4)]
    ultimately show ?thesis using out settled(4) by (auto split: SubmitOutcome.splits RejectionReason.splits)
  qed
qed

definition ex_raw_hex :: "bytes \<Rightarrow> string" where "ex_raw_hex t = map (\<lambda>b. char_of (unat b)) t"

lemma ex_raw_hex_inverse: "bytes_of (ex_raw_hex t) = t"
proof -
  have "word_of_nat (byte_of (char_of (unat b))) = b" for b :: u8
    using unsigned_less [of b, where ?'a = nat] by (simp add: byte_of_def)
  then show ?thesis by (simp add: bytes_of_def ex_raw_hex_def map_idI comp_def)
qed

definition ex_relay_facilitator :: "(CacheInner, SettlementLedger, nat, unit, unit) Facilitator" where
  "ex_relay_facilitator = ex_facilitator\<lparr>fa_txlib := ex_txlib\<lparr>tl_to_rpc_hex := ex_raw_hex\<rparr>\<rparr>"

definition ex_relay_gate :: "(unit, unit, string, InMemoryReplayStore) DpopGate" where
  "ex_relay_gate = ex_gate_config\<lparr>dg_lib := ex_dpop_lib\<lparr>dl_b64_encode := \<lambda>_. ''agent''\<rparr>\<rparr>"

definition ex_relayed :: SettlementOutcome where
  "ex_relayed = \<lparr>so_payment_id = ''id1'', so_broadcast_outcome = Accepted (ex_raw_hex [1]), so_watch_id = Some ''watch_id1''\<rparr>"

definition ex_relay_lib :: "unit HarnessLib" where
  "ex_relay_lib = ex_harness_lib\<lparr>hl_settlement := \<lambda>_. Some (settlement_wire ex_relayed), hl_from_rpc_hex := \<lambda>t. Some (bytes_of t)\<rparr>"

lemma ex_relay_accepted:
  "\<exists>s r. accept_lifecycle_write ex_relay_gate ex_clock ''/p'' [(''dpop'', ''p'')] (st_replay ex_state) (st_limiter ex_state) = (Ok ''agent'', s, r)"
proof -
  have "parse_proof (dg_lib ex_relay_gate) ''p'' =
      Ok (\<lparr>ej_kty = ''EC'', ej_crv = ''P-256'', ej_x = ''x'', ej_y = ''y''\<rparr>, ex_claims, ''agent'', ''j'')"
    by (simp add: parse_proof_def check_proof_header_def decode_unverified_header_def decode_unverified_claims_def ex_relay_gate_def
        ex_dpop_lib_def compute_ec_jwk_thumbprint_def trim_ex MAX_JTI_LEN_def ex_claims_def Let_def)
  moreover have "check_bindings (dg_lib ex_relay_gate) 1010 ''POST'' ''https://z/p'' ''p'' ec ex_claims = Ok ()" for ec
    by (simp add: ex_relay_gate_def check_bindings_def check_htu_def canonicalize_http_url_def check_signature_def
        decoding_key_from_ec_jwk_def ex_claims_def ex_dpop_lib_def abs_drift_seconds_def unsigned_abs_def
        i64_saturating_sub_def i64_min_def i64_max_def CLOCK_SKEW_SECONDS_def Let_def)
  moreover have "dg_expectations ex_relay_gate = \<lparr>de_expected_scheme = ''https'', de_expected_host = Some ''z''\<rparr>"
    "dg_observe ex_relay_gate = replay_observe 0"
    by (simp_all add: ex_relay_gate_def ex_gate_config_def pinned_expectations_def)
  ultimately show ?thesis
    by (simp add: accept_lifecycle_write_def verify_request_dpop_def nonempty_header_def trim_ex request_url_def ex_clock_def
        settle_current_unix_seconds_def u64_to_i64_def i64_max_def verify_dpop_proof_def replay_observe_def ex_state_def
        replay_store_new_def hm_retain_def check_jkt_def check_def rate_limiter_new_def)
qed

lemma ex_relay_run:
  "\<exists>st'. settle_handler ex_relay_facilitator ex_relay_gate ex_clock ''/p'' [(''dpop'', ''p'')] ex_settle ex_state =
    (\<lparr>re_status = 200, re_content_type = ''application/json'', re_headers = [], re_body = SettlementBody ex_relayed\<rparr>, st')"
proof -
  have gate: "settle_gate PreparedTxCache (ex_txlib\<lparr>tl_to_rpc_hex := ex_raw_hex\<rparr>) ex_settle ''agent'' ex_cache = Ok ex_prepared"
  proof -
    have parse: "parse_signed_expiry_height (ex_txlib\<lparr>tl_to_rpc_hex := ex_raw_hex\<rparr>) = parse_signed_expiry_height ex_txlib"
      by (rule ext) (simp add: parse_signed_expiry_height_def ex_txlib_def)
    show ?thesis using ex_gate unfolding settle_gate_def parse .
  qed
  have "\<exists>p l c. submit_settlement PreparedTxCache SettlementLedgerMem (fa_chain ex_facilitator) (ex_txlib\<lparr>tl_to_rpc_hex := ex_raw_hex\<rparr>)
      (ck_wall ex_clock) ex_settle ''agent'' ex_cache [] 0 = (Ok ex_relayed, p, l, c)"
    by (simp add: submit_settlement_def gate)
      (simp add: ex_txlib_def ex_settle_def ex_facilitator_def Let_def ledger_record_def cache_remove_def ex_relayed_def)
  moreover obtain s r where "accept_lifecycle_write ex_relay_gate ex_clock ''/p'' [(''dpop'', ''p'')] (st_replay ex_state) (st_limiter ex_state)
      = (Ok ''agent'', s, r)" using ex_relay_accepted by blast
  moreover have "fa_prepared_store ex_relay_facilitator = PreparedTxCache" "fa_ledger ex_relay_facilitator = SettlementLedgerMem"
    "fa_chain ex_relay_facilitator = fa_chain ex_facilitator" "fa_txlib ex_relay_facilitator = ex_txlib\<lparr>tl_to_rpc_hex := ex_raw_hex\<rparr>"
    "fa_serializes ex_relay_facilitator = (\<lambda>_. True)" "st_prepared ex_state = ex_cache" "st_ledger ex_state = []" "st_chain ex_state = 0"
    by (simp_all add: ex_relay_facilitator_def ex_facilitator_def ex_state_def)
  ultimately show ?thesis by (auto simp: settle_handler_def with_dpop_def json_ok_def)
qed

theorem relayed_payment_reports_chain_witness:
  "\<exists>st' so n'. zpay_submit (ex_harness_http\<lparr>hh_settle := \<lambda>_ _ _ n. (Ok (200, Ok ''t''), n)\<rparr>) ex_agent ex_relay_lib
      \<lparr>zs_zpay_url = ''z'', zs_payment_id = ''id1'', zs_network = ZallyTestnet,
       zs_dpop_key = \<lparr>dk_encoding_key = (), dk_x_coordinate = ''x'', dk_y_coordinate = ''y'', dk_jkt = ''agent''\<rparr>\<rparr> [5, 0] 0
      = (Ok (SubmitAccepted [1]), n')
    \<and> settle_handler ex_relay_facilitator ex_relay_gate ex_clock ''/p'' [(''dpop'', ''p'')] ex_settle ex_state =
      (\<lparr>re_status = 200, re_content_type = ''application/json'', re_headers = [], re_body = SettlementBody ex_relayed\<rparr>, st')
    \<and> ch_submit (fa_chain ex_relay_facilitator) [5, 0] (st_chain ex_state) = (Ok so, st_chain st')
    \<and> (so = SubmitAccepted [1] \<or> so = SubmitQueued [1])"
proof -
  let ?H = "ex_harness_http\<lparr>hh_settle := \<lambda>_ _ _ n. (Ok (200, Ok ''t''), n)\<rparr>"
  let ?z = "\<lparr>zs_zpay_url = ''z'', zs_payment_id = ''id1'', zs_network = ZallyTestnet,
       zs_dpop_key = \<lparr>dk_encoding_key = (), dk_x_coordinate = ''x'', dk_y_coordinate = ''y'', dk_jkt = ''agent''\<rparr>\<rparr>"
  let ?resp = "\<lparr>re_status = 200, re_content_type = ''application/json'', re_headers = [], re_body = SettlementBody ex_relayed\<rparr>"
  obtain st' where h: "settle_handler ex_relay_facilitator ex_relay_gate ex_clock ''/p'' [(''dpop'', ''p'')] ex_settle ex_state = (?resp, st')"
    using ex_relay_run by blast
  have req: "\<lparr>sr_payment_id = zs_payment_id ?z, sr_raw_tx_hex = hl_hex ex_relay_lib [5, 0]\<rparr> = ex_settle"
    by (simp add: ex_settle_def ex_relay_lib_def ex_harness_lib_def)
  have s: "zpay_submit ?H ex_agent ex_relay_lib ?z [5, 0] 0 = (Ok (SubmitAccepted [1]), 0)"
    by (simp add: zpay_submit_def ex_harness_http_def ex_agent_def ex_relay_lib_def ex_harness_lib_def mint_proof_def mint_proof_inner_def
        http_success_def parse_settle_success_body_def zpay_outcome_to_submit_outcome_def settlement_wire_def ex_relayed_def
        response_transaction_id_def unwrap_or_default_def ex_raw_hex_inverse Let_def)
  have reads: "reads_body ex_relay_lib (re_body ?resp) ''t''" by (simp add: reads_body_def ex_relay_lib_def)
  have hex: "hl_from_rpc_hex ex_relay_lib (tl_to_rpc_hex (fa_txlib ex_relay_facilitator) t) = Some t" for t
    by (simp add: ex_relay_lib_def ex_relay_facilitator_def ex_raw_hex_inverse)
  have decode: "tl_hex_decode (fa_txlib ex_relay_facilitator) (hl_hex ex_relay_lib [5, 0]) = Ok [5, 0]"
    by (simp add: ex_relay_facilitator_def ex_txlib_def)
  have net: "fst (hh_settle ?H url hs \<lparr>hq_payment_id = zs_payment_id ?z, hq_raw_tx_hex = hl_hex ex_relay_lib [5, 0]\<rparr> n) =
      Ok (re_status ?resp, Ok ''t'')" for url hs n by simp
  from relayed_payment_reports_chain [OF h [folded req] net reads hex decode s] s h show ?thesis by auto
qed

end
