(* ===== verification/Tasks.thy ===== *)
theory Tasks
  imports Prelude
begin

text \<open>
  Request handlers as tasks.  An \<open>async\<close> handler runs without interruption up to its next \<open>.await\<close>; there another
  task may run.  A task is either done or about to perform one atomic action on the shared state, after which it goes on
  as another task.  \<open>run_alone\<close> runs a task to its end without interruption, which is what the definitions of the
  handlers in the other theories describe; \<open>interleaved\<close> runs any number of tasks, arriving at any time, between the
  steps of an environment.  The lemmas reduce an invariant of all interleavings to the atomic actions of one
  task (\<open>steady\<close>) and of the environment.
\<close>

datatype ('s, 'a) task = Done 'a | Await "'s \<Rightarrow> ('s, 'a) task \<times> 's"

primrec run_alone :: "('s, 'a) task \<Rightarrow> 's \<Rightarrow> 'a \<times> 's" where
  "run_alone (Done a) = (\<lambda>s. (a, s))"
| "run_alone (Await f) = (\<lambda>s. case map_prod run_alone id (f s) of (g, s') \<Rightarrow> g s')"

text \<open>One awaited call, then the rest.\<close>

definition await :: "('s \<Rightarrow> 'a \<times> 's) \<Rightarrow> ('a \<Rightarrow> ('s, 'b) task) \<Rightarrow> ('s, 'b) task" where
  "await action k = Await (\<lambda>s. map_prod k id (action s))"

lemma run_alone_await [simp]: "run_alone (await action k) s = (case action s of (a, s') \<Rightarrow> run_alone (k a) s')"
  by (simp add: await_def split: prod.split)

subsection \<open>Interleavings\<close>

text \<open>\<open>env\<close> is what happens besides the tasks, \<open>arrival\<close> the tasks that may start.\<close>

inductive interleaved ::
  "('s \<Rightarrow> 's \<Rightarrow> bool) \<Rightarrow> (('s, 'a) task \<Rightarrow> bool) \<Rightarrow> ('s, 'a) task list \<Rightarrow> 's \<Rightarrow> ('s, 'a) task list \<Rightarrow> 's \<Rightarrow> bool"
  for env arrival where
  quiet: "interleaved env arrival ts s ts s"
| arrive: "interleaved env arrival ts s ts' s' \<Longrightarrow> arrival t \<Longrightarrow> interleaved env arrival ts s (ts' @ [t]) s'"
| proceed: "interleaved env arrival ts s ts' s' \<Longrightarrow> i < length ts' \<Longrightarrow> ts' ! i = Await f \<Longrightarrow> f s' = (t, s'')
    \<Longrightarrow> interleaved env arrival ts s (ts'[i := t]) s''"
| other: "interleaved env arrival ts s ts' s' \<Longrightarrow> env s' s'' \<Longrightarrow> interleaved env arrival ts s ts' s''"

text \<open>A task may run to its end without interruption, and the environment may take several steps.\<close>

lemma interleaved_finish:
  assumes "interleaved env arrival ts\<^sub>0 s\<^sub>0 ts s" "i < length ts" "ts ! i = t"
  shows "interleaved env arrival ts\<^sub>0 s\<^sub>0 (ts[i := Done (fst (run_alone t s))]) (snd (run_alone t s))"
  using assms
proof (induction t arbitrary: ts s)
  case (Done a)
  then show ?case by (metis fst_conv list_update_id run_alone.simps(1) snd_conv)
next
  case (Await f)
  obtain t' s' where f: "f s = (t', s')" by fastforce
  then have "interleaved env arrival ts\<^sub>0 s\<^sub>0 (ts[i := t']) s'"
    using interleaved.proceed [OF Await.prems(1,2)] Await.prems(3) by simp
  from Await.IH [OF rangeI [of f s, unfolded f] _ this] show ?case using Await.prems(2) by (simp add: f)
qed

lemma interleaved_alone:
  assumes "interleaved env arrival ts\<^sub>0 s\<^sub>0 ts s" "arrival t" "run_alone t s = (a, s')"
  shows "interleaved env arrival ts\<^sub>0 s\<^sub>0 (ts @ [Done a]) s'"
  using interleaved_finish [OF interleaved.arrive [OF assms(1,2)], of "length ts" t] assms(3) by simp

lemma interleaved_env:
  assumes "env\<^sup>*\<^sup>* s s'" "interleaved env arrival ts\<^sub>0 s\<^sub>0 ts s"
  shows "interleaved env arrival ts\<^sub>0 s\<^sub>0 ts s'"
  using assms by (induction rule: rtranclp_induct) (auto intro: interleaved.other)

text \<open>A scheduler that gives the processor to the tasks in a given order.\<close>

fun advance :: "('s, 'a) task \<Rightarrow> 's \<Rightarrow> ('s, 'a) task \<times> 's" where
  "advance (Done a) s = (Done a, s)"
| "advance (Await f) s = f s"

fun schedule :: "nat list \<Rightarrow> ('s, 'a) task list \<Rightarrow> 's \<Rightarrow> ('s, 'a) task list \<times> 's" where
  "schedule [] ts s = (ts, s)"
| "schedule (i # is) ts s =
    (if i < length ts then (case advance (ts ! i) s of (t, s') \<Rightarrow> schedule is (ts[i := t]) s') else schedule is ts s)"

lemma advance_await [simp]: "advance (await action k) s = (case action s of (a, s') \<Rightarrow> (k a, s'))"
  by (simp add: await_def split: prod.split)

lemma schedule_interleaved:
  assumes "schedule is ts s = (ts', s')" "interleaved env arrival ts\<^sub>0 s\<^sub>0 ts s"
  shows "interleaved env arrival ts\<^sub>0 s\<^sub>0 ts' s'"
  using assms
proof (induction "is" ts s rule: schedule.induct)
  case (2 i "is" ts s)
  show ?case
  proof (cases "i < length ts")
    case True
    obtain t s1 where t: "advance (ts ! i) s = (t, s1)" by fastforce
    have "interleaved env arrival ts\<^sub>0 s\<^sub>0 (ts[i := t]) s1"
    proof (cases "ts ! i")
      case (Done a)
      then have "ts[i := t] = ts" "s1 = s" using t by auto
      then show ?thesis using "2.prems"(2) by simp
    next
      case (Await f)
      then show ?thesis using interleaved.proceed [OF "2.prems"(2) True Await] t by simp
    qed
    then show ?thesis using "2.IH"(1) [OF True t [symmetric]] "2.prems"(1) True t by simp
  next
    case False
    then show ?thesis using "2.IH"(2) "2.prems" by simp
  qed
qed simp

text \<open>A task is steady for an invariant if each of its actions keeps it, whatever the other tasks do in between as long as
  they keep it too.\<close>

inductive steady :: "('s \<Rightarrow> bool) \<Rightarrow> ('s, 'a) task \<Rightarrow> bool" for I where
  steady_Done: "steady I (Done a)"
| steady_Await: "(\<And>s. I s \<Longrightarrow> I (snd (f s)) \<and> steady I (fst (f s))) \<Longrightarrow> steady I (Await f)"

inductive_cases steady_AwaitE: "steady I (Await f)"

lemma steady_await [intro]:
  assumes "\<And>s a s'. I s \<Longrightarrow> action s = (a, s') \<Longrightarrow> I s' \<and> steady I (k a)"
  shows "steady I (await action k)"
  unfolding await_def
proof (rule steady_Await)
  fix s assume "I s"
  moreover obtain a s' where "action s = (a, s')" by fastforce
  ultimately show "I (snd (map_prod k id (action s))) \<and> steady I (fst (map_prod k id (action s)))"
    using assms by simp
qed

lemma interleaved_invariant:
  assumes "interleaved env arrival ts s ts' s'"
    and "I s" "\<forall>t \<in> set ts. steady I t" "\<And>t. arrival t \<Longrightarrow> steady I t" "\<And>s s'. I s \<Longrightarrow> env s s' \<Longrightarrow> I s'"
  shows "I s' \<and> (\<forall>t \<in> set ts'. steady I t)"
  using assms
proof (induction rule: interleaved.induct)
  case (proceed ts s ts' s' i f t s'')
  then have inv: "I s'" "\<forall>t \<in> set ts'. steady I t" by simp_all
  then have "steady I (Await f)" using proceed.hyps(2,3) by (metis nth_mem)
  then have "I s'' \<and> steady I t" using inv(1) proceed.hyps(4) by (elim steady_AwaitE) (metis fst_conv snd_conv)
  then show ?case using inv(2) set_update_subset_insert [of ts' i t] by blast
qed auto

end
