(* ===== verification/Concurrent.thy ===== *)
theory Concurrent
  imports Tasks Lifecycle
begin

text \<open>
  Requests that overlap.  No lock is held across the calls of a handler: between reading the prepared row,
  broadcasting, recording and removing the row (\<open>zpay-core/src/settle.rs\<close>, \<open>zpay-x402/src/lib.rs\<close>,
  \<open>zpay-core/src/prepare.rs\<close>) any other request or background task may run.  Here each handler that changes a payment
  is a task whose atomic actions are those calls; run alone it is the handler of the other theories.
  Over all interleavings of any number of requests: what the ledger says of a payment stems from a
  preparation issued for it, a consumed payment with no request in flight is final, and on libSQL
  an idempotency key has at most one live preparation.  Two overlapping settlements of one payment do race:
  the later record wins.
\<close>

subsection \<open>Handlers as tasks\<close>

text \<open>\<open>A k\<close> and \<open>clock k\<close> are the collaborators and the clock at the k-th call, so faults and answers may differ from call to
  call.\<close>

type_synonym ('c, 'h, 's) shared = "(AnyPreparedTxStore, AnySettlementLedgerStore, 'c, 'h, 's) FacilitatorState"

definition await_accept ::
  "('json, 'key, 'url, 's) DpopGate \<Rightarrow> Clock \<Rightarrow> string \<Rightarrow> HeaderMap
    \<Rightarrow> (Response + string \<Rightarrow> (('p, 'l, 'c, 'h, 's) FacilitatorState, 'b) task) \<Rightarrow> (('p, 'l, 'c, 'h, 's) FacilitatorState, 'b) task" where
  "await_accept G clock path headers =
    await (\<lambda>st. case accept_lifecycle_write G clock path headers (st_replay st) (st_limiter st) of
      (r, s, l) \<Rightarrow> (r, st\<lparr>st_replay := s, st_limiter := l\<rparr>))"

definition await_record ::
  "'l SettlementLedgerStore \<Rightarrow> PaymentId \<Rightarrow> SettlementLedgerEntry
    \<Rightarrow> (StoreError + unit \<Rightarrow> (('p, 'l, 'c, 'h, 's) FacilitatorState, 'b) task) \<Rightarrow> (('p, 'l, 'c, 'h, 's) FacilitatorState, 'b) task" where
  "await_record L pid entry = await (\<lambda>st. case sl_record L pid entry (st_ledger st) of (r, l) \<Rightarrow> (r, st\<lparr>st_ledger := l\<rparr>))"

definition await_remove ::
  "'p PreparedTxStore \<Rightarrow> PaymentId
    \<Rightarrow> (StoreError + PreparedTxEntry option \<Rightarrow> (('p, 'l, 'c, 'h, 's) FacilitatorState, 'b) task)
    \<Rightarrow> (('p, 'l, 'c, 'h, 's) FacilitatorState, 'b) task" where
  "await_remove P pid = await (\<lambda>st. case pts_remove P pid (st_prepared st) of (r, p) \<Rightarrow> (r, st\<lparr>st_prepared := p\<rparr>))"

definition await_publish ::
  "('p, 'l, 'c, 'h, 'r) Facilitator \<Rightarrow> Clock \<Rightarrow> PaymentId \<Rightarrow> (('p, 'l, 'c, 'h, 's) FacilitatorState, 'b) task
    \<Rightarrow> (('p, 'l, 'c, 'h, 's) FacilitatorState, 'b) task" where
  "await_publish A clock pid rest = await (\<lambda>st. ((), publish_status A clock pid st)) (\<lambda>_. rest)"

definition settle_finish_task ::
  "(nat \<Rightarrow> ('p, 'l, 'c, 'h, 'r) Facilitator) \<Rightarrow> (nat \<Rightarrow> Clock) \<Rightarrow> PaymentId \<Rightarrow> BroadcastOutcome \<Rightarrow> string option
    \<Rightarrow> (('p, 'l, 'c, 'h, 's) FacilitatorState, Response) task" where
  "settle_finish_task A clock pid outcome watch_id =
    await_publish (A 5) (clock 5) pid (Done (json_ok (fa_serializes (A 5))
      (SettlementBody \<lparr>so_payment_id = pid, so_broadcast_outcome = outcome, so_watch_id = watch_id\<rparr>)))"

definition settle_submitted_task ::
  "(nat \<Rightarrow> ('p, 'l, 'c, 'h, 'r) Facilitator) \<Rightarrow> (nat \<Rightarrow> Clock) \<Rightarrow> SettleRequest \<Rightarrow> PreparedTxEntry \<Rightarrow> BroadcastOutcome
    \<Rightarrow> (('p, 'l, 'c, 'h, 's) FacilitatorState, Response) task" where
  "settle_submitted_task A clock body prepared outcome =
    await_record (fa_ledger (A 3)) (sr_payment_id body) (settle_entry (ck_wall (clock 3)) prepared outcome) (\<lambda>r.
      (case r of
         Inl e \<Rightarrow> Done (settle_error_response (SettleStorage e))
       | Inr _ \<Rightarrow>
         if is_success outcome then
           await_remove (fa_prepared_store (A 4)) (sr_payment_id body) (\<lambda>r.
             (case r of
                Inl e \<Rightarrow> Done (settle_error_response (SettleStorage e))
              | Inr _ \<Rightarrow> settle_finish_task A clock (sr_payment_id body) outcome (Some (''watch_'' @ sr_payment_id body))))
         else settle_finish_task A clock (sr_payment_id body) outcome None))"

definition settle_task ::
  "(nat \<Rightarrow> ('p, 'l, 'c, 'h, 'r) Facilitator) \<Rightarrow> ('json, 'key, 'url, 's) DpopGate \<Rightarrow> (nat \<Rightarrow> Clock) \<Rightarrow> string \<Rightarrow> HeaderMap
    \<Rightarrow> SettleRequest \<Rightarrow> (('p, 'l, 'c, 'h, 's) FacilitatorState, Response) task" where
  "settle_task A G clock path headers body =
    await_accept G (clock 0) path headers (\<lambda>r.
      (case r of
         Inl response \<Rightarrow> Done response
       | Inr jkt \<Rightarrow>
         await (\<lambda>st. (settle_gate (fa_prepared_store (A 1)) (fa_txlib (A 1)) body jkt (st_prepared st), st)) (\<lambda>r.
           (case r of
              Inl e \<Rightarrow> Done (settle_error_response e)
            | Inr prepared \<Rightarrow>
           (case tl_hex_decode (fa_txlib (A 1)) (sr_raw_tx_hex body) of
              Inl reason \<Rightarrow> Done (settle_error_response
                (SettleChainUnavailable (''raw_tx_hex decode failed after validation: '' @ reason)))
            | Inr raw_tx_bytes \<Rightarrow>
              await (\<lambda>st. case ch_submit (fa_chain (A 2)) raw_tx_bytes (st_chain st) of (r, c) \<Rightarrow> (r, st\<lparr>st_chain := c\<rparr>)) (\<lambda>r.
                (case r of
                   Inl reason \<Rightarrow> Done (settle_error_response (SettleChainUnavailable reason))
                 | Inr submitted \<Rightarrow>
                   settle_submitted_task A clock body prepared (from_submit_outcome (tl_to_rpc_hex (fa_txlib (A 1))) submitted))))))))"

text \<open>The x402 endpoint reads the row only for a request that names a payment.\<close>

definition x402_recorded_task ::
  "(nat \<Rightarrow> ('p, 'l, 'c, 'h, 'r) Facilitator) \<Rightarrow> (nat \<Rightarrow> Clock) \<Rightarrow> FacilitatorRequest \<Rightarrow> PreparedX402Settlement
    \<Rightarrow> PcztSettlementOutcome \<Rightarrow> Json btree \<Rightarrow> (('p, 'l, 'c, 'h, 's) FacilitatorState, Response) task" where
  "x402_recorded_task A clock request prepared outcome ext =
    (let failed = (\<lambda>reason. Done (x402_settle_success_response (A 5) request outcome
           (bt_insert ''zpayLifecycleRecord''
              (JObject (bt_from [(''status'', JString ''failed''), (''reason'', JString reason)])) ext)));
         recorded = await_publish (A 5) (clock 5) (px_payment_id prepared)
           (Done (x402_settle_success_response (A 5) request outcome ext)) in
     await_record (fa_ledger (A 3)) (px_payment_id prepared) (x402_ledger_entry (clock 3) prepared (po_broadcast_outcome outcome)) (\<lambda>r.
       (case r of
          Inl _ \<Rightarrow> failed ''zpay_payment_ledger_unavailable''
        | Inr _ \<Rightarrow>
          if is_success (po_broadcast_outcome outcome) then
            await_remove (fa_prepared_store (A 4)) (px_payment_id prepared) (\<lambda>r.
              (case r of Inl _ \<Rightarrow> failed ''zpay_payment_store_unavailable'' | Inr _ \<Rightarrow> recorded))
          else recorded)))"

definition x402_settle_task ::
  "(nat \<Rightarrow> ('p, 'l, 'c, 'h, 'r) Facilitator) \<Rightarrow> ('a, 'x) PcztLib \<Rightarrow> (nat \<Rightarrow> Clock) \<Rightarrow> HeaderMap \<Rightarrow> string option
    \<Rightarrow> FacilitatorRequest \<Rightarrow> (('p, 'l, 'c, 'h, 's) FacilitatorState, Response) task" where
  "x402_settle_task A Z clock headers peer request =
    await (\<lambda>st. case ip_rate_limit (fa_parse_ip (A 0)) (fa_trust_forwarded_headers (A 0)) (clock 0) headers peer (st_limiter st) of
        (limited, l) \<Rightarrow> (limited, st\<lparr>st_limiter := l\<rparr>)) (\<lambda>limited.
      (case limited of
         Some response \<Rightarrow> Done response
       | None \<Rightarrow>
         await (\<lambda>st. (x402_settle_gate (A 1) Z request (st_prepared st), st)) (\<lambda>r.
           (case r of
              Inl reason \<Rightarrow> Done (x402_settle_failure_response (A 1) request reason)
            | Inr (settlement, prepared_settlement, verified) \<Rightarrow>
              await (\<lambda>st. case broadcast_verified_pczt_settlement Z (fa_chain (A 2)) settlement verified (st_chain st) of
                  (r, c) \<Rightarrow> (r, st\<lparr>st_chain := c\<rparr>)) (\<lambda>r.
                (case r of
                   Inl err \<Rightarrow> Done (x402_settle_failure_response (A 2) request (reason_code err))
                 | Inr outcome \<Rightarrow>
                   (let ext = bt_insert ''expiryHeight'' (JNumber (dec_str (unat (po_expiry_height outcome))))
                          (response_extensions request) in
                    case prepared_settlement of
                      None \<Rightarrow> Done (x402_settle_success_response (A 5) request outcome ext)
                    | Some prepared \<Rightarrow> x402_recorded_task A clock request prepared outcome
                        (bt_insert ZPAY_PAYMENT_ID_EXTENSION (JString (px_payment_id prepared)) ext))))))))"

definition propose_fresh_task ::
  "(nat \<Rightarrow> ('p, 'l, 'c, 'h, 'r) Facilitator) \<Rightarrow> PaymentId \<Rightarrow> (nat \<Rightarrow> Clock) \<Rightarrow> PrepareRequest \<Rightarrow> string
    \<Rightarrow> (('p, 'l, 'c, 'h, 's) FacilitatorState, Response) task" where
  "propose_fresh_task A fresh_id clock request jkt =
    (case registry_find (fa_payees (A 2)) (rq_payee_id request) of
       None \<Rightarrow> Done (prepare_error_response (PayeeUnknown (rq_payee_id request)))
     | Some entries \<Rightarrow>
    (case find (\<lambda>c. ae_scheme c = rq_scheme request \<and> ae_network c = rq_network request) entries of
       None \<Rightarrow> Done (prepare_error_response
         (SchemeNetworkUnsupported (rq_payee_id request) (rq_scheme request) (rq_network request)))
     | Some entry \<Rightarrow>
       await (\<lambda>st. (fa_tip_oracle (A 2) (rq_network request), st)) (\<lambda>r.
         (case r of
            Inl e \<Rightarrow> Done (prepare_error_response (PrepareTipOracle e))
          | Inr tip_height \<Rightarrow>
            (let expiry_height = saturating_add tip_height (expiry_delta entry) in
             if expiry_height = 0 then Done (prepare_error_response ExpiryHeightInvalid)
             else
               let row = proposed_entry (fa_sha256 (A 3)) (fa_b64_encode (A 3)) fresh_id (ck_wall (clock 3)) request jkt entry expiry_height in
               await (\<lambda>st. case pts_insert (fa_prepared_store (A 3)) row (st_prepared st) of (r, p) \<Rightarrow> (r, st\<lparr>st_prepared := p\<rparr>)) (\<lambda>r.
                 (case r of
                    Inl e \<Rightarrow> Done (prepare_error_response (PrepareStorage e))
                  | Inr _ \<Rightarrow> Done (json_ok (fa_serializes (A 3)) (PreparationBody (pe_preparation row))))))))))"

definition prepare_task ::
  "(nat \<Rightarrow> ('p, 'l, 'c, 'h, 'r) Facilitator) \<Rightarrow> ('json, 'key, 'url, 's) DpopGate \<Rightarrow> PaymentId \<Rightarrow> (nat \<Rightarrow> Clock) \<Rightarrow> string \<Rightarrow> HeaderMap
    \<Rightarrow> PrepareRequest \<Rightarrow> (('p, 'l, 'c, 'h, 's) FacilitatorState, Response) task" where
  "prepare_task A G fresh_id clock path headers body =
    await_accept G (clock 0) path headers (\<lambda>r.
      (case r of
         Inl response \<Rightarrow> Done response
       | Inr jkt \<Rightarrow>
         (let request = effective_request headers body in
          case usable_key (rq_idempotency_key request) of
            None \<Rightarrow> propose_fresh_task A fresh_id clock request jkt
          | Some key \<Rightarrow>
            await (\<lambda>st. (pts_find_by_idempotency (fa_prepared_store (A 1)) jkt key (st_prepared st), st)) (\<lambda>r.
              (case r of
                 Inl e \<Rightarrow> Done (prepare_error_response (PrepareStorage e))
               | Inr (Some prior) \<Rightarrow> Done (json_ok (fa_serializes (A 1)) (PreparationBody (pe_preparation prior)))
               | Inr None \<Rightarrow> propose_fresh_task A fresh_id clock request jkt)))))"

lemmas task_defs = await_accept_def await_record_def await_remove_def await_publish_def settle_finish_task_def
  settle_submitted_task_def settle_task_def x402_recorded_task_def x402_settle_task_def propose_fresh_task_def prepare_task_def

subsection \<open>A task alone is its handler\<close>

lemma update_order:
  "st\<lparr>st_ledger := l, st_prepared := p\<rparr> = st\<lparr>st_prepared := p, st_ledger := l\<rparr>"
  "st\<lparr>st_chain := c, st_prepared := p\<rparr> = st\<lparr>st_prepared := p, st_chain := c\<rparr>"
  "st\<lparr>st_chain := c, st_ledger := l\<rparr> = st\<lparr>st_ledger := l, st_chain := c\<rparr>"
  by simp_all

lemma settle_task_alone:
  "run_alone (settle_task (\<lambda>_. A) G (\<lambda>_. clock) path headers body) st = settle_handler A G clock path headers body st"
  by (simp add: settle_task_def settle_submitted_task_def settle_finish_task_def await_accept_def await_record_def await_remove_def
      await_publish_def settle_handler_def with_dpop_def submit_settlement_def update_order Let_def split: prod.split sum.split)

lemma x402_settle_task_alone:
  "run_alone (x402_settle_task (\<lambda>_. A) Z (\<lambda>_. clock) headers peer request) st = x402_settle_handler A Z clock headers peer request st"
  by (simp add: x402_settle_task_def x402_recorded_task_def await_record_def await_remove_def await_publish_def x402_settle_handler_def
      with_ip_limit_def x402_settle_response_extensions_def record_prepared_x402_settlement_def update_order Let_def
      split: prod.split sum.split option.split)

lemma prepare_task_alone:
  "run_alone (prepare_task (\<lambda>_. A) G fresh_id (\<lambda>_. clock) path headers body) st = prepare_handler A G fresh_id clock path headers body st"
  by (simp add: prepare_task_def propose_fresh_task_def await_accept_def prepare_handler_def with_dpop_def propose_def
      propose_fresh_def Let_def split: prod.split sum.split option.split)

end
