(* ===== verification/Concurrent_Safety.thy ===== *)
theory Concurrent_Safety
  imports Concurrent
begin

text \<open>
  What holds of overlapping requests, over every interleaving of their store and chain calls with each
  other and with the store writes of the background tasks, and the race that is possible.
\<close>

subsection \<open>The prepared store under overlapping requests\<close>

text \<open>Two overlapping prepares may carry the same idempotency key.  The in-memory store then keeps both rows, so its index
  invariant is not kept here; the libSQL table refuses the second row.\<close>

fun shared_prepared_ok :: "AnyPreparedTxStore \<Rightarrow> bool" where
  "shared_prepared_ok (PreparedMemory inner) = hm_wf (by_payment_id inner)"
| "shared_prepared_ok (PreparedLibsql inner) = prepared_inv inner"

lemma shared_find:
  "pts_find_by_payment_id (AnyPrepared b64 net) pid p = Ok r \<Longrightarrow> r = any_prepared_rows b64 p pid"
  by (cases p) (auto simp: cache_find_by_payment_id_def cache_rows_def dest: libsql_find_Ok)

lemma prepared_rows_insert:
  assumes "derived b64 e"
  shows "prepared_rows b64 (hm_insert (pe_payment_id e) (encode_row e) t) = (prepared_rows b64 t)(pe_payment_id e \<mapsto> e)"
  using prepared_row_roundtrip [OF assms] by (auto simp: prepared_rows_def hm_simps fun_eq_iff)

lemma shared_insert:
  assumes "shared_prepared_ok p" "derived b64 e" "pts_insert (AnyPrepared b64 net) e p = (r, p')"
  shows "shared_prepared_ok p' \<and> any_prepared_rows b64 p' \<in> {any_prepared_rows b64 p, (any_prepared_rows b64 p)(pe_payment_id e \<mapsto> e)}"
proof (cases p)
  case (PreparedMemory c)
  then have "p' = PreparedMemory (snd (cache_insert e c))" using assms(3) by (auto simp: apsnd_eq_iff)
  moreover have "hm_wf (by_payment_id (snd (cache_insert e c)))"
    using assms(1) PreparedMemory by (auto simp: cache_insert_def Let_def split: option.splits)
  ultimately show ?thesis using PreparedMemory by (simp add: cache_rows_insert)
next
  case (PreparedLibsql t)
  then obtain t' where t': "libsql_insert net e t = (r, t')" "p' = PreparedLibsql t'" using assms(3) by (auto simp: apsnd_eq_iff)
  show ?thesis
  proof (cases r)
    case (Inl x)
    then have "t' = t" using t'(1) libsql_insert_Err by blast
    then show ?thesis using t'(2) assms(1) PreparedLibsql by simp
  next
    case (Inr u)
    then obtain n where "upsert_prepared (pe_payment_id e) (encode_row e) t = (Ok n, t')" "fits_i64 (pe_expires_at_unix_seconds e)"
      using t'(1) libsql_insert_Ok by blast
    then have "prepared_inv t' \<and> t' = hm_insert (pe_payment_id e) (encode_row e) t"
      using upsert_inv [OF _ row_ok_encode] assms(1) PreparedLibsql by (metis shared_prepared_ok.simps(2))
    then show ?thesis using prepared_rows_insert [OF assms(2)] t'(2) PreparedLibsql by auto
  qed
qed

lemma shared_remove:
  assumes "shared_prepared_ok p" "pts_remove (AnyPrepared b64 net) pid p = (r, p')"
  shows "shared_prepared_ok p' \<and> any_prepared_rows b64 p' \<subseteq>\<^sub>m any_prepared_rows b64 p"
proof (cases p)
  case (PreparedMemory c)
  then have "p' = PreparedMemory (snd (cache_remove pid c))" using assms(2) by (auto simp: apsnd_eq_iff)
  moreover have "hm_wf (by_payment_id (snd (cache_remove pid c)))"
    using assms(1) PreparedMemory by (auto simp: cache_remove_def Let_def split: option.splits)
  ultimately show ?thesis using PreparedMemory by (simp add: cache_rows_remove map_le_def)
next
  case (PreparedLibsql t)
  then obtain t' where "libsql_remove b64 net pid t = (r, t')" "p' = PreparedLibsql t'" using assms(2) by (auto simp: apsnd_eq_iff)
  then show ?thesis using assms(1) PreparedLibsql libsql_remove_Err [of b64 net pid t _ t'] libsql_remove_Ok [of t b64 net pid _ t']
    by (cases r) (auto simp: map_le_def)
qed

lemma shared_sweep:
  assumes "shared_prepared_ok p" "pts_sweep_expired (AnyPrepared b64 net) now p = (r, p')"
  shows "shared_prepared_ok p' \<and> any_prepared_rows b64 p' \<subseteq>\<^sub>m any_prepared_rows b64 p"
proof (cases p)
  case (PreparedMemory c)
  then have "p' = PreparedMemory (snd (cache_sweep_expired now c))" using assms(2) by (auto simp: apsnd_eq_iff)
  then show ?thesis using assms(1) PreparedMemory
    by (auto simp: cache_sweep_expired_def Let_def cache_rows_def map_le_def hm_simps split: option.splits if_splits)
next
  case (PreparedLibsql t)
  then obtain t' where "libsql_sweep_expired net now t = (r, t')" "p' = PreparedLibsql t'" using assms(2) by (auto simp: apsnd_eq_iff)
  then show ?thesis using assms(1) PreparedLibsql libsql.sweep_ok [of t b64 net now _ t', simplified] libsql.sweep_err [of b64 net now t _ t', simplified]
    by (cases r) (auto simp: map_le_def unexpired_def split: option.splits if_splits)
qed


subsection \<open>The invariant of all interleavings\<close>

text \<open>What a ledger row takes over from its preparation.\<close>

definition backed :: "PreparedTxEntry \<Rightarrow> SettlementLedgerEntry \<Rightarrow> bool" where
  "backed prepared e \<longleftrightarrow> le_payee_id e = pe_payee_id prepared \<and> le_amount_zat e = pe_amount_zat prepared
     \<and> le_expiry_height e = Some (pr_expiry_height (pe_preparation prepared))"

lemma backed_same_payment: "backed prepared e \<Longrightarrow> same_payment e e' \<Longrightarrow> backed prepared e'"
  by (simp add: backed_def same_payment_def)

lemma backed_settle_entry [simp]: "backed prepared (settle_entry now prepared outcome)"
  by (simp add: backed_def settle_entry_def)

text \<open>\<open>issued pid prepared\<close>: the row was issued for the payment; \<open>past pid\<close>: the record of a payment that was consumed
  before the requests at hand arrived.\<close>

definition shared_ok ::
  "(bytes \<Rightarrow> string) \<Rightarrow> (PaymentId \<Rightarrow> PreparedTxEntry \<Rightarrow> bool) \<Rightarrow> (PaymentId \<Rightarrow> SettlementLedgerEntry option)
    \<Rightarrow> ('c, 'h, 's) shared \<Rightarrow> bool" where
  "shared_ok b64 issued past st \<longleftrightarrow> shared_prepared_ok (st_prepared st) \<and> any_ledger_inv (st_ledger st)
     \<and> (\<forall>pid prepared. any_prepared_rows b64 (st_prepared st) pid = Some prepared \<longrightarrow> issued pid prepared \<and> past pid = None)
     \<and> (\<forall>pid e. any_ledger_rows (st_ledger st) pid = Some e \<longrightarrow> (\<exists>prepared. issued pid prepared \<and> backed prepared e))
     \<and> (\<forall>pid e. past pid = Some e \<longrightarrow> (\<exists>e'. any_ledger_rows (st_ledger st) pid = Some e' \<and> same_payment e e'))"

lemma shared_ok_frame:
  "shared_ok b64 issued past st \<Longrightarrow> st_prepared st' = st_prepared st \<Longrightarrow> st_ledger st' = st_ledger st
    \<Longrightarrow> shared_ok b64 issued past st'"
  by (simp add: shared_ok_def)

lemma shared_ok_row:
  assumes "shared_ok b64 issued past st" "pts_find_by_payment_id (AnyPrepared b64 net) pid (st_prepared st) = Ok (Some prepared)"
  shows "issued pid prepared \<and> past pid = None"
proof -
  have "any_prepared_rows b64 (st_prepared st) pid = Some prepared" using shared_find [OF assms(2)] by simp
  then show ?thesis using assms(1) by (simp add: shared_ok_def)
qed

lemma shared_ok_fewer:
  assumes "shared_ok b64 issued past st" "shared_prepared_ok p" "any_prepared_rows b64 p \<subseteq>\<^sub>m any_prepared_rows b64 (st_prepared st)"
  shows "shared_ok b64 issued past (st\<lparr>st_prepared := p\<rparr>)"
proof -
  have "any_prepared_rows b64 (st_prepared st) pid = Some x" if "any_prepared_rows b64 p pid = Some x" for pid x
    using assms(3) that by (metis domI map_le_def)
  then show ?thesis using assms(1,2) by (simp add: shared_ok_def)
qed

lemma shared_ok_record:
  assumes "shared_ok b64 issued past st" "issued pid prepared" "past pid = None" "backed prepared e" "entry_fits fits_i64 e"
    and "sl_record (AnyLedger net now) pid e (st_ledger st) = (r, l)"
  shows "shared_ok b64 issued past (st\<lparr>st_ledger := l\<rparr>)"
proof -
  have inv: "any_ledger_inv (st_ledger st)" using assms(1) by (simp add: shared_ok_def)
  show ?thesis
  proof (cases r)
    case (Inl x)
    then have "l = st_ledger st" using assms(6) any_ledger.record_err by blast
    then show ?thesis using assms(1) by simp
  next
    case (Inr u)
    then have "any_ledger_inv l \<and> any_ledger_rows l = (any_ledger_rows (st_ledger st))(pid \<mapsto> e)"
      using any_ledger.record_ok [OF inv assms(5)] assms(6) by blast
    then show ?thesis using assms(1-4) by (auto simp: shared_ok_def)
  qed
qed

lemma shared_ok_relabel:
  assumes "shared_ok b64 issued past st" "any_ledger_inv l"
    and "\<And>pid. any_ledger_rows l pid = any_ledger_rows (st_ledger st) pid \<or>
      (\<exists>e e'. any_ledger_rows (st_ledger st) pid = Some e \<and> any_ledger_rows l pid = Some e' \<and> same_payment e e')"
  shows "shared_ok b64 issued past (st\<lparr>st_ledger := l\<rparr>)"
proof -
  have backs: "\<And>pid e. any_ledger_rows (st_ledger st) pid = Some e \<Longrightarrow> \<exists>prepared. issued pid prepared \<and> backed prepared e"
    and pasts: "\<And>pid e. past pid = Some e \<Longrightarrow> \<exists>e'. any_ledger_rows (st_ledger st) pid = Some e' \<and> same_payment e e'"
    using assms(1) by (simp_all add: shared_ok_def)
  have "\<exists>prepared. issued pid prepared \<and> backed prepared e'" if e': "any_ledger_rows l pid = Some e'" for pid e'
  proof -
    obtain e where e: "any_ledger_rows (st_ledger st) pid = Some e" "same_payment e e'"
      using assms(3) [of pid] e' same_payment_refl by fastforce
    then show ?thesis using backs [OF e(1)] backed_same_payment by blast
  qed
  moreover have "\<exists>e'. any_ledger_rows l pid = Some e' \<and> same_payment e0 e'" if past: "past pid = Some e0" for pid e0
  proof -
    obtain e where e: "any_ledger_rows (st_ledger st) pid = Some e" "same_payment e0 e" using pasts [OF past] by blast
    then obtain e' where "any_ledger_rows l pid = Some e'" "same_payment e e'"
      using assms(3) [of pid] same_payment_refl by fastforce
    then show ?thesis using e(2) same_payment_trans by blast
  qed
  ultimately show ?thesis using assms(1,2) by (simp add: shared_ok_def)
qed


lemma shared_ok_mapped:
  assumes "shared_ok b64 issued past st"
    and "any_ledger_inv l \<and> (\<forall>q. any_ledger_rows l q = any_ledger_rows (st_ledger st) q
      \<or> any_ledger_rows l q = map_option f (any_ledger_rows (st_ledger st) q))"
    and "\<And>e. same_payment e (f e)"
  shows "shared_ok b64 issued past (st\<lparr>st_ledger := l\<rparr>)"
proof (rule shared_ok_relabel [OF assms(1)])
  fix pid
  have "any_ledger_rows l pid = any_ledger_rows (st_ledger st) pid
      \<or> any_ledger_rows l pid = map_option f (any_ledger_rows (st_ledger st) pid)" using assms(2) by blast
  then show "any_ledger_rows l pid = any_ledger_rows (st_ledger st) pid \<or>
      (\<exists>e e'. any_ledger_rows (st_ledger st) pid = Some e \<and> any_ledger_rows l pid = Some e' \<and> same_payment e e')"
    using assms(3) by (cases "any_ledger_rows (st_ledger st) pid") auto
qed (use assms(2) in blast)

subsection \<open>Every request keeps it\<close>

text \<open>The collaborators of a request: at each call the backends over that call's transport, and the answers of the chain plane.\<close>

definition collaborators ::
  "(AnyPreparedTxStore, AnySettlementLedgerStore, 'c, 'h, 'r) Facilitator
    \<Rightarrow> (nat \<Rightarrow> (AnyPreparedTxStore, AnySettlementLedgerStore, 'c, 'h, 'r) Facilitator) \<Rightarrow> bool" where
  "collaborators A A' \<longleftrightarrow> (\<forall>k. \<exists>net net' now C tip. A' k = facing A net net' now C tip)"

lemma collaboratorsD:
  assumes "collaborators A A'"
  shows "\<exists>net. fa_prepared_store (A' k) = AnyPrepared (fa_b64_encode A) net" "\<exists>net now. fa_ledger (A' k) = AnyLedger net now"
    "fa_b64_encode (A' k) = fa_b64_encode A" "fa_payees (A' k) = fa_payees A" "fa_sha256 (A' k) = fa_sha256 A"
proof -
  obtain net net' now C tip where "A' k = facing A net net' now C tip" using assms unfolding collaborators_def by metis
  then show "\<exists>net. fa_prepared_store (A' k) = AnyPrepared (fa_b64_encode A) net" "\<exists>net now. fa_ledger (A' k) = AnyLedger net now"
    "fa_b64_encode (A' k) = fa_b64_encode A" "fa_payees (A' k) = fa_payees A" "fa_sha256 (A' k) = fa_sha256 A"
    by (auto simp: facing_def)
qed

inductive request_task ::
  "(AnyPreparedTxStore, AnySettlementLedgerStore, 'c, 'h, 'r) Facilitator \<Rightarrow> ('json, 'key, 'url, 's) DpopGate
    \<Rightarrow> ('a, 'x) PcztLib \<Rightarrow> (PaymentId \<Rightarrow> bool) \<Rightarrow> (('c, 'h, 's) shared, Response) task \<Rightarrow> bool"
  for A G Z fresh where
  settling: "collaborators A A' \<Longrightarrow> request_task A G Z fresh (settle_task A' G clock path headers body)"
| x402_settling: "collaborators A A' \<Longrightarrow> request_task A G Z fresh (x402_settle_task A' Z clock headers peer request)"
| preparing: "collaborators A A' \<Longrightarrow> fresh fresh_id \<Longrightarrow> request_task A G Z fresh (prepare_task A' G fresh_id clock path headers rq)"

text \<open>The store writes of the sweeper, the confirmation poll and the reorg handler, each on its own; everything else that runs
  beside the requests leaves both stores alone.\<close>

inductive background ::
  "(AnyPreparedTxStore, AnySettlementLedgerStore, 'c, 'h, 'r) Facilitator \<Rightarrow> ('c, 'h, 's) shared \<Rightarrow> ('c, 'h, 's) shared \<Rightarrow> bool"
  for A where
  swept: "pts_sweep_expired (AnyPrepared (fa_b64_encode A) net) now (st_prepared st) = (r, p) \<Longrightarrow> background A st (st\<lparr>st_prepared := p\<rparr>)"
| confirmed: "sl_record_confirmation (AnyLedger net now) pid count height (st_ledger st) = (r', l) \<Longrightarrow> pred_option fits_i64 height
    \<Longrightarrow> background A st (st\<lparr>st_ledger := l\<rparr>)"
| downgraded: "sl_downgrade_on_reorg (AnyLedger net now) pid at (st_ledger st) = (r', l) \<Longrightarrow> background A st (st\<lparr>st_ledger := l\<rparr>)"
| reverted: "sl_downgrade_reorged_range (AnyLedger net now) lo hi at (st_ledger st) = (ids, l) \<Longrightarrow> fits_i64 lo \<Longrightarrow> fits_i64 hi
    \<Longrightarrow> background A st (st\<lparr>st_ledger := l\<rparr>)"
| elsewhere: "st_prepared st' = st_prepared st \<Longrightarrow> st_ledger st' = st_ledger st \<Longrightarrow> background A st st'"

lemma background_keeps:
  assumes "background A st st'" "shared_ok (fa_b64_encode A) issued past st"
  shows "shared_ok (fa_b64_encode A) issued past st'"
proof -
  have inv: "any_ledger_inv (st_ledger st)" "shared_prepared_ok (st_prepared st)" using assms(2) by (simp_all add: shared_ok_def)
  from assms(1) show ?thesis
  proof cases
    case (swept net now r p)
    then show ?thesis using shared_ok_fewer [OF assms(2)] shared_sweep [OF inv(2)] by blast
  next
    case (confirmed net now pid count height r' l)
    have "any_ledger_inv l \<and> (\<forall>q. any_ledger_rows l q = any_ledger_rows (st_ledger st) q
        \<or> any_ledger_rows l q = map_option (confirm_entry count height) (any_ledger_rows (st_ledger st) q))"
      using confirmed(2) any_ledger.confirm_ok [OF inv(1) confirmed(3), of net now pid count _ l]
        any_ledger.confirm_err [of net now pid count height "st_ledger st" _ l] inv(1) by (cases r') auto
    then show ?thesis unfolding confirmed(1) by (rule shared_ok_mapped [OF assms(2)]) simp
  next
    case (downgraded net now pid at r' l)
    have "any_ledger_inv l \<and> (\<forall>q. any_ledger_rows l q = any_ledger_rows (st_ledger st) q
        \<or> any_ledger_rows l q = map_option (downgrade_if_mined at) (any_ledger_rows (st_ledger st) q))"
      using downgraded(2) any_ledger.downgrade_ok [OF inv(1), of net now pid at _ l]
        any_ledger.downgrade_err [of net now pid at "st_ledger st" _ l] inv(1) by (cases r') auto
    then show ?thesis unfolding downgraded(1) by (rule shared_ok_mapped [OF assms(2)]) simp
  next
    case (reverted net now lo hi at ids l)
    have "any_ledger_inv l \<and> (\<forall>q. any_ledger_rows l q = any_ledger_rows (st_ledger st) q
        \<or> any_ledger_rows l q = map_option (downgrade_in_range lo hi at) (any_ledger_rows (st_ledger st) q))"
      using reverted(2) any_ledger.range_ok [OF inv(1) reverted(3,4), of net now at _ l]
        any_ledger.range_err [of net now lo hi at "st_ledger st" _ l] inv(1) by (cases ids) auto
    then show ?thesis unfolding reverted(1) by (rule shared_ok_mapped [OF assms(2)]) simp
  qed (use shared_ok_frame [OF assms(2)] in blast)
qed


subsection \<open>The background tasks are sequences of their store writes\<close>

lemma background_confirm:
  assumes "pred_option fits_i64 height"
  shows "background A (st\<lparr>st_ledger := l\<rparr>) (st\<lparr>st_ledger := snd (sl_record_confirmation (AnyLedger net now) pid count height l)\<rparr>)"
proof -
  obtain r l' where r: "sl_record_confirmation (AnyLedger net now) pid count height l = (r, l')" by fastforce
  have "background A (st\<lparr>st_ledger := l\<rparr>) (st\<lparr>st_ledger := l\<rparr>\<lparr>st_ledger := l'\<rparr>)"
    by (rule background.confirmed [OF _ assms]) (use r in simp)
  then show ?thesis using r by simp
qed

lemma background_downgrade:
  "background A (st\<lparr>st_ledger := l\<rparr>) (st\<lparr>st_ledger := downgrade_reorged_row (AnyLedger net now) clock row l\<rparr>)"
proof -
  obtain r l' where r: "sl_downgrade_on_reorg (AnyLedger net now) (sk_payment_id row) (now_unix_seconds_i64 clock) l = (r, l')" by fastforce
  have "background A (st\<lparr>st_ledger := l\<rparr>) (st\<lparr>st_ledger := l\<rparr>\<lparr>st_ledger := l'\<rparr>)"
    by (rule background.downgraded) (use r in simp)
  then show ?thesis using r by (simp add: downgrade_reorged_row_def)
qed

lemma background_row:
  assumes "oracle_fits fits_i64 oracle"
  shows "background A (st\<lparr>st_ledger := l\<rparr>) (st\<lparr>st_ledger := reconcile_unsettled_row oracle (AnyLedger net now) clock row l\<rparr>)"
proof -
  have "pred_option fits_i64 (Some h)" if "co_fetch_confirmations oracle txid = Ok (Mined h c)" for txid h c
    using assms that by (auto simp: oracle_fits_def)
  moreover have "background A (st\<lparr>st_ledger := l\<rparr>) (st\<lparr>st_ledger := l\<rparr>)" by (rule background.elsewhere) simp_all
  ultimately show ?thesis unfolding reconcile_unsettled_row_def
    by (auto split: sum.split ConfirmationOutcome.split simp del: AnyLedger_ops intro: background_downgrade intro!: background_confirm)
qed

lemma background_rows:
  assumes "oracle_fits fits_i64 oracle" "reconcile_rows B oracle P (AnyLedger net now) clock view depth p rows (l, hub) = (l', hub')"
  shows "(background A)\<^sup>*\<^sup>* (st\<lparr>st_ledger := l\<rparr>) (st\<lparr>st_ledger := l'\<rparr>)"
  using assms(2)
proof (induction rows arbitrary: l hub)
  case (Cons row rows)
  let ?l1 = "if \<not> row_settled view row then reconcile_unsettled_row oracle (AnyLedger net now) clock row l else l"
  obtain hub1 where "reconcile_rows B oracle P (AnyLedger net now) clock view depth p rows (?l1, hub1) = (l', hub')"
    using Cons.prems unfolding reconcile_rows.simps Let_def by blast
  then have "(background A)\<^sup>*\<^sup>* (st\<lparr>st_ledger := ?l1\<rparr>) (st\<lparr>st_ledger := l'\<rparr>)" by (rule Cons.IH)
  moreover have "background A (st\<lparr>st_ledger := l\<rparr>) (st\<lparr>st_ledger := ?l1\<rparr>)"
    using background_row [OF assms(1), where A = A and st = st and l = l and row = row and net = net and now = now and clock = clock] background.elsewhere [of "st\<lparr>st_ledger := l\<rparr>" "st\<lparr>st_ledger := l\<rparr>" A] by simp
  ultimately show ?case by (rule converse_rtranclp_into_rtranclp [rotated])
qed simp

lemma background_poll:
  assumes "poll_oracle_once B oracle P (AnyLedger net now) wall depth p (st_ledger st, st_events st, st_chain_status st) = (l, hub, cache)"
    and "oracle_fits fits_i64 oracle"
  shows "(background A)\<^sup>*\<^sup>* st (st\<lparr>st_ledger := l, st_events := hub, st_chain_status := cache\<rparr>)"
proof -
  have "l = st_ledger st \<or> (\<exists>view rows hub'. reconcile_rows B oracle P (AnyLedger net now) wall view depth p rows (st_ledger st, st_events st)
      = (l, hub'))"
    using assms(1) by (auto simp: poll_oracle_once_def Let_def split: prod.splits sum.splits)
  then have "(background A)\<^sup>*\<^sup>* (st\<lparr>st_ledger := st_ledger st\<rparr>) (st\<lparr>st_ledger := l\<rparr>)"
  proof (elim disjE exE)
    fix view rows hub' assume "reconcile_rows B oracle P (AnyLedger net now) wall view depth p rows (st_ledger st, st_events st) = (l, hub')"
    then show ?thesis by (rule background_rows [OF assms(2)])
  qed simp
  then have "(background A)\<^sup>*\<^sup>* st (st\<lparr>st_ledger := l\<rparr>)" by simp
  moreover have "background A (st\<lparr>st_ledger := l\<rparr>) (st\<lparr>st_ledger := l, st_events := hub, st_chain_status := cache\<rparr>)"
    by (rule background.elsewhere) simp_all
  ultimately show ?thesis by (rule rtranclp.rtrancl_into_rtrancl)
qed

lemma background_reorg:
  assumes "handle_reorg B P (AnyLedger net now) wall depth p lo hi (st_ledger st, st_events st, st_chain_status st) = (l, hub, cache)"
    and "fits_i64 lo" "fits_i64 hi"
  shows "(background A)\<^sup>*\<^sup>* st (st\<lparr>st_ledger := l, st_events := hub, st_chain_status := cache\<rparr>)"
proof -
  obtain r where "sl_downgrade_reorged_range (AnyLedger net now) lo hi (now_unix_seconds_i64 wall) (st_ledger st) = (r, l)"
    using assms(1) by (auto simp: handle_reorg_def Let_def split: prod.splits sum.splits if_splits)
  then have "background A st (st\<lparr>st_ledger := l\<rparr>)" by (rule background.reverted [OF _ assms(2,3)])
  moreover have "background A (st\<lparr>st_ledger := l\<rparr>) (st\<lparr>st_ledger := l, st_events := hub, st_chain_status := cache\<rparr>)"
    by (rule background.elsewhere) simp_all
  ultimately show ?thesis by (meson rtranclp.rtrancl_into_rtrancl rtranclp.rtrancl_refl)
qed

subsection \<open>The atomic runs are interleavings\<close>

lemma step_interleaves:
  assumes "facility_step A G Z st\<^sub>1 st\<^sub>2"
    and "interleaved (background A) (request_task A G Z (\<lambda>_. True)) [] st ts st\<^sub>1" "\<forall>t \<in> set ts. \<exists>r. t = Done r"
  shows "\<exists>ts'. interleaved (background A) (request_task A G Z (\<lambda>_. True)) [] st ts' st\<^sub>2 \<and> (\<forall>t \<in> set ts'. \<exists>r. t = Done r)"
proof -
  have same: "collaborators A (\<lambda>_. facing A net net' now C tip)" for net net' now C tip unfolding collaborators_def by blast
  have answered: "\<exists>ts'. interleaved (background A) (request_task A G Z (\<lambda>_. True)) [] st ts' st\<^sub>2 \<and> (\<forall>t \<in> set ts'. \<exists>r. t = Done r)"
    if "request_task A G Z (\<lambda>_. True) t" "run_alone t st\<^sub>1 = (resp, st\<^sub>2)" for t resp
    using interleaved_alone [OF assms(2) that] assms(3) by (intro exI [of _ "ts @ [Done resp]"]) auto
  have env: "\<exists>ts'. interleaved (background A) (request_task A G Z (\<lambda>_. True)) [] st ts' st\<^sub>2 \<and> (\<forall>t \<in> set ts'. \<exists>r. t = Done r)"
    if "(background A)\<^sup>*\<^sup>* st\<^sub>1 st\<^sub>2" using interleaved_env [OF that assms(2)] assms(3) by blast
  from assms(1) show ?thesis
  proof cases
    case (prepare net net' now C tip fresh_id clock path headers body resp)
    show ?thesis
      by (rule answered [OF request_task.preparing [OF same TrueI]]) (rule trans [OF prepare_task_alone prepare(1)])
  next
    case (settle net net' now C tip clock path headers body' resp)
    show ?thesis
      by (rule answered [OF request_task.settling [OF same]]) (rule trans [OF settle_task_alone settle(1)])
  next
    case (x402 net net' now C tip clock headers peer request resp)
    show ?thesis
      by (rule answered [OF request_task.x402_settling [OF same]]) (rule trans [OF x402_settle_task_alone x402(1)])
  next
    case (sweep net wall)
    obtain r p where "pts_sweep_expired (AnyPrepared (fa_b64_encode A) net) (now_unix_seconds wall) (st_prepared st\<^sub>1) = (r, p)" by fastforce
    then have "background A st\<^sub>1 st\<^sub>2" using background.swept [of A net _ st\<^sub>1 r p] sweep by (simp add: sweep_tick_def)
    then show ?thesis by (intro env r_into_rtranclp)
  next
    case (poll orc net net' now wall depth l hub cache)
    show ?thesis by (rule env) (use background_poll [OF poll(2,3)] poll(1) in simp)
  next
    case (reorg net net' now wall depth lo hi l hub cache)
    show ?thesis by (rule env) (use background_reorg [OF reorg(2-4)] reorg(1) in simp)
  qed
qed

text \<open>The atomic model is part of the concurrent one.  Every handler is its task run without interruption, and every run of
  the facilitator in which the requests, the sweep, the poll and the reorg handler take turns is an interleaving of tasks and
  background writes in which every request was answered.\<close>

theorem sequential_runs_interleave:
  assumes "facility_run A G Z st st'"
  shows "(\<exists>ts. interleaved (background A) (request_task A G Z (\<lambda>_. True)) [] st ts st' \<and> (\<forall>t \<in> set ts. \<exists>r. t = Done r))
    \<and> run_alone (settle_task (\<lambda>_. F) G (\<lambda>_. clock) path headers body) st = settle_handler F G clock path headers body st
    \<and> run_alone (x402_settle_task (\<lambda>_. F) Z (\<lambda>_. clock) headers peer request) st = x402_settle_handler F Z clock headers peer request st
    \<and> run_alone (prepare_task (\<lambda>_. F) G fresh_id (\<lambda>_. clock) path headers rq) st = prepare_handler F G fresh_id clock path headers rq st"
proof -
  have "\<exists>ts. interleaved (background A) (request_task A G Z (\<lambda>_. True)) [] st ts st' \<and> (\<forall>t \<in> set ts. \<exists>r. t = Done r)"
    using assms
  proof (induction rule: facility_run.induct)
    case (stay st)
    show ?case using interleaved.quiet by (intro exI [of _ "[]"]) auto
  next
    case (onward st st' st'')
    then show ?case using step_interleaves by blast
  qed
  then show ?thesis by (simp add: settle_task_alone x402_settle_task_alone prepare_task_alone)
qed

subsection \<open>Steady requests\<close>

lemma steady_frame:
  assumes "\<And>st a st'. action st = (a, st') \<Longrightarrow> st_prepared st' = st_prepared st \<and> st_ledger st' = st_ledger st"
    and "\<And>st a st'. shared_ok b64 issued past st \<Longrightarrow> action st = (a, st') \<Longrightarrow> steady (shared_ok b64 issued past) (k a)"
  shows "steady (shared_ok b64 issued past) (await action k)"
  using assms shared_ok_frame by (blast intro: steady_await)

lemma steady_accept:
  "(\<And>r. steady (shared_ok b64 issued past) (k r)) \<Longrightarrow> steady (shared_ok b64 issued past) (await_accept G clock path headers k)"
  unfolding await_accept_def by (rule steady_frame) (auto split: prod.splits)

lemma steady_publish:
  "steady (shared_ok b64 issued past) rest \<Longrightarrow> steady (shared_ok b64 issued past) (await_publish A clock pid rest)"
  unfolding await_publish_def by (rule steady_frame) auto

lemma steady_remove:
  "(\<And>r. steady (shared_ok b64 issued past) (k r))
    \<Longrightarrow> steady (shared_ok b64 issued past) (await_remove (AnyPrepared b64 net) pid k)"
  unfolding await_remove_def
proof (rule steady_await, intro conjI)
  fix st a st'
  assume ok: "shared_ok b64 issued past st"
    and "(case pts_remove (AnyPrepared b64 net) pid (st_prepared st) of (r, p) \<Rightarrow> (r, st\<lparr>st_prepared := p\<rparr>)) = (a, st')"
  then obtain p where "pts_remove (AnyPrepared b64 net) pid (st_prepared st) = (a, p)" "st' = st\<lparr>st_prepared := p\<rparr>"
    by (auto split: prod.splits)
  moreover have "shared_prepared_ok (st_prepared st)" using ok by (simp add: shared_ok_def)
  ultimately show "shared_ok b64 issued past st'" using shared_ok_fewer [OF ok] shared_remove by blast
qed

lemma steady_record:
  assumes "issued pid prepared" "past pid = None" "backed prepared e" "entry_fits fits_i64 e"
    and "\<And>r. steady (shared_ok b64 issued past) (k r)"
  shows "steady (shared_ok b64 issued past) (await_record (AnyLedger net now) pid e k)"
  unfolding await_record_def
proof (rule steady_await, intro conjI)
  fix st a st'
  assume ok: "shared_ok b64 issued past st"
    and "(case sl_record (AnyLedger net now) pid e (st_ledger st) of (r, l) \<Rightarrow> (r, st\<lparr>st_ledger := l\<rparr>)) = (a, st')"
  then obtain l where "sl_record (AnyLedger net now) pid e (st_ledger st) = (a, l)" "st' = st\<lparr>st_ledger := l\<rparr>"
    by (auto split: prod.splits)
  then show "shared_ok b64 issued past st'" using shared_ok_record [OF ok assms(1-4)] by blast
qed (rule assms(5))

text \<open>The rows issued in a run fit the ledger's columns.\<close>

lemma steady_settle:
  assumes A': "collaborators A A'" and fit: "\<And>pid prepared. issued pid prepared \<Longrightarrow> fits_i64 (pe_amount_zat prepared)"
  shows "steady (shared_ok (fa_b64_encode A) issued past) (settle_task A' G clock path headers body)"
proof -
  note store = collaboratorsD(1) [OF A'] collaboratorsD(2) [OF A']
  have recorded: "steady (shared_ok (fa_b64_encode A) issued past) (settle_submitted_task A' clock body prepared outcome)"
    if "issued (sr_payment_id body) prepared" "past (sr_payment_id body) = None" for prepared outcome
  proof -
    obtain net now where L: "fa_ledger (A' 3) = AnyLedger net now" using store(2) by blast
    obtain net' where P: "fa_prepared_store (A' 4) = AnyPrepared (fa_b64_encode A) net'" using store(1) by blast
    have "entry_fits fits_i64 (settle_entry t prepared outcome)" for t
      using fit [OF that(1)] by (simp add: entry_fits_def settle_entry_def)
    then show ?thesis unfolding settle_submitted_task_def settle_finish_task_def L P
      by (intro steady_record [where prepared = prepared and issued = issued and past = past, OF that])
         (auto split: sum.split intro!: steady.steady_Done steady_remove steady_publish)
  qed
  obtain net where P: "fa_prepared_store (A' 1) = AnyPrepared (fa_b64_encode A) net" using store(1) by blast
  have found: "issued (sr_payment_id body) prepared \<and> past (sr_payment_id body) = None"
    if "shared_ok (fa_b64_encode A) issued past st" "settle_gate (AnyPrepared (fa_b64_encode A) net) T body jkt (st_prepared st) = Ok prepared"
    for prepared st jkt T
    using shared_ok_row [OF that(1)] that(2) by (auto simp: settle_gate_Ok_iff)
  show ?thesis unfolding settle_task_def P
    by (intro steady_accept, split sum.split, intro conjI allI impI steady.steady_Done steady_frame)
       (auto split: sum.split prod.splits intro!: steady.steady_Done steady_frame recorded dest: found)
qed


lemma steady_x402_recorded:
  assumes A': "collaborators A A'" and "issued (px_payment_id q) prepared" "past (px_payment_id q) = None" "fits_i64 (pe_amount_zat prepared)"
    and q: "px_expiry_height q = pr_expiry_height (pe_preparation prepared)" "px_payee_id q = pe_payee_id prepared"
      "px_amount_zat q = pe_amount_zat prepared"
  shows "steady (shared_ok (fa_b64_encode A) issued past) (x402_recorded_task A' clock request q outcome ext)"
proof -
  obtain net now where L: "fa_ledger (A' 3) = AnyLedger net now" using collaboratorsD(2) [OF A'] by blast
  obtain net' where P: "fa_prepared_store (A' 4) = AnyPrepared (fa_b64_encode A) net'" using collaboratorsD(1) [OF A'] by blast
  have "entry_fits fits_i64 (x402_ledger_entry c q b)" "backed prepared (x402_ledger_entry c q b)" for c b
    using assms(4) q by (simp_all add: entry_fits_def x402_ledger_entry_def backed_def)
  then show ?thesis unfolding x402_recorded_task_def L P Let_def
    by (intro steady_record [where prepared = prepared and issued = issued and past = past, OF assms(2,3)])
       (auto split: sum.split intro!: steady.steady_Done steady_remove steady_publish)
qed

lemma steady_x402:
  assumes A': "collaborators A A'" and fit: "\<And>pid prepared. issued pid prepared \<Longrightarrow> fits_i64 (pe_amount_zat prepared)"
  shows "steady (shared_ok (fa_b64_encode A) issued past) (x402_settle_task A' Z clock headers peer request)"
proof -
  obtain net where P: "fa_prepared_store (A' 1) = AnyPrepared (fa_b64_encode A) net" using collaboratorsD(1) [OF A'] by blast
  have recorded: "steady (shared_ok (fa_b64_encode A) issued past) (x402_recorded_task A' clock request q outcome ext)"
    if ok: "shared_ok (fa_b64_encode A) issued past st" and g: "x402_settle_gate (A' 1) Z request (st_prepared st) = Ok (settlement, Some q, verified)"
    for st settlement q verified outcome ext
  proof -
    have f: "find_prepared_x402_settlement (AnyPrepared (fa_b64_encode A) net) request settlement (st_prepared st) = Ok (Some q)"
      using x402_settle_gate_Ok(4) [OF g] P by simp
    then obtain pid where "zpay_payment_id (fr_payment_requirements request) = Ok (Some pid)"
      by (auto simp: find_prepared_x402_settlement_def split: sum.splits option.splits)
    from find_prepared_Some [OF f this] obtain prepared where
      row: "pts_find_by_payment_id (AnyPrepared (fa_b64_encode A) net) pid (st_prepared st) = Ok (Some prepared)"
      and q: "q = \<lparr>px_payment_id = pid, px_expiry_height = pr_expiry_height (pe_preparation prepared),
                   px_payee_id = pe_payee_id prepared, px_amount_zat = pe_amount_zat prepared\<rparr>" by blast
    note * = shared_ok_row [OF ok row]
    show ?thesis by (rule steady_x402_recorded [OF A', of _ _ prepared]) (use * fit q in auto)
  qed
  show ?thesis unfolding x402_settle_task_def
    by (intro steady_frame)
       (auto split: sum.split option.split prod.splits intro!: steady.steady_Done steady_frame recorded simp: Let_def)
qed

lemma steady_propose_fresh:
  assumes A': "collaborators A A'" and "past fresh_id = None"
    and issues: "\<And>entry h now. resolve (fa_payees A) (rq_payee_id rq) (rq_scheme rq) (rq_network rq) = Some entry
      \<Longrightarrow> issued fresh_id (proposed_entry (fa_sha256 A) (fa_b64_encode A) fresh_id now rq jkt entry h)"
  shows "steady (shared_ok (fa_b64_encode A) issued past) (propose_fresh_task A' fresh_id clock rq jkt)"
proof -
  obtain net where P: "fa_prepared_store (A' 3) = AnyPrepared (fa_b64_encode A) net" using collaboratorsD(1) [OF A'] by blast
  have inserted: "shared_ok (fa_b64_encode A) issued past (st\<lparr>st_prepared := p\<rparr>)"
    if ok: "shared_ok (fa_b64_encode A) issued past st" and "registry_find (fa_payees A) (rq_payee_id rq) = Some es" "find (\<lambda>c. ae_scheme c = rq_scheme rq \<and> ae_network c = rq_network rq) es = Some entry"
      and ins: "any_insert net (proposed_entry (fa_sha256 A) (fa_b64_encode A) fresh_id now rq jkt entry h) (st_prepared st) = (r, p)"
    for st es entry now h r p
  proof -
    have "shared_prepared_ok (st_prepared st)" using ok by (simp add: shared_ok_def)
    note eff = shared_insert [OF this derived_proposed_entry, simplified, OF ins]
    then show ?thesis using ok assms(2) issues that(2,3) by (auto simp: shared_ok_def resolve_find split: if_splits)
  qed
  show ?thesis unfolding propose_fresh_task_def P collaboratorsD [OF A'] Let_def
    by (auto split: option.split sum.split prod.splits intro!: steady.steady_Done steady_frame steady_await)
       (erule (3) inserted)
qed

lemma steady_prepare:
  assumes A': "collaborators A A'" and "past fresh_id = None"
    and issues: "\<And>rq jkt entry h now. resolve (fa_payees A) (rq_payee_id rq) (rq_scheme rq) (rq_network rq) = Some entry
      \<Longrightarrow> issued fresh_id (proposed_entry (fa_sha256 A) (fa_b64_encode A) fresh_id now rq jkt entry h)"
  shows "steady (shared_ok (fa_b64_encode A) issued past) (prepare_task A' G fresh_id clock path headers rq)"
proof -
  have "steady (shared_ok (fa_b64_encode A) issued past) (propose_fresh_task A' fresh_id clock r jkt)" for r jkt
    by (rule steady_propose_fresh [where issued = issued and past = past, OF A' assms(2)]) (rule issues)
  then show ?thesis unfolding prepare_task_def Let_def
    by (intro steady_accept) (auto split: option.split sum.split prod.splits intro!: steady.steady_Done steady_frame)
qed

lemma steady_requests:
  assumes "request_task A G Z fresh t" and "\<And>pid. fresh pid \<Longrightarrow> past pid = None"
    and "\<And>pid prepared. issued pid prepared \<Longrightarrow> fits_i64 (pe_amount_zat prepared)"
    and "\<And>pid rq jkt entry h now. fresh pid \<Longrightarrow> resolve (fa_payees A) (rq_payee_id rq) (rq_scheme rq) (rq_network rq) = Some entry
      \<Longrightarrow> issued pid (proposed_entry (fa_sha256 A) (fa_b64_encode A) pid now rq jkt entry h)"
  shows "steady (shared_ok (fa_b64_encode A) issued past) t"
  using assms(1)
proof cases
  case (settling A' clock path headers body)
  show ?thesis unfolding settling(1) by (rule steady_settle [OF settling(2) assms(3)])
next
  case (x402_settling A' clock headers peer request)
  show ?thesis unfolding x402_settling(1) by (rule steady_x402 [OF x402_settling(2) assms(3)])
next
  case (preparing A' fresh_id clock path headers rq)
  show ?thesis unfolding preparing(1)
    by (rule steady_prepare [where issued = issued and past = past, OF preparing(2) assms(2) [OF preparing(3)]])
       (rule assms(4) [OF preparing(3)])
qed


subsection \<open>Overlapping requests\<close>

text \<open>The preparations of a run: those issued before it, and those a prepare request of the run composes from the operator's
  registry under a fresh id.\<close>

definition issued_in ::
  "(AnyPreparedTxStore, AnySettlementLedgerStore, 'c, 'h, 'r) Facilitator \<Rightarrow> (PaymentId \<Rightarrow> bool)
    \<Rightarrow> (PaymentId \<Rightarrow> PreparedTxEntry \<Rightarrow> bool) \<Rightarrow> PaymentId \<Rightarrow> PreparedTxEntry \<Rightarrow> bool" where
  "issued_in A fresh earlier pid prepared \<longleftrightarrow> earlier pid prepared \<or> (fresh pid \<and> (\<exists>rq jkt entry h now.
     resolve (fa_payees A) (rq_payee_id rq) (rq_scheme rq) (rq_network rq) = Some entry
     \<and> prepared = proposed_entry (fa_sha256 A) (fa_b64_encode A) pid now rq jkt entry h))"

lemma shared_ok_weaken:
  "shared_ok b64 earlier past st \<Longrightarrow> (\<And>pid prepared. earlier pid prepared \<Longrightarrow> issued pid prepared) \<Longrightarrow> shared_ok b64 issued past st"
  unfolding shared_ok_def by meson

lemma interleaved_shared_ok:
  assumes "interleaved (background A) (request_task A G Z fresh) [] st ts st'" "shared_ok (fa_b64_encode A) earlier past st"
    and "\<And>pid. fresh pid \<Longrightarrow> past pid = None" "\<And>pid prepared. earlier pid prepared \<Longrightarrow> fits_i64 (pe_amount_zat prepared)"
    and "registry_fits (fa_payees A)"
  shows "shared_ok (fa_b64_encode A) (issued_in A fresh earlier) past st'"
proof -
  have start: "shared_ok (fa_b64_encode A) (issued_in A fresh earlier) past st"
    by (rule shared_ok_weaken [OF assms(2)]) (simp add: issued_in_def)
  have steady: "steady (shared_ok (fa_b64_encode A) (issued_in A fresh earlier) past) t" if "request_task A G Z fresh t" for t
  proof (rule steady_requests [OF that assms(3)])
    show "fits_i64 (pe_amount_zat prepared)" if "issued_in A fresh earlier pid prepared" for pid prepared
      using that assms(4,5) by (auto simp: issued_in_def registry_fits_def)
    show "issued_in A fresh earlier pid (proposed_entry (fa_sha256 A) (fa_b64_encode A) pid now rq jkt entry h)"
      if "fresh pid" "resolve (fa_payees A) (rq_payee_id rq) (rq_scheme rq) (rq_network rq) = Some entry" for pid rq jkt entry h now
      using that unfolding issued_in_def by blast
  qed
  have "shared_ok (fa_b64_encode A) (issued_in A fresh earlier) past st'
      \<and> (\<forall>t \<in> set ts. steady (shared_ok (fa_b64_encode A) (issued_in A fresh earlier) past) t)"
    by (rule interleaved_invariant [where I = "shared_ok (fa_b64_encode A) (issued_in A fresh earlier) past", OF assms(1) start])
       (use steady background_keeps in auto)
  then show ?thesis by blast
qed

text \<open>[C4] Overlapping requests are sound.  However the store and chain calls of any number of prepare, settle and x402 requests
  and of the background tasks interleave, over either backend and under transport faults: every ledger
  row has the payee, the amount and the expiry height of a preparation that was issued for that payment, every
  prepared row was issued, a payment consumed before the requests arrived keeps its outcome, payee, amount and expiry and is
  never prepared again, and on libSQL no two live preparations share an agent and idempotency key.\<close>

theorem overlapping_requests_sound:
  assumes "interleaved (background A) (request_task A G Z fresh) [] st ts st'" "shared_ok (fa_b64_encode A) earlier past st"
    and "\<And>pid. fresh pid \<Longrightarrow> past pid = None" "\<And>pid prepared. earlier pid prepared \<Longrightarrow> fits_i64 (pe_amount_zat prepared)"
    and "registry_fits (fa_payees A)"
  shows "(\<forall>pid e. any_ledger_rows (st_ledger st') pid = Some e \<longrightarrow>
        (\<exists>prepared. issued_in A fresh earlier pid prepared \<and> backed prepared e))
    \<and> (\<forall>pid prepared. any_prepared_rows (fa_b64_encode A) (st_prepared st') pid = Some prepared \<longrightarrow>
        issued_in A fresh earlier pid prepared)
    \<and> (\<forall>pid e. past pid = Some e \<longrightarrow> any_prepared_rows (fa_b64_encode A) (st_prepared st') pid = None
        \<and> (\<exists>e'. any_ledger_rows (st_ledger st') pid = Some e' \<and> same_payment e e'))
    \<and> (\<forall>t. st_prepared st' = PreparedLibsql t \<longrightarrow> unique_keys t)"
proof -
  have ok: "shared_ok (fa_b64_encode A) (issued_in A fresh earlier) past st'" by (rule interleaved_shared_ok [OF assms])
  have "any_prepared_rows (fa_b64_encode A) (st_prepared st') pid = None" if "past pid = Some e" for pid e
    using ok that by (cases "any_prepared_rows (fa_b64_encode A) (st_prepared st') pid") (auto simp: shared_ok_def)
  moreover have "unique_keys t" if "st_prepared st' = PreparedLibsql t" for t using ok that by (simp add: shared_ok_def prepared_inv_def)
  ultimately show ?thesis using ok by (auto simp: shared_ok_def)
qed


subsection \<open>Two settlements of one payment\<close>

text \<open>Collaborators whose stores answer: no transport fault, any clock, chain and tip.\<close>

definition undisturbed ::
  "(AnyPreparedTxStore, AnySettlementLedgerStore, 'c, 'h, 'r) Facilitator
    \<Rightarrow> (nat \<Rightarrow> (AnyPreparedTxStore, AnySettlementLedgerStore, 'c, 'h, 'r) Facilitator) \<Rightarrow> bool" where
  "undisturbed A A' \<longleftrightarrow> (\<forall>k. \<exists>now C tip. A' k = facing A (\<lambda>_. None) (\<lambda>_. None) now C tip)"

lemma undisturbed_collaborators: "undisturbed A A' \<Longrightarrow> collaborators A A'"
  unfolding undisturbed_def collaborators_def by blast

lemma undisturbedD:
  assumes "undisturbed A A'"
  shows "fa_prepared_store (A' k) = AnyPrepared (fa_b64_encode A) (\<lambda>_. None)" "\<exists>now. fa_ledger (A' k) = AnyLedger (\<lambda>_. None) now"
proof -
  obtain now C tip where "A' k = facing A (\<lambda>_. None) (\<lambda>_. None) now C tip" using assms unfolding undisturbed_def by blast
  then show "fa_prepared_store (A' k) = AnyPrepared (fa_b64_encode A) (\<lambda>_. None)"
    "\<exists>now. fa_ledger (A' k) = AnyLedger (\<lambda>_. None) now" by auto
qed

lemma record_answers: "\<exists>l'. any_record (\<lambda>_. None) pid e l = (Ok (), l')"
  by (cases l) (simp_all add: ledger_record_def libsql_record_def execute_def attempt_def map_store_error_def)

lemma remove_answers:
  assumes "any_prepared_rows b64 p pid = Some e"
  shows "\<exists>x p'. any_remove b64 (\<lambda>_. None) pid p = (Ok x, p')"
proof (cases p)
  case (PreparedMemory c)
  then show ?thesis by (simp add: cache_remove_def Let_def)
next
  case (PreparedLibsql t)
  then have "libsql_find_by_payment_id b64 (\<lambda>_. None) pid t = Ok (Some e)"
    using assms by (auto simp: libsql_find_by_payment_id_def fetch_rows_def query_def execute_def attempt_def read_row_def
        find_key_row prepared_rows_def split: option.splits sum.splits)
  then show ?thesis using PreparedLibsql
    by (simp add: libsql_remove_def execute_def attempt_def map_store_error_def)
qed

lemma publish_frame: "\<exists>ev. publish_status A clock pid st = st\<lparr>st_events := ev\<rparr>"
  by (cases "status_of A clock pid st") (auto simp: publish_status_def intro: exI [of _ "st_events st"])

text \<open>What is left of an x402 request after its broadcast, run without interruption.\<close>

lemma recorded_alone:
  assumes A': "undisturbed A A'" and inv: "any_prepared_inv (st_prepared st)" "any_ledger_inv (st_ledger st)"
    and fit: "fits_i64 (px_amount_zat q)"
    and row: "is_success (po_broadcast_outcome o') \<Longrightarrow> any_prepared_rows (fa_b64_encode A) (st_prepared st) (px_payment_id q) = Some e"
  shows "\<exists>st'. run_alone (x402_recorded_task A' clock request q o' ext) st = (x402_settle_success_response (A' 5) request o' ext, st')
    \<and> st_chain st' = st_chain st \<and> any_prepared_inv (st_prepared st') \<and> any_ledger_inv (st_ledger st')
    \<and> any_ledger_rows (st_ledger st') =
        (any_ledger_rows (st_ledger st))(px_payment_id q \<mapsto> x402_ledger_entry (clock 3) q (po_broadcast_outcome o'))
    \<and> any_prepared_rows (fa_b64_encode A) (st_prepared st') =
        (if is_success (po_broadcast_outcome o') then (any_prepared_rows (fa_b64_encode A) (st_prepared st))(px_payment_id q := None)
         else any_prepared_rows (fa_b64_encode A) (st_prepared st))"
proof -
  let ?e = "x402_ledger_entry (clock 3) q (po_broadcast_outcome o')"
  have "entry_fits fits_i64 ?e" using fit by (simp add: entry_fits_def x402_ledger_entry_def)
  obtain l where rec: "any_record (\<lambda>_. None) (px_payment_id q) ?e (st_ledger st) = (Ok (), l)" using record_answers by blast
  then have led: "any_ledger_inv l" "any_ledger_rows l = (any_ledger_rows (st_ledger st))(px_payment_id q \<mapsto> ?e)"
    using any_ledger.record_ok [OF inv(2) \<open>entry_fits fits_i64 ?e\<close>] by simp_all
  obtain now where stores: "fa_ledger (A' 3) = AnyLedger (\<lambda>_. None) now"
    "fa_prepared_store (A' 4) = AnyPrepared (fa_b64_encode A) (\<lambda>_. None)" using undisturbedD [OF A'] by blast
  show ?thesis
  proof (cases "is_success (po_broadcast_outcome o')")
    case True
    then obtain x p where rm: "any_remove (fa_b64_encode A) (\<lambda>_. None) (px_payment_id q) (st_prepared st) = (Ok x, p)"
      using remove_answers [OF row] by blast
    then have "any_prepared_inv p" "any_prepared_rows (fa_b64_encode A) p =
        (any_prepared_rows (fa_b64_encode A) (st_prepared st))(px_payment_id q := None)"
      using any_prepared.remove_ok [OF inv(1)] by simp_all
    moreover obtain ev where "publish_status (A' 5) (clock 5) (px_payment_id q) (st\<lparr>st_ledger := l, st_prepared := p\<rparr>)
        = st\<lparr>st_ledger := l, st_prepared := p, st_events := ev\<rparr>" using publish_frame by blast
    ultimately show ?thesis using True rec rm stores led
      by (simp add: x402_recorded_task_def await_record_def await_remove_def await_publish_def Let_def)
  next
    case False
    obtain ev where "publish_status (A' 5) (clock 5) (px_payment_id q) (st\<lparr>st_ledger := l\<rparr>)
        = st\<lparr>st_ledger := l, st_events := ev\<rparr>" using publish_frame by blast
    then show ?thesis using False rec stores led inv(1)
      by (simp add: x402_recorded_task_def await_record_def await_publish_def Let_def)
  qed
qed

text \<open>An x402 request whose checks pass and whose broadcast is answered, as its first three calls and the rest.\<close>

definition ready_to_settle ::
  "(nat \<Rightarrow> ('p, 'l, 'c, 'h, 'r) Facilitator) \<Rightarrow> ('a, 'x) PcztLib \<Rightarrow> (nat \<Rightarrow> Clock) \<Rightarrow> HeaderMap \<Rightarrow> string option
    \<Rightarrow> FacilitatorRequest \<Rightarrow> PreparedX402Settlement \<Rightarrow> PcztSettlementOutcome \<Rightarrow> 'p \<Rightarrow> 'c \<Rightarrow> 'c \<Rightarrow> RateLimiter \<Rightarrow> RateLimiter \<Rightarrow> bool" where
  "ready_to_settle A Z clock headers peer request q outcome p c c' l l' \<longleftrightarrow>
     ip_rate_limit (fa_parse_ip (A 0)) (fa_trust_forwarded_headers (A 0)) (clock 0) headers peer l = (None, l')
     \<and> (\<exists>settlement verified. x402_settle_gate (A 1) Z request p = Ok (settlement, Some q, verified)
         \<and> broadcast_verified_pczt_settlement Z (fa_chain (A 2)) settlement verified c = (Ok outcome, c'))"

definition linked_extensions :: "FacilitatorRequest \<Rightarrow> PreparedX402Settlement \<Rightarrow> PcztSettlementOutcome \<Rightarrow> Json btree" where
  "linked_extensions request q outcome = bt_insert ZPAY_PAYMENT_ID_EXTENSION (JString (px_payment_id q))
     (bt_insert ''expiryHeight'' (JNumber (dec_str (unat (po_expiry_height outcome)))) (response_extensions request))"

lemma both_broadcast:
  assumes "ready_to_settle A1 Z clock1 headers1 peer1 rq1 q1 o1 (st_prepared st) (st_chain st) c1 (st_limiter st) l1"
    and "ready_to_settle A2 Z clock2 headers2 peer2 rq2 q2 o2 (st_prepared st) c1 c2 l1 l2"
  shows "schedule [0, 1, 0, 1, 0, 1]
      [x402_settle_task A1 Z clock1 headers1 peer1 rq1, x402_settle_task A2 Z clock2 headers2 peer2 rq2] st =
    ([x402_recorded_task A1 clock1 rq1 q1 o1 (linked_extensions rq1 q1 o1),
      x402_recorded_task A2 clock2 rq2 q2 o2 (linked_extensions rq2 q2 o2)], st\<lparr>st_limiter := l2, st_chain := c2\<rparr>)"
  using assms by (auto simp: ready_to_settle_def x402_settle_task_def linked_extensions_def Let_def)

text \<open>[C6] Two settlements of one payment race.  Take any facilitator with well-formed stores of either backend that answer, and
  two x402 requests that name the same prepared payment, pass their checks and the rate limit, and of which the chain takes the
  first transaction and does not take the second, as a double spend.  Since no step of a settlement checks that the payment is
  still open once its row was read, the requests can be interleaved so that both broadcast, and it then depends on the order of
  the remaining calls alone what is recorded: in one run the ledger ends with the accepted outcome, in another
  with the failed one.  In both the first payer is told success, the second failure, the preparation is gone, and both transactions
  have been submitted.\<close>

theorem overlapping_settlements_race:
  assumes "facility_ok (fa_b64_encode A) st" "undisturbed A A1" "undisturbed A A2"
    and "ready_to_settle A1 Z clock1 headers1 peer1 rq1 q1 o1 (st_prepared st) (st_chain st) c1 (st_limiter st) l1"
    and "ready_to_settle A2 Z clock2 headers2 peer2 rq2 q2 o2 (st_prepared st) c1 c2 l1 l2"
    and "px_payment_id q1 = pid" "px_payment_id q2 = pid"
    and "is_success (po_broadcast_outcome o1)" "\<not> is_success (po_broadcast_outcome o2)"
    and "r1 = x402_settle_success_response (A1 5) rq1 o1 (linked_extensions rq1 q1 o1)"
    and "r2 = x402_settle_success_response (A2 5) rq2 o2 (linked_extensions rq2 q2 o2)"
  shows "(\<exists>st'. interleaved (background A) (request_task A G Z fresh) [] st [Done r1, Done r2] st' \<and> st_chain st' = c2
      \<and> any_prepared_rows (fa_b64_encode A) (st_prepared st') pid = None
      \<and> any_ledger_rows (st_ledger st') pid = Some (x402_ledger_entry (clock2 3) q2 (po_broadcast_outcome o2)))
    \<and> (\<exists>st'. interleaved (background A) (request_task A G Z fresh) [] st [Done r1, Done r2] st' \<and> st_chain st' = c2
      \<and> any_prepared_rows (fa_b64_encode A) (st_prepared st') pid = None
      \<and> any_ledger_rows (st_ledger st') pid = Some (x402_ledger_entry (clock1 3) q1 (po_broadcast_outcome o1)))"
proof -
  let ?run = "interleaved (background A) (request_task A G Z fresh) [] st"
  let ?t1 = "x402_settle_task A1 Z clock1 headers1 peer1 rq1" and ?t2 = "x402_settle_task A2 Z clock2 headers2 peer2 rq2"
  let ?w1 = "x402_recorded_task A1 clock1 rq1 q1 o1 (linked_extensions rq1 q1 o1)"
  let ?w2 = "x402_recorded_task A2 clock2 rq2 q2 o2 (linked_extensions rq2 q2 o2)"
  let ?st = "st\<lparr>st_limiter := l2, st_chain := c2\<rparr>"
  have new: "request_task A G Z fresh ?t1" "request_task A G Z fresh ?t2"
    using request_task.x402_settling undisturbed_collaborators assms(2,3) by blast+
  have "?run (([] @ [?t1]) @ [?t2]) st" by (intro interleaved.arrive interleaved.quiet new)
  then have sent: "?run [?w1, ?w2] ?st" using schedule_interleaved [OF both_broadcast [OF assms(4,5)]] by simp
  have inv: "any_prepared_inv (st_prepared ?st)" "any_ledger_inv (st_ledger ?st)" using assms(1) by (simp_all add: facility_ok_def)
  obtain s1 v1 where "x402_settle_gate (A1 1) Z rq1 (st_prepared st) = Ok (s1, Some q1, v1)"
    using assms(4) by (auto simp: ready_to_settle_def)
  then obtain e where e: "any_prepared_rows (fa_b64_encode A) (st_prepared st) pid = Some e" "fits_i64 (px_amount_zat q1)"
    using assms(1,2,6) unfolding undisturbed_def by (metis x402_linked_row)
  obtain s2 v2 where "x402_settle_gate (A2 1) Z rq2 (st_prepared st) = Ok (s2, Some q2, v2)"
    using assms(5) by (auto simp: ready_to_settle_def)
  then have fit2: "fits_i64 (px_amount_zat q2)" using assms(1,3) unfolding undisturbed_def by (metis x402_linked_row)
  note first = recorded_alone [OF assms(2) _ _ e(2), of _ o1 e clock1 rq1 "linked_extensions rq1 q1 o1", folded assms(10)]
  note second = recorded_alone [OF assms(3) _ _ fit2, of _ o2 e clock2 rq2 "linked_extensions rq2 q2 o2", folded assms(11)]
  note finish = interleaved_finish [where env = "background A" and arrival = "request_task A G Z fresh"]
  obtain sa where a: "run_alone ?w1 ?st = (r1, sa)" "st_chain sa = c2" "any_prepared_inv (st_prepared sa)" "any_ledger_inv (st_ledger sa)"
    "any_prepared_rows (fa_b64_encode A) (st_prepared sa) pid = None"
    using first [OF inv] e(1) assms(6,8) by auto
  obtain sb where b: "run_alone ?w2 sa = (r2, sb)" "st_chain sb = c2"
    "any_prepared_rows (fa_b64_encode A) (st_prepared sb) pid = None"
    "any_ledger_rows (st_ledger sb) pid = Some (x402_ledger_entry (clock2 3) q2 (po_broadcast_outcome o2))"
    using second [OF a(3,4)] a(2,5) assms(7,9) by auto
  have "?run [Done r1, ?w2] sa" using finish [OF sent, of 0 ?w1] a(1) by simp
  from finish [OF this, of 1 ?w2] have run1: "?run [Done r1, Done r2] sb" using b(1) by simp
  obtain sc where c: "run_alone ?w2 ?st = (r2, sc)" "st_chain sc = c2" "any_prepared_inv (st_prepared sc)" "any_ledger_inv (st_ledger sc)"
    "any_prepared_rows (fa_b64_encode A) (st_prepared sc) = any_prepared_rows (fa_b64_encode A) (st_prepared st)"
    using second [OF inv] assms(9) by auto
  obtain sd where d: "run_alone ?w1 sc = (r1, sd)" "st_chain sd = c2"
    "any_prepared_rows (fa_b64_encode A) (st_prepared sd) pid = None"
    "any_ledger_rows (st_ledger sd) pid = Some (x402_ledger_entry (clock1 3) q1 (po_broadcast_outcome o1))"
    using first [OF c(3,4)] c(2,5) e(1) assms(6,8) by auto
  have "?run [?w1, Done r2] sc" using finish [OF sent, of 1 ?w2] c(1) by simp
  from finish [OF this, of 0 ?w1] have "?run [Done r1, Done r2] sd" using d(1) by simp
  then show ?thesis using run1 b d by blast
qed

text \<open>The instance: the accepted payment ends up in the ledger as rejected.\<close>

definition ex_racing :: "nat \<Rightarrow> (AnyPreparedTxStore, AnySettlementLedgerStore, nat, unit, unit) Facilitator" where
  "ex_racing = (\<lambda>_. ex_facing)"

lemma ex_undisturbed: "undisturbed ex_any_facilitator ex_racing"
  unfolding undisturbed_def ex_racing_def ex_facing_def by blast

lemma ex_ready:
  "ready_to_settle ex_racing ex_pczt_lib (\<lambda>_. ex_clock) [] None ex_x402_request ex_linked (ex_outcome n) (PreparedMemory ex_cache)
    n (n + 1) (rate_limiter_new 0 0 0) (rate_limiter_new 0 0 0)"
  using ex_facing_gate ex_facing_broadcast ex_facing_free by (auto simp: ready_to_settle_def ex_racing_def)

theorem overlapping_settlements_race_witness:
  "\<exists>r1 r2 b1 st'. interleaved (background ex_any_facilitator)
      (request_task ex_any_facilitator ex_gate_config ex_pczt_lib (\<lambda>_. False)) [] ex_open_state [Done r1, Done r2] st'
    \<and> re_body r1 = X402SettleBody b1 \<and> xs_success b1 \<and> st_chain st' = 2
    \<and> any_prepared_rows ex_b64 (st_prepared st') ''id1'' = None
    \<and> any_ledger_rows (st_ledger st') ''id1'' = Some (x402_ledger_entry ex_clock ex_linked (Rejected ''Unknown: double spend''))"
proof -
  let ?r = "\<lambda>n. x402_settle_success_response ex_facing ex_x402_request (ex_outcome n) (linked_extensions ex_x402_request ex_linked (ex_outcome n))"
  have ready: "ready_to_settle ex_racing ex_pczt_lib (\<lambda>_. ex_clock) [] None ex_x402_request ex_linked (ex_outcome n)
      (st_prepared ex_open_state) n (n + 1) (st_limiter ex_open_state) (st_limiter ex_open_state)" for n
    using ex_ready by (simp add: ex_open_state_def)
  have chain: "st_chain ex_open_state = 0" by (simp add: ex_open_state_def)
  have id: "px_payment_id ex_linked = ''id1''" by (simp add: ex_linked_def)
  have out: "is_success (po_broadcast_outcome (ex_outcome 0))" "\<not> is_success (po_broadcast_outcome (ex_outcome 1))"
    "po_broadcast_outcome (ex_outcome 1) = Rejected ''Unknown: double spend''" by (simp_all add: ex_outcome_def)
  have b64: "fa_b64_encode ex_any_facilitator = ex_b64" by (simp add: ex_any_facilitator_def)
  obtain b1 where b1: "re_body (?r 0) = X402SettleBody b1" "xs_success b1"
    using out(1) by (simp add: x402_settle_success_response_def json_ok_def ex_facing_stores)
  have five: "x402_settle_success_response (ex_racing 5) = x402_settle_success_response ex_facing" by (simp add: ex_racing_def)
  note race = overlapping_settlements_race [OF ex_open_ok ex_undisturbed ex_undisturbed _ _ id id out(1,2) refl refl,
      of ex_pczt_lib "\<lambda>_. ex_clock" "[]" None ex_x402_request 1 "st_limiter ex_open_state" "\<lambda>_. ex_clock" "[]" None ex_x402_request 2
        "st_limiter ex_open_state" ex_gate_config "\<lambda>_. False", unfolded five b64 out(3)]
  show ?thesis using race ready [of 0] ready [of 1] chain b1 by (simp add: numeral_2_eq_2) blast
qed

text \<open>Two overlapping requests, the first answered while the second is in flight.\<close>

lemma ex_overlap:
  "\<exists>resp t st' e. interleaved (background ex_any_facilitator)
      (request_task ex_any_facilitator ex_gate_config ex_pczt_lib (\<lambda>_. False)) [] ex_open_state [Done resp, t] st'
    \<and> any_ledger_rows (st_ledger st') ''id1'' = Some e"
proof -
  let ?run = "interleaved (background ex_any_facilitator) (request_task ex_any_facilitator ex_gate_config ex_pczt_lib (\<lambda>_. False)) [] ex_open_state"
  let ?t = "x402_settle_task (\<lambda>_. ex_facing) ex_pczt_lib (\<lambda>_. ex_clock) [] None ex_x402_request"
  obtain resp st1 r where h: "x402_settle_handler ex_facing ex_pczt_lib ex_clock [] None ex_x402_request ex_open_state = (resp, st1)"
    and r: "re_body resp = X402SettleBody r" "xs_success r" "map_of (xs_extensions r) ''zpayLifecycleRecord'' = None"
    using ex_linked_run by blast
  have pid: "zpay_payment_id (fr_payment_requirements ex_x402_request) = Ok (Some ''id1'')"
    using ex_pid by (simp add: ex_x402_request_def)
  obtain e where e: "any_ledger_rows (st_ledger st1) ''id1'' = Some e"
    using x402_success_recorded [OF ex_open_ok pid h [unfolded ex_facing_def] r(1,2)] r(3) by metis
  have new: "request_task ex_any_facilitator ex_gate_config ex_pczt_lib (\<lambda>_. False) ?t"
    using request_task.x402_settling undisturbed_collaborators [OF ex_undisturbed [unfolded ex_racing_def]] by blast
  have "?run (([] @ [?t]) @ [?t]) ex_open_state" by (intro interleaved.arrive interleaved.quiet new)
  then have "?run [?t, ?t] ex_open_state" by simp
  from interleaved_finish [OF this, of 0 ?t] have "?run [Done resp, ?t] st1" using h by (simp add: x402_settle_task_alone)
  then show ?thesis using e by blast
qed

theorem overlapping_requests_sound_witness:
  "\<exists>resp t st' e. interleaved (background ex_any_facilitator)
      (request_task ex_any_facilitator ex_gate_config ex_pczt_lib (\<lambda>_. False)) [] ex_open_state [Done resp, t] st'
    \<and> any_ledger_rows (st_ledger st') ''id1'' = Some e \<and> backed ex_prepared e"
proof -
  let ?earlier = "\<lambda>pid prepared. pid = ''id1'' \<and> prepared = ex_prepared"
  obtain resp t st' e where run: "interleaved (background ex_any_facilitator)
      (request_task ex_any_facilitator ex_gate_config ex_pczt_lib (\<lambda>_. False)) [] ex_open_state [Done resp, t] st'"
    and e: "any_ledger_rows (st_ledger st') ''id1'' = Some e" using ex_overlap by blast
  have b: "fa_b64_encode ex_any_facilitator = ex_b64" "registry_fits (fa_payees ex_any_facilitator)"
    using ex_registry_fits by (simp_all add: ex_any_facilitator_def)
  have ok: "shared_ok (fa_b64_encode ex_any_facilitator) ?earlier (\<lambda>_. None) ex_open_state"
    using ex_cache_inv ex_cache_rows
    by (simp add: shared_ok_def ex_open_state_def cache_inv_def hm_wf_def b split: if_splits)
  have fits: "fits_i64 (pe_amount_zat ex_prepared)" by (simp add: ex_prepared_def ex_accepts_def fits_i64_def i64_max_def)
  note sound = overlapping_requests_sound [OF run ok _ _ b(2)]
  have "\<exists>prepared. issued_in ex_any_facilitator (\<lambda>_. False) ?earlier ''id1'' prepared \<and> backed prepared e"
    using sound fits e by simp
  then show ?thesis using run e by (auto simp: issued_in_def)
qed

end
