(* ===== verification/Connection.thy ===== *)
theory Connection
  imports Backends Usage_Ledger
begin

text \<open>
  The shared libSQL connection (\<open>zpay-store/src/connection.rs\<close>) as an object: the handle behind a lock, the client that is rebuilt
  when the server has dropped its stream, and the calls that retry once on the new handle.  The other theories use
  \<open>execute\<close> and \<open>query\<close> of \<open>Store_Libsql\<close>, where a fault plan says which attempts fail, without effect.  Here the libSQL
  client is a parameter, a call may fail after the server has already run the statement, and rebuilding may fail.
  A retried call amounts to \<open>execute\<close> under some fault plan when failed calls had no effect, and never applies a write
  of the stores twice even when they had.
\<close>

subsection \<open>The connection\<close>

record ('d, 'c, 'w) LibsqlLib =
  lb_build_local :: "string \<Rightarrow> 'w \<Rightarrow> (string + 'd) \<times> 'w"
  lb_build_remote :: "string \<Rightarrow> string \<Rightarrow> 'w \<Rightarrow> (string + 'd) \<times> 'w"
  lb_connect :: "'d \<Rightarrow> 'w \<Rightarrow> (string + 'c) \<times> 'w"

record 'c StoreConnection =
  sc_store_url :: string
  sc_auth_token :: "string option"
  sc_connection :: 'c

definition connect_database :: "('d, 'c, 'w) LibsqlLib \<Rightarrow> 'd \<Rightarrow> 'w \<Rightarrow> (StoreError + 'c) \<times> 'w" where
  "connect_database B database w =
    (case lb_connect B database w of
       (Inl err, w') \<Rightarrow> (Err (StoreUnavailable (''libsql connect failed: '' @ err)), w')
     | (Inr c, w') \<Rightarrow> (Ok c, w'))"

text \<open>The target of the URL is decided by \<open>build_connection\<close> of \<open>Store_Libsql\<close>.\<close>

definition open_connection :: "('d, 'c, 'w) LibsqlLib \<Rightarrow> string \<Rightarrow> string option \<Rightarrow> 'w \<Rightarrow> (StoreError + 'c) \<times> 'w" where
  "open_connection B store_url auth_token w =
    (case build_connection store_url auth_token of
       Inl e \<Rightarrow> (Err e, w)
     | Inr (LocalUrl file_path) \<Rightarrow>
       (case lb_build_local B file_path w of
          (Inl err, w') \<Rightarrow> (Err (StoreUnavailable (''libsql local builder failed for '' @ file_path @ '': '' @ err)), w')
        | (Inr database, w') \<Rightarrow> connect_database B database w')
     | Inr (RemoteUrl url token) \<Rightarrow>
       (case lb_build_remote B url token w of
          (Inl err, w') \<Rightarrow> (Err (StoreUnavailable (''libsql remote builder failed for '' @ url @ '': '' @ err)), w')
        | (Inr database, w') \<Rightarrow> connect_database B database w'))"

definition store_open :: "('d, 'c, 'w) LibsqlLib \<Rightarrow> string \<Rightarrow> string option \<Rightarrow> 'w \<Rightarrow> (StoreError + 'c StoreConnection) \<times> 'w" where
  "store_open B store_url auth_token w =
    (case open_connection B store_url auth_token w of
       (Inl e, w') \<Rightarrow> (Err e, w')
     | (Inr c, w') \<Rightarrow> (Ok \<lparr>sc_store_url = store_url, sc_auth_token = auth_token, sc_connection = c\<rparr>, w'))"

definition reconnect :: "('d, 'c, 'w) LibsqlLib \<Rightarrow> 'c StoreConnection \<Rightarrow> 'w \<Rightarrow> (StoreError + unit) \<times> 'c StoreConnection \<times> 'w" where
  "reconnect B s w =
    (case open_connection B (sc_store_url s) (sc_auth_token s) w of
       (Inl e, w') \<Rightarrow> (Err e, s, w')
     | (Inr fresh, w') \<Rightarrow> (Ok (), s\<lparr>sc_connection := fresh\<rparr>, w'))"

text \<open>A failed rebuild is logged; the old handle stays.\<close>

definition report_and_reconnect :: "('d, 'c, 'w) LibsqlLib \<Rightarrow> 'c StoreConnection \<Rightarrow> 'w \<Rightarrow> 'c StoreConnection \<times> 'w" where
  "report_and_reconnect B s w = snd (reconnect B s w)"

text \<open>The body that \<open>query\<close>, \<open>execute\<close> and \<open>execute_transactional_batch\<close> share; \<open>call\<close> is the call on a handle.\<close>

definition retry_once ::
  "('d, 'c, 'w) LibsqlLib \<Rightarrow> ('c \<Rightarrow> 'w \<Rightarrow> (string + 'a) \<times> 'w) \<Rightarrow> 'c StoreConnection \<Rightarrow> 'w \<Rightarrow> (string + 'a) \<times> 'c StoreConnection \<times> 'w" where
  "retry_once B call s w =
    (case call (sc_connection s) w of
       (Inr v, w1) \<Rightarrow> (Ok v, s, w1)
     | (Inl err, w1) \<Rightarrow>
       if is_stream_not_found err then
         (case report_and_reconnect B s w1 of (s', w2) \<Rightarrow>
            (case call (sc_connection s') w2 of (r, w3) \<Rightarrow> (r, s', w3)))
       else (Err err, s, w1))"

definition connection_query ::
  "('d, 'c, 'w) LibsqlLib \<Rightarrow> string + 'p \<Rightarrow> ('c \<Rightarrow> 'p \<Rightarrow> 'w \<Rightarrow> (string + 'a) \<times> 'w) \<Rightarrow> 'c StoreConnection \<Rightarrow> 'w
    \<Rightarrow> (string + 'a) \<times> 'c StoreConnection \<times> 'w" where
  "connection_query B params call s w =
    (case params of Inl err \<Rightarrow> (Err err, s, w) | Inr p \<Rightarrow> retry_once B (\<lambda>c. call c p) s w)"

definition connection_execute ::
  "('d, 'c, 'w) LibsqlLib \<Rightarrow> string + 'p \<Rightarrow> ('c \<Rightarrow> 'p \<Rightarrow> 'w \<Rightarrow> (string + nat) \<times> 'w) \<Rightarrow> 'c StoreConnection \<Rightarrow> 'w
    \<Rightarrow> (string + nat) \<times> 'c StoreConnection \<times> 'w" where
  "connection_execute B params call s w =
    (case params of Inl err \<Rightarrow> (Err err, s, w) | Inr p \<Rightarrow> retry_once B (\<lambda>c. call c p) s w)"

definition execute_transactional_batch ::
  "('d, 'c, 'w) LibsqlLib \<Rightarrow> ('c \<Rightarrow> 'w \<Rightarrow> (string + 'a) \<times> 'w) \<Rightarrow> 'c StoreConnection \<Rightarrow> 'w
    \<Rightarrow> (string + unit) \<times> 'c StoreConnection \<times> 'w" where
  "execute_transactional_batch B call s w = apfst (map_sum id (\<lambda>_. ())) (retry_once B call s w)"

text \<open>No retry: a transaction cannot resume on another handle.\<close>

definition transaction_with_behavior ::
  "('c \<Rightarrow> 'w \<Rightarrow> (string + 'tx) \<times> 'w) \<Rightarrow> 'c StoreConnection \<Rightarrow> 'w \<Rightarrow> (string + 'tx) \<times> 'w" where
  "transaction_with_behavior begin_on s w = begin_on (sc_connection s) w"

subsection \<open>What a call may do to the database\<close>

text \<open>\<open>db\<close> is the database in the world of the client.  A call runs its statement and reports the result, or it fails
  with some error, before or after the statement has run.  Building a client does not touch the database.\<close>

definition serves :: "('w \<Rightarrow> 'b) \<Rightarrow> ('b \<Rightarrow> (string + 'a) \<times> 'b) \<Rightarrow> ('c \<Rightarrow> 'w \<Rightarrow> (string + 'a) \<times> 'w) \<Rightarrow> bool" where
  "serves db stmt call \<longleftrightarrow> (\<forall>c w r w'. call c w = (r, w') \<longrightarrow>
     stmt (db w) = (r, db w') \<or> isl r \<and> (db w' = db w \<or> db w' = snd (stmt (db w))))"

definition loses_nothing :: "('w \<Rightarrow> 'b) \<Rightarrow> ('b \<Rightarrow> (string + 'a) \<times> 'b) \<Rightarrow> ('c \<Rightarrow> 'w \<Rightarrow> (string + 'a) \<times> 'w) \<Rightarrow> bool" where
  "loses_nothing db stmt call \<longleftrightarrow> (\<forall>c w r w'. call c w = (r, w') \<longrightarrow> stmt (db w) = (r, db w') \<or> isl r \<and> db w' = db w)"

definition builds_apart :: "('w \<Rightarrow> 'b) \<Rightarrow> ('d, 'c, 'w) LibsqlLib \<Rightarrow> bool" where
  "builds_apart db B \<longleftrightarrow> (\<forall>path w. db (snd (lb_build_local B path w)) = db w)
     \<and> (\<forall>url token w. db (snd (lb_build_remote B url token w)) = db w) \<and> (\<forall>d w. db (snd (lb_connect B d w)) = db w)"

text \<open>Running a statement a second time changes nothing.\<close>

definition absorbs :: "('b \<Rightarrow> (string + 'a) \<times> 'b) \<Rightarrow> bool" where
  "absorbs stmt \<longleftrightarrow> (\<forall>d. snd (stmt (snd (stmt d))) = snd (stmt d))"

lemma open_apart:
  assumes "builds_apart db B" "open_connection B url token w = (r, w')"
  shows "db w' = db w"
proof -
  have c: "connect_database B d w1 = (r, w2) \<Longrightarrow> db w2 = db w1" for d w1 w2
    using assms(1) by (auto simp: builds_apart_def connect_database_def split: prod.splits sum.splits) (metis snd_conv)+
  have l: "lb_build_local B path w = (x, w1) \<Longrightarrow> db w1 = db w" "lb_build_remote B u t w = (x, w1) \<Longrightarrow> db w1 = db w" for path u t x w1
    using assms(1) unfolding builds_apart_def by (metis snd_conv)+
  show ?thesis using assms(2) c l
    by (auto simp: open_connection_def split: sum.splits StoreUrl.splits prod.splits)
qed

lemma reconnect_apart:
  assumes "builds_apart db B" "report_and_reconnect B s w = (s', w')"
  shows "db w' = db w" "sc_store_url s' = sc_store_url s" "sc_auth_token s' = sc_auth_token s"
  using assms open_apart [OF assms(1), of "sc_store_url s" "sc_auth_token s" w]
  by (auto simp: report_and_reconnect_def reconnect_def split: prod.splits sum.splits)

lemma retry_once_fault_plan:
  assumes "builds_apart db B" "loses_nothing db stmt call" "retry_once B call s w = (r, s', w')"
  shows "\<exists>net. execute net 0 stmt (db w) = (r, db w')"
proof -
  have each: "\<exists>fault. (case fault of Some err \<Rightarrow> (Err err, db v) | None \<Rightarrow> stmt (db v)) = (x, db v')" if c: "call c v = (x, v')" for c v x v'
  proof (cases "stmt (db v) = (x, db v')")
    case True
    then show ?thesis by (intro exI [of _ None]) simp
  next
    case False
    then have "isl x" "db v' = db v" using assms(2) c unfolding loses_nothing_def by blast+
    then show ?thesis by (cases x) (auto intro!: exI [of _ "Some (projl x)"])
  qed
  obtain r1 w1 where first: "call (sc_connection s) w = (r1, w1)" by fastforce
  obtain f1 where f1: "(case f1 of Some err \<Rightarrow> (Err err, db w) | None \<Rightarrow> stmt (db w)) = (r1, db w1)" using each [OF first] by blast
  obtain s2 w2 where mid: "report_and_reconnect B s w1 = (s2, w2)" by fastforce
  obtain r2 w3 where second: "call (sc_connection s2) w2 = (r2, w3)" by fastforce
  obtain f2 where f2: "(case f2 of Some err \<Rightarrow> (Err err, db w2) | None \<Rightarrow> stmt (db w2)) = (r2, db w3)" using each [OF second] by blast
  have "attempt (\<lambda>k. if k = 0 then f1 else f2) 0 stmt (db w) = (r1, db w1)" using f1 by (simp add: attempt_def)
  moreover have "attempt (\<lambda>k. if k = 0 then f1 else f2) (Suc 0) stmt (db w1) = (r2, db w3)"
    using f2 reconnect_apart(1) [OF assms(1) mid] by (cases f2) (simp_all add: attempt_def)
  ultimately have "execute (\<lambda>k. if k = 0 then f1 else f2) 0 stmt (db w) = (r, db w')"
    using assms(3) first mid second by (cases r1) (auto simp: execute_def retry_once_def split: if_splits)
  then show ?thesis by blast
qed

lemma retry_once_absorbed:
  assumes "builds_apart db B" "serves db stmt call" "absorbs stmt" "retry_once B call s w = (r, s', w')"
  shows "(db w' = db w \<or> db w' = snd (stmt (db w))) \<and> (\<not> isl r \<longrightarrow> db w' = snd (stmt (db w)))"
proof -
  have each: "(db v' = db v \<or> db v' = snd (stmt (db v))) \<and> (\<not> isl x \<longrightarrow> db v' = snd (stmt (db v)))" if "call c v = (x, v')" for c v x v'
    using assms(2) that unfolding serves_def by (metis snd_conv)
  have idem: "snd (stmt (snd (stmt d))) = snd (stmt d)" for d using assms(3) by (simp add: absorbs_def)
  obtain r1 w1 where first: "call (sc_connection s) w = (r1, w1)" by fastforce
  obtain s2 w2 where mid: "report_and_reconnect B s w1 = (s2, w2)" by fastforce
  obtain r2 w3 where second: "call (sc_connection s2) w2 = (r2, w3)" by fastforce
  have "db w2 = db w1" by (rule reconnect_apart(1) [OF assms(1) mid])
  then have twice: "(db w3 = db w \<or> db w3 = snd (stmt (db w))) \<and> (\<not> isl r2 \<longrightarrow> db w3 = snd (stmt (db w)))"
    using each [OF first] each [OF second] idem by metis
  show ?thesis
  proof (cases r1)
    case (Inl err)
    then show ?thesis using assms(4) first mid second twice each [OF first] by (auto simp: retry_once_def split: if_splits)
  next
    case (Inr v)
    then show ?thesis using assms(4) first each [OF first] by (auto simp: retry_once_def)
  qed
qed

subsection \<open>The writes of the stores\<close>

lemma update_twice: "AList.update k v (AList.update k v m) = AList.update k v m"
  by (induction m) auto

lemma other_rows_update: "list_ex (\<lambda>(q, r). q \<noteq> k \<and> P r) (AList.update k v m) = list_ex (\<lambda>(q, r). q \<noteq> k \<and> P r) m"
  by (induction m) auto

lemma retain_twice: "hm_retain p (hm_retain p m) = hm_retain p m"
  by (simp add: hm_retain_def)

lemma absorbs_upsert: "absorbs (upsert_prepared pid row)"
  by (auto simp: absorbs_def upsert_prepared_def update_twice other_rows_update)

lemma absorbs_insert: "absorbs (\<lambda>t. (Ok (), hm_insert k v t))"
  by (simp add: absorbs_def update_twice)

lemma absorbs_retain: "absorbs (\<lambda>t. (Ok (f t), hm_retain p t))"
  by (simp add: absorbs_def retain_twice)

lemma absorbs_confirm: "absorbs (confirm_stmt now pid count height)"
proof -
  have "confirm_row now count height (confirm_row now count height row) = confirm_row now count height row" for row
    by (simp add: confirm_row_def split: option.split)
  then show ?thesis by (auto simp: absorbs_def confirm_stmt_def hm_simps update_twice split: option.split)
qed

lemma absorbs_downgrade: "absorbs (downgrade_stmt pid at)"
  by (auto simp: absorbs_def downgrade_stmt_def downgrade_row_def hm_simps update_twice split: option.split)

lemma absorbs_range:
  "absorbs (\<lambda>t. (Ok (map fst (filter (\<lambda>(_, row). between lo hi row) t)),
     map (\<lambda>(pid, row). (pid, if between lo hi row then downgrade_row at row else row)) t))"
proof -
  have "\<not> between lo hi (downgrade_row at row)" for row by (simp add: between_def downgrade_row_def)
  then show ?thesis by (simp add: absorbs_def split_beta)
qed

lemma absorbs_commit: "absorbs (\<lambda>t. (Ok (), hm_insert jti (commit_row ih json now (hm_get t jti)) t))"
  by (simp add: absorbs_def hm_simps commit_row_def update_twice split: option.split)

text \<open>[C20] A retried call is sound.  When failed calls had no effect, a call on the shared connection amounts to \<open>execute\<close> under some fault
  plan, whichever handle it ended on.  When a call may also fail after the server ran its statement, the
  database is still as it was or as after one run of the statement, and as after one run if the call succeeds; for
  every retried write of the prepared store, the settlement ledger and the wallet's single-use ledger is absorbed when it is
  run again (reserving a token is a transaction, which is not retried).\<close>

theorem retried_call_sound:
  assumes "builds_apart db B" "retry_once B call s w = (r, s', w')"
  shows "(loses_nothing db stmt call \<longrightarrow> (\<exists>net. execute net 0 stmt (db w) = (r, db w')))
    \<and> (serves db stmt call \<and> absorbs stmt \<longrightarrow>
        (db w' = db w \<or> db w' = snd (stmt (db w))) \<and> (\<not> isl r \<longrightarrow> db w' = snd (stmt (db w))))
    \<and> absorbs (upsert_prepared pid row) \<and> absorbs (\<lambda>t. (Ok (1 :: nat), hm_remove pid t)) \<and> absorbs (sweep_stmt now)
    \<and> absorbs (\<lambda>t. (Ok (), hm_insert pid (encode_ledger_row entry) t)) \<and> absorbs (confirm_stmt now pid count height)
    \<and> absorbs (downgrade_stmt pid now)
    \<and> absorbs (\<lambda>t. (Ok (map fst (filter (\<lambda>(_, row). between lo hi row) t)),
         map (\<lambda>(pid, row). (pid, if between lo hi row then downgrade_row now row else row)) t))
    \<and> absorbs (\<lambda>t. (Ok (), hm_insert jti (commit_row ih json now (hm_get t jti)) t))
    \<and> absorbs (\<lambda>t. (Ok (), hm_retain (\<lambda>k row. \<not> (k = jti \<and> ur_state row = ''pending'')) t))"
proof (intro conjI impI)
  show "absorbs (\<lambda>t. (Ok (1 :: nat), hm_remove pid t))" by (simp add: absorbs_def delete_idem)
  show "absorbs (sweep_stmt now)" by (simp add: absorbs_def sweep_stmt_def retain_twice Let_def)
qed (rule absorbs_upsert absorbs_insert absorbs_confirm absorbs_downgrade absorbs_range absorbs_commit absorbs_retain
    | use retry_once_fault_plan [OF assms(1) _ assms(2)] retry_once_absorbed [OF assms(1) _ _ assms(2)] in blast)+

text \<open>A server that runs the first statement and loses the reply with its stream: the client is rebuilt and the retry finds the
  row in place.  The world is the table and the number of handles handed out; handle 0 is the lost one.\<close>

definition ex_client :: "(unit, nat, PreparedTable \<times> nat) LibsqlLib" where
  "ex_client = \<lparr>lb_build_local = (\<lambda>_ w. (Ok (), w)), lb_build_remote = (\<lambda>_ _ w. (Ok (), w)),
     lb_connect = (\<lambda>_ (t, n). (Ok n, t, Suc n))\<rparr>"

definition ex_row :: PreparedRow where "ex_row = encode_row ex_prepared"

definition ex_lossy :: "nat \<Rightarrow> PreparedTable \<times> nat \<Rightarrow> (string + nat) \<times> PreparedTable \<times> nat" where
  "ex_lossy c w = (case w of (t, n) \<Rightarrow>
     (if c = 0 then Err ''stream not found'' else fst (upsert_prepared ''id1'' ex_row t), snd (upsert_prepared ''id1'' ex_row t), n))"

theorem retried_call_sound_witness:
  "\<exists>s'. retry_once ex_client ex_lossy \<lparr>sc_store_url = ''libsql://h'', sc_auth_token = Some ''k'', sc_connection = 0\<rparr> ([], 1)
      = (Ok 1, s', [(''id1'', ex_row)], 2)
    \<and> [(''id1'', ex_row)] = snd (upsert_prepared ''id1'' ex_row [])"
proof -
  let ?s = "\<lparr>sc_store_url = ''libsql://h'', sc_auth_token = Some ''k'', sc_connection = 0 :: nat\<rparr>"
  have lost: "is_stream_not_found ''stream not found''" by (simp add: is_stream_not_found_def contains_def)
  have row: "upsert_prepared ''id1'' ex_row [] = (Ok 1, [(''id1'', ex_row)])"
    "upsert_prepared ''id1'' ex_row [(''id1'', ex_row)] = (Ok 1, [(''id1'', ex_row)])" by (simp_all add: upsert_prepared_def)
  have run: "retry_once ex_client ex_lossy ?s ([], 1) = (Ok 1, ?s\<lparr>sc_connection := 1\<rparr>, [(''id1'', ex_row)], 2)"
    by (simp add: retry_once_def ex_lossy_def lost row report_and_reconnect_def reconnect_def open_connection_def build_connection_def
        connect_database_def ex_client_def)
  have apart: "builds_apart fst ex_client" by (auto simp: builds_apart_def ex_client_def)
  have srv: "serves fst (upsert_prepared ''id1'' ex_row) ex_lossy" by (auto simp: serves_def ex_lossy_def)
  have "absorbs (upsert_prepared ''id1'' ex_row)" by (rule absorbs_upsert)
  then have "[(''id1'', ex_row)] = snd (upsert_prepared ''id1'' ex_row [])"
    using retried_call_sound [OF apart run, where stmt = "upsert_prepared ''id1'' ex_row", THEN conjunct2, THEN conjunct1] srv by simp
  then show ?thesis using run by blast
qed

end
