(* ===== verification/Spec2Isabelle.thy ===== *)
theory Spec2Isabelle
  imports Service Harness_Safety Concurrent_Safety Connection
begin

text \<open>
  Verification library of zpay, a Zcash payment facilitator, of zspend, the wallet service that signs the
  payments, and of the two clients in the repository that use both, the demo gateway and the end-to-end
  validator (Rust, \<open>src/crates\<close>).

  \<^bold>\<open>The system.\<close>  An agent prepares a payment at the facilitator (\<open>POST /prepare\<close>), asks its wallet for a signed
  payload, and hands the payload back for broadcast (\<open>POST /settle\<close>, or the x402 endpoints).  The
  facilitator keeps two stores -- prepared payments, and a settlement ledger with the broadcast outcome and the
  confirmation state -- each in memory or in libSQL.  A sweeper drops expired preparations; a poll of the chain
  plane and a chain-event subscription advance ledger rows and downgrade them on reorgs; subscribers follow a
  payment over server-sent events.  The wallet verifies an access token and a DPoP proof, binds the request to the
  authorized intent, consults a revocation cache, reserves the token id in a single-use ledger, signs and commits.
  The demo gateway prepares at the facilitator, signs with its own wallet (checkout) or with a token it mints for
  the wallet service (autopay), settles over x402 and follows the status.  The validator takes the same paths once from a terminal, waits for the
  requested lifecycle state and checks the block explorer.

  \<^bold>\<open>Theories.\<close>  Names follow the source; a prefix (\<open>cache_\<close>, \<open>libsql_\<close>, \<open>any_\<close>, \<open>zspend_\<close>) tells apart
  the implementations of one trait method.

  \<^item> \<open>Prelude\<close>: results as sums, hash maps as association lists (\<open>hm_get\<close>, \<open>hm_insert\<close>), 64-bit and
    \<open>i64\<close> arithmetic, shared lemmas and the lemma collections.
  \<^item> \<open>Types\<close>, \<open>Binding\<close>: domain types, errors, chain view, payee registry; the protocol memo
    (\<open>zpay-core\<close>: \<open>types.rs\<close>, \<open>oracle.rs\<close>, \<open>chain_status.rs\<close>, \<open>broadcast.rs\<close>, \<open>accepts.rs\<close>, \<open>binding.rs\<close>).
  \<^item> \<open>Prepare\<close> (\<open>prepare.rs\<close>): \<open>propose\<close>, the trait \<open>PreparedTxStore\<close> as a record of operations with the
    locale \<open>prepared_tx_store\<close> for its laws, the in-memory store.  \<open>Status\<close> (\<open>status.rs\<close>): the ledger trait with
    the locale \<open>settlement_ledger_store\<close>, the in-memory ledger, \<open>lookup_payment_status\<close>; the locale
    \<open>payment_stores\<close> joins the two contracts.  \<open>Settle\<close> (\<open>settle.rs\<close>): \<open>submit_settlement\<close> and the PCZT verifier.
  \<^item> \<open>Store_Libsql\<close>, \<open>Ledger_Libsql\<close>, \<open>Migration\<close> (\<open>zpay-store\<close>): the connection with its retry-once rule, the row
    codecs, both stores, the migration runner and its four scripts (\<open>zpay-store/migrations\<close>).  \<open>Connection\<close> (\<open>connection.rs\<close>): the shared handle itself, rebuilt over the
    libSQL client as a parameter, where a call may fail after the server ran its statement.  \<open>Backends\<close>: the runtime's dispatch between the backends.  All
    three pairs of stores interpret the same locales, so the settle and status lemmas are proved once.
  \<^item> \<open>Rate_Limit\<close>, \<open>Dpop\<close>, \<open>Zcash_Exact\<close>, \<open>Verify\<close>, \<open>Http\<close>, \<open>Events\<close>, \<open>X402\<close> (\<open>zpay-x402\<close>, \<open>zpay-dpop\<close>,
    \<open>zpay-core/src/verify\<close>): the limiter, the DPoP verifier and its replay store (locale \<open>replay_store\<close>), the
    x402 wire types and request checks, disclosure verification, problem documents, the event hub and the
    body stream as a state machine, and every request handler.
  \<^item> \<open>Reconcile\<close>, \<open>Chain_Events\<close>, \<open>Chain_Plane\<close>, \<open>Runtime\<close> (\<open>zpay-runtime\<close>): the confirmation poll, the sweeper
    tick, the subscribe/drain/resume loop with its back-off, the chain adapters, configuration, the startup
    gates, readiness and the operator view.
  \<^item> \<open>Lifecycle\<close>: the facilitator as one step relation \<open>facility_step\<close>, with arbitrary interleavings
    \<open>facility_run\<close>.  \<open>Startup\<close>: the composition root \<open>zpay_main\<close> and \<open>build_app_router\<close>, the routes and the CORS
    policy; it gives the initial state of the runs.
  \<^item> \<open>Tasks\<close>, \<open>Concurrent\<close>, \<open>Concurrent_Safety\<close>: \<open>Lifecycle\<close> lets requests and background tasks take turns, each of them
    atomic.  In the program a handler yields at every awaited call, and no lock is held.  \<open>Tasks\<close> is the
    library of such computations (\<open>task\<close>, the relation \<open>interleaved\<close>, the executable \<open>schedule\<close>, and the rule that an invariant
    kept by every action is kept by every interleaving); \<open>Concurrent\<close> gives the prepare, settle and x402 settle handlers as tasks with
    one action per awaited call; \<open>Concurrent_Safety\<close> has the theorems over all interleavings.
  \<^item> \<open>Service\<close>: the dispatch of an HTTP request to its handler in both services (\<open>serve_app\<close>, \<open>serve_spend\<close>), the runs \<open>service_run\<close> of
    served requests and background tasks, and the wallet's entry point \<open>spend_main\<close>.
  \<^item> \<open>Zspend_Core\<close> (\<open>zspend-core\<close>), \<open>Usage_Ledger\<close>, \<open>Revocation\<close>, \<open>Sign\<close>, \<open>Sign_Safety\<close>, \<open>Zspend_Runtime\<close>
    (\<open>zspend-runtime\<close>): token, proof, intent and policy checks; the single-use ledger with the locale
    \<open>single_use_ledger\<close>; the revocation cache; the signing handler \<open>sign_payment_inner\<close> with the runs
    \<open>spend_run\<close> of the service; configuration, startup and readiness.  \<open>Wallet_Setup\<close> (\<open>init.rs\<close>, \<open>bootstrap.rs\<close>):
    provisioning of the sealed seed over a file system with permissions and faults, and opening the wallet.
  \<^item> \<open>Agent_Kit\<close> (\<open>zpay-testkit\<close>), \<open>Gateway\<close>, \<open>Gateway_Settle\<close>, \<open>Gateway_Safety\<close> (\<open>zpay-demo\<close>): proofs, tokens and
    requests of an agent; the gateway's payment table, its views and its two settlement flows as sequences of
    fallible steps (\<open>bind_step\<close>); the locale \<open>step_frame\<close> for what such sequences keep; the composition of the
    gateway with the checks of the wallet service and of the facilitator.
  \<^item> \<open>Harness\<close>, \<open>Harness_Safety\<close> (\<open>zpay-e2e\<close>): the validator's commands (\<open>run_command\<close>), its wallet flow
    \<open>run_flow\<close> with the submitter \<open>zpay_submit\<close>, its agent flow \<open>run_agent_signed_flow\<close> and its polling
    loops, where a call that never returns is the value \<open>None\<close>; when a command ends and what its time limit bounds, the chain
    of calls behind a successful run, and the composition of the submitter with the facilitator's settle handler.

  \<^bold>\<open>What is shown.\<close>  Facilitator: a retried prepare returns the original preparation until a sweep removes it; a payment settles at most once,
  only for the key that prepared it and only under an accepted proof, and is final over every run; a
  failed settlement keeps the preparation; settled status is sound and lasts until its block is reverted; reorg downgrades touch exactly
  the reverted rows; every operation of the libSQL ledger, faults included, refines the in-memory one; migrations keep the rows, and run each script
  above the first at most once; PCZT and disclosure verification accept exactly
  the payments that match; a DPoP proof binds the request and its key, and is accepted once, outside the boot window of the replay store; the limiter admits exactly its budget; the poll is a
  pointwise row function and settles what the chain has mined; the subscription applies a gap-free run of
  the event log.  Requests that overlap: the atomic runs are among the interleavings; over every interleaving the ledger rows
  stem from issued preparations, payments consumed before are final, and libSQL keeps one live preparation
  per agent and key; but two overlapping settlements of one payment do race: both can broadcast, and the order of the
  remaining calls decides which outcome is recorded.  A call retried
  on a rebuilt connection applies its statement at most once in effect.  Wallet: it acts only for an authorized payment, signs a token once, leaves in its ledger on every path what the commit and
  the release delivered, excludes concurrent reservations, fails closed on revocation, bounds a refresh, starts only in a safe
  posture, admits spends when it reports ready, and its initialization guards an existing seed.  A started
  facilitator is well formed after every run; every request its public listener serves is one of these steps or only
  reads, and the wallet's ledger changes only by its signing route.  Gateway: it records a payment as settled only when the facilitator
  said so, its signing requests pass the wallet's checks, and its x402 requests are read by the facilitator as
  exactly the prepared payment.  Validator: every command ends if its calls return, and the time limit bounds the pauses between polls but
  not a poll that hangs; a successful agent run is evidence for the whole path, call by call; and a payment relayed through the facilitator reports to the wallet what the chain plane answered.

  \<^bold>\<open>Parameters.\<close>  Code outside the repository is an argument of the definitions that use it: SHA-256, base64,
  hex, JSON, JWT and URL libraries, the transaction and PCZT parsers, ZIP-321 parsing, the disclosure
  cryptography, the wallet library, HTTP clients, the broadcast channel and the chain client.  A fault plan
  \<open>net\<close> says which attempts of a libSQL call fail, and with which error; a failed attempt has no effect on the table there, and the
  case of a lost reply is treated in \<open>Connection\<close>.  Clocks and random ids are arguments.  Named hypotheses (a decoder inverts its
  encoder, a stored value is storable) appear in the statements that use them.

  \<^bold>\<open>Bounds and fuel.\<close>  Amounts and heights are words of the width the source uses; \<open>i64\<close> values are integers with
  the saturation written out.  The paged revocation refresh recurses on the source's own page cap
  (\<open>MAX_DELTA_PAGES\<close>).  The subscription loop runs forever in the program; the model runs it along a finite
  script of the chain's answers, and the theorem holds of every script.  The validator's polling loops are partial
  functions, \<open>None\<close> where they would not return; they are proved to return whenever the clock advances and no call hangs.  All other loops are
  structural recursions over finite collections.

  \<^bold>\<open>Not modelled.\<close>  The web framework's matching and extraction are parameters of \<open>Service\<close>.  Locks around single calls, listeners, signals, tracing, metrics and the sleeping of interval loops are
  process I/O around the modelled operations.  SQL is modelled by its effect: a migration script as a transaction on the
  columns and rows of the ledger, every other statement by the store operation that executes it.  \<open>capability.rs\<close> and the crate roots are constants and module declarations.
\<close>

end
